(* ===== verification/Prelude.thy ===== *)
theory Prelude
  imports Main "HOL-Library.Word"
begin

text \<open>
  Shared material of the development: the named fact collections, the Go string and integer
  operations the gateway uses (package \<open>strings\<close>, the \<open>%d\<close> and \<open>%02d\<close> verbs of \<open>fmt\<close>,
  64-bit two's complement arithmetic, truncated division), and the lemmas on them and on lists
  and options that the component theories use.

  A Go string is a byte sequence, modelled as \<^typ>\<open>string\<close>. \<open>ToLower\<close> and \<open>TrimSpace\<close> are
  modelled on ASCII (the letters A-Z, and the six ASCII white-space bytes), which is what the
  header values, provider and model names they are applied to consist of.
\<close>

named_theorems go_defs \<open>definitions of the Go library operations\<close>
named_theorems go_simps \<open>rewrite rules on the Go library operations\<close>

type_synonym ('e, 'a) result = "'e + 'a"

section \<open>Strings\<close>

definition strings_HasPrefix :: "string \<Rightarrow> string \<Rightarrow> bool" where
  "strings_HasPrefix s p \<longleftrightarrow> take (length p) s = p"

definition strings_TrimPrefix :: "string \<Rightarrow> string \<Rightarrow> string" where
  "strings_TrimPrefix s p = (if strings_HasPrefix s p then drop (length p) s else s)"

fun strings_Contains :: "string \<Rightarrow> string \<Rightarrow> bool" where
  "strings_Contains [] p = (p = [])"
| "strings_Contains (c # cs) p = (strings_HasPrefix (c # cs) p \<or> strings_Contains cs p)"

definition lower_char :: "char \<Rightarrow> char" where
  "lower_char c = (let n = of_char c :: nat in if 65 \<le> n \<and> n \<le> 90 then char_of (n + 32) else c)"

definition strings_ToLower :: "string \<Rightarrow> string" where
  "strings_ToLower s = map lower_char s"

definition is_space :: "char \<Rightarrow> bool" where
  "is_space c = (let n = of_char c :: nat in n = 32 \<or> (9 \<le> n \<and> n \<le> 13))"

definition strings_TrimSpace :: "string \<Rightarrow> string" where
  "strings_TrimSpace s = rev (dropWhile is_space (rev (dropWhile is_space s)))"

section \<open>Scanning of integers\<close>

definition is_digit :: "char \<Rightarrow> bool" where
  "is_digit c = (let n = of_char c :: nat in 48 \<le> n \<and> n \<le> 57)"

definition digits_val :: "string \<Rightarrow> int" where
  "digits_val ds = fold (\<lambda>c n. 10 * n + (of_char c - 48)) ds 0"

text \<open>\<open>fmt.Sscanf(s, "%d", &n)\<close> for an unsigned \<open>n\<close>: leading blanks, then the longest run of digits; an error
  when there is none, at a line break, or when the number does not fit.\<close>

definition scan_uint :: "string \<Rightarrow> nat option" where
  "scan_uint s =
     (let ds = takeWhile is_digit (dropWhile (\<lambda>c. is_space c \<and> c \<noteq> CHR 0x0A) s)
      in if ds = [] \<or> 2 ^ 64 \<le> digits_val ds then None else Some (nat (digits_val ds)))"

section \<open>Formatting of integers\<close>

definition digit_char :: "nat \<Rightarrow> char" where
  "digit_char n = char_of (48 + n)"

fun show_nat :: "nat \<Rightarrow> string" where
  "show_nat n = (if n < 10 then [digit_char n] else show_nat (n div 10) @ [digit_char (n mod 10)])"

definition show_int :: "int \<Rightarrow> string" where
  "show_int i = (if i < 0 then CHR ''-'' # show_nat (nat (- i)) else show_nat (nat i))"

definition pad2 :: "int \<Rightarrow> string" where
  "pad2 i = (if 0 \<le> i \<and> i < 10 then CHR ''0'' # show_int i else show_int i)"

section \<open>Machine integers\<close>

definition wrap64 :: "int \<Rightarrow> int" where
  "wrap64 x = (x + 2 ^ 63) mod 2 ^ 64 - 2 ^ 63"

definition int64_range :: "int \<Rightarrow> bool" where
  "int64_range x \<longleftrightarrow> - (2 ^ 63) \<le> x \<and> x < 2 ^ 63"

definition quot :: "int \<Rightarrow> int \<Rightarrow> int" where
  "quot a b = sgn a * sgn b * (\<bar>a\<bar> div \<bar>b\<bar>)"

definition grem :: "int \<Rightarrow> int \<Rightarrow> int" where
  "grem a b = a - b * quot a b"

declare show_nat.simps [simp del]

section \<open>Lemmas on the Go operations\<close>

lemmas [go_defs] = strings_HasPrefix_def strings_TrimPrefix_def strings_ToLower_def
  strings_TrimSpace_def

lemma HasPrefix_append [simp]: "strings_HasPrefix (p @ s) p"
  by (simp add: strings_HasPrefix_def)

lemma HasPrefix_Nil [simp]: "strings_HasPrefix s []"
  by (simp add: strings_HasPrefix_def)

lemma HasPrefix_iff: "strings_HasPrefix s p \<longleftrightarrow> (\<exists>t. s = p @ t)"
  by (metis HasPrefix_append append_take_drop_id strings_HasPrefix_def)

lemma HasPrefix_trans:
  "strings_HasPrefix s p \<Longrightarrow> strings_HasPrefix p q \<Longrightarrow> strings_HasPrefix s q"
  by (auto simp: HasPrefix_iff)

lemma TrimPrefix_append [simp]: "strings_TrimPrefix (p @ s) p = s"
  by (simp add: strings_TrimPrefix_def)

lemma Contains_iff: "strings_Contains s p \<longleftrightarrow> (\<exists>a b. s = a @ p @ b)"
proof (induction s)
  case Nil
  then show ?case by auto
next
  case (Cons c cs)
  show ?case
  proof
    assume "strings_Contains (c # cs) p"
    then consider "strings_HasPrefix (c # cs) p" | "strings_Contains cs p" by auto
    then show "\<exists>a b. c # cs = a @ p @ b"
    proof cases
      case 1
      then obtain t where "c # cs = [] @ p @ t" by (auto simp: HasPrefix_iff)
      then show ?thesis by blast
    next
      case 2
      then obtain a b where "cs = a @ p @ b" using Cons.IH by blast
      then have "c # cs = (c # a) @ p @ b" by simp
      then show ?thesis by blast
    qed
  next
    assume "\<exists>a b. c # cs = a @ p @ b"
    then obtain a b where ab: "c # cs = a @ p @ b" by blast
    show "strings_Contains (c # cs) p"
    proof (cases a)
      case Nil
      with ab have "strings_HasPrefix (c # cs) p" by (simp add: HasPrefix_iff)
      then show ?thesis by simp
    next
      case (Cons d a')
      with ab have "cs = a' @ p @ b" by simp
      then show ?thesis using Cons.IH by auto
    qed
  qed
qed

lemma split_at_sep:
  "a @ c # x = b @ c # y \<Longrightarrow> c \<notin> set a \<Longrightarrow> c \<notin> set b \<Longrightarrow> a = b \<and> x = y"
proof (induction a arbitrary: b)
  case Nil
  then show ?case by (cases b) auto
next
  case (Cons d a)
  then show ?case by (cases b) auto
qed

lemma find_SomeD: "find P xs = Some x \<Longrightarrow> x \<in> set xs \<and> P x"
  by (induction xs) (auto split: if_splits)

section \<open>Lemmas on formatting\<close>

lemma of_digit_char [simp]: "n < 10 \<Longrightarrow> of_char (digit_char n) = 48 + n"
  by (simp add: digit_char_def)

lemma digit_char_inj: "m < 10 \<Longrightarrow> n < 10 \<Longrightarrow> digit_char m = digit_char n \<Longrightarrow> m = n"
  by (metis of_digit_char add_left_imp_eq)

lemma show_nat_digits: "c \<in> set (show_nat n) \<Longrightarrow> \<exists>d < 10. c = digit_char d"
proof (induction n rule: show_nat.induct)
  case (1 n)
  show ?case
  proof (cases "n < 10")
    case True
    with 1 show ?thesis by (auto simp: show_nat.simps [of n])
  next
    case False
    have "n mod 10 < 10" by simp
    then have "\<exists>d < 10. digit_char (n mod 10) = digit_char d" by blast
    with False 1 show ?thesis by (auto simp: show_nat.simps [of n])
  qed
qed

lemma show_nat_not_Nil [simp]: "show_nat n \<noteq> []"
  by (simp add: show_nat.simps [of n])

lemma digit_char_bounds:
  assumes "d < 10"
  shows "48 \<le> (of_char (digit_char d) :: nat)" "(of_char (digit_char d) :: nat) \<le> 57"
  using assms by simp_all

lemma show_nat_notin:
  assumes "(of_char c :: nat) < 48 \<or> 57 < (of_char c :: nat)"
  shows "c \<notin> set (show_nat n)"
  using assms digit_char_bounds show_nat_digits by fastforce

lemma show_nat_no_colon [simp]: "CHR '':'' \<notin> set (show_nat n)"
  and show_nat_no_dash [simp]: "CHR ''-'' \<notin> set (show_nat n)"
  and show_nat_no_w [simp]: "CHR ''w'' \<notin> set (show_nat n)"
  and show_nat_no_k [simp]: "CHR ''k'' \<notin> set (show_nat n)"
  by (rule show_nat_notin; simp)+

lemma show_nat_inj: "show_nat m = show_nat n \<Longrightarrow> m = n"
proof (induction m arbitrary: n rule: show_nat.induct)
  case (1 m)
  show ?case
  proof (cases "m < 10")
    case True
    then have m: "show_nat m = [digit_char m]" by (simp add: show_nat.simps [of m])
    show ?thesis
    proof (cases "n < 10")
      case True
      with m 1 \<open>m < 10\<close> show ?thesis
        by (auto simp: show_nat.simps [of n] intro: digit_char_inj)
    next
      case False
      with m 1 show ?thesis by (auto simp: show_nat.simps [of n] append_eq_Cons_conv)
    qed
  next
    case False
    then have m: "show_nat m = show_nat (m div 10) @ [digit_char (m mod 10)]"
      by (simp add: show_nat.simps [of m])
    show ?thesis
    proof (cases "n < 10")
      case True
      then have n: "show_nat n = [digit_char n]" by (simp add: show_nat.simps [of n])
      from m n 1 have "show_nat (m div 10) = []" by auto
      then show ?thesis by simp
    next
      case n: False
      then have "show_nat n = show_nat (n div 10) @ [digit_char (n mod 10)]"
        by (simp add: show_nat.simps [of n])
      with m 1 have "show_nat (m div 10) = show_nat (n div 10)"
        and d: "digit_char (m mod 10) = digit_char (n mod 10)" by simp_all
      then have "m div 10 = n div 10" using False 1 by blast
      moreover have "m mod 10 = n mod 10" using d by (auto intro: digit_char_inj)
      ultimately show ?thesis by (metis div_mult_mod_eq)
    qed
  qed
qed

lemma show_int_inj: "show_int i = show_int j \<Longrightarrow> i = j"
proof -
  assume eq: "show_int i = show_int j"
  have *: "CHR ''-'' # show_nat a \<noteq> show_nat b" for a b
    by (metis list.set_intros(1) show_nat_no_dash)
  show "i = j"
    using eq * *[symmetric] by (auto simp: show_int_def dest!: show_nat_inj split: if_splits)
qed

lemma pad2_no_colon [simp]: "CHR '':'' \<notin> set (pad2 i)"
  and show_int_no_colon [simp]: "CHR '':'' \<notin> set (show_int i)"
  and show_int_no_w [simp]: "CHR ''w'' \<notin> set (show_int i)"
  by (auto simp: pad2_def show_int_def)

lemma show_int_no_dash [simp]: "0 \<le> i \<Longrightarrow> CHR ''-'' \<notin> set (show_int i)"
  and pad2_no_dash [simp]: "0 \<le> i \<Longrightarrow> CHR ''-'' \<notin> set (pad2 i)"
  by (auto simp: pad2_def show_int_def)

section \<open>Lemmas on machine integers\<close>

lemma wrap64_id [simp]: "int64_range x \<Longrightarrow> wrap64 x = x"
  by (simp add: int64_range_def wrap64_def)

lemma wrap64_range [simp]: "int64_range (wrap64 x)"
  by (simp add: int64_range_def wrap64_def)

lemma wrap64_sint: "wrap64 x = sint (word_of_int x :: 64 word)"
  by (simp add: wrap64_def sint_uint signed_take_bit_eq_take_bit_shift take_bit_eq_mod
      uint_word_of_int) presburger

lemma quot_nonneg [simp]: "0 \<le> a \<Longrightarrow> 0 < b \<Longrightarrow> quot a b = a div b"
  by (cases "a = 0") (simp_all add: quot_def)

section \<open>Tables\<close>

lemma find_snoc: "(\<And>x. x \<in> set xs \<Longrightarrow> \<not> P x) \<Longrightarrow> P y \<Longrightarrow> find P (xs @ [y]) = Some y"
  by (induction xs) auto

lemma find_fresh_key: "k \<notin> set (map f xs) \<Longrightarrow> f y = k \<Longrightarrow> find (\<lambda>x. f x = k) (xs @ [y]) = Some y"
  by (rule find_snoc) (auto intro: rev_image_eqI)

lemma find_append_Some: "find P xs = Some y \<Longrightarrow> find P (xs @ ys) = Some y"
  by (induction xs) auto

lemma find_map_if: "(\<And>x. P (f x) = P x) \<Longrightarrow> find P (map f xs) = map_option f (find P xs)"
  by (induction xs) auto

section \<open>State machines\<close>

text \<open>The states that a transition relation reaches, and the proof principle for invariants that
  every state machine of the development is an instance of.\<close>

inductive reachable :: "('s \<Rightarrow> bool) \<Rightarrow> ('s \<Rightarrow> 's \<Rightarrow> bool) \<Rightarrow> 's \<Rightarrow> bool" for start step where
  reachable_start: "start s \<Longrightarrow> reachable start step s"
| reachable_step: "reachable start step s \<Longrightarrow> step s s' \<Longrightarrow> reachable start step s'"

locale inductive_invariant =
  fixes start :: "'s \<Rightarrow> bool" and step :: "'s \<Rightarrow> 's \<Rightarrow> bool" and inv :: "'s \<Rightarrow> bool"
  assumes holds_at_start: "start s \<Longrightarrow> inv s"
    and kept_by_step: "inv s \<Longrightarrow> step s s' \<Longrightarrow> inv s'"
begin

lemma holds_when_reachable: "reachable start step s \<Longrightarrow> inv s"
  by (induction rule: reachable.induct) (auto intro: holds_at_start kept_by_step)

end

end
