(* ===== verification/Models.thy ===== *)
theory Models
  imports Prelude
begin

text \<open>
  The data model (\<open>internal/models\<close>): the rows the gateway reads and writes as records, the
  string constants, and the functions on them: role levels, the valid combinations of
  authentication method and billing mode, key masking, and the plan tiers with their limits.

  A nullable column or pointer field is an option; \<open>uint\<close> ids are \<^typ>\<open>nat\<close>; times are
  nanoseconds (\<^typ>\<open>int\<close>) from the zero time of Go.
\<close>

section \<open>Constants\<close>

abbreviation "RoleOwner \<equiv> ''owner''"
abbreviation "RoleAdmin \<equiv> ''admin''"
abbreviation "RoleEditor \<equiv> ''editor''"
abbreviation "RoleViewer \<equiv> ''viewer''"

abbreviation "ProjectRoleAdmin \<equiv> ''project_admin''"
abbreviation "ProjectRoleEditor \<equiv> ''project_editor''"
abbreviation "ProjectRoleViewer \<equiv> ''project_viewer''"

abbreviation "StatusActive \<equiv> ''active''"
abbreviation "StatusSuspended \<equiv> ''suspended''"
abbreviation "StatusPending \<equiv> ''pending''"

abbreviation "PlanFree \<equiv> ''free''"
abbreviation "PlanPro \<equiv> ''pro''"
abbreviation "PlanTeam \<equiv> ''team''"
abbreviation "PlanBusiness \<equiv> ''business''"

abbreviation "AuthMethodBrowserOAuth \<equiv> ''BROWSER_OAUTH''"
abbreviation "AuthMethodBYOK \<equiv> ''BYOK''"
abbreviation "BillingModeMonthlySubscription \<equiv> ''MONTHLY_SUBSCRIPTION''"
abbreviation "BillingModeAPIUsage \<equiv> ''API_USAGE''"

section \<open>Rows\<close>

record Tenant =
  ten_ID :: nat
  ten_Name :: string
  ten_Status :: string
  ten_Plan :: string
  ten_DefaultProjectID :: "nat option"
  ten_StripeCustomerID :: string
  ten_StripeSubscriptionID :: string
  ten_PlanStatus :: string
  ten_CurrentPeriodEnd :: "int option"
  ten_BillingEmail :: string
  ten_PendingPlan :: string
  ten_PlanEffectiveAt :: "int option"
  ten_CreatedAt :: int

record User =
  usr_ID :: string
  usr_Email :: string
  usr_Name :: string
  usr_Status :: string
  usr_DismissedIntegrationHint :: bool
  usr_DismissedAvatarHint :: bool
  usr_CreatedAt :: int

record TenantMembership =
  tm_TenantID :: nat
  tm_UserID :: string
  tm_OrgRole :: string
  tm_Status :: string
  tm_CreatedAt :: int
  tm_UpdatedAt :: int

record ProjectMembership =
  pm_ProjectID :: nat
  pm_UserID :: string
  pm_ProjectRole :: string
  pm_CreatedAt :: int
  pm_UpdatedAt :: int

record APIKey =
  ak_ID :: nat
  ak_TenantID :: nat
  ak_ProjectID :: nat
  ak_KeyID :: string
  ak_Label :: string
  ak_Salt :: string
  ak_SecretHash :: string
  ak_Scopes :: "string list"
  ak_Provider :: string
  ak_AuthMethod :: string
  ak_BillingMode :: string
  ak_ModelAllowlist :: "string option"
  ak_CreatedByUserID :: string
  ak_Revoked :: bool
  ak_ExpiresAt :: "int option"
  ak_LastSeenAt :: "int option"
  ak_CreatedAt :: int

section \<open>Roles, billing modes, masking\<close>

definition RoleLevel :: "string \<Rightarrow> int" where
  "RoleLevel role =
     (if role = RoleOwner then 4 else if role = RoleAdmin then 3
      else if role = RoleEditor then 2 else if role = RoleViewer then 1 else 0)"

definition ProjectRoleLevel :: "string \<Rightarrow> int" where
  "ProjectRoleLevel role =
     (if role = ProjectRoleAdmin then 3 else if role = ProjectRoleEditor then 2
      else if role = ProjectRoleViewer then 1 else 0)"

definition User_IsActive :: "User \<Rightarrow> bool" where
  "User_IsActive u \<longleftrightarrow> usr_Status u = StatusActive"

definition ValidAuthBillingCombo :: "string \<Rightarrow> string \<Rightarrow> string \<Rightarrow> bool" where
  "ValidAuthBillingCombo provider authMethod billingMode =
     (if provider \<noteq> ''anthropic'' \<and> provider \<noteq> ''openai'' then False
      else if authMethod \<noteq> AuthMethodBrowserOAuth \<and> authMethod \<noteq> AuthMethodBYOK then False
      else if billingMode \<noteq> BillingModeMonthlySubscription \<and> billingMode \<noteq> BillingModeAPIUsage
        then False
      else if authMethod = AuthMethodBYOK \<and> billingMode = BillingModeMonthlySubscription
        then False
      else True)"

definition IsBillableMode :: "string \<Rightarrow> bool" where
  "IsBillableMode billingMode \<longleftrightarrow> billingMode = BillingModeAPIUsage"

definition MaskKey :: "string \<Rightarrow> string" where
  "MaskKey key =
     (if key = [] then []
      else if length key \<ge> 22 then take 15 key @ ''...'' @ drop (length key - 4) key
      else if length key \<le> 8 then take 1 key @ ''...'' @ drop (length key - 1) key
      else take 4 key @ ''...'' @ drop (length key - 4) key)"

section \<open>Plan tiers\<close>

record PlanLimits =
  MaxAPIKeys :: int
  MaxProviderKeys :: int
  MaxMembers :: int
  MaxProjects :: int
  AllowedPeriods :: "string list"
  AllowBlockAction :: bool
  AllowPerKeyBudget :: bool
  DataRetentionDays :: int
  AllowRateLimits :: bool
  AllowPerKeyRateLimit :: bool
  AllowExport :: bool
  MaxBudgetLimits :: int
  MaxRateLimits :: int
  MaxNotificationChannels :: int

definition free_limits :: PlanLimits where
  "free_limits = \<lparr>MaxAPIKeys = 1, MaxProviderKeys = 1, MaxMembers = 1, MaxProjects = 1,
     AllowedPeriods = [''monthly'', ''weekly'', ''daily''], AllowBlockAction = True,
     AllowPerKeyBudget = False, DataRetentionDays = 7, AllowRateLimits = True,
     AllowPerKeyRateLimit = False, AllowExport = False, MaxBudgetLimits = 1,
     MaxRateLimits = 1, MaxNotificationChannels = 1\<rparr>"

definition pro_limits :: PlanLimits where
  "pro_limits = \<lparr>MaxAPIKeys = 5, MaxProviderKeys = 3, MaxMembers = 1, MaxProjects = 3,
     AllowedPeriods = [''monthly'', ''weekly'', ''daily''], AllowBlockAction = True,
     AllowPerKeyBudget = False, DataRetentionDays = 90, AllowRateLimits = True,
     AllowPerKeyRateLimit = False, AllowExport = True, MaxBudgetLimits = 5,
     MaxRateLimits = 5, MaxNotificationChannels = 5\<rparr>"

definition team_limits :: PlanLimits where
  "team_limits = \<lparr>MaxAPIKeys = 20, MaxProviderKeys = 10, MaxMembers = 10, MaxProjects = 10,
     AllowedPeriods = [''monthly'', ''weekly'', ''daily''], AllowBlockAction = True,
     AllowPerKeyBudget = True, DataRetentionDays = 180, AllowRateLimits = True,
     AllowPerKeyRateLimit = True, AllowExport = True, MaxBudgetLimits = 20,
     MaxRateLimits = 20, MaxNotificationChannels = 20\<rparr>"

definition business_limits :: PlanLimits where
  "business_limits = \<lparr>MaxAPIKeys = 200, MaxProviderKeys = 50, MaxMembers = -1, MaxProjects = -1,
     AllowedPeriods = [''monthly'', ''weekly'', ''daily''], AllowBlockAction = True,
     AllowPerKeyBudget = True, DataRetentionDays = -1, AllowRateLimits = True,
     AllowPerKeyRateLimit = True, AllowExport = True, MaxBudgetLimits = 100,
     MaxRateLimits = 100, MaxNotificationChannels = 100\<rparr>"

definition planLimitsMap :: "string \<rightharpoonup> PlanLimits" where
  "planLimitsMap = map_of
     [(PlanFree, free_limits), (PlanPro, pro_limits), (PlanTeam, team_limits),
      (PlanBusiness, business_limits)]"

definition GetPlanLimits :: "string \<Rightarrow> PlanLimits" where
  "GetPlanLimits plan = (case planLimitsMap plan of Some lim \<Rightarrow> lim | None \<Rightarrow> free_limits)"

definition ValidPlan :: "string \<Rightarrow> bool" where
  "ValidPlan plan \<longleftrightarrow> planLimitsMap plan \<noteq> None"

definition AllPlans :: "string list" where
  "AllPlans = [PlanFree, PlanPro, PlanTeam, PlanBusiness]"

definition PlanLevel :: "string \<Rightarrow> int" where
  "PlanLevel plan =
     (if plan = PlanFree then 0 else if plan = PlanPro then 1
      else if plan = PlanTeam then 2 else if plan = PlanBusiness then 3 else 0)"

definition IsUpgrade :: "string \<Rightarrow> string \<Rightarrow> bool" where
  "IsUpgrade currentPlan newPlan \<longleftrightarrow> PlanLevel newPlan > PlanLevel currentPlan"

definition IsDowngrade :: "string \<Rightarrow> string \<Rightarrow> bool" where
  "IsDowngrade currentPlan newPlan \<longleftrightarrow> PlanLevel newPlan < PlanLevel currentPlan"

section \<open>The order on plan limits\<close>

text \<open>\<open>-1\<close> stands for unlimited; a flag may only be switched on by a higher tier.\<close>

definition lim_le :: "int \<Rightarrow> int \<Rightarrow> bool" where
  "lim_le a b \<longleftrightarrow> b = -1 \<or> (a \<noteq> -1 \<and> a \<le> b)"

definition limit_numbers :: "PlanLimits \<Rightarrow> int list" where
  "limit_numbers p = [MaxAPIKeys p, MaxProviderKeys p, MaxMembers p, MaxProjects p,
     DataRetentionDays p, MaxBudgetLimits p, MaxRateLimits p, MaxNotificationChannels p]"

definition limit_flags :: "PlanLimits \<Rightarrow> bool list" where
  "limit_flags p = [AllowBlockAction p, AllowPerKeyBudget p, AllowRateLimits p,
     AllowPerKeyRateLimit p, AllowExport p]"

definition limits_le :: "PlanLimits \<Rightarrow> PlanLimits \<Rightarrow> bool" where
  "limits_le p q \<longleftrightarrow> list_all2 lim_le (limit_numbers p) (limit_numbers q) \<and>
     list_all2 (\<longrightarrow>) (limit_flags p) (limit_flags q) \<and>
     set (AllowedPeriods p) \<subseteq> set (AllowedPeriods q)"

text \<open>The number of characters of a key that its mask shows.\<close>

definition mask_shown :: "string \<Rightarrow> nat" where
  "mask_shown key = (if length key \<ge> 22 then 19 else if length key \<le> 8 then 2 else 8)"

section \<open>Lemmas\<close>

lemma plan_cases:
  obtains "plan = PlanFree" | "plan = PlanPro" | "plan = PlanTeam" | "plan = PlanBusiness"
  | "plan \<notin> {PlanFree, PlanPro, PlanTeam, PlanBusiness}"
  by blast

lemma GetPlanLimits_unknown:
  "plan \<notin> {PlanFree, PlanPro, PlanTeam, PlanBusiness} \<Longrightarrow> GetPlanLimits plan = free_limits"
  by (simp add: GetPlanLimits_def planLimitsMap_def)

lemma PlanLevel_unknown:
  "plan \<notin> {PlanFree, PlanPro, PlanTeam, PlanBusiness} \<Longrightarrow> PlanLevel plan = 0"
  by (simp add: PlanLevel_def)

lemma lim_le_refl [simp]: "lim_le a a" and limits_le_refl [simp]: "limits_le p p"
  by (simp_all add: lim_le_def limits_le_def list.rel_refl)

lemma GetPlanLimits_simps [simp]:
  "GetPlanLimits PlanFree = free_limits" "GetPlanLimits PlanPro = pro_limits"
  "GetPlanLimits PlanTeam = team_limits" "GetPlanLimits PlanBusiness = business_limits"
  by (simp_all add: GetPlanLimits_def planLimitsMap_def)

lemma PlanLevel_simps [simp]:
  "PlanLevel PlanFree = 0" "PlanLevel PlanPro = 1" "PlanLevel PlanTeam = 2"
  "PlanLevel PlanBusiness = 3"
  by (simp_all add: PlanLevel_def)

lemma lim_le_transp: "transp lim_le" and imp_transp: "transp (\<longrightarrow>)"
  by (auto simp: transp_def lim_le_def)

lemma limits_le_trans:
  assumes "limits_le p q" and "limits_le q r"
  shows "limits_le p r"
proof -
  note tn = transpD [OF list.rel_transp [OF lim_le_transp]]
  note tf = transpD [OF list.rel_transp [OF imp_transp]]
  from assms have
    "list_all2 lim_le (limit_numbers p) (limit_numbers q)"
    "list_all2 lim_le (limit_numbers q) (limit_numbers r)"
    "list_all2 (\<longrightarrow>) (limit_flags p) (limit_flags q)"
    "list_all2 (\<longrightarrow>) (limit_flags q) (limit_flags r)"
    "set (AllowedPeriods p) \<subseteq> set (AllowedPeriods r)"
    unfolding limits_le_def by blast+
  with tn [of "limit_numbers p" "limit_numbers q" "limit_numbers r"]
    tf [of "limit_flags p" "limit_flags q" "limit_flags r"]
  show ?thesis unfolding limits_le_def by blast
qed

lemma limits_le_steps [simp]:
  "limits_le free_limits pro_limits" "limits_le pro_limits team_limits"
  "limits_le team_limits business_limits"
  by (simp_all add: limits_le_def lim_le_def limit_numbers_def limit_flags_def free_limits_def
      pro_limits_def team_limits_def business_limits_def)

lemma ValidPlan_iff: "ValidPlan plan \<longleftrightarrow> plan \<in> set AllPlans"
  by (simp add: ValidPlan_def planLimitsMap_def AllPlans_def)

lemma limits_le_plans:
  assumes "PlanLevel p \<le> PlanLevel q" "p \<in> set AllPlans" "q \<in> set AllPlans"
  shows "limits_le (GetPlanLimits p) (GetPlanLimits q)"
proof -
  note tr = limits_le_trans [OF limits_le_steps(1,2)] limits_le_trans [OF limits_le_steps(2,3)]
  note tr3 = limits_le_trans [OF tr(1) limits_le_steps(3)]
  from assms have "p = PlanFree \<or> p = PlanPro \<or> p = PlanTeam \<or> p = PlanBusiness"
    and "q = PlanFree \<or> q = PlanPro \<or> q = PlanTeam \<or> q = PlanBusiness"
    by (simp_all add: AllPlans_def)
  with assms(1) show ?thesis by (elim disjE) (simp_all add: tr tr3)
qed

lemma plan_as_known:
  "\<exists>q \<in> set AllPlans. PlanLevel plan = PlanLevel q \<and> GetPlanLimits plan = GetPlanLimits q"
proof (cases "plan \<in> set AllPlans")
  case False
  then have u: "plan \<notin> {PlanFree, PlanPro, PlanTeam, PlanBusiness}" by (simp add: AllPlans_def)
  have "PlanLevel plan = PlanLevel PlanFree" "GetPlanLimits plan = GetPlanLimits PlanFree"
    using PlanLevel_unknown [OF u] GetPlanLimits_unknown [OF u] by simp_all
  then show ?thesis by (auto simp: AllPlans_def)
qed blast

section \<open>Properties\<close>

text \<open>A plan of a higher or equal tier never restricts more: every numeric limit, allowed
  period and feature flag of the lower tier is still available on the higher one. Unknown plan
  names count as Free on both sides.\<close>

theorem plan_limits_monotone:
  "PlanLevel p \<le> PlanLevel q \<Longrightarrow> limits_le (GetPlanLimits p) (GetPlanLimits q)"
  using plan_as_known [of p] plan_as_known [of q] limits_le_plans by metis

theorem plan_limits_monotone_witness:
  "PlanLevel ''pro'' \<le> PlanLevel ''business'' \<and>
   limits_le (GetPlanLimits ''pro'') (GetPlanLimits ''business'')"
proof -
  have h: "PlanLevel ''pro'' \<le> PlanLevel ''business''" by (simp add: PlanLevel_def)
  show ?thesis using h plan_limits_monotone [OF h] by simp
qed

text \<open>The mask of a key never shows the whole key once the key has three or more
  characters: it consists of a prefix and a suffix of the key around an ellipsis, and the number
  of characters shown is smaller than the length of the key; the mask is at most 22 characters
  long, so it fits the 30-character column it is stored in.\<close>

theorem MaskKey_hides:
  assumes "3 \<le> length key"
  shows "\<exists>a b. MaskKey key = take a key @ ''...'' @ drop (length key - b) key \<and>
    a + b = mask_shown key \<and> a + b < length key \<and> length (MaskKey key) \<le> 22"
proof -
  let ?a = "if length key \<ge> 22 then 15 else if length key \<le> 8 then 1 else 4 :: nat"
  let ?b = "if length key \<le> 8 then 1 else 4 :: nat"
  have "MaskKey key = take ?a key @ ''...'' @ drop (length key - ?b) key"
    using assms by (auto simp: MaskKey_def)
  moreover have "?a + ?b = mask_shown key" "mask_shown key < length key"
    using assms by (simp_all add: mask_shown_def)
  moreover have "length (MaskKey key) \<le> 22" by (auto simp: MaskKey_def min_def)
  ultimately show ?thesis by metis
qed

theorem MaskKey_hides_witness:
  "3 \<le> length ''sk-ant-api03-9gqXYZ'' \<and>
   (\<exists>a b. MaskKey ''sk-ant-api03-9gqXYZ'' =
        take a ''sk-ant-api03-9gqXYZ'' @ ''...'' @ drop (length ''sk-ant-api03-9gqXYZ'' - b) ''sk-ant-api03-9gqXYZ'' \<and>
     a + b = mask_shown ''sk-ant-api03-9gqXYZ'' \<and> a + b < length ''sk-ant-api03-9gqXYZ'' \<and>
     length (MaskKey ''sk-ant-api03-9gqXYZ'') \<le> 22)"
proof -
  have h: "3 \<le> length ''sk-ant-api03-9gqXYZ''" by simp
  show ?thesis using h MaskKey_hides [OF h] by blast
qed

end
