(* ===== verification/Authz.thy ===== *)
theory Authz
  imports Models
begin

text \<open>
  Authorization (\<open>internal/authz\<close>) and the role gates of the dashboard API
  (\<open>internal/middleware/rbac.go\<close>): the action constants with their scopes, the permission
  tables of the organisation and project roles, the central decision function, and the
  middlewares that load the user and the tenant membership.

  The permission tables are lists of actions per role (a Go \<open>map[string]bool\<close> whose values are
  all true). The database is a record of the tables the code queries; \<open>First\<close> with a where
  clause is the first row that satisfies it. A middleware returns either the response it aborts
  with or the request context with the values it sets.
\<close>

section \<open>Actions and scopes\<close>

abbreviation "ActionOrgRead \<equiv> ''org:read''"
abbreviation "ActionOrgUpdate \<equiv> ''org:update''"
abbreviation "ActionOrgDelete \<equiv> ''org:delete''"
abbreviation "ActionMemberList \<equiv> ''member:list''"
abbreviation "ActionMemberInvite \<equiv> ''member:invite''"
abbreviation "ActionMemberUpdateRole \<equiv> ''member:update_role''"
abbreviation "ActionMemberRemove \<equiv> ''member:remove''"
abbreviation "ActionProjectList \<equiv> ''project:list''"
abbreviation "ActionProjectCreate \<equiv> ''project:create''"
abbreviation "ActionProviderKeyList \<equiv> ''provider_key:list''"
abbreviation "ActionProviderKeyRead \<equiv> ''provider_key:read''"
abbreviation "ActionProviderKeyCreate \<equiv> ''provider_key:create''"
abbreviation "ActionProviderKeyUpdate \<equiv> ''provider_key:update''"
abbreviation "ActionProviderKeyDelete \<equiv> ''provider_key:delete''"
abbreviation "ActionUsageRead \<equiv> ''usage:read''"
abbreviation "ActionReportGenerate \<equiv> ''report:generate''"
abbreviation "ActionAuditRead \<equiv> ''audit:read''"
abbreviation "ActionBillingRead \<equiv> ''billing:read''"
abbreviation "ActionBillingUpdatePlan \<equiv> ''billing:update_plan''"
abbreviation "ActionBillingCancel \<equiv> ''billing:cancel''"
abbreviation "ActionBillingDowngradeCheck \<equiv> ''billing:downgrade_check''"
abbreviation "ActionProjectRead \<equiv> ''project:read''"
abbreviation "ActionProjectUpdate \<equiv> ''project:update''"
abbreviation "ActionProjectDelete \<equiv> ''project:delete''"
abbreviation "ActionProjectMemberList \<equiv> ''project_member:list''"
abbreviation "ActionProjectMemberAdd \<equiv> ''project_member:add''"
abbreviation "ActionProjectMemberUpdateRole \<equiv> ''project_member:update_role''"
abbreviation "ActionProjectMemberRemove \<equiv> ''project_member:remove''"
abbreviation "ActionAPIKeyList \<equiv> ''api_key:list''"
abbreviation "ActionAPIKeyRead \<equiv> ''api_key:read''"
abbreviation "ActionAPIKeyCreate \<equiv> ''api_key:create''"
abbreviation "ActionAPIKeyUpdate \<equiv> ''api_key:update''"
abbreviation "ActionAPIKeyRevoke \<equiv> ''api_key:revoke''"
abbreviation "ActionLimitList \<equiv> ''limit:list''"
abbreviation "ActionLimitRead \<equiv> ''limit:read''"
abbreviation "ActionLimitCreate \<equiv> ''limit:create''"
abbreviation "ActionLimitUpdate \<equiv> ''limit:update''"
abbreviation "ActionLimitDelete \<equiv> ''limit:delete''"

datatype Scope = ScopeTenant | ScopeProject

definition tenant_actions :: "string list" where
  "tenant_actions =
     [ActionOrgRead, ActionOrgUpdate, ActionOrgDelete, ActionMemberList, ActionMemberInvite,
      ActionMemberUpdateRole, ActionMemberRemove, ActionProjectList, ActionProjectCreate,
      ActionProviderKeyList, ActionProviderKeyRead, ActionProviderKeyCreate,
      ActionProviderKeyUpdate, ActionProviderKeyDelete, ActionUsageRead, ActionReportGenerate,
      ActionAuditRead, ActionBillingRead, ActionBillingUpdatePlan, ActionBillingCancel,
      ActionBillingDowngradeCheck]"

definition project_actions :: "string list" where
  "project_actions =
     [ActionProjectRead, ActionProjectUpdate, ActionProjectDelete, ActionProjectMemberList,
      ActionProjectMemberAdd, ActionProjectMemberUpdateRole, ActionProjectMemberRemove,
      ActionAPIKeyList, ActionAPIKeyRead, ActionAPIKeyCreate, ActionAPIKeyUpdate,
      ActionAPIKeyRevoke, ActionLimitList, ActionLimitRead, ActionLimitCreate,
      ActionLimitUpdate, ActionLimitDelete]"

definition ActionScope :: "string \<rightharpoonup> Scope" where
  "ActionScope = map_of (map (\<lambda>a. (a, ScopeTenant)) tenant_actions @
     map (\<lambda>a. (a, ScopeProject)) project_actions)"

definition MultiUserActions :: "string list" where
  "MultiUserActions = [ActionMemberInvite, ActionMemberUpdateRole, ActionMemberRemove]"

section \<open>Permission tables\<close>

definition orgRolePermissions :: "string \<rightharpoonup> string list" where
  "orgRolePermissions = map_of
    [(RoleOwner,
     [ActionOrgRead, ActionOrgUpdate, ActionOrgDelete, ActionMemberList, ActionMemberInvite,
      ActionMemberUpdateRole, ActionMemberRemove, ActionProjectList, ActionProjectCreate,
      ActionProviderKeyList, ActionProviderKeyRead, ActionProviderKeyCreate,
      ActionProviderKeyUpdate, ActionProviderKeyDelete, ActionUsageRead, ActionReportGenerate,
      ActionAuditRead, ActionBillingRead, ActionBillingUpdatePlan, ActionBillingCancel,
      ActionBillingDowngradeCheck]),
     (RoleAdmin,
     [ActionOrgRead, ActionOrgUpdate, ActionMemberList, ActionMemberInvite,
      ActionMemberUpdateRole, ActionMemberRemove, ActionProjectList, ActionProjectCreate,
      ActionProviderKeyList, ActionProviderKeyRead, ActionProviderKeyCreate,
      ActionProviderKeyUpdate, ActionProviderKeyDelete, ActionUsageRead, ActionReportGenerate,
      ActionAuditRead, ActionBillingRead, ActionBillingDowngradeCheck]),
     (RoleEditor,
     [ActionProjectList, ActionUsageRead]),
     (RoleViewer,
     [ActionProjectList, ActionUsageRead, ActionBillingRead])]"

definition projectRolePermissions :: "string \<rightharpoonup> string list" where
  "projectRolePermissions = map_of
    [(ProjectRoleAdmin,
     [ActionProjectRead, ActionProjectUpdate, ActionProjectDelete, ActionProjectMemberList,
      ActionProjectMemberAdd, ActionProjectMemberUpdateRole, ActionProjectMemberRemove,
      ActionAPIKeyList, ActionAPIKeyRead, ActionAPIKeyCreate, ActionAPIKeyUpdate,
      ActionAPIKeyRevoke, ActionLimitList, ActionLimitRead, ActionLimitCreate,
      ActionLimitUpdate, ActionLimitDelete]),
     (ProjectRoleEditor,
     [ActionProjectRead, ActionProjectUpdate, ActionAPIKeyList, ActionAPIKeyRead,
      ActionAPIKeyCreate, ActionAPIKeyUpdate, ActionAPIKeyRevoke, ActionLimitList,
      ActionLimitRead]),
     (ProjectRoleViewer,
     [ActionProjectRead, ActionAPIKeyList, ActionAPIKeyRead, ActionLimitList, ActionLimitRead])]"

definition HasOrgPermission :: "string \<Rightarrow> string \<Rightarrow> bool" where
  "HasOrgPermission orgRole action =
     (case orgRolePermissions orgRole of None \<Rightarrow> False | Some perms \<Rightarrow> action \<in> set perms)"

definition HasProjectPermission :: "string \<Rightarrow> string \<Rightarrow> bool" where
  "HasProjectPermission projectRole action =
     (case projectRolePermissions projectRole of None \<Rightarrow> False | Some perms \<Rightarrow> action \<in> set perms)"

section \<open>The decision function\<close>

datatype Decision = Allow | Deny string

record authz_db =
  db_tenants :: "Tenant list"
  db_users :: "User list"
  db_memberships :: "TenantMembership list"
  db_project_memberships :: "ProjectMembership list"

definition minProjectRole :: "string \<Rightarrow> string" where
  "minProjectRole action =
     (if HasProjectPermission ProjectRoleViewer action then ProjectRoleViewer
      else if HasProjectPermission ProjectRoleEditor action then ProjectRoleEditor
      else ProjectRoleAdmin)"

definition friendlyProjectRole :: "string \<Rightarrow> string" where
  "friendlyProjectRole role =
     (if role = ProjectRoleAdmin then ''Project Admin''
      else if role = ProjectRoleEditor then ''Project Editor''
      else if role = ProjectRoleViewer then ''Project Viewer'' else role)"

definition friendlyActionLabels :: "string \<rightharpoonup> string" where
  "friendlyActionLabels = map_of
    [(ActionAPIKeyCreate, ''creating API keys''),
     (ActionAPIKeyUpdate, ''updating API keys''),
     (ActionAPIKeyRevoke, ''revoking API keys''),
     (ActionLimitCreate, ''creating limits''),
     (ActionLimitUpdate, ''updating limits''),
     (ActionLimitDelete, ''deleting limits''),
     (ActionProjectUpdate, ''updating the project''),
     (ActionProjectDelete, ''deleting the project''),
     (ActionProjectMemberList, ''listing project members''),
     (ActionProjectMemberAdd, ''adding project members''),
     (ActionProjectMemberUpdateRole, ''changing member roles''),
     (ActionProjectMemberRemove, ''removing project members'')]"

definition projectDenyMessage :: "string \<Rightarrow> string \<Rightarrow> string" where
  "projectDenyMessage role action =
     (let required = minProjectRole action;
          roleName = friendlyProjectRole role;
          requiredName = friendlyProjectRole required;
          actionLabel = (case friendlyActionLabels action of Some l \<Rightarrow> l | None \<Rightarrow> action)
      in ''Your project role is '' @ roleName @ '', but '' @ actionLabel @
         '' requires '' @ requiredName @ '' or above. Ask a project admin to upgrade your role.'')"

definition find_tenant :: "authz_db \<Rightarrow> nat \<Rightarrow> Tenant option" where
  "find_tenant db tenantID = find (\<lambda>t. ten_ID t = tenantID) (db_tenants db)"

definition find_project_membership :: "authz_db \<Rightarrow> nat \<Rightarrow> string \<Rightarrow> ProjectMembership option" where
  "find_project_membership db projectID userID =
     find (\<lambda>pm. pm_ProjectID pm = projectID \<and> pm_UserID pm = userID) (db_project_memberships db)"

text \<open>The last argument is \<open>resource.ProjectID\<close>.\<close>

definition Authorize :: "authz_db \<Rightarrow> string \<Rightarrow> nat \<Rightarrow> string \<Rightarrow> string \<Rightarrow> nat \<Rightarrow> Decision" where
  "Authorize db userID tenantID orgRole action projectID =
     (case ActionScope action of
        None \<Rightarrow> Deny ''unknown action''
      | Some scope \<Rightarrow>
          (case (if action \<in> set MultiUserActions
                 then (case find_tenant db tenantID of
                         None \<Rightarrow> Some ''tenant not found''
                       | Some tenant \<Rightarrow>
                           if ten_Plan tenant = PlanFree \<or> ten_Plan tenant = PlanPro
                           then Some ''multi-user actions require Team or Business plan''
                           else None)
                 else None) of
             Some reason \<Rightarrow> Deny reason
           | None \<Rightarrow>
               if scope = ScopeTenant
               then (if HasOrgPermission orgRole action then Allow
                     else Deny (''insufficient org role for action '' @ action))
               else if orgRole = RoleOwner \<or> orgRole = RoleAdmin then Allow
               else if projectID = 0 then Deny ''project_id required for project-scoped action''
               else (case find_project_membership db projectID userID of
                       None \<Rightarrow> Deny ''not a member of this project''
                     | Some pm \<Rightarrow>
                         if HasProjectPermission (pm_ProjectRole pm) action then Allow
                         else Deny (projectDenyMessage (pm_ProjectRole pm) action))))"

section \<open>Role gates of the dashboard API\<close>

datatype abort = Abort (abort_status: int) (abort_error: string)

record rbac_ctx =
  ctx_user :: User
  ctx_tenant_id :: nat
  ctx_org_role :: string

text \<open>\<open>parse_uint\<close> is \<open>strconv.ParseUint(s, 10, 64)\<close>: a non-empty string of decimal digits whose
  value fits 64 bits.\<close>

definition digit_of :: "char \<Rightarrow> nat option" where
  "digit_of c = (let n = of_char c :: nat in if 48 \<le> n \<and> n \<le> 57 then Some (n - 48) else None)"

fun parse_digits :: "nat \<Rightarrow> string \<Rightarrow> nat option" where
  "parse_digits acc [] = Some acc"
| "parse_digits acc (c # cs) =
     (case digit_of c of None \<Rightarrow> None | Some d \<Rightarrow> parse_digits (10 * acc + d) cs)"

definition parse_uint :: "string \<Rightarrow> nat option" where
  "parse_uint s = (if s = [] then None
     else case parse_digits 0 s of None \<Rightarrow> None | Some n \<Rightarrow> if n < 2 ^ 64 then Some n else None)"

definition RequireUser :: "authz_db \<Rightarrow> string \<Rightarrow> string \<Rightarrow> (abort, rbac_ctx) result" where
  "RequireUser db userID tenantIDStr =
     (if userID = [] then Inl (Abort 401 ''unauthorized'')
      else case find (\<lambda>u. usr_ID u = userID) (db_users db) of
        None \<Rightarrow> Inl (Abort 401 ''unauthorized'')
      | Some user \<Rightarrow>
          if \<not> User_IsActive user then Inl (Abort 403 ''user_suspended'')
          else if tenantIDStr = [] then Inl (Abort 400 ''missing_tenant_id'')
          else (case parse_uint tenantIDStr of
             None \<Rightarrow> Inl (Abort 400 ''invalid_tenant_id'')
           | Some tenantID \<Rightarrow>
               if tenantID = 0 then Inl (Abort 400 ''invalid_tenant_id'')
               else (case find (\<lambda>m. tm_TenantID m = tenantID \<and> tm_UserID m = userID)
                            (db_memberships db) of
                  None \<Rightarrow> Inl (Abort 403 ''forbidden'')
                | Some membership \<Rightarrow>
                    if tm_Status membership \<noteq> StatusActive then Inl (Abort 403 ''user_suspended'')
                    else Inr \<lparr>ctx_user = user, ctx_tenant_id = tenantID,
                               ctx_org_role = tm_OrgRole membership\<rparr>)))"

definition RequireOrgRole :: "string \<Rightarrow> rbac_ctx \<Rightarrow> (abort, rbac_ctx) result" where
  "RequireOrgRole minRole ctx =
     (if RoleLevel (ctx_org_role ctx) < RoleLevel minRole
      then Inl (Abort 403 ''insufficient_role'') else Inr ctx)"

section \<open>Role hierarchies\<close>

text \<open>
  The contract of a role hierarchy: a role outside the table has no permission, and among the
  roles of the table a higher level keeps every permission of a lower one, except for a set of
  exempt actions.
\<close>

locale role_hierarchy =
  fixes perm :: "string \<Rightarrow> string \<Rightarrow> bool"
    and level :: "string \<Rightarrow> int"
    and roles :: "string set"
    and exempt :: "string set"
  assumes perm_known: "perm r a \<Longrightarrow> r \<in> roles"
    and perm_up: "r \<in> roles \<Longrightarrow> r' \<in> roles \<Longrightarrow> level r \<le> level r' \<Longrightarrow> a \<notin> exempt \<Longrightarrow>
      perm r a \<Longrightarrow> perm r' a"
    and level_known: "r \<in> roles \<longleftrightarrow> 0 < level r"
begin

lemma higher_role_keeps:
  assumes "perm r a" and "level r \<le> level r'" and "a \<notin> exempt"
  shows "perm r' a"
proof -
  have r: "r \<in> roles" using assms(1) by (rule perm_known)
  then have "0 < level r'" using level_known [of r] assms(2) by simp
  then have "r' \<in> roles" using level_known by blast
  then show ?thesis using perm_up [OF r] assms by blast
qed

lemma least_role_decides:
  assumes "perm m a" and "\<And>r. perm r a \<Longrightarrow> level m \<le> level r" and "a \<notin> exempt"
  shows "perm r a \<longleftrightarrow> level m \<le> level r"
  using assms higher_role_keeps by blast

end

lemma ProjectRoleLevel_pos: "0 < ProjectRoleLevel r \<longleftrightarrow>
    r = ProjectRoleAdmin \<or> r = ProjectRoleEditor \<or> r = ProjectRoleViewer"
  by (simp add: ProjectRoleLevel_def)

lemma RoleLevel_pos: "0 < RoleLevel r \<longleftrightarrow>
    r = RoleOwner \<or> r = RoleAdmin \<or> r = RoleEditor \<or> r = RoleViewer"
  by (simp add: RoleLevel_def)

lemma HasProjectPermission_known:
  "HasProjectPermission r a \<Longrightarrow> r \<in> {ProjectRoleAdmin, ProjectRoleEditor, ProjectRoleViewer}"
  by (auto simp: HasProjectPermission_def projectRolePermissions_def split: if_splits)

lemma HasOrgPermission_known:
  "HasOrgPermission r a \<Longrightarrow> r \<in> {RoleOwner, RoleAdmin, RoleEditor, RoleViewer}"
  by (auto simp: HasOrgPermission_def orgRolePermissions_def split: if_splits)

lemma project_viewer_editor:
  "HasProjectPermission ProjectRoleViewer a \<Longrightarrow> HasProjectPermission ProjectRoleEditor a"
  by (auto simp: HasProjectPermission_def projectRolePermissions_def)

lemma project_editor_admin:
  "HasProjectPermission ProjectRoleEditor a \<Longrightarrow> HasProjectPermission ProjectRoleAdmin a"
  by (auto simp: HasProjectPermission_def projectRolePermissions_def)

lemma org_viewer_editor:
  "HasOrgPermission RoleViewer a \<Longrightarrow> a \<noteq> ActionBillingRead \<Longrightarrow> HasOrgPermission RoleEditor a"
  by (auto simp: HasOrgPermission_def orgRolePermissions_def)

lemma org_editor_admin: "HasOrgPermission RoleEditor a \<Longrightarrow> HasOrgPermission RoleAdmin a"
  by (auto simp: HasOrgPermission_def orgRolePermissions_def)

lemma org_admin_owner: "HasOrgPermission RoleAdmin a \<Longrightarrow> HasOrgPermission RoleOwner a"
  by (auto simp: HasOrgPermission_def orgRolePermissions_def)

interpretation project_roles: role_hierarchy HasProjectPermission ProjectRoleLevel
  "{ProjectRoleAdmin, ProjectRoleEditor, ProjectRoleViewer}" "{}"
proof (unfold_locales, goal_cases)
  case (1 r a)
  then show ?case by (rule HasProjectPermission_known)
next
  case (2 r r' a)
  then show ?case
    using project_viewer_editor project_editor_admin
    by (auto simp: ProjectRoleLevel_def split: if_splits)
next
  case (3 r)
  then show ?case by (simp add: ProjectRoleLevel_pos)
qed

interpretation org_roles: role_hierarchy HasOrgPermission RoleLevel
  "{RoleOwner, RoleAdmin, RoleEditor, RoleViewer}" "{ActionBillingRead}"
proof (unfold_locales, goal_cases)
  case (1 r a)
  then show ?case by (rule HasOrgPermission_known)
next
  case (2 r r' a)
  then show ?case
    using org_viewer_editor org_editor_admin org_admin_owner
    by (auto simp: RoleLevel_def split: if_splits)
next
  case (3 r)
  then show ?case by (simp add: RoleLevel_pos)
qed

section \<open>Lemmas on the tables\<close>

lemma map_of_const: "map_of (map (\<lambda>a. (a, v)) xs) a = (if a \<in> set xs then Some v else None)"
  by (induction xs) auto

lemma scopes_disjoint: "list_all (\<lambda>a. a \<notin> set project_actions) tenant_actions"
  by code_simp

lemma ActionScope_eq: "ActionScope a =
    (if a \<in> set tenant_actions then Some ScopeTenant
     else if a \<in> set project_actions then Some ScopeProject else None)"
  by (simp add: ActionScope_def map_add_def map_of_const)

lemma ActionScope_project: "a \<in> set project_actions \<Longrightarrow> ActionScope a = Some ScopeProject"
  using scopes_disjoint by (auto simp: ActionScope_eq list_all_iff)

lemma MultiUser_tenant: "a \<in> set MultiUserActions \<Longrightarrow> a \<in> set tenant_actions"
proof -
  have "list_all (\<lambda>a. a \<in> set tenant_actions) MultiUserActions" by code_simp
  then show "a \<in> set MultiUserActions \<Longrightarrow> a \<in> set tenant_actions" by (simp add: list_all_iff)
qed

lemma project_admin_all: "a \<in> set project_actions \<longleftrightarrow> HasProjectPermission ProjectRoleAdmin a"
  by (simp add: project_actions_def HasProjectPermission_def projectRolePermissions_def)

lemma minProjectRole_has:
  "a \<in> set project_actions \<Longrightarrow> HasProjectPermission (minProjectRole a) a"
  by (simp add: minProjectRole_def project_admin_all)

lemma minProjectRole_least:
  assumes "HasProjectPermission r a"
  shows "ProjectRoleLevel (minProjectRole a) \<le> ProjectRoleLevel r"
proof -
  from HasProjectPermission_known [OF assms]
  have "r = ProjectRoleAdmin \<or> r = ProjectRoleEditor \<or> r = ProjectRoleViewer" by blast
  with assms show ?thesis
    by (auto simp: minProjectRole_def ProjectRoleLevel_def)
qed

section \<open>What the gates promise\<close>

definition multi_user_ok :: "authz_db \<Rightarrow> nat \<Rightarrow> bool" where
  "multi_user_ok db tenantID =
     (case find_tenant db tenantID of None \<Rightarrow> False
      | Some t \<Rightarrow> ten_Plan t \<notin> {PlanFree, PlanPro})"

definition project_role_ok :: "authz_db \<Rightarrow> string \<Rightarrow> string \<Rightarrow> nat \<Rightarrow> bool" where
  "project_role_ok db userID action projectID =
     (projectID \<noteq> 0 \<and>
      (case find_project_membership db projectID userID of None \<Rightarrow> False
       | Some pm \<Rightarrow> ProjectRoleLevel (minProjectRole action) \<le> ProjectRoleLevel (pm_ProjectRole pm)))"

definition authorized :: "authz_db \<Rightarrow> string \<Rightarrow> nat \<Rightarrow> string \<Rightarrow> string \<Rightarrow> nat \<Rightarrow> bool" where
  "authorized db userID tenantID orgRole action projectID =
     ((action \<in> set tenant_actions \<and> HasOrgPermission orgRole action \<and>
       (action \<notin> set MultiUserActions \<or> multi_user_ok db tenantID)) \<or>
      (action \<in> set project_actions \<and>
       (orgRole \<in> {RoleOwner, RoleAdmin} \<or> project_role_ok db userID action projectID)))"

lemma tenant_not_project: "a \<in> set tenant_actions \<Longrightarrow> a \<notin> set project_actions"
  using scopes_disjoint by (simp add: list_all_iff)

lemma project_perm_level:
  assumes "a \<in> set project_actions"
  shows "HasProjectPermission r a \<longleftrightarrow> ProjectRoleLevel (minProjectRole a) \<le> ProjectRoleLevel r"
  by (rule project_roles.least_role_decides)
    (use assms minProjectRole_has minProjectRole_least in auto)

lemma Authorize_tenant:
  assumes "a \<in> set tenant_actions"
  shows "Authorize db u t r a p = Allow \<longleftrightarrow>
    HasOrgPermission r a \<and> (a \<notin> set MultiUserActions \<or> multi_user_ok db t)"
  using assms by (simp add: Authorize_def ActionScope_eq multi_user_ok_def split: option.split)

lemma Authorize_project:
  assumes "a \<in> set project_actions"
  shows "Authorize db u t r a p = Allow \<longleftrightarrow>
    r \<in> {RoleOwner, RoleAdmin} \<or> project_role_ok db u a p"
proof -
  from assms have m: "a \<notin> set MultiUserActions"
    using MultiUser_tenant tenant_not_project by blast
  show ?thesis
    by (simp add: Authorize_def ActionScope_project [OF assms] m project_role_ok_def
        project_perm_level [OF assms] split: option.split)
qed

lemma RequireUser_Inr:
  "RequireUser db uid ts = Inr c \<longleftrightarrow>
     (\<exists>user tid m. uid \<noteq> [] \<and> find (\<lambda>u. usr_ID u = uid) (db_users db) = Some user \<and>
        User_IsActive user \<and> parse_uint ts = Some tid \<and> tid \<noteq> 0 \<and>
        find (\<lambda>m. tm_TenantID m = tid \<and> tm_UserID m = uid) (db_memberships db) = Some m \<and>
        tm_Status m = StatusActive \<and>
        c = \<lparr>ctx_user = user, ctx_tenant_id = tid, ctx_org_role = tm_OrgRole m\<rparr>)"
proof -
  have ne: "parse_uint [] = None" by (simp add: parse_uint_def)
  show ?thesis
    by (auto simp: RequireUser_def ne split: option.splits if_splits)
qed

lemma RoleLevel_cases:
  "0 < RoleLevel r \<Longrightarrow> r \<in> {RoleOwner, RoleAdmin, RoleEditor, RoleViewer}"
  using RoleLevel_pos by blast

section \<open>Properties\<close>

text \<open>C20: the central authorization decision allows a request exactly when the declarative
  policy does: a tenant-scoped action needs the organisation role's permission, and for the
  multi-user actions a tenant on the Team or Business plan; a project-scoped action needs the
  owner or admin role in the organisation, or a membership in the named project whose role level
  reaches the least role that has the permission. Every other request (an unknown action
  included) is denied.\<close>

theorem Authorize_allow_iff:
  "Authorize db userID tenantID orgRole action projectID = Allow \<longleftrightarrow>
     authorized db userID tenantID orgRole action projectID"
proof -
  consider "action \<in> set tenant_actions" | "action \<in> set project_actions"
    | "action \<notin> set tenant_actions" "action \<notin> set project_actions" by blast
  then show ?thesis
  proof cases
    case 1
    with tenant_not_project show ?thesis by (simp add: authorized_def Authorize_tenant)
  next
    case 2
    with tenant_not_project show ?thesis by (auto simp: authorized_def Authorize_project)
  next
    case 3
    then show ?thesis by (simp add: authorized_def Authorize_def ActionScope_eq)
  qed
qed

text \<open>Among the organisation roles a higher level keeps every permission of a lower one
  with a single exception: the viewer may read billing, the editor above it may not.\<close>

theorem org_permissions_monotone_but:
  assumes "0 < RoleLevel r" and "RoleLevel r \<le> RoleLevel r'"
  shows "(\<forall>a. HasOrgPermission r a \<longrightarrow> HasOrgPermission r' a) \<longleftrightarrow>
    \<not> (r = RoleViewer \<and> r' = RoleEditor)"
proof -
  have v: "HasOrgPermission RoleViewer ActionBillingRead"
    and e: "\<not> HasOrgPermission RoleEditor ActionBillingRead"
    and a: "HasOrgPermission RoleAdmin ActionBillingRead"
    and w: "HasOrgPermission RoleOwner ActionBillingRead" by code_simp+
  have up: "HasOrgPermission r a \<Longrightarrow> a \<noteq> ActionBillingRead \<Longrightarrow> HasOrgPermission r' a" for a
    using org_roles.higher_role_keeps [of r a r'] assms(2) by simp
  have r': "r' \<in> {RoleOwner, RoleAdmin, RoleEditor, RoleViewer}"
    using assms by (intro RoleLevel_cases) linarith
  have "HasOrgPermission r' ActionBillingRead \<or> r' = RoleEditor" using r' a w v by blast
  moreover have "r' = RoleEditor \<Longrightarrow> r = RoleEditor \<or> r = RoleViewer"
    using assms by (auto simp: RoleLevel_def split: if_splits)
  ultimately show ?thesis using up v e by metis
qed

theorem org_permissions_monotone_but_witness:
  "0 < RoleLevel ''viewer'' \<and> RoleLevel ''viewer'' \<le> RoleLevel ''editor'' \<and>
   \<not> (\<forall>a. HasOrgPermission ''viewer'' a \<longrightarrow> HasOrgPermission ''editor'' a)"
proof -
  have h: "0 < RoleLevel ''viewer''" "RoleLevel ''viewer'' \<le> RoleLevel ''editor''"
    by (simp_all add: RoleLevel_def)
  show ?thesis using h org_permissions_monotone_but [OF h] by simp
qed

text \<open>A request passes the two dashboard gates exactly when it names a user that exists and
  is active, and a tenant in which that user has an active membership whose role level reaches
  the level the route asks for; the context it continues with carries that user, that tenant and
  the role of that membership.\<close>

theorem dashboard_gates_sound_complete:
  "Inr c = (case RequireUser db uid ts of Inl e \<Rightarrow> Inl e | Inr c' \<Rightarrow> RequireOrgRole minRole c') \<longleftrightarrow>
    (\<exists>user tid m. uid \<noteq> [] \<and> find (\<lambda>u. usr_ID u = uid) (db_users db) = Some user \<and>
        User_IsActive user \<and> parse_uint ts = Some tid \<and> tid \<noteq> 0 \<and>
        find (\<lambda>m. tm_TenantID m = tid \<and> tm_UserID m = uid) (db_memberships db) = Some m \<and>
        tm_Status m = StatusActive \<and> RoleLevel minRole \<le> RoleLevel (tm_OrgRole m) \<and>
        c = \<lparr>ctx_user = user, ctx_tenant_id = tid, ctx_org_role = tm_OrgRole m\<rparr>)"
    (is "?lhs \<longleftrightarrow> ?rhs")
proof -
  have "?lhs \<longleftrightarrow> RequireUser db uid ts = Inr c \<and> RoleLevel minRole \<le> RoleLevel (ctx_org_role c)"
    by (auto simp: RequireOrgRole_def split: sum.splits)
  also have "\<dots> \<longleftrightarrow> ?rhs" unfolding RequireUser_Inr by auto
  finally show ?thesis .
qed

end
