(* ===== verification/Clock.thy ===== *)
theory Clock
  imports Prelude
begin

text \<open>
  The part of Go's package \<open>time\<close> that the budget periods use, and the period functions of
  \<open>internal/pricing/engine.go\<close>.

  An instant is the number of nanoseconds since Go's zero time, 1 January of the year 1 at
  00:00 UTC (a Monday), together with the offset of its location from UTC. Locations are fixed
  offsets: a zone with daylight-saving transitions is one such location on each side of a
  transition. The civil date of a day number is computed through the 400-, 100-, 4- and 1-year
  cycles of the proleptic Gregorian calendar, as package \<open>time\<close> does.
\<close>

section \<open>Calendar\<close>

definition day_ns :: int where "day_ns = 86400 * 10 ^ 9"

record go_time =
  t_ns :: int
  t_off :: int

definition time_IsZero :: "go_time \<Rightarrow> bool" where "time_IsZero t \<longleftrightarrow> t_ns t = 0"

definition local_day :: "go_time \<Rightarrow> int" where "local_day t = (t_ns t + t_off t) div day_ns"

definition local_clock :: "go_time \<Rightarrow> int" where "local_clock t = (t_ns t + t_off t) mod day_ns"

definition is_leap :: "int \<Rightarrow> bool" where
  "is_leap y \<longleftrightarrow> y mod 4 = 0 \<and> (y mod 100 \<noteq> 0 \<or> y mod 400 = 0)"

definition year_start :: "int \<Rightarrow> int" where
  "year_start y = 365 * (y - 1) + (y - 1) div 4 - (y - 1) div 100 + (y - 1) div 400"

definition year_yday :: "int \<Rightarrow> int \<times> int" where
  "year_yday d =
     (let n400 = d div 146097; r = d mod 146097;
          n100 = min 3 (r div 36524); r1 = r - 36524 * n100;
          n4 = r1 div 1461; r2 = r1 mod 1461;
          n1 = min 3 (r2 div 365)
      in (400 * n400 + 100 * n100 + 4 * n4 + n1 + 1, r2 - 365 * n1))"

definition year_of :: "int \<Rightarrow> int" where "year_of d = fst (year_yday d)"
definition yday_of :: "int \<Rightarrow> int" where "yday_of d = snd (year_yday d)"

text \<open>Days of the year before the 1st of month \<open>m\<close> (1 to 13).\<close>

definition days_before :: "int \<Rightarrow> int \<Rightarrow> int" where
  "days_before y m =
     [0, 31, 59, 90, 120, 151, 181, 212, 243, 273, 304, 334, 365] ! nat (m - 1) +
     (if is_leap y \<and> 2 < m then 1 else 0)"

definition month_of :: "int \<Rightarrow> int" where
  "month_of d =
     (let y = year_of d; yd = yday_of d
      in if yd < days_before y 2 then 1 else if yd < days_before y 3 then 2
         else if yd < days_before y 4 then 3 else if yd < days_before y 5 then 4
         else if yd < days_before y 6 then 5 else if yd < days_before y 7 then 6
         else if yd < days_before y 8 then 7 else if yd < days_before y 9 then 8
         else if yd < days_before y 10 then 9 else if yd < days_before y 11 then 10
         else if yd < days_before y 12 then 11 else 12)"

definition dom_of :: "int \<Rightarrow> int" where
  "dom_of d = yday_of d - days_before (year_of d) (month_of d) + 1"

text \<open>The day number of a civil date; a month outside 1 to 12 and a day outside the month carry
  over, as in \<open>time.Date\<close>.\<close>

definition date_days :: "int \<Rightarrow> int \<Rightarrow> int \<Rightarrow> int" where
  "date_days y m d =
     (let y' = y + (m - 1) div 12; m' = (m - 1) mod 12 + 1
      in year_start y' + days_before y' m' + d - 1)"

section \<open>Operations on instants\<close>

definition Year :: "go_time \<Rightarrow> int" where "Year t = year_of (local_day t)"
definition Month :: "go_time \<Rightarrow> int" where "Month t = month_of (local_day t)"
definition Day :: "go_time \<Rightarrow> int" where "Day t = dom_of (local_day t)"

text \<open>Sunday is 0.\<close>

definition Weekday :: "go_time \<Rightarrow> int" where "Weekday t = (local_day t + 1) mod 7"

definition midnight :: "int \<Rightarrow> int \<Rightarrow> int \<Rightarrow> int \<Rightarrow> go_time" where
  "midnight y m d off = \<lparr>t_ns = date_days y m d * day_ns - off, t_off = off\<rparr>"

definition AddDate :: "go_time \<Rightarrow> int \<Rightarrow> int \<Rightarrow> int \<Rightarrow> go_time" where
  "AddDate t ys ms ds =
     \<lparr>t_ns = date_days (Year t + ys) (Month t + ms) (Day t + ds) * day_ns + local_clock t - t_off t,
      t_off = t_off t\<rparr>"

text \<open>\<open>Truncate(24 * time.Hour)\<close> rounds the absolute time since the zero time down.\<close>

definition Truncate_day :: "go_time \<Rightarrow> go_time" where
  "Truncate_day t = t\<lparr>t_ns := t_ns t - t_ns t mod day_ns\<rparr>"

definition ISOWeek :: "go_time \<Rightarrow> int \<times> int" where
  "ISOWeek t =
     (let d = 4 - Weekday t; d' = (if d = 4 then -3 else d); th = local_day t + d'
      in (year_of th, yday_of th div 7 + 1))"

section \<open>Budget periods\<close>

abbreviation "PeriodMonthly \<equiv> ''monthly''"
abbreviation "PeriodWeekly \<equiv> ''weekly''"
abbreviation "PeriodDaily \<equiv> ''daily''"

definition periodStart :: "string \<Rightarrow> go_time \<Rightarrow> go_time" where
  "periodStart periodType t =
     (if periodType = PeriodMonthly then midnight (Year t) (Month t) 1 (t_off t)
      else if periodType = PeriodWeekly then
        (let weekday = (if Weekday t = 0 then 7 else Weekday t)
         in Truncate_day (AddDate t 0 0 (- (weekday - 1))))
      else if periodType = PeriodDaily then midnight (Year t) (Month t) (Day t) (t_off t)
      else midnight (Year t) (Month t) 1 (t_off t))"

definition periodEnd :: "string \<Rightarrow> go_time \<Rightarrow> go_time" where
  "periodEnd periodType t =
     (if periodType = PeriodMonthly then AddDate (midnight (Year t) (Month t) 1 (t_off t)) 0 1 0
      else if periodType = PeriodWeekly then AddDate (periodStart PeriodWeekly t) 0 0 7
      else if periodType = PeriodDaily then midnight (Year t) (Month t) (Day t + 1) (t_off t)
      else AddDate (midnight (Year t) (Month t) 1 (t_off t)) 0 1 0)"

text \<open>The last component of every budget and reservation key: the four \<open>switch\<close> arms share
  their formats across the six key functions.\<close>

definition period_suffix :: "string \<Rightarrow> go_time \<Rightarrow> string" where
  "period_suffix periodType t =
     (if periodType = PeriodMonthly then show_int (Year t) @ ''-'' @ pad2 (Month t)
      else if periodType = PeriodWeekly then
        (case ISOWeek t of (year, week) \<Rightarrow> ''w'' @ show_int year @ ''-'' @ pad2 week)
      else if periodType = PeriodDaily then
        show_int (Year t) @ ''-'' @ pad2 (Month t) @ ''-'' @ pad2 (Day t)
      else periodType @ '':'' @ show_int (Year t) @ ''-'' @ pad2 (Month t))"

section \<open>Lemmas on the calendar\<close>

lemma day_ns_pos [simp]: "0 < day_ns"
  by (simp add: day_ns_def)

lemma year_start_cycles:
  assumes "0 \<le> b" "b \<le> 3" "0 \<le> c" "c \<le> 24" "0 \<le> e" "e \<le> (3::int)"
  shows "year_start (400 * a + 100 * b + 4 * c + e + 1) = 146097 * a + 36524 * b + 1461 * c + 365 * e"
proof -
  let ?n = "400 * a + 100 * b + 4 * c + e"
  have "?n div 4 = 100 * a + 25 * b + c" using assms by (intro int_div_pos_eq [of _ _ _ e]) auto
  moreover have "?n div 100 = 4 * a + b"
    using assms by (intro int_div_pos_eq [of _ _ _ "4 * c + e"]) auto
  moreover have "?n div 400 = a"
    using assms by (intro int_div_pos_eq [of _ _ _ "100 * b + 4 * c + e"]) auto
  ultimately show ?thesis by (simp add: year_start_def)
qed

lemma is_leap_cycles:
  assumes "0 \<le> b" "b \<le> 3" "0 \<le> c" "c \<le> 24" "e = (3::int)" "c < 24 \<or> b = 3"
  shows "is_leap (400 * a + 100 * b + 4 * c + e + 1)"
proof -
  have y: "400 * a + 100 * b + 4 * c + e + 1 = 4 * (100 * a + 25 * b + c + 1)" using assms by simp
  show ?thesis
  proof (cases "c < 24")
    case True
    have "(400 * a + 100 * b + 4 * c + e + 1) mod 100 = 4 * c + 4"
      using True assms by (intro int_mod_pos_eq [of _ _ "4 * a + b"]) auto
    moreover have "(400 * a + 100 * b + 4 * c + e + 1) mod 4 = 0" unfolding y by simp
    moreover have "4 * c + 4 \<noteq> 0" using assms by linarith
    ultimately show ?thesis unfolding is_leap_def by argo
  next
    case False
    with assms have "b = 3" "c = 24" "e = 3" by simp_all
    then have "400 * a + 100 * b + 4 * c + e + 1 = 400 * (a + 1)" by simp
    moreover have "is_leap (400 * (a + 1))" by (simp add: is_leap_def)
    ultimately show ?thesis by (simp only:)
  qed
qed

lemma min_div_rem:
  assumes "0 < k" "0 \<le> r" "0 \<le> (n::int)"
  shows "0 \<le> min n (r div k)" "min n (r div k) \<le> n" "0 \<le> r - k * min n (r div k)"
    "r - k * min n (r div k) < k \<or> min n (r div k) = n"
    "r < (n + 1) * k + j \<Longrightarrow> 0 \<le> j \<Longrightarrow> r - k * min n (r div k) < k + j"
proof -
  have q: "0 \<le> r div k" "r - k * (r div k) = r mod k" "0 \<le> r mod k" "r mod k < k"
    using assms by (simp_all add: pos_imp_zdiv_nonneg_iff minus_mult_div_eq_mod)
  have "k * min n (r div k) \<le> k * (r div k)" using assms by (simp add: mult_left_mono)
  with q show "0 \<le> r - k * min n (r div k)" by linarith
  show "0 \<le> min n (r div k)" "min n (r div k) \<le> n" using assms q by simp_all
  show "r - k * min n (r div k) < k \<or> min n (r div k) = n" using q by (simp add: min_def)
  show "r < (n + 1) * k + j \<Longrightarrow> 0 \<le> j \<Longrightarrow> r - k * min n (r div k) < k + j"
    using q by (cases "n \<le> r div k") (simp add: min_def algebra_simps, simp add: min_def q(2))
qed

lemma year_yday_cycles:
  obtains a b c e r2 where "0 \<le> b" "b \<le> 3" "0 \<le> c" "c \<le> 24" "0 \<le> e" "e \<le> (3::int)"
    and "year_of d = 400 * a + 100 * b + 4 * c + e + 1" and "yday_of d = r2 - 365 * e"
    and "d = 146097 * a + 36524 * b + 1461 * c + r2" and "0 \<le> r2 - 365 * e"
    and "r2 - 365 * e < 365 \<or> e = 3 \<and> r2 = 1460 \<and> (c < 24 \<or> b = 3)"
proof -
  define a r where "a = d div 146097" and "r = d mod 146097"
  define b where "b = min 3 (r div 36524)"
  define r1 where "r1 = r - 36524 * b"
  define c r2 where "c = r1 div 1461" and "r2 = r1 mod 1461"
  define e where "e = min 3 (r2 div 365)"
  have r: "0 \<le> r" "r < 146097" "d = 146097 * a + r" by (simp_all add: r_def a_def)
  note mb = min_div_rem [of 36524 r 3, folded b_def r1_def]
  have b: "0 \<le> b" "b \<le> 3" and r1: "0 \<le> r1" "r1 < 36525" and rb: "r1 < 36524 \<or> b = 3"
    using mb(1-4) mb(5) [of 1] r by (simp_all add: r1_def)
  have r12: "r1 = 1461 * c + r2" and r2: "0 \<le> r2" "r2 < 1461" by (simp_all add: c_def r2_def)
  have c: "0 \<le> c" "c \<le> 24" using r1 r12 r2 by linarith+
  note me = min_div_rem [of 365 r2 3, folded e_def]
  have e: "0 \<le> e" "e \<le> 3" and e0: "0 \<le> r2 - 365 * e" and e1: "r2 - 365 * e < 365 \<or> e = 3"
    using me(1-4) r2 by simp_all
  have yy: "year_yday d = (400 * a + 100 * b + 4 * c + e + 1, r2 - 365 * e)"
    unfolding year_yday_def Let_def a_def r_def b_def r1_def c_def r2_def e_def by (rule refl)
  have d: "d = 146097 * a + 36524 * b + 1461 * c + r2" using r(3) r12 by (simp add: r1_def)
  have "r2 - 365 * e < 365 \<or> e = 3 \<and> r2 = 1460 \<and> (c < 24 \<or> b = 3)"
  proof (cases "r2 - 365 * e < 365")
    case False
    with e1 have "e = 3" by blast
    moreover from this False r2 have "r2 = 1460" by simp
    ultimately show ?thesis using rb r12 by auto
  qed simp
  moreover have "year_of d = 400 * a + 100 * b + 4 * c + e + 1" "yday_of d = r2 - 365 * e"
    unfolding year_of_def yday_of_def yy by simp_all
  ultimately show thesis using that [OF b c e _ _ d e0] by blast
qed

lemma year_yday_start: "year_start (year_of d) + yday_of d = d"
  by (rule year_yday_cycles [of d]) (simp add: year_start_cycles)

lemma yday_nonneg [simp]: "0 \<le> yday_of d"
  by (rule year_yday_cycles [of d]) simp

lemma yday_less: "yday_of d < (if is_leap (year_of d) then 366 else 365)"
proof (rule year_yday_cycles [of d], goal_cases)
  case (1 a b c e r2)
  then show ?case using is_leap_cycles [of b c e a] by auto
qed

lemma div_pred:
  assumes "0 < k"
  shows "y div k = (y - 1) div k + (if y mod k = 0 then 1 else (0::int))"
proof (cases "y mod k = 0")
  case True
  then have "y - 1 = k * (y div k - 1) + (k - 1)"
    using mult_div_mod_eq [of k y] by (simp add: algebra_simps)
  then have "(y - 1) div k = y div k - 1" using assms
    by (intro int_div_pos_eq [of _ _ _ "k - 1"]) auto
  with True show ?thesis by simp
next
  case False
  then have "y - 1 = k * (y div k) + (y mod k - 1)" by simp
  moreover have "0 < y mod k" "y mod k < k"
    using False pos_mod_bound [OF assms, of y] pos_mod_sign [OF assms, of y] by linarith+
  ultimately have "(y - 1) div k = y div k" using assms
    by (intro int_div_pos_eq [of _ _ _ "y mod k - 1"]) linarith+
  with False show ?thesis by simp
qed

lemma leap_day_count:
  "(R \<longrightarrow> Q) \<Longrightarrow> (Q \<longrightarrow> P) \<Longrightarrow>
   365 * y + (A + (if P then 1 else 0)) - (B + (if Q then 1 else 0)) + (C + (if R then 1 else 0)) =
   365 * (y - 1) + A - B + C + (if P \<and> (\<not> Q \<or> R) then 366 else (365::int))"
  by (cases P; cases Q; cases R) simp_all

lemma year_start_Suc: "year_start (y + 1) = year_start y + (if is_leap y then 366 else 365)"
proof -
  have m: "y mod 100 = 0 \<Longrightarrow> y mod 4 = 0" "y mod 400 = 0 \<Longrightarrow> y mod 100 = 0"
    using mod_mod_cancel [of 4 100 y] mod_mod_cancel [of 100 400 y] by simp_all
  have e: "y div 4 = (y - 1) div 4 + (if y mod 4 = 0 then 1 else 0)"
    "y div 100 = (y - 1) div 100 + (if y mod 100 = 0 then 1 else 0)"
    "y div 400 = (y - 1) div 400 + (if y mod 400 = 0 then 1 else 0)"
    by (rule div_pred; simp)+
  have "year_start (y + 1) = 365 * y + y div 4 - y div 100 + y div 400"
    by (simp add: year_start_def)
  also have "\<dots> = year_start y + (if is_leap y then 366 else 365)"
    unfolding e year_start_def is_leap_def using m by (intro leap_day_count) blast+
  finally show ?thesis .
qed

lemma year_start_mono: "y < y' \<Longrightarrow> year_start y + 365 \<le> year_start y'"
proof (induction y' rule: int_gr_induct [of y])
  case base
  then show ?case by (simp add: year_start_Suc)
next
  case (step i)
  then show ?case by (simp add: year_start_Suc)
qed

lemma year_unique:
  assumes "year_start y \<le> d" "d < year_start (y + 1)"
  shows "year_of d = y"
proof (rule ccontr)
  assume ne: "year_of d \<noteq> y"
  have d: "year_start (year_of d) \<le> d" "d < year_start (year_of d + 1)"
    using year_yday_start [of d] yday_nonneg [of d] yday_less [of d]
    unfolding year_start_Suc by linarith+
  have "year_of d + 1 \<le> y \<or> y + 1 \<le> year_of d" using ne by linarith
  moreover have "x \<le> z \<Longrightarrow> year_start x \<le> year_start z" for x z
    using year_start_mono [of x z] by (cases "x = z") auto
  ultimately show False using assms d by force
qed

section \<open>Months and days\<close>

lemma days_before_simps [simp]:
  "days_before y 1 = 0" "days_before y 2 = 31"
  "days_before y 3 = (if is_leap y then 60 else 59)"
  "days_before y 4 = (if is_leap y then 91 else 90)"
  "days_before y 5 = (if is_leap y then 121 else 120)"
  "days_before y 6 = (if is_leap y then 152 else 151)"
  "days_before y 7 = (if is_leap y then 182 else 181)"
  "days_before y 8 = (if is_leap y then 213 else 212)"
  "days_before y 9 = (if is_leap y then 244 else 243)"
  "days_before y 10 = (if is_leap y then 274 else 273)"
  "days_before y 11 = (if is_leap y then 305 else 304)"
  "days_before y 12 = (if is_leap y then 335 else 334)"
  "days_before y 13 = (if is_leap y then 366 else 365)"
  by (simp_all add: days_before_def)

lemma month_cases:
  assumes "1 \<le> m" "m \<le> (12::int)"
  obtains "m = 1" | "m = 2" | "m = 3" | "m = 4" | "m = 5" | "m = 6"
  | "m = 7" | "m = 8" | "m = 9" | "m = 10" | "m = 11" | "m = 12"
proof -
  have "m = 1 \<or> m = 2 \<or> m = 3 \<or> m = 4 \<or> m = 5 \<or> m = 6 \<or> m = 7 \<or> m = 8 \<or> m = 9 \<or> m = 10 \<or>
    m = 11 \<or> m = 12" using assms by presburger
  with that show thesis by argo
qed

lemma month_bounds [simp]: "1 \<le> month_of d" "month_of d \<le> 12"
  by (simp_all add: month_of_def Let_def)

lemma month_days:
  "days_before (year_of d) (month_of d) \<le> yday_of d"
  "yday_of d < days_before (year_of d) (month_of d + 1)"
  using yday_less [of d] yday_nonneg [of d]
  by (simp_all add: month_of_def Let_def split: if_splits)

lemma days_before_mono:
  assumes "1 \<le> m" "m < m'" "m' \<le> 13"
  shows "days_before y m + 28 \<le> days_before y m'"
  using assms(2,3)
proof (induction m' rule: int_gr_induct [of m])
  case base
  have "1 \<le> m" "m \<le> 12" using base assms(1) by auto
  then show ?case by (rule month_cases) simp_all
next
  case (step i)
  have "1 \<le> i" "i \<le> 12" using step assms(1) by auto
  then have "days_before y i \<le> days_before y (i + 1)" by (rule month_cases) simp_all
  with step show ?case by simp
qed

lemma date_days_norm:
  "1 \<le> m \<Longrightarrow> m \<le> 12 \<Longrightarrow> date_days y m d = year_start y + days_before y m + d - 1"
  by (simp add: date_days_def)

lemma date_days_next:
  assumes "1 \<le> m" "m \<le> 12"
  shows "date_days y (m + 1) d = year_start y + days_before y (m + 1) + d - 1"
proof (cases "m = 12")
  case True
  then show ?thesis by (simp add: date_days_def year_start_Suc)
next
  case False
  with assms show ?thesis by (simp add: date_days_norm)
qed

lemma date_days_civil: "date_days (year_of d) (month_of d) (dom_of d + k) = d + k"
  using year_yday_start [of d] by (simp add: date_days_norm dom_of_def)

definition month_first :: "int \<Rightarrow> int" where "month_first d = date_days (year_of d) (month_of d) 1"
definition month_next :: "int \<Rightarrow> int" where "month_next d = date_days (year_of d) (month_of d + 1) 1"

lemma month_interval: "month_first d \<le> d" "d < month_next d"
  using year_yday_start [of d] month_days [of d]
  by (simp_all add: month_first_def month_next_def date_days_norm date_days_next)

lemma month_unique:
  assumes m: "1 \<le> m" "m \<le> 12" and d: "date_days y m 1 \<le> d" "d < date_days y (m + 1) 1"
  shows "year_of d = y \<and> month_of d = m"
proof -
  have le: "x \<le> z \<Longrightarrow> 1 \<le> x \<Longrightarrow> z \<le> 13 \<Longrightarrow> days_before y x \<le> days_before y z" for x z
    using days_before_mono [of x z y] by (cases "x = z") auto
  from d m have d': "year_start y + days_before y m \<le> d" "d < year_start y + days_before y (m + 1)"
    by (simp_all add: date_days_norm date_days_next)
  have "year_start y \<le> d" using d' le [of 1 m] m by simp
  moreover have "d < year_start (y + 1)"
    using d' le [of "m + 1" 13] m by (simp add: year_start_Suc split: if_splits)
  ultimately have y: "year_of d = y" by (rule year_unique)
  then have yd: "days_before y m \<le> yday_of d" "yday_of d < days_before y (m + 1)"
    using d' year_yday_start [of d] by simp_all
  note md = month_days [of d, unfolded y]
  have "\<not> month_of d + 1 \<le> m" using le [of "month_of d + 1" m] md yd m
    month_bounds [of d] by linarith
  moreover have "\<not> m + 1 \<le> month_of d" using le [of "m + 1" "month_of d"] md yd m
    month_bounds [of d] by linarith
  ultimately show ?thesis using y by simp
qed

lemma same_month_iff:
  "year_of d = year_of d' \<and> month_of d = month_of d' \<longleftrightarrow> month_first d \<le> d' \<and> d' < month_next d"
proof
  assume "year_of d = year_of d' \<and> month_of d = month_of d'"
  then have "month_first d = month_first d'" "month_next d = month_next d'"
    by (simp_all only: month_first_def month_next_def)
  with month_interval [of d'] show "month_first d \<le> d' \<and> d' < month_next d" by simp
next
  assume "month_first d \<le> d' \<and> d' < month_next d"
  then have "year_of d' = year_of d \<and> month_of d' = month_of d"
    by (intro month_unique) (simp_all add: month_first_def month_next_def)
  then show "year_of d = year_of d' \<and> month_of d = month_of d'" by simp
qed

lemma month_first_civil [simp]:
  "year_of (month_first d) = year_of d" "month_of (month_first d) = month_of d"
  "dom_of (month_first d) = 1"
proof -
  have *: "month_first d < month_next d" using month_interval [of d] by linarith
  have "year_of (month_first d) = year_of d \<and> month_of (month_first d) = month_of d"
    using month_unique [of "month_of d" "year_of d" "month_first d"] *
    by (simp add: month_first_def month_next_def)
  then show ym: "year_of (month_first d) = year_of d" "month_of (month_first d) = month_of d" by auto
  then have "month_first d = year_start (year_of d) + yday_of (month_first d)"
    using year_yday_start [of "month_first d"] by simp
  moreover have "month_first d = year_start (year_of d) + days_before (year_of d) (month_of d)"
    by (simp add: month_first_def date_days_norm)
  ultimately show "dom_of (month_first d) = 1"
    using ym by (simp add: dom_of_def)
qed

lemma same_day_iff:
  "year_of d = year_of d' \<and> month_of d = month_of d' \<and> dom_of d = dom_of d' \<longleftrightarrow> d = d'"
proof
  assume "year_of d = year_of d' \<and> month_of d = month_of d' \<and> dom_of d = dom_of d'"
  then have "date_days (year_of d) (month_of d) (dom_of d + 0) =
    date_days (year_of d') (month_of d') (dom_of d' + 0)" by (simp only:)
  then show "d = d'" unfolding date_days_civil by simp
qed simp

section \<open>Periods as intervals\<close>

lemma day_split: "t_ns t + t_off t = local_day t * day_ns + local_clock t"
  "0 \<le> local_clock t" "local_clock t < day_ns"
  by (simp_all add: local_day_def local_clock_def)

lemma local_day_at [simp]:
  "local_day \<lparr>t_ns = n * day_ns - off, t_off = off\<rparr> = n"
  "local_clock \<lparr>t_ns = n * day_ns - off, t_off = off\<rparr> = 0"
  by (simp_all add: local_day_def local_clock_def less_imp_neq [OF day_ns_pos, symmetric])

lemma day_le_iff: "n * day_ns \<le> t_ns t + t_off t \<longleftrightarrow> n \<le> local_day t"
proof
  assume "n * day_ns \<le> t_ns t + t_off t"
  then have "n * day_ns < (local_day t + 1) * day_ns"
    using day_split [of t] by (simp add: algebra_simps)
  then have "n < local_day t + 1" by (rule mult_right_less_imp_less) (simp add: less_imp_le)
  then show "n \<le> local_day t" by simp
next
  assume "n \<le> local_day t"
  then have "n * day_ns \<le> local_day t * day_ns" by (simp add: mult_right_mono)
  then show "n * day_ns \<le> t_ns t + t_off t" using day_split [of t] by linarith
qed

lemma AddDate_days: "AddDate t 0 0 k = t\<lparr>t_ns := t_ns t + k * day_ns\<rparr>"
proof -
  have "AddDate t 0 0 k =
      \<lparr>t_ns = (local_day t + k) * day_ns + local_clock t - t_off t, t_off = t_off t\<rparr>"
    by (simp add: AddDate_def Year_def Month_def Day_def date_days_civil)
  then show ?thesis using day_split(1) [of t] by (cases t) (simp add: algebra_simps)
qed

lemma periodStart_daily: "t_ns (periodStart PeriodDaily t) = local_day t * day_ns - t_off t"
  using date_days_civil [of "local_day t" 0]
  by (simp add: periodStart_def midnight_def Year_def Month_def Day_def)

lemma periodEnd_daily: "t_ns (periodEnd PeriodDaily t) = (local_day t + 1) * day_ns - t_off t"
  using date_days_civil [of "local_day t" 1]
  by (simp add: periodEnd_def midnight_def Year_def Month_def Day_def)

lemma periodStart_monthly:
  "t_ns (periodStart PeriodMonthly t) = month_first (local_day t) * day_ns - t_off t"
  by (simp add: periodStart_def midnight_def Year_def Month_def month_first_def)

lemma periodEnd_monthly:
  "t_ns (periodEnd PeriodMonthly t) = month_next (local_day t) * day_ns - t_off t"
proof -
  have "midnight (Year t) (Month t) 1 (t_off t) =
      \<lparr>t_ns = month_first (local_day t) * day_ns - t_off t, t_off = t_off t\<rparr>"
    by (simp add: midnight_def month_first_def Year_def Month_def)
  then show ?thesis
    by (simp add: periodEnd_def AddDate_def Year_def Month_def Day_def month_next_def)
qed

lemma weekday_Monday: "Weekday t = (if local_day t mod 7 = 6 then 0 else local_day t mod 7 + 1)"
proof -
  have "Weekday t = (local_day t mod 7 + 1) mod 7" by (simp add: Weekday_def mod_add_left_eq)
  moreover have "0 \<le> local_day t mod 7" "local_day t mod 7 < 7" by simp_all
  ultimately show ?thesis by (cases "local_day t mod 7 = 6") (simp, simp add: mod_pos_pos_trivial)
qed

lemma weekday_offset: "(if Weekday t = 0 then 7 else Weekday t) - 1 = local_day t mod 7"
proof -
  have "local_day t mod 7 + 1 \<noteq> 0" using pos_mod_sign [of 7 "local_day t"] by linarith
  then show ?thesis unfolding weekday_Monday by simp
qed

lemma periodStart_weekly:
  assumes "t_off t = 0"
  shows "t_ns (periodStart PeriodWeekly t) = 7 * (local_day t div 7) * day_ns"
proof -
  have "t_ns (periodStart PeriodWeekly t) =
      t_ns (Truncate_day (AddDate t 0 0 (- (local_day t mod 7))))"
    unfolding periodStart_def Let_def weekday_offset by simp
  also have "\<dots> = (t_ns t - local_day t mod 7 * day_ns) - t_ns t mod day_ns"
    by (simp add: AddDate_days Truncate_day_def mod_diff_right_eq [symmetric])
  also have "\<dots> = (local_day t - local_day t mod 7) * day_ns"
    using assms day_split(1) [of t] by (simp add: local_clock_def algebra_simps)
  also have "local_day t - local_day t mod 7 = 7 * (local_day t div 7)"
    by (simp add: minus_mod_eq_mult_div)
  finally show ?thesis by simp
qed

lemma periodEnd_weekly:
  assumes "t_off t = 0"
  shows "t_ns (periodEnd PeriodWeekly t) = (7 * (local_day t div 7) + 7) * day_ns"
  using periodStart_weekly [OF assms] by (simp add: periodEnd_def AddDate_days algebra_simps)

lemma ISOWeek_Thursday:
  "ISOWeek t = (year_of (7 * (local_day t div 7) + 3), yday_of (7 * (local_day t div 7) + 3) div 7 + 1)"
proof -
  let ?d = "4 - Weekday t"
  have "local_day t + (if ?d = 4 then -3 else ?d) = 7 * (local_day t div 7) + 3"
    using mult_div_mod_eq [of 7 "local_day t"] pos_mod_sign [of 7 "local_day t"]
    unfolding weekday_Monday by (cases "local_day t mod 7 = 6") (simp, smt (verit))
  then show ?thesis unfolding ISOWeek_def Let_def by (simp only:)
qed

lemma div7_close: "u div 7 = v div 7 \<Longrightarrow> u - v < 7 \<and> v - u < (7::int)"
  by presburger

lemma same_week_iff: "ISOWeek t = ISOWeek t' \<longleftrightarrow> local_day t div 7 = local_day t' div 7"
proof
  let ?a = "7 * (local_day t div 7) + 3" and ?b = "7 * (local_day t' div 7) + 3"
  assume "ISOWeek t = ISOWeek t'"
  then have y: "year_of ?a = year_of ?b" and w: "yday_of ?a div 7 = yday_of ?b div 7"
    by (simp_all add: ISOWeek_Thursday)
  have "?a - ?b = yday_of ?a - yday_of ?b"
    using year_yday_start [of ?a] year_yday_start [of ?b] y by simp
  with div7_close [OF w] show "local_day t div 7 = local_day t' div 7" by linarith
next
  assume "local_day t div 7 = local_day t' div 7"
  then show "ISOWeek t = ISOWeek t'" by (simp only: ISOWeek_Thursday)
qed

lemma year_of_pos: "0 \<le> d \<Longrightarrow> 1 \<le> year_of d"
proof (rule ccontr)
  assume d: "0 \<le> d" and "\<not> 1 \<le> year_of d"
  then have "year_of d + 1 \<le> 1" by simp
  then have "year_start (year_of d + 1) \<le> year_start 1"
    using year_start_mono [of "year_of d + 1" 1] by (cases "year_of d + 1 = 1") auto
  then have "year_start (year_of d + 1) \<le> 0" by (simp add: year_start_def)
  then show False
    using d year_yday_start [of d] yday_less [of d] unfolding year_start_Suc by linarith
qed

lemma pad2_digits:
  assumes "0 \<le> i" "i < 100"
  shows "pad2 i = [digit_char (nat i div 10), digit_char (nat i mod 10)]"
proof (cases "i < 10")
  case True
  moreover have "CHR ''0'' = digit_char 0" by code_simp
  ultimately show ?thesis using assms
    by (simp add: pad2_def show_int_def show_nat.simps [of "nat i"])
next
  case False
  then have "nat i div 10 < 10" "\<not> nat i < 10" using assms by auto
  with False show ?thesis
    by (simp add: pad2_def show_int_def show_nat.simps [of "nat i"] show_nat.simps [of "nat i div 10"])
qed

lemma pad2_inj:
  assumes "0 \<le> i" "i < 100" "0 \<le> j" "j < 100" "pad2 i = pad2 j"
  shows "i = j"
proof -
  have "nat i div 10 < 10" "nat j div 10 < 10" using assms by auto
  then have "nat i div 10 = nat j div 10" "nat i mod 10 = nat j mod 10"
    using assms(5) unfolding pad2_digits [OF assms(1,2)] pad2_digits [OF assms(3,4)]
    by (auto intro: digit_char_inj)
  then have "nat i = nat j" by (metis div_mult_mod_eq)
  with assms show ?thesis by simp
qed

lemma month_length: "1 \<le> m \<Longrightarrow> m \<le> 12 \<Longrightarrow> days_before y (m + 1) \<le> days_before y m + 31"
  by (erule (1) month_cases) simp_all

lemma dom_bounds [simp]: "1 \<le> dom_of d" "dom_of d \<le> 31"
  using month_days [of d] month_length [of "month_of d" "year_of d"] by (simp_all add: dom_of_def)

lemma two_part_inj:
  assumes "show_int y @ ''-'' @ r = show_int y' @ ''-'' @ r'" "0 \<le> y" "0 \<le> y'"
  shows "y = y' \<and> r = r'"
  using split_at_sep [of "show_int y" "CHR ''-''" r "show_int y'" r'] assms
  by (auto dest: show_int_inj)

lemma week_bounds: "0 \<le> yday_of d div 7 + 1" "yday_of d div 7 + 1 < 100"
proof -
  have "yday_of d < 366" using yday_less [of d] by (simp split: if_splits)
  then show "0 \<le> yday_of d div 7 + 1" "yday_of d div 7 + 1 < 100"
    using yday_nonneg [of d] by linarith+
qed

lemma suffix_monthly_iff:
  assumes "0 \<le> local_day t" "0 \<le> local_day t'"
  shows "period_suffix PeriodMonthly t = period_suffix PeriodMonthly t' \<longleftrightarrow>
    Year t = Year t' \<and> Month t = Month t'"
proof
  note y = year_of_pos [OF assms(1)] year_of_pos [OF assms(2)]
  assume "period_suffix PeriodMonthly t = period_suffix PeriodMonthly t'"
  then have "show_int (Year t) @ ''-'' @ pad2 (Month t) = show_int (Year t') @ ''-'' @ pad2 (Month t')"
    by (simp add: period_suffix_def)
  then have "Year t = Year t' \<and> pad2 (Month t) = pad2 (Month t')"
    by (rule two_part_inj) (use y in \<open>simp_all add: Year_def\<close>)
  then show "Year t = Year t' \<and> Month t = Month t'"
    using pad2_inj [of "Month t" "Month t'"] month_bounds [of "local_day t"]
      month_bounds [of "local_day t'"] by (simp add: Month_def)
qed (simp add: period_suffix_def)

lemma suffix_daily_iff:
  assumes "0 \<le> local_day t" "0 \<le> local_day t'"
  shows "period_suffix PeriodDaily t = period_suffix PeriodDaily t' \<longleftrightarrow> local_day t = local_day t'"
proof
  note y = year_of_pos [OF assms(1)] year_of_pos [OF assms(2)]
  have m: "0 \<le> Month t" "Month t < 100" "0 \<le> Month t'" "Month t' < 100"
    using month_bounds [of "local_day t"] month_bounds [of "local_day t'"]
    unfolding Month_def by linarith+
  have d: "0 \<le> Day t" "Day t < 100" "0 \<le> Day t'" "Day t' < 100"
    using dom_bounds [of "local_day t"] dom_bounds [of "local_day t'"]
    unfolding Day_def by linarith+
  assume "period_suffix PeriodDaily t = period_suffix PeriodDaily t'"
  then have "show_int (Year t) @ ''-'' @ (pad2 (Month t) @ ''-'' @ pad2 (Day t)) =
      show_int (Year t') @ ''-'' @ (pad2 (Month t') @ ''-'' @ pad2 (Day t'))"
    by (simp add: period_suffix_def)
  then have "Year t = Year t' \<and>
      pad2 (Month t) @ ''-'' @ pad2 (Day t) = pad2 (Month t') @ ''-'' @ pad2 (Day t')"
    by (rule two_part_inj) (use y in \<open>simp_all add: Year_def\<close>)
  then have yr: "Year t = Year t'"
    and "pad2 (Month t) @ CHR ''-'' # pad2 (Day t) = pad2 (Month t') @ CHR ''-'' # pad2 (Day t')"
    by simp_all
  from split_at_sep [OF this(2)] m
  have "pad2 (Month t) = pad2 (Month t')" "pad2 (Day t) = pad2 (Day t')" by simp_all
  then have "Month t = Month t'" "Day t = Day t'" using pad2_inj m d by blast+
  then show "local_day t = local_day t'"
    using yr same_day_iff unfolding Year_def Month_def Day_def by blast
qed (simp add: period_suffix_def Year_def Month_def Day_def)

lemma suffix_weekly_iff:
  assumes "0 \<le> local_day t" "0 \<le> local_day t'"
  shows "period_suffix PeriodWeekly t = period_suffix PeriodWeekly t' \<longleftrightarrow>
    local_day t div 7 = local_day t' div 7"
proof
  have pos: "0 \<le> 7 * (local_day t div 7) + 3" "0 \<le> 7 * (local_day t' div 7) + 3"
    using assms by simp_all
  obtain y w y' w' where iso: "ISOWeek t = (y, w)" "ISOWeek t' = (y', w')" by fastforce
  have b: "0 \<le> y" "0 \<le> y'" "0 \<le> w" "w < 100" "0 \<le> w'" "w' < 100"
    using iso year_of_pos [OF pos(1)] year_of_pos [OF pos(2)]
      week_bounds [of "7 * (local_day t div 7) + 3"] week_bounds [of "7 * (local_day t' div 7) + 3"]
    unfolding ISOWeek_Thursday by simp_all
  assume "period_suffix PeriodWeekly t = period_suffix PeriodWeekly t'"
  then have "show_int y @ ''-'' @ pad2 w = show_int y' @ ''-'' @ pad2 w'"
    by (simp add: period_suffix_def iso)
  then have "y = y' \<and> pad2 w = pad2 w'" using b by (intro two_part_inj)
  then have "ISOWeek t = ISOWeek t'" using iso b pad2_inj by auto
  then show "local_day t div 7 = local_day t' div 7" by (simp add: same_week_iff)
next
  assume "local_day t div 7 = local_day t' div 7"
  then have "ISOWeek t = ISOWeek t'" by (simp add: same_week_iff)
  then show "period_suffix PeriodWeekly t = period_suffix PeriodWeekly t'"
    by (simp add: period_suffix_def)
qed

section \<open>Counter parts and intervals\<close>

lemma interval_iff:
  "t_off t = t_off t' \<Longrightarrow>
   a * day_ns - t_off t \<le> t_ns t' \<and> t_ns t' < b * day_ns - t_off t \<longleftrightarrow>
   a \<le> local_day t' \<and> local_day t' < b"
  using day_le_iff [of a t'] day_le_iff [of b t'] by auto

lemma monthly_interval:
  assumes "t_off t = t_off t'" "0 \<le> local_day t" "0 \<le> local_day t'"
  shows "period_suffix PeriodMonthly t = period_suffix PeriodMonthly t' \<longleftrightarrow>
    t_ns (periodStart PeriodMonthly t) \<le> t_ns t' \<and> t_ns t' < t_ns (periodEnd PeriodMonthly t)"
  unfolding periodStart_monthly periodEnd_monthly suffix_monthly_iff [OF assms(2,3)]
    interval_iff [OF assms(1)] same_month_iff [symmetric] Year_def Month_def ..

lemma daily_interval:
  assumes "t_off t = t_off t'" "0 \<le> local_day t" "0 \<le> local_day t'"
  shows "period_suffix PeriodDaily t = period_suffix PeriodDaily t' \<longleftrightarrow>
    t_ns (periodStart PeriodDaily t) \<le> t_ns t' \<and> t_ns t' < t_ns (periodEnd PeriodDaily t)"
  unfolding periodStart_daily periodEnd_daily suffix_daily_iff [OF assms(2,3)]
    interval_iff [OF assms(1)] by auto

lemma weekly_interval:
  assumes "t_off t = 0" "t_off t' = 0" "0 \<le> local_day t" "0 \<le> local_day t'"
  shows "period_suffix PeriodWeekly t = period_suffix PeriodWeekly t' \<longleftrightarrow>
    t_ns (periodStart PeriodWeekly t) \<le> t_ns t' \<and> t_ns t' < t_ns (periodEnd PeriodWeekly t)"
proof -
  have "t_ns (periodStart PeriodWeekly t) \<le> t_ns t' \<and> t_ns t' < t_ns (periodEnd PeriodWeekly t) \<longleftrightarrow>
      7 * (local_day t div 7) \<le> local_day t' \<and> local_day t' < 7 * (local_day t div 7) + 7"
    using interval_iff [of t t'] assms(1,2)
    by (simp add: periodStart_weekly periodEnd_weekly)
  also have "\<dots> \<longleftrightarrow> local_day t div 7 = local_day t' div 7" by linarith
  finally show ?thesis by (simp add: suffix_weekly_iff [OF assms(3,4)])
qed

lemma period_suffix_interval:
  assumes "p = PeriodMonthly \<or> p = PeriodDaily \<or> p = PeriodWeekly \<and> t_off t = 0"
    and "t_off t = t_off t'" and "0 \<le> local_day t" and "0 \<le> local_day t'"
  shows "period_suffix p t = period_suffix p t' \<longleftrightarrow>
    t_ns (periodStart p t) \<le> t_ns t' \<and> t_ns t' < t_ns (periodEnd p t)"
  using assms(1)
proof (elim disjE conjE, goal_cases)
  case 1
  then show ?case using monthly_interval [OF assms(2-4)] by simp
next
  case 2
  then show ?case using daily_interval [OF assms(2-4)] by simp
next
  case 3
  then show ?case using weekly_interval [of t t'] assms(2-4) by simp
qed

section \<open>Properties\<close>

text \<open>Outside UTC the weekly boundaries are not those of the weekly counter: with a location
  eight hours behind UTC, the Monday on which a new ISO week (and a new counter) begins still lies
  before the end that was computed for the week of the Sunday before it.\<close>

theorem weekly_period_needs_UTC:
  "\<exists>t t'. t_off t = t_off t' \<and> period_suffix PeriodWeekly t \<noteq> period_suffix PeriodWeekly t' \<and>
     t_ns (periodStart PeriodWeekly t) \<le> t_ns t' \<and> t_ns t' < t_ns (periodEnd PeriodWeekly t)"
proof (intro exI conjI)
  let ?t = "\<lparr>t_ns = 63871732800000000000, t_off = - 28800000000000\<rparr>"
  let ?u = "\<lparr>t_ns = 63871750800000000000, t_off = - 28800000000000\<rparr>"
  show "t_off ?t = t_off ?u" by simp
  have d: "local_day ?t = 739255" "local_day ?u = 739256"
    by (simp_all add: local_day_def day_ns_def)
  show "period_suffix PeriodWeekly ?t \<noteq> period_suffix PeriodWeekly ?u"
    by (subst suffix_weekly_iff) (simp_all add: d)
  have "Weekday ?t = 0" by (simp add: Weekday_def d)
  then have s: "t_ns (periodStart PeriodWeekly ?t) = 63871200000000000000"
    by (simp add: periodStart_def AddDate_days Truncate_day_def day_ns_def)
  then show "t_ns (periodStart PeriodWeekly ?t) \<le> t_ns ?u" by simp
  show "t_ns ?u < t_ns (periodEnd PeriodWeekly ?t)"
    using s by (simp add: periodEnd_def AddDate_days day_ns_def)
qed

end
