(* ===== verification/Store.thy ===== *)
theory Store
  imports Complex_Main Clock
begin

text \<open>
  The two stores behind the gateway. Postgres tables are lists of rows: \<open>First\<close> is the first row
  that satisfies the where clause, \<open>Find\<close> all of them; a flag says that the database does not
  answer, which is how the error branches of the queries are reached. Redis is a service of its
  own and therefore a parameter: a record of its commands over an arbitrary state, together with
  the laws that its documentation gives for plain counters. Values stored in Redis are an
  arbitrary type, read through the parsers and codecs that the client code applies to them.
\<close>

section \<open>Database queries\<close>

datatype db_error = RecordNotFound | DBUnavailable

definition db_first :: "bool \<Rightarrow> ('a \<Rightarrow> bool) \<Rightarrow> 'a list \<Rightarrow> (db_error, 'a) result" where
  "db_first down P rows =
     (if down then Inl DBUnavailable
      else case find P rows of None \<Rightarrow> Inl RecordNotFound | Some r \<Rightarrow> Inr r)"

text \<open>A \<open>Find\<close> whose error the caller ignores leaves the slice empty.\<close>

definition db_find :: "bool \<Rightarrow> ('a \<Rightarrow> bool) \<Rightarrow> 'a list \<Rightarrow> 'a list" where
  "db_find down P rows = (if down then [] else filter P rows)"

section \<open>Redis\<close>

record ('s, 'v) redis_ops =
  rd_Get :: "'s \<Rightarrow> string \<Rightarrow> 'v option"
  rd_Set :: "'s \<Rightarrow> string \<Rightarrow> 'v \<Rightarrow> int \<Rightarrow> 's"
  rd_Del :: "'s \<Rightarrow> string \<Rightarrow> 's"
  rd_IncrByFloat :: "'s \<Rightarrow> string \<Rightarrow> rat \<Rightarrow> 's"
  rd_IncrBy :: "'s \<Rightarrow> string \<Rightarrow> int \<Rightarrow> 's \<times> int option"
  rd_ExpireAt :: "'s \<Rightarrow> string \<Rightarrow> int \<Rightarrow> 's"
  rd_Expire :: "'s \<Rightarrow> string \<Rightarrow> int \<Rightarrow> 's"
  rd_TTL :: "'s \<Rightarrow> string \<Rightarrow> int option"
  rd_now :: "'s \<Rightarrow> int"

record ('a, 'v) codec =
  cd_Marshal :: "'a \<Rightarrow> 'v option"
  cd_Unmarshal :: "'v \<Rightarrow> 'a option"

text \<open>The number a counter key holds, if any.\<close>

definition counter_val :: "('s, 'v) redis_ops \<Rightarrow> ('v \<Rightarrow> rat option) \<Rightarrow> 's \<Rightarrow> string \<Rightarrow> rat option" where
  "counter_val R parse s k = (case rd_Get R s k of None \<Rightarrow> None | Some v \<Rightarrow> parse v)"

definition counter_num :: "('s, 'v) redis_ops \<Rightarrow> ('v \<Rightarrow> rat option) \<Rightarrow> 's \<Rightarrow> string \<Rightarrow> rat" where
  "counter_num R parse s k = (case counter_val R parse s k of None \<Rightarrow> 0 | Some x \<Rightarrow> x)"

definition is_counter :: "('s, 'v) redis_ops \<Rightarrow> ('v \<Rightarrow> rat option) \<Rightarrow> 's \<Rightarrow> string \<Rightarrow> bool" where
  "is_counter R parse s k = (case rd_Get R s k of None \<Rightarrow> True | Some v \<Rightarrow> parse v \<noteq> None)"

text \<open>
  Documented behaviour of float counters. \<open>INCRBYFLOAT\<close> on a missing or numeric key leaves the key
  numeric with the sum (\<open>fadd\<close> is the addition at the precision of the server) and touches no
  other key; \<open>EXPIREAT\<close> with an instant in the future changes no value; neither moves the clock.
\<close>

definition float_counters ::
  "('s, 'v) redis_ops \<Rightarrow> ('v \<Rightarrow> rat option) \<Rightarrow> (rat \<Rightarrow> rat \<Rightarrow> rat) \<Rightarrow> bool" where
  "float_counters R parse fadd \<longleftrightarrow>
     (\<forall>s k a. is_counter R parse s k \<longrightarrow>
        counter_val R parse (rd_IncrByFloat R s k a) k = Some (fadd (counter_num R parse s k) a)) \<and>
     (\<forall>s k k' a. k' \<noteq> k \<longrightarrow> rd_Get R (rd_IncrByFloat R s k a) k' = rd_Get R s k') \<and>
     (\<forall>s k e k'. rd_now R s < e \<longrightarrow> rd_Get R (rd_ExpireAt R s k e) k' = rd_Get R s k') \<and>
     (\<forall>s k a. rd_now R (rd_IncrByFloat R s k a) = rd_now R s) \<and>
     (\<forall>s k e. rd_now R (rd_ExpireAt R s k e) = rd_now R s)"

text \<open>The pair of commands that every float counter is bumped with.\<close>

definition bump :: "('s, 'v) redis_ops \<Rightarrow> rat \<Rightarrow> string \<times> int \<Rightarrow> 's \<Rightarrow> 's" where
  "bump R a = (\<lambda>(k, e) s. rd_ExpireAt R (rd_IncrByFloat R s k a) k e)"

definition second_ns :: int where "second_ns = 10 ^ 9"

text \<open>A read-through cache: the shape that the resolver and the engine give every cached read.
  A value that cannot be unmarshalled counts as a miss; only a successful load is stored.\<close>

definition read_through :: "('s, 'v) redis_ops option \<Rightarrow> ('a, 'v) codec \<Rightarrow> string \<Rightarrow> int \<Rightarrow>
    ('e, 'a) result \<Rightarrow> 's \<Rightarrow> ('e, 'a) result \<times> 's" where
  "read_through rdb cd cacheKey ttl load s =
     (case rdb of
        None \<Rightarrow> (load, s)
      | Some R \<Rightarrow>
          (case (case rd_Get R s cacheKey of None \<Rightarrow> None | Some v \<Rightarrow> cd_Unmarshal cd v) of
             Some x \<Rightarrow> (Inr x, s)
           | None \<Rightarrow>
               (case load of
                  Inl e \<Rightarrow> (Inl e, s)
                | Inr x \<Rightarrow> (Inr x, case cd_Marshal cd x of
                                     None \<Rightarrow> s | Some v \<Rightarrow> rd_Set R s cacheKey v ttl))))"

text \<open>Documented behaviour of the plain commands: \<open>SET\<close> and \<open>DEL\<close> act on their key and on no other.\<close>

definition kv_store :: "('s, 'v) redis_ops \<Rightarrow> bool" where
  "kv_store R \<longleftrightarrow>
     (\<forall>s k v ttl. rd_Get R (rd_Set R s k v ttl) k = Some v) \<and>
     (\<forall>s k k' v ttl. k' \<noteq> k \<longrightarrow> rd_Get R (rd_Set R s k v ttl) k' = rd_Get R s k') \<and>
     (\<forall>s k. rd_Get R (rd_Del R s k) k = None) \<and>
     (\<forall>s k k'. k' \<noteq> k \<longrightarrow> rd_Get R (rd_Del R s k) k' = rd_Get R s k')"

text \<open>A codec loses nothing: what it marshals it reads back.\<close>

definition lossless :: "('a, 'v) codec \<Rightarrow> bool" where
  "lossless cd \<longleftrightarrow> (\<forall>x. \<exists>v. cd_Marshal cd x = Some v \<and> cd_Unmarshal cd v = Some x)"

section \<open>Notifications and scopes\<close>

record NotificationEventMsg =
  ne_TenantID :: nat
  ne_EventType :: string
  ne_KeyID :: string
  ne_Provider :: string
  ne_Model :: string
  ne_Details :: string

abbreviation "BudgetScopeAccount \<equiv> ''account''"
abbreviation "BudgetScopeAPIKey \<equiv> ''api_key''"

section \<open>Lemmas\<close>

lemma db_first_Inr: "db_first down P rows = Inr r \<longleftrightarrow> \<not> down \<and> find P rows = Some r"
  by (simp add: db_first_def split: option.split)

lemma set_db_find: "r \<in> set (db_find down P rows) \<longleftrightarrow> \<not> down \<and> r \<in> set rows \<and> P r"
  by (auto simp: db_find_def)

lemma kv_simps:
  assumes "kv_store R"
  shows "rd_Get R (rd_Set R s k v ttl) k = Some v" "k' \<noteq> k \<Longrightarrow> rd_Get R (rd_Set R s k v ttl) k' = rd_Get R s k'"
    "rd_Get R (rd_Del R s k) k = None" "k' \<noteq> k \<Longrightarrow> rd_Get R (rd_Del R s k) k' = rd_Get R s k'"
  using assms by (simp_all add: kv_store_def)

lemma lossless_roundtrip: "lossless cd \<Longrightarrow> cd_Marshal cd x = Some v \<Longrightarrow> cd_Unmarshal cd v = Some x"
  by (metis lossless_def option.inject)

lemma losslessE:
  assumes "lossless cd" obtains v where "cd_Marshal cd x = Some v" "cd_Unmarshal cd v = Some x"
  using assms unfolding lossless_def by blast

lemma counter_val_cong: "rd_Get R s k = rd_Get R s' k \<Longrightarrow>
    counter_val R parse s k = counter_val R parse s' k"
  and counter_num_cong: "rd_Get R s k = rd_Get R s' k \<Longrightarrow>
    counter_num R parse s k = counter_num R parse s' k"
  and is_counter_cong: "rd_Get R s k = rd_Get R s' k \<Longrightarrow>
    is_counter R parse s k = is_counter R parse s' k"
  by (simp_all add: counter_val_def counter_num_def is_counter_def)

lemma incr_val: "float_counters R parse fadd \<Longrightarrow> is_counter R parse s k \<Longrightarrow>
    counter_val R parse (rd_IncrByFloat R s k a) k = Some (fadd (counter_num R parse s k) a)"
  and incr_frame: "float_counters R parse fadd \<Longrightarrow> k' \<noteq> k \<Longrightarrow>
    rd_Get R (rd_IncrByFloat R s k a) k' = rd_Get R s k'"
  and incr_now: "float_counters R parse fadd \<Longrightarrow> rd_now R (rd_IncrByFloat R s k a) = rd_now R s"
  and expire_frame: "float_counters R parse fadd \<Longrightarrow> rd_now R s < e \<Longrightarrow>
    rd_Get R (rd_ExpireAt R s k e) k' = rd_Get R s k'"
  and expire_now: "float_counters R parse fadd \<Longrightarrow> rd_now R (rd_ExpireAt R s k e) = rd_now R s"
  by (auto simp: float_counters_def)

lemma bump_now: "float_counters R parse fadd \<Longrightarrow> rd_now R (bump R a ke s) = rd_now R s"
  by (cases ke) (simp add: bump_def incr_now expire_now)

lemma bump_frame:
  assumes "float_counters R parse fadd" "rd_now R s < snd ke" "k' \<noteq> fst ke"
  shows "rd_Get R (bump R a ke s) k' = rd_Get R s k'"
  using assms by (cases ke) (simp add: bump_def incr_now expire_frame incr_frame)

lemma bump_val:
  assumes "float_counters R parse fadd" "rd_now R s < snd ke" "is_counter R parse s (fst ke)"
  shows "counter_val R parse (bump R a ke s) (fst ke) = Some (fadd (counter_num R parse s (fst ke)) a)"
proof -
  let ?t = "rd_IncrByFloat R s (fst ke) a"
  have "rd_Get R (bump R a ke s) (fst ke) = rd_Get R ?t (fst ke)"
    using assms by (simp add: bump_def case_prod_unfold incr_now expire_frame)
  then show ?thesis using incr_val [OF assms(1,3)] counter_val_cong by metis
qed

lemma fold_bump_now: "float_counters R parse fadd \<Longrightarrow> rd_now R (fold (bump R a) kes s) = rd_now R s"
  by (induction kes arbitrary: s) (simp_all add: bump_now)

lemma fold_bump_frame:
  assumes "float_counters R parse fadd" "\<forall>ke \<in> set kes. rd_now R s < snd ke"
    "k' \<notin> fst ` set kes"
  shows "rd_Get R (fold (bump R a) kes s) k' = rd_Get R s k'"
  using assms(2,3)
proof (induction kes arbitrary: s)
  case (Cons ke kes)
  then have "rd_Get R (fold (bump R a) kes (bump R a ke s)) k' = rd_Get R (bump R a ke s) k'"
    by (intro Cons.IH) (simp_all add: bump_now [OF assms(1)])
  also have "\<dots> = rd_Get R s k'" using Cons.prems by (intro bump_frame [OF assms(1)]) auto
  finally show ?case by simp
qed simp

text \<open>Bumping a list of pairwise different counters adds the amount to each exactly once.\<close>

lemma fold_bump_val:
  assumes "float_counters R parse fadd" "\<forall>ke \<in> set kes. rd_now R s < snd ke"
    "distinct (map fst kes)" "k \<in> fst ` set kes" "is_counter R parse s k"
  shows "counter_val R parse (fold (bump R a) kes s) k = Some (fadd (counter_num R parse s k) a)"
  using assms(2-5)
proof (induction kes arbitrary: s)
  case (Cons ke kes)
  let ?s = "bump R a ke s"
  have now: "\<forall>ke \<in> set kes. rd_now R ?s < snd ke"
    using Cons.prems(1) by (simp add: bump_now [OF assms(1)])
  show ?case
  proof (cases "k = fst ke")
    case True
    then have "k \<notin> fst ` set kes" using Cons.prems by auto
    then have "rd_Get R (fold (bump R a) kes ?s) k = rd_Get R ?s k"
      by (rule fold_bump_frame [OF assms(1) now])
    then have "counter_val R parse (fold (bump R a) kes ?s) k = counter_val R parse ?s k"
      by (rule counter_val_cong)
    with True show ?thesis using bump_val [OF assms(1), of s ke] Cons.prems by simp
  next
    case False
    then have fr: "rd_Get R ?s k = rd_Get R s k"
      using Cons.prems by (intro bump_frame [OF assms(1)]) auto
    have "counter_val R parse (fold (bump R a) kes ?s) k = Some (fadd (counter_num R parse ?s k) a)"
      using False Cons.prems is_counter_cong [OF fr] by (intro Cons.IH [OF now]) auto
    then show ?thesis by (simp add: counter_num_cong [OF fr])
  qed
qed simp

section \<open>An instance of the parameters\<close>

text \<open>A map without expiry satisfies the laws of the plain commands, and the identity those of a codec.\<close>

definition kv_redis :: "(string \<Rightarrow> 'v option, 'v) redis_ops" where
  "kv_redis = \<lparr>rd_Get = (\<lambda>s k. s k), rd_Set = (\<lambda>s k v ttl. s(k \<mapsto> v)), rd_Del = (\<lambda>s k. s(k := None)),
     rd_IncrByFloat = (\<lambda>s k a. s), rd_IncrBy = (\<lambda>s k n. (s, None)), rd_ExpireAt = (\<lambda>s k e. s),
     rd_Expire = (\<lambda>s k ttl. s), rd_TTL = (\<lambda>s k. None), rd_now = (\<lambda>_. 0)\<rparr>"

definition id_codec :: "('a, 'a) codec" where
  "id_codec = \<lparr>cd_Marshal = Some, cd_Unmarshal = Some\<rparr>"

lemma kv_redis_laws: "kv_store kv_redis" and id_codec_lossless: "lossless id_codec"
  by (simp_all add: kv_store_def kv_redis_def lossless_def id_codec_def)

end
