(* ===== verification/ProviderKeys.thy ===== *)
theory ProviderKeys
  imports Models Store
begin

text \<open>
  Upstream provider keys (\<open>services/providerkey_service.go\<close>): envelope encryption, the in-process
  cache of plaintexts with a sliding and a hard expiry, the Redis cache of the active key of a
  tenant and provider, and activation, rotation and revocation.

  Redis and the database are shared by all server processes, the plaintext cache belongs to one; the
  operations take the three apart. The cipher (AES-GCM), the JSON codec, the random draws and the
  primary keys of new rows are parameters. An empty plaintext is the nil slice. A call reads the clock
  more than once; \<open>now'\<close> is a later reading than \<open>now\<close>.
\<close>

section \<open>Rows, caches and parameters\<close>

record ProviderKey =
  pk_ID :: nat
  pk_TenantID :: nat
  pk_Provider :: string
  pk_Label :: string
  pk_EncryptedKey :: string
  pk_KeyNonce :: string
  pk_EncryptedDEK :: string
  pk_DEKNonce :: string
  pk_Revoked :: bool
  pk_CreatedAt :: int

record TenantProviderSettings =
  tps_TenantID :: nat
  tps_Provider :: string
  tps_ActiveKeyID :: nat
  tps_PolicyVersion :: int
  tps_UpdatedAt :: int

record tpsCacheEntry =
  te_ActiveKeyID :: nat
  te_PolicyVersion :: int
  te_HardExpiry :: int

record cachedProviderKey =
  cp_plaintext :: string
  cp_idleExpiry :: int
  cp_hardExpiry :: int

type_synonym plaintext_cache = "nat \<rightharpoonup> cachedProviderKey"

record pk_db =
  pkd_err :: "string option"
  pkd_Keys :: "ProviderKey list"
  pkd_Settings :: "TenantProviderSettings list"

record ('s, 'v) ProviderKeyService =
  ps_masterKey :: string
  ps_Seal :: "string \<Rightarrow> string \<Rightarrow> string \<Rightarrow> string option"
  ps_Open :: "string \<Rightarrow> string \<Rightarrow> string \<Rightarrow> string option"
  ps_rdb :: "('s, 'v) redis_ops option"
  ps_codec :: "(tpsCacheEntry, 'v) codec"

text \<open>The reason in a format error stands for the explanation that follows the sentinel error.\<close>

datatype pk_format = NotAnthropicKey | LooksLikeAnthropic | NotOpenAIKey | LooksLikeOpenAI

datatype pk_error =
  ErrProviderKeyNotFound | ErrNoActiveKey | ErrInvalidProviderKeyFormat pk_format | ErrLoad string |
  ErrGenerateDEK | ErrEncrypt | ErrDecrypt string | ErrStore string | ErrRevokedKey string |
  ErrTokenGateKey string | ErrMisconfigured pk_error

definition providerKeyIdleTTL :: int where "providerKeyIdleTTL = 30 * second_ns"
definition providerKeyHardTTL :: int where "providerKeyHardTTL = 300 * second_ns"
definition tpsIdleTTL :: int where "tpsIdleTTL = 30 * second_ns"
definition tpsHardTTL :: int where "tpsHardTTL = 300 * second_ns"

section \<open>Formats\<close>

definition ValidateProviderKeyFormat :: "string \<Rightarrow> string \<Rightarrow> pk_error option" where
  "ValidateProviderKeyFormat provider apiKey =
     (let isAnthropic = strings_HasPrefix apiKey ''sk-ant-'';
          isOpenAIShaped = (strings_HasPrefix apiKey ''sk-'' \<and> \<not> isAnthropic)
      in if provider = ''anthropic'' then
           (if \<not> isAnthropic then Some (ErrInvalidProviderKeyFormat NotAnthropicKey) else None)
         else if provider = ''openai'' then
           (if isAnthropic then Some (ErrInvalidProviderKeyFormat LooksLikeAnthropic)
            else if \<not> strings_HasPrefix apiKey ''sk-'' then Some (ErrInvalidProviderKeyFormat NotOpenAIKey)
            else None)
         else if provider = ''gemini'' \<or> provider = ''bedrock'' \<or> provider = ''vertex'' then
           (if isAnthropic then Some (ErrInvalidProviderKeyFormat LooksLikeAnthropic)
            else if isOpenAIShaped then Some (ErrInvalidProviderKeyFormat LooksLikeOpenAI)
            else None)
         else None)"

section \<open>Redis cache of the active key\<close>

definition tpsCacheKey :: "nat \<Rightarrow> string \<Rightarrow> string" where
  "tpsCacheKey tenantID provider = ''tps:'' @ show_nat tenantID @ '':'' @ provider"

definition cacheTPS :: "('s, 'v) ProviderKeyService \<Rightarrow> int \<Rightarrow> TenantProviderSettings \<Rightarrow> 's \<Rightarrow> 's" where
  "cacheTPS svc now settings s =
     (case ps_rdb svc of
        None \<Rightarrow> s
      | Some R \<Rightarrow>
          (case cd_Marshal (ps_codec svc) \<lparr>te_ActiveKeyID = tps_ActiveKeyID settings,
                  te_PolicyVersion = tps_PolicyVersion settings, te_HardExpiry = now + tpsHardTTL\<rparr> of
             None \<Rightarrow> s
           | Some b \<Rightarrow> rd_Set R s (tpsCacheKey (tps_TenantID settings) (tps_Provider settings)) b tpsIdleTTL))"

definition invalidateTPS :: "('s, 'v) ProviderKeyService \<Rightarrow> nat \<Rightarrow> string \<Rightarrow> 's \<Rightarrow> 's" where
  "invalidateTPS svc tenantID provider s =
     (case ps_rdb svc of None \<Rightarrow> s | Some R \<Rightarrow> rd_Del R s (tpsCacheKey tenantID provider))"

section \<open>Encryption and storage\<close>

definition aesGCMEncrypt :: "('s, 'v) ProviderKeyService \<Rightarrow> string \<Rightarrow> string option \<Rightarrow> string \<Rightarrow> (string \<times> string) option" where
  "aesGCMEncrypt svc key nonce plaintext =
     (case nonce of
        None \<Rightarrow> None
      | Some n \<Rightarrow> map_option (\<lambda>ciphertext. (ciphertext, n)) (ps_Seal svc key n plaintext))"

definition aesGCMDecrypt :: "('s, 'v) ProviderKeyService \<Rightarrow> string \<Rightarrow> string \<Rightarrow> string \<Rightarrow> string option" where
  "aesGCMDecrypt svc key ciphertext nonce = ps_Open svc key ciphertext nonce"

record draws =
  dw_dek :: "string option"
  dw_keyNonce :: "string option"
  dw_dekNonce :: "string option"
  dw_ID :: nat

text \<open>The steps that \<open>Store\<close> and \<open>Rotate\<close> share: draw a data key, encrypt the plaintext with it and the
  data key with the master key, and fill the row.\<close>

definition seal_key :: "('s, 'v) ProviderKeyService \<Rightarrow> int \<Rightarrow> draws \<Rightarrow> nat \<Rightarrow> string \<Rightarrow> string \<Rightarrow> string \<Rightarrow>
    (pk_error, ProviderKey) result" where
  "seal_key svc now dw tenantID provider label plaintextKey =
     (case dw_dek dw of
        None \<Rightarrow> Inl ErrGenerateDEK
      | Some dek \<Rightarrow>
          (case aesGCMEncrypt svc dek (dw_keyNonce dw) plaintextKey of
             None \<Rightarrow> Inl ErrEncrypt
           | Some (encKey, keyNonce) \<Rightarrow>
               (case aesGCMEncrypt svc (ps_masterKey svc) (dw_dekNonce dw) dek of
                  None \<Rightarrow> Inl ErrEncrypt
                | Some (encDEK, dekNonce) \<Rightarrow>
                    Inr \<lparr>pk_ID = dw_ID dw, pk_TenantID = tenantID, pk_Provider = provider, pk_Label = label,
                         pk_EncryptedKey = encKey, pk_KeyNonce = keyNonce, pk_EncryptedDEK = encDEK,
                         pk_DEKNonce = dekNonce, pk_Revoked = False, pk_CreatedAt = now\<rparr>)))"

definition Store :: "('s, 'v) ProviderKeyService \<Rightarrow> int \<Rightarrow> draws \<Rightarrow> nat \<Rightarrow> string \<Rightarrow> string \<Rightarrow> string \<Rightarrow> pk_db \<Rightarrow>
    (pk_error, ProviderKey) result \<times> pk_db" where
  "Store svc now dw tenantID provider label plaintextKey db =
     (case ValidateProviderKeyFormat provider plaintextKey of
        Some e \<Rightarrow> (Inl e, db)
      | None \<Rightarrow>
          (case seal_key svc now dw tenantID provider label plaintextKey of
             Inl e \<Rightarrow> (Inl e, db)
           | Inr pk \<Rightarrow>
               (case pkd_err db of
                  Some e \<Rightarrow> (Inl (ErrStore e), db)
                | None \<Rightarrow> (Inr pk, db\<lparr>pkd_Keys := pkd_Keys db @ [pk]\<rparr>))))"

section \<open>Reading keys\<close>

definition first_key :: "nat \<Rightarrow> pk_db \<Rightarrow> (pk_error, ProviderKey) result" where
  "first_key keyID db =
     (case db_first (pkd_err db \<noteq> None) (\<lambda>pk. pk_ID pk = keyID) (pkd_Keys db) of
        Inl RecordNotFound \<Rightarrow> Inl ErrProviderKeyNotFound
      | Inl DBUnavailable \<Rightarrow> Inl (ErrLoad (case pkd_err db of None \<Rightarrow> [] | Some e \<Rightarrow> e))
      | Inr pk \<Rightarrow> Inr pk)"

definition decrypt_row :: "('s, 'v) ProviderKeyService \<Rightarrow> ProviderKey \<Rightarrow> (pk_error, string) result" where
  "decrypt_row svc pk =
     (case aesGCMDecrypt svc (ps_masterKey svc) (pk_EncryptedDEK pk) (pk_DEKNonce pk) of
        None \<Rightarrow> Inl (ErrDecrypt ''decrypt DEK'')
      | Some dek \<Rightarrow>
          (case aesGCMDecrypt svc dek (pk_EncryptedKey pk) (pk_KeyNonce pk) of
             None \<Rightarrow> Inl (ErrDecrypt ''decrypt key'')
           | Some plaintext \<Rightarrow> Inr plaintext))"

definition load_plaintext :: "('s, 'v) ProviderKeyService \<Rightarrow> int \<Rightarrow> nat \<Rightarrow> pk_db \<Rightarrow> plaintext_cache \<Rightarrow>
    (pk_error, string) result \<times> plaintext_cache" where
  "load_plaintext svc now keyID db cache =
     (case first_key keyID db of
        Inl e \<Rightarrow> (Inl e, cache)
      | Inr pk \<Rightarrow>
          if pk_Revoked pk then (Inl ErrProviderKeyNotFound, cache)
          else (case decrypt_row svc pk of
                  Inl e \<Rightarrow> (Inl e, cache)
                | Inr plaintext \<Rightarrow>
                    (Inr plaintext, cache(keyID \<mapsto> \<lparr>cp_plaintext = plaintext, cp_idleExpiry = now + providerKeyIdleTTL,
                                                cp_hardExpiry = now + providerKeyHardTTL\<rparr>))))"

definition GetPlaintext :: "('s, 'v) ProviderKeyService \<Rightarrow> int \<Rightarrow> int \<Rightarrow> nat \<Rightarrow> pk_db \<Rightarrow> plaintext_cache \<Rightarrow>
    (pk_error, string) result \<times> plaintext_cache" where
  "GetPlaintext svc now now' keyID db cache =
     (case cache keyID of
        Some cached \<Rightarrow>
          if now < cp_idleExpiry cached \<and> now < cp_hardExpiry cached
          then (Inr (cp_plaintext cached), cache(keyID \<mapsto> cached\<lparr>cp_idleExpiry := now' + providerKeyIdleTTL\<rparr>))
          else load_plaintext svc now' keyID db (cache(keyID := None))
      | None \<Rightarrow> load_plaintext svc now' keyID db cache)"

definition first_settings :: "nat \<Rightarrow> string \<Rightarrow> pk_db \<Rightarrow> (db_error, TenantProviderSettings) result" where
  "first_settings tenantID provider db =
     db_first (pkd_err db \<noteq> None) (\<lambda>t. tps_TenantID t = tenantID \<and> tps_Provider t = provider) (pkd_Settings db)"

definition check_plaintext :: "string \<Rightarrow> string \<Rightarrow> (pk_error, string) result" where
  "check_plaintext provider plaintext =
     (if strings_HasPrefix plaintext ''tg_'' then Inl (ErrTokenGateKey provider)
      else case ValidateProviderKeyFormat provider plaintext of
             Some e \<Rightarrow> Inl (ErrMisconfigured e)
           | None \<Rightarrow> Inr plaintext)"

text \<open>The slow path of \<open>GetActiveKey\<close>, up to the checks on the plaintext.\<close>

definition active_from_db :: "('s, 'v) ProviderKeyService \<Rightarrow> int \<Rightarrow> int \<Rightarrow> nat \<Rightarrow> string \<Rightarrow> pk_db \<Rightarrow>
    's \<times> plaintext_cache \<Rightarrow> (pk_error, string) result \<times> 's \<times> plaintext_cache" where
  "active_from_db svc now now' tenantID provider db = (\<lambda>(s, cache).
     (case first_settings tenantID provider db of
        Inl RecordNotFound \<Rightarrow> (Inl ErrNoActiveKey, s, cache)
      | Inl DBUnavailable \<Rightarrow> (Inl (ErrLoad (case pkd_err db of None \<Rightarrow> [] | Some e \<Rightarrow> e)), s, cache)
      | Inr settings \<Rightarrow>
          if tps_ActiveKeyID settings = 0 then (Inl ErrNoActiveKey, s, cache)
          else (case GetPlaintext svc now now' (tps_ActiveKeyID settings) db cache of
                  (r, cache') \<Rightarrow> (r, cacheTPS svc now settings s, cache'))))"

text \<open>The fast path: the plaintext if the Redis entry gives one, an error, or neither (\<open>None\<close>).\<close>

definition active_from_cache :: "('s, 'v) ProviderKeyService \<Rightarrow> int \<Rightarrow> int \<Rightarrow> nat \<Rightarrow> string \<Rightarrow> pk_db \<Rightarrow>
    's \<times> plaintext_cache \<Rightarrow> (pk_error, string) result option \<times> 's \<times> plaintext_cache" where
  "active_from_cache svc now now' tenantID provider db = (\<lambda>(s, cache).
     (case ps_rdb svc of
        None \<Rightarrow> (None, s, cache)
      | Some R \<Rightarrow>
          (let key = tpsCacheKey tenantID provider
           in case (case rd_Get R s key of None \<Rightarrow> None | Some raw \<Rightarrow> cd_Unmarshal (ps_codec svc) raw) of
                None \<Rightarrow> (None, s, cache)
              | Some entry \<Rightarrow>
                  if te_ActiveKeyID entry = 0 then (None, s, cache)
                  else if now < te_HardExpiry entry
                  then (case GetPlaintext svc now now' (te_ActiveKeyID entry) db cache of
                          (Inl e, cache') \<Rightarrow> (Some (Inl e), rd_Expire R s key tpsIdleTTL, cache')
                        | (Inr pt, cache') \<Rightarrow>
                            (if pt = [] then None else Some (Inr pt), rd_Expire R s key tpsIdleTTL, cache'))
                  else (None, rd_Del R s key, cache))))"

definition GetActiveKey :: "('s, 'v) ProviderKeyService \<Rightarrow> int \<Rightarrow> int \<Rightarrow> nat \<Rightarrow> string \<Rightarrow> pk_db \<Rightarrow>
    's \<times> plaintext_cache \<Rightarrow> (pk_error, string) result \<times> 's \<times> plaintext_cache" where
  "GetActiveKey svc now now' tenantID provider db st =
     (case active_from_cache svc now now' tenantID provider db st of
        (Some (Inl e), st') \<Rightarrow> (Inl e, st')
      | (Some (Inr plaintext), st') \<Rightarrow> (check_plaintext provider plaintext, st')
      | (None, st') \<Rightarrow>
          (case active_from_db svc now now' tenantID provider db st' of
             (Inl e, st'') \<Rightarrow> (Inl e, st'')
           | (Inr plaintext, st'') \<Rightarrow> (check_plaintext provider plaintext, st'')))"

section \<open>Changing keys\<close>

text \<open>Insert the settings row, or on conflict point it at the key and bump its policy version.\<close>

definition upsert_settings :: "int \<Rightarrow> nat \<Rightarrow> string \<Rightarrow> nat \<Rightarrow> TenantProviderSettings list \<Rightarrow> TenantProviderSettings list" where
  "upsert_settings now tenantID provider keyID rows =
     (if list_ex (\<lambda>t. tps_TenantID t = tenantID \<and> tps_Provider t = provider) rows
      then map (\<lambda>t. if tps_TenantID t = tenantID \<and> tps_Provider t = provider
                    then t\<lparr>tps_ActiveKeyID := keyID, tps_UpdatedAt := now, tps_PolicyVersion := tps_PolicyVersion t + 1\<rparr>
                    else t) rows
      else rows @ [\<lparr>tps_TenantID = tenantID, tps_Provider = provider, tps_ActiveKeyID = keyID, tps_PolicyVersion = 1,
                    tps_UpdatedAt = now\<rparr>])"

definition revoke_row :: "nat \<Rightarrow> ProviderKey list \<Rightarrow> ProviderKey list" where
  "revoke_row keyID rows = map (\<lambda>pk. if pk_ID pk = keyID then pk\<lparr>pk_Revoked := True\<rparr> else pk) rows"

definition Activate :: "('s, 'v) ProviderKeyService \<Rightarrow> int \<Rightarrow> nat \<Rightarrow> nat \<Rightarrow> pk_db \<Rightarrow> 's \<Rightarrow>
    pk_error option \<times> pk_db \<times> 's" where
  "Activate svc now tenantID keyID db s =
     (case first_key keyID db of
        Inl e \<Rightarrow> (Some e, db, s)
      | Inr pk \<Rightarrow>
          if pk_TenantID pk \<noteq> tenantID then (Some ErrProviderKeyNotFound, db, s)
          else if pk_Revoked pk then (Some (ErrRevokedKey ''cannot activate a revoked key''), db, s)
          else (None, db\<lparr>pkd_Settings := upsert_settings now tenantID (pk_Provider pk) keyID (pkd_Settings db)\<rparr>,
                invalidateTPS svc tenantID (pk_Provider pk) s))"

definition Rotate :: "('s, 'v) ProviderKeyService \<Rightarrow> int \<Rightarrow> draws \<Rightarrow> nat \<Rightarrow> nat \<Rightarrow> string \<Rightarrow> string \<Rightarrow> pk_db \<Rightarrow>
    's \<times> plaintext_cache \<Rightarrow> (pk_error, ProviderKey) result \<times> pk_db \<times> 's \<times> plaintext_cache" where
  "Rotate svc now dw tenantID oldKeyID label plaintextKey db = (\<lambda>(s, cache).
     (case first_key oldKeyID db of
        Inl e \<Rightarrow> (Inl e, db, s, cache)
      | Inr oldKey \<Rightarrow>
          if pk_TenantID oldKey \<noteq> tenantID then (Inl ErrProviderKeyNotFound, db, s, cache)
          else if pk_Revoked oldKey then (Inl (ErrRevokedKey ''cannot rotate an already-revoked key''), db, s, cache)
          else
            (case ValidateProviderKeyFormat (pk_Provider oldKey) plaintextKey of
               Some e \<Rightarrow> (Inl e, db, s, cache)
             | None \<Rightarrow>
                 (case seal_key svc now dw tenantID (pk_Provider oldKey) label plaintextKey of
                    Inl e \<Rightarrow> (Inl e, db, s, cache)
                  | Inr newKey \<Rightarrow>
                      (Inr newKey,
                       db\<lparr>pkd_Keys := revoke_row oldKeyID (pkd_Keys db @ [newKey]),
                          pkd_Settings := upsert_settings now tenantID (pk_Provider oldKey) (pk_ID newKey) (pkd_Settings db)\<rparr>,
                       invalidateTPS svc tenantID (pk_Provider oldKey) s, cache(oldKeyID := None))))))"

definition Revoke :: "('s, 'v) ProviderKeyService \<Rightarrow> nat \<Rightarrow> nat \<Rightarrow> pk_db \<Rightarrow> plaintext_cache \<Rightarrow>
    pk_error option \<times> pk_db \<times> plaintext_cache" where
  "Revoke svc tenantID keyID db cache =
     (case first_key keyID db of
        Inl e \<Rightarrow> (Some e, db, cache)
      | Inr pk \<Rightarrow>
          if pk_TenantID pk \<noteq> tenantID then (Some ErrProviderKeyNotFound, db, cache)
          else (None,
                db\<lparr>pkd_Keys := revoke_row keyID (pkd_Keys db),
                   pkd_Settings := filter (\<lambda>t. \<not> (tps_TenantID t = tenantID \<and> tps_Provider t = pk_Provider pk \<and>
                     tps_ActiveKeyID t = keyID)) (pkd_Settings db)\<rparr>,
                cache(keyID := None)))"

definition List_keys :: "nat \<Rightarrow> pk_db \<Rightarrow> (pk_error, ProviderKey list) result" where
  "List_keys tenantID db =
     (case pkd_err db of
        Some e \<Rightarrow> Inl (ErrLoad e)
      | None \<Rightarrow> Inr (sort_key (\<lambda>pk. - pk_CreatedAt pk)
                  (filter (\<lambda>pk. pk_TenantID pk = tenantID \<and> \<not> pk_Revoked pk) (pkd_Keys db))))"

definition GetActiveSettings :: "nat \<Rightarrow> string \<Rightarrow> pk_db \<Rightarrow> (string, TenantProviderSettings option) result" where
  "GetActiveSettings tenantID provider db =
     (case first_settings tenantID provider db of
        Inr settings \<Rightarrow> Inr (Some settings)
      | Inl RecordNotFound \<Rightarrow> Inr None
      | Inl DBUnavailable \<Rightarrow> Inl (case pkd_err db of None \<Rightarrow> [] | Some e \<Rightarrow> e))"

section \<open>What the service relies on\<close>

definition aead_laws :: "('s, 'v) ProviderKeyService \<Rightarrow> bool" where
  "aead_laws svc \<longleftrightarrow> (\<forall>k n p c. ps_Seal svc k n p = Some c \<longrightarrow> ps_Open svc k c n = Some p)"

definition tps_laws :: "('s, 'v) ProviderKeyService \<Rightarrow> bool" where
  "tps_laws svc \<longleftrightarrow> (case ps_rdb svc of None \<Rightarrow> True | Some R \<Rightarrow> kv_store R)"

lemma seal_then_decrypt:
  assumes "aead_laws svc" "seal_key svc now dw tid prov label pt = Inr pk"
  shows "decrypt_row svc pk = Inr pt \<and> pk_ID pk = dw_ID dw \<and> pk_TenantID pk = tid \<and> pk_Provider pk = prov \<and> \<not> pk_Revoked pk"
  using assms by (auto simp: seal_key_def decrypt_row_def aesGCMEncrypt_def aesGCMDecrypt_def aead_laws_def split: option.splits)

lemma upsert_first:
  "\<exists>t. find (\<lambda>t. tps_TenantID t = tid \<and> tps_Provider t = prov) (upsert_settings now tid prov keyID rows) = Some t \<and>
     tps_ActiveKeyID t = keyID"
proof (cases "list_ex (\<lambda>t. tps_TenantID t = tid \<and> tps_Provider t = prov) rows")
  case True
  then obtain t where "find (\<lambda>t. tps_TenantID t = tid \<and> tps_Provider t = prov) rows = Some t"
    "tps_TenantID t = tid" "tps_Provider t = prov"
    by (cases "find (\<lambda>t. tps_TenantID t = tid \<and> tps_Provider t = prov) rows")
      (auto simp: find_None_iff list_ex_iff dest: find_SomeD)
  then show ?thesis using True by (simp add: upsert_settings_def find_map_if)
next
  case False
  then show ?thesis unfolding upsert_settings_def by (auto simp: list_ex_iff intro!: exI find_snoc)
qed

text \<open>After the settings point at a key and the Redis entry is gone, every process serves that key.\<close>

lemma GetActiveKey_after_upsert:
  assumes "tps_laws svc" "pkd_err db = None"
    and "pkd_Settings db = upsert_settings t0 tid prov keyID rows" and "keyID \<noteq> 0"
    and "fst (GetPlaintext svc now now' keyID db cache) = Inr pt"
  shows "fst (GetActiveKey svc now now' tid prov db (invalidateTPS svc tid prov s, cache)) = check_plaintext prov pt"
proof -
  obtain t where t: "find (\<lambda>t. tps_TenantID t = tid \<and> tps_Provider t = prov) (pkd_Settings db) = Some t"
    "tps_ActiveKeyID t = keyID" unfolding assms(3) using upsert_first by blast
  have miss: "active_from_cache svc now now' tid prov db (invalidateTPS svc tid prov s, cache) =
      (None, invalidateTPS svc tid prov s, cache)"
    using assms(1) by (cases "ps_rdb svc")
      (simp_all add: active_from_cache_def invalidateTPS_def tps_laws_def Let_def kv_simps(3))
  obtain cache' where "GetPlaintext svc now now' keyID db cache = (Inr pt, cache')"
    using assms(5) by (cases "GetPlaintext svc now now' keyID db cache") auto
  then show ?thesis
    using t assms(2,4) miss by (simp add: GetActiveKey_def active_from_db_def first_settings_def db_first_def)
qed

lemma first_key_Inr: "first_key k db = Inr pk \<longleftrightarrow> pkd_err db = None \<and> find (\<lambda>pk. pk_ID pk = k) (pkd_Keys db) = Some pk"
  by (auto simp: first_key_def db_first_def split: option.split)

lemma GetPlaintext_miss:
  assumes "cache k = None" "first_key k db = Inr pk" "\<not> pk_Revoked pk" "decrypt_row svc pk = Inr pt"
  shows "fst (GetPlaintext svc now now' k db cache) = Inr pt"
  using assms by (simp add: GetPlaintext_def load_plaintext_def)

section \<open>Properties\<close>

text \<open>A stored key comes back: storing a key, activating it and asking for the active key of its
  tenant and provider returns the plaintext, on every process, through two layers of encryption.\<close>

theorem store_activate_get:
  assumes "aead_laws svc" and "tps_laws svc"
    and "Store svc t0 dw tid prov label pt db = (Inr pk, db1)" and "dw_ID dw \<noteq> 0"
    and "dw_ID dw \<notin> set (map pk_ID (pkd_Keys db))" and "cache (dw_ID dw) = None"
    and "Activate svc t1 tid (dw_ID dw) db1 s = (r, db2, s2)" and "\<not> strings_HasPrefix pt ''tg_''"
  shows "r = None \<and> fst (GetActiveKey svc now now' tid prov db2 (s2, cache)) = Inr pt"
proof -
  have fmt: "ValidateProviderKeyFormat prov pt = None" and sl: "seal_key svc t0 dw tid prov label pt = Inr pk"
    and up: "pkd_err db = None" and db1: "db1 = db\<lparr>pkd_Keys := pkd_Keys db @ [pk]\<rparr>"
    using assms(3) by (auto simp: Store_def split: option.splits sum.splits)
  note pk = seal_then_decrypt [OF assms(1) sl]
  have "find (\<lambda>pk. pk_ID pk = dw_ID dw) (pkd_Keys db @ [pk]) = Some pk"
    using assms(5) pk by (intro find_fresh_key) simp_all
  then have key: "first_key (dw_ID dw) db1 = Inr pk" using up by (simp add: first_key_Inr db1)
  then have act: "r = None" "s2 = invalidateTPS svc tid prov s"
    "db2 = db1\<lparr>pkd_Settings := upsert_settings t1 tid prov (dw_ID dw) (pkd_Settings db1)\<rparr>"
    using assms(7) pk by (simp_all add: Activate_def)
  have "first_key (dw_ID dw) db2 = Inr pk" using key act(3) by (simp add: first_key_Inr)
  then have "fst (GetPlaintext svc now now' (dw_ID dw) db2 cache) = Inr pt"
    using pk assms(6) by (intro GetPlaintext_miss [of cache "dw_ID dw" db2 pk]) simp_all
  then have "fst (GetActiveKey svc now now' tid prov db2 (s2, cache)) = check_plaintext prov pt"
    unfolding act(2) by (intro GetActiveKey_after_upsert [OF assms(2) _ _ assms(4)]) (use act up db1 in simp_all)
  then show ?thesis using act(1) fmt assms(8) by (simp add: check_plaintext_def)
qed

text \<open>C19: Rotation takes effect at once: after \<open>Rotate\<close> has succeeded, the next request of the tenant on any
  process is served with the new key, and the old key can no longer be read from the database.\<close>

theorem rotate_takes_effect:
  assumes "aead_laws svc" and "tps_laws svc"
    and "Rotate svc t0 dw tid old label pt db (s, cacheA) = (Inr newKey, db', s', cacheA')"
    and "dw_ID dw \<noteq> 0" and "dw_ID dw \<notin> set (map pk_ID (pkd_Keys db))" and "cacheB (dw_ID dw) = None"
    and "\<not> strings_HasPrefix pt ''tg_''"
  shows "fst (GetActiveKey svc now now' tid (pk_Provider newKey) db' (s', cacheB)) = Inr pt \<and>
    cacheA' old = None \<and> fst (load_plaintext svc now old db' cacheB) = Inl ErrProviderKeyNotFound"
proof -
  obtain oldKey where ok: "first_key old db = Inr oldKey"
    and fmt: "ValidateProviderKeyFormat (pk_Provider oldKey) pt = None"
    and sl: "seal_key svc t0 dw tid (pk_Provider oldKey) label pt = Inr newKey"
    and db': "db' = db\<lparr>pkd_Keys := revoke_row old (pkd_Keys db @ [newKey]),
      pkd_Settings := upsert_settings t0 tid (pk_Provider oldKey) (pk_ID newKey) (pkd_Settings db)\<rparr>"
    and s': "s' = invalidateTPS svc tid (pk_Provider oldKey) s" and cA: "cacheA' = cacheA(old := None)"
    using assms(3) by (auto simp: Rotate_def split: sum.splits if_splits option.splits)
  note pk = seal_then_decrypt [OF assms(1) sl]
  have old: "find (\<lambda>pk. pk_ID pk = old) (pkd_Keys db) = Some oldKey" "pkd_err db = None" using ok by (simp_all add: first_key_Inr)
  have ne: "old \<noteq> dw_ID dw" using find_SomeD [OF old(1)] assms(5) by (metis imageI list.set_map)
  have find': "find (\<lambda>pk. pk_ID pk = k) (revoke_row old xs) =
      map_option (\<lambda>pk. if pk_ID pk = old then pk\<lparr>pk_Revoked := True\<rparr> else pk) (find (\<lambda>pk. pk_ID pk = k) xs)" for k and xs :: "ProviderKey list"
    unfolding revoke_row_def by (rule find_map_if) simp
  have "find (\<lambda>pk. pk_ID pk = dw_ID dw) (pkd_Keys db @ [newKey]) = Some newKey"
    using assms(5) pk by (intro find_fresh_key) simp_all
  then have new: "first_key (dw_ID dw) db' = Inr newKey" using old(2) ne pk by (simp add: first_key_Inr db' find')
  have "first_key old db' = Inr (oldKey\<lparr>pk_Revoked := True\<rparr>)"
    using old find_SomeD [OF old(1)] find_append_Some [OF old(1)] by (simp add: first_key_Inr db' find')
  then have gone: "fst (load_plaintext svc now old db' cacheB) = Inl ErrProviderKeyNotFound"
    by (simp add: load_plaintext_def)
  have "fst (GetPlaintext svc now now' (dw_ID dw) db' cacheB) = Inr pt"
    using pk new assms(6) by (intro GetPlaintext_miss [of cacheB "dw_ID dw" db' newKey]) simp_all
  then have "fst (GetActiveKey svc now now' tid (pk_Provider oldKey) db' (s', cacheB)) = check_plaintext (pk_Provider oldKey) pt"
    unfolding s' by (intro GetActiveKey_after_upsert [OF assms(2) _ _ assms(4)]) (use old pk db' in simp_all)
  then show ?thesis using gone fmt assms(7) pk cA by (simp add: check_plaintext_def)
qed

text \<open>A sequence of reads on one process: each at its two clock readings, for a key.\<close>

definition serve :: "('s, 'v) ProviderKeyService \<Rightarrow> pk_db \<Rightarrow> (int \<times> int \<times> nat) list \<Rightarrow> plaintext_cache \<Rightarrow> plaintext_cache" where
  "serve svc db calls cache = fold (\<lambda>(now, now', k) cache. snd (GetPlaintext svc now now' k db cache)) calls cache"

definition dead_by :: "int \<Rightarrow> nat \<Rightarrow> plaintext_cache \<Rightarrow> bool" where
  "dead_by t k cache \<longleftrightarrow> (case cache k of None \<Rightarrow> True | Some c \<Rightarrow> cp_hardExpiry c \<le> t)"

lemma load_plaintext_frame: "k' \<noteq> k \<Longrightarrow> snd (load_plaintext svc now k db cache) k' = cache k'"
  by (simp add: load_plaintext_def split: sum.split)

lemma load_revoked:
  "first_key k db = Inr pk \<Longrightarrow> pk_Revoked pk \<Longrightarrow> load_plaintext svc now k db cache = (Inl ErrProviderKeyNotFound, cache)"
  by (simp add: load_plaintext_def)

lemma GetPlaintext_dead_by:
  assumes "first_key k db = Inr pk" "pk_Revoked pk" "dead_by t k cache"
  shows "dead_by t k (snd (GetPlaintext svc now now' k' db cache))"
proof (cases "k' = k")
  case True
  then show ?thesis
    using assms by (simp add: GetPlaintext_def dead_by_def load_revoked [OF assms(1,2)] split: option.splits)
next
  case False
  then show ?thesis
    using assms(3) by (simp add: GetPlaintext_def dead_by_def load_plaintext_frame split: option.splits)
qed

text \<open>A revoked key dies within five minutes: if the database has the key revoked, and everything this
  process cached of it was cached no later than \<open>t\<close>, then however often it is asked for in the meantime
  (each hit extends the idle window), a request five minutes after \<open>t\<close> or later fails.\<close>

theorem revoked_key_dies:
  assumes "first_key k db = Inr pk" "pk_Revoked pk"
    and "\<forall>c. cache k = Some c \<longrightarrow> cp_hardExpiry c \<le> t + providerKeyHardTTL"
    and "t + providerKeyHardTTL \<le> now"
  shows "fst (GetPlaintext svc now now' k db (serve svc db calls cache)) = Inl ErrProviderKeyNotFound"
proof -
  have "dead_by (t + providerKeyHardTTL) k cache" using assms(3) by (simp add: dead_by_def split: option.split)
  then have "dead_by (t + providerKeyHardTTL) k (serve svc db calls cache)"
    unfolding serve_def by (induction calls arbitrary: cache) (auto intro: GetPlaintext_dead_by [OF assms(1,2)])
  then show ?thesis
    using assms(4) by (auto simp: GetPlaintext_def dead_by_def load_revoked [OF assms(1,2)] split: option.split)
qed

text \<open>Revocation does not reach the other processes: \<open>Revoke\<close> evicts the plaintext on the process that
  runs it and deletes the settings row, but leaves the Redis entry. Another process with the plaintext in
  its cache and a live Redis entry goes on serving the revoked key.\<close>

theorem revoke_leaves_other_process:
  assumes "ps_rdb svc = Some R" and "rd_Get R s (tpsCacheKey tid prov) = Some raw" and "cd_Unmarshal (ps_codec svc) raw = Some entry"
    and "te_ActiveKeyID entry = keyID" "keyID \<noteq> 0" and "now < te_HardExpiry entry"
    and "Revoke svc tid keyID db cacheA = (None, db', cacheA')"
    and "cacheB keyID = Some c" "now < cp_idleExpiry c" "now < cp_hardExpiry c" "cp_plaintext c \<noteq> []"
    and "check_plaintext prov (cp_plaintext c) = Inr (cp_plaintext c)"
  shows "fst (GetActiveKey svc now now' tid prov db' (s, cacheB)) = Inr (cp_plaintext c) \<and>
    (\<exists>pk. first_key keyID db' = Inr pk \<and> pk_Revoked pk)"
proof
  show "fst (GetActiveKey svc now now' tid prov db' (s, cacheB)) = Inr (cp_plaintext c)"
    using assms by (simp add: GetActiveKey_def active_from_cache_def GetPlaintext_def Let_def)
  obtain pk where pk: "first_key keyID db = Inr pk" "pkd_Keys db' = revoke_row keyID (pkd_Keys db)" "pkd_err db' = pkd_err db"
    using assms(7) by (auto simp: Revoke_def split: sum.splits if_splits)
  have "pk_ID pk = keyID" using pk(1) find_SomeD [of "\<lambda>pk. pk_ID pk = keyID" "pkd_Keys db" pk] by (simp add: first_key_Inr)
  then have "find (\<lambda>pk. pk_ID pk = keyID) (revoke_row keyID (pkd_Keys db)) = Some (pk\<lparr>pk_Revoked := True\<rparr>)"
    using pk(1) by (simp add: revoke_row_def find_map_if first_key_Inr)
  then show "\<exists>pk. first_key keyID db' = Inr pk \<and> pk_Revoked pk"
    using pk by (simp add: first_key_Inr)
qed

section \<open>A concrete service\<close>

definition demo_pks :: "(string \<Rightarrow> tpsCacheEntry option, tpsCacheEntry) ProviderKeyService" where
  "demo_pks = \<lparr>ps_masterKey = ''m'', ps_Seal = (\<lambda>k n p. Some (k @ n @ p)),
     ps_Open = (\<lambda>k c n. Some (drop (length k + length n) c)), ps_rdb = Some kv_redis, ps_codec = id_codec\<rparr>"

definition demo_draws :: "nat \<Rightarrow> draws" where
  "demo_draws i = \<lparr>dw_dek = Some ''d'', dw_keyNonce = Some ''n'', dw_dekNonce = Some ''o'', dw_ID = i\<rparr>"

definition demo_pk :: "nat \<Rightarrow> bool \<Rightarrow> string \<Rightarrow> ProviderKey" where
  "demo_pk i revoked pt = \<lparr>pk_ID = i, pk_TenantID = 7, pk_Provider = ''openai'', pk_Label = [], pk_EncryptedKey = ''dn'' @ pt,
     pk_KeyNonce = ''n'', pk_EncryptedDEK = ''mod'', pk_DEKNonce = ''o'', pk_Revoked = revoked, pk_CreatedAt = 0\<rparr>"

definition demo_pk_db :: pk_db where
  "demo_pk_db = \<lparr>pkd_err = None, pkd_Keys = [demo_pk 4 False ''sk-a''],
     pkd_Settings = [\<lparr>tps_TenantID = 7, tps_Provider = ''openai'', tps_ActiveKeyID = 4, tps_PolicyVersion = 1, tps_UpdatedAt = 0\<rparr>]\<rparr>"

lemma demo_pks_laws: "aead_laws demo_pks" "tps_laws demo_pks"
  by (auto simp: aead_laws_def tps_laws_def demo_pks_def kv_redis_laws)

lemma demo_store:
  "Store demo_pks 0 (demo_draws 5) 7 ''openai'' [] ''sk-b'' demo_pk_db =
     (Inr (demo_pk 5 False ''sk-b''), demo_pk_db\<lparr>pkd_Keys := [demo_pk 4 False ''sk-a'', demo_pk 5 False ''sk-b'']\<rparr>)"
  by (simp add: Store_def ValidateProviderKeyFormat_def strings_HasPrefix_def seal_key_def demo_draws_def aesGCMEncrypt_def
      demo_pks_def demo_pk_db_def demo_pk_def Let_def)

theorem store_activate_get_witness:
  "\<exists>db2 s2. fst (GetActiveKey demo_pks 9 9 7 ''openai'' db2 (s2, Map.empty)) = Inr ''sk-b''"
proof -
  obtain r db2 s2 where a: "Activate demo_pks 8 7 (dw_ID (demo_draws 5)) (demo_pk_db\<lparr>pkd_Keys := [demo_pk 4 False ''sk-a'', demo_pk 5 False ''sk-b'']\<rparr>)
      Map.empty = (r, db2, s2)" by (metis prod_cases3)
  have "fst (GetActiveKey demo_pks 9 9 7 ''openai'' db2 (s2, Map.empty)) = Inr ''sk-b''"
    using store_activate_get [OF demo_pks_laws demo_store _ _ _ a, of Map.empty 9 9]
    by (simp add: demo_draws_def demo_pk_db_def demo_pk_def strings_HasPrefix_def)
  then show ?thesis by blast
qed

theorem rotate_takes_effect_witness:
  "\<exists>db' s'. fst (GetActiveKey demo_pks 9 9 7 ''openai'' db' (s', Map.empty)) = Inr ''sk-b''"
proof -
  obtain db' s' cA where r: "Rotate demo_pks 0 (demo_draws 5) 7 4 [] ''sk-b'' demo_pk_db (Map.empty, Map.empty) =
      (Inr (demo_pk 5 False ''sk-b''), db', s', cA)"
    by (simp add: Rotate_def first_key_def db_first_def ValidateProviderKeyFormat_def strings_HasPrefix_def seal_key_def
        demo_draws_def aesGCMEncrypt_def demo_pks_def demo_pk_db_def demo_pk_def Let_def)
  have "fst (GetActiveKey demo_pks 9 9 7 ''openai'' db' (s', Map.empty)) = Inr ''sk-b''"
    using rotate_takes_effect [OF demo_pks_laws r, of Map.empty 9 9]
    by (simp add: demo_draws_def demo_pk_db_def demo_pk_def strings_HasPrefix_def)
  then show ?thesis by blast
qed

theorem revoked_key_dies_witness:
  "fst (GetPlaintext demo_pks (providerKeyHardTTL + 3) (providerKeyHardTTL + 4) 4 (demo_pk_db\<lparr>pkd_Keys := [demo_pk 4 True ''sk-a'']\<rparr>)
     (serve demo_pks (demo_pk_db\<lparr>pkd_Keys := [demo_pk 4 True ''sk-a'']\<rparr>) [(5, 6, 4), (7, 8, 4)]
       [4 \<mapsto> \<lparr>cp_plaintext = ''sk-a'', cp_idleExpiry = 3 + providerKeyIdleTTL, cp_hardExpiry = 3 + providerKeyHardTTL\<rparr>])) =
   Inl ErrProviderKeyNotFound"
  by (rule revoked_key_dies [where pk = "demo_pk 4 True ''sk-a''" and t = 3])
    (simp_all add: first_key_def db_first_def demo_pk_db_def demo_pk_def)

theorem revoke_leaves_other_process_witness:
  "\<exists>db' cA. Revoke demo_pks 7 4 demo_pk_db Map.empty = (None, db', cA) \<and>
     fst (GetActiveKey demo_pks 9 9 7 ''openai'' db'
       ([tpsCacheKey 7 ''openai'' \<mapsto> \<lparr>te_ActiveKeyID = 4, te_PolicyVersion = 1, te_HardExpiry = 50\<rparr>],
        [4 \<mapsto> \<lparr>cp_plaintext = ''sk-a'', cp_idleExpiry = 20, cp_hardExpiry = 50\<rparr>])) = Inr ''sk-a''"
proof -
  let ?e = "\<lparr>te_ActiveKeyID = 4, te_PolicyVersion = 1, te_HardExpiry = 50\<rparr>"
  let ?c = "\<lparr>cp_plaintext = ''sk-a'', cp_idleExpiry = 20, cp_hardExpiry = 50\<rparr>"
  obtain db' cA where r: "Revoke demo_pks 7 4 demo_pk_db Map.empty = (None, db', cA)"
    by (simp add: Revoke_def first_key_def db_first_def demo_pk_db_def demo_pk_def)
  have "fst (GetActiveKey demo_pks 9 9 7 ''openai'' db' ([tpsCacheKey 7 ''openai'' \<mapsto> ?e], [4 \<mapsto> ?c])) = Inr (cp_plaintext ?c)"
    using revoke_leaves_other_process [where R = kv_redis and raw = ?e and entry = ?e and keyID = 4 and c = ?c, OF _ _ _ _ _ _ r, of "[tpsCacheKey 7 ''openai'' \<mapsto> ?e]" "''openai''" 9 "[4 \<mapsto> ?c]" 9]
    by (simp add: demo_pks_def kv_redis_def id_codec_def check_plaintext_def ValidateProviderKeyFormat_def strings_HasPrefix_def)
  then show ?thesis using r by auto
qed

end
