(* ===== verification/RateLimits.thy ===== *)
theory RateLimits
  imports Store
begin

text \<open>
  The rate limiter (\<open>internal/ratelimit/limiter.go\<close>): fixed-window counters in Redis per tenant,
  provider, model, scope and metric. \<open>Check\<close> increments the counters of all limits that apply and
  rolls every one of them back when any limit is exceeded; \<open>checkSingle\<close> is its fast path for one
  limit. Redis commands that fail are the \<open>None\<close> results of \<open>rd_IncrBy\<close>.
\<close>

section \<open>State and configuration\<close>

record RateLimit =
  rl_ID :: nat
  rl_TenantID :: nat
  rl_Provider :: string
  rl_Model :: string
  rl_ScopeType :: string
  rl_ScopeID :: string
  rl_Metric :: string
  rl_LimitValue :: int
  rl_WindowSeconds :: int
  rl_Enabled :: bool

abbreviation "RateLimitMetricRPM \<equiv> ''rpm''"
abbreviation "RateLimitMetricITPM \<equiv> ''itpm''"
abbreviation "RateLimitMetricOTPM \<equiv> ''otpm''"

record RateLimitResult =
  rr_Exceeded :: bool
  rr_Metric :: string
  rr_Limit :: int
  rr_Used :: int
  rr_RetryAfterMs :: int

record rlEntry =
  re_limit :: RateLimit
  re_key :: string
  re_amount :: int
  re_windowSec :: int
  re_windowID :: int

record rl_db =
  rdb_down :: bool
  rdb_limits :: "RateLimit list"

record ('s, 'v) limiter =
  lm_rdb :: "('s, 'v) redis_ops option"
  lm_codec :: "(RateLimit list, 'v) codec"
  lm_int :: "'v \<Rightarrow> int option"
  lm_notif :: bool

record 's limiter_state =
  ls_redis :: 's
  ls_notifs :: "NotificationEventMsg list"

text \<open>\<open>Unix\<close> counts seconds since 1970, which is 62135596800 seconds after the zero time.\<close>

definition Unix :: "go_time \<Rightarrow> int" where
  "Unix t = t_ns t div second_ns - 62135596800"

section \<open>Operations\<close>

definition counterKey :: "nat \<Rightarrow> RateLimit \<Rightarrow> int \<Rightarrow> string" where
  "counterKey tenantID l windowID =
     ''rl:'' @ show_nat tenantID @ '':'' @ rl_Provider l @ '':'' @ rl_Model l @ '':'' @
     rl_ScopeType l @ '':'' @ rl_ScopeID l @ '':'' @ rl_Metric l @ '':'' @ show_int windowID"

definition loadLimits :: "('s, 'v) limiter \<Rightarrow> ('s, 'v) redis_ops \<Rightarrow> rl_db \<Rightarrow> nat \<Rightarrow> 's \<Rightarrow>
    (db_error, RateLimit list) result \<times> 's" where
  "loadLimits l R db tenantID =
     read_through (Some R) (lm_codec l) (''rl:config:'' @ show_nat tenantID) (60 * second_ns)
       (if rdb_down db then Inl DBUnavailable
        else Inr (filter (\<lambda>x. rl_TenantID x = tenantID \<and> rl_Enabled x) (rdb_limits db)))"

definition InvalidateCache :: "('s, 'v) limiter \<Rightarrow> nat \<Rightarrow> 's \<Rightarrow> 's" where
  "InvalidateCache l tenantID s =
     (case lm_rdb l of None \<Rightarrow> s | Some R \<Rightarrow> rd_Del R s (''rl:config:'' @ show_nat tenantID))"

definition window_seconds :: "RateLimit \<Rightarrow> int" where
  "window_seconds x = (if rl_WindowSeconds x \<le> 0 then 60 else rl_WindowSeconds x)"

text \<open>The filters shared by \<open>Check\<close> and \<open>Reconcile\<close>.\<close>

definition limit_matches :: "string \<Rightarrow> string \<Rightarrow> string \<Rightarrow> RateLimit \<Rightarrow> bool" where
  "limit_matches keyID provider model x \<longleftrightarrow> rl_Enabled x \<and>
     \<not> (rl_Provider x \<noteq> [] \<and> rl_Provider x \<noteq> provider) \<and>
     \<not> (rl_Model x \<noteq> [] \<and> rl_Model x \<noteq> model) \<and>
     \<not> (rl_ScopeType x = BudgetScopeAPIKey \<and> rl_ScopeID x \<noteq> keyID)"

definition metric_amount :: "RateLimit \<Rightarrow> int \<Rightarrow> int \<Rightarrow> int option" where
  "metric_amount x estimatedInputTokens maxTokens =
     (if rl_Metric x = RateLimitMetricRPM then Some 1
      else if rl_Metric x = RateLimitMetricITPM then Some estimatedInputTokens
      else if rl_Metric x = RateLimitMetricOTPM then Some maxTokens else None)"

fun collect :: "nat \<Rightarrow> string \<Rightarrow> string \<Rightarrow> string \<Rightarrow> int \<Rightarrow> int \<Rightarrow> go_time \<Rightarrow> RateLimit list \<Rightarrow> rlEntry list" where
  "collect tenantID keyID provider model est maxTokens now [] = []"
| "collect tenantID keyID provider model est maxTokens now (x # xs) =
     (let rest = collect tenantID keyID provider model est maxTokens now xs
      in if \<not> limit_matches keyID provider model x then rest
         else case metric_amount x est maxTokens of
                None \<Rightarrow> rest
              | Some amount \<Rightarrow>
                  if amount \<le> 0 then rest
                  else (let windowSec = window_seconds x; windowID = quot (Unix now) windowSec
                        in \<lparr>re_limit = x, re_key = counterKey tenantID x windowID, re_amount = amount,
                            re_windowSec = windowSec, re_windowID = windowID\<rparr> # rest))"

definition rl_result :: "go_time \<Rightarrow> rlEntry \<Rightarrow> int \<Rightarrow> RateLimitResult" where
  "rl_result now e newVal =
     \<lparr>rr_Exceeded = True, rr_Metric = rl_Metric (re_limit e), rr_Limit = rl_LimitValue (re_limit e),
      rr_Used = newVal - re_amount e,
      rr_RetryAfterMs = ((re_windowID e + 1) * re_windowSec e - Unix now) * 1000\<rparr>"

definition rl_msg :: "nat \<Rightarrow> string \<Rightarrow> string \<Rightarrow> string \<Rightarrow> RateLimitResult \<Rightarrow> NotificationEventMsg" where
  "rl_msg tenantID keyID provider model r =
     \<lparr>ne_TenantID = tenantID, ne_EventType = ''rate_limit_exceeded'', ne_KeyID = keyID,
      ne_Provider = provider, ne_Model = model,
      ne_Details = ''{\"metric\":\"'' @ rr_Metric r @ ''\",\"limit\":'' @ show_int (rr_Limit r) @
        '',\"used\":'' @ show_int (rr_Used r) @ ''}''\<rparr>"

definition notify :: "('s, 'v) limiter \<Rightarrow> NotificationEventMsg \<Rightarrow> NotificationEventMsg list \<Rightarrow> NotificationEventMsg list" where
  "notify l m ns = (if lm_notif l then ns @ [m] else ns)"

definition checkSingle :: "('s, 'v) limiter \<Rightarrow> ('s, 'v) redis_ops \<Rightarrow> nat \<Rightarrow> string \<Rightarrow> string \<Rightarrow> string \<Rightarrow> go_time \<Rightarrow>
    rlEntry \<Rightarrow> 's limiter_state \<Rightarrow> RateLimitResult option \<times> 's limiter_state" where
  "checkSingle l R tenantID keyID provider model now e st =
     (case rd_IncrBy R (ls_redis st) (re_key e) (re_amount e) of
        (s1, None) \<Rightarrow> (None, st\<lparr>ls_redis := s1\<rparr>)
      | (s1, Some newVal) \<Rightarrow>
          (let s2 = (if newVal = re_amount e
                     then rd_Expire R s1 (re_key e) (re_windowSec e * 2 * second_ns) else s1)
           in if rl_LimitValue (re_limit e) < newVal
              then (let s3 = fst (rd_IncrBy R s2 (re_key e) (- re_amount e));
                        r = rl_result now e newVal
                    in (Some r, st\<lparr>ls_redis := s3,
                          ls_notifs := notify l (rl_msg tenantID keyID provider model r) (ls_notifs st)\<rparr>))
              else (None, st\<lparr>ls_redis := s2\<rparr>)))"

text \<open>Phase 2: the pipelined increments with their results in order.\<close>

fun incr_all :: "('s, 'v) redis_ops \<Rightarrow> rlEntry list \<Rightarrow> 's \<Rightarrow> 's \<times> int option list" where
  "incr_all R [] s = (s, [])"
| "incr_all R (e # es) s =
     (let (s1, v) = rd_IncrBy R s (re_key e) (re_amount e); (s2, vs) = incr_all R es s1
      in (s2, v # vs))"

text \<open>Phase 3: expiries for fresh counters, and the first limit that is exceeded.\<close>

fun expire_fresh :: "('s, 'v) redis_ops \<Rightarrow> (rlEntry \<times> int) list \<Rightarrow> 's \<Rightarrow> 's" where
  "expire_fresh R [] s = s"
| "expire_fresh R ((e, newVal) # evs) s =
     expire_fresh R evs
       (if newVal = re_amount e then rd_Expire R s (re_key e) (re_windowSec e * 2 * second_ns) else s)"

definition roll_back :: "('s, 'v) redis_ops \<Rightarrow> rlEntry list \<Rightarrow> 's \<Rightarrow> 's" where
  "roll_back R es s = fold (\<lambda>e s. fst (rd_IncrBy R s (re_key e) (- re_amount e))) es s"

text \<open>The pipelined path of \<open>Check\<close> for more than one limit. A failed command makes the whole pipeline
  report an error, and the request passes.\<close>

definition checkPipelined :: "('s, 'v) limiter \<Rightarrow> ('s, 'v) redis_ops \<Rightarrow> nat \<Rightarrow> string \<Rightarrow> string \<Rightarrow> string \<Rightarrow> go_time \<Rightarrow>
    rlEntry list \<Rightarrow> 's limiter_state \<Rightarrow> RateLimitResult option \<times> 's limiter_state" where
  "checkPipelined l R tenantID keyID provider model now entries st =
     (let (s1, vs) = incr_all R entries (ls_redis st)
      in if None \<in> set vs then (None, st\<lparr>ls_redis := s1\<rparr>)
         else
           (let evs = zip entries (map the vs);
                s2 = expire_fresh R evs s1
            in case find (\<lambda>(e, newVal). rl_LimitValue (re_limit e) < newVal) evs of
                 None \<Rightarrow> (None, st\<lparr>ls_redis := s2\<rparr>)
               | Some (e, newVal) \<Rightarrow>
                   (let r = rl_result now e newVal
                    in (Some r, st\<lparr>ls_redis := roll_back R entries s2,
                          ls_notifs := notify l (rl_msg tenantID keyID provider model r)
                            (ls_notifs st)\<rparr>))))"

definition Check :: "('s, 'v) limiter \<Rightarrow> rl_db \<Rightarrow> go_time \<Rightarrow> nat \<Rightarrow> string \<Rightarrow> string \<Rightarrow> string \<Rightarrow> int \<Rightarrow> int \<Rightarrow>
    's limiter_state \<Rightarrow> RateLimitResult option \<times> 's limiter_state" where
  "Check l db now tenantID keyID provider model est maxTokens st =
     (case lm_rdb l of
        None \<Rightarrow> (None, st)
      | Some R \<Rightarrow>
          (case loadLimits l R db tenantID (ls_redis st) of
             (Inl _, s0) \<Rightarrow> (None, st\<lparr>ls_redis := s0\<rparr>)
           | (Inr limits, s0) \<Rightarrow>
               (let entries = collect tenantID keyID provider model est maxTokens now limits;
                    st0 = st\<lparr>ls_redis := s0\<rparr>
                in case entries of
                     [] \<Rightarrow> (None, st0)
                   | [e] \<Rightarrow> checkSingle l R tenantID keyID provider model now e st0
                   | _ \<Rightarrow> checkPipelined l R tenantID keyID provider model now entries st0)))"

definition Reconcile :: "('s, 'v) limiter \<Rightarrow> rl_db \<Rightarrow> go_time \<Rightarrow> nat \<Rightarrow> string \<Rightarrow> string \<Rightarrow> string \<Rightarrow> int \<Rightarrow> int \<Rightarrow>
    's \<Rightarrow> 's" where
  "Reconcile l db now tenantID keyID provider model actualOutputTokens maxTokens s =
     (case lm_rdb l of
        None \<Rightarrow> s
      | Some R \<Rightarrow>
          if maxTokens \<le> 0 then s
          else (let diff = maxTokens - actualOutputTokens
                in if diff \<le> 0 then s
                   else (case loadLimits l R db tenantID s of
                           (Inl _, s0) \<Rightarrow> s0
                         | (Inr limits, s0) \<Rightarrow>
                             fold (\<lambda>x s. fst (rd_IncrBy R s
                                     (counterKey tenantID x (quot (Unix now) (window_seconds x))) (- diff)))
                               (filter (\<lambda>x. rl_Metric x = RateLimitMetricOTPM \<and>
                                  limit_matches keyID provider model x) limits) s0)))"

definition GetCurrentUsage :: "('s, 'v) limiter \<Rightarrow> go_time \<Rightarrow> nat \<Rightarrow> RateLimit \<Rightarrow> 's \<Rightarrow> int" where
  "GetCurrentUsage l now tenantID x s =
     (case lm_rdb l of
        None \<Rightarrow> 0
      | Some R \<Rightarrow>
          (case rd_Get R s (counterKey tenantID x (quot (Unix now) (window_seconds x))) of
             None \<Rightarrow> 0
           | Some v \<Rightarrow> (case lm_int l v of None \<Rightarrow> 0 | Some n \<Rightarrow> n)))"

section \<open>Integer counters\<close>

text \<open>A missing key counts as zero; \<open>None\<close> is a key that does not hold an integer.\<close>

definition int_val :: "('s, 'v) redis_ops \<Rightarrow> ('v \<Rightarrow> int option) \<Rightarrow> 's \<Rightarrow> string \<Rightarrow> int option" where
  "int_val R ip s k = (case rd_Get R s k of None \<Rightarrow> Some 0 | Some v \<Rightarrow> ip v)"

text \<open>Documented behaviour of \<open>INCRBY\<close> and \<open>EXPIRE\<close>: on an integer whose sum stays in the signed
  64-bit range the command answers and stores the sum; other keys are untouched; an expiry in the
  future changes no value.\<close>

definition int_counters :: "('s, 'v) redis_ops \<Rightarrow> ('v \<Rightarrow> int option) \<Rightarrow> bool" where
  "int_counters R ip \<longleftrightarrow>
     (\<forall>s k n x. int_val R ip s k = Some x \<longrightarrow> int64_range (x + n) \<longrightarrow>
        snd (rd_IncrBy R s k n) = Some (x + n) \<and> int_val R ip (fst (rd_IncrBy R s k n)) k = Some (x + n)) \<and>
     (\<forall>s k n k'. k' \<noteq> k \<longrightarrow> rd_Get R (fst (rd_IncrBy R s k n)) k' = rd_Get R s k') \<and>
     (\<forall>s k ttl k'. 0 < ttl \<longrightarrow> rd_Get R (rd_Expire R s k ttl) k' = rd_Get R s k')"

lemma int_val_cong: "rd_Get R s k = rd_Get R s' k \<Longrightarrow> int_val R ip s k = int_val R ip s' k"
  by (simp add: int_val_def)

lemma incrby:
  assumes "int_counters R ip" "int_val R ip s k = Some x" "int64_range (x + n)"
  shows "snd (rd_IncrBy R s k n) = Some (x + n)"
    and "int_val R ip (fst (rd_IncrBy R s k n)) k = Some (x + n)"
  using assms unfolding int_counters_def by blast+

lemma incrby_frame: "int_counters R ip \<Longrightarrow> k' \<noteq> k \<Longrightarrow>
    int_val R ip (fst (rd_IncrBy R s k n)) k' = int_val R ip s k'"
  and rd_expire_frame: "int_counters R ip \<Longrightarrow> 0 < ttl \<Longrightarrow>
    int_val R ip (rd_Expire R s k ttl) k' = int_val R ip s k'"
  by (rule int_val_cong; simp add: int_counters_def)+

section \<open>The admission step\<close>

text \<open>The counters as a function, and what one round of increments makes of them.\<close>

definition entry_key_ok :: "('s, 'v) redis_ops \<Rightarrow> ('v \<Rightarrow> int option) \<Rightarrow> 's \<Rightarrow> rlEntry \<Rightarrow> bool" where
  "entry_key_ok R ip s e \<longleftrightarrow> (\<exists>x. int_val R ip s (re_key e) = Some x \<and> int64_range x \<and>
     int64_range (x + re_amount e))"

definition used :: "('s, 'v) redis_ops \<Rightarrow> ('v \<Rightarrow> int option) \<Rightarrow> 's \<Rightarrow> rlEntry \<Rightarrow> int" where
  "used R ip s e = the (int_val R ip s (re_key e))"

definition fits :: "('s, 'v) redis_ops \<Rightarrow> ('v \<Rightarrow> int option) \<Rightarrow> 's \<Rightarrow> rlEntry \<Rightarrow> bool" where
  "fits R ip s e \<longleftrightarrow> used R ip s e + re_amount e \<le> rl_LimitValue (re_limit e)"

definition added :: "('s, 'v) redis_ops \<Rightarrow> ('v \<Rightarrow> int option) \<Rightarrow> 's \<Rightarrow> rlEntry list \<Rightarrow> string \<Rightarrow> int option" where
  "added R ip s es k = (case find (\<lambda>e. re_key e = k) es of
     None \<Rightarrow> int_val R ip s k | Some e \<Rightarrow> Some (used R ip s e + re_amount e))"

lemma used_cong: "int_val R ip s (re_key e) = int_val R ip s' (re_key e) \<Longrightarrow> used R ip s e = used R ip s' e"
  and entry_ok_cong: "int_val R ip s (re_key e) = int_val R ip s' (re_key e) \<Longrightarrow>
    entry_key_ok R ip s e = entry_key_ok R ip s' e"
  by (simp_all add: used_def entry_key_ok_def)

lemma incr_all_spec:
  assumes "int_counters R ip" "distinct (map re_key es)" "\<forall>e \<in> set es. entry_key_ok R ip s e"
  shows "snd (incr_all R es s) = map (\<lambda>e. Some (used R ip s e + re_amount e)) es \<and>
    (\<forall>k. int_val R ip (fst (incr_all R es s)) k = added R ip s es k)"
  using assms(2,3)
proof (induction es arbitrary: s)
  case Nil
  then show ?case by (simp add: added_def)
next
  case (Cons e es)
  obtain x where x: "int_val R ip s (re_key e) = Some x" "int64_range (x + re_amount e)"
    using Cons.prems(2) by (auto simp: entry_key_ok_def)
  obtain s1 v where i: "rd_IncrBy R s (re_key e) (re_amount e) = (s1, v)" by fastforce
  note here = incrby [OF assms(1) x]
  have v: "v = Some (used R ip s e + re_amount e)" and x1: "int_val R ip s1 (re_key e) = Some (x + re_amount e)"
    using here i x by (simp_all add: used_def)
  have fr: "int_val R ip s1 k = int_val R ip s k" if "k \<noteq> re_key e" for k
    using incrby_frame [OF assms(1) that, of s "re_amount e"] i by simp
  have "re_key e \<notin> re_key ` set es" using Cons.prems(1) by simp
  then have ks: "\<And>e'. e' \<in> set es \<Longrightarrow> re_key e' \<noteq> re_key e" by (metis imageI)
  have ok: "\<forall>e' \<in> set es. entry_key_ok R ip s1 e'"
    using Cons.prems(2) entry_ok_cong [OF fr [OF ks]] by simp
  note ih = Cons.IH [OF _ ok]
  have u: "\<And>e'. e' \<in> set es \<Longrightarrow> used R ip s1 e' = used R ip s e'" using used_cong [OF fr [OF ks]] by blast
  have "added R ip s1 es k = added R ip s (e # es) k" for k
  proof (cases "k = re_key e")
    case True
    then have "find (\<lambda>e. re_key e = k) es = None" using ks by (auto simp: find_None_iff)
    with True x1 x show ?thesis by (simp add: added_def used_def)
  next
    case False
    then show ?thesis using fr u by (auto simp: added_def split: option.split dest: find_SomeD)
  qed
  then show ?case using ih Cons.prems(1) u by (simp add: i v case_prod_unfold)
qed

lemma expire_fresh_val:
  assumes "int_counters R ip" "\<forall>(e, v) \<in> set evs. 0 < re_windowSec e"
  shows "int_val R ip (expire_fresh R evs s) k = int_val R ip s k"
  using assms(2)
proof (induction evs arbitrary: s)
  case (Cons ev evs)
  obtain e v where ev: "ev = (e, v)" by fastforce
  have "0 < re_windowSec e * 2 * second_ns" using Cons.prems ev by (simp add: second_ns_def)
  with Cons ev show ?case by (simp add: rd_expire_frame [OF assms(1)])
qed simp

lemma roll_back_val:
  assumes "int_counters R ip" "distinct (map re_key es)"
    "\<forall>e \<in> set es. \<exists>x. int_val R ip s (re_key e) = Some (x + re_amount e) \<and> int64_range x"
  shows "int_val R ip (roll_back R es s) k = (case find (\<lambda>e. re_key e = k) es of
    None \<Rightarrow> int_val R ip s k | Some e \<Rightarrow> Some (the (int_val R ip s k) - re_amount e))"
  using assms(2,3)
proof (induction es arbitrary: s)
  case (Cons e es)
  obtain x where x: "int_val R ip s (re_key e) = Some (x + re_amount e)" "int64_range x"
    using Cons.prems(2) by auto
  define s1 where "s1 = fst (rd_IncrBy R s (re_key e) (- re_amount e))"
  have here: "int_val R ip s1 (re_key e) = Some x"
    using incrby(2) [OF assms(1) x(1), of "- re_amount e"] x(2) by (simp add: s1_def)
  have fr: "int_val R ip s1 k = int_val R ip s k" if "k \<noteq> re_key e" for k
    unfolding s1_def by (rule incrby_frame [OF assms(1) that])
  have "re_key e \<notin> re_key ` set es" using Cons.prems(1) by simp
  then have ks: "\<And>e'. e' \<in> set es \<Longrightarrow> re_key e' \<noteq> re_key e" by (metis imageI)
  have "int_val R ip (roll_back R es s1) k = (case find (\<lambda>e. re_key e = k) es of
      None \<Rightarrow> int_val R ip s1 k | Some e \<Rightarrow> Some (the (int_val R ip s1 k) - re_amount e))"
    using Cons.prems fr ks by (intro Cons.IH) auto
  moreover have "find (\<lambda>e. re_key e = re_key e') es = None" if "e' = e" for e'
    using that ks by (auto simp: find_None_iff)
  ultimately show ?case
    using here x fr by (cases "k = re_key e") (auto simp: roll_back_def s1_def [symmetric] split: option.splits)
qed (simp add: roll_back_def)

lemma window_seconds_pos [simp]: "0 < window_seconds x"
  by (simp add: window_seconds_def)

lemma collect_entry:
  assumes "e \<in> set (collect tenantID keyID provider model est maxTokens now limits)"
  shows "re_limit e \<in> set limits \<and> limit_matches keyID provider model (re_limit e) \<and>
    metric_amount (re_limit e) est maxTokens = Some (re_amount e) \<and> 0 < re_amount e \<and>
    re_windowSec e = window_seconds (re_limit e) \<and> re_windowID e = quot (Unix now) (re_windowSec e) \<and>
    re_key e = counterKey tenantID (re_limit e) (re_windowID e)"
  using assms by (induction limits) (auto simp: Let_def split: if_splits option.splits)

lemma added_fits:
  assumes "\<forall>e \<in> set es. entry_key_ok R ip s e" "e \<in> set es"
  shows "int_val R ip s (re_key e) = Some (used R ip s e)" "int64_range (used R ip s e)"
    "int64_range (used R ip s e + re_amount e)"
  using assms by (auto simp: entry_key_ok_def used_def)

lemma added_at: "distinct (map re_key es) \<Longrightarrow> e \<in> set es \<Longrightarrow>
    added R ip s es (re_key e) = Some (used R ip s e + re_amount e)"
  unfolding added_def
  by (induction es) (auto simp: image_iff split: option.splits)

text \<open>Incrementing all counters of a distinct list and rolling back restores every counter.\<close>

lemma roll_back_added:
  assumes "int_counters R ip" "distinct (map re_key es)" "\<forall>e \<in> set es. entry_key_ok R ip s e"
    "\<forall>k. int_val R ip s2 k = added R ip s es k"
  shows "int_val R ip (roll_back R es s2) k = int_val R ip s k"
proof -
  have "\<forall>e \<in> set es. \<exists>x. int_val R ip s2 (re_key e) = Some (x + re_amount e) \<and> int64_range x"
    using added_fits [OF assms(3)] assms(4) added_at [OF assms(2)] by metis
  note rb = roll_back_val [OF assms(1,2) this, of k]
  show ?thesis
  proof (cases "find (\<lambda>e. re_key e = k) es")
    case None
    with rb assms(4) show ?thesis by (simp add: added_def)
  next
    case (Some e)
    then have "e \<in> set es" "re_key e = k" using find_SomeD by force+
    with rb Some assms(4) added_fits(1) [OF assms(3)] show ?thesis by (auto simp: added_def)
  qed
qed

text \<open>The outcome of an admission: either all counters are charged, or none.\<close>

definition all_or_nothing :: "('s, 'v) redis_ops \<Rightarrow> ('v \<Rightarrow> int option) \<Rightarrow> go_time \<Rightarrow> 's \<Rightarrow> rlEntry list \<Rightarrow>
    RateLimitResult option \<Rightarrow> 's \<Rightarrow> bool" where
  "all_or_nothing R ip now s es r s' \<longleftrightarrow>
     (if \<forall>e \<in> set es. fits R ip s e
      then r = None \<and> (\<forall>k. int_val R ip s' k = added R ip s es k)
      else (\<exists>e \<in> set es. \<not> fits R ip s e \<and> r = Some (rl_result now e (used R ip s e + re_amount e))) \<and>
           (\<forall>k. int_val R ip s' k = int_val R ip s k))"

lemma checkSingle_all_or_nothing:
  assumes "int_counters R (lm_int l)" "entry_key_ok R (lm_int l) (ls_redis st) e" "0 < re_windowSec e"
  shows "all_or_nothing R (lm_int l) now (ls_redis st) [e]
    (fst (checkSingle l R T K P M now e st)) (ls_redis (snd (checkSingle l R T K P M now e st)))"
proof -
  let ?ip = "lm_int l" and ?s = "ls_redis st"
  have ok: "\<forall>e \<in> set [e]. entry_key_ok R ?ip ?s e" and di: "distinct (map re_key [e])"
    using assms(2) by simp_all
  obtain s1 v where i: "rd_IncrBy R ?s (re_key e) (re_amount e) = (s1, v)" by fastforce
  note inc = incr_all_spec [OF assms(1) di ok]
  have v: "v = Some (used R ?ip ?s e + re_amount e)" and all: "\<forall>k. int_val R ?ip s1 k = added R ?ip ?s [e] k"
    using inc i by (auto simp: case_prod_unfold)
  define s2 where "s2 = (if used R ?ip ?s e = 0
    then rd_Expire R s1 (re_key e) (re_windowSec e * 2 * second_ns) else s1)"
  have "0 < re_windowSec e * 2 * second_ns" using assms(3) by (simp add: second_ns_def)
  then have all2: "\<forall>k. int_val R ?ip s2 k = added R ?ip ?s [e] k"
    using all rd_expire_frame [OF assms(1)] by (simp add: s2_def)
  show ?thesis
    using roll_back_added [OF assms(1) di ok all2] all2
    by (auto simp: checkSingle_def i v s2_def [symmetric] fits_def roll_back_def Let_def all_or_nothing_def)
qed

lemma checkPipelined_all_or_nothing:
  assumes "int_counters R (lm_int l)" "distinct (map re_key es)"
    "\<forall>e \<in> set es. entry_key_ok R (lm_int l) (ls_redis st) e" "\<forall>e \<in> set es. 0 < re_windowSec e"
  shows "all_or_nothing R (lm_int l) now (ls_redis st) es
    (fst (checkPipelined l R T K P M now es st)) (ls_redis (snd (checkPipelined l R T K P M now es st)))"
proof -
  let ?ip = "lm_int l" and ?s = "ls_redis st"
  note inc = incr_all_spec [OF assms(1-3)]
  obtain s1 vs where i: "incr_all R es ?s = (s1, vs)" by fastforce
  have vs: "vs = map (\<lambda>e. Some (used R ?ip ?s e + re_amount e)) es" using inc i by simp
  have evs: "zip es (map the vs) = map (\<lambda>e. (e, used R ?ip ?s e + re_amount e)) es"
    by (simp add: vs comp_def zip_map2 zip_same_conv_map)
  define s2 where "s2 = expire_fresh R (zip es (map the vs)) s1"
  have all2: "\<forall>k. int_val R ?ip s2 k = added R ?ip ?s es k"
    using inc i assms(4) unfolding s2_def evs by (subst expire_fresh_val [OF assms(1)]) auto
  have nn: "None \<notin> set vs" by (auto simp: vs)
  let ?f = "find (\<lambda>(e, newVal). rl_LimitValue (re_limit e) < newVal) (zip es (map the vs))"
  show ?thesis
  proof (cases ?f)
    case None
    then have "\<forall>e \<in> set es. fits R ?ip ?s e"
      unfolding evs by (auto simp: find_None_iff fits_def not_less)
    with None all2 nn show ?thesis
      by (simp add: checkPipelined_def i all_or_nothing_def s2_def [symmetric] Let_def)
  next
    case (Some ev)
    then obtain e where e: "e \<in> set es" "ev = (e, used R ?ip ?s e + re_amount e)" "\<not> fits R ?ip ?s e"
      unfolding evs by (auto simp: fits_def not_le dest!: find_SomeD)
    have "fst (checkPipelined l R T K P M now es st) = Some (rl_result now e (used R ?ip ?s e + re_amount e))"
      "ls_redis (snd (checkPipelined l R T K P M now es st)) = roll_back R es s2"
      using nn Some e(2) by (simp_all add: checkPipelined_def i s2_def [symmetric] Let_def)
    then show ?thesis using e roll_back_added [OF assms(1-3) all2] by (auto simp: all_or_nothing_def)
  qed
qed

section \<open>Properties\<close>

text \<open>C14: the limiter admits all or nothing. When Redis behaves as documented and the counters of the
  limits that apply are different keys holding integers: if every limit still has room for the
  request, the request is admitted and exactly these counters grow by their amounts; otherwise it is
  rejected, the answer describes a limit without room, and every counter in Redis holds what it held
  before. The pipelined path and the fast path for a single limit both do this.\<close>

theorem Check_all_or_nothing:
  assumes "lm_rdb l = Some R" and "int_counters R (lm_int l)"
    and "loadLimits l R db T (ls_redis st) = (Inr limits, s0)"
    and "es = collect T K P M est maxTokens now limits"
    and "distinct (map re_key es)" and "\<forall>e \<in> set es. entry_key_ok R (lm_int l) s0 e"
    and "Check l db now T K P M est maxTokens st = (r, st')"
  shows "if \<forall>e \<in> set es. fits R (lm_int l) s0 e
    then r = None \<and> (\<forall>k. int_val R (lm_int l) (ls_redis st') k = added R (lm_int l) s0 es k)
    else (\<exists>e \<in> set es. \<not> fits R (lm_int l) s0 e \<and>
            r = Some (rl_result now e (used R (lm_int l) s0 e + re_amount e))) \<and>
         (\<forall>k. int_val R (lm_int l) (ls_redis st') k = int_val R (lm_int l) s0 k)"
proof -
  let ?st = "st\<lparr>ls_redis := s0\<rparr>"
  have win: "\<forall>e \<in> set es. 0 < re_windowSec e" using collect_entry assms(4) by fastforce
  have chk: "(r, st') = (case es of [] \<Rightarrow> (None, ?st) | [e] \<Rightarrow> checkSingle l R T K P M now e ?st
      | _ \<Rightarrow> checkPipelined l R T K P M now es ?st)"
    using assms(7) unfolding Check_def assms(1) option.case assms(3) prod.case sum.case
      assms(4) [symmetric] Let_def by simp
  have "all_or_nothing R (lm_int l) now (ls_redis ?st) es r (ls_redis st')"
  proof (cases "length es = 1")
    case True
    then obtain e where "es = [e]" by (auto simp: length_Suc_conv)
    then have "(r, st') = checkSingle l R T K P M now e ?st" using chk by simp
    then show ?thesis
      using checkSingle_all_or_nothing [OF assms(2), of ?st e now T K P M] assms(6) win \<open>es = [e]\<close>
      by (simp add: prod_eq_iff)
  next
    case False
    show ?thesis
    proof (cases es)
      case Nil
      then show ?thesis using chk by (simp add: all_or_nothing_def added_def)
    next
      case (Cons e1 rest)
      with False obtain e2 rest' where "es = e1 # e2 # rest'" by (cases rest) auto
      then have "(r, st') = checkPipelined l R T K P M now es ?st" using chk by simp
      then show ?thesis
        using checkPipelined_all_or_nothing [OF assms(2,5), of ?st now T K P M] assms(6) win
        by (simp add: prod_eq_iff)
    qed
  qed
  then show ?thesis by (simp add: all_or_nothing_def)
qed

text \<open>An instance of the Redis parameter with integer values.\<close>

definition int_redis :: "(string \<Rightarrow> int option, int) redis_ops" where
  "int_redis = \<lparr>rd_Get = (\<lambda>s k. s k), rd_Set = (\<lambda>s k v ttl. s(k \<mapsto> v)), rd_Del = (\<lambda>s k. s(k := None)),
     rd_IncrByFloat = (\<lambda>s k a. s),
     rd_IncrBy = (\<lambda>s k n. let x = (case s k of None \<Rightarrow> 0 | Some x \<Rightarrow> x) + n in (s(k \<mapsto> x), Some x)),
     rd_ExpireAt = (\<lambda>s k e. s), rd_Expire = (\<lambda>s k ttl. if 0 < ttl then s else s(k := None)),
     rd_TTL = (\<lambda>s k. None), rd_now = (\<lambda>_. 0)\<rparr>"

lemma int_redis_counters: "int_counters int_redis Some"
  by (simp add: int_counters_def int_val_def int_redis_def Let_def split: option.split)

definition int_limiter :: "(string \<Rightarrow> int option, int) limiter" where
  "int_limiter = \<lparr>lm_rdb = Some int_redis,
     lm_codec = \<lparr>cd_Marshal = (\<lambda>_. None), cd_Unmarshal = (\<lambda>_. None)\<rparr>, lm_int = Some, lm_notif = False\<rparr>"

definition demo_rl :: "string \<Rightarrow> int \<Rightarrow> RateLimit" where
  "demo_rl metric v = \<lparr>rl_ID = 1, rl_TenantID = 7, rl_Provider = [], rl_Model = [], rl_ScopeType = ''account'',
     rl_ScopeID = [], rl_Metric = metric, rl_LimitValue = v, rl_WindowSeconds = 60, rl_Enabled = True\<rparr>"

definition demo_now :: go_time where "demo_now = \<lparr>t_ns = 62135596925 * second_ns, t_off = 0\<rparr>"

definition demo_st :: "int \<Rightarrow> (string \<Rightarrow> int option) limiter_state" where
  "demo_st n = \<lparr>ls_redis = [counterKey 7 (demo_rl ''otpm'' 100) 2 \<mapsto> n], ls_notifs = []\<rparr>"

lemma demo_Unix: "Unix demo_now = 125"
  by (simp add: Unix_def demo_now_def second_ns_def)

lemma int_limiter_simps [simp]: "lm_rdb int_limiter = Some int_redis" "lm_int int_limiter = Some"
  by (simp_all add: int_limiter_def)

lemma demo_load: "\<forall>x \<in> set ls. rl_TenantID x = 7 \<and> rl_Enabled x \<Longrightarrow>
    loadLimits int_limiter int_redis \<lparr>rdb_down = False, rdb_limits = ls\<rparr> 7 s = (Inr ls, s)"
  by (simp add: loadLimits_def read_through_def int_limiter_def filter_id_conv split: option.split)

lemma demo_collect:
  "collect 7 K P M est maxTokens demo_now [demo_rl ''otpm'' 100] =
     (if maxTokens \<le> 0 then [] else
       [\<lparr>re_limit = demo_rl ''otpm'' 100, re_key = counterKey 7 (demo_rl ''otpm'' 100) 2, re_amount = maxTokens,
         re_windowSec = 60, re_windowID = 2\<rparr>])"
  by (simp add: limit_matches_def metric_amount_def window_seconds_def demo_Unix Let_def demo_rl_def)

theorem Check_all_or_nothing_witness:
  "int_val int_redis Some (ls_redis (snd (Check int_limiter
      \<lparr>rdb_down = False, rdb_limits = [demo_rl ''otpm'' 100]\<rparr> demo_now 7 ''k'' ''openai'' ''m'' 5 50 (demo_st 70))))
      (counterKey 7 (demo_rl ''otpm'' 100) 2) = Some 70 \<and>
   int_val int_redis Some (ls_redis (snd (Check int_limiter
      \<lparr>rdb_down = False, rdb_limits = [demo_rl ''otpm'' 100]\<rparr> demo_now 7 ''k'' ''openai'' ''m'' 5 30 (demo_st 70))))
      (counterKey 7 (demo_rl ''otpm'' 100) 2) = Some 100"
proof -
  let ?db = "\<lparr>rdb_down = False, rdb_limits = [demo_rl ''otpm'' 100]\<rparr>"
  let ?k = "counterKey 7 (demo_rl ''otpm'' 100) 2"
  have ld: "loadLimits int_limiter int_redis ?db 7 (ls_redis (demo_st 70)) =
      (Inr [demo_rl ''otpm'' 100], ls_redis (demo_st 70))" by (rule demo_load) (simp add: demo_rl_def)
  have lim: "rl_LimitValue (demo_rl ''otpm'' 100) = 100" by (simp add: demo_rl_def)
  have v: "int_val int_redis Some (ls_redis (demo_st 70)) ?k = Some 70"
    by (simp add: int_val_def int_redis_def demo_st_def)
  have ans: "if 70 + n \<le> 100
      then int_val int_redis Some (ls_redis (snd (Check int_limiter ?db demo_now 7 ''k'' ''openai'' ''m'' 5 n (demo_st 70)))) ?k = Some (70 + n)
      else int_val int_redis Some (ls_redis (snd (Check int_limiter ?db demo_now 7 ''k'' ''openai'' ''m'' 5 n (demo_st 70)))) ?k = Some 70"
    if "0 < n" "n < 1000" for n
  proof -
    obtain r st' where c: "Check int_limiter ?db demo_now 7 ''k'' ''openai'' ''m'' 5 n (demo_st 70) = (r, st')"
      by fastforce
    have "\<forall>e \<in> set (collect 7 ''k'' ''openai'' ''m'' 5 n demo_now [demo_rl ''otpm'' 100]).
        entry_key_ok int_redis (lm_int int_limiter) (ls_redis (demo_st 70)) e"
      using that v by (simp add: demo_collect entry_key_ok_def int64_range_def del: collect.simps)
    from Check_all_or_nothing [OF _ _ ld refl _ this c] show ?thesis
      using that v by (simp add: int_redis_counters demo_collect fits_def used_def lim added_def c
          del: collect.simps split: if_splits)
  qed
  show ?thesis using ans [of 50] ans [of 30] by simp
qed

lemma Check_rejects_entry:
  assumes "lm_rdb l = Some R" "loadLimits l R db T (ls_redis st) = (Inr limits, s0)"
    "Check l db now T K P M est maxTokens st = (Some r, st')"
  shows "\<exists>e \<in> set (collect T K P M est maxTokens now limits). \<exists>v. r = rl_result now e v"
proof -
  let ?es = "collect T K P M est maxTokens now limits"
  have "(case ?es of [] \<Rightarrow> (None, st\<lparr>ls_redis := s0\<rparr>) | [e] \<Rightarrow> checkSingle l R T K P M now e (st\<lparr>ls_redis := s0\<rparr>)
      | _ \<Rightarrow> checkPipelined l R T K P M now ?es (st\<lparr>ls_redis := s0\<rparr>)) = (Some r, st')"
    using assms unfolding Check_def by (simp add: Let_def)
  then consider e where "?es = [e]" "checkSingle l R T K P M now e (st\<lparr>ls_redis := s0\<rparr>) = (Some r, st')"
    | "checkPipelined l R T K P M now ?es (st\<lparr>ls_redis := s0\<rparr>) = (Some r, st')"
    by (auto split: list.splits)
  then show ?thesis
  proof cases
    case 1
    then show ?thesis by (auto simp: checkSingle_def Let_def split: prod.splits option.splits if_splits)
  next
    case 2
    then show ?thesis
      by (auto simp: checkPipelined_def Let_def split: prod.splits option.splits if_splits
          dest!: find_SomeD set_zip_leftD)
  qed
qed

lemma retry_after_window:
  assumes "e \<in> set (collect T K P M est maxTokens now limits)" "0 \<le> Unix now"
  shows "rr_RetryAfterMs (rl_result now e v) =
    (window_seconds (re_limit e) - Unix now mod window_seconds (re_limit e)) * 1000"
proof -
  let ?w = "window_seconds (re_limit e)"
  have e: "re_windowSec e = ?w" "re_windowID e = Unix now div ?w"
    using collect_entry [OF assms(1)] quot_nonneg [OF assms(2) window_seconds_pos] by simp_all
  have "(Unix now div ?w + 1) * ?w - Unix now = ?w - Unix now mod ?w"
    using div_mult_mod_eq [of "Unix now" ?w] by (simp add: algebra_simps)
  then show ?thesis by (simp add: rl_result_def e)
qed

text \<open>The advice to the client is right: when a request is rejected, the \<open>RetryAfterMs\<close> of the
  answer is positive, at most the length of the window of some limit that applies to the request, and
  the instant it points to is the first second of the next window of that limit.\<close>

theorem rejected_retry_after:
  assumes "lm_rdb l = Some R" and "loadLimits l R db T (ls_redis st) = (Inr limits, s0)"
    and "Check l db now T K P M est maxTokens st = (Some r, st')" and "0 \<le> Unix now"
  shows "\<exists>x \<in> set limits. limit_matches K P M x \<and> rr_Metric r = rl_Metric x \<and>
    0 < rr_RetryAfterMs r \<and> rr_RetryAfterMs r \<le> 1000 * window_seconds x \<and>
    Unix now + rr_RetryAfterMs r div 1000 = (Unix now div window_seconds x + 1) * window_seconds x"
proof -
  obtain e v where e: "e \<in> set (collect T K P M est maxTokens now limits)" and r: "r = rl_result now e v"
    using Check_rejects_entry [OF assms(1-3)] by blast
  let ?x = "re_limit e"
  note ra = retry_after_window [OF e assms(4), of v, folded r]
  have "0 \<le> Unix now mod window_seconds ?x" "Unix now mod window_seconds ?x < window_seconds ?x" by simp_all
  moreover have "Unix now + (window_seconds ?x - Unix now mod window_seconds ?x) =
      (Unix now div window_seconds ?x + 1) * window_seconds ?x"
    using div_mult_mod_eq [of "Unix now" "window_seconds ?x"] by (simp add: algebra_simps)
  moreover have "rr_Metric r = rl_Metric ?x" by (simp add: r rl_result_def)
  ultimately show ?thesis using collect_entry [OF e] ra by (intro bexI [of _ ?x]) simp_all
qed

theorem rejected_retry_after_witness:
  "\<exists>r st'. Check int_limiter \<lparr>rdb_down = False, rdb_limits = [demo_rl ''otpm'' 100]\<rparr> demo_now 7 ''k'' ''openai'' ''m''
     5 50 (demo_st 70) = (Some r, st') \<and> 0 < rr_RetryAfterMs r"
proof -
  let ?db = "\<lparr>rdb_down = False, rdb_limits = [demo_rl ''otpm'' 100]\<rparr>"
  have ld: "loadLimits int_limiter int_redis ?db 7 (ls_redis (demo_st 70)) =
      (Inr [demo_rl ''otpm'' 100], ls_redis (demo_st 70))" by (rule demo_load) (simp add: demo_rl_def)
  have "\<exists>r. fst (Check int_limiter ?db demo_now 7 ''k'' ''openai'' ''m'' 5 50 (demo_st 70)) = Some r"
    by (simp add: Check_def ld demo_collect checkSingle_def Let_def del: collect.simps)
      (simp add: int_redis_def demo_st_def demo_rl_def Let_def)
  then obtain r st' where c: "Check int_limiter ?db demo_now 7 ''k'' ''openai'' ''m'' 5 50 (demo_st 70) = (Some r, st')"
    by (metis prod.collapse)
  show ?thesis using rejected_retry_after [OF _ ld c] c by (auto simp: demo_Unix)
qed

section \<open>Reconciliation\<close>

definition otpm_keys :: "nat \<Rightarrow> string \<Rightarrow> string \<Rightarrow> string \<Rightarrow> go_time \<Rightarrow> RateLimit list \<Rightarrow> string list" where
  "otpm_keys T K P M now limits = map (\<lambda>x. counterKey T x (quot (Unix now) (window_seconds x)))
     (filter (\<lambda>x. rl_Metric x = RateLimitMetricOTPM \<and> limit_matches K P M x) limits)"

lemma fold_decr_val:
  assumes "int_counters R ip" "distinct ks"
    "\<forall>k \<in> set ks. \<exists>x. int_val R ip s k = Some x \<and> int64_range (x - d)"
  shows "int_val R ip (fold (\<lambda>k s. fst (rd_IncrBy R s k (- d))) ks s) k =
    (if k \<in> set ks then Some (the (int_val R ip s k) - d) else int_val R ip s k)"
  using assms(2,3)
proof (induction ks arbitrary: s)
  case (Cons j ks)
  let ?s = "fst (rd_IncrBy R s j (- d))"
  obtain x where x: "int_val R ip s j = Some x" "int64_range (x + - d)" using Cons.prems(2) by auto
  have here: "int_val R ip ?s j = Some (x - d)" using incrby(2) [OF assms(1) x] by simp
  have fr: "int_val R ip ?s k = int_val R ip s k" if "k \<noteq> j" for k by (rule incrby_frame [OF assms(1) that])
  have "\<forall>k \<in> set ks. \<exists>x. int_val R ip ?s k = Some x \<and> int64_range (x - d)"
  proof
    fix k
    assume "k \<in> set ks"
    with Cons.prems(1) have "k \<noteq> j" by auto
    with Cons.prems(2) fr [OF this] \<open>k \<in> set ks\<close>
    show "\<exists>x. int_val R ip ?s k = Some x \<and> int64_range (x - d)" by simp
  qed
  from Cons.IH [OF _ this] Cons.prems(1) show ?case using here x fr by (cases "k = j") auto
qed simp

lemma Reconcile_eq:
  assumes "lm_rdb l = Some R" "0 < maxTokens" "actual < maxTokens" "loadLimits l R db T s = (Inr limits, s0)"
  shows "Reconcile l db now T K P M actual maxTokens s =
    fold (\<lambda>k s. fst (rd_IncrBy R s k (- (maxTokens - actual)))) (otpm_keys T K P M now limits) s0"
  using assms by (simp add: Reconcile_def otpm_keys_def Let_def fold_map comp_def)

text \<open>Reconciliation settles the reservation: while the window lasts, after the response is known
  every output-token counter that applies to the request is lowered by the difference between the
  reserved and the used tokens, so a counter that held its earlier amount plus the reservation then
  holds the earlier amount plus what was used; every other counter is untouched.\<close>

theorem Reconcile_settles:
  assumes "lm_rdb l = Some R" and "int_counters R (lm_int l)" and "0 < maxTokens" and "actual < maxTokens"
    and "loadLimits l R db T s = (Inr limits, s0)" and "distinct (otpm_keys T K P M now limits)"
    and "\<forall>k \<in> set (otpm_keys T K P M now limits). int_val R (lm_int l) s0 k = Some (before k + maxTokens) \<and>
      int64_range (before k + actual)"
  shows "(\<forall>k \<in> set (otpm_keys T K P M now limits).
      int_val R (lm_int l) (Reconcile l db now T K P M actual maxTokens s) k = Some (before k + actual)) \<and>
    (\<forall>k. k \<notin> set (otpm_keys T K P M now limits) \<longrightarrow>
      int_val R (lm_int l) (Reconcile l db now T K P M actual maxTokens s) k = int_val R (lm_int l) s0 k)"
proof -
  have "\<forall>k \<in> set (otpm_keys T K P M now limits). \<exists>x. int_val R (lm_int l) s0 k = Some x \<and>
      int64_range (x - (maxTokens - actual))" using assms(7) by auto
  from fold_decr_val [OF assms(2,6) this] show ?thesis
    unfolding Reconcile_eq [OF assms(1,3,4,5)] using assms(7) by simp
qed

text \<open>A response that arrives in a later window is settled against the wrong counter: the counter of
  the new window, if it does not exist yet, becomes negative by the unused part of the reservation,
  which the limit then grants on top of its value.\<close>

theorem Reconcile_next_window_negative:
  assumes "lm_rdb l = Some R" and "int_counters R (lm_int l)" and "0 < maxTokens" and "actual < maxTokens"
    and "loadLimits l R db T s = (Inr limits, s0)" and "distinct (otpm_keys T K P M now limits)"
    and "\<forall>k \<in> set (otpm_keys T K P M now limits). rd_Get R s0 k = None" and "int64_range (actual - maxTokens)"
    and "k \<in> set (otpm_keys T K P M now limits)"
  shows "\<exists>v. int_val R (lm_int l) (Reconcile l db now T K P M actual maxTokens s) k = Some v \<and> v < 0 \<and>
    v = actual - maxTokens"
proof -
  have z: "\<forall>k \<in> set (otpm_keys T K P M now limits). int_val R (lm_int l) s0 k = Some 0"
    using assms(7) by (simp add: int_val_def)
  then have "\<forall>k \<in> set (otpm_keys T K P M now limits). \<exists>x. int_val R (lm_int l) s0 k = Some x \<and>
      int64_range (x - (maxTokens - actual))" using assms(8) by auto
  from fold_decr_val [OF assms(2,6) this, of k] show ?thesis
    unfolding Reconcile_eq [OF assms(1,3,4,5)] using assms(4,9) z by simp
qed

lemma demo_otpm_keys:
  "otpm_keys 7 ''k'' ''openai'' ''m'' demo_now [demo_rl ''otpm'' 100] = [counterKey 7 (demo_rl ''otpm'' 100) 2]"
  by (simp add: otpm_keys_def limit_matches_def window_seconds_def demo_Unix) (simp add: demo_rl_def)

theorem Reconcile_settles_witness:
  "int_val int_redis Some (Reconcile int_limiter \<lparr>rdb_down = False, rdb_limits = [demo_rl ''otpm'' 100]\<rparr>
     demo_now 7 ''k'' ''openai'' ''m'' 20 50 (ls_redis (demo_st 90))) (counterKey 7 (demo_rl ''otpm'' 100) 2) = Some 60"
proof -
  have ld: "loadLimits int_limiter int_redis \<lparr>rdb_down = False, rdb_limits = [demo_rl ''otpm'' 100]\<rparr> 7
      (ls_redis (demo_st 90)) = (Inr [demo_rl ''otpm'' 100], ls_redis (demo_st 90))"
    by (rule demo_load) (simp add: demo_rl_def)
  have "int_val int_redis Some (ls_redis (demo_st 90)) (counterKey 7 (demo_rl ''otpm'' 100) 2) = Some 90"
    by (simp add: int_val_def int_redis_def demo_st_def)
  then show ?thesis
    using Reconcile_settles [OF _ _ _ _ ld, of 50 20 "''k''" "''openai''" "''m''" demo_now "\<lambda>_. 40"]
    by (simp add: int_redis_counters demo_otpm_keys int64_range_def)
qed

theorem Reconcile_next_window_negative_witness:
  "int_val int_redis Some (Reconcile int_limiter \<lparr>rdb_down = False, rdb_limits = [demo_rl ''otpm'' 100]\<rparr>
     demo_now 7 ''k'' ''openai'' ''m'' 20 50 Map.empty) (counterKey 7 (demo_rl ''otpm'' 100) 2) = Some (- 30)"
proof -
  have ld: "loadLimits int_limiter int_redis \<lparr>rdb_down = False, rdb_limits = [demo_rl ''otpm'' 100]\<rparr> 7
      Map.empty = (Inr [demo_rl ''otpm'' 100], Map.empty)"
    by (rule demo_load) (simp add: demo_rl_def)
  have "rd_Get int_redis Map.empty k = None" for k by (simp add: int_redis_def)
  then show ?thesis
    using Reconcile_next_window_negative [OF _ _ _ _ ld, of 50 20 "''k''" "''openai''" "''m''" demo_now]
    by (simp add: int_redis_counters demo_otpm_keys int64_range_def)
qed

end
