(* ===== verification/Pricing.thy ===== *)
theory Pricing
  imports "HOL-Library.Multiset" Store
begin

text \<open>
  Pricing of usage events: the rows of the price catalogue (\<open>internal/models/pricing.go\<close>), the
  event and result types (\<open>internal/pricing/types.go\<close>), the calculator and the resolver.

  Amounts of type \<open>decimal.Decimal\<close> are rationals: addition, multiplication and comparison of
  that type are documented to be exact. Its division, which rounds, is the parameter \<open>ddiv\<close> of the
  definitions that divide; \<open>div_rounds\<close> and \<open>div_exact\<close> state what its documentation promises
  (16 digits after the point, exact when the quotient has no more digits). Its \<open>String\<close> is the
  parameter \<open>dstr\<close>.
\<close>

section \<open>Catalogue rows\<close>

record Provider =
  prov_ID :: nat
  prov_Name :: string

record ModelDef =
  md_ID :: nat
  md_ProviderID :: nat
  md_ModelName :: string

record ModelPricing =
  mp_ID :: nat
  mp_ModelID :: nat
  mp_PriceType :: string
  mp_PricePerUnit :: rat
  mp_UnitSize :: int
  mp_EffectiveFrom :: go_time
  mp_EffectiveTo :: "go_time option"

record ContractPricing =
  cp_ID :: nat
  cp_TenantID :: nat
  cp_ModelID :: nat
  cp_PriceType :: string
  cp_PriceOverride :: rat
  cp_UnitSize :: int
  cp_EffectiveFrom :: go_time
  cp_EffectiveTo :: "go_time option"

record PricingMarkup =
  mk_ID :: nat
  mk_TenantID :: nat
  mk_ProviderID :: "nat option"
  mk_ModelID :: "nat option"
  mk_Percentage :: rat
  mk_Priority :: int
  mk_EffectiveFrom :: go_time
  mk_EffectiveTo :: "go_time option"

record PricingConfigRate =
  pr_ID :: nat
  pr_ConfigID :: nat
  pr_ModelID :: nat
  pr_PriceType :: string
  pr_PricePerUnit :: rat
  pr_UnitSize :: int

record APIKeyConfig =
  kc_ID :: nat
  kc_TenantID :: nat
  kc_KeyID :: string
  kc_ConfigID :: nat

abbreviation "PriceTypeInput \<equiv> ''input''"
abbreviation "PriceTypeOutput \<equiv> ''output''"
abbreviation "PriceTypeCacheCreation \<equiv> ''cache_creation''"
abbreviation "PriceTypeCacheRead \<equiv> ''cache_read''"
abbreviation "PriceTypeReasoning \<equiv> ''reasoning''"

section \<open>Events and results\<close>

record UsageEvent =
  ue_Provider :: string
  ue_Model :: string
  ue_InputTokens :: int
  ue_OutputTokens :: int
  ue_CacheCreationTokens :: int
  ue_CacheReadTokens :: int
  ue_ReasoningTokens :: int
  ue_RequestCount :: int
  ue_Timestamp :: go_time
  ue_TenantID :: nat
  ue_UserID :: string
  ue_IdempotencyKey :: string
  ue_APIKeyRef :: string
  ue_APIUsageBilled :: bool

record PricePoint =
  pp_PricePerUnit :: string
  pp_UnitSize :: int
  pp_PricingID :: nat
  pp_Source :: string

record PricingSnapshot =
  ps_Provider :: string
  ps_Model :: string
  ps_PricePoints :: "string \<rightharpoonup> PricePoint"
  ps_MarkupPct :: string
  ps_SnapshotAt :: go_time

record PricingResult =
  res_BaseCost :: rat
  res_MarkupAmount :: rat
  res_FinalCost :: rat
  res_Snapshot :: PricingSnapshot
  res_ProviderID :: nat
  res_ModelID :: nat

record resolvedPrice =
  rp_PricePerUnit :: rat
  rp_UnitSize :: int
  rp_PricingID :: nat
  rp_Source :: string

record ResolvedPrices =
  rps_ProviderID :: nat
  rps_ModelID :: nat
  rps_Prices :: "string \<rightharpoonup> resolvedPrice"

datatype resolve_error = ErrModelNotFound string string | ErrResolveDB

section \<open>Calculator\<close>

definition dims :: "UsageEvent \<Rightarrow> (string \<times> int) list" where
  "dims event =
     [(PriceTypeInput, ue_InputTokens event), (PriceTypeOutput, ue_OutputTokens event),
      (PriceTypeCacheCreation, ue_CacheCreationTokens event),
      (PriceTypeCacheRead, ue_CacheReadTokens event),
      (PriceTypeReasoning, ue_ReasoningTokens event)]"

definition default_unit :: "int \<Rightarrow> int" where
  "default_unit u = (if u = 0 then 1000000 else u)"

definition calc_dim :: "(rat \<Rightarrow> rat \<Rightarrow> rat) \<Rightarrow> (rat \<Rightarrow> string) \<Rightarrow> (string \<rightharpoonup> resolvedPrice) \<Rightarrow>
    string \<times> int \<Rightarrow> rat \<times> (string \<rightharpoonup> PricePoint) \<Rightarrow> rat \<times> (string \<rightharpoonup> PricePoint)" where
  "calc_dim ddiv dstr prices = (\<lambda>(priceType, tokens) (base, points).
     case prices priceType of
       None \<Rightarrow> (base, points)
     | Some rp \<Rightarrow>
         if tokens = 0 then (base, points)
         else (let unitSize = default_unit (rp_UnitSize rp);
                   cost = ddiv (of_int tokens) (of_int unitSize) * rp_PricePerUnit rp
               in (base + cost,
                   points(priceType \<mapsto> \<lparr>pp_PricePerUnit = dstr (rp_PricePerUnit rp),
                     pp_UnitSize = unitSize, pp_PricingID = rp_PricingID rp,
                     pp_Source = rp_Source rp\<rparr>))))"

definition Calculate :: "(rat \<Rightarrow> rat \<Rightarrow> rat) \<Rightarrow> (rat \<Rightarrow> string) \<Rightarrow> UsageEvent \<Rightarrow>
    (string \<rightharpoonup> resolvedPrice) \<Rightarrow> rat \<times> (string \<rightharpoonup> PricePoint)" where
  "Calculate ddiv dstr event prices = fold (calc_dim ddiv dstr prices) (dims event) (0, Map.empty)"

definition total_pct :: "PricingMarkup list \<Rightarrow> rat" where
  "total_pct markups = fold (\<lambda>m tot. tot + mk_Percentage m) markups 0"

definition ApplyMarkups :: "(rat \<Rightarrow> rat \<Rightarrow> rat) \<Rightarrow> rat \<Rightarrow> PricingMarkup list \<Rightarrow> rat" where
  "ApplyMarkups ddiv base markups =
     (if markups = [] \<or> base = 0 then base
      else base * (1 + ddiv (total_pct markups) 100))"

section \<open>Resolver\<close>

record pricing_db =
  pd_down :: bool
  pd_providers :: "Provider list"
  pd_models :: "ModelDef list"
  pd_key_configs :: "APIKeyConfig list"
  pd_config_rates :: "PricingConfigRate list"
  pd_contracts :: "ContractPricing list"
  pd_pricings :: "ModelPricing list"
  pd_markups :: "PricingMarkup list"

text \<open>\<open>effective_from <= ts AND (effective_to IS NULL OR effective_to > ts)\<close>\<close>

definition effective_at :: "go_time \<Rightarrow> go_time \<Rightarrow> go_time option \<Rightarrow> bool" where
  "effective_at ts from to \<longleftrightarrow> t_ns from \<le> t_ns ts \<and>
     (case to of None \<Rightarrow> True | Some e \<Rightarrow> t_ns ts < t_ns e)"

definition find_provider :: "pricing_db \<Rightarrow> string \<Rightarrow> (resolve_error, Provider) result" where
  "find_provider db name =
     (case db_first (pd_down db)
             (\<lambda>p. strings_ToLower (prov_Name p) = strings_ToLower name) (pd_providers db) of
        Inr p \<Rightarrow> Inr p
      | Inl RecordNotFound \<Rightarrow> Inl (ErrModelNotFound name [])
      | Inl DBUnavailable \<Rightarrow> Inl ErrResolveDB)"

definition find_model :: "pricing_db \<Rightarrow> nat \<Rightarrow> string \<Rightarrow> (resolve_error, ModelDef) result" where
  "find_model db providerID name =
     (case db_first (pd_down db)
             (\<lambda>m. md_ProviderID m = providerID \<and>
                  strings_ToLower (md_ModelName m) = strings_ToLower name) (pd_models db) of
        Inr m \<Rightarrow> Inr m
      | Inl RecordNotFound \<Rightarrow> Inl (ErrModelNotFound (''provider_id='' @ show_nat providerID) name)
      | Inl DBUnavailable \<Rightarrow> Inl ErrResolveDB)"

record ('s, 'v) resolver =
  rs_rdb :: "('s, 'v) redis_ops option"
  rs_resolved_codec :: "(ResolvedPrices, 'v) codec"
  rs_provider_codec :: "(Provider, 'v) codec"
  rs_model_codec :: "(ModelDef, 'v) codec"

definition resolveProvider :: "('s, 'v) resolver \<Rightarrow> pricing_db \<Rightarrow> string \<Rightarrow> 's \<Rightarrow>
    (resolve_error, Provider) result \<times> 's" where
  "resolveProvider r db name =
     read_through (rs_rdb r) (rs_provider_codec r) (''pprovider:'' @ strings_ToLower name)
       (300 * second_ns) (find_provider db name)"

definition resolveModel :: "('s, 'v) resolver \<Rightarrow> pricing_db \<Rightarrow> nat \<Rightarrow> string \<Rightarrow> 's \<Rightarrow>
    (resolve_error, ModelDef) result \<times> 's" where
  "resolveModel r db providerID name =
     read_through (rs_rdb r) (rs_model_codec r)
       (''pmodel:'' @ show_nat providerID @ '':'' @ strings_ToLower name)
       (300 * second_ns) (find_model db providerID name)"

definition rate_price :: "PricingConfigRate \<Rightarrow> string \<times> resolvedPrice" where
  "rate_price rate = (pr_PriceType rate,
     \<lparr>rp_PricePerUnit = pr_PricePerUnit rate, rp_UnitSize = default_unit (pr_UnitSize rate),
      rp_PricingID = pr_ID rate, rp_Source = ''key_config''\<rparr>)"

definition contract_price :: "ContractPricing \<Rightarrow> string \<times> resolvedPrice" where
  "contract_price cp = (cp_PriceType cp,
     \<lparr>rp_PricePerUnit = cp_PriceOverride cp, rp_UnitSize = default_unit (cp_UnitSize cp),
      rp_PricingID = cp_ID cp, rp_Source = ''contract''\<rparr>)"

definition standard_price :: "ModelPricing \<Rightarrow> string \<times> resolvedPrice" where
  "standard_price sp = (mp_PriceType sp,
     \<lparr>rp_PricePerUnit = mp_PricePerUnit sp, rp_UnitSize = default_unit (mp_UnitSize sp),
      rp_PricingID = mp_ID sp, rp_Source = ''standard''\<rparr>)"

text \<open>The two loop bodies: the key-level rates overwrite, the contracts and the standard prices
  skip a price type that is already set.\<close>

definition set_price :: "string \<times> resolvedPrice \<Rightarrow> (string \<rightharpoonup> resolvedPrice) \<Rightarrow> (string \<rightharpoonup> resolvedPrice)" where
  "set_price = (\<lambda>(pt, rp) prices. prices(pt \<mapsto> rp))"

definition fill_price :: "string \<times> resolvedPrice \<Rightarrow> (string \<rightharpoonup> resolvedPrice) \<Rightarrow> (string \<rightharpoonup> resolvedPrice)" where
  "fill_price = (\<lambda>(pt, rp) prices. case prices pt of Some _ \<Rightarrow> prices | None \<Rightarrow> prices(pt \<mapsto> rp))"

definition key_rates :: "pricing_db \<Rightarrow> UsageEvent \<Rightarrow> nat \<Rightarrow> PricingConfigRate list" where
  "key_rates db event modelID =
     (if ue_APIKeyRef event = [] then []
      else case db_first (pd_down db) (\<lambda>kc. kc_KeyID kc = ue_APIKeyRef event) (pd_key_configs db) of
        Inl _ \<Rightarrow> []
      | Inr kc \<Rightarrow> db_find (pd_down db)
          (\<lambda>r. pr_ConfigID r = kc_ConfigID kc \<and> pr_ModelID r = modelID) (pd_config_rates db))"

definition active_contracts :: "pricing_db \<Rightarrow> nat \<Rightarrow> nat \<Rightarrow> go_time \<Rightarrow> ContractPricing list" where
  "active_contracts db tenantID modelID ts = db_find (pd_down db)
     (\<lambda>cp. cp_TenantID cp = tenantID \<and> cp_ModelID cp = modelID \<and>
           effective_at ts (cp_EffectiveFrom cp) (cp_EffectiveTo cp)) (pd_contracts db)"

definition active_prices :: "pricing_db \<Rightarrow> nat \<Rightarrow> go_time \<Rightarrow> ModelPricing list" where
  "active_prices db modelID ts = db_find (pd_down db)
     (\<lambda>sp. mp_ModelID sp = modelID \<and>
           effective_at ts (mp_EffectiveFrom sp) (mp_EffectiveTo sp)) (pd_pricings db)"

definition load_prices :: "pricing_db \<Rightarrow> UsageEvent \<Rightarrow> nat \<Rightarrow> go_time \<Rightarrow> (string \<rightharpoonup> resolvedPrice)" where
  "load_prices db event modelID ts =
     (let p1 = fold set_price (map rate_price (key_rates db event modelID)) Map.empty;
          p2 = fold fill_price
                 (map contract_price (active_contracts db (ue_TenantID event) modelID ts)) p1
      in fold fill_price (map standard_price (active_prices db modelID ts)) p2)"

definition resolveFromDB :: "('s, 'v) resolver \<Rightarrow> pricing_db \<Rightarrow> go_time \<Rightarrow> UsageEvent \<Rightarrow> 's \<Rightarrow>
    (resolve_error, ResolvedPrices) result \<times> 's" where
  "resolveFromDB r db now event s =
     (case resolveProvider r db (ue_Provider event) s of
        (Inl e, s1) \<Rightarrow> (Inl e, s1)
      | (Inr provider, s1) \<Rightarrow>
          (case resolveModel r db (prov_ID provider) (ue_Model event) s1 of
             (Inl e, s2) \<Rightarrow> (Inl e, s2)
           | (Inr modelDef, s2) \<Rightarrow>
               (let ts = (if time_IsZero (ue_Timestamp event) then now else ue_Timestamp event)
                in (Inr \<lparr>rps_ProviderID = prov_ID provider, rps_ModelID = md_ID modelDef,
                         rps_Prices = load_prices db event (md_ID modelDef) ts\<rparr>, s2))))"

definition resolved_key :: "UsageEvent \<Rightarrow> string" where
  "resolved_key event = ''pricing:resolved:'' @ show_nat (ue_TenantID event) @ '':'' @
     ue_APIKeyRef event @ '':'' @ strings_ToLower (ue_Provider event) @ '':'' @
     strings_ToLower (ue_Model event)"

definition Resolve :: "('s, 'v) resolver \<Rightarrow> pricing_db \<Rightarrow> go_time \<Rightarrow> UsageEvent \<Rightarrow> 's \<Rightarrow>
    (resolve_error, ResolvedPrices) result \<times> 's" where
  "Resolve r db now event s =
     (case (case rs_rdb r of None \<Rightarrow> None
            | Some R \<Rightarrow> (case rd_Get R s (resolved_key event) of None \<Rightarrow> None
                         | Some v \<Rightarrow> cd_Unmarshal (rs_resolved_codec r) v)) of
        Some resolved \<Rightarrow> (Inr resolved, s)
      | None \<Rightarrow>
          (case resolveFromDB r db now event s of
             (Inl e, s1) \<Rightarrow> (Inl e, s1)
           | (Inr resolved, s1) \<Rightarrow>
               (Inr resolved,
                case rs_rdb r of None \<Rightarrow> s1
                | Some R \<Rightarrow> (case cd_Marshal (rs_resolved_codec r) resolved of
                              None \<Rightarrow> s1
                            | Some v \<Rightarrow> rd_Set R s1 (resolved_key event) v (60 * second_ns)))))"

section \<open>Lemmas\<close>

lemma fold_set_price: "fold set_price xs m k = (case map_of (rev xs) k of Some v \<Rightarrow> Some v | None \<Rightarrow> m k)"
  by (induction xs arbitrary: m) (auto simp: set_price_def map_add_def split: option.split)

lemma fold_fill_price: "fold fill_price xs m k = (case m k of Some v \<Rightarrow> Some v | None \<Rightarrow> map_of xs k)"
  by (induction xs arbitrary: m) (auto simp: fill_price_def split: option.splits)

lemma load_prices_eq:
  "load_prices db event modelID ts pt =
     (case map_of (rev (map rate_price (key_rates db event modelID))) pt of Some rp \<Rightarrow> Some rp
      | None \<Rightarrow> (case map_of (map contract_price
                        (active_contracts db (ue_TenantID event) modelID ts)) pt of
                   Some rp \<Rightarrow> Some rp
                 | None \<Rightarrow> map_of (map standard_price (active_prices db modelID ts)) pt))"
  by (simp add: load_prices_def Let_def fold_fill_price fold_set_price split: option.split)

text \<open>The exact cost of one dimension, and the dimensions that are billed.\<close>

definition billed_dims :: "(string \<rightharpoonup> resolvedPrice) \<Rightarrow> UsageEvent \<Rightarrow> (int \<times> resolvedPrice) list" where
  "billed_dims prices event =
     List.map_filter (\<lambda>(pt, tokens). case prices pt of None \<Rightarrow> None
       | Some rp \<Rightarrow> if tokens = 0 then None else Some (tokens, rp)) (dims event)"

definition exact_cost :: "int \<times> resolvedPrice \<Rightarrow> rat" where
  "exact_cost = (\<lambda>(tokens, rp).
     of_int tokens / of_int (default_unit (rp_UnitSize rp)) * rp_PricePerUnit rp)"

definition rounded_cost :: "(rat \<Rightarrow> rat \<Rightarrow> rat) \<Rightarrow> int \<times> resolvedPrice \<Rightarrow> rat" where
  "rounded_cost ddiv = (\<lambda>(tokens, rp).
     ddiv (of_int tokens) (of_int (default_unit (rp_UnitSize rp))) * rp_PricePerUnit rp)"

lemma fold_calc_dim:
  "fst (fold (calc_dim ddiv dstr prices) ds (b, ps)) =
     b + sum_list (map (rounded_cost ddiv)
       (List.map_filter (\<lambda>(pt, tokens). case prices pt of None \<Rightarrow> None
         | Some rp \<Rightarrow> if tokens = 0 then None else Some (tokens, rp)) ds))"
  by (induction ds arbitrary: b ps)
    (auto simp: calc_dim_def List.map_filter_simps rounded_cost_def Let_def split: option.splits)

lemma Calculate_sum:
  "fst (Calculate ddiv dstr event prices) = sum_list (map (rounded_cost ddiv) (billed_dims prices event))"
  by (simp add: Calculate_def fold_calc_dim billed_dims_def)

lemma fold_calc_points:
  "snd (fold (calc_dim ddiv dstr prices) ds (b, ps)) pt \<noteq> None \<longleftrightarrow>
     ps pt \<noteq> None \<or> (prices pt \<noteq> None \<and> (\<exists>tokens. (pt, tokens) \<in> set ds \<and> tokens \<noteq> 0))"
proof (induction ds arbitrary: b ps)
  case (Cons d ds)
  obtain pt' tk where d: "d = (pt', tk)" by fastforce
  obtain b' ps' where st: "calc_dim ddiv dstr prices d (b, ps) = (b', ps')" by fastforce
  have ps': "ps' pt \<noteq> None \<longleftrightarrow> ps pt \<noteq> None \<or> (pt = pt' \<and> prices pt' \<noteq> None \<and> tk \<noteq> 0)"
    using st by (auto simp: d calc_dim_def Let_def split: option.splits if_splits)
  show ?case unfolding fold_simps(2) st Cons.IH ps' using d by auto
qed simp

lemma total_pct_sum: "total_pct markups = sum_list (map mk_Percentage markups)"
proof -
  have "fold (\<lambda>m tot. tot + mk_Percentage m) markups a = a + sum_list (map mk_Percentage markups)" for a
    by (induction markups arbitrary: a) simp_all
  then show ?thesis by (simp add: total_pct_def)
qed

section \<open>The documented division\<close>

definition div_exact :: "(rat \<Rightarrow> rat \<Rightarrow> rat) \<Rightarrow> bool" where
  "div_exact ddiv \<longleftrightarrow>
     (\<forall>a b. b \<noteq> 0 \<longrightarrow> (\<exists>n. a / b * 10 ^ 16 = of_int n) \<longrightarrow> ddiv a b = a / b)"

definition div_rounds :: "(rat \<Rightarrow> rat \<Rightarrow> rat) \<Rightarrow> bool" where
  "div_rounds ddiv \<longleftrightarrow> (\<forall>a b. b \<noteq> 0 \<longrightarrow> \<bar>ddiv a b - a / b\<bar> \<le> 1 / (2 * 10 ^ 16))"

lemma div_exact_id: "div_exact (/)" and div_rounds_id: "div_rounds (/)"
  by (simp_all add: div_exact_def div_rounds_def)

lemma default_unit_nonzero [simp]: "default_unit u \<noteq> 0"
  by (simp add: default_unit_def)

lemma rounded_cost_exact:
  assumes "div_exact ddiv" and "default_unit (rp_UnitSize rp) dvd 10 ^ 16"
  shows "rounded_cost ddiv (tokens, rp) = exact_cost (tokens, rp)"
proof -
  let ?u = "default_unit (rp_UnitSize rp)"
  from assms(2) obtain c where c: "10 ^ 16 = ?u * c" by blast
  have "(10::rat) ^ 16 = of_int (10 ^ 16)" by simp
  also have "\<dots> = of_int ?u * of_int c" unfolding c by simp
  finally have p16: "(10::rat) ^ 16 = of_int ?u * of_int c" .
  have "(of_int tokens :: rat) / of_int ?u * 10 ^ 16 = of_int (tokens * c)"
    unfolding p16 by simp
  then have "ddiv (of_int tokens) (of_int ?u) = of_int tokens / of_int ?u"
    using assms(1) unfolding div_exact_def by (metis default_unit_nonzero of_int_eq_0_iff)
  then show ?thesis by (simp add: rounded_cost_def exact_cost_def)
qed

lemma rounded_cost_close:
  assumes "div_rounds ddiv"
  shows "\<bar>rounded_cost ddiv (tokens, rp) - exact_cost (tokens, rp)\<bar> \<le> \<bar>rp_PricePerUnit rp\<bar> / (2 * 10 ^ 16)"
proof -
  let ?q = "ddiv (of_int tokens) (of_int (default_unit (rp_UnitSize rp)))"
  let ?e = "(of_int tokens :: rat) / of_int (default_unit (rp_UnitSize rp))"
  have "\<bar>?q - ?e\<bar> * \<bar>rp_PricePerUnit rp\<bar> \<le> 1 / (2 * 10 ^ 16) * \<bar>rp_PricePerUnit rp\<bar>"
    using assms by (intro mult_right_mono) (auto simp: div_rounds_def)
  moreover have "rounded_cost ddiv (tokens, rp) - exact_cost (tokens, rp) =
      (?q - ?e) * rp_PricePerUnit rp"
    by (simp only: rounded_cost_def exact_cost_def prod.case left_diff_distrib)
  ultimately show ?thesis by (simp add: abs_mult)
qed

lemma sum_list_close:
  assumes "\<And>x. x \<in> set xs \<Longrightarrow> \<bar>f x - g x\<bar> \<le> (h x :: rat)"
  shows "\<bar>sum_list (map f xs) - sum_list (map g xs)\<bar> \<le> sum_list (map h xs)"
  using assms
proof (induction xs)
  case (Cons x xs)
  have "\<bar>f x - g x\<bar> \<le> h x" "\<bar>sum_list (map f xs) - sum_list (map g xs)\<bar> \<le> sum_list (map h xs)"
    using Cons by simp_all
  then show ?case by simp
qed simp

section \<open>Properties\<close>

text \<open>C23: the price that applies to a billing dimension is the one of the highest tier that has
  it. When the resolution succeeds, a price type is priced by the last matching rate of the API
  key's own pricing configuration if there is one, otherwise by the first contract of the tenant
  that is in force at the event's timestamp, otherwise by the first standard price in force; a
  price type in none of the three tiers has no price.\<close>

theorem resolve_precedence:
  assumes "resolveFromDB r db now event s = (Inr resolved, s')"
    and "ts = (if time_IsZero (ue_Timestamp event) then now else ue_Timestamp event)"
  shows "rps_Prices resolved pt =
    (case map_of (rev (map rate_price (key_rates db event (rps_ModelID resolved)))) pt of
       Some rp \<Rightarrow> Some rp
     | None \<Rightarrow> (case map_of (map contract_price
           (active_contracts db (ue_TenantID event) (rps_ModelID resolved) ts)) pt of
         Some rp \<Rightarrow> Some rp
       | None \<Rightarrow> map_of (map standard_price (active_prices db (rps_ModelID resolved) ts)) pt))"
proof -
  have "rps_Prices resolved = load_prices db event (rps_ModelID resolved) ts"
    using assms by (auto simp: resolveFromDB_def Let_def split: prod.splits sum.splits)
  then show ?thesis by (simp only: load_prices_eq)
qed

definition demo_event :: UsageEvent where
  "demo_event = \<lparr>ue_Provider = ''Anthropic'', ue_Model = ''opus'', ue_InputTokens = 1000,
     ue_OutputTokens = 250, ue_CacheCreationTokens = 0, ue_CacheReadTokens = 0,
     ue_ReasoningTokens = 0, ue_RequestCount = 1, ue_Timestamp = \<lparr>t_ns = 100, t_off = 0\<rparr>,
     ue_TenantID = 7, ue_UserID = ''u'', ue_IdempotencyKey = ''r1'', ue_APIKeyRef = ''k1'',
     ue_APIUsageBilled = True\<rparr>"

definition demo_contract :: ContractPricing where
  "demo_contract = \<lparr>cp_ID = 4, cp_TenantID = 7, cp_ModelID = 2, cp_PriceType = ''input'',
     cp_PriceOverride = 3, cp_UnitSize = 0, cp_EffectiveFrom = \<lparr>t_ns = 0, t_off = 0\<rparr>,
     cp_EffectiveTo = None\<rparr>"

definition demo_price :: "string \<Rightarrow> rat \<Rightarrow> ModelPricing" where
  "demo_price pt pr = \<lparr>mp_ID = 5, mp_ModelID = 2, mp_PriceType = pt, mp_PricePerUnit = pr,
     mp_UnitSize = 1000000, mp_EffectiveFrom = \<lparr>t_ns = 0, t_off = 0\<rparr>, mp_EffectiveTo = None\<rparr>"

definition demo_db :: pricing_db where
  "demo_db = \<lparr>pd_down = False, pd_providers = [\<lparr>prov_ID = 3, prov_Name = ''anthropic''\<rparr>],
     pd_models = [\<lparr>md_ID = 2, md_ProviderID = 3, md_ModelName = ''Opus''\<rparr>],
     pd_key_configs = [], pd_config_rates = [], pd_contracts = [demo_contract],
     pd_pricings = [demo_price ''input'' 15, demo_price ''output'' 75], pd_markups = []\<rparr>"

definition demo_resolver :: "(unit, unit) resolver" where
  "demo_resolver = \<lparr>rs_rdb = None,
     rs_resolved_codec = \<lparr>cd_Marshal = (\<lambda>_. None), cd_Unmarshal = (\<lambda>_. None)\<rparr>,
     rs_provider_codec = \<lparr>cd_Marshal = (\<lambda>_. None), cd_Unmarshal = (\<lambda>_. None)\<rparr>,
     rs_model_codec = \<lparr>cd_Marshal = (\<lambda>_. None), cd_Unmarshal = (\<lambda>_. None)\<rparr>\<rparr>"

lemma demo_resolved:
  "\<exists>res. resolveFromDB demo_resolver demo_db \<lparr>t_ns = 0, t_off = 0\<rparr> demo_event () = (Inr res, ()) \<and>
     rps_ModelID res = 2"
proof -
  have lower: "strings_ToLower ''Anthropic'' = strings_ToLower ''anthropic''"
    "strings_ToLower ''Opus'' = strings_ToLower ''opus''" by code_simp+
  have p: "resolveProvider demo_resolver demo_db ''Anthropic'' () =
      (Inr \<lparr>prov_ID = 3, prov_Name = ''anthropic''\<rparr>, ())"
    by (simp add: resolveProvider_def read_through_def demo_resolver_def find_provider_def demo_db_def
        db_first_def lower)
  have m: "resolveModel demo_resolver demo_db 3 ''opus'' () =
      (Inr \<lparr>md_ID = 2, md_ProviderID = 3, md_ModelName = ''Opus''\<rparr>, ())"
    by (simp add: resolveModel_def read_through_def demo_resolver_def find_model_def demo_db_def
        db_first_def lower)
  have e: "ue_Provider demo_event = ''Anthropic''" "ue_Model demo_event = ''opus''"
    by (simp_all add: demo_event_def)
  show ?thesis using p m unfolding resolveFromDB_def e by (simp add: Let_def)
qed

theorem resolve_precedence_witness:
  "\<exists>res s'. resolveFromDB demo_resolver demo_db \<lparr>t_ns = 0, t_off = 0\<rparr> demo_event () = (Inr res, s') \<and>
     rps_Prices res ''input'' = Some (snd (contract_price demo_contract))"
proof -
  obtain res where res: "resolveFromDB demo_resolver demo_db \<lparr>t_ns = 0, t_off = 0\<rparr> demo_event () = (Inr res, ())"
    and m: "rps_ModelID res = 2" using demo_resolved by blast
  have k: "key_rates demo_db demo_event 2 = []"
    by (simp add: key_rates_def demo_db_def demo_event_def db_first_def)
  have c: "active_contracts demo_db (ue_TenantID demo_event) 2 \<lparr>t_ns = 100, t_off = 0\<rparr> = [demo_contract]"
    by (simp add: active_contracts_def demo_db_def demo_event_def demo_contract_def db_find_def effective_at_def)
  have t: "\<lparr>t_ns = 100, t_off = 0\<rparr> = (if time_IsZero (ue_Timestamp demo_event)
      then \<lparr>t_ns = 0, t_off = 0\<rparr> else ue_Timestamp demo_event)"
    by (simp add: demo_event_def time_IsZero_def)
  from resolve_precedence [OF res t, of "''input''"]
  have "rps_Prices res ''input'' = Some (snd (contract_price demo_contract))"
    by (simp add: m k c contract_price_def demo_contract_def)
  with res show ?thesis by blast
qed

text \<open>C24: when every unit size that prices the event divides ten to the sixteenth (the default of
  one million does), the base cost is exact: it is the sum over the billed dimensions of tokens
  divided by unit size times price, with no rounding.\<close>

theorem Calculate_exact:
  assumes "div_exact ddiv"
    and "\<forall>(tokens, rp) \<in> set (billed_dims prices event). default_unit (rp_UnitSize rp) dvd 10 ^ 16"
  shows "fst (Calculate ddiv dstr event prices) =
    sum_list (map exact_cost (billed_dims prices event))"
proof -
  have "map (rounded_cost ddiv) (billed_dims prices event) = map exact_cost (billed_dims prices event)"
    using assms rounded_cost_exact by fastforce
  then show ?thesis by (simp only: Calculate_sum)
qed

definition demo_rp :: resolvedPrice where
  "demo_rp = \<lparr>rp_PricePerUnit = 15, rp_UnitSize = 1000000, rp_PricingID = 5, rp_Source = ''standard''\<rparr>"

lemma demo_billed: "billed_dims [''input'' \<mapsto> demo_rp] demo_event = [(1000, demo_rp)]"
  by (simp add: billed_dims_def dims_def demo_event_def List.map_filter_simps)

theorem Calculate_exact_witness:
  "fst (Calculate (/) (\<lambda>_. []) demo_event [''input'' \<mapsto> demo_rp]) = 15 / 1000"
proof -
  have "fst (Calculate (/) (\<lambda>_. []) demo_event [''input'' \<mapsto> demo_rp]) =
      sum_list (map exact_cost (billed_dims [''input'' \<mapsto> demo_rp] demo_event))"
    by (rule Calculate_exact [OF div_exact_id])
      (unfold demo_billed, simp add: demo_rp_def default_unit_def)
  also have "\<dots> = exact_cost (1000, demo_rp)" by (simp add: demo_billed)
  also have "\<dots> = 15 / 1000" by (simp add: exact_cost_def demo_rp_def default_unit_def)
  finally show ?thesis .
qed

text \<open>For arbitrary unit sizes the rounding of the division costs at most half a unit in the
  sixteenth digit per billed dimension, scaled by the price: the base cost differs from the exact
  cost by no more than the sum of the absolute prices over twice ten to the sixteenth.\<close>

theorem Calculate_error_bound:
  assumes "div_rounds ddiv"
  shows "\<bar>fst (Calculate ddiv dstr event prices) - sum_list (map exact_cost (billed_dims prices event))\<bar>
    \<le> sum_list (map (\<lambda>(tokens, rp). \<bar>rp_PricePerUnit rp\<bar> / (2 * 10 ^ 16)) (billed_dims prices event))"
  unfolding Calculate_sum
  by (rule sum_list_close) (use rounded_cost_close [OF assms] in \<open>auto split: prod.split\<close>)

theorem Calculate_error_bound_witness:
  "\<bar>fst (Calculate (/) (\<lambda>_. []) demo_event [''input'' \<mapsto> demo_rp]) - 15 / 1000\<bar> \<le> 15 / (2 * 10 ^ 16)"
proof -
  have c: "exact_cost (1000, demo_rp) = 15 / 1000" and p: "rp_PricePerUnit demo_rp = 15"
    by (simp_all add: exact_cost_def demo_rp_def default_unit_def)
  show ?thesis
    using Calculate_error_bound [OF div_rounds_id, of "\<lambda>_. []" demo_event "[''input'' \<mapsto> demo_rp]"]
    unfolding demo_billed list.map sum_list.Cons sum_list.Nil prod.case c p by simp
qed

text \<open>The snapshot stored with a cost is complete: a price point is recorded for a price type
  exactly when that type has a resolved price and the event has tokens of it, which are exactly the
  dimensions that enter the base cost.\<close>

theorem Calculate_snapshot_complete:
  "dom (snd (Calculate ddiv dstr event prices)) =
     {pt. prices pt \<noteq> None \<and> (\<exists>tokens. (pt, tokens) \<in> set (dims event) \<and> tokens \<noteq> 0)}"
  unfolding dom_def Calculate_def fold_calc_points by simp

text \<open>Markups compose by adding percentages: the final cost is the base cost times one plus the
  hundredth of the sum of all applicable percentages, whatever the priorities and the order of the
  markup rows; the priority of a markup has no influence on the price.\<close>

theorem ApplyMarkups_ignores_priority:
  assumes "mset (map mk_Percentage ms) = mset (map mk_Percentage ms')"
  shows "ApplyMarkups ddiv base ms = ApplyMarkups ddiv base ms' \<and>
    (base \<noteq> 0 \<and> ms \<noteq> [] \<longrightarrow>
      ApplyMarkups ddiv base ms = base * (1 + ddiv (sum_list (map mk_Percentage ms)) 100))"
proof -
  have "sum_list (map mk_Percentage ms) = sum_list (map mk_Percentage ms')"
    using assms by (metis sum_mset_sum_list)
  moreover have "ms = [] \<longleftrightarrow> ms' = []"
    using assms by (metis mset_zero_iff map_is_Nil_conv)
  ultimately show ?thesis by (auto simp: ApplyMarkups_def total_pct_sum)
qed

definition demo_markup :: "int \<Rightarrow> rat \<Rightarrow> PricingMarkup" where
  "demo_markup prio pct = \<lparr>mk_ID = 1, mk_TenantID = 7, mk_ProviderID = None, mk_ModelID = None,
     mk_Percentage = pct, mk_Priority = prio, mk_EffectiveFrom = \<lparr>t_ns = 0, t_off = 0\<rparr>,
     mk_EffectiveTo = None\<rparr>"

theorem ApplyMarkups_ignores_priority_witness:
  "ApplyMarkups (/) 10 [demo_markup 9 20, demo_markup 0 30] = 15"
proof -
  have "mset (map mk_Percentage [demo_markup 9 20, demo_markup 0 30]) =
      mset (map mk_Percentage [demo_markup 0 30, demo_markup 9 20])"
    by (simp add: demo_markup_def)
  from ApplyMarkups_ignores_priority [OF this, of "(/)" 10]
  show ?thesis by (simp add: demo_markup_def)
qed

end
