(* ===== verification/Budget.thy ===== *)
theory Budget
  imports Pricing
begin

text \<open>
  The pricing engine (\<open>internal/pricing/engine.go\<close>): budget limits and their pre-check, spend
  reservations, the processing of a usage event into the cost ledger, and the Redis counters per
  period. The engine's collaborators that are not part of the repository are fields of the record
  \<open>engine\<close>: the Redis client, the parser and formatters of \<open>decimal\<close>, its conversion to a float,
  JSON codecs and the texts of the database driver's errors.
\<close>

section \<open>Rows, events and results\<close>

record BudgetLimit =
  bl_ID :: nat
  bl_TenantID :: nat
  bl_ScopeType :: string
  bl_ScopeID :: string
  bl_PeriodType :: string
  bl_Provider :: string
  bl_LimitAmount :: rat
  bl_AlertThreshold :: rat
  bl_Action :: string
  bl_Enabled :: bool

record CostLedger =
  cl_TenantID :: nat
  cl_UserID :: string
  cl_ProviderID :: nat
  cl_ModelID :: nat
  cl_InputTokens :: int
  cl_OutputTokens :: int
  cl_CacheCreationTokens :: int
  cl_CacheReadTokens :: int
  cl_ReasoningTokens :: int
  cl_BaseCost :: rat
  cl_MarkupAmount :: rat
  cl_FinalCost :: rat
  cl_PricingSnapshot :: string
  cl_IdempotencyKey :: string
  cl_Timestamp :: go_time
  cl_APIUsageBilled :: bool

record BudgetStatus =
  bs_AtWarning :: bool
  bs_Scope :: string
  bs_Period :: string
  bs_LimitAmount :: rat
  bs_CurrentSpend :: rat
  bs_Threshold :: rat

record ErrBudgetExceeded =
  be_TenantID :: nat
  be_LimitAmount :: rat
  be_CurrentSpend :: rat
  be_Period :: string

abbreviation "BudgetActionAlert \<equiv> ''alert''"
abbreviation "BudgetActionBlock \<equiv> ''block''"
abbreviation "BudgetActionAlertBlock \<equiv> ''alert_block''"

datatype process_error =
    ProcResolve | ProcBudget ErrBudgetExceeded | ProcMarshal | ProcLedger string

datatype precheck = PreOK "BudgetStatus option" | PreBlocked BudgetStatus ErrBudgetExceeded | PrePanic

record engine_db = pricing_db +
  ed_limits :: "BudgetLimit list"

record ('s, 'v) engine =
  en_resolver :: "('s, 'v) resolver"
  en_parse :: "'v \<Rightarrow> rat option"
  en_div :: "rat \<Rightarrow> rat \<Rightarrow> rat"
  en_str :: "rat \<Rightarrow> string"
  en_fix :: "nat \<Rightarrow> rat \<Rightarrow> string"
  en_float :: "rat \<Rightarrow> rat"
  en_limits_codec :: "(BudgetLimit list, 'v) codec"
  en_snapshot :: "PricingSnapshot \<Rightarrow> string option"
  en_notif :: bool
  en_dup_msg :: string
  en_down_msg :: string

abbreviation "en_rdb e \<equiv> rs_rdb (en_resolver e)"

record 's engine_state =
  es_redis :: 's
  es_ledger :: "CostLedger list"
  es_notifs :: "NotificationEventMsg list"

section \<open>Counter keys\<close>

definition reservationRedisKey :: "nat \<Rightarrow> string \<Rightarrow> go_time \<Rightarrow> string" where
  "reservationRedisKey tenantID periodType t =
     ''budget:reserved:'' @ show_nat tenantID @ '':'' @ period_suffix periodType t"

definition reservationRedisKeyForKey :: "string \<Rightarrow> string \<Rightarrow> go_time \<Rightarrow> string" where
  "reservationRedisKeyForKey keyID periodType t =
     ''budget:reserved:key:'' @ keyID @ '':'' @ period_suffix periodType t"

definition budgetRedisKeyForKey :: "string \<Rightarrow> string \<Rightarrow> go_time \<Rightarrow> string" where
  "budgetRedisKeyForKey keyID periodType t =
     ''budget:key:'' @ keyID @ '':'' @ period_suffix periodType t"

definition budgetRedisKeyForProvider :: "nat \<Rightarrow> string \<Rightarrow> string \<Rightarrow> go_time \<Rightarrow> string" where
  "budgetRedisKeyForProvider tenantID provider periodType t =
     ''budget:'' @ show_nat tenantID @ '':'' @ provider @ '':'' @ period_suffix periodType t"

definition budgetRedisKeyForKeyProvider :: "string \<Rightarrow> string \<Rightarrow> string \<Rightarrow> go_time \<Rightarrow> string" where
  "budgetRedisKeyForKeyProvider keyID provider periodType t =
     ''budget:key:'' @ keyID @ '':'' @ provider @ '':'' @ period_suffix periodType t"

definition budgetRedisKey :: "nat \<Rightarrow> string \<Rightarrow> go_time \<Rightarrow> string" where
  "budgetRedisKey tenantID periodType t =
     ''budget:'' @ show_nat tenantID @ '':'' @ period_suffix periodType t"

section \<open>Budget limits and spend\<close>

definition loadBudgetLimits :: "('s, 'v) engine \<Rightarrow> engine_db \<Rightarrow> nat \<Rightarrow> 's \<Rightarrow>
    (db_error, BudgetLimit list) result \<times> 's" where
  "loadBudgetLimits e db tenantID =
     read_through (en_rdb e) (en_limits_codec e) (''bl:config:'' @ show_nat tenantID) (60 * second_ns)
       (if pd_down db then Inl DBUnavailable
        else Inr (filter (\<lambda>l. bl_TenantID l = tenantID) (ed_limits db)))"

definition InvalidateBudgetCache :: "('s, 'v) engine \<Rightarrow> nat \<Rightarrow> 's \<Rightarrow> 's" where
  "InvalidateBudgetCache e tenantID s =
     (case en_rdb e of None \<Rightarrow> s | Some R \<Rightarrow> rd_Del R s (''bl:config:'' @ show_nat tenantID))"

definition getReserved :: "('s, 'v) engine \<Rightarrow> 's \<Rightarrow> nat \<Rightarrow> string \<Rightarrow> string \<Rightarrow> string \<Rightarrow> go_time \<Rightarrow> rat" where
  "getReserved e s tenantID scopeType scopeID periodType t =
     (case en_rdb e of
        None \<Rightarrow> 0
      | Some R \<Rightarrow>
          (let key = (if scopeType = BudgetScopeAPIKey then reservationRedisKeyForKey scopeID periodType t
                      else reservationRedisKey tenantID periodType t)
           in case counter_val R (en_parse e) s key of
                None \<Rightarrow> 0
              | Some reserved \<Rightarrow> if reserved > 0 then reserved else 0))"

definition dbBudgetSpend :: "engine_db \<Rightarrow> CostLedger list \<Rightarrow> nat \<Rightarrow> string \<Rightarrow> string \<Rightarrow> go_time \<Rightarrow> rat" where
  "dbBudgetSpend db ledger tenantID periodType provider t =
     (if pd_down db then 0
      else sum_list (map cl_FinalCost
        (filter (\<lambda>l. cl_TenantID l = tenantID \<and>
              t_ns (periodStart periodType t) \<le> t_ns (cl_Timestamp l) \<and> cl_APIUsageBilled l \<and>
              (provider = [] \<or> cl_ProviderID l \<in>
                 set (map prov_ID (filter (\<lambda>p. prov_Name p = provider) (pd_providers db))))) ledger)))"

definition spend_key :: "nat \<Rightarrow> string \<Rightarrow> string \<Rightarrow> string \<Rightarrow> string \<Rightarrow> go_time \<Rightarrow> string" where
  "spend_key tenantID scopeType scopeID periodType provider t =
     (if provider \<noteq> [] then
        (if scopeType = BudgetScopeAPIKey then budgetRedisKeyForKeyProvider scopeID provider periodType t
         else budgetRedisKeyForProvider tenantID provider periodType t)
      else if scopeType = BudgetScopeAPIKey then budgetRedisKeyForKey scopeID periodType t
      else budgetRedisKey tenantID periodType t)"

definition getSpend :: "('s, 'v) engine \<Rightarrow> engine_db \<Rightarrow> 's engine_state \<Rightarrow> nat \<Rightarrow> string \<Rightarrow> string \<Rightarrow>
    string \<Rightarrow> string \<Rightarrow> go_time \<Rightarrow> rat" where
  "getSpend e db st tenantID scopeType scopeID periodType provider t =
     (case (case en_rdb e of None \<Rightarrow> None
            | Some R \<Rightarrow> counter_val R (en_parse e) (es_redis st)
                (spend_key tenantID scopeType scopeID periodType provider t)) of
        Some spend \<Rightarrow> spend
      | None \<Rightarrow>
          if scopeType = BudgetScopeAccount
          then dbBudgetSpend db (es_ledger st) tenantID periodType provider t
          else 0)"

section \<open>Pre-check\<close>

definition in_scope :: "string \<Rightarrow> BudgetLimit \<Rightarrow> bool" where
  "in_scope keyID l \<longleftrightarrow> bl_ScopeType l = BudgetScopeAccount \<or>
     (bl_ScopeType l = BudgetScopeAPIKey \<and> bl_ScopeID l = keyID)"

definition effective_spend :: "('s, 'v) engine \<Rightarrow> engine_db \<Rightarrow> 's engine_state \<Rightarrow> nat \<Rightarrow> BudgetLimit \<Rightarrow>
    go_time \<Rightarrow> rat" where
  "effective_spend e db st tenantID l now =
     getSpend e db st tenantID (bl_ScopeType l) (bl_ScopeID l) (bl_PeriodType l) (bl_Provider l) now +
     getReserved e (es_redis st) tenantID (bl_ScopeType l) (bl_ScopeID l) (bl_PeriodType l) now"

definition limit_status :: "BudgetLimit \<Rightarrow> rat \<Rightarrow> BudgetStatus" where
  "limit_status l eff = \<lparr>bs_AtWarning = True, bs_Scope = bl_ScopeType l, bs_Period = bl_PeriodType l,
     bs_LimitAmount = bl_LimitAmount l, bs_CurrentSpend = eff, bs_Threshold = bl_AlertThreshold l\<rparr>"

definition limit_exceeded :: "nat \<Rightarrow> BudgetLimit \<Rightarrow> rat \<Rightarrow> ErrBudgetExceeded" where
  "limit_exceeded tenantID l eff = \<lparr>be_TenantID = tenantID, be_LimitAmount = bl_LimitAmount l,
     be_CurrentSpend = eff, be_Period = bl_PeriodType l\<rparr>"

definition blocked_msg :: "('s, 'v) engine \<Rightarrow> nat \<Rightarrow> string \<Rightarrow> string \<Rightarrow> BudgetLimit \<Rightarrow> rat \<Rightarrow> NotificationEventMsg" where
  "blocked_msg e tenantID keyID provider l eff =
     \<lparr>ne_TenantID = tenantID, ne_EventType = ''budget_blocked'', ne_KeyID = keyID, ne_Provider = provider, ne_Model = [],
      ne_Details = ''{\"scope\":\"'' @ bl_ScopeType l @ ''\",\"period\":\"'' @ bl_PeriodType l @
        ''\",\"current_spend\":\"'' @ en_fix e 4 eff @ ''\",\"limit_amount\":\"'' @
        en_str e (bl_LimitAmount l) @ ''\"}''\<rparr>"

definition warning_msg :: "('s, 'v) engine \<Rightarrow> nat \<Rightarrow> string \<Rightarrow> string \<Rightarrow> BudgetLimit \<Rightarrow> rat \<Rightarrow> NotificationEventMsg" where
  "warning_msg e tenantID keyID provider l eff =
     \<lparr>ne_TenantID = tenantID, ne_EventType = ''budget_warning'', ne_KeyID = keyID, ne_Provider = provider, ne_Model = [],
      ne_Details = ''{\"scope\":\"'' @ bl_ScopeType l @ ''\",\"period\":\"'' @ bl_PeriodType l @
        ''\",\"current_spend\":\"'' @ en_fix e 4 eff @ ''\",\"limit_amount\":\"'' @
        en_str e (bl_LimitAmount l) @ ''\",\"pct_used\":\"'' @
        en_fix e 1 (en_div e eff (bl_LimitAmount l) * 100) @ ''\"}''\<rparr>"

text \<open>The loop over the limits in scope. \<open>st\<close> is only read; the notifications published so far
  are threaded through. Dividing by a limit of amount zero panics: a limit at its threshold is
  divided by its own amount for the warning, and before that, when a nearer status exists, for the
  comparison with it.\<close>

fun precheck_loop :: "('s, 'v) engine \<Rightarrow> engine_db \<Rightarrow> 's engine_state \<Rightarrow> nat \<Rightarrow> string \<Rightarrow> string \<Rightarrow> go_time \<Rightarrow>
    BudgetLimit list \<Rightarrow> BudgetStatus option \<Rightarrow> NotificationEventMsg list \<Rightarrow>
    precheck \<times> NotificationEventMsg list" where
  "precheck_loop e db st tenantID keyID provider now [] nearest ns = (PreOK nearest, ns)"
| "precheck_loop e db st tenantID keyID provider now (l # ls) nearest ns =
     (if \<not> bl_Enabled l then precheck_loop e db st tenantID keyID provider now ls nearest ns
      else if bl_Provider l \<noteq> [] \<and> bl_Provider l \<noteq> provider
      then precheck_loop e db st tenantID keyID provider now ls nearest ns
      else
        (let eff = effective_spend e db st tenantID l now;
             thresholdAmount = en_div e (bl_LimitAmount l * bl_AlertThreshold l) 100
         in if (bl_Action l = BudgetActionBlock \<or> bl_Action l = BudgetActionAlertBlock) \<and>
               bl_LimitAmount l \<le> eff
            then (PreBlocked (limit_status l eff) (limit_exceeded tenantID l eff),
                  if en_notif e then ns @ [blocked_msg e tenantID keyID provider l eff] else ns)
            else if thresholdAmount \<le> eff then
              (if bl_LimitAmount l = 0 then (PrePanic, ns)
               else if (case nearest of None \<Rightarrow> True
                        | Some n \<Rightarrow> en_div e (bs_CurrentSpend n) (bs_LimitAmount n) <
                                    en_div e eff (bl_LimitAmount l))
               then precheck_loop e db st tenantID keyID provider now ls (Some (limit_status l eff))
                      (if en_notif e then ns @ [warning_msg e tenantID keyID provider l eff] else ns)
               else precheck_loop e db st tenantID keyID provider now ls nearest ns)
            else precheck_loop e db st tenantID keyID provider now ls nearest ns))"

definition PreCheckBudget :: "('s, 'v) engine \<Rightarrow> engine_db \<Rightarrow> nat \<Rightarrow> string \<Rightarrow> string \<Rightarrow> go_time \<Rightarrow>
    's engine_state \<Rightarrow> precheck \<times> 's engine_state" where
  "PreCheckBudget e db tenantID keyID provider now st =
     (case loadBudgetLimits e db tenantID (es_redis st) of
        (Inl _, s1) \<Rightarrow> (PreOK None, st\<lparr>es_redis := s1\<rparr>)
      | (Inr allLimits, s1) \<Rightarrow>
          (let st1 = st\<lparr>es_redis := s1\<rparr>;
               limits = filter (in_scope keyID) allLimits;
               (r, ns) = precheck_loop e db st1 tenantID keyID provider now limits None (es_notifs st)
           in (r, st1\<lparr>es_notifs := ns\<rparr>)))"

section \<open>Reservations\<close>

definition all_periods :: "string list" where
  "all_periods = [PeriodMonthly, PeriodWeekly, PeriodDaily]"

definition reservation_keys :: "nat \<Rightarrow> string \<Rightarrow> go_time \<Rightarrow> (string \<times> int) list" where
  "reservation_keys tenantID keyID now = concat (map (\<lambda>period.
     (reservationRedisKey tenantID period now, t_ns (periodEnd period now)) #
     (if keyID \<noteq> [] then [(reservationRedisKeyForKey keyID period now, t_ns (periodEnd period now))]
      else [])) all_periods)"

definition reserve_event :: "go_time \<Rightarrow> nat \<Rightarrow> string \<Rightarrow> string \<Rightarrow> string \<Rightarrow> UsageEvent" where
  "reserve_event now tenantID keyID provider model =
     \<lparr>ue_Provider = provider, ue_Model = model, ue_InputTokens = 0, ue_OutputTokens = 0,
      ue_CacheCreationTokens = 0, ue_CacheReadTokens = 0, ue_ReasoningTokens = 0, ue_RequestCount = 0,
      ue_Timestamp = now, ue_TenantID = tenantID, ue_UserID = [], ue_IdempotencyKey = [],
      ue_APIKeyRef = keyID, ue_APIUsageBilled = False\<rparr>"

definition ReserveSpend :: "('s, 'v) engine \<Rightarrow> engine_db \<Rightarrow> go_time \<Rightarrow> nat \<Rightarrow> string \<Rightarrow> string \<Rightarrow> string \<Rightarrow>
    int \<Rightarrow> 's \<Rightarrow> rat \<times> 's" where
  "ReserveSpend e db now tenantID keyID provider model maxTokens s =
     (case en_rdb e of
        None \<Rightarrow> (0, s)
      | Some R \<Rightarrow>
          if maxTokens \<le> 0 then (0, s)
          else
            (let event = reserve_event now tenantID keyID provider model
             in case Resolve (en_resolver e) (pricing_db.truncate db) now event s of
                  (Inl _, s1) \<Rightarrow> (0, s1)
                | (Inr resolved, s1) \<Rightarrow>
                    (case rps_Prices resolved PriceTypeOutput of
                       None \<Rightarrow> (0, s1)
                     | Some outputPrice \<Rightarrow>
                         if rp_UnitSize outputPrice = 0 then (0, s1)
                         else
                           (let reservedAmount = en_div e
                                  (rp_PricePerUnit outputPrice * of_int maxTokens)
                                  (of_int (rp_UnitSize outputPrice))
                            in if reservedAmount = 0 then (0, s1)
                               else (reservedAmount,
                                     fold (bump R (en_float e reservedAmount))
                                       (reservation_keys tenantID keyID now) s1)))))"

definition ReleaseReservation :: "('s, 'v) engine \<Rightarrow> go_time \<Rightarrow> nat \<Rightarrow> string \<Rightarrow> rat \<Rightarrow> 's \<Rightarrow> 's" where
  "ReleaseReservation e now tenantID keyID reservedAmount s =
     (case en_rdb e of
        None \<Rightarrow> s
      | Some R \<Rightarrow>
          if reservedAmount = 0 then s
          else fold (\<lambda>k s. rd_IncrByFloat R s k (- en_float e reservedAmount))
                 (map fst (reservation_keys tenantID keyID now)) s)"

section \<open>Processing a usage event\<close>

definition resolveMarkups :: "pricing_db \<Rightarrow> UsageEvent \<Rightarrow> ResolvedPrices \<Rightarrow> PricingMarkup list" where
  "resolveMarkups db event resolved =
     rev (sort_key mk_Priority (db_find (pd_down db)
       (\<lambda>m. mk_TenantID m = ue_TenantID event \<and>
            effective_at (ue_Timestamp event) (mk_EffectiveFrom m) (mk_EffectiveTo m) \<and>
            (mk_ProviderID m = None \<or> mk_ProviderID m = Some (rps_ProviderID resolved)) \<and>
            (mk_ModelID m = None \<or> mk_ModelID m = Some (rps_ModelID resolved))) (pd_markups db)))"

definition blocking_limits :: "engine_db \<Rightarrow> UsageEvent \<Rightarrow> BudgetLimit list" where
  "blocking_limits db event = db_find (pd_down db)
     (\<lambda>l. bl_TenantID l = ue_TenantID event \<and> bl_Action l = BudgetActionBlock \<and>
          in_scope (ue_APIKeyRef event) l) (ed_limits db)"

fun check_loop :: "('s, 'v) engine \<Rightarrow> engine_db \<Rightarrow> 's engine_state \<Rightarrow> UsageEvent \<Rightarrow> rat \<Rightarrow>
    BudgetLimit list \<Rightarrow> ErrBudgetExceeded option" where
  "check_loop e db st event finalCost [] = None"
| "check_loop e db st event finalCost (l # ls) =
     (if bl_Provider l \<noteq> [] \<and> bl_Provider l \<noteq> ue_Provider event
      then check_loop e db st event finalCost ls
      else
        (let currentSpend = getSpend e db st (ue_TenantID event) (bl_ScopeType l) (bl_ScopeID l)
               (bl_PeriodType l) (bl_Provider l) (ue_Timestamp event)
         in if bl_LimitAmount l < currentSpend + finalCost
            then Some (limit_exceeded (ue_TenantID event) l currentSpend)
            else check_loop e db st event finalCost ls))"

definition checkBudget :: "('s, 'v) engine \<Rightarrow> engine_db \<Rightarrow> 's engine_state \<Rightarrow> UsageEvent \<Rightarrow> rat \<Rightarrow>
    ErrBudgetExceeded option" where
  "checkBudget e db st event finalCost =
     check_loop e db st event finalCost (blocking_limits db event)"

fun containsStr :: "string \<Rightarrow> string \<Rightarrow> bool" where
  "containsStr s substr =
     (if length s < length substr then False
      else if take (length substr) s = substr then True
      else case s of [] \<Rightarrow> False | _ # cs \<Rightarrow> containsStr cs substr)"

definition contains :: "string \<Rightarrow> string \<Rightarrow> bool" where
  "contains s substr \<longleftrightarrow> length substr \<le> length s \<and>
     (s = substr \<or> (0 < length s \<and> containsStr s substr))"

definition isDuplicateKeyError :: "string \<Rightarrow> bool" where
  "isDuplicateKeyError err \<longleftrightarrow> contains err ''duplicate key'' \<or> contains err ''unique constraint'' \<or>
     contains err ''23505''"

text \<open>\<open>Create\<close> on the ledger table, which has a unique index on the idempotency key.\<close>

definition create_ledger :: "('s, 'v) engine \<Rightarrow> engine_db \<Rightarrow> CostLedger \<Rightarrow> CostLedger list \<Rightarrow>
    (string, CostLedger list) result" where
  "create_ledger e db row ledger =
     (if pd_down db then Inl (en_down_msg e)
      else if cl_IdempotencyKey row \<in> set (map cl_IdempotencyKey ledger) then Inl (en_dup_msg e)
      else Inr (ledger @ [row]))"

definition ledger_row :: "UsageEvent \<Rightarrow> PricingResult \<Rightarrow> string \<Rightarrow> CostLedger" where
  "ledger_row event res snapshotJSON =
     \<lparr>cl_TenantID = ue_TenantID event, cl_UserID = ue_UserID event, cl_ProviderID = res_ProviderID res,
      cl_ModelID = res_ModelID res, cl_InputTokens = ue_InputTokens event,
      cl_OutputTokens = ue_OutputTokens event, cl_CacheCreationTokens = ue_CacheCreationTokens event,
      cl_CacheReadTokens = ue_CacheReadTokens event, cl_ReasoningTokens = ue_ReasoningTokens event,
      cl_BaseCost = res_BaseCost res, cl_MarkupAmount = res_MarkupAmount res,
      cl_FinalCost = res_FinalCost res, cl_PricingSnapshot = snapshotJSON,
      cl_IdempotencyKey = ue_IdempotencyKey event, cl_Timestamp = ue_Timestamp event,
      cl_APIUsageBilled = ue_APIUsageBilled event\<rparr>"

definition writeLedger :: "('s, 'v) engine \<Rightarrow> engine_db \<Rightarrow> UsageEvent \<Rightarrow> PricingResult \<Rightarrow> CostLedger list \<Rightarrow>
    (process_error, CostLedger list) result" where
  "writeLedger e db event res ledger =
     (case en_snapshot e (res_Snapshot res) of
        None \<Rightarrow> Inl ProcMarshal
      | Some snapshotJSON \<Rightarrow>
          (case create_ledger e db (ledger_row event res snapshotJSON) ledger of
             Inr ledger' \<Rightarrow> Inr ledger'
           | Inl err \<Rightarrow> if isDuplicateKeyError err then Inr ledger else Inl (ProcLedger err)))"

definition budget_keys :: "UsageEvent \<Rightarrow> (string \<times> int) list" where
  "budget_keys event = concat (map (\<lambda>period.
     (let t = ue_Timestamp event; exp = t_ns (periodEnd period t); prov = ue_Provider event;
          key = ue_APIKeyRef event
      in [(budgetRedisKey (ue_TenantID event) period t, exp)] @
         (if prov \<noteq> [] then [(budgetRedisKeyForProvider (ue_TenantID event) prov period t, exp)] else []) @
         (if key \<noteq> []
          then (budgetRedisKeyForKey key period t, exp) #
               (if prov \<noteq> [] then [(budgetRedisKeyForKeyProvider key prov period t, exp)] else [])
          else []))) all_periods)"

definition incrementBudget :: "('s, 'v) engine \<Rightarrow> UsageEvent \<Rightarrow> rat \<Rightarrow> 's \<Rightarrow> 's" where
  "incrementBudget e event finalCost s =
     (case en_rdb e of
        None \<Rightarrow> s
      | Some R \<Rightarrow>
          if \<not> ue_APIUsageBilled event then s
          else fold (bump R (en_float e finalCost)) (budget_keys event) s)"

definition zero_result :: "UsageEvent \<Rightarrow> PricingResult" where
  "zero_result event = \<lparr>res_BaseCost = 0, res_MarkupAmount = 0, res_FinalCost = 0,
     res_Snapshot = \<lparr>ps_Provider = ue_Provider event, ps_Model = ue_Model event,
       ps_PricePoints = Map.empty, ps_MarkupPct = ''0'', ps_SnapshotAt = ue_Timestamp event\<rparr>,
     res_ProviderID = 0, res_ModelID = 0\<rparr>"

definition price_event :: "('s, 'v) engine \<Rightarrow> pricing_db \<Rightarrow> UsageEvent \<Rightarrow> ResolvedPrices \<Rightarrow> PricingResult" where
  "price_event e db event resolved =
     (let (baseCost, pricePoints) = Calculate (en_div e) (en_str e) event (rps_Prices resolved);
          markups = resolveMarkups db event resolved;
          finalCost = ApplyMarkups (en_div e) baseCost markups
      in \<lparr>res_BaseCost = baseCost, res_MarkupAmount = finalCost - baseCost, res_FinalCost = finalCost,
          res_Snapshot = \<lparr>ps_Provider = ue_Provider event, ps_Model = ue_Model event,
            ps_PricePoints = pricePoints, ps_MarkupPct = en_str e (total_pct markups),
            ps_SnapshotAt = ue_Timestamp event\<rparr>,
          res_ProviderID = rps_ProviderID resolved, res_ModelID = rps_ModelID resolved\<rparr>)"

definition Process :: "('s, 'v) engine \<Rightarrow> engine_db \<Rightarrow> go_time \<Rightarrow> UsageEvent \<Rightarrow> 's engine_state \<Rightarrow>
    (process_error, PricingResult) result \<times> 's engine_state" where
  "Process e db now event0 st =
     (let event = (if time_IsZero (ue_Timestamp event0) then event0\<lparr>ue_Timestamp := now\<rparr> else event0)
      in case Resolve (en_resolver e) (pricing_db.truncate db) now event (es_redis st) of
           (Inl (ErrModelNotFound _ _), s1) \<Rightarrow> (Inr (zero_result event), st\<lparr>es_redis := s1\<rparr>)
         | (Inl ErrResolveDB, s1) \<Rightarrow> (Inl ProcResolve, st\<lparr>es_redis := s1\<rparr>)
         | (Inr resolved, s1) \<Rightarrow>
             (let st1 = st\<lparr>es_redis := s1\<rparr>;
                  res = price_event e (pricing_db.truncate db) event resolved
              in case checkBudget e db st1 event (res_FinalCost res) of
                   Some err \<Rightarrow> (Inl (ProcBudget err), st1)
                 | None \<Rightarrow>
                     (case writeLedger e db event res (es_ledger st1) of
                        Inl err \<Rightarrow> (Inl err, st1)
                      | Inr ledger' \<Rightarrow>
                          (Inr res, st1\<lparr>es_ledger := ledger',
                             es_redis := incrementBudget e event (res_FinalCost res) s1\<rparr>))))"

section \<open>Period counters as an interface\<close>

text \<open>
  What every counter key function promises: its keys are a fixed prefix followed by the period
  part. Two periods of one instant never share a counter, and one counter covers exactly the
  instants of one period.
\<close>

locale period_keys =
  fixes keyf :: "string \<Rightarrow> go_time \<Rightarrow> string" and pre :: string
  assumes key_shape: "keyf p t = pre @ period_suffix p t"
begin

lemma same_key: "keyf p t = keyf p' t' \<longleftrightarrow> period_suffix p t = period_suffix p' t'"
  by (simp add: key_shape)

lemma counter_covers_period:
  assumes "p = PeriodMonthly \<or> p = PeriodDaily \<or> p = PeriodWeekly \<and> t_off t = 0"
    and "t_off t = t_off t'" and "0 \<le> local_day t" and "0 \<le> local_day t'"
  shows "keyf p t = keyf p t' \<longleftrightarrow>
    t_ns (periodStart p t) \<le> t_ns t' \<and> t_ns t' < t_ns (periodEnd p t)"
  using period_suffix_interval [OF assms] same_key by simp

end

interpretation budget_acct: period_keys "budgetRedisKey T" "''budget:'' @ show_nat T @ '':''" for T
  by unfold_locales (simp add: budgetRedisKey_def)

interpretation budget_prov: period_keys "budgetRedisKeyForProvider T P"
  "''budget:'' @ show_nat T @ '':'' @ P @ '':''" for T P
  by unfold_locales (simp add: budgetRedisKeyForProvider_def)

interpretation budget_key: period_keys "budgetRedisKeyForKey K" "''budget:key:'' @ K @ '':''" for K
  by unfold_locales (simp add: budgetRedisKeyForKey_def)

interpretation budget_key_prov: period_keys "budgetRedisKeyForKeyProvider K P"
  "''budget:key:'' @ K @ '':'' @ P @ '':''" for K P
  by unfold_locales (simp add: budgetRedisKeyForKeyProvider_def)

interpretation reserved_acct: period_keys "reservationRedisKey T"
  "''budget:reserved:'' @ show_nat T @ '':''" for T
  by unfold_locales (simp add: reservationRedisKey_def)

interpretation reserved_key: period_keys "reservationRedisKeyForKey K"
  "''budget:reserved:key:'' @ K @ '':''" for K
  by unfold_locales (simp add: reservationRedisKeyForKey_def)

section \<open>Counters of one event are pairwise different\<close>

lemma split_last_sep:
  assumes "a @ c # x = b @ c # y" "c \<notin> set x" "c \<notin> set y"
  shows "a = b \<and> x = y"
proof -
  from assms(1) have "rev x @ c # rev a = rev y @ c # rev b"
    by (metis append.assoc append_Cons append_Nil rev.simps(2) rev_append)
  from split_at_sep [OF this] assms(2,3) show ?thesis by auto
qed

lemma suffix_no_colon: "p \<in> set all_periods \<Longrightarrow> CHR '':'' \<notin> set (period_suffix p t)"
  by (auto simp: all_periods_def period_suffix_def split: prod.splits)

lemma show_int_not_w: "show_int y @ r \<noteq> CHR ''w'' # r'"
proof -
  have "show_int y \<noteq> []" by (simp add: show_int_def)
  then show ?thesis using show_int_no_w [of y] by (cases "show_int y") auto
qed

lemma suffix_period_inj:
  "p \<in> set all_periods \<Longrightarrow> p' \<in> set all_periods \<Longrightarrow> period_suffix p t = period_suffix p' t \<Longrightarrow> p = p'"
  using show_int_not_w show_int_not_w [symmetric]
  by (auto simp: all_periods_def period_suffix_def split: prod.splits)

lemma show_nat_not_k: "show_nat n @ r \<noteq> CHR ''k'' # r'"
  using show_nat_no_k [of n] show_nat_not_Nil [of n] by (cases "show_nat n") auto

definition keyed :: "string \<times> string \<Rightarrow> go_time \<Rightarrow> string" where
  "keyed pp t = snd pp @ '':'' @ period_suffix (fst pp) t"

lemma keyed_inj:
  assumes "p \<in> set all_periods" "p' \<in> set all_periods" "keyed (p, a) t = keyed (p', b) t"
  shows "p = p' \<and> a = b"
proof -
  have "a @ CHR '':'' # period_suffix p t = b @ CHR '':'' # period_suffix p' t"
    using assms(3) by (simp add: keyed_def)
  then have "a = b \<and> period_suffix p t = period_suffix p' t"
    by (rule split_last_sep) (use assms suffix_no_colon in auto)
  then show ?thesis using suffix_period_inj assms by blast
qed

lemma keyed_product_distinct:
  assumes "distinct pres"
  shows "distinct (map (\<lambda>pp. keyed pp t) (List.product all_periods pres))"
  unfolding distinct_map
proof (intro conjI inj_onI)
  show "distinct (List.product all_periods pres)"
    using assms by (intro distinct_product) (simp_all add: all_periods_def)
  fix x y
  assume "x \<in> set (List.product all_periods pres)" "y \<in> set (List.product all_periods pres)"
    "keyed x t = keyed y t"
  then show "x = y" using keyed_inj [of "fst x" "fst y" "snd x" t "snd y"]
    by (auto simp: prod_eq_iff)
qed

definition budget_prefixes :: "UsageEvent \<Rightarrow> string list" where
  "budget_prefixes event =
     (let T = show_nat (ue_TenantID event); P = ue_Provider event; K = ue_APIKeyRef event
      in [''budget:'' @ T] @ (if P \<noteq> [] then [''budget:'' @ T @ '':'' @ P] else []) @
         (if K \<noteq> [] then (''budget:key:'' @ K) #
            (if P \<noteq> [] then [''budget:key:'' @ K @ '':'' @ P] else []) else []))"

definition reservation_prefixes :: "nat \<Rightarrow> string \<Rightarrow> string list" where
  "reservation_prefixes T K =
     (''budget:reserved:'' @ show_nat T) # (if K \<noteq> [] then [''budget:reserved:key:'' @ K] else [])"

lemma budget_prefixes_distinct: "distinct (budget_prefixes event)"
  using show_nat_not_k show_nat_not_k [symmetric] show_nat_not_k [of _ "[]"]
    show_nat_not_k [of _ "[]", symmetric]
  by (auto simp: budget_prefixes_def Let_def)

lemma reservation_prefixes_distinct: "distinct (reservation_prefixes T K)"
  using show_nat_not_k [of T "[]"] by (auto simp: reservation_prefixes_def)

lemma budget_keys_eq:
  "map fst (budget_keys event) =
     map (\<lambda>pp. keyed pp (ue_Timestamp event)) (List.product all_periods (budget_prefixes event))"
  by (simp add: budget_keys_def budget_prefixes_def all_periods_def Let_def keyed_def budgetRedisKey_def
      budgetRedisKeyForProvider_def budgetRedisKeyForKey_def budgetRedisKeyForKeyProvider_def)

lemma reservation_keys_eq:
  "map fst (reservation_keys T K now) =
     map (\<lambda>pp. keyed pp now) (List.product all_periods (reservation_prefixes T K))"
  by (simp add: reservation_keys_def reservation_prefixes_def all_periods_def keyed_def
      reservationRedisKey_def reservationRedisKeyForKey_def)

lemma spend_key_counted:
  assumes "in_scope (ue_APIKeyRef event) l" "ue_APIKeyRef event \<noteq> []"
    "bl_Provider l = [] \<or> bl_Provider l = ue_Provider event" "bl_PeriodType l \<in> set all_periods"
  shows "spend_key (ue_TenantID event) (bl_ScopeType l) (bl_ScopeID l) (bl_PeriodType l) (bl_Provider l)
    (ue_Timestamp event) \<in> fst ` set (budget_keys event)"
proof -
  have "\<exists>pre \<in> set (budget_prefixes event).
      spend_key (ue_TenantID event) (bl_ScopeType l) (bl_ScopeID l) (bl_PeriodType l) (bl_Provider l)
        (ue_Timestamp event) = keyed (bl_PeriodType l, pre) (ue_Timestamp event)"
    using assms(1-3)
    by (auto simp: in_scope_def spend_key_def budget_prefixes_def Let_def keyed_def budgetRedisKey_def
        budgetRedisKeyForProvider_def budgetRedisKeyForKey_def budgetRedisKeyForKeyProvider_def)
  moreover have "fst ` set (budget_keys event) =
      (\<lambda>pp. keyed pp (ue_Timestamp event)) ` (set all_periods \<times> set (budget_prefixes event))"
    using arg_cong [OF budget_keys_eq, of set] by (simp add: set_product)
  ultimately show ?thesis using assms(4) by auto
qed

lemma budget_keys_distinct: "distinct (map fst (budget_keys event))"
  unfolding budget_keys_eq by (rule keyed_product_distinct [OF budget_prefixes_distinct])

lemma reservation_keys_distinct: "distinct (map fst (reservation_keys T K now))"
  unfolding reservation_keys_eq by (rule keyed_product_distinct [OF reservation_prefixes_distinct])

section \<open>The loops\<close>

definition relevant :: "string \<Rightarrow> BudgetLimit \<Rightarrow> bool" where
  "relevant provider l \<longleftrightarrow> bl_Enabled l \<and> (bl_Provider l = [] \<or> bl_Provider l = provider)"

definition blocks_at :: "rat \<Rightarrow> BudgetLimit \<Rightarrow> bool" where
  "blocks_at eff l \<longleftrightarrow> (bl_Action l = BudgetActionBlock \<or> bl_Action l = BudgetActionAlertBlock) \<and>
     bl_LimitAmount l \<le> eff"

definition warns_at :: "('s, 'v) engine \<Rightarrow> rat \<Rightarrow> BudgetLimit \<Rightarrow> bool" where
  "warns_at e eff l \<longleftrightarrow> en_div e (bl_LimitAmount l * bl_AlertThreshold l) 100 \<le> eff"

definition usage_ratio :: "('s, 'v) engine \<Rightarrow> BudgetStatus \<Rightarrow> rat" where
  "usage_ratio e n = en_div e (bs_CurrentSpend n) (bs_LimitAmount n)"

definition nearer :: "('s, 'v) engine \<Rightarrow> BudgetStatus option \<Rightarrow> BudgetStatus \<Rightarrow> bool" where
  "nearer e nearest m = (case nearest of None \<Rightarrow> True | Some n \<Rightarrow> usage_ratio e n < usage_ratio e m)"

lemma precheck_step:
  fixes e :: "('s, 'v) engine" and db st tenantID now keyID provider
  defines "eff \<equiv> \<lambda>l. effective_spend e db st tenantID l now"
    and "loop \<equiv> precheck_loop e db st tenantID keyID provider now"
  shows "\<not> relevant provider l \<Longrightarrow> loop (l # ls) nearest ns = loop ls nearest ns"
    and "relevant provider l \<Longrightarrow> blocks_at (eff l) l \<Longrightarrow> fst (loop (l # ls) nearest ns) =
      PreBlocked (limit_status l (eff l)) (limit_exceeded tenantID l (eff l))"
    and "relevant provider l \<Longrightarrow> \<not> blocks_at (eff l) l \<Longrightarrow> \<not> warns_at e (eff l) l \<Longrightarrow>
      loop (l # ls) nearest ns = loop ls nearest ns"
    and "relevant provider l \<Longrightarrow> \<not> blocks_at (eff l) l \<Longrightarrow> warns_at e (eff l) l \<Longrightarrow>
      bl_LimitAmount l = 0 \<Longrightarrow> fst (loop (l # ls) nearest ns) = PrePanic"
    and "relevant provider l \<Longrightarrow> \<not> blocks_at (eff l) l \<Longrightarrow> warns_at e (eff l) l \<Longrightarrow>
      bl_LimitAmount l \<noteq> 0 \<Longrightarrow> nearer e nearest (limit_status l (eff l)) \<Longrightarrow>
      \<exists>ns'. loop (l # ls) nearest ns = loop ls (Some (limit_status l (eff l))) ns'"
    and "relevant provider l \<Longrightarrow> \<not> blocks_at (eff l) l \<Longrightarrow> warns_at e (eff l) l \<Longrightarrow>
      bl_LimitAmount l \<noteq> 0 \<Longrightarrow> \<not> nearer e nearest (limit_status l (eff l)) \<Longrightarrow>
      loop (l # ls) nearest ns = loop ls nearest ns"
  unfolding eff_def loop_def relevant_def blocks_at_def warns_at_def
  by (simp_all add: Let_def nearer_def usage_ratio_def limit_status_def split: option.splits)
    (auto simp: limit_status_def)

declare precheck_loop.simps(2) [simp del]

text \<open>What one iteration over a limit that neither blocks nor has amount zero does.\<close>

lemma precheck_continue:
  fixes e :: "('s, 'v) engine" and db st tenantID now keyID provider
  defines "eff \<equiv> \<lambda>l. effective_spend e db st tenantID l now"
    and "loop \<equiv> precheck_loop e db st tenantID keyID provider now"
  assumes "relevant provider l \<longrightarrow> bl_LimitAmount l \<noteq> 0" and "\<not> (relevant provider l \<and> blocks_at (eff l) l)"
  obtains (skip) "loop (l # ls) nearest ns = loop ls nearest ns"
      "\<not> (relevant provider l \<and> warns_at e (eff l) l \<and> nearer e nearest (limit_status l (eff l)))"
    | (take) ns' where "loop (l # ls) nearest ns = loop ls (Some (limit_status l (eff l))) ns'"
      "relevant provider l" "warns_at e (eff l) l" "nearer e nearest (limit_status l (eff l))"
  using assms precheck_step [where provider = provider and l = l and e = e and db = db and st = st and
      tenantID = tenantID and now = now and keyID = keyID and ls = ls and nearest = nearest and ns = ns]
  unfolding eff_def loop_def by metis

lemma precheck_loop_blocked:
  assumes "\<forall>l \<in> set ls. relevant provider l \<longrightarrow> bl_LimitAmount l \<noteq> 0"
  shows "case find (\<lambda>l. relevant provider l \<and> blocks_at (effective_spend e db st tenantID l now) l) ls of
      Some l \<Rightarrow> fst (precheck_loop e db st tenantID keyID provider now ls nearest ns) =
        PreBlocked (limit_status l (effective_spend e db st tenantID l now))
          (limit_exceeded tenantID l (effective_spend e db st tenantID l now))
    | None \<Rightarrow> \<exists>n. fst (precheck_loop e db st tenantID keyID provider now ls nearest ns) = PreOK n"
  using assms
proof (induction ls arbitrary: nearest ns)
  case (Cons l ls)
  show ?case
  proof (cases "relevant provider l \<and> blocks_at (effective_spend e db st tenantID l now) l")
    case True
    then show ?thesis by (simp add: precheck_step(2))
  next
    case False
    then obtain nearest' ns' where "precheck_loop e db st tenantID keyID provider now (l # ls) nearest ns =
        precheck_loop e db st tenantID keyID provider now ls nearest' ns'"
      using precheck_continue [OF _ False] Cons.prems by (metis list.set_intros(1))
    with False Cons.IH [of nearest' ns'] Cons.prems show ?thesis by (simp only: find.simps if_False) simp
  qed
qed simp

text \<open>When no limit blocks, the status returned is one of the limits at their threshold (or the
  one given), and no limit at its threshold has a higher usage ratio.\<close>

lemma precheck_loop_nearest:
  fixes e :: "('s, 'v) engine" and db st tenantID now keyID provider
  defines "eff \<equiv> \<lambda>l. effective_spend e db st tenantID l now"
  assumes "\<forall>l \<in> set ls. relevant provider l \<longrightarrow> bl_LimitAmount l \<noteq> 0"
    and "fst (precheck_loop e db st tenantID keyID provider now ls nearest ns) = PreOK n"
  shows "(\<forall>l \<in> set ls. relevant provider l \<and> warns_at e (eff l) l \<longrightarrow> \<not> nearer e n (limit_status l (eff l))) \<and>
      (nearest = n \<or> (\<exists>m. n = Some m \<and> nearer e nearest m)) \<and>
      (nearest = n \<or> (\<exists>l \<in> set ls. relevant provider l \<and> warns_at e (eff l) l \<and>
         n = Some (limit_status l (eff l))))"
  using assms(2,3)
proof (induction ls arbitrary: nearest ns)
  case (Cons l ls)
  let ?loop = "precheck_loop e db st tenantID keyID provider now"
  have nb: "\<not> (relevant provider l \<and> blocks_at (effective_spend e db st tenantID l now) l)"
    using precheck_step(2) Cons.prems(2) by fastforce
  have amt: "relevant provider l \<longrightarrow> bl_LimitAmount l \<noteq> 0" using Cons.prems(1) by simp
  have tr: "nearer e a m \<Longrightarrow> nearer e (Some m) m' \<Longrightarrow> nearer e a m'"
    and asym: "nearer e (Some m) m' \<Longrightarrow> \<not> nearer e (Some m') m" for a m m'
    by (auto simp: nearer_def split: option.splits)
  have irr: "\<not> nearer e (Some m) m" for m by (simp add: nearer_def)
  have up: "\<not> nearer e a m' \<Longrightarrow> nearer e a m \<Longrightarrow> \<not> nearer e (Some m) m'" for a m m'
    by (auto simp: nearer_def split: option.splits)
  show ?case
  proof (rule precheck_continue [OF amt nb, where keyID = keyID and ls = ls and nearest = nearest and ns = ns], goal_cases)
    case 1
    then have "fst (?loop ls nearest ns) = PreOK n" using Cons.prems(2) by simp
    with Cons.IH [of nearest ns] Cons.prems(1) 1(2) up show ?case unfolding eff_def by fastforce
  next
    case (2 ns')
    then have "fst (?loop ls (Some (limit_status l (eff l))) ns') = PreOK n"
      using Cons.prems(2) by (simp add: eff_def)
    note ih = Cons.IH [OF _ this]
    let ?m = "limit_status l (eff l)"
    have rest: "\<forall>l \<in> set ls. relevant provider l \<and> warns_at e (eff l) l \<longrightarrow>
        \<not> nearer e n (limit_status l (eff l))" using ih Cons.prems(1) by simp
    obtain m where n: "n = Some m" and m: "m = ?m \<or> nearer e (Some ?m) m"
      using ih Cons.prems(1) by auto
    have here: "\<not> nearer e n ?m" using m n irr asym by auto
    have "nearer e nearest m" using m tr 2(4) unfolding eff_def by auto
    moreover have "\<exists>l \<in> set (l # ls). relevant provider l \<and> warns_at e (eff l) l \<and>
        n = Some (limit_status l (eff l))"
      using ih Cons.prems(1) 2(2,3) unfolding eff_def by auto
    ultimately show ?case using rest here n by simp
  qed
qed simp

lemma check_loop_None:
  "check_loop e db st event c ls = None \<longleftrightarrow>
     (\<forall>l \<in> set ls. (bl_Provider l = [] \<or> bl_Provider l = ue_Provider event) \<longrightarrow>
        getSpend e db st (ue_TenantID event) (bl_ScopeType l) (bl_ScopeID l) (bl_PeriodType l)
          (bl_Provider l) (ue_Timestamp event) + c \<le> bl_LimitAmount l)"
  by (induction ls) (auto simp: Let_def)

section \<open>A concrete Redis\<close>

text \<open>An instance of the Redis parameter that satisfies the counter laws: a map of numbers whose
  clock stands at zero.\<close>

definition map_redis :: "(string \<Rightarrow> rat option, rat) redis_ops" where
  "map_redis = \<lparr>rd_Get = (\<lambda>s k. s k), rd_Set = (\<lambda>s k v ttl. s(k \<mapsto> v)), rd_Del = (\<lambda>s k. s(k := None)),
     rd_IncrByFloat = (\<lambda>s k a. s(k \<mapsto> (case s k of None \<Rightarrow> 0 | Some x \<Rightarrow> x) + a)),
     rd_IncrBy = (\<lambda>s k n. (s, None)),
     rd_ExpireAt = (\<lambda>s k e. if 0 < e then s else s(k := None)),
     rd_Expire = (\<lambda>s k ttl. s), rd_TTL = (\<lambda>s k. None), rd_now = (\<lambda>_. 0)\<rparr>"

lemma map_redis_counters: "float_counters map_redis Some (+)"
  by (simp add: float_counters_def counter_val_def counter_num_def is_counter_def map_redis_def
      split: option.split)

lemma map_redis_is_counter: "is_counter map_redis Some s k"
  by (simp add: is_counter_def split: option.split)

definition map_engine :: "(string \<Rightarrow> rat option, rat) engine" where
  "map_engine = \<lparr>en_resolver = \<lparr>rs_rdb = Some map_redis,
       rs_resolved_codec = \<lparr>cd_Marshal = (\<lambda>_. None), cd_Unmarshal = (\<lambda>_. None)\<rparr>,
       rs_provider_codec = \<lparr>cd_Marshal = (\<lambda>_. None), cd_Unmarshal = (\<lambda>_. None)\<rparr>,
       rs_model_codec = \<lparr>cd_Marshal = (\<lambda>_. None), cd_Unmarshal = (\<lambda>_. None)\<rparr>\<rparr>,
     en_parse = Some, en_div = (/), en_str = (\<lambda>_. []), en_fix = (\<lambda>_ _. []), en_float = id,
     en_limits_codec = \<lparr>cd_Marshal = (\<lambda>_. None), cd_Unmarshal = (\<lambda>_. None)\<rparr>,
     en_snapshot = (\<lambda>_. Some []), en_notif = False, en_dup_msg = ''duplicate key'', en_down_msg = []\<rparr>"

lemma map_engine_simps [simp]:
  "en_rdb map_engine = Some map_redis" "en_parse map_engine = Some" "en_float map_engine = id"
  "en_div map_engine = (/)"
  by (simp_all add: map_engine_def)

text \<open>2025-01-06 12:00 UTC.\<close>

definition noon :: go_time where "noon = \<lparr>t_ns = 63871761600000000000, t_off = 0\<rparr>"

lemma noon_day: "local_day noon = 739256" "t_off noon = 0" "t_ns noon = 63871761600000000000"
  by (simp_all add: noon_def local_day_def day_ns_def)

lemma periodEnd_after: "p \<in> set all_periods \<Longrightarrow> t_off t = 0 \<Longrightarrow> t_ns t < t_ns (periodEnd p t)"
  using interval_iff [of t t "month_first (local_day t)" "month_next (local_day t)"]
    interval_iff [of t t "local_day t" "local_day t + 1"]
    interval_iff [of t t "7 * (local_day t div 7)" "7 * (local_day t div 7) + 7"]
    month_interval [of "local_day t"]
  by (auto simp: all_periods_def periodEnd_daily periodEnd_monthly periodEnd_weekly)

lemma budget_keys_expiry:
  "ke \<in> set (budget_keys event) \<Longrightarrow> \<exists>p \<in> set all_periods. snd ke = t_ns (periodEnd p (ue_Timestamp event))"
  by (auto simp: budget_keys_def Let_def split: if_splits)

lemma reservation_keys_expiry:
  "ke \<in> set (reservation_keys T K now) \<Longrightarrow> \<exists>p \<in> set all_periods. snd ke = t_ns (periodEnd p now)"
  by (auto simp: reservation_keys_def split: if_splits)

section \<open>Properties\<close>

text \<open>The counters that an event belongs to: for each period those of the tenant, of
  the tenant and provider, of the API key, and of the key and provider.\<close>

definition event_counters :: "UsageEvent \<Rightarrow> string set" where
  "event_counters event = (\<Union>period \<in> {PeriodMonthly, PeriodWeekly, PeriodDaily}.
     let T = ue_TenantID event; prov = ue_Provider event; key = ue_APIKeyRef event; t = ue_Timestamp event
     in {budgetRedisKey T period t} \<union>
        (if prov = [] then {} else {budgetRedisKeyForProvider T prov period t}) \<union>
        (if key = [] then {} else {budgetRedisKeyForKey key period t}) \<union>
        (if prov = [] \<or> key = [] then {} else {budgetRedisKeyForKeyProvider key prov period t}))"

lemma event_counters_keys: "event_counters event = set (map fst (budget_keys event))"
  by (cases "ue_Provider event = []"; cases "ue_APIKeyRef event = []")
    (simp_all add: event_counters_def budget_keys_def all_periods_def Let_def insert_commute)

lemma event_counters_card:
  "card (event_counters event) = 3 * (if ue_Provider event = [] then 1 else 2) * (if ue_APIKeyRef event = [] then 1 else 2)"
  unfolding event_counters_keys distinct_card [OF budget_keys_distinct]
  by (simp add: budget_keys_def all_periods_def Let_def)

lemma incrementBudget_fold:
  "en_rdb e = Some R \<Longrightarrow> ue_APIUsageBilled event \<Longrightarrow>
   incrementBudget e event cost s = fold (bump R (en_float e cost)) (budget_keys event) s"
  by (simp add: incrementBudget_def)

lemma incrementBudget_val:
  assumes "en_rdb e = Some R" "float_counters R (en_parse e) fadd" "ue_APIUsageBilled event"
    and "\<forall>p \<in> set all_periods. rd_now R s < t_ns (periodEnd p (ue_Timestamp event))"
    and "k \<in> event_counters event" "is_counter R (en_parse e) s k"
  shows "counter_val R (en_parse e) (incrementBudget e event cost s) k =
    Some (fadd (counter_num R (en_parse e) s k) (en_float e cost))"
proof -
  have exp: "\<forall>ke \<in> set (budget_keys event). rd_now R s < snd ke"
    using assms(4) budget_keys_expiry by fastforce
  have "k \<in> fst ` set (budget_keys event)" using assms(5) by (simp add: event_counters_keys)
  from fold_bump_val [OF assms(2) exp budget_keys_distinct this] assms(6) show ?thesis
    unfolding incrementBudget_fold [OF assms(1,3)] by blast
qed

text \<open>C8: processing a billed event adds its cost to every period counter it belongs to exactly
  once, and to nothing else: the monthly, weekly and daily counters of the tenant, of the tenant and
  provider, of the API key, and of the key and provider are twelve different Redis keys (six when the
  event names no provider or no key, three when neither); after \<open>incrementBudget\<close> each of them holds its
  old number plus the cost, and every other Redis key is untouched. The assumptions are the Redis
  counter laws, that the periods of the event have not ended yet, and that the counters hold
  numbers.\<close>

theorem incrementBudget_exactly_once:
  assumes "en_rdb e = Some R" and "float_counters R (en_parse e) fadd" and "ue_APIUsageBilled event"
    and "\<forall>p \<in> {PeriodMonthly, PeriodWeekly, PeriodDaily}. rd_now R s < t_ns (periodEnd p (ue_Timestamp event))"
  defines "counters \<equiv> (\<Union>p \<in> {PeriodMonthly, PeriodWeekly, PeriodDaily}.
      {budgetRedisKey (ue_TenantID event) p (ue_Timestamp event)} \<union>
      (if ue_Provider event = [] then {}
       else {budgetRedisKeyForProvider (ue_TenantID event) (ue_Provider event) p (ue_Timestamp event)}) \<union>
      (if ue_APIKeyRef event = [] then {}
       else {budgetRedisKeyForKey (ue_APIKeyRef event) p (ue_Timestamp event)}) \<union>
      (if ue_Provider event = [] \<or> ue_APIKeyRef event = [] then {}
       else {budgetRedisKeyForKeyProvider (ue_APIKeyRef event) (ue_Provider event) p (ue_Timestamp event)}))"
  assumes "\<forall>k \<in> counters. is_counter R (en_parse e) s k"
  shows "card counters = 3 * (if ue_Provider event = [] then 1 else 2) * (if ue_APIKeyRef event = [] then 1 else 2) \<and>
    (\<forall>k \<in> counters. counter_val R (en_parse e) (incrementBudget e event cost s) k =
        Some (fadd (counter_num R (en_parse e) s k) (en_float e cost))) \<and>
    (\<forall>k. k \<notin> counters \<longrightarrow> rd_Get R (incrementBudget e event cost s) k = rd_Get R s k)"
proof (intro conjI)
  have C: "counters = event_counters event" by (simp add: counters_def event_counters_def Let_def)
  have per: "\<forall>p \<in> set all_periods. rd_now R s < t_ns (periodEnd p (ue_Timestamp event))"
    using assms(4) by (simp add: all_periods_def)
  then have exp: "\<forall>ke \<in> set (budget_keys event). rd_now R s < snd ke"
    using budget_keys_expiry by fastforce
  show "card counters = 3 * (if ue_Provider event = [] then 1 else 2) * (if ue_APIKeyRef event = [] then 1 else 2)"
    unfolding C by (rule event_counters_card)
  show "\<forall>k \<in> counters. counter_val R (en_parse e) (incrementBudget e event cost s) k =
        Some (fadd (counter_num R (en_parse e) s k) (en_float e cost))"
    unfolding C using incrementBudget_val [OF assms(1-3) per] assms(6) C by blast
  show "\<forall>k. k \<notin> counters \<longrightarrow> rd_Get R (incrementBudget e event cost s) k = rd_Get R s k"
    unfolding C incrementBudget_fold [OF assms(1,3)] event_counters_keys
    using fold_bump_frame [OF assms(2) exp] by simp
qed

lemma demo_periods: "\<forall>p \<in> set all_periods. rd_now map_redis s < t_ns (periodEnd p noon)"
  using periodEnd_after [of _ noon] noon_day by (force simp: map_redis_def)

theorem incrementBudget_exactly_once_witness:
  "counter_val map_redis Some
     (incrementBudget map_engine (demo_event\<lparr>ue_Timestamp := noon\<rparr>) 5 [budgetRedisKey 7 PeriodDaily noon \<mapsto> 2])
     (budgetRedisKey 7 PeriodDaily noon) = Some 7"
proof -
  let ?ev = "demo_event\<lparr>ue_Timestamp := noon\<rparr>" and ?k = "budgetRedisKey 7 PeriodDaily noon"
  have ev: "ue_APIUsageBilled ?ev" "ue_Timestamp ?ev = noon" "ue_TenantID ?ev = 7"
    by (simp_all add: demo_event_def)
  have per: "\<forall>p \<in> {PeriodMonthly, PeriodWeekly, PeriodDaily}. rd_now map_redis s < t_ns (periodEnd p noon)" for s
    using demo_periods by (simp add: all_periods_def)
  have "counter_val map_redis Some (incrementBudget map_engine ?ev 5 [?k \<mapsto> 2]) ?k =
      Some (counter_num map_redis Some [?k \<mapsto> 2] ?k + 5)"
    using incrementBudget_exactly_once [of map_engine map_redis "(+)" ?ev "[?k \<mapsto> 2]" 5]
      map_redis_counters ev per map_redis_is_counter by simp
  then show ?thesis by (simp add: counter_num_def counter_val_def map_redis_def)
qed

text \<open>C9: what the budget checks read is what was recorded, while the counter is there: when a billed event is counted,
  then for every limit that covers the event (account scope or the event's API key, the event's provider or all
  providers, one of the three period types) the spend read before is the number in the counter, and the spend read
  afterwards is that number plus the cost of the event. When the counter was missing, as after a restart of Redis, the
  spend read before is the sum of the ledger (for an account limit; nothing for a key), but the spend read afterwards is the
  cost of this event alone: counting it hides all that was spent before.\<close>

theorem spend_after_increment:
  fixes db :: engine_db and st :: "'s engine_state" and R :: "('s, 'v) redis_ops"
  assumes "en_rdb e = Some R" and "float_counters R (en_parse e) fadd" and "ue_APIUsageBilled event"
    and "\<forall>p \<in> {PeriodMonthly, PeriodWeekly, PeriodDaily}. rd_now R s < t_ns (periodEnd p (ue_Timestamp event))"
    and "in_scope (ue_APIKeyRef event) l" and "ue_APIKeyRef event \<noteq> []"
    and "bl_Provider l = [] \<or> bl_Provider l = ue_Provider event"
    and "bl_PeriodType l \<in> {PeriodMonthly, PeriodWeekly, PeriodDaily}"
  defines "spend \<equiv> \<lambda>s. getSpend e db (st\<lparr>es_redis := s\<rparr>) (ue_TenantID event)
      (bl_ScopeType l) (bl_ScopeID l) (bl_PeriodType l) (bl_Provider l) (ue_Timestamp event)"
    and "key \<equiv> spend_key (ue_TenantID event) (bl_ScopeType l) (bl_ScopeID l) (bl_PeriodType l) (bl_Provider l)
      (ue_Timestamp event)"
  assumes "is_counter R (en_parse e) s key"
  shows "case counter_val R (en_parse e) s key of
      Some v \<Rightarrow> spend s = v \<and> spend (incrementBudget e event cost s) = fadd v (en_float e cost)
    | None \<Rightarrow> spend s = (if bl_ScopeType l = BudgetScopeAccount
          then dbBudgetSpend db (es_ledger st) (ue_TenantID event) (bl_PeriodType l) (bl_Provider l) (ue_Timestamp event)
          else 0) \<and>
        spend (incrementBudget e event cost s) = fadd 0 (en_float e cost)"
proof -
  have per: "\<forall>p \<in> set all_periods. rd_now R s < t_ns (periodEnd p (ue_Timestamp event))"
    using assms(4) by (simp add: all_periods_def)
  have "bl_PeriodType l \<in> set all_periods" using assms(8) by (simp add: all_periods_def)
  then have "key \<in> event_counters event"
    unfolding key_def event_counters_keys set_map using assms(5-7) by (intro spend_key_counted)
  then have after: "counter_val R (en_parse e) (incrementBudget e event cost s) key =
      Some (fadd (counter_num R (en_parse e) s key) (en_float e cost))"
    using assms(11) by (rule incrementBudget_val [OF assms(1-3) per])
  have read: "spend s' = (case counter_val R (en_parse e) s' key of Some v \<Rightarrow> v
      | None \<Rightarrow> if bl_ScopeType l = BudgetScopeAccount
          then dbBudgetSpend db (es_ledger st) (ue_TenantID event) (bl_PeriodType l) (bl_Provider l) (ue_Timestamp event)
          else 0)" for s'
    using assms(1) by (simp add: spend_def getSpend_def key_def split: option.split)
  show ?thesis
    by (cases "counter_val R (en_parse e) s key") (simp_all add: read after counter_num_def)
qed

definition demo_limit :: "string \<Rightarrow> rat \<Rightarrow> BudgetLimit" where
  "demo_limit action amount = \<lparr>bl_ID = 1, bl_TenantID = 7, bl_ScopeType = BudgetScopeAccount,
     bl_ScopeID = [], bl_PeriodType = PeriodDaily, bl_Provider = [], bl_LimitAmount = amount,
     bl_AlertThreshold = 80, bl_Action = action, bl_Enabled = True\<rparr>"

definition demo_edb :: "BudgetLimit list \<Rightarrow> engine_db" where
  "demo_edb limits = pricing_db.extend demo_db \<lparr>ed_limits = limits\<rparr>"

definition demo_state :: "rat \<Rightarrow> (string \<Rightarrow> rat option) engine_state" where
  "demo_state spent = \<lparr>es_redis = [budgetRedisKey 7 PeriodDaily noon \<mapsto> spent], es_ledger = [],
     es_notifs = []\<rparr>"

lemma demo_edb_simps [simp]:
  "pd_down (demo_edb limits) = False" "ed_limits (demo_edb limits) = limits"
  by (simp_all add: demo_edb_def demo_db_def pricing_db.defs)

theorem spend_after_increment_witness:
  "getSpend map_engine (demo_edb []) ((demo_state 2)\<lparr>es_redis :=
       incrementBudget map_engine (demo_event\<lparr>ue_Timestamp := noon\<rparr>) 5 (es_redis (demo_state 2))\<rparr>)
     7 BudgetScopeAccount [] PeriodDaily [] noon = 7"
proof -
  let ?ev = "demo_event\<lparr>ue_Timestamp := noon\<rparr>" and ?l = "demo_limit BudgetActionBlock 10"
  have ev: "ue_APIUsageBilled ?ev" "ue_Timestamp ?ev = noon" "ue_TenantID ?ev = 7" "ue_APIKeyRef ?ev \<noteq> []"
    by (simp_all add: demo_event_def)
  have l: "in_scope (ue_APIKeyRef ?ev) ?l" "bl_Provider ?l = []" "bl_PeriodType ?l = PeriodDaily"
    "bl_ScopeType ?l = BudgetScopeAccount" "bl_ScopeID ?l = []"
    by (simp_all add: in_scope_def demo_limit_def)
  have per: "\<forall>p \<in> {PeriodMonthly, PeriodWeekly, PeriodDaily}. rd_now map_redis s < t_ns (periodEnd p noon)" for s
    using demo_periods by (simp add: all_periods_def)
  have "counter_val map_redis Some (es_redis (demo_state 2)) (spend_key 7 BudgetScopeAccount [] PeriodDaily [] noon) = Some 2"
    by (simp add: spend_key_def demo_state_def counter_val_def map_redis_def)
  then show ?thesis
    using spend_after_increment [of map_engine map_redis "(+)" ?ev "es_redis (demo_state 2)" ?l "demo_edb []" "demo_state 2" 5]
      map_redis_counters ev l per map_redis_is_counter by simp
qed

text \<open>A counter covers exactly one budget period. For each of the six families of budget and
  reservation counters, two instants of one location have the same counter for a period type exactly
  when the second lies between \<open>periodStart\<close> and \<open>periodEnd\<close> of the first; so a counter expires
  when its period ends and the database fallback sums over the same period. For the weekly period
  the location is UTC.\<close>

theorem counter_covers_one_period:
  assumes "keyf \<in> {budgetRedisKey T, budgetRedisKeyForProvider T P, budgetRedisKeyForKey K,
      budgetRedisKeyForKeyProvider K P, reservationRedisKey T, reservationRedisKeyForKey K}"
    and "p = PeriodMonthly \<or> p = PeriodDaily \<or> p = PeriodWeekly \<and> t_off t = 0"
    and "t_off t = t_off t'" and "0 \<le> local_day t" and "0 \<le> local_day t'"
  shows "keyf p t = keyf p t' \<longleftrightarrow>
    t_ns (periodStart p t) \<le> t_ns t' \<and> t_ns t' < t_ns (periodEnd p t)"
  using assms(1) budget_acct.counter_covers_period [OF assms(2-5)]
    budget_prov.counter_covers_period [OF assms(2-5)] budget_key.counter_covers_period [OF assms(2-5)]
    budget_key_prov.counter_covers_period [OF assms(2-5)]
    reserved_acct.counter_covers_period [OF assms(2-5)] reserved_key.counter_covers_period [OF assms(2-5)]
  by (elim insertE emptyE) simp_all

theorem counter_covers_one_period_witness:
  "budgetRedisKey 7 PeriodWeekly noon =
     budgetRedisKey 7 PeriodWeekly \<lparr>t_ns = 63872319600000000000, t_off = 0\<rparr>"
proof -
  have d: "local_day \<lparr>t_ns = 63872319600000000000, t_off = 0\<rparr> = 739262"
    by (simp add: local_day_def day_ns_def)
  show ?thesis
    by (subst counter_covers_one_period [where T = 7])
      (simp_all add: d noon_day periodStart_weekly periodEnd_weekly day_ns_def)
qed

end
