(* ===== verification/Json.thy ===== *)
theory Json
  imports Complex_Main Prelude
begin

text \<open>
  Package \<open>encoding/json\<close> as the adapters use it: the tree of a JSON text, the decoding of a tree into Go values,
  field by field in the order of the text as \<open>json.Unmarshal\<close> does it, and the encoding of Go values with their
  \<open>omitempty\<close> tags. The text level, \<open>json.Unmarshal\<close> into a tree and \<open>json.Marshal\<close> of a tree, is a parameter
  (\<open>json_text\<close>); the theorems state which texts it decodes.

  A value of type \<open>any\<close> that comes from JSON is its tree; the conversion of its numbers to \<open>float64\<close> and of its objects to
  maps, whose effect shows when the value is printed, belongs to the parameter. Floating point fields, which the
  adapters copy and never compute with, are rationals.
\<close>

datatype json =
  JNull
| JBool bool
| JInt int
| JFrac rat
| JStr string
| JArr "json list"
| JObj "(string \<times> json) list"

record json_text =
  jt_Unmarshal :: "string \<Rightarrow> json option"
  jt_Marshal :: "json \<Rightarrow> string"

section \<open>Decoding\<close>

text \<open>A decoder gets the value that the target holds, since \<open>null\<close> leaves it as it is; None is the type error.\<close>

type_synonym 'a decoder = "json \<Rightarrow> 'a \<Rightarrow> 'a option"

definition un_str :: "string decoder" where
  "un_str j old = (case j of JNull \<Rightarrow> Some old | JStr s \<Rightarrow> Some s | _ \<Rightarrow> None)"

definition un_bool :: "bool decoder" where
  "un_bool j old = (case j of JNull \<Rightarrow> Some old | JBool b \<Rightarrow> Some b | _ \<Rightarrow> None)"

definition un_int :: "int decoder" where
  "un_int j old = (case j of JNull \<Rightarrow> Some old | JInt i \<Rightarrow> if int64_range i then Some i else None | _ \<Rightarrow> None)"

definition un_float :: "rat decoder" where
  "un_float j old = (case j of JNull \<Rightarrow> Some old | JInt i \<Rightarrow> Some (of_int i) | JFrac q \<Rightarrow> Some q | _ \<Rightarrow> None)"

definition un_any :: "json decoder" where
  "un_any j old = Some j"

text \<open>A target of type \<open>map[string]any\<close>.\<close>

definition un_map :: "json decoder" where
  "un_map j old = (case j of JNull \<Rightarrow> Some JNull | JObj kvs \<Rightarrow> Some (JObj kvs) | _ \<Rightarrow> None)"

definition un_ptr :: "'a \<Rightarrow> 'a decoder \<Rightarrow> 'a option decoder" where
  "un_ptr zero un j old =
     (if j = JNull then Some None else map_option Some (un j (case old of None \<Rightarrow> zero | Some x \<Rightarrow> x)))"

text \<open>A slice: where the difference between nil and empty does not show a list, otherwise None is nil.\<close>

definition un_list :: "'a \<Rightarrow> 'a decoder \<Rightarrow> 'a list decoder" where
  "un_list zero un j old =
     (case j of JNull \<Rightarrow> Some [] | JArr js \<Rightarrow> those (map (\<lambda>j. un j zero) js) | _ \<Rightarrow> None)"

definition un_slice :: "'a \<Rightarrow> 'a decoder \<Rightarrow> 'a list option decoder" where
  "un_slice zero un j old =
     (case j of JNull \<Rightarrow> Some None | JArr js \<Rightarrow> map_option Some (those (map (\<lambda>j. un j zero) js)) | _ \<Rightarrow> None)"

text \<open>A struct: the entries of the object one after the other, each into the field whose tag matches without regard to
  case; other entries are skipped.\<close>

definition fld :: "'b decoder \<Rightarrow> ('a \<Rightarrow> 'b) \<Rightarrow> (('b \<Rightarrow> 'b) \<Rightarrow> 'a \<Rightarrow> 'a) \<Rightarrow> 'a decoder" where
  "fld un get upd j r = map_option (\<lambda>x. upd (\<lambda>_. x) r) (un j (get r))"

fun un_entries :: "(string \<times> 'a decoder) list \<Rightarrow> (string \<times> json) list \<Rightarrow> 'a \<Rightarrow> 'a option" where
  "un_entries fs [] r = Some r"
| "un_entries fs ((k, j) # kvs) r =
     (case map_of fs (strings_ToLower k) of
        None \<Rightarrow> un_entries fs kvs r
      | Some un \<Rightarrow> (case un j r of None \<Rightarrow> None | Some r' \<Rightarrow> un_entries fs kvs r'))"

definition un_struct :: "(string \<times> 'a decoder) list \<Rightarrow> 'a decoder" where
  "un_struct fs j r = (case j of JNull \<Rightarrow> Some r | JObj kvs \<Rightarrow> un_entries fs kvs r | _ \<Rightarrow> None)"

text \<open>\<open>json.Unmarshal(data, &v)\<close> on a \<open>v\<close> with the zero value.\<close>

definition unmarshal :: "json_text \<Rightarrow> 'a decoder \<Rightarrow> 'a \<Rightarrow> string \<Rightarrow> 'a option" where
  "unmarshal J un zero data = (case jt_Unmarshal J data of None \<Rightarrow> None | Some j \<Rightarrow> un j zero)"

section \<open>Encoding\<close>

definition always :: "string \<Rightarrow> json \<Rightarrow> (string \<times> json) list" where
  "always k j = [(k, j)]"

definition omitempty :: "bool \<Rightarrow> string \<Rightarrow> json \<Rightarrow> (string \<times> json) list" where
  "omitempty c k j = (if c then [] else [(k, j)])"

definition json_float :: "rat \<Rightarrow> json" where
  "json_float q = (if of_int \<lfloor>q\<rfloor> = q then JInt \<lfloor>q\<rfloor> else JFrac q)"

definition json_ptr :: "('a \<Rightarrow> json) \<Rightarrow> 'a option \<Rightarrow> json" where
  "json_ptr f x = (case x of None \<Rightarrow> JNull | Some y \<Rightarrow> f y)"

definition json_list :: "('a \<Rightarrow> json) \<Rightarrow> 'a list \<Rightarrow> json" where
  "json_list f xs = JArr (map f xs)"

definition json_slice :: "('a \<Rightarrow> json) \<Rightarrow> 'a list option \<Rightarrow> json" where
  "json_slice f xs = json_ptr (json_list f) xs"

section \<open>Round trips\<close>

text \<open>A decoder reads back what an encoder wrote, whatever the target held before.\<close>

definition reads_back :: "'a decoder \<Rightarrow> ('a \<Rightarrow> json) \<Rightarrow> 'a \<Rightarrow> 'a \<Rightarrow> bool" where
  "reads_back un enc old x \<longleftrightarrow> un (enc x) old = Some x"

named_theorems json_rt \<open>round trips of the Go values\<close>

lemma rt_str [json_rt]: "reads_back un_str JStr old s"
  and rt_bool [json_rt]: "reads_back un_bool JBool old1 b"
  and rt_int [json_rt]: "int64_range i \<Longrightarrow> reads_back un_int JInt old2 i"
  and rt_any [json_rt]: "reads_back un_any (\<lambda>j. j) old3 j"
  by (simp_all add: reads_back_def un_str_def un_bool_def un_int_def un_any_def)

lemma rt_float [json_rt]: "reads_back un_float json_float old q"
  by (simp add: reads_back_def un_float_def json_float_def)

lemma rt_map [json_rt]: "j = JNull \<or> (\<exists>kvs. j = JObj kvs) \<Longrightarrow> reads_back un_map (\<lambda>j. j) old j"
  by (auto simp: reads_back_def un_map_def)

lemma rt_ptr [json_rt]:
  "(\<And>y old. x = Some y \<Longrightarrow> reads_back un enc old y \<and> enc y \<noteq> JNull) \<Longrightarrow>
   reads_back (un_ptr zero un) (json_ptr enc) old x"
  by (cases x) (auto simp: reads_back_def un_ptr_def json_ptr_def)

lemma those_map: "(\<And>x. x \<in> set xs \<Longrightarrow> f x = Some (g x)) \<Longrightarrow> those (map f xs) = Some (map g xs)"
  by (induction xs) auto

lemma rt_list [json_rt]:
  "(\<And>y. y \<in> set xs \<Longrightarrow> reads_back un enc zero y) \<Longrightarrow> reads_back (un_list zero un) (json_list enc) old xs"
  using those_map [of xs "\<lambda>x. un (enc x) zero" "\<lambda>x. x"]
  by (simp add: reads_back_def un_list_def json_list_def comp_def)

lemma rt_slice [json_rt]:
  "(\<And>ys y. xs = Some ys \<Longrightarrow> y \<in> set ys \<Longrightarrow> reads_back un enc zero y) \<Longrightarrow>
   reads_back (un_slice zero un) (json_slice enc) old xs"
  using those_map [of "the xs" "\<lambda>x. un (enc x) zero" "\<lambda>x. x"]
  by (cases xs) (simp_all add: reads_back_def un_slice_def json_slice_def json_ptr_def json_list_def comp_def)

lemma un_entries_append:
  "un_entries fs (xs @ ys) r = (case un_entries fs xs r of None \<Rightarrow> None | Some r' \<Rightarrow> un_entries fs ys r')"
  by (induction fs xs r rule: un_entries.induct) (auto split: option.split)

text \<open>One encoded field: written always, or left out when it is empty, which is what the target holds.\<close>

lemma un_omitempty:
  assumes "map_of fs (strings_ToLower k) = Some (fld un get upd)" "\<not> c \<Longrightarrow> reads_back un enc (get r) x"
    and "c \<Longrightarrow> upd (\<lambda>_. x) r = r"
  shows "un_entries fs (omitempty c k (enc x) @ rest) r = un_entries fs rest (upd (\<lambda>_. x) r)"
  using assms by (simp add: omitempty_def fld_def reads_back_def)

lemmas un_omitted =
  un_omitempty [where enc = JStr and un = un_str and c = "x = []" for x, OF _ rt_str]
  un_omitempty [where enc = JBool and un = un_bool and c = "\<not> x" for x, OF _ rt_bool]
  un_omitempty [where enc = "\<lambda>j. j" and un = un_any and c = "x = JNull" for x, OF _ rt_any]

lemma un_optional:
  assumes "map_of fs (strings_ToLower k) = Some (fld (un_ptr zero un) get upd)" "reads_back (un_ptr zero un) (json_ptr enc) (get r) x"
    and "x = None \<Longrightarrow> upd (\<lambda>_. x) r = r"
  shows "un_entries fs (omitempty (x = None) k (json_ptr enc x) @ rest) r = un_entries fs rest (upd (\<lambda>_. x) r)"
  using assms by (intro un_omitempty)

lemma un_elements:
  assumes "map_of fs (strings_ToLower k) = Some (fld (un_list zero un) get upd)"
    and "reads_back (un_list zero un) (json_list enc) (get r) xs" "xs = [] \<Longrightarrow> upd (\<lambda>_. xs) r = r"
  shows "un_entries fs (omitempty (xs = []) k (json_list enc xs) @ rest) r = un_entries fs rest (upd (\<lambda>_. xs) r)"
  using assms by (intro un_omitempty)

lemma un_always:
  assumes "map_of fs (strings_ToLower k) = Some (fld un get upd)" "un j (get r) = Some x"
  shows "un_entries fs (always k j @ rest) r = un_entries fs rest (upd (\<lambda>_. x) r)"
  using assms by (simp add: always_def fld_def)

lemma un_struct_obj [simp]: "un_struct fs (JObj kvs) r = un_entries fs kvs r"
  by (simp add: un_struct_def)

end
