(* ===== verification/Org.thy ===== *)
theory Org
  imports Authz ProviderKeys RateLimits Budget Json
begin

text \<open>
  The organisation tables and what the dashboard handlers share: the rows of \<open>models\<close>, the statements they run, the audit
  log (\<open>api/audit_helpers.go\<close>), the in-app notifications and the deletion of users at the identity provider
  (\<open>api/users.go\<close>).

  A table is a list of rows, a statement that writes one is a function on the state, and the statements of a request that
  can fail are numbered: \<open>oe_fault\<close> says which ones do. The clock, the sequences of the identifiers, the JSON text format,
  the syntax check of mail addresses and the answers of the identity provider are further fields of the environment; the
  clock is read once for a request. What leaves the process, calls of the identity provider and outbound
  notifications, is recorded in the state in the order of the calls.
\<close>

section \<open>Rows and state\<close>

record Project =
  pj_ID :: nat
  pj_TenantID :: nat
  pj_Name :: string
  pj_Description :: string
  pj_Status :: string
  pj_CreatedAt :: int
  pj_UpdatedAt :: int

abbreviation "ProjectStatusActive \<equiv> ''active''"
abbreviation "ProjectStatusArchived \<equiv> ''archived''"

record NotificationChannel =
  nc_ID :: nat
  nc_TenantID :: nat
  nc_ChannelType :: string
  nc_Name :: string
  nc_Config :: string
  nc_EventTypes :: "string list"
  nc_Enabled :: bool

record UserNotification =
  nf_ID :: nat
  nf_UserID :: string
  nf_TenantID :: "nat option"
  nf_Type :: string
  nf_Title :: string
  nf_Body :: string
  nf_Payload :: string
  nf_Status :: string
  nf_ReadAt :: "int option"
  nf_CreatedAt :: int

record AuditLog =
  al_TenantID :: nat
  al_ActorUserID :: string
  al_Action :: string
  al_ResourceType :: string
  al_ResourceID :: string
  al_Category :: string
  al_ActorType :: string
  al_UserAgent :: string
  al_Success :: bool
  al_IPAddress :: string
  al_BeforeJSON :: string
  al_AfterJSON :: string
  al_Metadata :: string
  al_CreatedAt :: int

record org_db = authz_db +
  db_projects :: "Project list"
  db_keys :: "APIKey list"
  db_key_configs :: "APIKeyConfig list"
  db_provider_keys :: "ProviderKey list"
  db_settings :: "TenantProviderSettings list"
  db_budgets :: "BudgetLimit list"
  db_rate_limits :: "RateLimit list"
  db_channels :: "NotificationChannel list"
  db_notifications :: "UserNotification list"
  db_audit :: "AuditLog list"
  db_clerk_deleted :: "string list"
  db_dispatched :: "(string \<times> string \<times> string \<times> string \<times> string) list"

record org_env =
  oe_now :: int
  oe_fault :: "nat \<Rightarrow> bool"
  oe_audit_down :: bool
  oe_notify_down :: bool
  oe_newID :: "nat \<Rightarrow> nat"
  oe_json :: json_text
  oe_is_email :: "string \<Rightarrow> bool"
  oe_worker :: bool
  oe_clerkSecretKey :: string
  oe_clerk :: "string \<Rightarrow> int option"
  oe_agent :: string
  oe_ip :: string

text \<open>The reply of a handler: its status and the code in its \<open>error\<close> field, empty when it succeeds.\<close>

type_synonym api_reply = "int \<times> string"

section \<open>Statements\<close>

definition is_member :: "nat \<Rightarrow> string \<Rightarrow> TenantMembership \<Rightarrow> bool" where
  "is_member tenantID userID m \<longleftrightarrow> tm_TenantID m = tenantID \<and> tm_UserID m = userID"

definition update_members :: "(TenantMembership \<Rightarrow> bool) \<Rightarrow> (TenantMembership \<Rightarrow> TenantMembership) \<Rightarrow> org_db \<Rightarrow> org_db" where
  "update_members P f st = st\<lparr>db_memberships := map (\<lambda>m. if P m then f m else m) (db_memberships st)\<rparr>"

definition delete_members :: "(TenantMembership \<Rightarrow> bool) \<Rightarrow> org_db \<Rightarrow> org_db" where
  "delete_members P st = st\<lparr>db_memberships := filter (\<lambda>m. \<not> P m) (db_memberships st)\<rparr>"

text \<open>Inserts, None when a unique index refuses the row.\<close>

definition insert_member :: "TenantMembership \<Rightarrow> org_db \<Rightarrow> org_db option" where
  "insert_member m st =
     (if list_ex (is_member (tm_TenantID m) (tm_UserID m)) (db_memberships st) then None
      else Some (st\<lparr>db_memberships := db_memberships st @ [m]\<rparr>))"

definition insert_user :: "User \<Rightarrow> org_db \<Rightarrow> org_db option" where
  "insert_user u st =
     (if list_ex (\<lambda>v. usr_ID v = usr_ID u \<or> usr_Email v = usr_Email u) (db_users st) then None
      else Some (st\<lparr>db_users := db_users st @ [u]\<rparr>))"

definition insert_tenant :: "Tenant \<Rightarrow> org_db \<Rightarrow> org_db option" where
  "insert_tenant t st =
     (if list_ex (\<lambda>u. ten_ID u = ten_ID t) (db_tenants st) then None
      else Some (st\<lparr>db_tenants := db_tenants st @ [t]\<rparr>))"

definition insert_project :: "Project \<Rightarrow> org_db \<Rightarrow> org_db option" where
  "insert_project p st =
     (if list_ex (\<lambda>q. pj_ID q = pj_ID p \<or> pj_TenantID q = pj_TenantID p \<and> pj_Name q = pj_Name p) (db_projects st) then None
      else Some (st\<lparr>db_projects := db_projects st @ [p]\<rparr>))"

definition is_pmember :: "nat \<Rightarrow> string \<Rightarrow> ProjectMembership \<Rightarrow> bool" where
  "is_pmember projectID userID m \<longleftrightarrow> pm_ProjectID m = projectID \<and> pm_UserID m = userID"

definition insert_pmember :: "ProjectMembership \<Rightarrow> org_db \<Rightarrow> org_db option" where
  "insert_pmember m st =
     (if list_ex (is_pmember (pm_ProjectID m) (pm_UserID m)) (db_project_memberships st) then None
      else Some (st\<lparr>db_project_memberships := db_project_memberships st @ [m]\<rparr>))"

definition delete_pmembers :: "(ProjectMembership \<Rightarrow> bool) \<Rightarrow> org_db \<Rightarrow> org_db" where
  "delete_pmembers P st = st\<lparr>db_project_memberships := filter (\<lambda>m. \<not> P m) (db_project_memberships st)\<rparr>"

definition project_of_tenant :: "org_db \<Rightarrow> nat \<Rightarrow> nat \<Rightarrow> bool" where
  "project_of_tenant st tenantID projectID \<longleftrightarrow> list_ex (\<lambda>p. pj_ID p = projectID \<and> pj_TenantID p = tenantID) (db_projects st)"

definition update_tenant_row :: "nat \<Rightarrow> (Tenant \<Rightarrow> Tenant) \<Rightarrow> org_db \<Rightarrow> org_db" where
  "update_tenant_row tenantID f st =
     st\<lparr>db_tenants := map (\<lambda>t. if ten_ID t = tenantID then f t else t) (db_tenants st)\<rparr>"

text \<open>\<open>First\<close> on the tenants; where the handler ignores the error, a tenant that was not read has an empty plan and name.\<close>

definition first_tenant_row :: "bool \<Rightarrow> nat \<Rightarrow> org_db \<Rightarrow> (db_error, Tenant) result" where
  "first_tenant_row down tenantID st = db_first down (\<lambda>t. ten_ID t = tenantID) (db_tenants st)"

definition plan_of :: "bool \<Rightarrow> nat \<Rightarrow> org_db \<Rightarrow> string" where
  "plan_of down tenantID st = (case first_tenant_row down tenantID st of Inl _ \<Rightarrow> [] | Inr t \<Rightarrow> ten_Plan t)"

definition name_of :: "bool \<Rightarrow> nat \<Rightarrow> org_db \<Rightarrow> string" where
  "name_of down tenantID st = (case first_tenant_row down tenantID st of Inl _ \<Rightarrow> [] | Inr t \<Rightarrow> ten_Name t)"

text \<open>\<open>Count\<close>, zero when it fails, since its error is ignored everywhere.\<close>

definition db_count :: "bool \<Rightarrow> ('a \<Rightarrow> bool) \<Rightarrow> 'a list \<Rightarrow> int" where
  "db_count down P rows = (if down then 0 else int (length (filter P rows)))"

text \<open>The check of a plan limit, of which -1 means unlimited, before a row is added.\<close>

definition plan_full :: "int \<Rightarrow> int \<Rightarrow> bool" where
  "plan_full limit used_up \<longleftrightarrow> limit \<noteq> -1 \<and> limit \<le> used_up"

section \<open>Audit log, notifications, identity provider\<close>

abbreviation "AuditCategoryAccess \<equiv> ''ACCESS''"
abbreviation "AuditCategoryTeam \<equiv> ''TEAM''"
abbreviation "AuditCategoryProject \<equiv> ''PROJECT''"
abbreviation "AuditCategoryConfig \<equiv> ''CONFIG''"
abbreviation "AuditCategoryOwner \<equiv> ''OWNER''"

record AuditOpts =
  ao_Category :: string
  ao_ActorType :: string
  ao_BeforeState :: "json option"
  ao_AfterState :: "json option"
  ao_Metadata :: "json option"
  ao_Success :: "bool option"

definition audit_opts :: "string \<Rightarrow> json option \<Rightarrow> json option \<Rightarrow> AuditOpts" where
  "audit_opts category before after = \<lparr>ao_Category = category, ao_ActorType = [], ao_BeforeState = before, ao_AfterState = after,
     ao_Metadata = None, ao_Success = None\<rparr>"

definition audit_json :: "org_env \<Rightarrow> json option \<Rightarrow> string" where
  "audit_json env j = (case j of None \<Rightarrow> ''{}'' | Some v \<Rightarrow> jt_Marshal (oe_json env) v)"

definition recordAuditEvent :: "org_env \<Rightarrow> rbac_ctx \<Rightarrow> string \<Rightarrow> string \<Rightarrow> string \<Rightarrow> AuditOpts \<Rightarrow> org_db \<Rightarrow> org_db" where
  "recordAuditEvent env ctx action resourceType resourceID opts st =
     (if oe_audit_down env then st
      else st\<lparr>db_audit := db_audit st @
        [\<lparr>al_TenantID = ctx_tenant_id ctx, al_ActorUserID = usr_ID (ctx_user ctx), al_Action = action,
          al_ResourceType = resourceType, al_ResourceID = resourceID, al_Category = ao_Category opts,
          al_ActorType = (if ao_ActorType opts = [] then ''user'' else ao_ActorType opts), al_UserAgent = oe_agent env,
          al_Success = (case ao_Success opts of None \<Rightarrow> True | Some b \<Rightarrow> b), al_IPAddress = oe_ip env,
          al_BeforeJSON = audit_json env (ao_BeforeState opts), al_AfterJSON = audit_json env (ao_AfterState opts),
          al_Metadata = audit_json env (ao_Metadata opts), al_CreatedAt = oe_now env\<rparr>]\<rparr>)"

abbreviation "EventTeamInvitation \<equiv> ''team_invitation''"
abbreviation "EventMemberUpdated \<equiv> ''member_updated''"
abbreviation "UserNotificationStatusUnread \<equiv> ''unread''"
abbreviation "UserNotificationStatusRead \<equiv> ''read''"

definition insert_notification :: "org_env \<Rightarrow> string \<Rightarrow> nat \<Rightarrow> string \<Rightarrow> string \<Rightarrow> string \<Rightarrow> string \<Rightarrow> org_db \<Rightarrow> org_db" where
  "insert_notification env userID tenantID typ title body payload st =
     (if oe_notify_down env then st
      else st\<lparr>db_notifications := db_notifications st @
        [\<lparr>nf_ID = oe_newID env 9, nf_UserID = userID, nf_TenantID = Some tenantID, nf_Type = typ, nf_Title = title,
          nf_Body = body, nf_Payload = payload, nf_Status = UserNotificationStatusUnread, nf_ReadAt = None,
          nf_CreatedAt = oe_now env\<rparr>]\<rparr>)"

definition dispatch :: "org_env \<Rightarrow> string \<Rightarrow> string \<Rightarrow> string \<Rightarrow> string \<Rightarrow> string \<Rightarrow> org_db \<Rightarrow> org_db" where
  "dispatch env userID typ title body payload st =
     (if oe_worker env then st\<lparr>db_dispatched := db_dispatched st @ [(userID, typ, title, body, payload)]\<rparr> else st)"

text \<open>An assignment \<open>m[k] = v\<close> to a map.\<close>

definition json_put :: "string \<Rightarrow> json \<Rightarrow> (string \<times> json) list \<Rightarrow> (string \<times> json) list" where
  "json_put k v kvs = filter (\<lambda>(k', _). k' \<noteq> k) kvs @ [(k, v)]"

definition notifyMemberChange :: "org_env \<Rightarrow> rbac_ctx \<Rightarrow> string \<Rightarrow> nat \<Rightarrow> string \<Rightarrow> string \<Rightarrow> (string \<times> json) list \<Rightarrow> org_db \<Rightarrow> org_db" where
  "notifyMemberChange env ctx targetUserID tenantID title body extra st =
     (case first_tenant_row (oe_notify_down env) tenantID st of
        Inl _ \<Rightarrow> st
      | Inr tenant \<Rightarrow>
          (let payload = jt_Marshal (oe_json env) (JObj (fold (\<lambda>(k, v). json_put k v) extra
                 [(''tenant_id'', JInt (int tenantID)), (''tenant_name'', JStr (ten_Name tenant)),
                  (''changed_by'', JStr (usr_Email (ctx_user ctx)))]))
           in dispatch env targetUserID EventMemberUpdated title body payload
                (insert_notification env targetUserID tenantID EventMemberUpdated title body payload st)))"

text \<open>\<open>deleteClerkUser\<close>: True is success. \<open>oe_clerk\<close> is the status that the identity provider answers, None a failed call.\<close>

definition deleteClerkUser :: "org_env \<Rightarrow> string \<Rightarrow> org_db \<Rightarrow> bool \<times> org_db" where
  "deleteClerkUser env clerkUserID st =
     (if oe_clerkSecretKey env = [] then (False, st)
      else case oe_clerk env clerkUserID of
        None \<Rightarrow> (False, st)
      | Some status \<Rightarrow> if status \<noteq> 200 \<and> status \<noteq> 204 then (False, st)
                        else (True, st\<lparr>db_clerk_deleted := db_clerk_deleted st @ [clerkUserID]\<rparr>))"

section \<open>Lemmas\<close>

text \<open>The side effects touch no table but their own.\<close>

definition same_tables :: "org_db \<Rightarrow> org_db \<Rightarrow> bool" where
  "same_tables st st' \<longleftrightarrow> authz_db.truncate st' = authz_db.truncate st \<and> db_projects st' = db_projects st \<and>
     db_keys st' = db_keys st \<and> db_key_configs st' = db_key_configs st \<and> db_provider_keys st' = db_provider_keys st \<and>
     db_settings st' = db_settings st \<and> db_budgets st' = db_budgets st \<and>
     db_rate_limits st' = db_rate_limits st \<and> db_channels st' = db_channels st"

lemma same_tables_simps:
  assumes "same_tables st st'"
  shows "db_tenants st' = db_tenants st" "db_users st' = db_users st" "db_memberships st' = db_memberships st"
    "db_project_memberships st' = db_project_memberships st" "db_projects st' = db_projects st" "db_keys st' = db_keys st"
    "db_key_configs st' = db_key_configs st" "db_settings st' = db_settings st"
    "db_provider_keys st' = db_provider_keys st" "db_budgets st' = db_budgets st" "db_rate_limits st' = db_rate_limits st"
    "db_channels st' = db_channels st"
  using assms by (simp_all add: same_tables_def authz_db.defs)

lemma same_tables_recordAuditEvent: "same_tables st (recordAuditEvent env ctx a rt rid opts st)"
  and same_tables_insert_notification: "same_tables st (insert_notification env u t ty ti b p st)"
  and same_tables_dispatch: "same_tables st (dispatch env u ty ti b p st)"
  by (simp_all add: same_tables_def authz_db.defs recordAuditEvent_def insert_notification_def dispatch_def)

lemma same_tables_trans: "same_tables st st' \<Longrightarrow> same_tables st' st'' \<Longrightarrow> same_tables st st''"
  by (simp add: same_tables_def)

lemma same_tables_notifyMemberChange: "same_tables st (notifyMemberChange env ctx u t ti b ex st)"
  by (auto simp: notifyMemberChange_def same_tables_def authz_db.defs dispatch_def insert_notification_def Let_def split: sum.split)

lemma same_tables_deleteClerkUser: "same_tables st (snd (deleteClerkUser env u st))"
  by (simp add: deleteClerkUser_def same_tables_def authz_db.defs split: option.split)

lemmas side_effect_simps [simp] =
  same_tables_simps [OF same_tables_recordAuditEvent]
  same_tables_simps [OF same_tables_insert_notification]
  same_tables_simps [OF same_tables_dispatch]
  same_tables_simps [OF same_tables_notifyMemberChange]
  same_tables_simps [OF same_tables_deleteClerkUser]

text \<open>What the statements do to the memberships.\<close>

lemma memberships_simps [simp]:
  "db_memberships (update_members P f st) = map (\<lambda>m. if P m then f m else m) (db_memberships st)"
  "db_memberships (delete_members P st) = filter (\<lambda>m. \<not> P m) (db_memberships st)"
  "db_memberships (delete_pmembers Q st) = db_memberships st"
  "db_memberships (update_tenant_row t g st) = db_memberships st"
  "db_tenants (update_members P f st) = db_tenants st" "db_tenants (delete_members P st) = db_tenants st"
  "db_tenants (delete_pmembers Q st) = db_tenants st"
  "db_users (update_members P f st) = db_users st" "db_users (delete_members P st) = db_users st"
  "db_users (delete_pmembers Q st) = db_users st" "db_users (update_tenant_row t g st) = db_users st"
  "db_projects (update_members P f st) = db_projects st" "db_projects (delete_members P st) = db_projects st"
  "db_projects (delete_pmembers Q st) = db_projects st" "db_projects (update_tenant_row t g st) = db_projects st"
  "db_project_memberships (update_members P f st) = db_project_memberships st"
  "db_project_memberships (delete_members P st) = db_project_memberships st"
  "db_project_memberships (delete_pmembers Q st) = filter (\<lambda>m. \<not> Q m) (db_project_memberships st)"
  by (simp_all add: update_members_def delete_members_def delete_pmembers_def update_tenant_row_def)

lemma insert_member_Some:
  "insert_member m st = Some st' \<longleftrightarrow>
     (\<forall>n \<in> set (db_memberships st). \<not> is_member (tm_TenantID m) (tm_UserID m) n) \<and>
     st' = st\<lparr>db_memberships := db_memberships st @ [m]\<rparr>"
  by (auto simp: insert_member_def list_ex_iff)

lemma insert_user_Some:
  "insert_user u st = Some st' \<longleftrightarrow>
     (\<forall>v \<in> set (db_users st). usr_ID v \<noteq> usr_ID u \<and> usr_Email v \<noteq> usr_Email u) \<and>
     st' = st\<lparr>db_users := db_users st @ [u]\<rparr>"
  by (auto simp: insert_user_def list_ex_iff)

end
