(* ===== verification/Members.thy ===== *)
theory Members
  imports Org
begin

text \<open>
  The members of a tenant (\<open>api/users.go\<close>): invitations and their acceptance, roles, suspension, removal, the transfer of
  ownership, the settings of the tenant, and the notifications that go with them.

  The handlers run behind \<open>RequireUser\<close>, which puts the user, the tenant and the role of the caller into the context \<open>rbac_ctx\<close>;
  their own checks that these are present never fire. A body that does not decode is None; the reply to it, and to one that
  lacks a required field, is the error text of the decoder, here \<open>binding\<close>.
\<close>

section \<open>Invitations\<close>

record inviteUserReq =
  iq_Email :: string
  iq_Name :: string
  iq_Role :: string

definition roleLabel :: "string \<Rightarrow> string" where
  "roleLabel role = (if role = RoleOwner then ''Owner'' else if role = RoleAdmin then ''Admin''
     else if role = RoleEditor then ''Editor'' else ''Viewer'')"

text \<open>The payload of an invitation notification with its status set; None is the assignment to a nil map, which panics and
  which only a payload \<open>null\<close> leads to.\<close>

definition resolved_payload :: "org_env \<Rightarrow> string \<Rightarrow> string \<Rightarrow> string option" where
  "resolved_payload env payload outcome =
     (let decoded = (if payload = [] then Some (JObj [])
                     else case jt_Unmarshal (oe_json env) payload of
                       None \<Rightarrow> Some (JObj []) | Some JNull \<Rightarrow> None | Some (JObj kvs) \<Rightarrow> Some (JObj kvs) | Some _ \<Rightarrow> Some (JObj []))
      in case decoded of
           Some (JObj kvs) \<Rightarrow> Some (jt_Marshal (oe_json env) (JObj (json_put ''invitation_status'' (JStr outcome) kvs)))
         | _ \<Rightarrow> None)"

definition resolved_body :: "string \<Rightarrow> string" where
  "resolved_body outcome =
     (if outcome = ''accepted'' then ''This invitation has been accepted.''
      else if outcome = ''denied'' then ''This invitation has been denied.''
      else ''This invitation has been processed.'')"

fun resolve_rows :: "org_env \<Rightarrow> string \<Rightarrow> UserNotification list \<Rightarrow> org_db \<Rightarrow> bool \<times> org_db" where
  "resolve_rows env outcome [] st = (True, st)"
| "resolve_rows env outcome (n # ns) st =
     (case resolved_payload env (nf_Payload n) outcome of
        None \<Rightarrow> (False, st)
      | Some payload \<Rightarrow> resolve_rows env outcome ns
          (st\<lparr>db_notifications := map (\<lambda>k. if nf_ID k = nf_ID n
                then k\<lparr>nf_Payload := payload, nf_Body := resolved_body outcome, nf_Status := UserNotificationStatusRead,
                       nf_ReadAt := Some (oe_now env)\<rparr> else k) (db_notifications st)\<rparr>))"

text \<open>The first component is False when the loop panics.\<close>

definition markInvitationNotificationsResolved :: "org_env \<Rightarrow> string \<Rightarrow> nat \<Rightarrow> string \<Rightarrow> org_db \<Rightarrow> bool \<times> org_db" where
  "markInvitationNotificationsResolved env userID tenantID outcome st =
     (if oe_notify_down env then (True, st)
      else resolve_rows env outcome
        (filter (\<lambda>n. nf_UserID n = userID \<and> nf_TenantID n = Some tenantID \<and> nf_Type n = EventTeamInvitation) (db_notifications st)) st)"

definition pending_member :: "org_env \<Rightarrow> nat \<Rightarrow> string \<Rightarrow> string \<Rightarrow> TenantMembership" where
  "pending_member env tenantID userID role = \<lparr>tm_TenantID = tenantID, tm_UserID = userID, tm_OrgRole = role,
     tm_Status = StatusPending, tm_CreatedAt = oe_now env, tm_UpdatedAt = oe_now env\<rparr>"

definition invited_audit :: "inviteUserReq \<Rightarrow> string \<Rightarrow> AuditOpts" where
  "invited_audit q role = audit_opts AuditCategoryTeam None
     (Some (JObj [(''email'', JStr (iq_Email q)), (''role'', JStr role)]))"

text \<open>The end of an invitation of a user that exists: the notification with its payload, and the audit entry.\<close>

definition invite_notify :: "org_env \<Rightarrow> rbac_ctx \<Rightarrow> string \<Rightarrow> string \<Rightarrow> string \<Rightarrow> org_db \<Rightarrow> org_db" where
  "invite_notify env ctx tenantName userID role st =
     (let email = usr_Email (ctx_user ctx);
          payload = jt_Marshal (oe_json env) (JObj [(''tenant_id'', JInt (int (ctx_tenant_id ctx))), (''tenant_name'', JStr tenantName),
            (''invited_role'', JStr role), (''invited_by'', JStr email), (''invitation_status'', JStr ''pending'')]);
          title = email @ '' invited you to '' @ tenantName;
          body = ''Role: '' @ roleLabel role @ ''. Choose Accept, Deny, or Decide later.''
      in dispatch env userID EventTeamInvitation title body payload
           (insert_notification env userID (ctx_tenant_id ctx) EventTeamInvitation title body payload st))"

definition invite_role :: "string \<Rightarrow> string option" where
  "invite_role role =
     (if role = RoleEditor then Some RoleEditor
      else if role \<noteq> [] \<and> role \<noteq> RoleViewer then None else Some RoleViewer)"

text \<open>The time in nanoseconds since 1970, as \<open>UnixNano\<close> prints it into the identifier of a placeholder user.\<close>

definition UnixNano :: "int \<Rightarrow> int" where
  "UnixNano now = now - 62135596800 * second_ns"

definition handleInviteUser :: "org_env \<Rightarrow> rbac_ctx \<Rightarrow> inviteUserReq option \<Rightarrow> org_db \<Rightarrow> api_reply \<times> org_db" where
  "handleInviteUser env ctx req st =
     (case req of
        None \<Rightarrow> ((400, ''binding''), st)
      | Some q \<Rightarrow>
          if iq_Email q = [] \<or> \<not> oe_is_email env (iq_Email q) then ((400, ''binding''), st)
          else (case invite_role (iq_Role q) of
             None \<Rightarrow> ((400, ''invalid_role''), st)
           | Some role \<Rightarrow>
               (let tenantID = ctx_tenant_id ctx;
                    limit = MaxMembers (GetPlanLimits (plan_of (oe_fault env 0) tenantID st));
                    memberCount = db_count (oe_fault env 1) (\<lambda>m. tm_TenantID m = tenantID) (db_memberships st)
                in if plan_full limit memberCount then ((422, ''plan_limit_reached''), st)
                   else (case db_first (oe_fault env 2) (\<lambda>u. usr_Email u = iq_Email q) (db_users st) of
                      Inr existing \<Rightarrow>
                        (case db_first (oe_fault env 3) (is_member tenantID (usr_ID existing)) (db_memberships st) of
                           Inr _ \<Rightarrow> ((409, ''user_exists''), st)
                         | Inl _ \<Rightarrow>
                             (case (if oe_fault env 4 then None
                                    else insert_member (pending_member env tenantID (usr_ID existing) role) st) of
                                None \<Rightarrow> ((500, ''failed to create membership''), st)
                              | Some st1 \<Rightarrow>
                                  ((201, []),
                                   recordAuditEvent env ctx ''MEMBER.INVITED'' ''membership'' (usr_ID existing) (invited_audit q role)
                                     (invite_notify env ctx (name_of (oe_fault env 0) tenantID st) (usr_ID existing) role st1))))
                    | Inl _ \<Rightarrow>
                        (let userID = ''pending_'' @ iq_Email q @ ''_'' @ show_int (UnixNano (oe_now env));
                             invited = \<lparr>usr_ID = userID, usr_Email = iq_Email q, usr_Name = iq_Name q, usr_Status = StatusPending,
                               usr_DismissedIntegrationHint = False, usr_DismissedAvatarHint = False, usr_CreatedAt = oe_now env\<rparr>
                         in case (if oe_fault env 5 then None else insert_user invited st) of
                              None \<Rightarrow> ((500, ''failed to invite user''), st)
                            | Some st1 \<Rightarrow>
                                (case (if oe_fault env 6 then None
                                       else insert_member (pending_member env tenantID userID role) st1) of
                                   None \<Rightarrow> ((500, ''failed to create membership''), st1)
                                 | Some st2 \<Rightarrow>
                                     ((201, []), recordAuditEvent env ctx ''MEMBER.INVITED'' ''membership'' userID
                                        (invited_audit q role) st2)))))))"

text \<open>The tenant named in the path of an answer to an invitation.\<close>

definition tenant_param :: "string \<Rightarrow> nat option" where
  "tenant_param s = (case scan_uint s of None \<Rightarrow> None | Some t \<Rightarrow> if t = 0 then None else Some t)"

definition handleAcceptInvitation :: "org_env \<Rightarrow> rbac_ctx \<Rightarrow> string \<Rightarrow> org_db \<Rightarrow> api_reply \<times> org_db" where
  "handleAcceptInvitation env ctx param st =
     (case tenant_param param of
        None \<Rightarrow> ((400, ''invalid tenant_id''), st)
      | Some tenantID \<Rightarrow>
          (let userID = usr_ID (ctx_user ctx)
           in case db_first (oe_fault env 0) (is_member tenantID userID) (db_memberships st) of
                Inl _ \<Rightarrow> ((404, ''this invitation has been revoked''), st)
              | Inr m \<Rightarrow>
                  if tm_Status m \<noteq> StatusPending then ((400, ''invitation is not pending''), st)
                  else if oe_fault env 1 then ((500, ''failed to accept invitation''), st)
                  else (let st1 = update_members (is_member tenantID userID)
                              (\<lambda>m. m\<lparr>tm_Status := StatusActive, tm_UpdatedAt := oe_now env\<rparr>) st
                        in case markInvitationNotificationsResolved env userID tenantID ''accepted'' st1 of
                             (ok, st2) \<Rightarrow> (if ok then (200, []) else (500, ''panic''), st2))))"

definition handleDenyInvitation :: "org_env \<Rightarrow> rbac_ctx \<Rightarrow> string \<Rightarrow> org_db \<Rightarrow> api_reply \<times> org_db" where
  "handleDenyInvitation env ctx param st =
     (case tenant_param param of
        None \<Rightarrow> ((400, ''invalid tenant_id''), st)
      | Some tenantID \<Rightarrow>
          (let userID = usr_ID (ctx_user ctx)
           in case db_first (oe_fault env 0) (is_member tenantID userID) (db_memberships st) of
                Inl _ \<Rightarrow> ((404, ''this invitation has been revoked''), st)
              | Inr m \<Rightarrow>
                  if tm_Status m \<noteq> StatusPending then ((400, ''invitation is not pending''), st)
                  else if oe_fault env 1 then ((500, ''failed to deny invitation''), st)
                  else (let st1 = delete_members (is_member tenantID userID) st
                        in case markInvitationNotificationsResolved env userID tenantID ''denied'' st1 of
                             (ok, st2) \<Rightarrow> (if ok then (200, []) else (500, ''panic''), st2))))"

section \<open>Roles and suspension\<close>

text \<open>The part that the handlers on a member share: after the role check, the update of the row, the audit entry and the
  notification. \<open>err\<close> is the reply when the update fails.\<close>

definition change_member :: "org_env \<Rightarrow> rbac_ctx \<Rightarrow> string \<Rightarrow> (TenantMembership \<Rightarrow> TenantMembership) \<Rightarrow> string \<Rightarrow> string \<Rightarrow> AuditOpts \<Rightarrow>
    string \<Rightarrow> string \<Rightarrow> (string \<times> json) list \<Rightarrow> org_db \<Rightarrow> api_reply \<times> org_db" where
  "change_member env ctx targetID f err action opts title body extra st =
     (if oe_fault env 1 then ((500, err), st)
      else ((200, []),
            notifyMemberChange env ctx targetID (ctx_tenant_id ctx) title body extra
              (recordAuditEvent env ctx action ''membership'' targetID opts
                (update_members (is_member (ctx_tenant_id ctx) targetID)
                  (\<lambda>m. (f m)\<lparr>tm_UpdatedAt := oe_now env\<rparr>) st))))"

definition role_state :: "string \<Rightarrow> json option" where
  "role_state role = Some (JObj [(''role'', JStr role)])"

definition role_change :: "string \<Rightarrow> string \<Rightarrow> string \<Rightarrow> (string \<times> json) list" where
  "role_change action oldRole newRole = [(''action'', JStr action), (''old_role'', JStr oldRole), (''new_role'', JStr newRole)]"

definition handleUpdateUserRole :: "org_env \<Rightarrow> rbac_ctx \<Rightarrow> string \<Rightarrow> string option \<Rightarrow> org_db \<Rightarrow> api_reply \<times> org_db" where
  "handleUpdateUserRole env ctx targetID req st =
     (case req of
        None \<Rightarrow> ((400, ''binding''), st)
      | Some newRole \<Rightarrow>
          if newRole = [] then ((400, ''binding''), st)
          else if newRole \<noteq> RoleViewer \<and> newRole \<noteq> RoleEditor then ((400, ''invalid_role''), st)
          else if targetID = usr_ID (ctx_user ctx) then ((400, ''cannot change your own role''), st)
          else (case db_first (oe_fault env 0) (is_member (ctx_tenant_id ctx) targetID) (db_memberships st) of
             Inl _ \<Rightarrow> ((404, ''user not found''), st)
           | Inr m \<Rightarrow>
               if tm_OrgRole m = RoleOwner then ((403, ''cannot change the owner'' @ [CHR 0x27] @ ''s role''), st)
               else if tm_OrgRole m = RoleAdmin \<and> ctx_org_role ctx \<noteq> RoleOwner then ((403, ''only the owner can change admin roles''), st)
               else change_member env ctx targetID (\<lambda>m. m\<lparr>tm_OrgRole := newRole\<rparr>) ''failed to update role'' ''MEMBER.ROLE_CHANGED''
                      (audit_opts AuditCategoryTeam (role_state (tm_OrgRole m)) (role_state newRole))
                      ''Your organization role has been updated''
                      (''Your role has been changed from '' @ roleLabel (tm_OrgRole m) @ '' to '' @ roleLabel newRole @ ''.'')
                      (role_change ''role_changed'' (tm_OrgRole m) newRole) st))"

definition handleSuspendUser :: "org_env \<Rightarrow> rbac_ctx \<Rightarrow> string \<Rightarrow> org_db \<Rightarrow> api_reply \<times> org_db" where
  "handleSuspendUser env ctx targetID st =
     (if targetID = usr_ID (ctx_user ctx) then ((400, ''cannot suspend yourself''), st)
      else (case db_first (oe_fault env 0) (is_member (ctx_tenant_id ctx) targetID) (db_memberships st) of
         Inl _ \<Rightarrow> ((404, ''user not found''), st)
       | Inr m \<Rightarrow>
           if tm_OrgRole m = RoleOwner then ((403, ''cannot suspend the tenant owner''), st)
           else if tm_OrgRole m = RoleAdmin \<and> ctx_org_role ctx \<noteq> RoleOwner then ((403, ''only the owner can suspend admins''), st)
           else change_member env ctx targetID (\<lambda>m. m\<lparr>tm_Status := StatusSuspended\<rparr>) ''failed to suspend user'' ''MEMBER.SUSPENDED''
                  (audit_opts AuditCategoryTeam None None) ''Your membership has been suspended''
                  ''An administrator has suspended your access to this organization.'' [(''action'', JStr ''suspended'')] st))"

definition handleUnsuspendUser :: "org_env \<Rightarrow> rbac_ctx \<Rightarrow> string \<Rightarrow> org_db \<Rightarrow> api_reply \<times> org_db" where
  "handleUnsuspendUser env ctx targetID st =
     (case db_first (oe_fault env 0) (is_member (ctx_tenant_id ctx) targetID) (db_memberships st) of
        Inl _ \<Rightarrow> ((404, ''user not found''), st)
      | Inr m \<Rightarrow>
          change_member env ctx targetID (\<lambda>m. m\<lparr>tm_Status := StatusActive\<rparr>) ''failed to unsuspend user'' ''MEMBER.UNSUSPENDED''
            (audit_opts AuditCategoryTeam None None) ''Your membership has been reactivated''
            ''An administrator has restored your access to this organization.'' [(''action'', JStr ''unsuspended'')] st)"

definition handlePromoteAdmin :: "org_env \<Rightarrow> rbac_ctx \<Rightarrow> string \<Rightarrow> org_db \<Rightarrow> api_reply \<times> org_db" where
  "handlePromoteAdmin env ctx targetID st =
     (if targetID = usr_ID (ctx_user ctx) then ((400, ''cannot promote yourself''), st)
      else (case db_first (oe_fault env 0) (is_member (ctx_tenant_id ctx) targetID) (db_memberships st) of
         Inl _ \<Rightarrow> ((404, ''user not found''), st)
       | Inr m \<Rightarrow>
           if tm_OrgRole m = RoleOwner then ((400, ''user is already the owner''), st)
           else if tm_OrgRole m = RoleAdmin then ((400, ''user is already an admin''), st)
           else change_member env ctx targetID (\<lambda>m. m\<lparr>tm_OrgRole := RoleAdmin\<rparr>) ''failed to promote user'' ''MEMBER.PROMOTED''
                  (audit_opts AuditCategoryTeam (role_state (tm_OrgRole m)) (role_state RoleAdmin)) ''You have been promoted to admin''
                  (''Your role has been changed from '' @ roleLabel (tm_OrgRole m) @ '' to admin.'')
                  (role_change ''promoted'' (tm_OrgRole m) RoleAdmin) st))"

definition handleDemoteAdmin :: "org_env \<Rightarrow> rbac_ctx \<Rightarrow> string \<Rightarrow> org_db \<Rightarrow> api_reply \<times> org_db" where
  "handleDemoteAdmin env ctx targetID st =
     (case db_first (oe_fault env 0) (is_member (ctx_tenant_id ctx) targetID) (db_memberships st) of
        Inl _ \<Rightarrow> ((404, ''user not found''), st)
      | Inr m \<Rightarrow>
          if tm_OrgRole m \<noteq> RoleAdmin then ((400, ''user is not an admin''), st)
          else change_member env ctx targetID (\<lambda>m. m\<lparr>tm_OrgRole := RoleEditor\<rparr>) ''failed to demote admin'' ''MEMBER.DEMOTED''
                 (audit_opts AuditCategoryTeam (role_state RoleAdmin) (role_state RoleEditor)) ''Your admin role has been revoked''
                 ''Your role has been changed from admin to editor.'' (role_change ''demoted'' RoleAdmin RoleEditor) st)"

section \<open>Removal and transfer of ownership\<close>

text \<open>Statements 1 to 5 are the transaction: a failed statement aborts it, also where its own error is ignored, and the
  error of the commit is ignored. The identity provider is called before the commit.\<close>

definition handleRemoveUser :: "org_env \<Rightarrow> rbac_ctx \<Rightarrow> string \<Rightarrow> org_db \<Rightarrow> api_reply \<times> org_db" where
  "handleRemoveUser env ctx targetID st =
     (let tenantID = ctx_tenant_id ctx
      in if targetID = usr_ID (ctx_user ctx) then ((400, ''cannot remove yourself''), st)
      else (case db_first (oe_fault env 0) (is_member tenantID targetID) (db_memberships st) of
         Inl _ \<Rightarrow> ((404, ''user not found''), st)
       | Inr m \<Rightarrow>
           if tm_OrgRole m = RoleOwner then ((403, ''cannot remove the tenant owner. Transfer ownership first.''), st)
           else if tm_OrgRole m = RoleAdmin \<and> ctx_org_role ctx \<noteq> RoleOwner then ((403, ''only the owner can remove admins''), st)
           else if oe_fault env 1 then ((500, ''failed to remove project memberships''), st)
           else if oe_fault env 2 then ((500, ''failed to remove user''), st)
           else
             (let target = db_first (oe_fault env 6) (\<lambda>u. usr_ID u = targetID) (db_users st);
                  foundID = (case target of Inl _ \<Rightarrow> [] | Inr u \<Rightarrow> usr_ID u);
                  email = (case target of Inl _ \<Rightarrow> [] | Inr u \<Rightarrow> usr_Email u);
                  st1 = delete_members (is_member tenantID targetID)
                    (delete_pmembers (\<lambda>p. pm_UserID p = targetID \<and> project_of_tenant st tenantID (pm_ProjectID p)) st);
                  remaining = db_count (oe_fault env 3) (\<lambda>k. tm_UserID k = targetID) (db_memberships st1)
              in if remaining = 0 \<and> (oe_fault env 3 \<or> oe_fault env 4) then ((500, ''failed to remove user''), st)
                 else
                   (let st2 = (if remaining = 0 then st1\<lparr>db_users := filter (\<lambda>u. usr_ID u \<noteq> targetID) (db_users st1)\<rparr> else st1);
                        committed = (if oe_fault env 5 then st else st2);
                        st3 = (if remaining = 0 then snd (deleteClerkUser env foundID committed) else committed);
                        st4 = (if 0 < remaining
                               then notifyMemberChange env ctx targetID tenantID ''You have been removed from an organization''
                                      ''An administrator has removed you from the organization.'' [(''action'', JStr ''removed'')] st3
                               else st3)
                    in ((200, []), recordAuditEvent env ctx ''MEMBER.REMOVED'' ''membership'' targetID
                         (audit_opts AuditCategoryTeam (Some (JObj [(''email'', JStr email), (''role'', JStr (tm_OrgRole m))])) None) st4)))))"

definition handleTransferOwnership :: "org_env \<Rightarrow> rbac_ctx \<Rightarrow> string option \<Rightarrow> org_db \<Rightarrow> api_reply \<times> org_db" where
  "handleTransferOwnership env ctx req st =
     (case req of
        None \<Rightarrow> ((400, ''binding''), st)
      | Some newOwnerID \<Rightarrow>
          (let tenantID = ctx_tenant_id ctx; callerID = usr_ID (ctx_user ctx)
           in if newOwnerID = [] then ((400, ''binding''), st)
              else if newOwnerID = callerID then ((400, ''you are already the owner''), st)
              else (case db_first (oe_fault env 0) (is_member tenantID newOwnerID) (db_memberships st) of
                 Inl _ \<Rightarrow> ((404, ''target user not found in your tenant''), st)
               | Inr m \<Rightarrow>
                   if tm_Status m \<noteq> StatusActive then ((400, ''cannot transfer ownership to a suspended user''), st)
                   else if oe_fault env 1 \<or> oe_fault env 2 then ((500, ''failed to transfer ownership''), st)
                   else
                     (let newEmail = (case db_first (oe_fault env 4) (\<lambda>u. usr_ID u = newOwnerID) (db_users st) of
                            Inl _ \<Rightarrow> [] | Inr u \<Rightarrow> usr_Email u);
                          st1 = update_members (is_member tenantID callerID)
                            (\<lambda>m. m\<lparr>tm_OrgRole := RoleAdmin, tm_UpdatedAt := oe_now env\<rparr>) st;
                          st2 = update_members (is_member tenantID newOwnerID)
                            (\<lambda>m. m\<lparr>tm_OrgRole := RoleOwner, tm_UpdatedAt := oe_now env\<rparr>) st1;
                          st3 = (if oe_fault env 3 then st else st2)
                      in ((200, []), recordAuditEvent env ctx ''OWNERSHIP.TRANSFERRED'' ''tenant'' (show_nat tenantID)
                           \<lparr>ao_Category = AuditCategoryOwner, ao_ActorType = [], ao_BeforeState = None, ao_AfterState = None,
                             ao_Metadata = Some (JObj [(''from'', JStr (usr_Email (ctx_user ctx))), (''to'', JStr newEmail)]),
                             ao_Success = None\<rparr> st3)))))"

section \<open>Settings\<close>

definition handleUpdateTenantSettings :: "org_env \<Rightarrow> rbac_ctx \<Rightarrow> string option option \<Rightarrow> org_db \<Rightarrow> api_reply \<times> org_db" where
  "handleUpdateTenantSettings env ctx req st =
     (case req of
        None \<Rightarrow> ((400, ''binding''), st)
      | Some None \<Rightarrow> ((400, ''no settings provided''), st)
      | Some (Some name) \<Rightarrow>
          (case first_tenant_row (oe_fault env 0) (ctx_tenant_id ctx) st of
             Inl _ \<Rightarrow> ((500, ''failed to fetch tenant''), st)
           | Inr tenant \<Rightarrow>
               (let trimmed_name = strings_TrimSpace name
                in if trimmed_name = [] then ((400, ''name cannot be empty''), st)
                   else if 100 < length trimmed_name then ((400, ''name must be 100 characters or fewer''), st)
                   else if oe_fault env 1 then ((500, ''failed to update name''), st)
                   else ((200, []), recordAuditEvent env ctx ''SETTINGS.UPDATED'' ''tenant'' (show_nat (ctx_tenant_id ctx))
                          (audit_opts AuditCategoryOwner (Some (JObj [(''name'', JStr (ten_Name tenant))]))
                            (Some (JObj [(''name'', JStr trimmed_name)])))
                          (update_tenant_row (ctx_tenant_id ctx) (\<lambda>t. t\<lparr>ten_Name := trimmed_name\<rparr>) st)))))"

text \<open>The two flags of the onboarding hints, None when the body leaves them out.\<close>

definition handleUpdateOnboardingHints :: "org_env \<Rightarrow> rbac_ctx \<Rightarrow> (bool option \<times> bool option) option \<Rightarrow> org_db \<Rightarrow>
    api_reply \<times> org_db" where
  "handleUpdateOnboardingHints env ctx req st =
     (case req of
        None \<Rightarrow> ((400, ''binding''), st)
      | Some (None, None) \<Rightarrow> ((400, ''no fields to update''), st)
      | Some (integration, avatar) \<Rightarrow>
          if oe_fault env 0 then ((500, ''failed to update onboarding hints''), st)
          else
            (let uid = usr_ID (ctx_user ctx);
                 st1 = st\<lparr>db_users := map (\<lambda>u. if usr_ID u = uid
                   then u\<lparr>usr_DismissedIntegrationHint := (case integration of None \<Rightarrow> usr_DismissedIntegrationHint u | Some b \<Rightarrow> b),
                          usr_DismissedAvatarHint := (case avatar of None \<Rightarrow> usr_DismissedAvatarHint u | Some b \<Rightarrow> b)\<rparr>
                   else u) (db_users st)\<rparr>
             in case db_first (oe_fault env 1) (\<lambda>u. usr_ID u = uid) (db_users st1) of
                  Inl _ \<Rightarrow> ((500, ''failed to fetch updated user''), st1)
                | Inr _ \<Rightarrow> ((200, []), st1)))"

end
