(* ===== verification/Base64.thy ===== *)
theory Base64
  imports Prelude
begin

text \<open>
  The encodings of \<open>encoding/base64\<close> that the services use: \<open>StdEncoding\<close> (padded) for the salt and
  hash of a cached API key, \<open>RawURLEncoding\<close> (unpadded) for the secret of a new key. Bytes are
  characters. The decoder is the one of \<open>StdEncoding\<close> as its callers see it when they drop the error:
  line breaks are skipped and the quanta before the first corrupt one are returned.
\<close>

definition std_alphabet :: string where
  "std_alphabet = ''ABCDEFGHIJKLMNOPQRSTUVWXYZabcdefghijklmnopqrstuvwxyz0123456789+/''"

definition url_alphabet :: string where
  "url_alphabet = ''ABCDEFGHIJKLMNOPQRSTUVWXYZabcdefghijklmnopqrstuvwxyz0123456789-_''"

abbreviation byte :: "char \<Rightarrow> nat" where
  "byte c \<equiv> of_char c"

fun b64_encode :: "string \<Rightarrow> bool \<Rightarrow> string \<Rightarrow> string" where
  "b64_encode abc pad [] = []"
| "b64_encode abc pad [a] =
     [abc ! (byte a div 4), abc ! (byte a mod 4 * 16)] @ (if pad then ''=='' else [])"
| "b64_encode abc pad [a, b] =
     [abc ! (byte a div 4), abc ! (byte a mod 4 * 16 + byte b div 16), abc ! (byte b mod 16 * 4)] @
     (if pad then ''='' else [])"
| "b64_encode abc pad (a # b # c # bs) =
     [abc ! (byte a div 4), abc ! (byte a mod 4 * 16 + byte b div 16),
      abc ! (byte b mod 16 * 4 + byte c div 64), abc ! (byte c mod 64)] @ b64_encode abc pad bs"

definition StdEncoding_EncodeToString :: "string \<Rightarrow> string" where
  "StdEncoding_EncodeToString = b64_encode std_alphabet True"

definition RawURLEncoding_EncodeToString :: "string \<Rightarrow> string" where
  "RawURLEncoding_EncodeToString = b64_encode url_alphabet False"

fun index_of :: "'a list \<Rightarrow> 'a \<Rightarrow> nat option" where
  "index_of [] x = None"
| "index_of (y # ys) x = (if y = x then Some 0 else map_option Suc (index_of ys x))"

definition b64_val :: "char \<Rightarrow> nat option" where
  "b64_val = index_of std_alphabet"

fun b64_decode :: "string \<Rightarrow> string" where
  "b64_decode (p # q # r # s # cs) =
     (case (b64_val p, b64_val q, b64_val r, b64_val s) of
        (Some w, Some x, Some y, Some z) \<Rightarrow>
          [char_of (w * 4 + x div 16), char_of (x mod 16 * 16 + y div 4), char_of (y mod 4 * 64 + z)] @ b64_decode cs
      | (Some w, Some x, Some y, None) \<Rightarrow>
          if s = CHR ''='' then [char_of (w * 4 + x div 16), char_of (x mod 16 * 16 + y div 4)] else []
      | (Some w, Some x, None, _) \<Rightarrow>
          if r = CHR ''='' \<and> s = CHR ''='' then [char_of (w * 4 + x div 16)] else []
      | _ \<Rightarrow> [])"
| "b64_decode _ = []"

definition StdEncoding_DecodeString :: "string \<Rightarrow> string" where
  "StdEncoding_DecodeString s = b64_decode (filter (\<lambda>c. c \<noteq> CHR 0x0A \<and> c \<noteq> CHR 0x0D) s)"

section \<open>Decoding inverts encoding\<close>

lemma index_of_nth: "distinct xs \<Longrightarrow> i < length xs \<Longrightarrow> index_of xs (xs ! i) = Some i"
proof (induction xs arbitrary: i)
  case (Cons x xs)
  then show ?case by (cases i) auto
qed simp

lemma std_alphabet_length: "length std_alphabet = 64"
  by (simp add: std_alphabet_def)

lemma std_alphabet_distinct: "distinct std_alphabet"
  by (simp add: std_alphabet_def)

lemma b64_val_nth [simp]: "i < 64 \<Longrightarrow> b64_val (std_alphabet ! i) = Some i"
  unfolding b64_val_def by (rule index_of_nth) (simp_all add: std_alphabet_distinct std_alphabet_length)

lemma b64_val_pad [simp]: "b64_val (CHR ''='') = None"
  by (simp add: b64_val_def std_alphabet_def)

lemmas byte_less = nat_of_char_less_256

lemma six_bits:
  "byte a div 4 < 64" "byte a mod 4 * 16 < 64" "byte a mod 4 * 16 + byte b div 16 < 64"
  "byte b mod 16 * 4 < 64" "byte b mod 16 * 4 + byte c div 64 < 64" "byte c mod 64 < 64"
  using byte_less [of a] byte_less [of b] byte_less [of c] by (simp_all, linarith+)

lemma byte_split:
  "byte a div 4 * 4 + (byte a mod 4 * 16 + y) div 16 = byte a" if "y < 16" for y
  using that by (metis div_mult_mod_eq div_mult_self3 div_less add.commute add.right_neutral zero_neq_numeral)

lemma high_nibble: "byte b div 16 mod 16 = byte b div 16"
  and top_bits: "byte c div 64 mod 4 = byte c div 64"
  and low_nibble: "byte c div 64 div 4 = 0"
proof -
  have "byte b div 16 < 16" "byte c div 64 < 4" using byte_less [of b] byte_less [of c] by linarith+
  then show "byte b div 16 mod 16 = byte b div 16" "byte c div 64 mod 4 = byte c div 64"
    "byte c div 64 div 4 = 0" by simp_all
qed

lemma b64_decode_encode: "b64_decode (b64_encode std_alphabet True bs) = bs"
proof (induction "std_alphabet" True bs rule: b64_encode.induct)
  case (2 a)
  have "byte a div 4 * 4 + byte a mod 4 * 16 div 16 = byte a" by simp
  then show ?case by (simp add: six_bits)
next
  case (3 a b)
  have "byte a div 4 * 4 + (byte a mod 4 * 16 + byte b div 16) div 16 = byte a"
    using byte_less [of b] by (intro byte_split) linarith
  moreover have "(byte a mod 4 * 16 + byte b div 16) mod 16 * 16 + byte b mod 16 * 4 div 4 = byte b"
    by (simp add: high_nibble)
  ultimately show ?case by (simp add: six_bits)
next
  case (4 a b c bs)
  have "byte a div 4 * 4 + (byte a mod 4 * 16 + byte b div 16) div 16 = byte a"
    using byte_less [of b] by (intro byte_split) linarith
  moreover have "(byte a mod 4 * 16 + byte b div 16) mod 16 * 16 + (byte b mod 16 * 4 + byte c div 64) div 4 = byte b"
    using low_nibble [of c] by (simp add: high_nibble)
  moreover have "(byte b mod 16 * 4 + byte c div 64) mod 4 * 64 + byte c mod 64 = byte c"
    using byte_less [of c] by (simp add: top_bits)
  ultimately show ?case using 4 by (simp add: six_bits)
qed simp

lemma b64_encode_chars: "c \<in> set (b64_encode std_alphabet True bs) \<Longrightarrow> c \<in> set std_alphabet \<or> c = CHR ''=''"
proof (induction "std_alphabet" True bs rule: b64_encode.induct)
  case (4 a b c' bs)
  then show ?case by (auto simp: six_bits std_alphabet_length)
qed (auto simp: six_bits std_alphabet_length)

lemma StdEncoding_roundtrip [simp]: "StdEncoding_DecodeString (StdEncoding_EncodeToString bs) = bs"
proof -
  have "CHR 0x0A \<notin> set std_alphabet" "CHR 0x0D \<notin> set std_alphabet" by (simp_all add: std_alphabet_def)
  then have "filter (\<lambda>c. c \<noteq> CHR 0x0A \<and> c \<noteq> CHR 0x0D) (b64_encode std_alphabet True bs) = b64_encode std_alphabet True bs"
    using b64_encode_chars [of _ bs] by (intro filter_True) fastforce
  then show ?thesis
    by (simp add: StdEncoding_DecodeString_def StdEncoding_EncodeToString_def b64_decode_encode)
qed

end
