(* ===== verification/APIKeys.thy ===== *)
theory APIKeys
  imports Models Pricing Base64
begin

text \<open>
  Gateway authentication: the API key service (\<open>services/apikey_service.go\<close>) with its cache-first
  validation, and the middlewares that run it on a request (\<open>middleware/auth.go\<close>,
  \<open>tenant_auth.go\<close>, \<open>path_provider.go\<close>).

  Parameters: Redis with the JSON codec of the cached rows, the keyed hash (HMAC-SHA-256 under the
  server's pepper, as a function of the bytes written to it), the uuid of a new key and the random
  bytes it draws. Errors of the service are their messages, which is what the middlewares look at;
  \<open>kd_err\<close> is the message of the database driver when it does not answer.
\<close>

section \<open>State and parameters\<close>

record apiKeyCacheData =
  ck_KeyID :: string
  ck_TenantID :: nat
  ck_ProjectID :: nat
  ck_Label :: string
  ck_Revoked :: bool
  ck_ExpiresAt :: "int option"
  ck_Scopes :: "string list"
  ck_Provider :: string
  ck_AuthMethod :: string
  ck_BillingMode :: string
  ck_Salt :: string
  ck_SecretHash :: string

record ('s, 'v) APIKeyService =
  ks_hmac :: "string \<Rightarrow> string"
  ks_cache :: "('s, 'v) redis_ops option"
  ks_codec :: "(apiKeyCacheData, 'v) codec"
  ks_SetNX :: "'s \<Rightarrow> string \<Rightarrow> int \<Rightarrow> 's \<times> bool option"
  ks_cacheTTL :: int
  ks_marshal_list :: "string list \<Rightarrow> string"

record key_db =
  kd_err :: "string option"
  kd_Tenants :: "Tenant list"
  kd_APIKeys :: "APIKey list"
  kd_APIKeyConfigs :: "APIKeyConfig list"

datatype create_key_error =
  ErrInvalidCombo | ErrTenantNotFound db_error | ErrAPIKeyLimitReached int int | ErrRand | ErrCreateKey string

section \<open>The service\<close>

definition verifySecret :: "('s, 'v) APIKeyService \<Rightarrow> string \<Rightarrow> string \<Rightarrow> string \<Rightarrow> bool" where
  "verifySecret svc salt storedHash secret \<longleftrightarrow> ks_hmac svc (salt @ secret) = storedHash"

definition cache_data :: "APIKey \<Rightarrow> apiKeyCacheData" where
  "cache_data ak = \<lparr>ck_KeyID = ak_KeyID ak, ck_TenantID = ak_TenantID ak, ck_ProjectID = ak_ProjectID ak,
     ck_Label = ak_Label ak, ck_Revoked = ak_Revoked ak, ck_ExpiresAt = ak_ExpiresAt ak, ck_Scopes = ak_Scopes ak,
     ck_Provider = ak_Provider ak, ck_AuthMethod = ak_AuthMethod ak, ck_BillingMode = ak_BillingMode ak,
     ck_Salt = StdEncoding_EncodeToString (ak_Salt ak),
     ck_SecretHash = StdEncoding_EncodeToString (ak_SecretHash ak)\<rparr>"

definition cacheKey :: "('s, 'v) APIKeyService \<Rightarrow> APIKey \<Rightarrow> 's \<Rightarrow> 's" where
  "cacheKey svc ak s =
     (case ks_cache svc of
        None \<Rightarrow> s
      | Some R \<Rightarrow>
          (case cd_Marshal (ks_codec svc) (cache_data ak) of
             None \<Rightarrow> s
           | Some b \<Rightarrow> rd_Set R s (''apikey:'' @ ak_KeyID ak) b (ks_cacheTTL svc)))"

definition splitKey :: "string \<Rightarrow> (string, string \<times> string) result" where
  "splitKey presented =
     (if CHR '':'' \<in> set presented
      then Inr (takeWhile (\<lambda>c. c \<noteq> CHR '':'') presented, tl (dropWhile (\<lambda>c. c \<noteq> CHR '':'') presented))
      else Inl (''bad key format: expected '' @ [CHR 0x27] @ ''keyid:secret'' @ [CHR 0x27]))"

definition active_key :: "int \<Rightarrow> nat \<Rightarrow> APIKey \<Rightarrow> bool" where
  "active_key now tenantID ak \<longleftrightarrow> ak_TenantID ak = tenantID \<and> \<not> ak_Revoked ak \<and>
     (case ak_ExpiresAt ak of None \<Rightarrow> True | Some e \<Rightarrow> now < e)"

text \<open>\<open>Create\<close> on the key table, which has a unique index on the key id.\<close>

definition create_key_row :: "key_db \<Rightarrow> APIKey \<Rightarrow> (string, key_db) result" where
  "create_key_row db ak =
     (case kd_err db of
        Some e \<Rightarrow> Inl e
      | None \<Rightarrow>
          if ak_KeyID ak \<in> set (map ak_KeyID (kd_APIKeys db)) then Inl ''duplicate key value violates unique constraint''
          else Inr (db\<lparr>kd_APIKeys := kd_APIKeys db @ [ak]\<rparr>))"

record key_request =
  kq_TenantID :: nat
  kq_Label :: string
  kq_Scopes :: "string list"
  kq_ExpiresAt :: "int option"
  kq_Provider :: string
  kq_AuthMethod :: string
  kq_BillingMode :: string
  kq_ProjectID :: nat
  kq_CreatedByUserID :: string
  kq_ModelAllowlist :: "string list"

text \<open>\<open>rawSecret\<close> and \<open>salt\<close> are the random draws (\<open>None\<close> when the source of randomness fails), \<open>uuid\<close>
  the new uuid and \<open>newID\<close> the value of the primary key sequence.\<close>

definition CreateKey :: "('s, 'v) APIKeyService \<Rightarrow> int \<Rightarrow> string option \<Rightarrow> string option \<Rightarrow> string \<Rightarrow> nat \<Rightarrow>
    key_request \<Rightarrow> key_db \<Rightarrow> 's \<Rightarrow> (create_key_error, string \<times> string) result \<times> key_db \<times> 's" where
  "CreateKey svc now rawSecret rawSalt uuid newID q db s =
     (if \<not> ValidAuthBillingCombo (kq_Provider q) (kq_AuthMethod q) (kq_BillingMode q) then (Inl ErrInvalidCombo, db, s)
      else
        (case db_first (kd_err db \<noteq> None) (\<lambda>t. ten_ID t = kq_TenantID q) (kd_Tenants db) of
           Inl e \<Rightarrow> (Inl (ErrTenantNotFound e), db, s)
         | Inr tenant \<Rightarrow>
             (let activeCount = int (length (db_find (kd_err db \<noteq> None) (active_key now (kq_TenantID q)) (kd_APIKeys db)));
                  limit = MaxAPIKeys (GetPlanLimits (ten_Plan tenant))
              in if limit \<noteq> -1 \<and> limit \<le> activeCount then (Inl (ErrAPIKeyLimitReached limit activeCount), db, s)
                 else
                   (case (rawSecret, rawSalt) of
                      (Some raw, Some salt) \<Rightarrow>
                        (let secret = RawURLEncoding_EncodeToString raw;
                             kid = ''tg_'' @ uuid;
                             ak = \<lparr>ak_ID = newID, ak_TenantID = kq_TenantID q, ak_ProjectID = kq_ProjectID q,
                                   ak_KeyID = kid, ak_Label = kq_Label q, ak_Salt = salt,
                                   ak_SecretHash = ks_hmac svc (salt @ secret), ak_Scopes = kq_Scopes q,
                                   ak_Provider = kq_Provider q, ak_AuthMethod = kq_AuthMethod q,
                                   ak_BillingMode = kq_BillingMode q,
                                   ak_ModelAllowlist = (if kq_ModelAllowlist q = [] then None
                                     else Some (ks_marshal_list svc (kq_ModelAllowlist q))),
                                   ak_CreatedByUserID = kq_CreatedByUserID q, ak_Revoked = False,
                                   ak_ExpiresAt = kq_ExpiresAt q, ak_LastSeenAt = None, ak_CreatedAt = now\<rparr>
                         in case create_key_row db ak of
                              Inl e \<Rightarrow> (Inl (ErrCreateKey e), db, s)
                            | Inr db' \<Rightarrow> (Inr (kid, secret), db', cacheKey svc ak s))
                    | _ \<Rightarrow> (Inl ErrRand, db, s)))))"

definition expired :: "int \<Rightarrow> int option \<Rightarrow> bool" where
  "expired now expiresAt \<longleftrightarrow> (case expiresAt of None \<Rightarrow> False | Some e \<Rightarrow> e < now)"

text \<open>The two branches of \<open>ValidateKey\<close>: on a cached row, and on the row of the database.\<close>

definition validate_cached :: "('s, 'v) APIKeyService \<Rightarrow> int \<Rightarrow> string \<Rightarrow> apiKeyCacheData \<Rightarrow> (string, APIKey) result" where
  "validate_cached svc now secret cd =
     (if ck_Revoked cd then Inl ''key revoked''
      else if expired now (ck_ExpiresAt cd) then Inl ''key expired''
      else
        (let salt = StdEncoding_DecodeString (ck_Salt cd); storedHash = StdEncoding_DecodeString (ck_SecretHash cd)
         in if \<not> verifySecret svc salt storedHash secret then Inl ''invalid key: hash mismatch''
            else Inr \<lparr>ak_ID = 0, ak_TenantID = ck_TenantID cd, ak_ProjectID = ck_ProjectID cd, ak_KeyID = ck_KeyID cd,
                      ak_Label = ck_Label cd, ak_Salt = salt, ak_SecretHash = storedHash, ak_Scopes = ck_Scopes cd,
                      ak_Provider = ck_Provider cd, ak_AuthMethod = ck_AuthMethod cd,
                      ak_BillingMode = ck_BillingMode cd, ak_ModelAllowlist = None, ak_CreatedByUserID = [],
                      ak_Revoked = ck_Revoked cd, ak_ExpiresAt = ck_ExpiresAt cd, ak_LastSeenAt = None,
                      ak_CreatedAt = 0\<rparr>))"

definition validate_row :: "('s, 'v) APIKeyService \<Rightarrow> int \<Rightarrow> string \<Rightarrow> string \<Rightarrow> key_db \<Rightarrow> (string, APIKey) result" where
  "validate_row svc now keyID secret db =
     (case db_first (kd_err db \<noteq> None) (\<lambda>ak. ak_KeyID ak = keyID) (kd_APIKeys db) of
        Inl RecordNotFound \<Rightarrow> Inl ''key not found''
      | Inl DBUnavailable \<Rightarrow> Inl (''db error: '' @ (case kd_err db of None \<Rightarrow> [] | Some e \<Rightarrow> e))
      | Inr ak \<Rightarrow>
          if ak_Revoked ak then Inl ''key revoked''
          else if expired now (ak_ExpiresAt ak) then Inl ''key expired''
          else if \<not> verifySecret svc (ak_Salt ak) (ak_SecretHash ak) secret then Inl ''invalid key: hash mismatch''
          else Inr ak)"

definition cache_lookup :: "('s, 'v) APIKeyService \<Rightarrow> string \<Rightarrow> 's \<Rightarrow> apiKeyCacheData option" where
  "cache_lookup svc keyID s =
     (case ks_cache svc of
        None \<Rightarrow> None
      | Some R \<Rightarrow> (case rd_Get R s (''apikey:'' @ keyID) of None \<Rightarrow> None | Some raw \<Rightarrow> cd_Unmarshal (ks_codec svc) raw))"

definition ValidateKey :: "('s, 'v) APIKeyService \<Rightarrow> int \<Rightarrow> string \<Rightarrow> key_db \<Rightarrow> 's \<Rightarrow> (string, APIKey) result \<times> 's" where
  "ValidateKey svc now presented db s =
     (case splitKey presented of
        Inl e \<Rightarrow> (Inl e, s)
      | Inr (keyID, secret) \<Rightarrow>
          (case cache_lookup svc keyID s of
             Some cd \<Rightarrow> (validate_cached svc now secret cd, s)
           | None \<Rightarrow>
               (case validate_row svc now keyID secret db of
                  Inl e \<Rightarrow> (Inl e, s)
                | Inr ak \<Rightarrow> (Inr ak, cacheKey svc ak s))))"

definition RevokeKey :: "('s, 'v) APIKeyService \<Rightarrow> nat \<Rightarrow> string \<Rightarrow> key_db \<Rightarrow> 's \<Rightarrow> string option \<times> key_db \<times> 's" where
  "RevokeKey svc tenantID keyID db s =
     (case kd_err db of
        Some e \<Rightarrow> (Some e, db, s)
      | None \<Rightarrow>
          (let hit = (\<lambda>ak. ak_KeyID ak = keyID \<and> ak_TenantID ak = tenantID)
           in if \<not> list_ex hit (kd_APIKeys db) then (Some ''key not found'', db, s)
              else (None,
                    db\<lparr>kd_APIKeys := map (\<lambda>ak. if hit ak then ak\<lparr>ak_Revoked := True\<rparr> else ak) (kd_APIKeys db),
                       kd_APIKeyConfigs := filter (\<lambda>c. kc_KeyID c \<noteq> keyID) (kd_APIKeyConfigs db)\<rparr>,
                    (case ks_cache svc of None \<Rightarrow> s | Some R \<Rightarrow> rd_Del R s (''apikey:'' @ keyID)))))"

definition ListKeys :: "nat \<Rightarrow> key_db \<Rightarrow> (string, APIKey list) result" where
  "ListKeys tenantID db =
     (case kd_err db of
        Some e \<Rightarrow> Inl e
      | None \<Rightarrow> Inr (filter (\<lambda>ak. ak_TenantID ak = tenantID \<and> \<not> ak_Revoked ak) (kd_APIKeys db)))"

definition ListKeysFiltered :: "nat \<Rightarrow> string \<Rightarrow> string \<Rightarrow> key_db \<Rightarrow> (string, APIKey list) result" where
  "ListKeysFiltered tenantID orgRole userID db =
     (case kd_err db of
        Some e \<Rightarrow> Inl e
      | None \<Rightarrow> Inr (filter (\<lambda>ak. ak_TenantID ak = tenantID \<and> \<not> ak_Revoked ak \<and>
          (orgRole \<noteq> RoleOwner \<and> orgRole \<noteq> RoleAdmin \<longrightarrow> ak_CreatedByUserID ak = userID)) (kd_APIKeys db)))"

definition TouchLastSeen :: "('s, 'v) APIKeyService \<Rightarrow> int \<Rightarrow> string \<Rightarrow> key_db \<Rightarrow> 's \<Rightarrow> key_db \<times> 's" where
  "TouchLastSeen svc now keyID db s =
     (let touched = db\<lparr>kd_APIKeys := (if kd_err db = None
            then map (\<lambda>ak. if ak_KeyID ak = keyID then ak\<lparr>ak_LastSeenAt := Some now\<rparr> else ak) (kd_APIKeys db)
            else kd_APIKeys db)\<rparr>
      in case ks_cache svc of
           None \<Rightarrow> (touched, s)
         | Some _ \<Rightarrow>
             (case ks_SetNX svc s (''apikey:touch:'' @ keyID) (60 * second_ns) of
                (s', Some True) \<Rightarrow> (touched, s')
              | (s', _) \<Rightarrow> (db, s')))"

section \<open>The middlewares\<close>

datatype 'k gate = Next 'k | Abort int string string

abbreviation "ErrCodeMissingKey \<equiv> ''tg_auth_missing''"
abbreviation "ErrCodeInvalidKey \<equiv> ''tg_auth_invalid''"
abbreviation "ErrCodeExpiredKey \<equiv> ''tg_auth_expired''"
abbreviation "ErrCodeRevokedKey \<equiv> ''tg_auth_revoked''"

definition auth_failure :: "string \<Rightarrow> 'k gate" where
  "auth_failure errStr =
     (if strings_Contains errStr ''expired'' then Abort 401 ErrCodeExpiredKey ''API key has expired.''
      else if strings_Contains errStr ''revoked'' then Abort 401 ErrCodeRevokedKey ''API key has been revoked.''
      else if strings_Contains errStr ''not found'' then Abort 401 ErrCodeInvalidKey ''API key not found.''
      else Abort 401 ErrCodeInvalidKey ''Invalid API key.'')"

text \<open>The values that a middleware puts into the request context are those of the key it hands on.
  \<open>header\<close> is the value of a request header, empty when it is missing. The middlewares start
  \<open>TouchLastSeen\<close> in a goroutine of its own, so that it is a separate step after them.\<close>

definition APIKeyMiddleware :: "('s, 'v) APIKeyService \<Rightarrow> int \<Rightarrow> (string \<Rightarrow> string) \<Rightarrow> key_db \<Rightarrow> 's \<Rightarrow> APIKey gate \<times> 's" where
  "APIKeyMiddleware svc now header db s =
     (let token = strings_TrimSpace (header ''X-TokenGate-Key'')
      in if token = [] then (Abort 401 ErrCodeMissingKey ''X-TokenGate-Key header is required.'', s)
         else (case ValidateKey svc now token db s of
                 (Inl err, s') \<Rightarrow> (auth_failure err, s')
               | (Inr ak, s') \<Rightarrow> (Next ak, s')))"

definition bearer_or_key :: "(string \<Rightarrow> string) \<Rightarrow> string" where
  "bearer_or_key header =
     (let tgKey = strings_TrimSpace (header ''X-TokenGate-Key'')
      in if tgKey = [] \<and> strings_HasPrefix (header ''Authorization'') ''Bearer ''
         then strings_TrimSpace (strings_TrimPrefix (header ''Authorization'') ''Bearer '')
         else tgKey)"

definition TenantAuthMiddleware :: "('s, 'v) APIKeyService \<Rightarrow> string \<Rightarrow> int \<Rightarrow> (string \<Rightarrow> string) \<Rightarrow> key_db \<Rightarrow> 's \<Rightarrow>
    APIKey option gate \<times> 's" where
  "TenantAuthMiddleware svc enableEnv now header db s =
     (if strings_ToLower enableEnv = ''false'' then (Next None, s)
      else
        (let tgKey = bearer_or_key header
         in if tgKey = []
            then (Abort 401 ErrCodeMissingKey
                    ''Authentication required. Provide the X-TokenGate-Key or Authorization: Bearer header.'', s)
            else (case ValidateKey svc now tgKey db s of
                    (Inl err, s') \<Rightarrow> (auth_failure err, s')
                  | (Inr ak, s') \<Rightarrow> (Next (Some ak), s'))))"

definition pathProviderRules :: "(string \<times> string list) list" where
  "pathProviderRules =
     [(''/v1/messages'', [''anthropic'']), (''/v1/models'', [''anthropic'']),
      (''/v1/responses'', [''anthropic'', ''openai'']), (''/v1/openai/'', [''openai'']),
      (''/v1/gemini/'', [''gemini'']), (''/v1/bedrock/'', [''bedrock'']), (''/v1/vertex/'', [''vertex''])]"

definition PathProviderGuard :: "string \<Rightarrow> string \<Rightarrow> unit gate" where
  "PathProviderGuard keyProvider path =
     (if keyProvider = [] then Next ()
      else (case find (\<lambda>(prefix, _). strings_HasPrefix path prefix) pathProviderRules of
              None \<Rightarrow> Next ()
            | Some (_, providers) \<Rightarrow>
                if \<not> List.member providers keyProvider
                then Abort 403 ''tg_provider_mismatch''
                  (''API key provider '' @ [CHR 0x22] @ keyProvider @ [CHR 0x22] @ '' is not allowed for path '' @ path @ ''.'')
                else Next ()))"

section \<open>The service as a state machine\<close>

text \<open>Validation without a cache: the reference that the cached one is compared with.\<close>

definition validate_uncached :: "('s, 'v) APIKeyService \<Rightarrow> int \<Rightarrow> string \<Rightarrow> key_db \<Rightarrow> (string, APIKey) result" where
  "validate_uncached svc now presented db =
     (case splitKey presented of Inl e \<Rightarrow> Inl e | Inr (keyID, secret) \<Rightarrow> validate_row svc now keyID secret db)"

text \<open>What the service relies on of Redis and of the codec.\<close>

definition key_cache_laws :: "('s, 'v) APIKeyService \<Rightarrow> bool" where
  "key_cache_laws svc \<longleftrightarrow>
     (case ks_cache svc of
        None \<Rightarrow> True
      | Some R \<Rightarrow> kv_store R \<and> lossless (ks_codec svc) \<and>
          (\<forall>s k k' ttl. k' \<noteq> k \<longrightarrow> rd_Get R (fst (ks_SetNX svc s k ttl)) k' = rd_Get R s k'))"

text \<open>One call of the service, an entry that expires in Redis, a change of the tenants, or the database
  going down or up.\<close>

inductive key_step :: "('s, 'v) APIKeyService \<Rightarrow> key_db \<times> 's \<Rightarrow> key_db \<times> 's \<Rightarrow> bool" for svc where
  step_create: "CreateKey svc now raw salt uuid newID q db s = (r, db', s') \<Longrightarrow> key_step svc (db, s) (db', s')"
| step_validate: "ValidateKey svc now presented db s = (r, s') \<Longrightarrow> key_step svc (db, s) (db, s')"
| step_revoke: "RevokeKey svc tid keyID db s = (r, db', s') \<Longrightarrow> key_step svc (db, s) (db', s')"
| step_touch: "TouchLastSeen svc now keyID db s = (db', s') \<Longrightarrow> key_step svc (db, s) (db', s')"
| step_expire: "(\<And>k. cache_lookup svc k s' = cache_lookup svc k s \<or> cache_lookup svc k s' = None) \<Longrightarrow>
    key_step svc (db, s) (db, s')"
| step_world: "key_step svc (db, s) (db\<lparr>kd_err := e, kd_Tenants := ts\<rparr>, s)"

definition key_start :: "('s, 'v) APIKeyService \<Rightarrow> key_db \<times> 's \<Rightarrow> bool" where
  "key_start svc st \<longleftrightarrow> key_cache_laws svc \<and> distinct (map ak_KeyID (kd_APIKeys (fst st))) \<and>
     (\<forall>k. cache_lookup svc k (snd st) = None)"

text \<open>Key ids are unique, and every cached row is the row of the database.\<close>

definition key_inv :: "('s, 'v) APIKeyService \<Rightarrow> key_db \<times> 's \<Rightarrow> bool" where
  "key_inv svc st \<longleftrightarrow> key_cache_laws svc \<and> distinct (map ak_KeyID (kd_APIKeys (fst st))) \<and>
     (\<forall>k cd. CHR '':'' \<notin> set k \<longrightarrow> cache_lookup svc k (snd st) = Some cd \<longrightarrow>
        (\<exists>ak \<in> set (kd_APIKeys (fst st)). ak_KeyID ak = k \<and> cd = cache_data ak))"

lemma cache_lookup_cacheKey:
  assumes "key_cache_laws svc"
  shows "cache_lookup svc k (cacheKey svc ak s) =
    (if ks_cache svc \<noteq> None \<and> k = ak_KeyID ak then Some (cache_data ak) else cache_lookup svc k s)"
proof (cases "ks_cache svc")
  case (Some R)
  then have kv: "kv_store R" and cd: "lossless (ks_codec svc)" using assms by (simp_all add: key_cache_laws_def)
  obtain v where "cd_Marshal (ks_codec svc) (cache_data ak) = Some v" "cd_Unmarshal (ks_codec svc) v = Some (cache_data ak)"
    by (rule losslessE [OF cd])
  with Some show ?thesis by (simp add: cache_lookup_def cacheKey_def kv_simps [OF kv])
qed (simp add: cache_lookup_def)

lemma cache_lookup_Del:
  assumes "key_cache_laws svc" "ks_cache svc = Some R"
  shows "cache_lookup svc k (rd_Del R s (''apikey:'' @ k')) = (if k = k' then None else cache_lookup svc k s)"
  using assms kv_simps [of R] by (simp add: cache_lookup_def key_cache_laws_def)

lemma cache_lookup_touch:
  assumes "key_cache_laws svc" "CHR '':'' \<notin> set k" "ks_cache svc \<noteq> None"
  shows "cache_lookup svc k (fst (ks_SetNX svc s (''apikey:touch:'' @ k') ttl)) = cache_lookup svc k s"
proof -
  have "''apikey:'' @ k \<noteq> ''apikey:touch:'' @ k'" using assms(2) by auto
  then show ?thesis using assms(1,3) by (auto simp: cache_lookup_def key_cache_laws_def)
qed

lemma create_key_row_Inr:
  "create_key_row db ak = Inr db' \<longleftrightarrow> kd_err db = None \<and> ak_KeyID ak \<notin> set (map ak_KeyID (kd_APIKeys db)) \<and>
     db' = db\<lparr>kd_APIKeys := kd_APIKeys db @ [ak]\<rparr>"
  by (auto simp: create_key_row_def split: option.split)

text \<open>What a call of \<open>CreateKey\<close> changes, if anything.\<close>

lemma CreateKey_cases:
  assumes "CreateKey svc now raw salt uuid newID q db s = (r, db', s')"
  obtains (fail) e where "r = Inl e" "db' = db" "s' = s"
  | (ok) ak secret sl where "r = Inr (ak_KeyID ak, secret)" "create_key_row db ak = Inr db'" "s' = cacheKey svc ak s"
      "ak_KeyID ak = ''tg_'' @ uuid" "\<not> ak_Revoked ak" "ak_ExpiresAt ak = kq_ExpiresAt q"
      "ak_Salt ak = sl" "ak_SecretHash ak = ks_hmac svc (sl @ secret)"
      "ak_TenantID ak = kq_TenantID q" "ak_ProjectID ak = kq_ProjectID q" "ak_Provider ak = kq_Provider q"
      "ak_AuthMethod ak = kq_AuthMethod q" "ak_BillingMode ak = kq_BillingMode q"
  using assms unfolding CreateKey_def Let_def
  by (auto split: if_splits sum.splits option.splits; blast?)

lemma validate_row_Inr:
  "validate_row svc now keyID secret db = Inr ak \<longleftrightarrow>
     db_first (kd_err db \<noteq> None) (\<lambda>ak. ak_KeyID ak = keyID) (kd_APIKeys db) = Inr ak \<and> \<not> ak_Revoked ak \<and>
     \<not> expired now (ak_ExpiresAt ak) \<and> verifySecret svc (ak_Salt ak) (ak_SecretHash ak) secret"
  by (auto simp: validate_row_def split: sum.split db_error.split)

lemma validate_row_member:
  "validate_row svc now keyID secret db = Inr ak \<Longrightarrow> ak \<in> set (kd_APIKeys db) \<and> ak_KeyID ak = keyID"
  using find_SomeD by (fastforce simp: validate_row_Inr db_first_Inr)

lemma ValidateKey_cache:
  assumes "ValidateKey svc now presented db s = (r, s')"
  obtains "s' = s" | ak where "s' = cacheKey svc ak s" "ak \<in> set (kd_APIKeys db)"
  using assms unfolding ValidateKey_def
  by (auto split: sum.splits option.splits prod.splits dest: validate_row_member [OF sym])

lemma key_inv_update:
  assumes "key_inv svc (db, s)" "map ak_KeyID (map f (kd_APIKeys db)) = map ak_KeyID (kd_APIKeys db)"
    "\<And>ak. ak \<in> set (kd_APIKeys db) \<Longrightarrow> CHR '':'' \<notin> set (ak_KeyID ak) \<Longrightarrow> cache_lookup svc (ak_KeyID ak) s' \<noteq> None \<Longrightarrow>
       cache_data (f ak) = cache_data ak \<and> ak_KeyID (f ak) = ak_KeyID ak"
    "\<And>k. CHR '':'' \<notin> set k \<Longrightarrow> cache_lookup svc k s' = cache_lookup svc k s \<or> cache_lookup svc k s' = None"
    "kd_APIKeys db' = map f (kd_APIKeys db)"
  shows "key_inv svc (db', s')"
proof -
  have "\<exists>ak \<in> set (map f (kd_APIKeys db)). ak_KeyID ak = k \<and> cd = cache_data ak"
    if k: "CHR '':'' \<notin> set k" "cache_lookup svc k s' = Some cd" for k cd
  proof -
    have "cache_lookup svc k s = Some cd" using assms(4) [OF k(1)] k(2) by auto
    then obtain ak where ak: "ak \<in> set (kd_APIKeys db)" "ak_KeyID ak = k" "cd = cache_data ak"
      using assms(1) k(1) by (auto simp: key_inv_def)
    then have "cache_data (f ak) = cache_data ak \<and> ak_KeyID (f ak) = ak_KeyID ak" using assms(3) [OF ak(1)] k by auto
    then show ?thesis using ak by (intro bexI [of _ "f ak"]) auto
  qed
  moreover have "distinct (map ak_KeyID (kd_APIKeys db'))"
    unfolding assms(5) assms(2) using assms(1) by (simp add: key_inv_def)
  ultimately show ?thesis using assms(1,5) by (simp add: key_inv_def)
qed

lemma key_inv_cacheKey:
  assumes "key_inv svc (db, s)" "ak \<in> set (kd_APIKeys db)"
  shows "key_inv svc (db, cacheKey svc ak s)"
  using assms by (auto simp: key_inv_def cache_lookup_cacheKey split: if_splits)

lemma key_inv_create:
  assumes "key_inv svc (db, s)" "create_key_row db ak = Inr db'"
  shows "key_inv svc (db', cacheKey svc ak s)"
proof -
  have "key_inv svc (db', s)" using assms by (fastforce simp: key_inv_def create_key_row_Inr)
  then show ?thesis using assms(2) by (intro key_inv_cacheKey) (simp_all add: create_key_row_Inr)
qed

lemma key_inv_revoke:
  assumes "key_inv svc (db, s)" "RevokeKey svc tid keyID db s = (r, db', s')"
  shows "key_inv svc (db', s')"
proof (cases "r = None")
  case True
  let ?f = "\<lambda>ak. if ak_KeyID ak = keyID \<and> ak_TenantID ak = tid then ak\<lparr>ak_Revoked := True\<rparr> else ak"
  have rows: "kd_APIKeys db' = map ?f (kd_APIKeys db)"
    and s': "s' = (case ks_cache svc of None \<Rightarrow> s | Some R \<Rightarrow> rd_Del R s (''apikey:'' @ keyID))"
    using assms(2) True by (auto simp: RevokeKey_def Let_def split: option.splits if_splits)
  have laws: "key_cache_laws svc" using assms(1) by (simp add: key_inv_def)
  have look: "cache_lookup svc k s' = (if k = keyID then None else cache_lookup svc k s)" for k
    using cache_lookup_Del [OF laws] s' by (cases "ks_cache svc") (simp_all add: cache_lookup_def)
  show ?thesis by (rule key_inv_update [OF assms(1) _ _ _ rows]) (auto simp: look)
next
  case False
  then have "db' = db" "s' = s" using assms(2) by (auto simp: RevokeKey_def Let_def split: option.splits if_splits)
  then show ?thesis using assms(1) by simp
qed

lemma key_inv_touch:
  assumes "key_inv svc (db, s)" "TouchLastSeen svc now keyID db s = (db', s')"
  shows "key_inv svc (db', s')"
proof -
  let ?f = "\<lambda>ak. if ak_KeyID ak = keyID then ak\<lparr>ak_LastSeenAt := Some now\<rparr> else ak"
  have laws: "key_cache_laws svc" using assms(1) by (simp add: key_inv_def)
  have look: "cache_lookup svc k s' = cache_lookup svc k s" if "CHR '':'' \<notin> set k" for k
    using assms(2) cache_lookup_touch [OF laws that, of s keyID "60 * second_ns"]
    by (auto simp: TouchLastSeen_def Let_def split: option.splits prod.splits bool.splits)
  have "kd_APIKeys db' = map ?f (kd_APIKeys db) \<or> kd_APIKeys db' = map (\<lambda>x. x) (kd_APIKeys db)"
    using assms(2) by (auto simp: TouchLastSeen_def Let_def split: option.splits prod.splits bool.splits)
  then show ?thesis
  proof
    assume "kd_APIKeys db' = map ?f (kd_APIKeys db)"
    then show ?thesis by (rule key_inv_update [OF assms(1), rotated 3]) (auto simp: look cache_data_def)
  next
    assume "kd_APIKeys db' = map (\<lambda>x. x) (kd_APIKeys db)"
    then show ?thesis by (rule key_inv_update [OF assms(1), rotated 3]) (auto simp: look)
  qed
qed

lemma key_inv_step: "key_step svc st st' \<Longrightarrow> key_inv svc st \<Longrightarrow> key_inv svc st'"
proof (induction rule: key_step.induct)
  case (step_create now raw salt uuid newID q db s r db' s')
  from step_create(1) show ?case
    by (cases rule: CreateKey_cases) (use step_create key_inv_create in auto)
next
  case (step_validate now presented db s r s')
  from step_validate(1) show ?case by (cases rule: ValidateKey_cache) (use step_validate key_inv_cacheKey in auto)
next
  case (step_revoke tid keyID db s r db' s')
  show ?case by (rule key_inv_revoke [OF step_revoke(2,1)])
next
  case (step_touch now keyID db s db' s')
  show ?case by (rule key_inv_touch [OF step_touch(2,1)])
next
  case (step_expire s' s db)
  show ?case by (rule key_inv_update [where f = "\<lambda>x. x", of svc db s]) (use step_expire in auto)
next
  case (step_world db s e ts)
  then show ?case by (simp add: key_inv_def)
qed

interpretation keys: inductive_invariant "key_start svc" "key_step svc" "key_inv svc" for svc
  by unfold_locales (simp add: key_start_def key_inv_def, rule key_inv_step)

section \<open>Properties\<close>

lemma tg_no_colon: "CHR '':'' \<notin> set ''tg_''"
  by simp

lemma splitKey_append: "CHR '':'' \<notin> set k \<Longrightarrow> splitKey (k @ CHR '':'' # secret) = Inr (k, secret)"
  unfolding splitKey_def by (induction k) auto






lemma created_key_accepted:
  assumes "key_cache_laws svc" and "CHR '':'' \<notin> set uuid"
    and "CreateKey svc now raw salt uuid newID q db s = (Inr (kid, secret), db', s')"
    and "\<not> expired now' (kq_ExpiresAt q)"
  shows "\<exists>ak. fst (ValidateKey svc now' (kid @ CHR '':'' # secret) db' s') = Inr ak \<and> ak_KeyID ak = kid \<and>
    ak_TenantID ak = kq_TenantID q \<and> ak_ProjectID ak = kq_ProjectID q \<and> ak_Provider ak = kq_Provider q \<and>
    ak_AuthMethod ak = kq_AuthMethod q \<and> ak_BillingMode ak = kq_BillingMode q"
  using assms(3)
proof (cases rule: CreateKey_cases)
  case (ok ak secret' sl)
  have kid: "kid = ak_KeyID ak" "secret' = secret" using ok(1) by simp_all
  then have split: "splitKey (kid @ CHR '':'' # secret) = Inr (ak_KeyID ak, secret)"
    using assms(2) ok(4) by (metis Un_iff splitKey_append set_append tg_no_colon)
  have sec: "verifySecret svc (ak_Salt ak) (ak_SecretHash ak) secret" using ok(7,8) kid by (simp add: verifySecret_def)
  show ?thesis
  proof (cases "ks_cache svc")
    case None
    have "find (\<lambda>x. ak_KeyID x = ak_KeyID ak) (kd_APIKeys db @ [ak]) = Some ak"
      using ok(2) by (intro find_fresh_key) (simp_all add: create_key_row_Inr)
    then have "validate_row svc now' (ak_KeyID ak) secret db' = Inr ak"
      using ok(2,5,6) sec assms(4) by (simp add: validate_row_Inr db_first_def create_key_row_Inr)
    then show ?thesis using split None ok kid by (simp add: ValidateKey_def cache_lookup_def)
  next
    case (Some R)
    then have "cache_lookup svc (ak_KeyID ak) s' = Some (cache_data ak)"
      using ok(3) cache_lookup_cacheKey [OF assms(1)] by simp
    then show ?thesis using split ok sec assms(4) kid
      by (simp add: ValidateKey_def validate_cached_def cache_data_def)
  qed
qed simp

text \<open>C17: A new key works: the id and the secret that \<open>CreateKey\<close> returns, joined by a colon, are accepted
  by \<open>ValidateKey\<close> until the key expires, with the tenant, project, provider and billing mode it was
  created for.\<close>

theorem create_then_validate:
  assumes "key_cache_laws svc" and "CHR '':'' \<notin> set uuid"
    and "CreateKey svc now raw salt uuid newID q db s = (Inr (kid, secret), db', s')"
    and "\<not> expired now' (kq_ExpiresAt q)"
  shows "\<exists>ak. fst (ValidateKey svc now' (kid @ CHR '':'' # secret) db' s') = Inr ak \<and> ak_KeyID ak = kid \<and>
    ak_TenantID ak = kq_TenantID q \<and> ak_ProjectID ak = kq_ProjectID q \<and> ak_Provider ak = kq_Provider q \<and>
    ak_AuthMethod ak = kq_AuthMethod q \<and> ak_BillingMode ak = kq_BillingMode q"
  using assms by (rule created_key_accepted)

definition revoked_row :: "string \<Rightarrow> key_db \<Rightarrow> bool" where
  "revoked_row k db \<longleftrightarrow> (\<exists>ak \<in> set (kd_APIKeys db). ak_KeyID ak = k \<and> ak_Revoked ak)"

lemma RevokeKey_None:
  assumes "RevokeKey svc tid keyID db s = (None, db', s')"
  shows "kd_APIKeys db' = map (\<lambda>ak. if ak_KeyID ak = keyID \<and> ak_TenantID ak = tid then ak\<lparr>ak_Revoked := True\<rparr> else ak) (kd_APIKeys db)"
    "kd_err db' = None" "\<exists>ak \<in> set (kd_APIKeys db). ak_KeyID ak = keyID \<and> ak_TenantID ak = tid"
    "s' = (case ks_cache svc of None \<Rightarrow> s | Some R \<Rightarrow> rd_Del R s (''apikey:'' @ keyID))"
  using assms by (auto simp: RevokeKey_def Let_def list_ex_iff split: option.splits if_splits)

lemma revoked_row_map:
  "revoked_row k db \<Longrightarrow> kd_APIKeys db' = map f (kd_APIKeys db) \<Longrightarrow>
   (\<And>ak. ak_KeyID (f ak) = ak_KeyID ak \<and> (ak_Revoked ak \<longrightarrow> ak_Revoked (f ak))) \<Longrightarrow> revoked_row k db'"
  unfolding revoked_row_def by fastforce

text \<open>No call of the service makes a revoked key usable again.\<close>

lemma revoked_row_step: "key_step svc st st' \<Longrightarrow> revoked_row k (fst st) \<Longrightarrow> revoked_row k (fst st')"
proof (induction rule: key_step.induct)
  case (step_create now raw salt uuid newID q db s r db' s')
  from step_create(1) show ?case
    by (cases rule: CreateKey_cases) (use step_create in \<open>auto simp: revoked_row_def create_key_row_Inr\<close>)
next
  case (step_revoke tid keyID db s r db' s')
  show ?case
  proof (cases r)
    case None
    from revoked_row_map [OF _ RevokeKey_None(1) [OF step_revoke(1) [unfolded None]]] step_revoke(2)
    show ?thesis by simp
  next
    case (Some e)
    then have "db' = db" using step_revoke(1) by (auto simp: RevokeKey_def Let_def split: option.splits if_splits)
    then show ?thesis using step_revoke(2) by simp
  qed
next
  case (step_touch now keyID db s db' s')
  let ?f = "\<lambda>ak. if ak_KeyID ak = keyID then ak\<lparr>ak_LastSeenAt := Some now\<rparr> else ak"
  have "kd_APIKeys db' = map ?f (kd_APIKeys db) \<or> kd_APIKeys db' = map (\<lambda>x. x) (kd_APIKeys db)"
    using step_touch(1) by (auto simp: TouchLastSeen_def Let_def split: option.splits prod.splits bool.splits)
  then show ?case using revoked_row_map [of k db db' ?f] revoked_row_map [of k db db' "\<lambda>x. x"] step_touch(2) by auto
qed (auto simp: revoked_row_def)

lemma revoked_rejected:
  assumes "key_inv svc (db, s)" "revoked_row k db" "CHR '':'' \<notin> set k"
  shows "fst (ValidateKey svc now (k @ CHR '':'' # secret) db s) \<noteq> Inr ak"
proof -
  obtain row where row: "row \<in> set (kd_APIKeys db)" "ak_KeyID row = k" "ak_Revoked row"
    using assms(2) by (auto simp: revoked_row_def)
  have d: "distinct (map ak_KeyID (kd_APIKeys db))" using assms(1) by (simp add: key_inv_def)
  have only: "ak' = row" if "ak' \<in> set (kd_APIKeys db)" "ak_KeyID ak' = k" for ak'
    using d that row by (metis distinct_map inj_onD)
  show ?thesis
  proof (cases "cache_lookup svc k s")
    case (Some cd)
    then have "cd = cache_data row" using assms(1,3) only by (auto simp: key_inv_def)
    then show ?thesis
      using Some row(3) by (simp add: ValidateKey_def splitKey_append [OF assms(3)] validate_cached_def cache_data_def)
  next
    case None
    have "validate_row svc now k secret db \<noteq> Inr ak'" for ak'
      using validate_row_member [of svc now k secret db ak'] only row(3) by (auto simp: validate_row_Inr)
    then show ?thesis
      using None by (cases "validate_row svc now k secret db") (auto simp: ValidateKey_def splitKey_append [OF assms(3)])
  qed
qed

text \<open>C18: Revocation is immediate and final: after \<open>RevokeKey\<close> has succeeded, and after any calls that follow
  it one after another, no secret makes the key pass \<open>ValidateKey\<close> again, cached or not.\<close>

theorem revocation_final:
  assumes "reachable (key_start svc) (key_step svc) (db, s)" and "CHR '':'' \<notin> set keyID"
    and "RevokeKey svc tid keyID db s = (None, db1, s1)"
    and "reachable (\<lambda>st. st = (db1, s1)) (key_step svc) (db2, s2)"
  shows "fst (ValidateKey svc now (keyID @ CHR '':'' # secret) db2 s2) \<noteq> Inr ak"
proof -
  have inv: "key_inv svc (db1, s1)"
    using key_inv_step [OF step_revoke [OF assms(3)]] keys.holds_when_reachable [OF assms(1)] by blast
  obtain ak0 where "ak0 \<in> set (kd_APIKeys db)" "ak_KeyID ak0 = keyID" "ak_TenantID ak0 = tid"
    using RevokeKey_None(3) [OF assms(3)] by blast
  then have "revoked_row keyID db1"
    unfolding revoked_row_def RevokeKey_None(1) [OF assms(3)] by (intro bexI [of _ "ak0\<lparr>ak_Revoked := True\<rparr>"]) auto
  note revoked = this
  have "key_inv svc st \<and> revoked_row keyID (fst st)" if "reachable (\<lambda>st. st = (db1, s1)) (key_step svc) st" for st
    using that
    by (induction rule: reachable.induct) (use inv revoked in \<open>auto intro: key_inv_step revoked_row_step\<close>)
  from this [OF assms(4)] show ?thesis using revoked_rejected [of svc db2 s2 keyID] assms(2) by simp
qed

text \<open>Two calls that overlap defeat the revocation: when \<open>ValidateKey\<close> has read the row before
  \<open>RevokeKey\<close> runs and writes its cache entry after it, the key is accepted from the cache although the
  database has it revoked.\<close>

theorem revoke_validate_race:
  assumes "key_cache_laws svc" and "ks_cache svc \<noteq> None" and "CHR '':'' \<notin> set keyID"
    and "validate_row svc now keyID secret db = Inr ak"
    and "RevokeKey svc (ak_TenantID ak) keyID db s = (None, db', s')" and "\<not> expired now' (ak_ExpiresAt ak)"
  shows "validate_uncached svc now' (keyID @ CHR '':'' # secret) db' = Inl ''key revoked'' \<and>
    (\<exists>ak'. fst (ValidateKey svc now' (keyID @ CHR '':'' # secret) db' (cacheKey svc ak s')) = Inr ak')"
proof
  let ?f = "\<lambda>x. if ak_KeyID x = keyID \<and> ak_TenantID x = ak_TenantID ak then x\<lparr>ak_Revoked := True\<rparr> else x"
  have ak: "find (\<lambda>x. ak_KeyID x = keyID) (kd_APIKeys db) = Some ak" "ak_KeyID ak = keyID" "\<not> ak_Revoked ak"
    "verifySecret svc (ak_Salt ak) (ak_SecretHash ak) secret"
    using assms(4) validate_row_member [OF assms(4)] by (simp_all add: validate_row_Inr db_first_Inr)
  have "find (\<lambda>x. ak_KeyID x = keyID) (map ?f xs) = map_option ?f (find (\<lambda>x. ak_KeyID x = keyID) xs)"
    for xs :: "APIKey list" by (rule find_map_if) simp
  then have "find (\<lambda>x. ak_KeyID x = keyID) (kd_APIKeys db') = Some (ak\<lparr>ak_Revoked := True\<rparr>)"
    using ak(1,2) unfolding RevokeKey_None(1) [OF assms(5)] by simp
  then show "validate_uncached svc now' (keyID @ CHR '':'' # secret) db' = Inl ''key revoked''"
    using RevokeKey_None(2) [OF assms(5)]
    by (simp add: validate_uncached_def splitKey_append [OF assms(3)] validate_row_def db_first_def)
  have "cache_lookup svc keyID (cacheKey svc ak s') = Some (cache_data ak)"
    using cache_lookup_cacheKey [OF assms(1)] assms(2) ak(2) by simp
  then show "\<exists>ak'. fst (ValidateKey svc now' (keyID @ CHR '':'' # secret) db' (cacheKey svc ak s')) = Inr ak'"
    using ak(3,4) assms(6) by (simp add: ValidateKey_def splitKey_append [OF assms(3)] validate_cached_def cache_data_def)
qed

text \<open>The cache drops the model allowlist: a key created with a non-empty allowlist is validated from
  the cache with no allowlist at all, which means that every model is allowed, while the database has
  the restriction.\<close>

theorem cached_key_loses_allowlist:
  assumes "key_cache_laws svc" and "ks_cache svc \<noteq> None" and "CHR '':'' \<notin> set uuid"
    and "CreateKey svc now raw salt uuid newID q db s = (Inr (kid, secret), db', s')"
    and "kq_ModelAllowlist q \<noteq> []"
    and "fst (ValidateKey svc now' (kid @ CHR '':'' # secret) db' s') = Inr ak"
  shows "ak_ModelAllowlist ak = None \<and>
    (\<exists>row \<in> set (kd_APIKeys db'). ak_KeyID row = kid \<and> ak_ModelAllowlist row = Some (ks_marshal_list svc (kq_ModelAllowlist q)))"
proof
  from assms(4) show "ak_ModelAllowlist ak = None"
  proof (cases rule: CreateKey_cases)
    case (ok row secret' sl)
    have kid: "kid = ak_KeyID row" using ok(1) by simp
    have "splitKey (kid @ CHR '':'' # secret) = Inr (kid, secret)"
      using assms(3) ok(4) kid by (metis Un_iff splitKey_append set_append tg_no_colon)
    moreover have "cache_lookup svc kid s' = Some (cache_data row)"
      using ok(3) cache_lookup_cacheKey [OF assms(1)] assms(2) kid by simp
    ultimately show ?thesis using assms(6) by (auto simp: ValidateKey_def validate_cached_def Let_def split: if_splits)
  qed simp
  show "\<exists>row \<in> set (kd_APIKeys db'). ak_KeyID row = kid \<and> ak_ModelAllowlist row = Some (ks_marshal_list svc (kq_ModelAllowlist q))"
    using assms(4,5) unfolding CreateKey_def Let_def
    by (auto simp: create_key_row_Inr split: if_splits sum.splits option.splits)
qed

section \<open>A concrete service\<close>

definition demo_svc :: "(string \<Rightarrow> apiKeyCacheData option, apiKeyCacheData) APIKeyService" where
  "demo_svc = \<lparr>ks_hmac = rev, ks_cache = Some kv_redis, ks_codec = id_codec, ks_SetNX = (\<lambda>s k ttl. (s, Some True)),
     ks_cacheTTL = 300, ks_marshal_list = concat\<rparr>"

definition demo_tenant :: Tenant where
  "demo_tenant = \<lparr>ten_ID = 7, ten_Name = ''t'', ten_Status = StatusActive, ten_Plan = PlanFree,
     ten_DefaultProjectID = None, ten_StripeCustomerID = [], ten_StripeSubscriptionID = [], ten_PlanStatus = ''active'',
     ten_CurrentPeriodEnd = None, ten_BillingEmail = [], ten_PendingPlan = [], ten_PlanEffectiveAt = None,
     ten_CreatedAt = 0\<rparr>"

definition demo_key_db :: key_db where
  "demo_key_db = \<lparr>kd_err = None, kd_Tenants = [demo_tenant], kd_APIKeys = [], kd_APIKeyConfigs = []\<rparr>"

definition demo_request :: key_request where
  "demo_request = \<lparr>kq_TenantID = 7, kq_Label = ''ci'', kq_Scopes = [], kq_ExpiresAt = Some 100,
     kq_Provider = ''anthropic'', kq_AuthMethod = AuthMethodBYOK, kq_BillingMode = BillingModeAPIUsage,
     kq_ProjectID = 3, kq_CreatedByUserID = ''u'', kq_ModelAllowlist = [''haiku'']\<rparr>"

definition demo_key :: APIKey where
  "demo_key = \<lparr>ak_ID = 5, ak_TenantID = 7, ak_ProjectID = 3, ak_KeyID = ''tg_x'', ak_Label = ''ci'', ak_Salt = ''s'',
     ak_SecretHash = rev (''s'' @ ''YWI''), ak_Scopes = [], ak_Provider = ''anthropic'', ak_AuthMethod = AuthMethodBYOK,
     ak_BillingMode = BillingModeAPIUsage, ak_ModelAllowlist = Some ''haiku'', ak_CreatedByUserID = ''u'',
     ak_Revoked = False, ak_ExpiresAt = Some 100, ak_LastSeenAt = None, ak_CreatedAt = 10\<rparr>"

lemma demo_laws: "key_cache_laws demo_svc"
  by (simp add: key_cache_laws_def demo_svc_def kv_redis_laws id_codec_lossless)

lemma demo_secret: "RawURLEncoding_EncodeToString ''ab'' = ''YWI''"
  by (simp add: RawURLEncoding_EncodeToString_def url_alphabet_def)

lemma demo_create:
  "CreateKey demo_svc 10 (Some ''ab'') (Some ''s'') ''x'' 5 demo_request demo_key_db Map.empty =
     (Inr (''tg_x'', ''YWI''), demo_key_db\<lparr>kd_APIKeys := [demo_key]\<rparr>, cacheKey demo_svc demo_key Map.empty)"
  by (simp add: CreateKey_def Let_def demo_request_def ValidAuthBillingCombo_def db_first_def demo_key_db_def demo_tenant_def
      db_find_def GetPlanLimits_def planLimitsMap_def free_limits_def demo_secret create_key_row_def demo_key_def
      demo_svc_def)

lemma demo_start: "key_start demo_svc (demo_key_db, Map.empty)"
  by (simp add: key_start_def demo_laws) (simp add: demo_key_db_def cache_lookup_def demo_svc_def kv_redis_def)

lemma demo_reachable:
  "reachable (key_start demo_svc) (key_step demo_svc)
     (demo_key_db\<lparr>kd_APIKeys := [demo_key]\<rparr>, cacheKey demo_svc demo_key Map.empty)"
  by (rule reachable_step [OF reachable_start, where s = "(demo_key_db, Map.empty)"], rule demo_start,
      rule step_create [OF demo_create])


theorem create_then_validate_witness:
  "\<exists>ak. fst (ValidateKey demo_svc 20 ''tg_x:YWI'' (demo_key_db\<lparr>kd_APIKeys := [demo_key]\<rparr>)
      (cacheKey demo_svc demo_key Map.empty)) = Inr ak \<and> ak_TenantID ak = 7"
  using create_then_validate [OF demo_laws _ demo_create, of 20] by (auto simp: expired_def demo_request_def)

theorem revocation_final_witness:
  "fst (ValidateKey demo_svc 20 ''tg_x:YWI'' (fst (snd (RevokeKey demo_svc 7 ''tg_x'' (demo_key_db\<lparr>kd_APIKeys := [demo_key]\<rparr>)
      (cacheKey demo_svc demo_key Map.empty)))) (snd (snd (RevokeKey demo_svc 7 ''tg_x''
      (demo_key_db\<lparr>kd_APIKeys := [demo_key]\<rparr>) (cacheKey demo_svc demo_key Map.empty))))) \<noteq> Inr demo_key"
proof -
  obtain db1 s1 where r: "RevokeKey demo_svc 7 ''tg_x'' (demo_key_db\<lparr>kd_APIKeys := [demo_key]\<rparr>)
      (cacheKey demo_svc demo_key Map.empty) = (None, db1, s1)"
    by (auto simp: RevokeKey_def demo_key_db_def demo_key_def)
  show ?thesis
    using revocation_final [OF demo_reachable _ r, of db1 s1 20 "''YWI''" demo_key] r by (simp add: reachable_start)
qed

theorem revoke_validate_race_witness:
  "\<exists>db' s' ak'. RevokeKey demo_svc 7 ''tg_x'' (demo_key_db\<lparr>kd_APIKeys := [demo_key]\<rparr>) Map.empty = (None, db', s') \<and>
     fst (ValidateKey demo_svc 20 ''tg_x:YWI'' db' (cacheKey demo_svc demo_key s')) = Inr ak'"
proof -
  obtain db' s' where r: "RevokeKey demo_svc (ak_TenantID demo_key) ''tg_x'' (demo_key_db\<lparr>kd_APIKeys := [demo_key]\<rparr>)
      Map.empty = (None, db', s')"
    by (auto simp: RevokeKey_def demo_key_db_def demo_key_def)
  have v: "validate_row demo_svc 15 ''tg_x'' ''YWI'' (demo_key_db\<lparr>kd_APIKeys := [demo_key]\<rparr>) = Inr demo_key"
    by (simp add: validate_row_def db_first_def demo_key_db_def demo_key_def expired_def verifySecret_def demo_svc_def)
  have "ks_cache demo_svc \<noteq> None" "\<not> expired 20 (ak_ExpiresAt demo_key)" "CHR '':'' \<notin> set ''tg_x''"
    "ak_TenantID demo_key = 7" by (simp_all add: demo_svc_def expired_def demo_key_def)
  then show ?thesis using revoke_validate_race [OF demo_laws _ _ v r, of 20] r by auto
qed

theorem cached_key_loses_allowlist_witness:
  "\<exists>ak. fst (ValidateKey demo_svc 20 ''tg_x:YWI'' (demo_key_db\<lparr>kd_APIKeys := [demo_key]\<rparr>)
      (cacheKey demo_svc demo_key Map.empty)) = Inr ak \<and> ak_ModelAllowlist ak = None"
proof -
  have "CHR '':'' \<notin> set ''x''" "\<not> expired 20 (kq_ExpiresAt demo_request)" by (simp_all add: expired_def demo_request_def)
  then obtain ak where ak: "fst (ValidateKey demo_svc 20 (''tg_x'' @ CHR '':'' # ''YWI'') (demo_key_db\<lparr>kd_APIKeys := [demo_key]\<rparr>)
      (cacheKey demo_svc demo_key Map.empty)) = Inr ak"
    using created_key_accepted [OF demo_laws _ demo_create, of 20] by blast
  have "ks_cache demo_svc \<noteq> None" "kq_ModelAllowlist demo_request \<noteq> []" by (simp_all add: demo_svc_def demo_request_def)
  then show ?thesis using cached_key_loses_allowlist [OF demo_laws _ _ demo_create _ ak] ak by simp
qed

end
