(* ===== verification/Signup.thy ===== *)
theory Signup
  imports Members APIKeys "HOL-Library.Monad_Syntax"
begin

text \<open>
  How tenants and users come into being and go: the synchronization of a signed-in user (\<open>api/auth.go\<close>) and the deletion of
  the account (\<open>api/account.go\<close>).

  A transaction is a computation in the option monad on the state, None is its rollback; the error of a statement whose result
  the code ignores inside a transaction aborts it all the same.
\<close>

section \<open>Synchronization of a user\<close>

record authSyncReq =
  as_ClerkUserID :: string
  as_Email :: string
  as_FirstName :: string
  as_LastName :: string

record sync_view =
  sv_UserID :: string
  sv_Email :: string
  sv_Name :: string
  sv_Status :: string
  sv_IsNew :: bool
  sv_HasKeys :: bool
  sv_Memberships :: "(nat \<times> string \<times> string) list"

datatype sync_reply = SyncError int string | SyncOK int sync_view

definition loadMemberships :: "org_env \<Rightarrow> org_db \<Rightarrow> string \<Rightarrow> (nat \<times> string \<times> string) list" where
  "loadMemberships env st userID =
     (if oe_fault env 20 then []
      else concat (map (\<lambda>m. map (\<lambda>t. (tm_TenantID m, ten_Name t, tm_OrgRole m))
                              (filter (\<lambda>t. ten_ID t = tm_TenantID m) (db_tenants st)))
                   (filter (\<lambda>m. tm_UserID m = userID \<and> tm_Status m = StatusActive) (db_memberships st))))"

definition tenantHasAPIKeys :: "org_env \<Rightarrow> org_db \<Rightarrow> string \<Rightarrow> bool" where
  "tenantHasAPIKeys env st userID =
     (0 < db_count (oe_fault env 21) (\<lambda>k. \<not> ak_Revoked k \<and>
        list_ex (\<lambda>m. tm_TenantID m = ak_TenantID k \<and> tm_UserID m = userID \<and> tm_Status m = StatusActive) (db_memberships st)) (db_keys st))"

definition sync_ok :: "org_env \<Rightarrow> int \<Rightarrow> string \<Rightarrow> string \<Rightarrow> string \<Rightarrow> string \<Rightarrow> bool \<Rightarrow> org_db \<Rightarrow> sync_reply" where
  "sync_ok env code userID email name status isNew st = SyncOK code
     \<lparr>sv_UserID = userID, sv_Email = email, sv_Name = name, sv_Status = status, sv_IsNew = isNew,
       sv_HasKeys = (code \<noteq> 201 \<and> tenantHasAPIKeys env st userID), sv_Memberships = loadMemberships env st userID\<rparr>"

definition sync_name :: "authSyncReq \<Rightarrow> string" where
  "sync_name q =
     (let name = as_FirstName q @ (if as_LastName q \<noteq> [] then CHR '' '' # as_LastName q else [])
      in if name = [] \<or> name = '' '' then as_Email q else name)"

definition stmt :: "bool \<Rightarrow> org_db option \<Rightarrow> org_db option" where
  "stmt fails r = (if fails then None else r)"

text \<open>The workspace of a new user: a tenant on the free plan with a default project, and its owner.\<close>

definition personal_tenant :: "org_env \<Rightarrow> string \<Rightarrow> Tenant" where
  "personal_tenant env name = \<lparr>ten_ID = oe_newID env 0, ten_Name = name @ [CHR 0x27] @ ''s Workspace'', ten_Status = StatusActive,
     ten_Plan = PlanFree, ten_DefaultProjectID = None, ten_StripeCustomerID = [], ten_StripeSubscriptionID = [],
     ten_PlanStatus = ''active'', ten_CurrentPeriodEnd = None, ten_BillingEmail = [], ten_PendingPlan = [],
     ten_PlanEffectiveAt = None, ten_CreatedAt = oe_now env\<rparr>"

definition create_workspace :: "org_env \<Rightarrow> string \<Rightarrow> org_db \<Rightarrow> org_db option" where
  "create_workspace env name st = do {
     st1 \<leftarrow> stmt (oe_fault env 10) (insert_tenant (personal_tenant env name) st);
     st2 \<leftarrow> stmt (oe_fault env 11) (insert_project \<lparr>pj_ID = oe_newID env 1, pj_TenantID = oe_newID env 0, pj_Name = ''Default'',
       pj_Description = [], pj_Status = ProjectStatusActive, pj_CreatedAt = oe_now env, pj_UpdatedAt = oe_now env\<rparr> st1);
     stmt (oe_fault env 12) (Some (update_tenant_row (oe_newID env 0) (\<lambda>t. t\<lparr>ten_DefaultProjectID := Some (oe_newID env 1)\<rparr>) st2))
   }"

definition own_workspace :: "org_env \<Rightarrow> string \<Rightarrow> org_db \<Rightarrow> org_db option" where
  "own_workspace env userID st = do {
     st1 \<leftarrow> stmt (oe_fault env 13) (insert_member \<lparr>tm_TenantID = oe_newID env 0, tm_UserID = userID, tm_OrgRole = RoleOwner,
       tm_Status = StatusActive, tm_CreatedAt = oe_now env, tm_UpdatedAt = oe_now env\<rparr> st);
     stmt (oe_fault env 14) (insert_pmember \<lparr>pm_ProjectID = oe_newID env 1, pm_UserID = userID, pm_ProjectRole = ProjectRoleAdmin,
       pm_CreatedAt = oe_now env, pm_UpdatedAt = oe_now env\<rparr> st1)
   }"

definition new_user :: "org_env \<Rightarrow> authSyncReq \<Rightarrow> User" where
  "new_user env q = \<lparr>usr_ID = as_ClerkUserID q, usr_Email = as_Email q, usr_Name = sync_name q, usr_Status = StatusActive,
     usr_DismissedIntegrationHint = False, usr_DismissedAvatarHint = False, usr_CreatedAt = oe_now env\<rparr>"

text \<open>\<open>UPDATE ... SET user_id\<close> on rows with a primary key: it fails as a whole when a row of that key exists already.\<close>

definition move_members :: "(TenantMembership \<Rightarrow> bool) \<Rightarrow> string \<Rightarrow> (TenantMembership \<Rightarrow> TenantMembership) \<Rightarrow> org_db \<Rightarrow> org_db option" where
  "move_members P newID f st =
     (if list_ex (\<lambda>m. P m \<and> list_ex (\<lambda>n. \<not> P n \<and> is_member (tm_TenantID m) newID n) (db_memberships st)) (db_memberships st) then None
      else Some (update_members P (\<lambda>m. (f m)\<lparr>tm_UserID := newID\<rparr>) st))"

definition move_pmembers :: "string \<Rightarrow> string \<Rightarrow> int \<Rightarrow> org_db \<Rightarrow> org_db option" where
  "move_pmembers oldID newID now st =
     (if list_ex (\<lambda>m. pm_UserID m = oldID \<and> oldID \<noteq> newID \<and> list_ex (is_pmember (pm_ProjectID m) newID) (db_project_memberships st))
           (db_project_memberships st) then None
      else Some (st\<lparr>db_project_memberships := map (\<lambda>m. if pm_UserID m = oldID
             then m\<lparr>pm_UserID := newID, pm_UpdatedAt := now\<rparr> else m) (db_project_memberships st)\<rparr>))"

text \<open>The transaction that turns the placeholder of an invited user into the user.\<close>

definition activate_invited :: "org_env \<Rightarrow> authSyncReq \<Rightarrow> string \<Rightarrow> org_db \<Rightarrow> org_db option" where
  "activate_invited env q oldID st = do {
     st1 \<leftarrow> stmt (oe_fault env 5) (Some (st\<lparr>db_users := filter (\<lambda>u. usr_ID u \<noteq> oldID) (db_users st)\<rparr>));
     st2 \<leftarrow> stmt (oe_fault env 6) (insert_user (new_user env q) st1);
     st3 \<leftarrow> stmt (oe_fault env 7) (move_members (\<lambda>m. tm_UserID m = oldID \<and> tm_Status m = StatusPending) (as_ClerkUserID q)
       (\<lambda>m. m\<lparr>tm_Status := StatusActive, tm_UpdatedAt := oe_now env\<rparr>) st2);
     st4 \<leftarrow> stmt (oe_fault env 8) (move_pmembers oldID (as_ClerkUserID q) (oe_now env) st3);
     st5 \<leftarrow> create_workspace env (sync_name q) st4;
     st6 \<leftarrow> own_workspace env (as_ClerkUserID q) st5;
     stmt (oe_fault env 15) (Some st6)
   }"

definition create_account :: "org_env \<Rightarrow> authSyncReq \<Rightarrow> org_db \<Rightarrow> org_db option" where
  "create_account env q st = do {
     st1 \<leftarrow> create_workspace env (sync_name q) st;
     st2 \<leftarrow> stmt (oe_fault env 6) (insert_user (new_user env q) st1);
     st3 \<leftarrow> own_workspace env (as_ClerkUserID q) st2;
     stmt (oe_fault env 15) (Some st3)
   }"

text \<open>An update whose error is ignored.\<close>

definition try_update :: "bool \<Rightarrow> (org_db \<Rightarrow> org_db option) \<Rightarrow> org_db \<Rightarrow> org_db" where
  "try_update fails f st = (if fails then st else case f st of None \<Rightarrow> st | Some st' \<Rightarrow> st')"

definition rename_user :: "string \<Rightarrow> string \<Rightarrow> org_db \<Rightarrow> org_db option" where
  "rename_user oldID newID st =
     (if list_ex (\<lambda>u. usr_ID u = newID \<and> newID \<noteq> oldID) (db_users st) then None
      else Some (st\<lparr>db_users := map (\<lambda>u. if usr_ID u = oldID then u\<lparr>usr_ID := newID\<rparr> else u) (db_users st)\<rparr>))"

definition adopt_user :: "org_env \<Rightarrow> string \<Rightarrow> string \<Rightarrow> org_db \<Rightarrow> org_db" where
  "adopt_user env oldID newID st =
     try_update (oe_fault env 4) (move_pmembers oldID newID (oe_now env))
       (try_update (oe_fault env 3) (move_members (\<lambda>m. tm_UserID m = oldID) newID (\<lambda>m. m\<lparr>tm_UpdatedAt := oe_now env\<rparr>))
         (try_update (oe_fault env 2) (rename_user oldID newID) st))"

text \<open>When the transaction failed another request may have created the user: a last look before giving up.\<close>

definition recover_user :: "org_env \<Rightarrow> authSyncReq \<Rightarrow> org_db \<Rightarrow> sync_reply" where
  "recover_user env q st =
     (case db_first (oe_fault env 16) (\<lambda>u. usr_ID u = as_ClerkUserID q \<or> usr_Email u = as_Email q) (db_users st) of
        Inl _ \<Rightarrow> SyncError 500 ''failed to create user''
      | Inr recovered \<Rightarrow>
          if usr_Status recovered = StatusSuspended then SyncError 403 ''user_suspended''
          else sync_ok env 200 (usr_ID recovered) (usr_Email recovered) (usr_Name recovered) (usr_Status recovered) False st)"

definition handleAuthSync :: "org_env \<Rightarrow> string \<Rightarrow> string \<Rightarrow> authSyncReq option \<Rightarrow> org_db \<Rightarrow> sync_reply \<times> org_db" where
  "handleAuthSync env secret provided req st =
     (if secret \<noteq> [] \<and> provided \<noteq> secret then (SyncError 401 ''invalid or missing auth sync secret'', st)
      else case req of
        None \<Rightarrow> (SyncError 400 ''binding'', st)
      | Some q \<Rightarrow>
          if as_ClerkUserID q = [] \<or> as_Email q = [] then (SyncError 400 ''binding'', st)
          else
            (case db_first (oe_fault env 0) (\<lambda>u. usr_ID u = as_ClerkUserID q) (db_users st) of
               Inr user \<Rightarrow>
                 (if usr_Status user = StatusSuspended then SyncError 403 ''user_suspended''
                  else sync_ok env 200 (usr_ID user) (usr_Email user) (usr_Name user) (usr_Status user) False st, st)
             | Inl _ \<Rightarrow>
                 (case db_first (oe_fault env 1) (\<lambda>u. usr_Email u = as_Email q \<and> usr_Status u \<noteq> StatusPending) (db_users st) of
                    Inr byEmail \<Rightarrow>
                      if usr_Status byEmail = StatusSuspended then (SyncError 403 ''user_suspended'', st)
                      else (let st' = adopt_user env (usr_ID byEmail) (as_ClerkUserID q) st
                            in (sync_ok env 200 (as_ClerkUserID q) (usr_Email byEmail) (usr_Name byEmail) (usr_Status byEmail) False st', st'))
                  | Inl _ \<Rightarrow>
                      (case db_first (oe_fault env 9) (\<lambda>u. usr_Email u = as_Email q \<and> usr_Status u = StatusPending) (db_users st) of
                         Inr pending \<Rightarrow>
                           (case activate_invited env q (usr_ID pending) st of
                              None \<Rightarrow> (SyncError 500 ''failed to activate invited user'', st)
                            | Some st' \<Rightarrow> (sync_ok env 200 (as_ClerkUserID q) (as_Email q) (sync_name q) StatusActive True st', st'))
                       | Inl _ \<Rightarrow>
                           (case create_account env q st of
                              Some st' \<Rightarrow> (sync_ok env 201 (as_ClerkUserID q) (as_Email q) (sync_name q) StatusActive True st', st')
                            | None \<Rightarrow> (recover_user env q st, st))))))"

section \<open>Deletion of the account\<close>

text \<open>The loop over the members that deletes those at the identity provider who have no other tenant: the number of errors.\<close>

fun clerk_loop :: "org_env \<Rightarrow> nat \<Rightarrow> TenantMembership list \<Rightarrow> org_db \<Rightarrow> nat \<times> org_db" where
  "clerk_loop env tenantID [] st = (0, st)"
| "clerk_loop env tenantID (m # ms) st =
     (if db_count (oe_fault env 3) (\<lambda>k. tm_UserID k = tm_UserID m \<and> tm_TenantID k \<noteq> tenantID) (db_memberships st) = 0
      then (case deleteClerkUser env (tm_UserID m) st of
              (ok, st1) \<Rightarrow> (case clerk_loop env tenantID ms st1 of (n, st2) \<Rightarrow> (if ok then n else Suc n, st2)))
      else clerk_loop env tenantID ms st)"

definition delete_if_unused :: "org_env \<Rightarrow> TenantMembership \<Rightarrow> org_db \<Rightarrow> org_db" where
  "delete_if_unused env m st =
     (if db_count (oe_fault env 7) (\<lambda>k. tm_UserID k = tm_UserID m) (db_memberships st) = 0 \<and> \<not> oe_fault env 8
      then st\<lparr>db_users := filter (\<lambda>u. usr_ID u \<noteq> tm_UserID m) (db_users st)\<rparr> else st)"

definition revoke_tenant_keys :: "org_env \<Rightarrow> nat \<Rightarrow> org_db \<Rightarrow> org_db" where
  "revoke_tenant_keys env tenantID st =
     st\<lparr>db_keys := (if oe_fault env 1 then db_keys st
          else map (\<lambda>k. if ak_TenantID k = tenantID then k\<lparr>ak_Revoked := True\<rparr> else k) (db_keys st)),
        db_provider_keys := (if oe_fault env 10 then db_provider_keys st
          else map (\<lambda>k. if pk_TenantID k = tenantID then k\<lparr>pk_Revoked := True\<rparr> else k) (db_provider_keys st))\<rparr>"

text \<open>What is deleted when the identity provider has deleted the members: project memberships, projects, memberships, and the
  users without another membership. The tenant stays, suspended.\<close>

definition purge_tenant :: "org_env \<Rightarrow> nat \<Rightarrow> TenantMembership list \<Rightarrow> org_db \<Rightarrow> org_db" where
  "purge_tenant env tid ms st2 =
     (let st3 = (if oe_fault env 4 then st2 else delete_pmembers (\<lambda>p. project_of_tenant st2 tid (pm_ProjectID p)) st2);
          st4 = (if oe_fault env 5 then st3 else st3\<lparr>db_projects := filter (\<lambda>p. pj_TenantID p \<noteq> tid) (db_projects st3)\<rparr>);
          st5 = (if oe_fault env 6 then st4 else delete_members (\<lambda>m. tm_TenantID m = tid) st4);
          st6 = fold (delete_if_unused env) ms st5
      in if oe_fault env 9 then st6
         else update_tenant_row tid (\<lambda>t. t\<lparr>ten_Status := StatusSuspended, ten_PlanStatus := ''canceled''\<rparr>) st6)"

definition handleDeleteAccount :: "org_env \<Rightarrow> rbac_ctx \<Rightarrow> string option \<Rightarrow> org_db \<Rightarrow> api_reply \<times> org_db" where
  "handleDeleteAccount env ctx req st =
     (case req of
        None \<Rightarrow> ((400, ''binding''), st)
      | Some confirmName \<Rightarrow>
          if confirmName = [] then ((400, ''binding''), st)
          else (case first_tenant_row (oe_fault env 0) (ctx_tenant_id ctx) st of
             Inl _ \<Rightarrow> ((500, ''failed to fetch tenant''), st)
           | Inr tenant \<Rightarrow>
               if confirmName \<noteq> ten_Name tenant then ((400, ''name_mismatch''), st)
               else
                 (let tid = ten_ID tenant;
                      st1 = revoke_tenant_keys env tid st;
                      ms = db_find (oe_fault env 2) (\<lambda>m. tm_TenantID m = tid) (db_memberships st1)
                  in case clerk_loop env tid ms st1 of
                       (errors, st2) \<Rightarrow>
                         if 0 < errors then ((500, ''clerk_deletion_failed''), st2)
                         else
                           ((200, []), recordAuditEvent env ctx ''ACCOUNT.DELETED'' ''tenant'' (show_nat tid)
                              \<lparr>ao_Category = AuditCategoryOwner, ao_ActorType = [], ao_BeforeState = None, ao_AfterState = None,
                                ao_Metadata = Some (JObj [(''tenant_name'', JStr (ten_Name tenant))]), ao_Success = None\<rparr>
                              (purge_tenant env tid ms st2)))))"

end
