(* ===== verification/Wire.thy ===== *)
theory Wire
  imports Clock
begin

text \<open>
  The text formats of the usage events on the Redis stream: the decimal integers of package \<open>strconv\<close>
  (\<open>ParseUint\<close>, \<open>ParseInt\<close> with base 10 and 64 bits, \<open>FormatBool\<close>), the verb \<open>%v\<close> of \<open>fmt\<close> on a map entry, and
  the layout \<open>time.RFC3339\<close> of package \<open>time\<close>. Parsing follows the strict reader that package \<open>time\<close> tries first;
  its second, lenient attempt on other strings is not modelled.
\<close>

section \<open>Package strconv\<close>

datatype num_error = ErrSyntax | ErrRange

text \<open>Both parsers return a value together with an error; callers that drop the error use the value: 0 after a
  syntax error, the nearest bound after a range error.\<close>

definition ParseUint :: "string \<Rightarrow> int \<times> num_error option" where
  "ParseUint s =
     (if s = [] \<or> \<not> list_all is_digit s then (0, Some ErrSyntax)
      else if 2 ^ 64 \<le> digits_val s then (2 ^ 64 - 1, Some ErrRange)
      else (digits_val s, None))"

definition ParseInt :: "string \<Rightarrow> int \<times> num_error option" where
  "ParseInt s0 =
     (if s0 = [] then (0, Some ErrSyntax)
      else let neg = (hd s0 = CHR ''-'');
               s = (if neg \<or> hd s0 = CHR ''+'' then tl s0 else s0)
           in case ParseUint s of
                (un, err) \<Rightarrow>
                  if err = Some ErrSyntax then (0, err)
                  else if \<not> neg \<and> 2 ^ 63 \<le> un then (2 ^ 63 - 1, Some ErrRange)
                  else if neg \<and> 2 ^ 63 < un then (- (2 ^ 63), Some ErrRange)
                  else (if neg then - un else un, None))"

definition FormatBool :: "bool \<Rightarrow> string" where
  "FormatBool b = (if b then ''true'' else ''false'')"

text \<open>\<open>fmt.Sprintf("%v", m[k])\<close> on a map of strings: a missing entry is the nil interface.\<close>

definition sprint_v :: "(string \<rightharpoonup> string) \<Rightarrow> string \<Rightarrow> string" where
  "sprint_v m k = (case m k of None \<Rightarrow> ''<nil>'' | Some s \<Rightarrow> s)"

text \<open>\<open>Header.Get\<close>: the first value of the header, whose name is compared in its canonical form.\<close>

definition resp_Get :: "(string \<times> string) list \<Rightarrow> string \<Rightarrow> string" where
  "resp_Get hs name = (case find (\<lambda>(k, _). strings_ToLower k = strings_ToLower name) hs of None \<Rightarrow> [] | Some (_, v) \<Rightarrow> v)"

section \<open>The layout RFC 3339\<close>

definition appendInt :: "int \<Rightarrow> nat \<Rightarrow> string" where
  "appendInt x width =
     (let ds = show_nat (nat \<bar>x\<bar>)
      in (if x < 0 then ''-'' else []) @ replicate (width - length ds) (CHR ''0'') @ ds)"

definition time_UTC :: "go_time \<Rightarrow> go_time" where "time_UTC t = t\<lparr>t_off := 0\<rparr>"

definition clock_secs :: "go_time \<Rightarrow> int" where "clock_secs t = local_clock t div 10 ^ 9"

definition zone_suffix :: "int \<Rightarrow> string" where
  "zone_suffix off =
     (if off = 0 then ''Z''
      else let mins = quot (quot off (10 ^ 9)) 60
           in (if mins < 0 then ''-'' else ''+'') @ appendInt (\<bar>mins\<bar> div 60) 2 @ '':'' @ appendInt (\<bar>mins\<bar> mod 60) 2)"

definition format_RFC3339 :: "go_time \<Rightarrow> string" where
  "format_RFC3339 t =
     appendInt (Year t) 4 @ ''-'' @ appendInt (Month t) 2 @ ''-'' @ appendInt (Day t) 2 @ ''T'' @
     appendInt (clock_secs t div 3600) 2 @ '':'' @ appendInt (clock_secs t mod 3600 div 60) 2 @ '':'' @
     appendInt (clock_secs t mod 60) 2 @ zone_suffix (t_off t)"

text \<open>A decimal field of fixed width between two bounds.\<close>

definition field :: "string \<Rightarrow> nat \<Rightarrow> nat \<Rightarrow> int \<Rightarrow> int \<Rightarrow> int option" where
  "field s i w lo hi =
     (let ds = take w (drop i s)
      in if length ds = w \<and> list_all is_digit ds \<and> lo \<le> digits_val ds \<and> digits_val ds \<le> hi
         then Some (digits_val ds) else None)"

definition daysIn :: "int \<Rightarrow> int \<Rightarrow> int" where
  "daysIn m y = days_before y (m + 1) - days_before y m"

definition parse_fraction :: "string \<Rightarrow> int \<times> string" where
  "parse_fraction s =
     (case s of
        c # rest \<Rightarrow>
          let ds = takeWhile is_digit rest
          in if c = CHR ''.'' \<and> ds \<noteq> []
             then (digits_val (take 9 ds) * 10 ^ (9 - length (take 9 ds)), dropWhile is_digit rest)
             else (0, s)
      | [] \<Rightarrow> (0, s))"

text \<open>The offset of the location in nanoseconds.\<close>

definition parse_zone :: "string \<Rightarrow> int option" where
  "parse_zone s =
     (if s = ''Z'' then Some 0
      else if length s \<noteq> 6 then None
      else case (field s 1 2 0 23, field s 4 2 0 59) of
             (Some hr, Some mm) \<Rightarrow>
               if (s ! 0 = CHR ''-'' \<or> s ! 0 = CHR ''+'') \<and> s ! 3 = CHR '':''
               then Some ((if s ! 0 = CHR ''-'' then - 1 else 1) * ((hr * 60 + mm) * 60) * 10 ^ 9)
               else None
           | _ \<Rightarrow> None)"

definition parse_date :: "string \<Rightarrow> int option" where
  "parse_date s =
     (case (field s 0 4 0 9999, field s 5 2 1 12) of
        (Some year, Some month) \<Rightarrow>
          (case field s 8 2 1 (daysIn month year) of
             Some day \<Rightarrow> if s ! 4 = CHR ''-'' \<and> s ! 7 = CHR ''-'' then Some (date_days year month day) else None
           | None \<Rightarrow> None)
      | _ \<Rightarrow> None)"

definition parse_clock :: "string \<Rightarrow> int option" where
  "parse_clock s =
     (case (field s 11 2 0 23, field s 14 2 0 59, field s 17 2 0 59) of
        (Some hour, Some mn, Some sec) \<Rightarrow>
          if s ! 10 = CHR ''T'' \<and> s ! 13 = CHR '':'' \<and> s ! 16 = CHR '':''
          then Some ((hour * 60 + mn) * 60 + sec) else None
      | _ \<Rightarrow> None)"

definition parse_RFC3339 :: "string \<Rightarrow> go_time option" where
  "parse_RFC3339 s =
     (if length s < 19 then None
      else case (parse_date s, parse_clock s) of
             (Some days, Some secs) \<Rightarrow>
               (case parse_fraction (drop 19 s) of
                  (nsec, rest) \<Rightarrow>
                    (case parse_zone rest of
                       Some off \<Rightarrow> Some \<lparr>t_ns = days * day_ns + secs * 10 ^ 9 + nsec - off, t_off = off\<rparr>
                     | None \<Rightarrow> None))
           | _ \<Rightarrow> None)"

section \<open>Reading back integers\<close>

lemma digits_val_snoc [simp]: "digits_val (ds @ [c]) = 10 * digits_val ds + (of_char c - 48)"
  by (simp add: digits_val_def)

lemma digits_val_Nil [simp]: "digits_val [] = 0"
  by (simp add: digits_val_def)

lemma is_digit_digit_char [simp]: "n < 10 \<Longrightarrow> is_digit (digit_char n)"
  by (simp add: is_digit_def)

lemma digit_char_val: "n < 10 \<Longrightarrow> (of_char (digit_char n) :: int) = 48 + int n"
  by (metis of_digit_char of_nat_add of_nat_numeral of_nat_of_char)

lemma show_nat_is_digits [simp]: "list_all is_digit (show_nat n)"
  using show_nat_digits by (fastforce simp: list_all_iff)

lemma digits_val_show [simp]: "digits_val (show_nat n) = int n"
proof (induction n rule: show_nat.induct)
  case (1 n)
  show ?case
  proof (cases "n < 10")
    case True
    then show ?thesis
      using digits_val_snoc [of "[]" "digit_char n"] by (simp add: show_nat.simps [of n] digit_char_val)
  next
    case False
    with 1 show ?thesis
      by (simp add: show_nat.simps [of n] digit_char_val) (metis mult_div_mod_eq of_nat_add of_nat_mult of_nat_numeral)
  qed
qed

lemma digits_val_zeros [simp]: "digits_val (replicate k (CHR ''0'') @ ds) = digits_val ds"
proof -
  have "fold (\<lambda>c n. 10 * n + (of_char c - 48)) (replicate k (CHR ''0'')) (0::int) = 0"
    by (induction k) simp_all
  then show ?thesis by (simp add: digits_val_def)
qed

lemma ParseUint_show [simp]: "int n < 2 ^ 64 \<Longrightarrow> ParseUint (show_nat n) = (int n, None)"
  by (simp add: ParseUint_def)

lemma show_nat_hd: "hd (show_nat n) \<noteq> CHR ''-''" "hd (show_nat n) \<noteq> CHR ''+''"
proof -
  have "is_digit (hd (show_nat n))" by (metis show_nat_is_digits show_nat_not_Nil hd_in_set list_all_iff)
  then show "hd (show_nat n) \<noteq> CHR ''-''" "hd (show_nat n) \<noteq> CHR ''+''" by (auto simp: is_digit_def)
qed

lemma ParseInt_show [simp]: "int64_range i \<Longrightarrow> ParseInt (show_int i) = (i, None)"
  using show_nat_hd [of "nat i"] by (auto simp: ParseInt_def show_int_def int64_range_def ParseUint_def)

section \<open>Reading back instants\<close>

lemma show_nat_length: "n < 10 ^ k \<Longrightarrow> 0 < k \<Longrightarrow> length (show_nat n) \<le> k"
proof (induction k arbitrary: n)
  case (Suc k)
  show ?case
  proof (cases "n < 10")
    case False
    with Suc.prems have "n div 10 < 10 ^ k" "0 < k" by (auto simp: less_mult_imp_div_less intro: gr0I)
    with Suc.IH False show ?thesis by (subst show_nat.simps) simp
  qed (simp add: show_nat.simps)
qed simp

lemma appendInt_props:
  assumes "0 \<le> x" "x < 10 ^ w" "0 < w"
  shows "length (appendInt x w) = w" "list_all is_digit (appendInt x w)" "digits_val (appendInt x w) = x"
proof -
  have "nat x < 10 ^ w" using assms by (simp add: nat_less_iff)
  then have "length (show_nat (nat x)) \<le> w" using show_nat_length assms(3) by blast
  then show "length (appendInt x w) = w" using assms(1) by (simp add: appendInt_def Let_def)
  show "list_all is_digit (appendInt x w)" "digits_val (appendInt x w) = x"
    using assms(1) by (simp_all add: appendInt_def Let_def list_all_append)
      (simp add: list_all_length is_digit_def)
qed

lemma field_appendInt:
  assumes "0 \<le> x" "x < 10 ^ w" "0 < w" "length pre = i" "lo \<le> x" "x \<le> hi"
  shows "field (pre @ appendInt x w @ post) i w lo hi = Some x"
  using appendInt_props [OF assms(1-3)] assms(4-6) by (simp add: field_def)

lemma civil_width [simp]: "0 \<le> month_of d" "month_of d < 100" "0 \<le> dom_of d" "dom_of d < 100"
  by (rule order.trans [OF _ month_bounds(1)] order.strict_trans1 [OF month_bounds(2)]
      order.trans [OF _ dom_bounds(1)] order.strict_trans1 [OF dom_bounds(2)], simp)+

lemma daysIn_bound: "dom_of d \<le> daysIn (month_of d) (year_of d)"
  using month_days [of d] by (simp add: daysIn_def dom_of_def)

lemma parse_date_format:
  assumes "s = appendInt (year_of d) 4 @ ''-'' @ appendInt (month_of d) 2 @ ''-'' @ appendInt (dom_of d) 2 @ post"
    and "0 \<le> d" "year_of d \<le> 9999"
  shows "parse_date s = Some d"
proof -
  have y: "0 \<le> year_of d" "year_of d < 10 ^ 4" using year_of_pos assms(2,3) by force+
  have m: "0 \<le> month_of d" "month_of d < 10 ^ 2" "1 \<le> month_of d" "month_of d \<le> 12"
    by simp_all
  have dd: "0 \<le> dom_of d" "dom_of d < 10 ^ 2" "1 \<le> dom_of d" by simp_all
  note len = appendInt_props(1) [OF y] appendInt_props(1) [OF m(1,2)] appendInt_props(1) [OF dd(1,2)]
  have "field s 0 4 0 9999 = Some (year_of d)"
    using field_appendInt [OF y, of "[]" 0 0 9999] y assms(1,3) by simp
  moreover have "field s 5 2 1 12 = Some (month_of d)"
    using field_appendInt [OF m(1,2), of "appendInt (year_of d) 4 @ ''-''" 5 1 12] m assms(1) len by simp
  moreover have "field s 8 2 1 (daysIn (month_of d) (year_of d)) = Some (dom_of d)"
    using field_appendInt [OF dd(1,2), of "appendInt (year_of d) 4 @ ''-'' @ appendInt (month_of d) 2 @ ''-''" 8]
      dd assms(1) len daysIn_bound by simp
  moreover have "s ! 4 = CHR ''-''" "s ! 7 = CHR ''-''" using assms(1) len by (simp_all add: nth_append)
  ultimately show ?thesis using date_days_civil [of d 0] by (simp add: parse_date_def)
qed

lemma parse_clock_format:
  assumes "s = pre @ ''T'' @ appendInt (c div 3600) 2 @ '':'' @ appendInt (c mod 3600 div 60) 2 @ '':'' @
      appendInt (c mod 60) 2 @ post"
    and "length pre = 10" "0 \<le> c" "c < 86400"
  shows "parse_clock s = Some c"
proof -
  have h: "0 \<le> c div 3600" "c div 3600 < 10 ^ 2" "c div 3600 \<le> 23" using assms(3,4) by auto
  have m: "0 \<le> c mod 3600 div 60" "c mod 3600 div 60 < 10 ^ 2" "c mod 3600 div 60 \<le> 59" by auto
  have n: "0 \<le> c mod 60" "c mod 60 < 10 ^ 2" "c mod 60 \<le> 59" by auto
  note len = appendInt_props(1) [OF h(1,2)] appendInt_props(1) [OF m(1,2)] appendInt_props(1) [OF n(1,2)]
  have "field s 11 2 0 23 = Some (c div 3600)"
    using field_appendInt [OF h(1,2), of "pre @ ''T''" 11 0 23] h assms(1,2) by simp
  moreover have "field s 14 2 0 59 = Some (c mod 3600 div 60)"
    using field_appendInt [OF m(1,2), of "pre @ ''T'' @ appendInt (c div 3600) 2 @ '':''" 14 0 59] m assms(1,2) len by simp
  moreover have "field s 17 2 0 59 = Some (c mod 60)"
    using field_appendInt [OF n(1,2), of "pre @ ''T'' @ appendInt (c div 3600) 2 @ '':'' @
      appendInt (c mod 3600 div 60) 2 @ '':''" 17 0 59] n assms(1,2) len by simp
  moreover have "s ! 10 = CHR ''T''" "s ! 13 = CHR '':''" "s ! 16 = CHR '':''"
    using assms(1,2) len by (simp_all add: nth_append)
  moreover have "(c div 3600 * 60 + c mod 3600 div 60) * 60 + c mod 60 = c"
  proof -
    have "c mod 3600 mod 60 = c mod 60" by (simp add: mod_mod_cancel)
    then have "60 * (c mod 3600 div 60) + c mod 60 = c mod 3600" by (metis mult_div_mod_eq)
    moreover have "3600 * (c div 3600) + c mod 3600 = c" by (rule mult_div_mod_eq)
    moreover have "(c div 3600 * 60 + c mod 3600 div 60) * 60 = 3600 * (c div 3600) + 60 * (c mod 3600 div 60)"
      by (simp add: algebra_simps)
    ultimately show ?thesis by linarith
  qed
  ultimately show ?thesis by (simp add: parse_clock_def)
qed

text \<open>The stream keeps the instant of an event to the second.\<close>

definition to_second :: "go_time \<Rightarrow> go_time" where
  "to_second t = \<lparr>t_ns = t_ns t - t_ns t mod 10 ^ 9, t_off = 0\<rparr>"

lemma parse_format_RFC3339:
  assumes "0 \<le> t_ns t" "Year (time_UTC t) \<le> 9999"
  shows "parse_RFC3339 (format_RFC3339 (time_UTC t)) = Some (to_second t)"
proof -
  let ?u = "time_UTC t" and ?s = "format_RFC3339 (time_UTC t)"
  let ?d = "local_day (time_UTC t)" and ?c = "clock_secs (time_UTC t)"
  have d: "0 \<le> ?d" using assms(1) by (simp add: local_day_def time_UTC_def pos_imp_zdiv_nonneg_iff)
  have y: "year_of ?d \<le> 9999" using assms(2) by (simp add: Year_def)
  have c: "0 \<le> ?c" "?c < 86400"
    by (simp_all add: clock_secs_def local_clock_def div_less_iff_less_mult day_ns_def)
  have date: "parse_date ?s = Some ?d"
    by (rule parse_date_format [OF _ d y]) (simp add: format_RFC3339_def Year_def Month_def Day_def)
  have len: "length (appendInt (year_of ?d) 4) = 4" "length (appendInt (month_of ?d) 2) = 2"
    "length (appendInt (dom_of ?d) 2) = 2" "length (appendInt (?c div 3600) 2) = 2"
    "length (appendInt (?c mod 3600 div 60) 2) = 2" "length (appendInt (?c mod 60) 2) = 2"
    using year_of_pos [OF d] y c by (auto intro!: appendInt_props(1))
  have clock: "parse_clock ?s = Some ?c"
    by (rule parse_clock_format [OF _ _ c, of _ "appendInt (year_of ?d) 4 @ ''-'' @ appendInt (month_of ?d) 2 @ ''-'' @
        appendInt (dom_of ?d) 2"])
      (simp_all add: format_RFC3339_def Year_def Month_def Day_def len)
  have off: "t_off ?u = 0" by (simp add: time_UTC_def)
  have "drop 19 ?s = ''Z''" "length ?s = 20"
    by (simp_all add: format_RFC3339_def Year_def Month_def Day_def len zone_suffix_def off)
  with date clock have "parse_RFC3339 ?s = Some \<lparr>t_ns = ?d * day_ns + ?c * 10 ^ 9, t_off = 0\<rparr>"
    by (simp add: parse_RFC3339_def parse_fraction_def parse_zone_def)
  moreover have "?d * day_ns + ?c * 10 ^ 9 = t_ns t - t_ns t mod 10 ^ 9"
  proof -
    let ?n = "t_ns t"
    have "?n mod day_ns mod 10 ^ 9 = ?n mod 10 ^ 9" by (simp add: day_ns_def mod_mod_cancel)
    then have "10 ^ 9 * (?n mod day_ns div 10 ^ 9) + ?n mod 10 ^ 9 = ?n mod day_ns" by (metis mult_div_mod_eq)
    moreover have "?n div day_ns * day_ns + ?n mod day_ns = ?n" by (rule div_mult_mod_eq)
    moreover have "10 ^ 9 * b + c = r \<Longrightarrow> a + r = n \<Longrightarrow> a + b * 10 ^ 9 = n - c" for a b c r n :: int by simp
    ultimately have "?n div day_ns * day_ns + ?n mod day_ns div 10 ^ 9 * 10 ^ 9 = ?n - ?n mod 10 ^ 9" by blast
    then show ?thesis by (simp add: local_day_def clock_secs_def local_clock_def time_UTC_def)
  qed
  ultimately show ?thesis by (simp add: to_second_def)
qed

end
