(* ===== verification/Projects.thy ===== *)
theory Projects
  imports Members Wire
begin

text \<open>
  The projects of a tenant and their members (\<open>api/projects.go\<close>). As in \<open>Members\<close> the handlers run behind \<open>RequireUser\<close>.
  Deleting a project archives its row.
\<close>

section \<open>Projects\<close>

text \<open>The identifier in the path.\<close>

definition path_id :: "string \<Rightarrow> nat option" where
  "path_id s = (case ParseUint s of (n, None) \<Rightarrow> Some (nat n) | (_, Some _) \<Rightarrow> None)"

definition is_project :: "nat \<Rightarrow> nat \<Rightarrow> Project \<Rightarrow> bool" where
  "is_project projectID tenantID p \<longleftrightarrow> pj_ID p = projectID \<and> pj_TenantID p = tenantID"

definition project_audit :: "json option \<Rightarrow> json option \<Rightarrow> AuditOpts" where
  "project_audit before after = audit_opts AuditCategoryProject before after"

text \<open>The projects a caller sees: all active ones of the tenant for owners and admins, otherwise those he is a member of.\<close>

definition handleListProjects :: "org_env \<Rightarrow> rbac_ctx \<Rightarrow> org_db \<Rightarrow> Project list" where
  "handleListProjects env ctx st =
     db_find (oe_fault env 0) (\<lambda>p. pj_TenantID p = ctx_tenant_id ctx \<and> pj_Status p = ProjectStatusActive \<and>
        (ctx_org_role ctx = RoleOwner \<or> ctx_org_role ctx = RoleAdmin \<or>
         list_ex (is_pmember (pj_ID p) (usr_ID (ctx_user ctx))) (db_project_memberships st))) (db_projects st)"

definition handleCreateProject :: "org_env \<Rightarrow> rbac_ctx \<Rightarrow> (string \<times> string) option \<Rightarrow> org_db \<Rightarrow> api_reply \<times> org_db" where
  "handleCreateProject env ctx req st =
     (case req of
        None \<Rightarrow> ((400, ''binding''), st)
      | Some (name, description) \<Rightarrow>
          if name = [] then ((400, ''binding''), st)
          else
            (let tenantID = ctx_tenant_id ctx;
                 limit = MaxProjects (GetPlanLimits (plan_of (oe_fault env 0) tenantID st));
                 count = db_count (oe_fault env 1) (\<lambda>p. pj_TenantID p = tenantID \<and> pj_Status p = ProjectStatusActive) (db_projects st)
             in if plan_full limit count then ((422, ''plan_limit_reached''), st)
                else (case db_first (oe_fault env 2) (\<lambda>p. pj_TenantID p = tenantID \<and> pj_Name p = name) (db_projects st) of
                   Inr _ \<Rightarrow> ((409, ''a project with this name already exists''), st)
                 | Inl _ \<Rightarrow>
                     (case (if oe_fault env 3 then None
                            else insert_project \<lparr>pj_ID = oe_newID env 0, pj_TenantID = tenantID, pj_Name = name,
                              pj_Description = description, pj_Status = ProjectStatusActive, pj_CreatedAt = oe_now env,
                              pj_UpdatedAt = oe_now env\<rparr> st) of
                        None \<Rightarrow> ((500, ''failed to create project''), st)
                      | Some st1 \<Rightarrow>
                          (let admin = \<lparr>pm_ProjectID = oe_newID env 0, pm_UserID = usr_ID (ctx_user ctx), pm_ProjectRole = ProjectRoleAdmin,
                                 pm_CreatedAt = oe_now env, pm_UpdatedAt = oe_now env\<rparr>;
                               st2 = (if oe_fault env 4 then st1 else case insert_pmember admin st1 of None \<Rightarrow> st1 | Some st2 \<Rightarrow> st2)
                           in ((201, []), recordAuditEvent env ctx ''PROJECT.CREATED'' ''project'' (show_nat (oe_newID env 0))
                                (project_audit None (Some (JObj [(''name'', JStr name)]))) st2))))))"

definition handleGetProject :: "org_env \<Rightarrow> rbac_ctx \<Rightarrow> string \<Rightarrow> org_db \<Rightarrow> (int, Project) result" where
  "handleGetProject env ctx param st =
     (case path_id param of
        None \<Rightarrow> Inl 400
      | Some projectID \<Rightarrow>
          (case db_first (oe_fault env 0) (is_project projectID (ctx_tenant_id ctx)) (db_projects st) of
             Inl _ \<Rightarrow> Inl 404 | Inr p \<Rightarrow> Inr p))"

text \<open>An update of name and description; a name that is taken makes the statement fail, and the handler ignores that.\<close>

definition write_project :: "org_env \<Rightarrow> nat \<Rightarrow> nat \<Rightarrow> string option \<Rightarrow> string option \<Rightarrow> org_db \<Rightarrow> org_db" where
  "write_project env projectID tenantID name description st =
     (if oe_fault env 2 \<or> (case name of None \<Rightarrow> False | Some n \<Rightarrow>
            list_ex (\<lambda>p. pj_TenantID p = tenantID \<and> pj_Name p = n \<and> pj_ID p \<noteq> projectID) (db_projects st)) then st
      else st\<lparr>db_projects := map (\<lambda>p. if pj_ID p = projectID
             then p\<lparr>pj_Name := (case name of None \<Rightarrow> pj_Name p | Some n \<Rightarrow> n),
                    pj_Description := (case description of None \<Rightarrow> pj_Description p | Some d \<Rightarrow> d), pj_UpdatedAt := oe_now env\<rparr>
             else p) (db_projects st)\<rparr>)"

definition handleUpdateProject :: "org_env \<Rightarrow> rbac_ctx \<Rightarrow> string \<Rightarrow> (string option \<times> string option) option \<Rightarrow> org_db \<Rightarrow>
    api_reply \<times> org_db" where
  "handleUpdateProject env ctx param req st =
     (let tenantID = ctx_tenant_id ctx
      in case path_id param of
        None \<Rightarrow> ((400, ''invalid project id''), st)
      | Some projectID \<Rightarrow>
          (case req of
             None \<Rightarrow> ((400, ''binding''), st)
           | Some (name, description) \<Rightarrow>
               (case db_first (oe_fault env 0) (is_project projectID tenantID) (db_projects st) of
                  Inl _ \<Rightarrow> ((404, ''project not found''), st)
                | Inr p \<Rightarrow>
                    if (case name of None \<Rightarrow> False | Some n \<Rightarrow>
                          \<not> isl (db_first (oe_fault env 1) (\<lambda>q. pj_TenantID q = tenantID \<and> pj_Name q = n \<and> pj_ID q \<noteq> projectID) (db_projects st)))
                    then ((409, ''a project with this name already exists''), st)
                    else if name = None \<and> description = None then ((400, ''no fields to update''), st)
                    else
                      (let fields = (case name of None \<Rightarrow> [] | Some n \<Rightarrow> [(''name'', JStr n)]) @
                             (case description of None \<Rightarrow> [] | Some d \<Rightarrow> [(''description'', JStr d)])
                       in ((200, []), recordAuditEvent env ctx ''PROJECT.UPDATED'' ''project'' (show_nat projectID)
                            (project_audit (Some (JObj [(''name'', JStr (pj_Name p)), (''description'', JStr (pj_Description p))]))
                              (Some (JObj fields)))
                            (write_project env projectID tenantID name description st))))))"

definition handleDeleteProject :: "org_env \<Rightarrow> rbac_ctx \<Rightarrow> string \<Rightarrow> org_db \<Rightarrow> api_reply \<times> org_db" where
  "handleDeleteProject env ctx param st =
     (let tenantID = ctx_tenant_id ctx
      in case path_id param of
        None \<Rightarrow> ((400, ''invalid project id''), st)
      | Some projectID \<Rightarrow>
          (case db_first (oe_fault env 0) (is_project projectID tenantID) (db_projects st) of
             Inl _ \<Rightarrow> ((404, ''project not found''), st)
           | Inr p \<Rightarrow>
               if (case first_tenant_row (oe_fault env 1) tenantID st of
                     Inl _ \<Rightarrow> False | Inr t \<Rightarrow> ten_DefaultProjectID t = Some projectID)
               then ((409, ''cannot_delete_default''), st)
               else if 0 < db_count (oe_fault env 2) (\<lambda>k. ak_ProjectID k = projectID \<and> \<not> ak_Revoked k) (db_keys st)
               then ((409, ''has_active_keys''), st)
               else
                 (let st1 = (if oe_fault env 3 then st
                        else st\<lparr>db_projects := map (\<lambda>q. if pj_ID q = projectID
                               then q\<lparr>pj_Status := ProjectStatusArchived, pj_UpdatedAt := oe_now env\<rparr> else q) (db_projects st)\<rparr>);
                      st2 = (if oe_fault env 4 then st1 else delete_pmembers (\<lambda>m. pm_ProjectID m = projectID) st1)
                  in ((200, []), recordAuditEvent env ctx ''PROJECT.DELETED'' ''project'' (show_nat projectID)
                       (project_audit (Some (JObj [(''name'', JStr (pj_Name p))])) None) st2))))"

section \<open>Members of a project\<close>

definition with_project :: "org_env \<Rightarrow> rbac_ctx \<Rightarrow> nat \<Rightarrow> (Project \<Rightarrow> org_db \<Rightarrow> api_reply \<times> org_db) \<Rightarrow> org_db \<Rightarrow> api_reply \<times> org_db" where
  "with_project env ctx projectID f st =
     (case db_first (oe_fault env 0) (is_project projectID (ctx_tenant_id ctx)) (db_projects st) of
        Inl _ \<Rightarrow> ((404, ''project not found''), st) | Inr p \<Rightarrow> f p st)"

definition member_resource :: "nat \<Rightarrow> string \<Rightarrow> string" where
  "member_resource projectID userID = show_nat projectID @ ''/'' @ userID"

text \<open>The members of a project: user, mail, name, role.\<close>

definition handleListProjectMembers :: "org_env \<Rightarrow> rbac_ctx \<Rightarrow> string \<Rightarrow> org_db \<Rightarrow> (int, (string \<times> string \<times> string \<times> string) list) result" where
  "handleListProjectMembers env ctx param st =
     (case handleGetProject env ctx param st of
        Inl code \<Rightarrow> Inl code
      | Inr p \<Rightarrow> Inr (if oe_fault env 1 then [] else concat (map (\<lambda>m. map (\<lambda>u. (pm_UserID m, usr_Email u, usr_Name u, pm_ProjectRole m))
             (filter (\<lambda>u. usr_ID u = pm_UserID m) (db_users st))) (filter (\<lambda>m. pm_ProjectID m = pj_ID p) (db_project_memberships st)))))"

definition handleAddProjectMember :: "org_env \<Rightarrow> rbac_ctx \<Rightarrow> string \<Rightarrow> (string \<times> string) option \<Rightarrow> org_db \<Rightarrow> api_reply \<times> org_db" where
  "handleAddProjectMember env ctx param req st =
     (case path_id param of
        None \<Rightarrow> ((400, ''invalid project id''), st)
      | Some projectID \<Rightarrow>
          (case req of
             None \<Rightarrow> ((400, ''binding''), st)
           | Some (userID, projectRole) \<Rightarrow>
               if userID = [] then ((400, ''binding''), st)
               else
                 (let role = (if projectRole = ProjectRoleAdmin \<or> projectRole = ProjectRoleEditor then projectRole else ProjectRoleViewer)
                  in with_project env ctx projectID (\<lambda>p st.
                       case db_first (oe_fault env 1) (is_member (ctx_tenant_id ctx) userID) (db_memberships st) of
                         Inl _ \<Rightarrow> ((400, ''user is not a member of this tenant''), st)
                       | Inr _ \<Rightarrow>
                           (case db_first (oe_fault env 2) (is_pmember projectID userID) (db_project_memberships st) of
                              Inr _ \<Rightarrow> ((409, ''user is already a member of this project''), st)
                            | Inl _ \<Rightarrow>
                                (case (if oe_fault env 3 then None
                                       else insert_pmember \<lparr>pm_ProjectID = projectID, pm_UserID = userID, pm_ProjectRole = role,
                                         pm_CreatedAt = oe_now env, pm_UpdatedAt = oe_now env\<rparr> st) of
                                   None \<Rightarrow> ((500, ''failed to add project member''), st)
                                 | Some st1 \<Rightarrow>
                                     ((201, []), recordAuditEvent env ctx ''PROJECT_MEMBER.ADDED'' ''project_membership'' (member_resource projectID userID)
                                        (project_audit None (Some (JObj [(''user_id'', JStr userID), (''project_role'', JStr role)]))) st1)))) st)))"

definition handleUpdateProjectMemberRole :: "org_env \<Rightarrow> rbac_ctx \<Rightarrow> string \<Rightarrow> string \<Rightarrow> string option \<Rightarrow> org_db \<Rightarrow> api_reply \<times> org_db" where
  "handleUpdateProjectMemberRole env ctx param targetID req st =
     (case path_id param of
        None \<Rightarrow> ((400, ''invalid project id''), st)
      | Some projectID \<Rightarrow>
          (case req of
             None \<Rightarrow> ((400, ''binding''), st)
           | Some role \<Rightarrow>
               if role = [] then ((400, ''binding''), st)
               else if role \<noteq> ProjectRoleAdmin \<and> role \<noteq> ProjectRoleEditor \<and> role \<noteq> ProjectRoleViewer
               then ((400, ''invalid project_role''), st)
               else with_project env ctx projectID (\<lambda>p st.
                 case db_first (oe_fault env 1) (is_pmember projectID targetID) (db_project_memberships st) of
                   Inl _ \<Rightarrow> ((404, ''project member not found''), st)
                 | Inr pm \<Rightarrow>
                     if oe_fault env 2 then ((404, ''project member not found''), st)
                     else
                       (let st1 = st\<lparr>db_project_memberships := map (\<lambda>m. if is_pmember projectID targetID m
                              then m\<lparr>pm_ProjectRole := role, pm_UpdatedAt := oe_now env\<rparr> else m) (db_project_memberships st)\<rparr>;
                            st2 = recordAuditEvent env ctx ''PROJECT_MEMBER.ROLE_CHANGED'' ''project_membership'' (member_resource projectID targetID)
                              (project_audit (Some (JObj [(''project_role'', JStr (pm_ProjectRole pm))])) (Some (JObj [(''project_role'', JStr role)]))) st1
                        in ((200, []), notifyMemberChange env ctx targetID (ctx_tenant_id ctx)
                             (''Your role in project \"'' @ pj_Name p @ ''\" has been updated'')
                             (''Your project role has been changed from '' @ pm_ProjectRole pm @ '' to '' @ role @ ''.'')
                             [(''action'', JStr ''project_role_changed''), (''project_id'', JInt (int projectID)), (''project_name'', JStr (pj_Name p)),
                              (''old_role'', JStr (pm_ProjectRole pm)), (''new_role'', JStr role)] st2))) st))"

definition handleRemoveProjectMember :: "org_env \<Rightarrow> rbac_ctx \<Rightarrow> string \<Rightarrow> string \<Rightarrow> org_db \<Rightarrow> api_reply \<times> org_db" where
  "handleRemoveProjectMember env ctx param targetID st =
     (case path_id param of
        None \<Rightarrow> ((400, ''invalid project id''), st)
      | Some projectID \<Rightarrow>
          with_project env ctx projectID (\<lambda>p st.
            if oe_fault env 1 \<or> \<not> list_ex (is_pmember projectID targetID) (db_project_memberships st)
            then ((404, ''project member not found''), st)
            else ((200, []), recordAuditEvent env ctx ''PROJECT_MEMBER.REMOVED'' ''project_membership'' (member_resource projectID targetID)
                   (project_audit None None) (delete_pmembers (is_pmember projectID targetID) st))) st)"

end
