(* ===== verification/Quotas.thy ===== *)
theory Quotas
  imports Projects APIKeys
begin

text \<open>
  What the plan of a tenant allows: the change of the plan with its checks (\<open>applyPlanChange\<close> in \<open>api/users.go\<close>), and the
  handlers that create, update and delete what the plan counts: API keys (\<open>api/apikeys.go\<close>), provider keys
  (\<open>api/provider_keys.go\<close>), rate limits (\<open>api/ratelimits.go\<close>), budgets (\<open>api/pricing.go\<close>) and notification channels
  (\<open>api/notifications.go\<close>).

  The error code of a failed service call is the text of its error; here it is the name of the call. \<open>decimal.NewFromString\<close> is
  a parameter, and so is what gorm leaves open: whether \<open>FirstOrCreate\<close> skips the zero values of an assigned struct. A column
  \<open>enabled\<close> whose database default is true takes the default when a row is inserted with the value false, as
  gorm documents it.
\<close>

section \<open>Changing the plan\<close>

text \<open>What the limits of a plan are compared with: the reason that blocks, the limit, and how much of it the tenant uses.\<close>

definition plan_usage :: "org_env \<Rightarrow> nat \<Rightarrow> org_db \<Rightarrow> (string \<times> (PlanLimits \<Rightarrow> int) \<times> int) list" where
  "plan_usage env tenantID st =
     [(''api_keys_exceed_limit'', MaxAPIKeys, db_count (oe_fault env 1) (active_key (oe_now env) tenantID) (db_keys st)),
      (''provider_keys_exceed_limit'', MaxProviderKeys,
         db_count (oe_fault env 2) (\<lambda>k. pk_TenantID k = tenantID \<and> \<not> pk_Revoked k) (db_provider_keys st)),
      (''members_exceed_limit'', MaxMembers, db_count (oe_fault env 3) (\<lambda>m. tm_TenantID m = tenantID) (db_memberships st)),
      (''projects_exceed_limit'', MaxProjects,
         db_count (oe_fault env 4) (\<lambda>p. pj_TenantID p = tenantID \<and> pj_Status p = ProjectStatusActive) (db_projects st)),
      (''budget_limits_exceed_limit'', MaxBudgetLimits, db_count (oe_fault env 5) (\<lambda>b. bl_TenantID b = tenantID) (db_budgets st)),
      (''rate_limits_exceed_limit'', MaxRateLimits, db_count (oe_fault env 6) (\<lambda>r. rl_TenantID r = tenantID) (db_rate_limits st)),
      (''notification_channels_exceed_limit'', MaxNotificationChannels,
         db_count (oe_fault env 7) (\<lambda>c. nc_TenantID c = tenantID) (db_channels st))]"

definition exceeds :: "PlanLimits \<Rightarrow> string \<times> (PlanLimits \<Rightarrow> int) \<times> int \<Rightarrow> bool" where
  "exceeds newLimits = (\<lambda>(reason, limit, used). limit newLimits \<noteq> -1 \<and> limit newLimits < used)"

text \<open>Status 0 is success.\<close>

definition applyPlanChange :: "org_env \<Rightarrow> nat \<Rightarrow> string \<Rightarrow> org_db \<Rightarrow> api_reply \<times> org_db" where
  "applyPlanChange env tenantID newPlan st =
     (if \<not> ValidPlan newPlan then ((400, ''invalid_plan''), st)
      else (case first_tenant_row (oe_fault env 0) tenantID st of
         Inl _ \<Rightarrow> ((500, ''failed to fetch tenant''), st)
       | Inr tenant \<Rightarrow>
           if ten_Plan tenant = newPlan then ((400, ''no_change''), st)
           else (case find (exceeds (GetPlanLimits newPlan)) (plan_usage env tenantID st) of
              Some (reason, _) \<Rightarrow> ((422, ''downgrade_blocked''), st)
            | None \<Rightarrow>
                if oe_fault env 8 then ((500, ''failed to update plan''), st)
                else ((0, []), update_tenant_row tenantID (\<lambda>t. t\<lparr>ten_Plan := newPlan\<rparr>) st))))"

definition handleChangePlan :: "org_env \<Rightarrow> rbac_ctx \<Rightarrow> string option \<Rightarrow> org_db \<Rightarrow> api_reply \<times> org_db" where
  "handleChangePlan env ctx req st =
     (case req of
        None \<Rightarrow> ((400, ''binding''), st)
      | Some plan \<Rightarrow>
          if plan = [] then ((400, ''binding''), st)
          else (case applyPlanChange env (ctx_tenant_id ctx) plan st of
             ((status, err), st') \<Rightarrow> (if status \<noteq> 0 then (status, err) else (200, []), st')))"

definition handleAdminChangeTenantPlan :: "org_env \<Rightarrow> string \<Rightarrow> string option \<Rightarrow> org_db \<Rightarrow> api_reply \<times> org_db" where
  "handleAdminChangeTenantPlan env param req st =
     (case req of
        None \<Rightarrow> ((400, ''binding''), st)
      | Some plan \<Rightarrow>
          if plan = [] then ((400, ''binding''), st)
          else (case tenant_param param of
             None \<Rightarrow> ((400, ''invalid tenant_id''), st)
           | Some tenantID \<Rightarrow>
               (case first_tenant_row (oe_fault env 9) tenantID st of
                  Inl _ \<Rightarrow> ((404, ''tenant not found''), st)
                | Inr _ \<Rightarrow>
                    (case applyPlanChange env tenantID plan st of
                       ((status, err), st') \<Rightarrow> (if status \<noteq> 0 then (status, err) else (200, []), st')))))"

section \<open>API keys\<close>

record createAPIKeyReq =
  cq_Label :: string
  cq_ProjectID :: nat
  cq_Provider :: string
  cq_AuthMethod :: string
  cq_BillingMode :: string
  cq_Scopes :: "string list"
  cq_ExpiresAt :: "int option"
  cq_ModelAllowlist :: "string list"

text \<open>The tables as the key services see them, and their effect on the state.\<close>

definition key_db_of :: "bool \<Rightarrow> org_db \<Rightarrow> key_db" where
  "key_db_of down st = \<lparr>kd_err = (if down then Some ''database'' else None), kd_Tenants = db_tenants st, kd_APIKeys = db_keys st,
     kd_APIKeyConfigs = db_key_configs st\<rparr>"

definition with_key_db :: "key_db \<Rightarrow> org_db \<Rightarrow> org_db" where
  "with_key_db kdb st = st\<lparr>db_keys := kd_APIKeys kdb, db_key_configs := kd_APIKeyConfigs kdb\<rparr>"

definition pk_db_of :: "bool \<Rightarrow> org_db \<Rightarrow> pk_db" where
  "pk_db_of down st = \<lparr>pkd_err = (if down then Some ''database'' else None), pkd_Keys = db_provider_keys st, pkd_Settings = db_settings st\<rparr>"

definition with_pk_db :: "pk_db \<Rightarrow> org_db \<Rightarrow> org_db" where
  "with_pk_db pdb st = st\<lparr>db_provider_keys := pkd_Keys pdb, db_settings := pkd_Settings pdb\<rparr>"

text \<open>The check that a BYOK key has an active provider key to work with; None when it holds.\<close>

definition byok_refused :: "org_env \<Rightarrow> bool \<Rightarrow> nat \<Rightarrow> createAPIKeyReq \<Rightarrow> org_db \<Rightarrow> api_reply option" where
  "byok_refused env hasProviderKeySvc tenantID q st =
     (if cq_AuthMethod q \<noteq> AuthMethodBYOK then None
      else if \<not> hasProviderKeySvc then Some (500, ''provider key service not configured'')
      else case GetActiveSettings tenantID (cq_Provider q) (pk_db_of (oe_fault env 3) st) of
        Inl _ \<Rightarrow> Some (500, ''failed to check provider key status'')
      | Inr None \<Rightarrow> Some (422, ''no_active_provider_key'')
      | Inr (Some settings) \<Rightarrow> if tps_ActiveKeyID settings = 0 then Some (422, ''no_active_provider_key'') else None)"

definition created_key_audit :: "createAPIKeyReq \<Rightarrow> AuditOpts" where
  "created_key_audit q = audit_opts AuditCategoryAccess None
     (Some (JObj [(''label'', JStr (cq_Label q)), (''provider'', JStr (cq_Provider q)), (''auth_method'', JStr (cq_AuthMethod q)),
       (''billing_mode'', JStr (cq_BillingMode q))]))"

text \<open>The draws are those of \<open>CreateKey\<close>: the secret, the salt, the uuid and the new identifier.\<close>

definition handleCreateAPIKey :: "('s, 'v) APIKeyService \<Rightarrow> bool \<Rightarrow> string option \<times> string option \<times> string \<times> nat \<Rightarrow> org_env \<Rightarrow> rbac_ctx \<Rightarrow>
    createAPIKeyReq option \<Rightarrow> org_db \<times> 's \<Rightarrow> api_reply \<times> org_db \<times> 's" where
  "handleCreateAPIKey svc hasProviderKeySvc draws env ctx req stt =
     (case stt of (st, s) \<Rightarrow>
      case req of
        None \<Rightarrow> ((400, ''binding''), st, s)
      | Some q \<Rightarrow>
          (let tenantID = ctx_tenant_id ctx; userID = usr_ID (ctx_user ctx)
           in if cq_Label q = [] \<or> cq_ProjectID q = 0 \<or> cq_Provider q = [] \<or> cq_AuthMethod q = [] \<or> cq_BillingMode q = []
              then ((400, ''binding''), st, s)
              else (case db_first (oe_fault env 0) (is_project (cq_ProjectID q) tenantID) (db_projects st) of
                 Inl _ \<Rightarrow> ((400, ''project not found in this tenant''), st, s)
               | Inr _ \<Rightarrow>
                   (case Authorize (authz_db.truncate st) userID tenantID (ctx_org_role ctx) ActionAPIKeyCreate (cq_ProjectID q) of
                      Deny reason \<Rightarrow> ((403, reason), st, s)
                    | Allow \<Rightarrow>
                        if plan_full (MaxAPIKeys (GetPlanLimits (plan_of (oe_fault env 1) tenantID st)))
                             (db_count (oe_fault env 2) (active_key (oe_now env) tenantID) (db_keys st))
                        then ((422, ''plan_limit_reached''), st, s)
                        else (case byok_refused env hasProviderKeySvc tenantID q st of
                           Some r \<Rightarrow> (r, st, s)
                         | None \<Rightarrow>
                             (case draws of (rawSecret, rawSalt, uuid, newID) \<Rightarrow>
                              case CreateKey svc (oe_now env) rawSecret rawSalt uuid newID
                                     \<lparr>kq_TenantID = tenantID, kq_Label = cq_Label q, kq_Scopes = cq_Scopes q, kq_ExpiresAt = cq_ExpiresAt q,
                                       kq_Provider = cq_Provider q, kq_AuthMethod = cq_AuthMethod q, kq_BillingMode = cq_BillingMode q,
                                       kq_ProjectID = cq_ProjectID q, kq_CreatedByUserID = userID, kq_ModelAllowlist = cq_ModelAllowlist q\<rparr>
                                     (key_db_of (oe_fault env 4) st) s of
                                (Inl (ErrAPIKeyLimitReached l n), _, s') \<Rightarrow> ((422, ''api_key_limit_reached''), st, s')
                              | (Inl _, _, s') \<Rightarrow> ((500, ''CreateKey''), st, s')
                              | (Inr (kid, secret), kdb, s') \<Rightarrow>
                                  ((201, []), recordAuditEvent env ctx ''API_KEY.CREATED'' ''api_key'' kid (created_key_audit q)
                                    (with_key_db kdb st), s')))))))"

definition handleRevokeAPIKey :: "('s, 'v) APIKeyService \<Rightarrow> org_env \<Rightarrow> rbac_ctx \<Rightarrow> string \<Rightarrow> org_db \<times> 's \<Rightarrow> api_reply \<times> org_db \<times> 's" where
  "handleRevokeAPIKey svc env ctx keyID stt =
     (case stt of (st, s) \<Rightarrow>
      let tenantID = ctx_tenant_id ctx;
          refused = (if ctx_org_role ctx \<noteq> RoleOwner \<and> ctx_org_role ctx \<noteq> RoleAdmin
            then (case db_first (oe_fault env 0) (\<lambda>k. ak_KeyID k = keyID \<and> ak_TenantID k = tenantID) (db_keys st) of
                    Inl _ \<Rightarrow> Some (404, ''key not found'')
                  | Inr k \<Rightarrow> if ak_CreatedByUserID k \<noteq> usr_ID (ctx_user ctx)
                             then Some (403, ''you can only revoke keys you created'') else None)
            else None)
      in case refused of
           Some r \<Rightarrow> (r, st, s)
         | None \<Rightarrow>
             (case RevokeKey svc tenantID keyID (key_db_of (oe_fault env 1) st) s of
                (Some err, _, s') \<Rightarrow> ((404, err), st, s')
              | (None, kdb, s') \<Rightarrow>
                  ((200, []), recordAuditEvent env ctx ''API_KEY.REVOKED'' ''api_key'' keyID (audit_opts AuditCategoryAccess None None)
                    (with_key_db kdb st), s')))"

section \<open>Provider keys\<close>

text \<open>The status of a failed call of the provider key service.\<close>

definition pk_error_reply :: "pk_error \<Rightarrow> string \<Rightarrow> api_reply" where
  "pk_error_reply e other =
     (case e of ErrProviderKeyNotFound \<Rightarrow> (404, ''provider key not found'')
      | ErrInvalidProviderKeyFormat _ \<Rightarrow> (400, ''invalid provider key format'') | _ \<Rightarrow> (500, other))"

definition handleCreateProviderKey :: "('s, 'v) ProviderKeyService \<Rightarrow> draws \<Rightarrow> org_env \<Rightarrow> rbac_ctx \<Rightarrow> (string \<times> string \<times> string) option \<Rightarrow>
    org_db \<Rightarrow> api_reply \<times> org_db" where
  "handleCreateProviderKey svc dw env ctx req st =
     (case req of
        None \<Rightarrow> ((400, ''binding''), st)
      | Some (provider, label, apiKey) \<Rightarrow>
          (let tenantID = ctx_tenant_id ctx
           in if provider = [] \<or> label = [] \<or> apiKey = [] then ((400, ''binding''), st)
              else if strings_HasPrefix apiKey ''tg_''
              then ((400, ''invalid api_key: a TokenGate API key cannot be stored as a provider key''), st)
              else if ValidateProviderKeyFormat provider apiKey \<noteq> None then ((400, ''invalid provider key format''), st)
              else if plan_full (MaxProviderKeys (GetPlanLimits (plan_of (oe_fault env 0) tenantID st)))
                        (db_count (oe_fault env 1) (\<lambda>k. pk_TenantID k = tenantID \<and> \<not> pk_Revoked k) (db_provider_keys st))
              then ((422, ''plan_limit_reached''), st)
              else (case Store svc (oe_now env) dw tenantID provider label apiKey (pk_db_of (oe_fault env 2) st) of
                 (Inl (ErrInvalidProviderKeyFormat f), _) \<Rightarrow> ((400, ''invalid provider key format''), st)
               | (Inl _, _) \<Rightarrow> ((500, ''failed to store provider key''), st)
               | (Inr pk, pdb) \<Rightarrow>
                   ((201, []), recordAuditEvent env ctx ''PROVIDER_KEY.CREATED'' ''provider_key'' (show_nat (pk_ID pk))
                     (audit_opts AuditCategoryAccess None
                       (Some (JObj [(''provider'', JStr (pk_Provider pk)), (''label'', JStr (pk_Label pk))])))
                     (with_pk_db pdb st)))))"

definition handleRevokeProviderKey :: "('s, 'v) ProviderKeyService \<Rightarrow> org_env \<Rightarrow> rbac_ctx \<Rightarrow> string \<Rightarrow> org_db \<times> plaintext_cache \<Rightarrow>
    api_reply \<times> org_db \<times> plaintext_cache" where
  "handleRevokeProviderKey svc env ctx param stt =
     (case stt of (st, cache) \<Rightarrow>
      case path_id param of
        None \<Rightarrow> ((400, ''invalid key_id''), st, cache)
      | Some keyID \<Rightarrow>
          (case Revoke svc (ctx_tenant_id ctx) keyID (pk_db_of (oe_fault env 0) st) cache of
             (Some ErrProviderKeyNotFound, _, cache') \<Rightarrow> ((404, ''provider key not found''), st, cache')
           | (Some _, _, cache') \<Rightarrow> ((500, ''failed to revoke provider key''), st, cache')
           | (None, pdb, cache') \<Rightarrow>
               ((200, []), recordAuditEvent env ctx ''PROVIDER_KEY.REVOKED'' ''provider_key'' param (audit_opts AuditCategoryAccess None None)
                 (with_pk_db pdb st), cache')))"

definition handleRotateProviderKey :: "('s, 'v) ProviderKeyService \<Rightarrow> draws \<Rightarrow> org_env \<Rightarrow> rbac_ctx \<Rightarrow> string \<Rightarrow> (string \<times> string) option \<Rightarrow>
    org_db \<times> 's \<times> plaintext_cache \<Rightarrow> api_reply \<times> org_db \<times> 's \<times> plaintext_cache" where
  "handleRotateProviderKey svc dw env ctx param req stt =
     (case stt of (st, keys) \<Rightarrow>
      case path_id param of
        None \<Rightarrow> ((400, ''invalid key_id''), st, keys)
      | Some oldKeyID \<Rightarrow>
          (case req of
             None \<Rightarrow> ((400, ''binding''), st, keys)
           | Some (label, apiKey) \<Rightarrow>
               if label = [] \<or> apiKey = [] then ((400, ''binding''), st, keys)
               else (case Rotate svc (oe_now env) dw (ctx_tenant_id ctx) oldKeyID label apiKey (pk_db_of (oe_fault env 0) st) keys of
                  (Inl e, _, keys') \<Rightarrow> (pk_error_reply e ''Rotate'', st, keys')
                | (Inr newKey, pdb, keys') \<Rightarrow>
                    ((200, []), recordAuditEvent env ctx ''PROVIDER_KEY.ROTATED'' ''provider_key'' (show_nat (pk_ID newKey))
                      (audit_opts AuditCategoryAccess (Some (JObj [(''old_key_id'', JInt (int oldKeyID))]))
                        (Some (JObj [(''new_key_id'', JInt (int (pk_ID newKey))), (''label'', JStr (pk_Label newKey))])))
                      (with_pk_db pdb st), keys'))))"

definition handleActivateProviderKey :: "('s, 'v) ProviderKeyService \<Rightarrow> org_env \<Rightarrow> rbac_ctx \<Rightarrow> string \<Rightarrow> org_db \<times> 's \<Rightarrow>
    api_reply \<times> org_db \<times> 's" where
  "handleActivateProviderKey svc env ctx param stt =
     (case stt of (st, s) \<Rightarrow>
      case path_id param of
        None \<Rightarrow> ((400, ''invalid key_id''), st, s)
      | Some keyID \<Rightarrow>
          (case Activate svc (oe_now env) (ctx_tenant_id ctx) keyID (pk_db_of (oe_fault env 0) st) s of
             (Some ErrProviderKeyNotFound, _, s') \<Rightarrow> ((404, ''provider key not found''), st, s')
           | (Some _, _, s') \<Rightarrow> ((500, ''failed to activate provider key''), st, s')
           | (None, pdb, s') \<Rightarrow>
               ((200, []), recordAuditEvent env ctx ''PROVIDER_KEY.ACTIVATED'' ''provider_key'' param (audit_opts AuditCategoryAccess None None)
                 (with_pk_db pdb st), s')))"

section \<open>Rate limits\<close>

record upsertRateLimitReq =
  rq_Provider :: string
  rq_Model :: string
  rq_ScopeType :: string
  rq_ScopeID :: string
  rq_Metric :: string
  rq_LimitValue :: int
  rq_WindowSeconds :: int
  rq_Enabled :: "bool option"

abbreviation "ScopeAccount \<equiv> ''account''"
abbreviation "ScopeAPIKey \<equiv> ''api_key''"
abbreviation "ScopeOfProject \<equiv> ''project''"

definition same_rate_limit :: "RateLimit \<Rightarrow> RateLimit \<Rightarrow> bool" where
  "same_rate_limit a b \<longleftrightarrow> rl_TenantID a = rl_TenantID b \<and> rl_Provider a = rl_Provider b \<and> rl_Model a = rl_Model b \<and>
     rl_ScopeType a = rl_ScopeType b \<and> rl_ScopeID a = rl_ScopeID b \<and> rl_Metric a = rl_Metric b"

definition rate_limit_of :: "nat \<Rightarrow> upsertRateLimitReq \<Rightarrow> RateLimit" where
  "rate_limit_of tenantID q = \<lparr>rl_ID = 0, rl_TenantID = tenantID, rl_Provider = rq_Provider q, rl_Model = rq_Model q,
     rl_ScopeType = (if rq_ScopeType q = [] then ScopeAccount else rq_ScopeType q), rl_ScopeID = rq_ScopeID q,
     rl_Metric = rq_Metric q, rl_LimitValue = rq_LimitValue q,
     rl_WindowSeconds = (if rq_WindowSeconds q \<le> 0 then 60 else rq_WindowSeconds q),
     rl_Enabled = (case rq_Enabled q of None \<Rightarrow> True | Some b \<Rightarrow> b)\<rparr>"

text \<open>The write of the upsert: None is its error. A new row takes the default of the column \<open>enabled\<close>.\<close>

definition upsert_rate_limit :: "org_env \<Rightarrow> RateLimit \<Rightarrow> int \<Rightarrow> org_db \<Rightarrow> (api_reply, string \<times> nat \<times> org_db) result" where
  "upsert_rate_limit env l limit st =
     (case db_first (oe_fault env 1) (same_rate_limit l) (db_rate_limits st) of
        Inr existing \<Rightarrow>
          if oe_fault env 2 then Inl (500, ''Save'')
          else Inr (''RATE_LIMIT.UPDATED'', rl_ID existing,
            st\<lparr>db_rate_limits := map (\<lambda>r. if rl_ID r = rl_ID existing
              then existing\<lparr>rl_LimitValue := rl_LimitValue l, rl_WindowSeconds := rl_WindowSeconds l, rl_Enabled := rl_Enabled l\<rparr>
              else r) (db_rate_limits st)\<rparr>)
      | Inl _ \<Rightarrow>
          if plan_full limit (db_count (oe_fault env 3) (\<lambda>r. rl_TenantID r = rl_TenantID l) (db_rate_limits st))
          then Inl (422, ''plan_limit_reached'')
          else if oe_fault env 4 \<or> list_ex (same_rate_limit l) (db_rate_limits st) then Inl (500, ''Create'')
          else Inr (''RATE_LIMIT.CREATED'', oe_newID env 0,
            st\<lparr>db_rate_limits := db_rate_limits st @ [l\<lparr>rl_ID := oe_newID env 0, rl_Enabled := True\<rparr>]\<rparr>))"

definition handleUpsertRateLimit :: "('s, 'v) limiter option \<Rightarrow> org_env \<Rightarrow> rbac_ctx \<Rightarrow> upsertRateLimitReq option \<Rightarrow> org_db \<times> 's \<Rightarrow>
    api_reply \<times> org_db \<times> 's" where
  "handleUpsertRateLimit rl env ctx req stt =
     (case stt of (st, s) \<Rightarrow>
      case req of
        None \<Rightarrow> ((400, ''binding''), st, s)
      | Some q \<Rightarrow>
          if rq_Metric q = [] \<or> rq_LimitValue q = 0 then ((400, ''binding''), st, s)
          else if rq_Metric q \<notin> {RateLimitMetricRPM, RateLimitMetricITPM, RateLimitMetricOTPM}
          then ((400, ''metric must be rpm, itpm, or otpm''), st, s)
          else if rq_LimitValue q \<le> 0 then ((400, ''limit_value must be > 0''), st, s)
          else (case first_tenant_row (oe_fault env 0) (ctx_tenant_id ctx) st of
             Inl _ \<Rightarrow> ((500, ''failed to load tenant''), st, s)
           | Inr tenant \<Rightarrow>
               (let limits = GetPlanLimits (ten_Plan tenant); l = rate_limit_of (ctx_tenant_id ctx) q
                in if \<not> AllowRateLimits limits then ((403, ''your plan does not support rate limits''), st, s)
                   else if rl_ScopeType l = ScopeAPIKey \<and> \<not> AllowPerKeyRateLimit limits
                   then ((403, ''your plan does not support per-key rate limits''), st, s)
                   else (case upsert_rate_limit env l (MaxRateLimits limits) st of
                      Inl r \<Rightarrow> (r, st, s)
                    | Inr (action, rowID, st1) \<Rightarrow>
                        ((200, []),
                         recordAuditEvent env ctx action ''rate_limit'' (show_nat rowID) (audit_opts AuditCategoryConfig None
                           (Some (JObj [(''metric'', JStr (rq_Metric q)), (''limit_value'', JInt (rq_LimitValue q)),
                             (''provider'', JStr (rq_Provider q)), (''model'', JStr (rq_Model q))]))) st1,
                         case rl of None \<Rightarrow> s | Some lm \<Rightarrow> InvalidateCache lm (ctx_tenant_id ctx) s)))))"

definition handleDeleteRateLimit :: "('s, 'v) limiter option \<Rightarrow> org_env \<Rightarrow> rbac_ctx \<Rightarrow> string \<Rightarrow> org_db \<times> 's \<Rightarrow> api_reply \<times> org_db \<times> 's" where
  "handleDeleteRateLimit rl env ctx param stt =
     (case stt of (st, s) \<Rightarrow>
      case path_id param of
        None \<Rightarrow> ((400, ''invalid id''), st, s)
      | Some i \<Rightarrow>
          (case db_first (oe_fault env 0) (\<lambda>r. rl_ID r = i) (db_rate_limits st) of
             Inl _ \<Rightarrow> ((404, ''rate limit not found''), st, s)
           | Inr r \<Rightarrow>
               if rl_TenantID r \<noteq> ctx_tenant_id ctx then ((403, ''forbidden''), st, s)
               else if oe_fault env 1 then ((500, ''Delete''), st, s)
               else ((200, []),
                     recordAuditEvent env ctx ''RATE_LIMIT.DELETED'' ''rate_limit'' param (audit_opts AuditCategoryConfig None None)
                       (st\<lparr>db_rate_limits := filter (\<lambda>r. rl_ID r \<noteq> i) (db_rate_limits st)\<rparr>),
                     case rl of None \<Rightarrow> s | Some lm \<Rightarrow> InvalidateCache lm (ctx_tenant_id ctx) s)))"

section \<open>Budgets\<close>

record upsertBudgetReq =
  bq_ScopeType :: string
  bq_ScopeID :: string
  bq_PeriodType :: string
  bq_Provider :: string
  bq_LimitAmount :: string
  bq_AlertThreshold :: string
  bq_Action :: string
  bq_Enabled :: "bool option"

text \<open>The library calls of the budget handlers: parsing of decimals, whether \<open>FirstOrCreate\<close> skips zero values.\<close>

record budget_env =
  be_decimal :: "string \<Rightarrow> rat option"
  be_skips_zero :: bool

definition same_budget :: "BudgetLimit \<Rightarrow> BudgetLimit \<Rightarrow> bool" where
  "same_budget a b \<longleftrightarrow> bl_TenantID a = bl_TenantID b \<and> bl_ScopeType a = bl_ScopeType b \<and> bl_ScopeID a = bl_ScopeID b \<and>
     bl_PeriodType a = bl_PeriodType b \<and> bl_Provider a = bl_Provider b"

definition budget_of :: "budget_env \<Rightarrow> nat \<Rightarrow> upsertBudgetReq \<Rightarrow> rat \<Rightarrow> BudgetLimit" where
  "budget_of be tenantID q amount = \<lparr>bl_ID = 0, bl_TenantID = tenantID,
     bl_ScopeType = (if bq_ScopeType q = [] then ScopeAccount else bq_ScopeType q), bl_ScopeID = bq_ScopeID q,
     bl_PeriodType = bq_PeriodType q, bl_Provider = bq_Provider q, bl_LimitAmount = amount,
     bl_AlertThreshold = (if bq_AlertThreshold q = [] then 80
       else case be_decimal be (bq_AlertThreshold q) of None \<Rightarrow> 80 | Some t \<Rightarrow> t),
     bl_Action = (if bq_Action q = [] then BudgetActionAlert else bq_Action q),
     bl_Enabled = (case bq_Enabled q of None \<Rightarrow> True | Some b \<Rightarrow> b)\<rparr>"

text \<open>The restrictions of the plan, None when the budget is allowed.\<close>

definition budget_refused :: "PlanLimits \<Rightarrow> BudgetLimit \<Rightarrow> api_reply option" where
  "budget_refused limits b =
     (if bl_PeriodType b \<notin> set (AllowedPeriods limits) then Some (403, ''plan_restriction'')
      else if (bl_Action b = BudgetActionBlock \<or> bl_Action b = BudgetActionAlertBlock) \<and> \<not> AllowBlockAction limits
      then Some (403, ''plan_restriction'')
      else if bl_ScopeType b = ScopeAPIKey \<and> \<not> AllowPerKeyBudget limits then Some (403, ''plan_restriction'')
      else if bl_ScopeType b = ScopeOfProject \<and> \<not> AllowPerKeyBudget limits then Some (403, ''plan_restriction'')
      else None)"

text \<open>\<open>FirstOrCreate\<close> with assigned values: it inserts the row or updates the first that matches. In both cases a row is
  affected, so that the update after it, meant for the other case, never runs.\<close>

definition first_or_create :: "org_env \<Rightarrow> budget_env \<Rightarrow> BudgetLimit \<Rightarrow> org_db \<Rightarrow> nat \<times> org_db" where
  "first_or_create env be b st =
     (case find (same_budget b) (db_budgets st) of
        None \<Rightarrow> (oe_newID env 0, st\<lparr>db_budgets := db_budgets st @ [b\<lparr>bl_ID := oe_newID env 0, bl_Enabled := True\<rparr>]\<rparr>)
      | Some old \<Rightarrow>
          (bl_ID old, st\<lparr>db_budgets := map (\<lambda>r. if bl_ID r = bl_ID old
             then old\<lparr>bl_LimitAmount := bl_LimitAmount b, bl_AlertThreshold := bl_AlertThreshold b, bl_Action := bl_Action b,
                      bl_Enabled := (if be_skips_zero be \<and> \<not> bl_Enabled b then bl_Enabled old else bl_Enabled b)\<rparr>
             else r) (db_budgets st)\<rparr>))"

definition budget_audit :: "upsertBudgetReq \<Rightarrow> BudgetLimit \<Rightarrow> AuditOpts" where
  "budget_audit q b = audit_opts AuditCategoryConfig None
     (Some (JObj [(''scope_type'', JStr (bl_ScopeType b)), (''period_type'', JStr (bl_PeriodType b)),
       (''limit_amount'', JStr (bq_LimitAmount q)), (''action'', JStr (bl_Action b))]))"

definition handleUpsertBudget :: "('s, 'v) engine option \<Rightarrow> budget_env \<Rightarrow> org_env \<Rightarrow> rbac_ctx \<Rightarrow> upsertBudgetReq option \<Rightarrow> org_db \<times> 's \<Rightarrow>
    api_reply \<times> org_db \<times> 's" where
  "handleUpsertBudget eng be env ctx req stt =
     (case stt of (st, s) \<Rightarrow>
      case req of
        None \<Rightarrow> ((400, ''binding''), st, s)
      | Some q \<Rightarrow>
          if bq_PeriodType q = [] \<or> bq_LimitAmount q = [] then ((400, ''binding''), st, s)
          else if bq_ScopeType q \<notin> {[], ScopeAccount, ScopeAPIKey, ScopeOfProject}
          then ((400, ''scope_type must be account, api_key, or project''), st, s)
          else if bq_Provider q \<notin> {[], ''anthropic'', ''openai''}
          then ((400, ''provider must be empty, anthropic, or openai''), st, s)
          else (case be_decimal be (bq_LimitAmount q) of
             None \<Rightarrow> ((400, ''invalid limit_amount''), st, s)
           | Some amount \<Rightarrow>
               (case first_tenant_row (oe_fault env 0) (ctx_tenant_id ctx) st of
                  Inl _ \<Rightarrow> ((500, ''failed to fetch tenant''), st, s)
                | Inr tenant \<Rightarrow>
                    (let limits = GetPlanLimits (ten_Plan tenant); b = budget_of be (ctx_tenant_id ctx) q amount
                     in case budget_refused limits b of
                          Some r \<Rightarrow> (r, st, s)
                        | None \<Rightarrow>
                            (let isNew = isl (db_first (oe_fault env 1) (same_budget b) (db_budgets st))
                             in if isNew \<and> plan_full (MaxBudgetLimits limits)
                                     (db_count (oe_fault env 2) (\<lambda>r. bl_TenantID r = ctx_tenant_id ctx) (db_budgets st))
                                then ((422, ''plan_limit_reached''), st, s)
                                else if oe_fault env 3 then ((500, ''FirstOrCreate''), st, s)
                                else (case first_or_create env be b st of (rowID, st1) \<Rightarrow>
                                   ((200, []),
                                    recordAuditEvent env ctx (if isNew then ''BUDGET.CREATED'' else ''BUDGET.UPDATED'') ''budget_limit''
                                      (show_nat rowID) (budget_audit q b) st1,
                                    case eng of None \<Rightarrow> s | Some e \<Rightarrow> InvalidateBudgetCache e (ctx_tenant_id ctx) s)))))))"

definition handleDeleteBudget :: "('s, 'v) engine option \<Rightarrow> org_env \<Rightarrow> rbac_ctx \<Rightarrow> string \<Rightarrow> org_db \<times> 's \<Rightarrow> api_reply \<times> org_db \<times> 's" where
  "handleDeleteBudget eng env ctx param stt =
     (case stt of (st, s) \<Rightarrow>
      case path_id param of
        None \<Rightarrow> ((400, ''invalid budget_id''), st, s)
      | Some i \<Rightarrow>
          (let hit = (\<lambda>b. bl_ID b = i \<and> bl_TenantID b = ctx_tenant_id ctx)
           in if oe_fault env 0 then ((500, ''Delete''), st, s)
              else if \<not> list_ex hit (db_budgets st) then ((404, ''budget limit not found''), st, s)
              else ((200, []),
                    recordAuditEvent env ctx ''BUDGET.DELETED'' ''budget_limit'' param (audit_opts AuditCategoryConfig None None)
                      (st\<lparr>db_budgets := filter (\<lambda>b. \<not> hit b) (db_budgets st)\<rparr>),
                    case eng of None \<Rightarrow> s | Some e \<Rightarrow> InvalidateBudgetCache e (ctx_tenant_id ctx) s)))"

section \<open>Notification channels\<close>

text \<open>A request; in an update the empty string, no configuration and no event types leave the field as it is.\<close>

record channelReq =
  hq_ChannelType :: string
  hq_Name :: string
  hq_Config :: "string option"
  hq_EventTypes :: "string list option"
  hq_Enabled :: "bool option"

definition channel_types :: "string list" where
  "channel_types = [''email'', ''slack'', ''webhook'']"

definition channel_events :: "string list" where
  "channel_events = [''budget_blocked'', ''budget_warning'', ''rate_limit_exceeded'']"

definition handleCreateNotificationChannel :: "org_env \<Rightarrow> rbac_ctx \<Rightarrow> channelReq option \<Rightarrow> org_db \<Rightarrow> api_reply \<times> org_db" where
  "handleCreateNotificationChannel env ctx req st =
     (case req of
        None \<Rightarrow> ((400, ''binding''), st)
      | Some q \<Rightarrow>
          (let typ = hq_ChannelType q; name = hq_Name q in
          case (hq_Config q, hq_EventTypes q) of (Some config, Some events) \<Rightarrow>
          if typ = [] then ((400, ''binding''), st)
          else if typ \<notin> set channel_types then ((400, ''channel_type must be email, slack, or webhook''), st)
          else if \<not> set events \<subseteq> set channel_events then ((400, ''invalid event_type''), st)
          else (case first_tenant_row (oe_fault env 0) (ctx_tenant_id ctx) st of
             Inl _ \<Rightarrow> ((500, ''failed to fetch tenant''), st)
           | Inr tenant \<Rightarrow>
               if plan_full (MaxNotificationChannels (GetPlanLimits (ten_Plan tenant)))
                    (db_count (oe_fault env 1) (\<lambda>c. nc_TenantID c = ctx_tenant_id ctx) (db_channels st))
               then ((422, ''plan_limit_reached''), st)
               else if oe_fault env 2 then ((500, ''Create''), st)
               else ((201, []), recordAuditEvent env ctx ''NOTIFICATION_CHANNEL.CREATED'' ''notification_channel'' (show_nat (oe_newID env 0))
                      (audit_opts AuditCategoryConfig None (Some (JObj [(''type'', JStr typ), (''name'', JStr name)])))
                      (st\<lparr>db_channels := db_channels st @ [\<lparr>nc_ID = oe_newID env 0, nc_TenantID = ctx_tenant_id ctx,
                         nc_ChannelType = typ, nc_Name = name, nc_Config = config, nc_EventTypes = events, nc_Enabled = True\<rparr>]\<rparr>)))
          | _ \<Rightarrow> ((400, ''binding''), st)))"

definition first_channel :: "org_env \<Rightarrow> rbac_ctx \<Rightarrow> string \<Rightarrow> org_db \<Rightarrow> (api_reply, NotificationChannel) result" where
  "first_channel env ctx param st =
     (case path_id param of
        None \<Rightarrow> Inl (400, ''invalid id'')
      | Some i \<Rightarrow>
          (case db_first (oe_fault env 0) (\<lambda>c. nc_ID c = i) (db_channels st) of
             Inl _ \<Rightarrow> Inl (404, ''notification channel not found'')
           | Inr c \<Rightarrow> if nc_TenantID c \<noteq> ctx_tenant_id ctx then Inl (403, ''forbidden'') else Inr c))"

definition merge_channel :: "channelReq \<Rightarrow> NotificationChannel \<Rightarrow> NotificationChannel" where
  "merge_channel q c = c\<lparr>nc_ChannelType := (if hq_ChannelType q \<noteq> [] then hq_ChannelType q else nc_ChannelType c),
     nc_Name := (if hq_Name q \<noteq> [] then hq_Name q else nc_Name c),
     nc_Config := (case hq_Config q of None \<Rightarrow> nc_Config c | Some x \<Rightarrow> x),
     nc_EventTypes := (case hq_EventTypes q of None \<Rightarrow> nc_EventTypes c | Some x \<Rightarrow> x),
     nc_Enabled := (case hq_Enabled q of None \<Rightarrow> nc_Enabled c | Some b \<Rightarrow> b)\<rparr>"

definition handleUpdateNotificationChannel :: "org_env \<Rightarrow> rbac_ctx \<Rightarrow> string \<Rightarrow> channelReq option \<Rightarrow> org_db \<Rightarrow> api_reply \<times> org_db" where
  "handleUpdateNotificationChannel env ctx param req st =
     (case first_channel env ctx param st of
        Inl r \<Rightarrow> (r, st)
      | Inr c \<Rightarrow>
          (case req of
             None \<Rightarrow> ((400, ''binding''), st)
           | Some q \<Rightarrow>
               if hq_ChannelType q \<noteq> [] \<and> hq_ChannelType q \<notin> set channel_types
               then ((400, ''channel_type must be email, slack, or webhook''), st)
               else if (case hq_EventTypes q of None \<Rightarrow> False | Some events \<Rightarrow> \<not> set events \<subseteq> set channel_events)
               then ((400, ''invalid event_type''), st)
               else if oe_fault env 1 then ((500, ''Save''), st)
               else ((200, []), recordAuditEvent env ctx ''NOTIFICATION_CHANNEL.UPDATED'' ''notification_channel'' (show_nat (nc_ID c))
                      (audit_opts AuditCategoryConfig None None)
                      (st\<lparr>db_channels := map (\<lambda>r. if nc_ID r = nc_ID c then merge_channel q c else r) (db_channels st)\<rparr>))))"

definition handleDeleteNotificationChannel :: "org_env \<Rightarrow> rbac_ctx \<Rightarrow> string \<Rightarrow> org_db \<Rightarrow> api_reply \<times> org_db" where
  "handleDeleteNotificationChannel env ctx param st =
     (case first_channel env ctx param st of
        Inl r \<Rightarrow> (r, st)
      | Inr c \<Rightarrow>
          if oe_fault env 1 then ((500, ''Delete''), st)
          else ((200, []), recordAuditEvent env ctx ''NOTIFICATION_CHANNEL.DELETED'' ''notification_channel'' param
                 (audit_opts AuditCategoryConfig None None)
                 (st\<lparr>db_channels := filter (\<lambda>r. nc_ID r \<noteq> nc_ID c) (db_channels st)\<rparr>)))"

end
