(* ===== verification/Dashboard.thy ===== *)
theory Dashboard
  imports Signup Quotas
begin

text \<open>
  The dashboard as a whole: the routes with the role each asks for (\<open>api/server.go\<close>), requests that pass the two gates of
  \<open>Authz\<close> and reach their handler, and the transitions of the organisation tables that requests, sign-ups and
  the platform operator cause, with the invariants that hold in every state they reach.

  A transition runs the gates and the handler in one state. What happens when a second request comes between
  them is stated separately, with the context that the gates gave out before.
\<close>

section \<open>Requests and routes\<close>

datatype org_request =
  InviteUser "inviteUserReq option"
| UpdateUserRole string "string option"
| SuspendUser string
| UnsuspendUser string
| RemoveUser string
| AcceptInvitation string
| DenyInvitation string
| UpdateOnboardingHints "(bool option \<times> bool option) option"
| PromoteAdmin string
| DemoteAdmin string
| TransferOwnership "string option"
| UpdateTenantSettings "string option option"
| DeleteAccount "string option"
| CreateProject "(string \<times> string) option"
| UpdateProject string "(string option \<times> string option) option"
| DeleteProject string
| AddProjectMember string "(string \<times> string) option"
| UpdateProjectMemberRole string string "string option"
| RemoveProjectMember string string
| CreateChannel "channelReq option"
| UpdateChannel string "channelReq option"
| DeleteChannel string

fun route_role :: "org_request \<Rightarrow> string" where
  "route_role (InviteUser _) = RoleEditor"
| "route_role (UpdateUserRole _ _) = RoleEditor"
| "route_role (SuspendUser _) = RoleEditor"
| "route_role (UnsuspendUser _) = RoleEditor"
| "route_role (RemoveUser _) = RoleEditor"
| "route_role (AcceptInvitation _) = RoleViewer"
| "route_role (DenyInvitation _) = RoleViewer"
| "route_role (UpdateOnboardingHints _) = RoleViewer"
| "route_role (PromoteAdmin _) = RoleOwner"
| "route_role (DemoteAdmin _) = RoleOwner"
| "route_role (TransferOwnership _) = RoleOwner"
| "route_role (UpdateTenantSettings _) = RoleOwner"
| "route_role (DeleteAccount _) = RoleOwner"
| "route_role (CreateProject _) = RoleAdmin"
| "route_role (UpdateProject _ _) = RoleAdmin"
| "route_role (DeleteProject _) = RoleAdmin"
| "route_role (AddProjectMember _ _) = RoleAdmin"
| "route_role (UpdateProjectMemberRole _ _ _) = RoleAdmin"
| "route_role (RemoveProjectMember _ _) = RoleAdmin"
| "route_role (CreateChannel _) = RoleEditor"
| "route_role (UpdateChannel _ _) = RoleEditor"
| "route_role (DeleteChannel _) = RoleEditor"

fun handle :: "org_env \<Rightarrow> rbac_ctx \<Rightarrow> org_request \<Rightarrow> org_db \<Rightarrow> api_reply \<times> org_db" where
  "handle env ctx (InviteUser q) st = handleInviteUser env ctx q st"
| "handle env ctx (UpdateUserRole u r) st = handleUpdateUserRole env ctx u r st"
| "handle env ctx (SuspendUser u) st = handleSuspendUser env ctx u st"
| "handle env ctx (UnsuspendUser u) st = handleUnsuspendUser env ctx u st"
| "handle env ctx (RemoveUser u) st = handleRemoveUser env ctx u st"
| "handle env ctx (AcceptInvitation p) st = handleAcceptInvitation env ctx p st"
| "handle env ctx (DenyInvitation p) st = handleDenyInvitation env ctx p st"
| "handle env ctx (UpdateOnboardingHints q) st = handleUpdateOnboardingHints env ctx q st"
| "handle env ctx (PromoteAdmin u) st = handlePromoteAdmin env ctx u st"
| "handle env ctx (DemoteAdmin u) st = handleDemoteAdmin env ctx u st"
| "handle env ctx (TransferOwnership u) st = handleTransferOwnership env ctx u st"
| "handle env ctx (UpdateTenantSettings n) st = handleUpdateTenantSettings env ctx n st"
| "handle env ctx (DeleteAccount n) st = handleDeleteAccount env ctx n st"
| "handle env ctx (CreateProject q) st = handleCreateProject env ctx q st"
| "handle env ctx (UpdateProject p q) st = handleUpdateProject env ctx p q st"
| "handle env ctx (DeleteProject p) st = handleDeleteProject env ctx p st"
| "handle env ctx (AddProjectMember p q) st = handleAddProjectMember env ctx p q st"
| "handle env ctx (UpdateProjectMemberRole p u r) st = handleUpdateProjectMemberRole env ctx p u r st"
| "handle env ctx (RemoveProjectMember p u) st = handleRemoveProjectMember env ctx p u st"
| "handle env ctx (CreateChannel q) st = handleCreateNotificationChannel env ctx q st"
| "handle env ctx (UpdateChannel p q) st = handleUpdateNotificationChannel env ctx p q st"
| "handle env ctx (DeleteChannel p) st = handleDeleteNotificationChannel env ctx p st"

text \<open>The two gates in front of a route: the user and the tenant from the headers, and the role.\<close>

definition admit :: "org_db \<Rightarrow> string \<Rightarrow> string \<Rightarrow> string \<Rightarrow> (abort, rbac_ctx) result" where
  "admit st userID tenantHeader minRole =
     (case RequireUser (authz_db.truncate st) userID tenantHeader of
        Inl a \<Rightarrow> Inl a | Inr ctx \<Rightarrow> RequireOrgRole minRole ctx)"

definition serve :: "org_env \<Rightarrow> string \<Rightarrow> string \<Rightarrow> org_request \<Rightarrow> org_db \<Rightarrow> api_reply \<times> org_db" where
  "serve env userID tenantHeader req st =
     (case admit st userID tenantHeader (route_role req) of
        Inl (abort.Abort status err) \<Rightarrow> ((status, err), st)
      | Inr ctx \<Rightarrow> handle env ctx req st)"

lemma admit_Inr:
  "admit st uid ts minRole = Inr c \<longleftrightarrow>
    (\<exists>user tid m. uid \<noteq> [] \<and> find (\<lambda>u. usr_ID u = uid) (db_users st) = Some user \<and>
        User_IsActive user \<and> parse_uint ts = Some tid \<and> tid \<noteq> 0 \<and>
        find (is_member tid uid) (db_memberships st) = Some m \<and>
        tm_Status m = StatusActive \<and> RoleLevel minRole \<le> RoleLevel (tm_OrgRole m) \<and>
        c = \<lparr>ctx_user = user, ctx_tenant_id = tid, ctx_org_role = tm_OrgRole m\<rparr>)"
proof -
  have e: "is_member t u = (\<lambda>m. tm_TenantID m = t \<and> tm_UserID m = u)" for t u by (simp add: fun_eq_iff is_member_def)
  have "admit st uid ts minRole = Inr c \<longleftrightarrow> RequireUser (authz_db.truncate st) uid ts = Inr c \<and> RoleLevel minRole \<le> RoleLevel (ctx_org_role c)"
    by (auto simp: admit_def RequireOrgRole_def split: sum.splits)
  moreover have "db_users (authz_db.truncate st) = db_users st" "db_memberships (authz_db.truncate st) = db_memberships st"
    by (simp_all add: authz_db.defs)
  ultimately have eq: "admit st uid ts minRole = Inr c \<longleftrightarrow>
      (\<exists>user tid m. uid \<noteq> [] \<and> find (\<lambda>u. usr_ID u = uid) (db_users st) = Some user \<and>
        User_IsActive user \<and> parse_uint ts = Some tid \<and> tid \<noteq> 0 \<and> find (is_member tid uid) (db_memberships st) = Some m \<and>
        tm_Status m = StatusActive \<and> c = \<lparr>ctx_user = user, ctx_tenant_id = tid, ctx_org_role = tm_OrgRole m\<rparr>) \<and>
      RoleLevel minRole \<le> RoleLevel (ctx_org_role c)"
    unfolding RequireUser_Inr e by simp
  have role: "c = \<lparr>ctx_user = u, ctx_tenant_id = t, ctx_org_role = r\<rparr> \<Longrightarrow> ctx_org_role c = r" for u t r by simp
  show ?thesis unfolding eq by (rule iffI) (metis role, metis role)
qed

text \<open>What an admitted caller is: a user of the table, an active member of the tenant with the role of the context.\<close>

lemma admitted:
  assumes "admit st uid ts minRole = Inr c"
  shows "usr_ID (ctx_user c) = uid" "RoleLevel minRole \<le> RoleLevel (ctx_org_role c)" "ctx_tenant_id c \<noteq> 0"
    and "\<exists>m \<in> set (db_memberships st). is_member (ctx_tenant_id c) uid m \<and> tm_OrgRole m = ctx_org_role c \<and> tm_Status m = StatusActive"
proof -
  from assms obtain user tid m where a: "find (\<lambda>u. usr_ID u = uid) (db_users st) = Some user" "tid \<noteq> 0"
    "find (is_member tid uid) (db_memberships st) = Some m" "tm_Status m = StatusActive" "RoleLevel minRole \<le> RoleLevel (tm_OrgRole m)"
    "c = \<lparr>ctx_user = user, ctx_tenant_id = tid, ctx_org_role = tm_OrgRole m\<rparr>"
    unfolding admit_Inr by blast
  with find_SomeD [OF a(1)] find_SomeD [OF a(3)]
  have m: "m \<in> set (db_memberships st)" "is_member tid uid m" and u: "usr_ID user = uid" by blast+
  show "usr_ID (ctx_user c) = uid" "RoleLevel minRole \<le> RoleLevel (ctx_org_role c)" "ctx_tenant_id c \<noteq> 0"
    using a u by simp_all
  show "\<exists>m \<in> set (db_memberships st). is_member (ctx_tenant_id c) uid m \<and> tm_OrgRole m = ctx_org_role c \<and> tm_Status m = StatusActive"
    using a m by (intro bexI [of _ m]) simp_all
qed

lemma serve_cases:
  assumes "serve env uid ts req st = (r, st')"
  obtains (refused) "st' = st"
  | (handled) c where "admit st uid ts (route_role req) = Inr c" "handle env c req st = (r, st')"
  using assms by (auto simp: serve_def split: sum.splits abort.splits)

end
