(* ===== verification/Superadmin.thy ===== *)
theory Superadmin
  imports Quotas
begin

text \<open>
  The platform operator (\<open>api/superadmin.go\<close>, \<open>api/server.go\<close>): the gates of the internal and of the super-admin routes, the
  list of operators, the change of a tenant's plan and of its status, and the lists of tenants.

  An operator is the user of the header \<open>X-User-ID\<close> whose email is in the list of the configuration; the gate asks for
  nothing else. What Stripe reports as paid is a parameter of the lists. Rows with the same creation time come in
  the order of the table, which SQL leaves open; the match of a search text is a parameter.
\<close>

section \<open>The gates\<close>

fun strings_Split :: "char \<Rightarrow> string \<Rightarrow> string list" where
  "strings_Split sep [] = [[]]"
| "strings_Split sep (c # cs) =
     (if c = sep then [] # strings_Split sep cs
      else case strings_Split sep cs of [] \<Rightarrow> [[c]] | s # ss \<Rightarrow> (c # s) # ss)"

definition parseSuperAdminEmails :: "string \<Rightarrow> string list" where
  "parseSuperAdminEmails raw =
     filter (\<lambda>e. e \<noteq> []) (map (\<lambda>e. strings_TrimSpace (strings_ToLower e)) (strings_Split (CHR '','') raw))"

definition superAdminMiddleware :: "string list \<Rightarrow> org_env \<Rightarrow> string \<Rightarrow> org_db \<Rightarrow> (api_reply, User) result" where
  "superAdminMiddleware emails env userID st =
     (if emails = [] then Inl (503, ''super admin API not configured'')
      else if userID = [] then Inl (401, ''authentication required'')
      else (case db_first (oe_fault env 20) (\<lambda>u. usr_ID u = userID) (db_users st) of
         Inl _ \<Rightarrow> Inl (401, ''user not found'')
       | Inr user \<Rightarrow>
           if strings_ToLower (usr_Email user) \<notin> set emails then Inl (403, ''not a super admin'') else Inr user))"

definition internalSecretMiddleware :: "string \<Rightarrow> string \<Rightarrow> api_reply option" where
  "internalSecretMiddleware internalSecret header =
     (if internalSecret = [] then Some (503, ''internal API not configured'')
      else if header \<noteq> internalSecret then Some (401, ''invalid internal secret'')
      else None)"

section \<open>Plan and status of a tenant\<close>

definition quoted_field :: "string \<Rightarrow> string \<Rightarrow> string" where
  "quoted_field name v = ''{'' @ CHR 0x22 # name @ CHR 0x22 # '':'' @ CHR 0x22 # v @ CHR 0x22 # ''}''"

definition record_operator :: "org_env \<Rightarrow> User \<Rightarrow> string \<Rightarrow> nat \<Rightarrow> string \<Rightarrow> string \<Rightarrow> org_db \<Rightarrow> org_db" where
  "record_operator env actor action tenantID before after st =
     (if oe_audit_down env then st
      else st\<lparr>db_audit := db_audit st @
        [\<lparr>al_TenantID = tenantID, al_ActorUserID = usr_ID actor, al_Action = action, al_ResourceType = ''tenant'',
          al_ResourceID = show_nat tenantID, al_Category = ''ADMIN'', al_ActorType = ''superadmin'', al_UserAgent = oe_agent env,
          al_Success = True, al_IPAddress = oe_ip env, al_BeforeJSON = before, al_AfterJSON = after, al_Metadata = ''{}'',
          al_CreatedAt = oe_now env\<rparr>]\<rparr>)"

definition handleSuperAdminChangePlan :: "org_env \<Rightarrow> User \<Rightarrow> string \<Rightarrow> string option \<Rightarrow> org_db \<Rightarrow> api_reply \<times> org_db" where
  "handleSuperAdminChangePlan env actor param req st =
     (case req of
        None \<Rightarrow> ((400, ''binding''), st)
      | Some plan \<Rightarrow>
          if plan = [] then ((400, ''binding''), st)
          else (case tenant_param param of
             None \<Rightarrow> ((400, ''invalid tenant_id''), st)
           | Some tenantID \<Rightarrow>
               (case first_tenant_row (oe_fault env 9) tenantID st of
                  Inl _ \<Rightarrow> ((404, ''tenant not found''), st)
                | Inr tenant \<Rightarrow>
                    (case applyPlanChange env tenantID plan st of
                       ((status, err), st') \<Rightarrow>
                         if status \<noteq> 0 then ((status, err), st')
                         else ((200, []), record_operator env actor ''SUPERADMIN.PLAN_CHANGED'' tenantID
                                (quoted_field ''plan'' (ten_Plan tenant)) (quoted_field ''plan'' plan) st')))))"

definition handleSuperAdminUpdateTenantStatus :: "org_env \<Rightarrow> User \<Rightarrow> string \<Rightarrow> string option \<Rightarrow> org_db \<Rightarrow> api_reply \<times> org_db" where
  "handleSuperAdminUpdateTenantStatus env actor param req st =
     (case req of
        None \<Rightarrow> ((400, ''binding''), st)
      | Some status \<Rightarrow>
          if status = [] then ((400, ''binding''), st)
          else if status \<noteq> ''active'' \<and> status \<noteq> ''suspended'' then ((400, ''invalid_status''), st)
          else (case tenant_param param of
             None \<Rightarrow> ((400, ''invalid tenant_id''), st)
           | Some tenantID \<Rightarrow>
               (case first_tenant_row (oe_fault env 0) tenantID st of
                  Inl _ \<Rightarrow> ((404, ''tenant not found''), st)
                | Inr tenant \<Rightarrow>
                    if oe_fault env 1 then ((500, ''failed to update tenant status''), st)
                    else ((200, []), record_operator env actor ''SUPERADMIN.STATUS_CHANGED'' tenantID
                           (quoted_field ''status'' (ten_Status tenant)) (quoted_field ''status'' status)
                           (update_tenant_row tenantID (\<lambda>t. t\<lparr>ten_Status := status\<rparr>) st)))))"

datatype operator_request = SetTenantPlan string "string option" | SetTenantStatus string "string option"

fun operate :: "org_env \<Rightarrow> User \<Rightarrow> operator_request \<Rightarrow> org_db \<Rightarrow> api_reply \<times> org_db" where
  "operate env actor (SetTenantPlan param plan) st = handleSuperAdminChangePlan env actor param plan st"
| "operate env actor (SetTenantStatus param status) st = handleSuperAdminUpdateTenantStatus env actor param status st"

definition serve_operator :: "string list \<Rightarrow> org_env \<Rightarrow> string \<Rightarrow> operator_request \<Rightarrow> org_db \<Rightarrow> api_reply \<times> org_db" where
  "serve_operator emails env userID req st =
     (case superAdminMiddleware emails env userID st of Inl r \<Rightarrow> (r, st) | Inr actor \<Rightarrow> operate env actor req st)"

section \<open>Lists of tenants\<close>

record tenantListItem =
  tli_ID :: nat
  tli_Name :: string
  tli_Plan :: string
  tli_Status :: string
  tli_BillingEmail :: string
  tli_MemberCount :: int
  tli_APIKeyCount :: int
  tli_TotalPaid :: rat
  tli_CreatedAt :: int

record tenantPage =
  tp_Items :: "tenantListItem list"
  tp_Total :: int
  tp_Page :: int
  tp_PerPage :: int
  tp_TotalPages :: int

text \<open>\<open>Atoi\<close> with its error ignored.\<close>

definition list_page :: "string \<Rightarrow> int" where
  "list_page raw = (let n = fst (ParseInt (if raw = [] then ''1'' else raw)) in if n < 1 then 1 else n)"

definition list_per_page :: "string \<Rightarrow> int" where
  "list_per_page raw = (let n = fst (ParseInt (if raw = [] then ''25'' else raw)) in if n < 1 \<or> 100 < n then 25 else n)"

definition tenant_matches :: "(string \<Rightarrow> string \<Rightarrow> bool) \<Rightarrow> string \<Rightarrow> string \<Rightarrow> string \<Rightarrow> Tenant \<Rightarrow> bool" where
  "tenant_matches ilike search plan status t \<longleftrightarrow>
     (search = [] \<or> ilike (''%'' @ search @ ''%'') (ten_Name t) \<or> ilike (''%'' @ search @ ''%'') (ten_BillingEmail t)) \<and>
     (plan = [] \<or> ten_Plan t = plan) \<and> (status = [] \<or> ten_Status t = status)"

definition tenant_item :: "(string \<Rightarrow> int) \<Rightarrow> org_db \<Rightarrow> Tenant \<Rightarrow> tenantListItem" where
  "tenant_item paid st t =
     \<lparr>tli_ID = ten_ID t, tli_Name = ten_Name t, tli_Plan = ten_Plan t, tli_Status = ten_Status t,
      tli_BillingEmail = ten_BillingEmail t,
      tli_MemberCount = db_count False (\<lambda>m. tm_TenantID m = ten_ID t) (db_memberships st),
      tli_APIKeyCount = db_count False (\<lambda>k. ak_TenantID k = ten_ID t \<and> \<not> ak_Revoked k) (db_keys st),
      tli_TotalPaid = of_int (if ten_StripeCustomerID t \<noteq> [] then paid (ten_StripeCustomerID t) else 0) / 100,
      tli_CreatedAt = ten_CreatedAt t\<rparr>"

text \<open>\<open>handleListAllTenants\<close> on a database that answers. A negative offset is no offset.\<close>

definition handleListAllTenants :: "(string \<Rightarrow> string \<Rightarrow> bool) \<Rightarrow> (string \<Rightarrow> int) \<Rightarrow> string \<Rightarrow> string \<Rightarrow> string \<Rightarrow> string \<Rightarrow> string \<Rightarrow>
    org_db \<Rightarrow> tenantPage" where
  "handleListAllTenants ilike paid search plan status rawPage rawPerPage st =
     (let page = list_page rawPage; perPage = list_per_page rawPerPage;
          found = filter (tenant_matches ilike search plan status) (db_tenants st);
          total = int (length found)
      in \<lparr>tp_Items = map (tenant_item paid st)
            (take (nat perPage) (drop (nat (wrap64 ((page - 1) * perPage))) (sort_key (\<lambda>t. - ten_CreatedAt t) found))),
          tp_Total = total, tp_Page = page, tp_PerPage = perPage,
          tp_TotalPages = \<lceil>rat_of_int total / rat_of_int perPage\<rceil>\<rparr>)"

section \<open>The pages of the list\<close>

lemma concat_pages: "concat (map (\<lambda>i. take k (drop (i * k) xs)) [0..<n]) = take (n * k) xs"
proof (induction n)
  case (Suc n)
  have "take (n * k + k) xs = take (n * k) xs @ take k (drop (n * k) xs)" by (rule take_add)
  with Suc show ?case by (simp add: add.commute)
qed simp

lemma list_per_page_bounds: "1 \<le> list_per_page raw \<and> list_per_page raw \<le> 100"
  by (simp add: list_per_page_def Let_def)

lemma list_page_show: "1 \<le> i \<Longrightarrow> int64_range i \<Longrightarrow> list_page (show_int i) = i"
proof -
  have "show_int i \<noteq> []" by (simp add: show_int_def show_nat_not_Nil)
  then show "1 \<le> i \<Longrightarrow> int64_range i \<Longrightarrow> list_page (show_int i) = i" by (simp add: list_page_def)
qed

lemma page_items:
  assumes "int j < 2 ^ 55"
  shows "tp_Items (handleListAllTenants ilike paid search plan status (show_int (int j + 1)) rawPP st) =
    map (tenant_item paid st) (take (nat (list_per_page rawPP)) (drop (j * nat (list_per_page rawPP))
      (sort_key (\<lambda>t. - ten_CreatedAt t) (filter (tenant_matches ilike search plan status) (db_tenants st)))))"
proof -
  let ?k = "list_per_page rawPP"
  have k: "1 \<le> ?k" "?k \<le> 100" using list_per_page_bounds [of rawPP] by simp_all
  have p: "list_page (show_int (int j + 1)) = int j + 1"
    by (rule list_page_show) (use assms in \<open>simp_all add: int64_range_def\<close>)
  have "int j * ?k \<le> 2 ^ 55 * 100" using assms k by (intro mult_mono) simp_all
  moreover have "0 \<le> int j * ?k" using k by simp
  ultimately have "int64_range (int j * ?k)" by (simp add: int64_range_def)
  then have "wrap64 (int j * ?k) = int j * ?k" by (rule wrap64_id)
  moreover have "nat (int j * ?k) = j * nat ?k" using k by (simp add: nat_mult_distrib)
  ultimately show ?thesis by (simp add: handleListAllTenants_def p Let_def)
qed

lemma enough_pages:
  assumes "1 \<le> (k::int)"
  shows "int n \<le> \<lceil>rat_of_int (int n) / rat_of_int k\<rceil> * k"
proof -
  have "rat_of_int (int n) / rat_of_int k \<le> of_int \<lceil>rat_of_int (int n) / rat_of_int k\<rceil>" by (rule le_of_int_ceiling)
  then have "rat_of_int (int n) \<le> of_int \<lceil>rat_of_int (int n) / rat_of_int k\<rceil> * rat_of_int k"
    by (rule pos_divide_le_eq [THEN iffD1, rotated]) (use assms in simp)
  then have "rat_of_int (int n) \<le> rat_of_int (\<lceil>rat_of_int (int n) / rat_of_int k\<rceil> * k)" by simp
  then show ?thesis by (simp only: of_int_le_iff)
qed

lemma enough_pages_nat:
  assumes "1 \<le> (k::int)"
  shows "n \<le> nat \<lceil>rat_of_int (int n) / rat_of_int k\<rceil> * nat k"
proof -
  let ?p = "\<lceil>rat_of_int (int n) / rat_of_int k\<rceil>"
  have p: "0 \<le> ?p * k" using enough_pages [OF assms, of n] by linarith
  then have "n \<le> nat (?p * k)" using enough_pages [OF assms, of n] by (simp only: le_nat_iff)
  moreover have "0 \<le> ?p" using p assms by (simp add: zero_le_mult_iff)
  ultimately show ?thesis by (simp only: nat_mult_distrib)
qed

lemma ceiling_le_self: "1 \<le> (k::int) \<Longrightarrow> \<lceil>rat_of_int (int n) / rat_of_int k\<rceil> \<le> int n"
  by (simp add: ceiling_le_iff divide_le_eq mult_le_cancel_left1)

lemma pages_cover:
  assumes "length (db_tenants st) < 2 ^ 55"
  shows "concat (map (\<lambda>i. tp_Items (handleListAllTenants ilike paid search plan status (show_int (int i + 1)) rawPP st))
      [0..<nat (tp_TotalPages (handleListAllTenants ilike paid search plan status page rawPP st))]) =
    map (tenant_item paid st)
      (sort_key (\<lambda>t. - ten_CreatedAt t) (filter (tenant_matches ilike search plan status) (db_tenants st)))"
proof -
  let ?xs = "sort_key (\<lambda>t. - ten_CreatedAt t) (filter (tenant_matches ilike search plan status) (db_tenants st))"
  let ?k = "list_per_page rawPP" and ?n = "length (filter (tenant_matches ilike search plan status) (db_tenants st))"
  let ?pages = "\<lceil>rat_of_int (int ?n) / rat_of_int ?k\<rceil>"
  have k: "1 \<le> ?k" using list_per_page_bounds [of rawPP] by simp
  have total: "tp_TotalPages (handleListAllTenants ilike paid search plan status page rawPP st) = ?pages"
    by (simp add: handleListAllTenants_def Let_def)
  have "?n \<le> length (db_tenants st)" by (rule length_filter_le)
  then have "?n < 2 ^ 55" using assms by (rule le_less_trans)
  then have "int ?n < 2 ^ 55" by simp
  with ceiling_le_self [OF k, of ?n] have small: "int i < 2 ^ 55" if "i < nat ?pages" for i using that by linarith
  have items: "map (\<lambda>i. tp_Items (handleListAllTenants ilike paid search plan status (show_int (int i + 1)) rawPP st)) [0..<nat ?pages] =
      map (\<lambda>i. map (tenant_item paid st) (take (nat ?k) (drop (i * nat ?k) ?xs))) [0..<nat ?pages]"
    using small by (intro map_cong) (simp_all add: page_items)
  have "concat (map (\<lambda>i. map (tenant_item paid st) (take (nat ?k) (drop (i * nat ?k) ?xs))) [0..<nat ?pages]) =
      map (tenant_item paid st) (take (nat ?pages * nat ?k) ?xs)"
    by (simp only: concat_pages [symmetric] map_concat map_map comp_def)
  moreover have "length ?xs \<le> nat ?pages * nat ?k"
    using enough_pages_nat [OF k, of ?n] by (simp only: length_sort)
  ultimately show ?thesis unfolding total items by simp
qed

end
