(* ===== verification/Ownership.thy ===== *)
theory Ownership
  imports Dashboard Superadmin
begin

text \<open>
  The invariants of the dashboard: every tenant that has members has exactly one owner, who is active; and what callers
  below the owner cannot change. The transitions are those of \<open>Dashboard\<close>.
\<close>

section \<open>Lists of memberships\<close>

definition member_key :: "TenantMembership \<Rightarrow> nat \<times> string" where
  "member_key m = (tm_TenantID m, tm_UserID m)"

definition owners :: "TenantMembership list \<Rightarrow> nat \<Rightarrow> TenantMembership list" where
  "owners ms t = filter (\<lambda>m. tm_TenantID m = t \<and> tm_OrgRole m = RoleOwner) ms"

definition one_owner :: "TenantMembership list \<Rightarrow> nat \<Rightarrow> bool" where
  "one_owner ms t \<longleftrightarrow> (\<exists>m. owners ms t = [m] \<and> tm_Status m = StatusActive) \<or> (\<forall>m \<in> set ms. tm_TenantID m \<noteq> t)"

definition owned :: "TenantMembership list \<Rightarrow> nat set \<Rightarrow> bool" where
  "owned ms T \<longleftrightarrow> distinct (map member_key ms) \<and> tm_TenantID ` set ms \<subseteq> T \<and> (\<forall>t. one_owner ms t)"

definition tenant_ids :: "org_db \<Rightarrow> nat set" where
  "tenant_ids st = ten_ID ` set (db_tenants st)"

definition org_inv :: "org_db \<Rightarrow> bool" where
  "org_inv st \<longleftrightarrow> owned (db_memberships st) (tenant_ids st)"

lemma is_member_key: "is_member t u m \<longleftrightarrow> member_key m = (t, u)"
  by (simp add: is_member_def member_key_def)

lemma owned_unique:
  assumes "owned ms T" "m \<in> set ms" "n \<in> set ms" "member_key m = member_key n"
  shows "m = n"
  using assms by (auto simp: owned_def distinct_map dest: inj_onD)

lemma owned_owner_active:
  assumes "owned ms T" "m \<in> set ms" "tm_OrgRole m = RoleOwner"
  shows "tm_Status m = StatusActive" "owners ms (tm_TenantID m) = [m]"
proof -
  have i: "m \<in> set (owners ms (tm_TenantID m))" using assms(2,3) by (simp add: owners_def)
  have "one_owner ms (tm_TenantID m)" using assms(1) by (simp add: owned_def)
  with assms(2) i show "tm_Status m = StatusActive" "owners ms (tm_TenantID m) = [m]"
    by (auto simp: one_owner_def)
qed

text \<open>An update that keeps the tenants, the owners and their being active.\<close>

lemma owned_map:
  assumes "owned ms T" "distinct (map member_key (map f ms))"
    and f: "\<And>m. m \<in> set ms \<Longrightarrow> tm_TenantID (f m) = tm_TenantID m \<and> (tm_OrgRole (f m) = RoleOwner \<longleftrightarrow> tm_OrgRole m = RoleOwner) \<and>
      (tm_OrgRole m = RoleOwner \<longrightarrow> tm_Status m = StatusActive \<longrightarrow> tm_Status (f m) = StatusActive)"
  shows "owned (map f ms) T"
proof -
  have o: "owners (map f ms) t = map f (owners ms t)" for t
  proof -
    have "filter (\<lambda>m. tm_TenantID (f m) = t \<and> tm_OrgRole (f m) = RoleOwner) ms = owners ms t"
      unfolding owners_def using f by (intro filter_cong) auto
    then show ?thesis by (simp add: owners_def filter_map comp_def)
  qed
  have "one_owner (map f ms) t" for t
  proof (cases "\<forall>m \<in> set ms. tm_TenantID m \<noteq> t")
    case True
    then show ?thesis using f by (auto simp: one_owner_def)
  next
    case False
    then obtain m where m: "owners ms t = [m]" "tm_Status m = StatusActive"
      using assms(1) by (auto simp: owned_def one_owner_def)
    then have "m \<in> set ms" "tm_OrgRole m = RoleOwner" by (auto simp: owners_def filter_eq_Cons_iff)
    with f [of m] m have "owners (map f ms) t = [f m] \<and> tm_Status (f m) = StatusActive" by (simp add: o)
    then show ?thesis unfolding one_owner_def by blast
  qed
  moreover have "tm_TenantID ` set (map f ms) \<subseteq> T" using assms(1) f by (auto simp: owned_def)
  ultimately show ?thesis using assms(2) by (simp add: owned_def)
qed

lemma owned_update:
  assumes "owned ms T"
    and f: "\<And>m. m \<in> set ms \<Longrightarrow> P m \<Longrightarrow> member_key (f m) = member_key m \<and> (tm_OrgRole (f m) = RoleOwner \<longleftrightarrow> tm_OrgRole m = RoleOwner) \<and>
      (tm_OrgRole m = RoleOwner \<longrightarrow> tm_Status m = StatusActive \<longrightarrow> tm_Status (f m) = StatusActive)"
  shows "owned (map (\<lambda>m. if P m then f m else m) ms) T"
proof (rule owned_map [OF assms(1)])
  have "map member_key (map (\<lambda>m. if P m then f m else m) ms) = map member_key ms"
    using f by simp
  then show "distinct (map member_key (map (\<lambda>m. if P m then f m else m) ms))" using assms(1) by (simp only: owned_def)
qed (use f in \<open>auto simp: member_key_def\<close>)

lemma owned_filter:
  assumes "owned ms T" "\<And>m. m \<in> set ms \<Longrightarrow> \<not> Q m \<Longrightarrow> tm_OrgRole m = RoleOwner \<Longrightarrow> (\<forall>n \<in> set ms. tm_TenantID n = tm_TenantID m \<longrightarrow> \<not> Q n)"
  shows "owned (filter Q ms) T"
proof -
  have "one_owner (filter Q ms) t" for t
  proof (cases "\<exists>n \<in> set ms. tm_TenantID n = t \<and> Q n")
    case True
    then obtain m where m: "owners ms t = [m]" "tm_Status m = StatusActive"
      using assms(1) by (auto simp: owned_def one_owner_def)
    then have i: "m \<in> set ms" "tm_OrgRole m = RoleOwner" "tm_TenantID m = t" by (auto simp: owners_def filter_eq_Cons_iff)
    have "Q m"
    proof (rule ccontr)
      assume "\<not> Q m"
      from assms(2) [OF i(1) this i(2)] True show False unfolding i(3) by blast
    qed
    moreover have "owners (filter Q ms) t = filter Q (owners ms t)" unfolding owners_def by (simp add: conj_commute)
    ultimately have "owners (filter Q ms) t = [m]" by (simp add: m(1))
    with m(2) show ?thesis by (auto simp: one_owner_def)
  next
    case False
    then have "\<forall>m \<in> set (filter Q ms). tm_TenantID m \<noteq> t" by auto
    then show ?thesis unfolding one_owner_def by blast
  qed
  moreover have "distinct (map member_key (filter Q ms))" using assms(1) by (simp add: owned_def distinct_map_filter)
  moreover have "tm_TenantID ` set (filter Q ms) \<subseteq> T" using assms(1) by (auto simp only: owned_def set_filter)
  ultimately show ?thesis unfolding owned_def by blast
qed

lemma owned_append:
  assumes "owned ms T" "\<forall>n \<in> set ms. member_key n \<noteq> member_key m" "tm_TenantID m \<in> T'" "T \<subseteq> T'"
    and "tm_OrgRole m \<noteq> RoleOwner \<and> (\<exists>n \<in> set ms. tm_TenantID n = tm_TenantID m) \<or>
      tm_OrgRole m = RoleOwner \<and> tm_Status m = StatusActive \<and> tm_TenantID m \<notin> T"
  shows "owned (ms @ [m]) T'"
proof -
  have "one_owner (ms @ [m]) t" for t
  proof (cases "tm_TenantID m = t \<and> tm_OrgRole m = RoleOwner")
    case True
    with assms(5) have new: "tm_Status m = StatusActive" "\<forall>n \<in> set ms. tm_TenantID n \<noteq> t"
      using assms(1) by (auto simp only: owned_def image_subset_iff)
    then have "owners ms t = []" by (simp add: owners_def filter_empty_conv)
    with True new(1) show ?thesis by (simp add: one_owner_def owners_def)
  next
    case False
    then have "owners (ms @ [m]) t = owners ms t" by (simp add: owners_def)
    moreover have "tm_TenantID m \<noteq> t \<or> (\<exists>n \<in> set ms. tm_TenantID n = t)" using False assms(5) by blast
    ultimately show ?thesis using assms(1) unfolding owned_def one_owner_def by auto
  qed
  moreover have "tm_TenantID ` set (ms @ [m]) \<subseteq> T'" using assms(1,3,4) by (auto simp only: owned_def set_append set_simps)
  moreover have "distinct (map member_key (ms @ [m]))" using assms(1,2) by (auto simp: owned_def)
  ultimately show ?thesis unfolding owned_def by blast
qed

section \<open>The handlers keep the invariant\<close>

lemma org_inv_cong:
  assumes "org_inv st" "db_memberships st' = db_memberships st" "tenant_ids st \<subseteq> tenant_ids st'"
  shows "org_inv st'"
  using assms unfolding org_inv_def owned_def by fastforce

lemma org_inv_same: "org_inv st \<Longrightarrow> same_tables st st' \<Longrightarrow> org_inv st'"
  unfolding org_inv_def tenant_ids_def by (simp only: same_tables_simps)

lemma org_inv_audit: "org_inv (recordAuditEvent env ctx a rt rid opts st) \<longleftrightarrow> org_inv st"
  by (simp add: org_inv_def tenant_ids_def)

lemma tenant_ids_simps [simp]:
  "tenant_ids (update_members P f st) = tenant_ids st" "tenant_ids (delete_members P st) = tenant_ids st"
  "tenant_ids (delete_pmembers Q st) = tenant_ids st"
  "tenant_ids (recordAuditEvent env ctx a rt rid opts st) = tenant_ids st"
  "tenant_ids (notifyMemberChange env ctx u t ti b ex st) = tenant_ids st"
  by (simp_all add: tenant_ids_def)

lemma first_member:
  assumes "org_inv st" "db_first d (is_member t u) (db_memberships st) = Inr m"
  shows "m \<in> set (db_memberships st)" "is_member t u m"
    and "\<And>n. n \<in> set (db_memberships st) \<Longrightarrow> is_member t u n \<Longrightarrow> n = m"
proof -
  show m: "m \<in> set (db_memberships st)" "is_member t u m" using assms(2) find_SomeD by (force simp: db_first_Inr)+
  show "n = m" if "n \<in> set (db_memberships st)" "is_member t u n" for n
    using assms(1) owned_unique [OF _ that(1) m(1)] that(2) m(2) by (simp add: org_inv_def is_member_key)
qed

text \<open>What an update may do to the rows that it selects.\<close>

definition keeps_owner :: "(TenantMembership \<Rightarrow> TenantMembership) \<Rightarrow> TenantMembership \<Rightarrow> bool" where
  "keeps_owner f m \<longleftrightarrow> member_key (f m) = member_key m \<and> (tm_OrgRole (f m) = RoleOwner \<longleftrightarrow> tm_OrgRole m = RoleOwner) \<and>
     (tm_OrgRole m = RoleOwner \<longrightarrow> tm_Status m = StatusActive \<longrightarrow> tm_Status (f m) = StatusActive)"

lemma org_inv_update_members:
  assumes "org_inv st" "\<And>m. m \<in> set (db_memberships st) \<Longrightarrow> P m \<Longrightarrow> keeps_owner f m"
  shows "org_inv (update_members P f st)"
  using assms owned_update [of "db_memberships st" "tenant_ids st" P f] by (simp add: org_inv_def keeps_owner_def)

lemma change_member_inv:
  assumes "org_inv st" "db_first d (is_member (ctx_tenant_id ctx) t) (db_memberships st) = Inr m" "keeps_owner f m"
  shows "org_inv (snd (change_member env ctx t f err a opts ti b ex st))"
proof (cases "oe_fault env 1")
  case False
  have "keeps_owner (\<lambda>m. (f m)\<lparr>tm_UpdatedAt := oe_now env\<rparr>) n" if "n \<in> set (db_memberships st)" "is_member (ctx_tenant_id ctx) t n" for n
    using first_member(3) [OF assms(1,2) that] assms(3) by (simp add: keeps_owner_def member_key_def)
  then have "org_inv (update_members (is_member (ctx_tenant_id ctx) t) (\<lambda>m. (f m)\<lparr>tm_UpdatedAt := oe_now env\<rparr>) st)"
    by (rule org_inv_update_members [OF assms(1)])
  with False show ?thesis
    by (simp add: change_member_def org_inv_same [OF _ same_tables_recordAuditEvent] org_inv_same [OF _ same_tables_notifyMemberChange])
qed (simp add: change_member_def assms(1))

lemma role_changes_inv:
  assumes "org_inv st"
  shows "org_inv (snd (handleUpdateUserRole env ctx t req st))" "org_inv (snd (handleSuspendUser env ctx t st))"
    "org_inv (snd (handleUnsuspendUser env ctx t st))" "org_inv (snd (handlePromoteAdmin env ctx t st))"
    "org_inv (snd (handleDemoteAdmin env ctx t st))"
  using assms
  by (simp_all add: handleUpdateUserRole_def handleSuspendUser_def handleUnsuspendUser_def handlePromoteAdmin_def handleDemoteAdmin_def
      change_member_inv keeps_owner_def member_key_def split: option.split sum.split)

lemma org_inv_delete_member:
  assumes "org_inv st" "db_first d (is_member t u) (db_memberships st) = Inr m" "tm_OrgRole m \<noteq> RoleOwner"
  shows "org_inv (delete_members (is_member t u) st)"
proof -
  have "owned (filter (\<lambda>n. \<not> is_member t u n) (db_memberships st)) (tenant_ids st)"
  proof (rule owned_filter)
    fix n
    assume "n \<in> set (db_memberships st)" "\<not> \<not> is_member t u n" "tm_OrgRole n = RoleOwner"
    with first_member(3) [OF assms(1,2)] assms(3) show "\<forall>k \<in> set (db_memberships st). tm_TenantID k = tm_TenantID n \<longrightarrow> \<not> \<not> is_member t u k"
      by blast
  qed (use assms(1) in \<open>simp add: org_inv_def\<close>)
  then show ?thesis by (simp add: org_inv_def)
qed

lemma same_tables_refl [simp]: "same_tables st st"
  by (simp add: same_tables_def)

lemma resolve_rows_same: "same_tables st (snd (resolve_rows env oc ns st))"
proof (induction ns arbitrary: st)
  case (Cons n ns)
  have "same_tables st (st\<lparr>db_notifications := x\<rparr>)" for x by (simp add: same_tables_def authz_db.defs)
  with Cons show ?case by (auto split: option.split intro: same_tables_trans)
qed (simp add: same_tables_def)

lemma markInvitationNotificationsResolved_same: "same_tables st (snd (markInvitationNotificationsResolved env u t oc st))"
  using resolve_rows_same by (simp add: markInvitationNotificationsResolved_def same_tables_def)

lemma answers_inv:
  assumes "org_inv st"
  shows "org_inv (snd (handleAcceptInvitation env ctx p st))" "org_inv (snd (handleDenyInvitation env ctx p st))"
proof -
  have r: "org_inv (snd (case markInvitationNotificationsResolved env u t oc st1 of (ok, st2) \<Rightarrow> (if ok then (200, []) else (500, ''panic''), st2)))"
    if "org_inv st1" for u t oc st1
    using org_inv_same [OF that markInvitationNotificationsResolved_same [of st1 env u t oc]] by (simp add: split_def)
  have a: "org_inv (update_members (is_member t u) (\<lambda>m. m\<lparr>tm_Status := StatusActive, tm_UpdatedAt := oe_now env\<rparr>) st)" for t u
    by (rule org_inv_update_members [OF assms]) (simp add: keeps_owner_def member_key_def)
  have d: "org_inv (delete_members (is_member t u) st)"
    if "db_first x (is_member t u) (db_memberships st) = Inr m" "tm_Status m = StatusPending" for t u x m
  proof (rule org_inv_delete_member [OF assms that(1)])
    have "owned (db_memberships st) (tenant_ids st)" using assms by (simp add: org_inv_def)
    from owned_owner_active(1) [OF this first_member(1) [OF assms that(1)]] that(2) show "tm_OrgRole m \<noteq> RoleOwner" by auto
  qed
  show "org_inv (snd (handleAcceptInvitation env ctx p st))"
    using assms a by (auto simp only: handleAcceptInvitation_def Let_def snd_conv intro!: r split: option.split sum.split if_splits)
  show "org_inv (snd (handleDenyInvitation env ctx p st))"
    using assms d by (auto simp only: handleDenyInvitation_def Let_def snd_conv intro!: r split: option.split sum.split if_splits)
qed

text \<open>The steps after the transaction of a removal write no membership.\<close>

definition removal_allowed :: "org_env \<Rightarrow> rbac_ctx \<Rightarrow> string \<Rightarrow> org_db \<Rightarrow> bool" where
  "removal_allowed env ctx t st \<longleftrightarrow> t \<noteq> usr_ID (ctx_user ctx) \<and>
     (\<exists>m. db_first (oe_fault env 0) (is_member (ctx_tenant_id ctx) t) (db_memberships st) = Inr m \<and> tm_OrgRole m \<noteq> RoleOwner \<and>
        (tm_OrgRole m = RoleAdmin \<longrightarrow> ctx_org_role ctx = RoleOwner))"

lemma removal_effect:
  "db_memberships (if b then st1\<lparr>db_users := us\<rparr> else st1) = db_memberships st1"
  "db_tenants (if b then st1\<lparr>db_users := us\<rparr> else st1) = db_tenants st1"
  "db_memberships (if b then snd (deleteClerkUser env f st1) else st1) = db_memberships st1"
  "db_tenants (if b then snd (deleteClerkUser env f st1) else st1) = db_tenants st1"
  "db_memberships (if b then notifyMemberChange env ctx t tid ti bd ex st1 else st1) = db_memberships st1"
  "db_tenants (if b then notifyMemberChange env ctx t tid ti bd ex st1 else st1) = db_tenants st1"
  by simp_all

lemma handleRemoveUser_memberships:
  "db_memberships (snd (handleRemoveUser env ctx t st)) = db_memberships st \<or>
   removal_allowed env ctx t st \<and>
     db_memberships (snd (handleRemoveUser env ctx t st)) = filter (\<lambda>n. \<not> is_member (ctx_tenant_id ctx) t n) (db_memberships st)"
  "db_tenants (snd (handleRemoveUser env ctx t st)) = db_tenants st"
  unfolding handleRemoveUser_def Let_def
  by (simp_all add: removal_effect removal_allowed_def split: sum.split)

lemma handleRemoveUser_inv: "org_inv st \<Longrightarrow> org_inv (snd (handleRemoveUser env ctx t st))"
proof -
  assume i: "org_inv st"
  have tn: "tenant_ids (snd (handleRemoveUser env ctx t st)) = tenant_ids st"
    by (simp add: tenant_ids_def handleRemoveUser_memberships(2))
  from handleRemoveUser_memberships(1) [of env ctx t st] show ?thesis
  proof
    assume "db_memberships (snd (handleRemoveUser env ctx t st)) = db_memberships st"
    then show ?thesis using i tn by (simp add: org_inv_def)
  next
    assume r: "removal_allowed env ctx t st \<and>
      db_memberships (snd (handleRemoveUser env ctx t st)) = filter (\<lambda>n. \<not> is_member (ctx_tenant_id ctx) t n) (db_memberships st)"
    then obtain m where "db_first (oe_fault env 0) (is_member (ctx_tenant_id ctx) t) (db_memberships st) = Inr m" "tm_OrgRole m \<noteq> RoleOwner"
      unfolding removal_allowed_def by blast
    from org_inv_delete_member [OF i this] r tn show ?thesis by (simp add: org_inv_def)
  qed
qed

lemma filter_unique: "distinct xs \<Longrightarrow> x \<in> set xs \<Longrightarrow> (\<And>y. y \<in> set xs \<Longrightarrow> P y \<longleftrightarrow> y = x) \<Longrightarrow> filter P xs = [x]"
proof (induction xs)
  case (Cons y ys)
  then show ?case
  proof (cases "y = x")
    case True
    with Cons.prems have "filter P ys = []" by (auto simp: filter_empty_conv)
    with True Cons.prems show ?thesis by simp
  qed auto
qed simp

text \<open>Ownership moves from one active member of a tenant to another.\<close>

lemma owned_transfer:
  fixes now :: int
  assumes "owned ms T" "c \<in> set ms" "is_member t u c" "tm_OrgRole c = RoleOwner"
    and "n \<in> set ms" "is_member t v n" "tm_Status n = StatusActive" "u \<noteq> v"
  defines "h \<equiv> \<lambda>m. if is_member t v m then m\<lparr>tm_OrgRole := RoleOwner, tm_UpdatedAt := now\<rparr>
    else if is_member t u m then m\<lparr>tm_OrgRole := RoleAdmin, tm_UpdatedAt := now\<rparr> else m"
  shows "owned (map h ms) T"
proof -
  have key: "member_key (h m) = member_key m" "tm_TenantID (h m) = tm_TenantID m" "tm_Status (h m) = tm_Status m" for m
    by (simp_all add: h_def member_key_def)
  have other: "tm_TenantID m \<noteq> t \<Longrightarrow> h m = m" for m by (simp add: h_def is_member_def)
  have d: "distinct ms" using assms(1) by (simp add: owned_def distinct_map)
  have own: "tm_OrgRole (h m) = RoleOwner \<longleftrightarrow> is_member t v m \<or> \<not> is_member t u m \<and> tm_OrgRole m = RoleOwner" for m
    by (simp add: h_def)
  have "one_owner (map h ms) x" for x
  proof (cases "x = t")
    case True
    have "tm_TenantID c = t" using assms(3) by (simp add: is_member_def)
    with owned_owner_active(2) [OF assms(1,2,4)] have oc: "owners ms t = [c]" by simp
    have "filter (\<lambda>m. tm_TenantID (h m) = t \<and> tm_OrgRole (h m) = RoleOwner) ms = [n]"
    proof (rule filter_unique [OF d assms(5)])
      fix y assume y: "y \<in> set ms"
      have "y = n" if "is_member t v y" using owned_unique [OF assms(1) y assms(5)] that assms(6) by (simp add: is_member_key)
      moreover have False if "tm_TenantID y = t" "\<not> is_member t u y" "tm_OrgRole y = RoleOwner"
      proof -
        have "y \<in> set (owners ms t)" using that y by (simp add: owners_def)
        with oc that(2) assms(3) show False by simp
      qed
      moreover have "tm_TenantID n = t" using assms(6) by (simp add: is_member_def)
      ultimately show "tm_TenantID (h y) = t \<and> tm_OrgRole (h y) = RoleOwner \<longleftrightarrow> y = n"
        using assms(6) unfolding key own by blast
    qed
    then have "owners (map h ms) t = [h n]" by (simp add: owners_def filter_map comp_def)
    moreover have "tm_Status (h n) = StatusActive" using assms(7) key(3) by simp
    ultimately show ?thesis unfolding one_owner_def True by blast
  next
    case False
    have "filter (\<lambda>m. tm_TenantID (h m) = x \<and> tm_OrgRole (h m) = RoleOwner) ms = owners ms x" (is "filter ?P ms = _")
      unfolding owners_def using False other key(2) by (intro filter_cong refl) metis
    then have "owners (map h ms) x = map h (owners ms x)" by (simp add: owners_def filter_map comp_def)
    moreover have "map h (owners ms x) = owners ms x" using False other by (intro map_idI) (auto simp: owners_def)
    ultimately have "owners (map h ms) x = owners ms x" by simp
    moreover have "one_owner ms x" using assms(1) by (simp add: owned_def)
    moreover have "(\<forall>m \<in> set (map h ms). tm_TenantID m \<noteq> x) \<longleftrightarrow> (\<forall>m \<in> set ms. tm_TenantID m \<noteq> x)" using key(2) by simp
    ultimately show ?thesis unfolding one_owner_def by presburger
  qed
  moreover have "tm_TenantID ` set (map h ms) \<subseteq> T" using assms(1) key(2) by (simp add: owned_def image_image)
  moreover have "map member_key (map h ms) = map member_key ms" using key(1) by simp
  ultimately show ?thesis using assms(1) unfolding owned_def by presburger
qed

lemma handleTransferOwnership_inv:
  assumes "org_inv st" "c \<in> set (db_memberships st)" "is_member (ctx_tenant_id ctx) (usr_ID (ctx_user ctx)) c" "tm_OrgRole c = RoleOwner"
  shows "org_inv (snd (handleTransferOwnership env ctx req st))"
proof -
  let ?t = "ctx_tenant_id ctx" and ?u = "usr_ID (ctx_user ctx)"
  have "org_inv (update_members (is_member ?t v) (\<lambda>m. m\<lparr>tm_OrgRole := RoleOwner, tm_UpdatedAt := oe_now env\<rparr>)
      (update_members (is_member ?t ?u) (\<lambda>m. m\<lparr>tm_OrgRole := RoleAdmin, tm_UpdatedAt := oe_now env\<rparr>) st))" (is "org_inv ?st")
    if "db_first d (is_member ?t v) (db_memberships st) = Inr n" "tm_Status n = StatusActive" "v \<noteq> ?u" for v n d
  proof -
    have o: "owned (db_memberships st) (tenant_ids st)" using assms(1) by (simp add: org_inv_def)
    note t = owned_transfer [OF o assms(2,3,4) first_member(1,2) [OF assms(1) that(1)] that(2) that(3) [symmetric], of "oe_now env"]
    have "db_memberships ?st = map (\<lambda>m. if is_member ?t v m then m\<lparr>tm_OrgRole := RoleOwner, tm_UpdatedAt := oe_now env\<rparr>
      else if is_member ?t ?u m then m\<lparr>tm_OrgRole := RoleAdmin, tm_UpdatedAt := oe_now env\<rparr> else m) (db_memberships st)"
      using that(3) by (simp add: is_member_def)
    moreover have "tenant_ids ?st = tenant_ids st" by simp
    ultimately show ?thesis using t unfolding org_inv_def by (simp only:)
  qed
  with assms(1) show ?thesis
    by (simp add: handleTransferOwnership_def Let_def org_inv_same [OF _ same_tables_recordAuditEvent] split: option.split sum.split)
qed

text \<open>Handlers that write neither memberships nor tenants, other than the name of one.\<close>

definition keeps_members :: "org_db \<Rightarrow> org_db \<Rightarrow> bool" where
  "keeps_members st st' \<longleftrightarrow> db_memberships st' = db_memberships st \<and> map ten_ID (db_tenants st') = map ten_ID (db_tenants st)"

lemma keeps_members_inv: "org_inv st \<Longrightarrow> keeps_members st st' \<Longrightarrow> org_inv st'"
proof (erule org_inv_cong)
  assume k: "keeps_members st st'"
  show "db_memberships st' = db_memberships st" using k by (simp only: keeps_members_def)
  have "set (map ten_ID (db_tenants st')) = set (map ten_ID (db_tenants st))" using k by (simp only: keeps_members_def)
  then show "tenant_ids st \<subseteq> tenant_ids st'" by (simp add: tenant_ids_def)
qed

lemma keeps_members_refl [simp]: "keeps_members st st"
  by (simp add: keeps_members_def)

lemma keeps_members_tables [simp]:
  "keeps_members st (recordAuditEvent env ctx a rt rid opts st1) \<longleftrightarrow> keeps_members st st1"
  "keeps_members st (notifyMemberChange env ctx u tn ti b ex st1) \<longleftrightarrow> keeps_members st st1"
  "keeps_members st (delete_pmembers P st1) \<longleftrightarrow> keeps_members st st1"
  "keeps_members st (st1\<lparr>db_projects := ps\<rparr>) \<longleftrightarrow> keeps_members st st1"
  "keeps_members st (st1\<lparr>db_project_memberships := pms\<rparr>) \<longleftrightarrow> keeps_members st st1"
  "keeps_members st (st1\<lparr>db_users := us\<rparr>) \<longleftrightarrow> keeps_members st st1"
  "keeps_members st (st1\<lparr>db_channels := cs\<rparr>) \<longleftrightarrow> keeps_members st st1"
  by (simp_all add: keeps_members_def)

lemma keeps_members_tenant_row [simp]:
  "(\<And>x. ten_ID (f x) = ten_ID x) \<Longrightarrow> keeps_members st (update_tenant_row tn f st1) \<longleftrightarrow> keeps_members st st1"
proof -
  assume "\<And>x. ten_ID (f x) = ten_ID x"
  then have "map ten_ID (db_tenants (update_tenant_row tn f st1)) = map ten_ID (db_tenants st1)"
    by (simp add: update_tenant_row_def)
  then show ?thesis by (simp add: keeps_members_def)
qed

lemma keeps_members_insert:
  "insert_project p st1 = Some st2 \<Longrightarrow> keeps_members st st2 \<longleftrightarrow> keeps_members st st1"
  "insert_pmember pm st1 = Some st2 \<Longrightarrow> keeps_members st st2 \<longleftrightarrow> keeps_members st st1"
  "insert_user u st1 = Some st2 \<Longrightarrow> keeps_members st st2 \<longleftrightarrow> keeps_members st st1"
  by (auto simp: insert_project_def insert_pmember_def insert_user_def split: if_splits)

lemma keeps_members_let: "(\<And>x. keeps_members st (snd (f x))) \<Longrightarrow> keeps_members st (snd (Let a f))"
  by (simp add: Let_def)

lemma keeps_members_with_project:
  "(\<And>p. keeps_members st (snd (f p st))) \<Longrightarrow> keeps_members st (snd (with_project env ctx i f st))"
  by (simp add: with_project_def split: sum.split)

lemma project_handlers_keep:
  "keeps_members st (snd (handleUpdateTenantSettings env ctx n st))"
  "keeps_members st (snd (handleUpdateOnboardingHints env ctx h st))"
  "keeps_members st (snd (handleCreateProject env ctx q st))"
  "keeps_members st (snd (handleUpdateProject env ctx p f st))"
  "keeps_members st (snd (handleDeleteProject env ctx p st))"
  "keeps_members st (snd (handleAddProjectMember env ctx p a st))"
  "keeps_members st (snd (handleUpdateProjectMemberRole env ctx p u r st))"
  "keeps_members st (snd (handleRemoveProjectMember env ctx p u st))"
  apply (simp add: handleUpdateTenantSettings_def Let_def split: option.split sum.split)
  apply (simp add: handleUpdateOnboardingHints_def Let_def split: option.split sum.split)
  apply (simp add: handleCreateProject_def Let_def keeps_members_insert split: option.split sum.split)
  apply (simp add: handleUpdateProject_def write_project_def Let_def split: option.split sum.split)
  apply (simp add: handleDeleteProject_def Let_def split: option.split sum.split)
  apply (simp add: handleAddProjectMember_def keeps_members_let keeps_members_with_project keeps_members_insert split: option.split sum.split)
  apply (simp add: handleUpdateProjectMemberRole_def with_project_def Let_def split: option.split sum.split)
  apply (simp add: handleRemoveProjectMember_def with_project_def Let_def split: option.split sum.split)
  done

lemma channel_handlers_keep:
  "keeps_members st (snd (handleCreateNotificationChannel env ctx q st))"
  "keeps_members st (snd (handleUpdateNotificationChannel env ctx p q st))"
  "keeps_members st (snd (handleDeleteNotificationChannel env ctx p st))"
  apply (simp add: handleCreateNotificationChannel_def Let_def split: option.split sum.split)
  apply (simp add: handleUpdateNotificationChannel_def Let_def split: option.split sum.split)
  apply (simp add: handleDeleteNotificationChannel_def Let_def split: option.split sum.split)
  done

lemma clerk_loop_same: "same_tables st (snd (clerk_loop env t ms st))"
proof (induction ms arbitrary: st)
  case (Cons m ms)
  have "same_tables st (snd (clerk_loop env t ms (snd (deleteClerkUser env u st))))" for u
    using same_tables_trans [OF same_tables_deleteClerkUser Cons] .
  with Cons show ?case by (simp add: split_def)
qed simp

lemma fold_delete_if_unused: "keeps_members st (fold (delete_if_unused env) ms st1) \<longleftrightarrow> keeps_members st st1"
  by (induction ms arbitrary: st1) (simp_all add: delete_if_unused_def)

lemma delete_if_unused_memberships:
  "db_memberships (fold (delete_if_unused env) ms st) = db_memberships st"
  "db_tenants (fold (delete_if_unused env) ms st) = db_tenants st"
  by (induction ms arbitrary: st) (simp_all add: delete_if_unused_def)

lemma revoke_tenant_keys_memberships [simp]:
  "db_memberships (revoke_tenant_keys env t st) = db_memberships st" "db_tenants (revoke_tenant_keys env t st) = db_tenants st"
  by (simp_all add: revoke_tenant_keys_def)

lemma purge_tenant_tables:
  "db_memberships (purge_tenant env t ms st) = (if oe_fault env 6 then db_memberships st
     else filter (\<lambda>m. tm_TenantID m \<noteq> t) (db_memberships st))"
  "map ten_ID (db_tenants (purge_tenant env t ms st)) = map ten_ID (db_tenants st)"
  by (simp_all add: purge_tenant_def Let_def delete_if_unused_memberships if_distrib [of db_memberships] if_distrib [of db_tenants]
      if_distrib [of "map ten_ID"] update_tenant_row_def comp_def cong: map_cong)

lemma purge_tenant_keys: "db_keys (purge_tenant env t ms st) = db_keys st"
proof -
  have "db_keys (fold (delete_if_unused env) ms st1) = db_keys st1" for st1
    by (induction ms arbitrary: st1) (simp_all add: delete_if_unused_def)
  then show ?thesis
    by (simp add: purge_tenant_def Let_def if_distrib [of db_keys] update_tenant_row_def delete_members_def delete_pmembers_def)
qed

lemma handleDeleteAccount_memberships:
  "db_memberships (snd (handleDeleteAccount env ctx req st)) = db_memberships st \<or>
   db_memberships (snd (handleDeleteAccount env ctx req st)) = filter (\<lambda>m. tm_TenantID m \<noteq> ctx_tenant_id ctx) (db_memberships st)"
  (is ?M)
  "map ten_ID (db_tenants (snd (handleDeleteAccount env ctx req st))) = map ten_ID (db_tenants st)" (is ?T)
proof -
  have loop: "db_memberships st2 = db_memberships (revoke_tenant_keys env t st)" "db_tenants st2 = db_tenants (revoke_tenant_keys env t st)"
    if "clerk_loop env t ms (revoke_tenant_keys env t st) = (e, st2)" for t ms e st2
    using same_tables_simps(1,3) [OF clerk_loop_same [of "revoke_tenant_keys env t st" env t ms]] that by simp_all
  have tid: "ten_ID x = ctx_tenant_id ctx" if "first_tenant_row d (ctx_tenant_id ctx) st = Inr x" for d x
    using that find_SomeD by (force simp: first_tenant_row_def db_first_Inr)
  show ?M
    unfolding handleDeleteAccount_def Let_def
    by (simp add: purge_tenant_tables loop tid split: option.split sum.split prod.split)
  show ?T
    unfolding handleDeleteAccount_def Let_def
    by (simp add: purge_tenant_tables loop split: option.split sum.split prod.split)
qed

lemma handleDeleteAccount_inv: "org_inv st \<Longrightarrow> org_inv (snd (handleDeleteAccount env ctx req st))"
proof -
  assume i: "org_inv st"
  have "tenant_ids (snd (handleDeleteAccount env ctx req st)) = tenant_ids st"
    using arg_cong [OF handleDeleteAccount_memberships(2), of set] by (simp add: tenant_ids_def)
  moreover have "owned (filter (\<lambda>m. tm_TenantID m \<noteq> t) (db_memberships st)) (tenant_ids st)" for t
    by (rule owned_filter) (use i in \<open>auto simp: org_inv_def\<close>)
  ultimately show ?thesis using i handleDeleteAccount_memberships(1) [of env ctx req st] by (fastforce simp: org_inv_def)
qed

text \<open>Invitations add rows of members to a tenant that has some.\<close>

lemma insert_member_inv:
  assumes "org_inv st" "insert_member m st = Some st'"
    and "tm_OrgRole m \<noteq> RoleOwner" "n \<in> set (db_memberships st)" "tm_TenantID n = tm_TenantID m"
  shows "org_inv st'"
proof -
  have k: "\<forall>k \<in> set (db_memberships st). member_key k \<noteq> member_key m" "st' = st\<lparr>db_memberships := db_memberships st @ [m]\<rparr>"
    using assms(2) by (simp_all add: insert_member_Some is_member_key member_key_def [of m])
  have o: "owned (db_memberships st) (tenant_ids st)" using assms(1) by (simp add: org_inv_def)
  have "tm_TenantID m \<in> tenant_ids st" using o assms(4,5) by (force simp: owned_def)
  with owned_append [OF o k(1) _ subset_refl] assms(3-5) have "owned (db_memberships st @ [m]) (tenant_ids st)" by blast
  then show ?thesis by (simp add: k(2) org_inv_def tenant_ids_def)
qed

lemma invite_notify_same: "same_tables st (invite_notify env ctx tn u r st)"
  by (simp add: invite_notify_def Let_def same_tables_trans [OF same_tables_insert_notification same_tables_dispatch])

text \<open>Introduction rules for what holds of the state that a handler returns, on each of its branches.\<close>

lemma snd_branches:
  "P st \<Longrightarrow> P (snd (r, st))"
  "(b \<Longrightarrow> P (snd x)) \<Longrightarrow> (\<not> b \<Longrightarrow> P (snd y)) \<Longrightarrow> P (snd (if b then x else y))"
  "(opt = None \<Longrightarrow> P (snd n)) \<Longrightarrow> (\<And>v. opt = Some v \<Longrightarrow> P (snd (f v))) \<Longrightarrow> P (snd (case opt of None \<Rightarrow> n | Some v \<Rightarrow> f v))"
  "(\<And>a. s = Inl a \<Longrightarrow> P (snd (g a))) \<Longrightarrow> (\<And>a. s = Inr a \<Longrightarrow> P (snd (h a))) \<Longrightarrow> P (snd (case s of Inl a \<Rightarrow> g a | Inr a \<Rightarrow> h a))"
  "(\<And>x. x = v \<Longrightarrow> P (snd (k x))) \<Longrightarrow> P (snd (Let v k))"
  by (auto split: option.split sum.split)

lemma attempt_Some: "(if b then None else opt) = Some x \<longleftrightarrow> \<not> b \<and> opt = Some x"
  by simp

lemma invite_role_not_owner: "invite_role r = Some role \<Longrightarrow> role \<noteq> RoleOwner"
  by (auto simp: invite_role_def split: if_splits)

lemma handleInviteUser_inv:
  assumes "org_inv st" "n \<in> set (db_memberships st)" "tm_TenantID n = ctx_tenant_id ctx"
  shows "org_inv (snd (handleInviteUser env ctx req st))"
proof -
  let ?t = "ctx_tenant_id ctx"
  have ins: "org_inv st2" if "insert_member (pending_member env ?t u role) st1 = Some st2" "invite_role q = Some role" "keeps_members st st1"
    for u role st1 st2 q
  proof (rule insert_member_inv [OF keeps_members_inv [OF assms(1) that(3)] that(1)])
    show "n \<in> set (db_memberships st1)" using assms(2) that(3) by (simp add: keeps_members_def)
  qed (use invite_role_not_owner [OF that(2)] assms(3) in \<open>simp_all add: pending_member_def\<close>)
  have keep: "keeps_members st st1" if "insert_user v st = Some st1" for v st1
    by (simp add: keeps_members_insert(3) [OF that])
  have notify: "org_inv (invite_notify env ctx tn u r st1)" if "org_inv st1" for tn u r st1
    by (rule org_inv_same [OF that invite_notify_same])
  show ?thesis
  proof (cases req)
    case (Some q)
    show ?thesis
    proof (cases "invite_role (iq_Role q)")
      case None
      with Some assms(1) show ?thesis by (simp add: handleInviteUser_def)
    next
      case (Some role)
      have new: "org_inv st2" if "insert_user v st = Some st1" "insert_member (pending_member env ?t u role) st1 = Some st2" for v st1 u st2
        by (rule ins [OF that(2) Some keep [OF that(1)]])
      have fresh: "org_inv st1" if "insert_user v st = Some st1" for v st1
        by (rule keeps_members_inv [OF assms(1) keep [OF that]])
      note old = ins [OF _ Some keeps_members_refl]
      from assms(1) show ?thesis
        unfolding handleInviteUser_def \<open>req = _\<close> option.case Some
        by (intro snd_branches [where P = org_inv]) (auto simp only: org_inv_audit attempt_Some intro: new fresh old notify)
    qed
  qed (simp add: handleInviteUser_def assms(1))
qed

section \<open>Sign-up keeps the invariant\<close>

lemma move_members_inv:
  assumes "org_inv st" "move_members P newID f st = Some st'"
    and f: "\<And>m. tm_TenantID (f m) = tm_TenantID m \<and> tm_OrgRole (f m) = tm_OrgRole m \<and> (tm_Status (f m) = tm_Status m \<or> tm_Status (f m) = StatusActive)"
    and P: "\<And>m. P m \<Longrightarrow> tm_UserID m = oldID"
  shows "org_inv st'"
proof -
  let ?h = "\<lambda>m. if P m then (f m)\<lparr>tm_UserID := newID\<rparr> else m" and ?ms = "db_memberships st"
  have o: "owned ?ms (tenant_ids st)" using assms(1) by (simp add: org_inv_def)
  have new: "\<not> is_member (tm_TenantID m) newID n" if "m \<in> set ?ms" "n \<in> set ?ms" "P m" "\<not> P n" for m n
    using assms(2) that by (force simp: move_members_def list_ex_iff split: if_splits)
  have st': "st' = update_members P (\<lambda>m. (f m)\<lparr>tm_UserID := newID\<rparr>) st"
    using assms(2) by (simp add: move_members_def split: if_splits)
  have "inj_on (\<lambda>m. member_key (?h m)) (set ?ms)"
  proof (rule inj_onI)
    fix m n assume m: "m \<in> set ?ms" and n: "n \<in> set ?ms" and e: "member_key (?h m) = member_key (?h n)"
    have "member_key m = member_key n"
    proof (cases "P m"; cases "P n")
      assume "P m" "P n" then show ?thesis using e P f by (simp add: member_key_def)
    next
      assume "P m" "\<not> P n" then show ?thesis using e new [OF m n] f by (simp add: member_key_def is_member_def)
    next
      assume "\<not> P m" "P n" then show ?thesis using e new [OF n m] f by (simp add: member_key_def is_member_def)
    next
      assume "\<not> P m" "\<not> P n" then show ?thesis using e by simp
    qed
    with owned_unique [OF o m n] show "m = n" by simp
  qed
  then have d: "distinct (map member_key (map ?h ?ms))" using o by (simp add: owned_def distinct_map comp_def inj_on_def)
  have "owned (map ?h ?ms) (tenant_ids st)"
  proof (rule owned_map [OF o d])
    fix m
    have "tm_TenantID (?h m) = tm_TenantID m" "tm_OrgRole (?h m) = tm_OrgRole m"
      "tm_Status (?h m) = tm_Status m \<or> tm_Status (?h m) = StatusActive" using f [of m] by simp_all
    then show "tm_TenantID (?h m) = tm_TenantID m \<and> (tm_OrgRole (?h m) = RoleOwner \<longleftrightarrow> tm_OrgRole m = RoleOwner) \<and>
        (tm_OrgRole m = RoleOwner \<longrightarrow> tm_Status m = StatusActive \<longrightarrow> tm_Status (?h m) = StatusActive)" by presburger
  qed
  then show ?thesis by (simp add: st' org_inv_def)
qed

lemma keeps_members_moves:
  "move_pmembers u v now st1 = Some st2 \<Longrightarrow> keeps_members st st2 \<longleftrightarrow> keeps_members st st1"
  "rename_user u v st1 = Some st2 \<Longrightarrow> keeps_members st st2 \<longleftrightarrow> keeps_members st st1"
  by (auto simp: move_pmembers_def rename_user_def split: if_splits)

lemma try_update_inv:
  assumes "org_inv st" "\<And>st'. f st = Some st' \<Longrightarrow> org_inv st'"
  shows "org_inv (try_update b f st)"
  using assms by (simp add: try_update_def split: option.split)

lemma adopt_user_inv:
  assumes "org_inv st"
  shows "org_inv (adopt_user env u v st)"
proof -
  have 1: "org_inv (try_update b (rename_user u v) st)" for b
    by (rule try_update_inv [OF assms]) (simp add: keeps_members_inv [OF assms] keeps_members_moves(2))
  have 2: "org_inv (try_update c (move_members (\<lambda>m. tm_UserID m = u) v (\<lambda>m. m\<lparr>tm_UpdatedAt := oe_now env\<rparr>)) st1)" if "org_inv st1" for c st1
  proof (rule try_update_inv [OF that])
    fix st' assume "move_members (\<lambda>m. tm_UserID m = u) v (\<lambda>m. m\<lparr>tm_UpdatedAt := oe_now env\<rparr>) st1 = Some st'"
    from move_members_inv [OF that this] show "org_inv st'" by simp
  qed
  have 3: "org_inv (try_update d (move_pmembers u v (oe_now env)) st1)" if "org_inv st1" for d st1
    by (rule try_update_inv [OF that]) (simp add: keeps_members_inv [OF that] keeps_members_moves(1))
  show ?thesis unfolding adopt_user_def by (rule 3, rule 2, rule 1)
qed

lemma create_workspace_Some:
  assumes "create_workspace env name st = Some st'"
  shows "db_memberships st' = db_memberships st" "tenant_ids st' = insert (oe_newID env 0) (tenant_ids st)"
    "oe_newID env 0 \<notin> tenant_ids st" "db_users st' = db_users st"
  using assms
  by (auto simp: create_workspace_def stmt_def insert_tenant_def insert_project_def list_ex_iff personal_tenant_def tenant_ids_def
      update_tenant_row_def image_iff split: if_splits bind_splits)

lemma own_workspace_inv:
  assumes "org_inv st" "create_workspace env name st = Some st1" "own_workspace env u st1 = Some st2"
  shows "org_inv st2"
proof -
  note w = create_workspace_Some [OF assms(2)]
  let ?m = "\<lparr>tm_TenantID = oe_newID env 0, tm_UserID = u, tm_OrgRole = RoleOwner, tm_Status = StatusActive,
     tm_CreatedAt = oe_now env, tm_UpdatedAt = oe_now env\<rparr>"
  obtain st3 where ins: "insert_member ?m st1 = Some st3" and k: "keeps_members st3 st2"
    using assms(3) keeps_members_insert(2) [of _ _ st2]
    by (auto simp: own_workspace_def stmt_def split: if_splits bind_splits)
  have o: "owned (db_memberships st) (tenant_ids st)" using assms(1) by (simp add: org_inv_def)
  have "\<forall>n \<in> set (db_memberships st). member_key n \<noteq> member_key ?m"
    using ins by (simp add: insert_member_Some is_member_key w(1) member_key_def [of ?m])
  from owned_append [OF o this, of "tenant_ids st1"] w(2,3) have "owned (db_memberships st @ [?m]) (tenant_ids st1)" by auto
  then have "org_inv st3" using ins by (simp add: insert_member_Some org_inv_def w(1) tenant_ids_def)
  then show ?thesis using k by (rule keeps_members_inv)
qed

lemma create_account_inv:
  assumes "org_inv st" "create_account env q st = Some st'"
  shows "org_inv st'"
proof -
  obtain st1 st2 where c: "create_workspace env (sync_name q) st = Some st1" "insert_user (new_user env q) st1 = Some st2"
    "own_workspace env (as_ClerkUserID q) st2 = Some st'"
    using assms(2) by (auto simp: create_account_def stmt_def split: if_splits bind_splits)
  have "create_workspace env (sync_name q) (st\<lparr>db_users := db_users st2\<rparr>) = Some st2"
    using c(1,2)
    by (auto simp: insert_user_Some create_workspace_def stmt_def insert_tenant_def insert_project_def update_tenant_row_def
        split: if_splits)
  moreover have "org_inv (st\<lparr>db_users := db_users st2\<rparr>)" by (rule keeps_members_inv [OF assms(1)]) simp
  ultimately show ?thesis using own_workspace_inv c(3) by blast
qed

lemma activate_invited_inv:
  assumes "org_inv st" "activate_invited env q oldID st = Some st'"
  shows "org_inv st'"
proof -
  obtain st2 st3 st4 st5 where c: "insert_user (new_user env q) (st\<lparr>db_users := filter (\<lambda>u. usr_ID u \<noteq> oldID) (db_users st)\<rparr>) = Some st2"
    "move_members (\<lambda>m. tm_UserID m = oldID \<and> tm_Status m = StatusPending) (as_ClerkUserID q)
       (\<lambda>m. m\<lparr>tm_Status := StatusActive, tm_UpdatedAt := oe_now env\<rparr>) st2 = Some st3"
    "move_pmembers oldID (as_ClerkUserID q) (oe_now env) st3 = Some st4"
    "create_workspace env (sync_name q) st4 = Some st5" "own_workspace env (as_ClerkUserID q) st5 = Some st'"
    using assms(2) by (auto simp: activate_invited_def stmt_def split: if_splits bind_splits)
  have "org_inv st2" by (rule keeps_members_inv [OF assms(1)]) (simp add: keeps_members_insert(3) [OF c(1)])
  from move_members_inv [OF this c(2)] have "org_inv st3" by simp
  then have "org_inv st4" by (rule keeps_members_inv) (simp add: keeps_members_moves(1) [OF c(3)])
  from own_workspace_inv [OF this c(4,5)] show ?thesis .
qed

lemma handleAuthSync_inv: "org_inv st \<Longrightarrow> org_inv (snd (handleAuthSync env secret provided req st))"
proof -
  assume i: "org_inv st"
  show ?thesis
    unfolding handleAuthSync_def
    by (intro snd_branches [where P = org_inv]) (auto simp only: intro: i adopt_user_inv create_account_inv activate_invited_inv)
qed

lemma handleAdminChangeTenantPlan_keeps: "keeps_members st (snd (handleAdminChangeTenantPlan env param req st))"
proof -
  have a: "keeps_members st (snd (applyPlanChange env t p st))" for t p
    by (simp add: applyPlanChange_def split: sum.split option.split)
  then have "keeps_members st (snd (case applyPlanChange env t p st of
      ((status, err), st') \<Rightarrow> (if status \<noteq> 0 then (status, err) else (200, []), st')))" for t p
    by (simp add: split_def)
  then show ?thesis
    unfolding handleAdminChangeTenantPlan_def by (intro snd_branches [where P = "keeps_members st"]) simp_all
qed

lemma serve_operator_keeps: "keeps_members st (snd (serve_operator emails env uid req st))"
proof -
  have a: "keeps_members st (snd (applyPlanChange env t p st))" for t p
    by (simp add: applyPlanChange_def split: sum.split option.split)
  have r: "keeps_members st (record_operator env actor act t x y st')" if "keeps_members st st'" for actor act t x y st'
    using that by (simp add: record_operator_def keeps_members_def)
  have p: "keeps_members st (snd (case applyPlanChange env t p st of
      ((status, err), st') \<Rightarrow> if status \<noteq> 0 then ((status, err), st')
        else ((200, []), record_operator env actor act t x y st')))" for t p actor act x y
    using a [of t p] r by (simp add: split_def)
  have "keeps_members st (snd (handleSuperAdminChangePlan env actor param q st))" for actor param q
    unfolding handleSuperAdminChangePlan_def by (intro snd_branches [where P = "keeps_members st"] p) simp_all
  moreover have "keeps_members st (snd (handleSuperAdminUpdateTenantStatus env actor param q st))" for actor param q
    unfolding handleSuperAdminUpdateTenantStatus_def by (intro snd_branches [where P = "keeps_members st"]) (simp_all add: r)
  ultimately have "keeps_members st (snd (operate env actor req st))" for actor by (cases req) simp_all
  then show ?thesis by (simp add: serve_operator_def split: sum.split)
qed

section \<open>The transitions\<close>

inductive org_step :: "org_db \<Rightarrow> org_db \<Rightarrow> bool" where
  request: "serve env uid ts req st = (r, st') \<Longrightarrow> org_step st st'"
| sign_in: "handleAuthSync env secret provided q st = (sr, st') \<Longrightarrow> org_step st st'"
| platform: "handleAdminChangeTenantPlan env param plan st = (r, st') \<Longrightarrow> org_step st st'"
| operator: "serve_operator emails env uid oreq st = (r, st') \<Longrightarrow> org_step st st'"

inductive_cases org_stepE: "org_step st st'"

text \<open>Before the first sign-up there is no member.\<close>

definition no_members :: "org_db \<Rightarrow> bool" where
  "no_members st \<longleftrightarrow> db_memberships st = []"

lemma handle_inv:
  assumes "org_inv st" "admit st uid ts (route_role req) = Inr c"
  shows "org_inv (snd (handle env c req st))"
proof -
  obtain m where m: "m \<in> set (db_memberships st)" "is_member (ctx_tenant_id c) uid m" "tm_OrgRole m = ctx_org_role c"
    using admitted(4) [OF assms(2)] by blast
  have t: "tm_TenantID m = ctx_tenant_id c" "usr_ID (ctx_user c) = uid" using m(2) admitted(1) [OF assms(2)] by (simp_all add: is_member_def)
  show ?thesis
  proof (cases req)
    case (TransferOwnership u)
    have "tm_OrgRole m = RoleOwner"
      using admitted(2) [OF assms(2)] m(3) TransferOwnership by (simp add: RoleLevel_def split: if_splits)
    then show ?thesis using handleTransferOwnership_inv [OF assms(1) m(1)] m(2) t(2) TransferOwnership by simp
  next
    case (InviteUser q)
    then show ?thesis using handleInviteUser_inv [OF assms(1) m(1) t(1)] by simp
  qed (use assms(1) keeps_members_inv [OF assms(1)] in
    \<open>simp_all add: role_changes_inv answers_inv handleRemoveUser_inv handleDeleteAccount_inv project_handlers_keep channel_handlers_keep\<close>)
qed

interpretation ownership: inductive_invariant no_members org_step org_inv
proof (unfold_locales)
  show "org_inv st" if "no_members st" for st
    using that by (simp add: no_members_def org_inv_def owned_def one_owner_def)
  show "org_inv st'" if i: "org_inv st" and s: "org_step st st'" for st st'
    using s
  proof (cases rule: org_step.cases)
    case (request env uid ts req r)
    then show ?thesis
    proof (cases rule: serve_cases)
      case (handled c)
      with handle_inv [OF i handled(1), of env] show ?thesis by simp
    qed (use i in simp)
  next
    case (sign_in env secret provided q sr)
    with handleAuthSync_inv [OF i, of env secret provided q] show ?thesis by simp
  next
    case (platform env param plan r)
    with keeps_members_inv [OF i handleAdminChangeTenantPlan_keeps [of st env param plan]] show ?thesis by simp
  next
    case (operator emails env uid oreq r)
    with keeps_members_inv [OF i serve_operator_keeps [of st emails env uid oreq]] show ?thesis by simp
  qed
qed

lemma one_active_owner_reachable:
  assumes "reachable no_members org_step st" "m \<in> set (db_memberships st)"
  shows "\<exists>n. owners (db_memberships st) (tm_TenantID m) = [n] \<and> tm_Status n = StatusActive"
  using ownership.holds_when_reachable [OF assms(1)] assms(2) by (auto simp: org_inv_def owned_def one_owner_def)

section \<open>Demonstration data\<close>

definition demo_org_env :: "nat \<Rightarrow> org_env" where
  "demo_org_env n = \<lparr>oe_now = 1000, oe_fault = (\<lambda>_. False), oe_audit_down = True, oe_notify_down = True, oe_newID = (\<lambda>k. n + k),
     oe_json = \<lparr>jt_Unmarshal = (\<lambda>_. Some (JObj [])), jt_Marshal = (\<lambda>_. ''{}'')\<rparr>, oe_is_email = (\<lambda>s. CHR ''@'' \<in> set s), oe_worker = False,
     oe_clerkSecretKey = ''sk'', oe_clerk = (\<lambda>_. Some 200), oe_agent = [], oe_ip = []\<rparr>"

definition demo_sync :: "string \<Rightarrow> authSyncReq" where
  "demo_sync u = \<lparr>as_ClerkUserID = u, as_Email = u @ ''@x'', as_FirstName = u, as_LastName = []\<rparr>"

definition demo_member :: "nat \<Rightarrow> string \<Rightarrow> string \<Rightarrow> string \<Rightarrow> TenantMembership" where
  "demo_member n u role status = \<lparr>tm_TenantID = n, tm_UserID = u, tm_OrgRole = role, tm_Status = status, tm_CreatedAt = 1000, tm_UpdatedAt = 1000\<rparr>"

text \<open>The tables after the users with the given tenants signed up, with the given memberships, Ada's on the given plan.\<close>

definition demo_org :: "string \<Rightarrow> (nat \<times> string) list \<Rightarrow> TenantMembership list \<Rightarrow> org_db" where
  "demo_org plan us ms = \<lparr>
     db_tenants = map (\<lambda>(n, u). (personal_tenant (demo_org_env n) u)\<lparr>ten_Plan := if n = 10 then plan else PlanFree, ten_DefaultProjectID := Some (n + 1)\<rparr>) us,
     db_users = map (\<lambda>(n, u). new_user (demo_org_env n) (demo_sync u)) us, db_memberships = ms,
     db_project_memberships = map (\<lambda>(n, u). \<lparr>pm_ProjectID = n + 1, pm_UserID = u, pm_ProjectRole = ProjectRoleAdmin,
       pm_CreatedAt = 1000, pm_UpdatedAt = 1000\<rparr>) us,
     db_projects = map (\<lambda>(n, u). \<lparr>pj_ID = n + 1, pj_TenantID = n, pj_Name = ''Default'', pj_Description = [],
       pj_Status = ProjectStatusActive, pj_CreatedAt = 1000, pj_UpdatedAt = 1000\<rparr>) us,
     db_keys = [], db_key_configs = [], db_provider_keys = [], db_settings = [], db_budgets = [], db_rate_limits = [], db_channels = [],
     db_notifications = [], db_audit = [], db_clerk_deleted = [], db_dispatched = []\<rparr>"

text \<open>Ada signs up, then Bob; the operator sets the plan of Ada's tenant; she invites Bob, who accepts.\<close>

abbreviation "ada_bob \<equiv> [(10, ''ada''), (20, ''bob'')]"

definition demo_team :: "string \<Rightarrow> string \<Rightarrow> org_db" where
  "demo_team role status = demo_org PlanTeam ada_bob
     [demo_member 10 ''ada'' RoleOwner StatusActive, demo_member 20 ''bob'' RoleOwner StatusActive, demo_member 10 ''bob'' role status]"

lemma demo_sign_ups:
  "snd (handleAuthSync (demo_org_env 10) [] [] (Some (demo_sync ''ada'')) (demo_org PlanFree [] [])) =
    demo_org PlanFree [(10, ''ada'')] [demo_member 10 ''ada'' RoleOwner StatusActive]"
  "snd (handleAuthSync (demo_org_env 20) [] [] (Some (demo_sync ''bob''))
      (demo_org PlanFree [(10, ''ada'')] [demo_member 10 ''ada'' RoleOwner StatusActive])) =
    demo_org PlanFree ada_bob [demo_member 10 ''ada'' RoleOwner StatusActive, demo_member 20 ''bob'' RoleOwner StatusActive]"
  by code_simp+

lemma demo_upgrade:
  "snd (handleAdminChangeTenantPlan (demo_org_env 30) ''10'' (Some PlanTeam)
      (demo_org PlanFree ada_bob [demo_member 10 ''ada'' RoleOwner StatusActive, demo_member 20 ''bob'' RoleOwner StatusActive])) =
    demo_org PlanTeam ada_bob [demo_member 10 ''ada'' RoleOwner StatusActive, demo_member 20 ''bob'' RoleOwner StatusActive]"
  by code_simp

end
