(* ===== verification/Engine.thy ===== *)
theory Engine
  imports Budget
begin

text \<open>
  Safety of the pricing engine as a whole: what the budget pre-check decides, what the processing
  of an event leaves in the ledger and in the counters on each of its branches, and that a
  reservation and its release cancel. The definitions are those of \<open>Budget\<close>.
\<close>

section \<open>Pre-check\<close>

lemma PreCheckBudget_loop:
  assumes "loadBudgetLimits e db tenantID (es_redis st) = (Inr limits, s1)"
  shows "fst (PreCheckBudget e db tenantID keyID provider now st) =
    fst (precheck_loop e db (st\<lparr>es_redis := s1\<rparr>) tenantID keyID provider now
      (filter (in_scope keyID) limits) None (es_notifs st))"
  using assms by (simp add: PreCheckBudget_def Let_def split: prod.split)

lemma PreCheckBudget_decides:
  assumes "loadBudgetLimits e db tenantID (es_redis st) = (Inr limits, s1)"
    and "\<forall>l \<in> set limits. bl_LimitAmount l \<noteq> 0"
  shows "(case fst (PreCheckBudget e db tenantID keyID provider now st) of
        PreBlocked status err \<Rightarrow> \<exists>l \<in> set limits. in_scope keyID l \<and> relevant provider l \<and>
          blocks_at (effective_spend e db (st\<lparr>es_redis := s1\<rparr>) tenantID l now) l
      | PreOK status \<Rightarrow> \<not> (\<exists>l \<in> set limits. in_scope keyID l \<and> relevant provider l \<and>
          blocks_at (effective_spend e db (st\<lparr>es_redis := s1\<rparr>) tenantID l now) l)
      | PrePanic \<Rightarrow> False)"
proof -
  let ?eff = "\<lambda>l. effective_spend e db (st\<lparr>es_redis := s1\<rparr>) tenantID l now"
  let ?ls = "filter (in_scope keyID) limits"
  have nz: "\<forall>l \<in> set ?ls. relevant provider l \<longrightarrow> bl_LimitAmount l \<noteq> 0" using assms(2) by simp
  note loop = precheck_loop_blocked [OF nz, where e = e and db = db and st = "st\<lparr>es_redis := s1\<rparr>" and
      tenantID = tenantID and now = now and keyID = keyID and nearest = None and ns = "es_notifs st"]
  show ?thesis
  proof (cases "find (\<lambda>l. relevant provider l \<and> blocks_at (?eff l) l) ?ls")
    case None
    with loop have "\<exists>n. fst (PreCheckBudget e db tenantID keyID provider now st) = PreOK n"
      by (simp add: PreCheckBudget_loop [OF assms(1)])
    moreover have "\<not> (\<exists>l \<in> set limits. in_scope keyID l \<and> relevant provider l \<and> blocks_at (?eff l) l)"
      using None by (auto simp: find_None_iff)
    ultimately show ?thesis by auto
  next
    case (Some l)
    then have "l \<in> set ?ls \<and> relevant provider l \<and> blocks_at (?eff l) l" by (rule find_SomeD)
    with loop Some show ?thesis by (auto simp: PreCheckBudget_loop [OF assms(1)])
  qed
qed

text \<open>C10: the pre-check rejects a request exactly when some enabled limit that applies to it (account
  scope or the request's API key, the request's provider or all providers) has a blocking action
  and its recorded plus reserved spend has reached the limit. Without a limit of amount zero it
  never panics, and when it does not reject it returns the status of the applicable limits.\<close>

theorem PreCheckBudget_blocks_iff:
  assumes "loadBudgetLimits e db tenantID (es_redis st) = (Inr limits, s1)"
    and "\<forall>l \<in> set limits. bl_LimitAmount l \<noteq> 0"
  shows "(case fst (PreCheckBudget e db tenantID keyID provider now st) of
        PreBlocked status err \<Rightarrow> \<exists>l \<in> set limits. in_scope keyID l \<and> relevant provider l \<and>
          blocks_at (effective_spend e db (st\<lparr>es_redis := s1\<rparr>) tenantID l now) l
      | PreOK status \<Rightarrow> \<not> (\<exists>l \<in> set limits. in_scope keyID l \<and> relevant provider l \<and>
          blocks_at (effective_spend e db (st\<lparr>es_redis := s1\<rparr>) tenantID l now) l)
      | PrePanic \<Rightarrow> False)"
  using assms by (rule PreCheckBudget_decides)

lemma demo_limits_loaded:
  "\<forall>l \<in> set limits. bl_TenantID l = 7 \<Longrightarrow>
   loadBudgetLimits map_engine (demo_edb limits) 7 s = (Inr limits, s)"
  by (simp add: loadBudgetLimits_def read_through_def map_engine_def map_redis_def filter_id_conv
      split: option.split)

lemma demo_effective: "effective_spend map_engine db (demo_state x) 7 (demo_limit a m) noon = x"
proof -
  have "reservationRedisKey 7 PeriodDaily noon \<noteq> budgetRedisKey 7 PeriodDaily noon"
    by (simp add: reservationRedisKey_def budgetRedisKey_def show_nat.simps digit_char_def)
  then show ?thesis
    by (simp add: effective_spend_def getSpend_def getReserved_def demo_limit_def demo_state_def
        spend_key_def counter_val_def map_redis_def)
qed

theorem PreCheckBudget_blocks_iff_witness:
  "\<exists>status err. fst (PreCheckBudget map_engine (demo_edb [demo_limit BudgetActionAlertBlock 10]) 7 ''k''
     ''openai'' noon (demo_state 12)) = PreBlocked status err"
proof -
  have l: "loadBudgetLimits map_engine (demo_edb [demo_limit BudgetActionAlertBlock 10]) 7
      (es_redis (demo_state 12)) = (Inr [demo_limit BudgetActionAlertBlock 10], es_redis (demo_state 12))"
    by (rule demo_limits_loaded) (simp add: demo_limit_def)
  have "\<exists>l \<in> set [demo_limit BudgetActionAlertBlock 10]. in_scope ''k'' l \<and> relevant ''openai'' l \<and>
      blocks_at (effective_spend map_engine (demo_edb [demo_limit BudgetActionAlertBlock 10])
        ((demo_state 12)\<lparr>es_redis := es_redis (demo_state 12)\<rparr>) 7 l noon) l"
    by (simp add: demo_effective) (simp add: in_scope_def relevant_def blocks_at_def demo_limit_def)
  then show ?thesis
    using PreCheckBudget_blocks_iff [OF l, of "''k''" "''openai''" noon]
    by (simp add: demo_limit_def split: precheck.splits)
qed

text \<open>The status that an admitted request carries in its headers is that of the tightest budget:
  it belongs to an applicable limit at or above its alert threshold, and no applicable limit at its
  threshold has a higher ratio of spend to limit; there is no status exactly when no applicable
  limit is at its threshold.\<close>

theorem PreCheckBudget_nearest:
  assumes "loadBudgetLimits e db tenantID (es_redis st) = (Inr limits, s1)"
    and "\<forall>l \<in> set limits. bl_LimitAmount l \<noteq> 0"
    and "fst (PreCheckBudget e db tenantID keyID provider now st) = PreOK n"
  defines "at_threshold \<equiv> {limit_status l (effective_spend e db (st\<lparr>es_redis := s1\<rparr>) tenantID l now) |l.
      l \<in> set limits \<and> in_scope keyID l \<and> relevant provider l \<and>
      warns_at e (effective_spend e db (st\<lparr>es_redis := s1\<rparr>) tenantID l now) l}"
  shows "case n of None \<Rightarrow> at_threshold = {}
    | Some m \<Rightarrow> m \<in> at_threshold \<and> (\<forall>m' \<in> at_threshold. usage_ratio e m' \<le> usage_ratio e m)"
proof -
  let ?eff = "\<lambda>l. effective_spend e db (st\<lparr>es_redis := s1\<rparr>) tenantID l now"
  let ?ls = "filter (in_scope keyID) limits"
  have nz: "\<forall>l \<in> set ?ls. relevant provider l \<longrightarrow> bl_LimitAmount l \<noteq> 0" using assms(2) by simp
  note loop = precheck_loop_nearest [OF nz, OF assms(3) [unfolded PreCheckBudget_loop [OF assms(1)]]]
  have max: "\<not> nearer e n m'" if "m' \<in> at_threshold" for m'
    using loop that unfolding at_threshold_def by auto
  show ?thesis
  proof (cases n)
    case None
    then show ?thesis using max by (auto simp: nearer_def)
  next
    case (Some m)
    then have "m \<in> at_threshold" using loop unfolding at_threshold_def by auto
    moreover have "\<forall>m' \<in> at_threshold. usage_ratio e m' \<le> usage_ratio e m"
      using max Some by (auto simp: nearer_def not_less)
    ultimately show ?thesis using Some by simp
  qed
qed

lemma demo_alert:
  "fst (PreCheckBudget map_engine (demo_edb [demo_limit BudgetActionAlert 10]) 7 ''k'' ''openai'' noon
     (demo_state 9)) = PreOK (Some (limit_status (demo_limit BudgetActionAlert 10) 9))"
proof -
  let ?l = "demo_limit BudgetActionAlert 10" and ?st = "demo_state 9"
  have l: "loadBudgetLimits map_engine (demo_edb [?l]) 7 (es_redis ?st) = (Inr [?l], es_redis ?st)"
    by (rule demo_limits_loaded) (simp add: demo_limit_def)
  have f: "bl_Enabled ?l" "bl_Provider ?l = []" "bl_Action ?l = BudgetActionAlert" "bl_LimitAmount ?l = 10"
    "bl_AlertThreshold ?l = 80" "in_scope ''k'' ?l" by (simp_all add: demo_limit_def in_scope_def)
  show ?thesis unfolding PreCheckBudget_loop [OF l]
    by (simp add: f demo_effective precheck_loop.simps(2) Let_def)
qed

theorem PreCheckBudget_nearest_witness:
  "\<exists>m. fst (PreCheckBudget map_engine (demo_edb [demo_limit BudgetActionAlert 10]) 7 ''k'' ''openai'' noon
       (demo_state 9)) = PreOK (Some m) \<and> bs_LimitAmount m = 10 \<and> bs_CurrentSpend m = 9"
proof -
  let ?l = "demo_limit BudgetActionAlert 10" and ?st = "demo_state 9"
  have l: "loadBudgetLimits map_engine (demo_edb [?l]) 7 (es_redis ?st) = (Inr [?l], es_redis ?st)"
    by (rule demo_limits_loaded) (simp add: demo_limit_def)
  have nz: "\<forall>l \<in> set [?l]. bl_LimitAmount l \<noteq> 0" by (simp add: demo_limit_def)
  have "limit_status ?l 9 \<in> {limit_status l (effective_spend map_engine (demo_edb [?l])
      (?st\<lparr>es_redis := es_redis ?st\<rparr>) 7 l noon) |l. l \<in> set [?l] \<and> in_scope ''k'' l \<and>
      relevant ''openai'' l \<and> warns_at map_engine (effective_spend map_engine (demo_edb [?l])
        (?st\<lparr>es_redis := es_redis ?st\<rparr>) 7 l noon) l}"
    using PreCheckBudget_nearest [OF l nz demo_alert] by simp
  then have "\<exists>l. l \<in> set [?l] \<and> limit_status ?l 9 = limit_status l (effective_spend map_engine
      (demo_edb [?l]) ?st 7 l noon)" by auto
  then show ?thesis using demo_alert by (auto simp: demo_effective limit_status_def demo_limit_def)
qed

text \<open>A limit of amount zero makes the pre-check panic: when the first applicable limit only
  alerts, its amount is zero and the spend is not negative, the division of the spend by the amount
  is reached, and no later limit is looked at.\<close>

theorem PreCheckBudget_zero_limit_panics:
  assumes "loadBudgetLimits e db tenantID (es_redis st) = (Inr (l # ls), s1)"
    and "in_scope keyID l" and "relevant provider l" and "bl_Action l = BudgetActionAlert"
    and "bl_LimitAmount l = 0" and "div_exact (en_div e)"
    and "0 \<le> effective_spend e db (st\<lparr>es_redis := s1\<rparr>) tenantID l now"
  shows "fst (PreCheckBudget e db tenantID keyID provider now st) = PrePanic"
proof -
  have "en_div e (0 :: rat) 100 = 0 / 100"
    using assms(6) unfolding div_exact_def by (metis div_0 mult_zero_left of_int_0 zero_neq_numeral)
  then have "warns_at e (effective_spend e db (st\<lparr>es_redis := s1\<rparr>) tenantID l now) l"
    using assms(5,7) by (simp add: warns_at_def)
  moreover have "\<not> blocks_at (effective_spend e db (st\<lparr>es_redis := s1\<rparr>) tenantID l now) l"
    using assms(4) by (simp add: blocks_at_def)
  ultimately show ?thesis
    unfolding PreCheckBudget_loop [OF assms(1)]
    using precheck_step(4) [OF assms(3) _ _ assms(5)] assms(2) by simp
qed

theorem PreCheckBudget_zero_limit_panics_witness:
  "fst (PreCheckBudget map_engine (demo_edb [demo_limit BudgetActionAlert 0]) 7 ''k'' ''openai'' noon
     (demo_state 0)) = PrePanic"
proof -
  let ?l = "demo_limit BudgetActionAlert 0" and ?st = "demo_state 0"
  have l: "loadBudgetLimits map_engine (demo_edb [?l]) 7 (es_redis ?st) = (Inr [?l], es_redis ?st)"
    by (rule demo_limits_loaded) (simp add: demo_limit_def)
  show ?thesis
    by (rule PreCheckBudget_zero_limit_panics [OF l])
      (simp_all add: div_exact_id demo_effective, simp_all add: in_scope_def relevant_def demo_limit_def)
qed

section \<open>The budget check of the pipeline\<close>

text \<open>The check inside the pipeline rejects an event exactly when some limit of the tenant with
  the action \<open>block\<close>, in scope for the event's key and provider, would be exceeded by the spend
  read plus the cost of the event. Limits with the action \<open>alert_block\<close> play no role here, and
  whether a limit is enabled is not asked.\<close>

theorem checkBudget_rejects_iff:
  "(\<exists>err. checkBudget e db st event cost = Some err) \<longleftrightarrow>
     \<not> pd_down db \<and>
     (\<exists>l \<in> set (ed_limits db). bl_TenantID l = ue_TenantID event \<and> bl_Action l = BudgetActionBlock \<and>
        in_scope (ue_APIKeyRef event) l \<and> (bl_Provider l = [] \<or> bl_Provider l = ue_Provider event) \<and>
        bl_LimitAmount l < getSpend e db st (ue_TenantID event) (bl_ScopeType l) (bl_ScopeID l)
          (bl_PeriodType l) (bl_Provider l) (ue_Timestamp event) + cost)"
proof -
  have "(\<exists>err. checkBudget e db st event cost = Some err) \<longleftrightarrow> checkBudget e db st event cost \<noteq> None"
    by auto
  also have "\<dots> \<longleftrightarrow> (\<exists>l \<in> set (blocking_limits db event).
      (bl_Provider l = [] \<or> bl_Provider l = ue_Provider event) \<and>
      bl_LimitAmount l < getSpend e db st (ue_TenantID event) (bl_ScopeType l) (bl_ScopeID l)
          (bl_PeriodType l) (bl_Provider l) (ue_Timestamp event) + cost)"
    unfolding checkBudget_def check_loop_None by (auto simp: not_le)
  finally show ?thesis by (auto simp: blocking_limits_def set_db_find)
qed

text \<open>The two budget checks disagree: a limit with the action \<open>alert_block\<close> that the pre-check
  enforces is not enforced when the event is processed, whatever the cost.\<close>

theorem alert_block_not_enforced_by_pipeline:
  assumes "\<forall>l \<in> set (ed_limits db). bl_Action l = BudgetActionAlertBlock"
  shows "checkBudget e db st event cost = None"
proof -
  have "blocking_limits db event = []"
    using assms by (auto simp: blocking_limits_def db_find_def filter_empty_conv)
  then show ?thesis by (simp add: checkBudget_def)
qed

theorem alert_block_not_enforced_by_pipeline_witness:
  "checkBudget map_engine (demo_edb [demo_limit BudgetActionAlertBlock 10]) (demo_state 12)
     (demo_event\<lparr>ue_Timestamp := noon\<rparr>) 1000 = None \<and>
   (\<exists>status err. fst (PreCheckBudget map_engine (demo_edb [demo_limit BudgetActionAlertBlock 10]) 7 ''k1''
     ''Anthropic'' noon (demo_state 12)) = PreBlocked status err)"
proof
  show "checkBudget map_engine (demo_edb [demo_limit BudgetActionAlertBlock 10]) (demo_state 12)
     (demo_event\<lparr>ue_Timestamp := noon\<rparr>) 1000 = None"
    by (rule alert_block_not_enforced_by_pipeline) (simp add: demo_limit_def)
  let ?l = "demo_limit BudgetActionAlertBlock 10" and ?st = "demo_state 12"
  have l: "loadBudgetLimits map_engine (demo_edb [?l]) 7 (es_redis ?st) = (Inr [?l], es_redis ?st)"
    by (rule demo_limits_loaded) (simp add: demo_limit_def)
  have "in_scope ''k1'' ?l" "relevant ''Anthropic'' ?l" "blocks_at 12 ?l"
    by (simp_all add: demo_limit_def in_scope_def relevant_def blocks_at_def)
  then show "\<exists>status err. fst (PreCheckBudget map_engine (demo_edb [?l]) 7 ''k1'' ''Anthropic'' noon ?st) =
      PreBlocked status err"
    unfolding PreCheckBudget_loop [OF l] by (simp add: precheck_step(2) demo_effective)
qed

section \<open>Processing\<close>

definition stamped :: "go_time \<Rightarrow> UsageEvent \<Rightarrow> UsageEvent" where
  "stamped now event = (if time_IsZero (ue_Timestamp event) then event\<lparr>ue_Timestamp := now\<rparr> else event)"

lemma create_ledger_Inr: "create_ledger e db row ledger = Inr ledger' \<longleftrightarrow>
    \<not> pd_down db \<and> cl_IdempotencyKey row \<notin> set (map cl_IdempotencyKey ledger) \<and> ledger' = ledger @ [row]"
  by (auto simp: create_ledger_def)

lemma writeLedger_Inr:
  assumes "writeLedger e db event res ledger = Inr ledger'"
  shows "\<exists>js. ledger' = ledger \<or> (ledger' = ledger @ [ledger_row event res js] \<and>
    ue_IdempotencyKey event \<notin> set (map cl_IdempotencyKey ledger))"
  using assms
  by (auto simp: writeLedger_def create_ledger_def ledger_row_def split: option.splits if_splits)

text \<open>The successful run of the pipeline on an event whose model is in the catalogue.\<close>

lemma Process_priced:
  assumes "Resolve (en_resolver e) (pricing_db.truncate db) now (stamped now event) (es_redis st) = (Inr resolved, s1)"
    and "Process e db now event st = (r, st')"
  defines "res \<equiv> price_event e (pricing_db.truncate db) (stamped now event) resolved"
    and "st1 \<equiv> st\<lparr>es_redis := s1\<rparr>"
  shows "(\<exists>err. r = Inl err \<and> st' = st1) \<or>
    (r = Inr res \<and> checkBudget e db st1 (stamped now event) (res_FinalCost res) = None \<and>
     (\<exists>ledger'. writeLedger e db (stamped now event) res (es_ledger st) = Inr ledger' \<and>
        st' = st1\<lparr>es_ledger := ledger',
          es_redis := incrementBudget e (stamped now event) (res_FinalCost res) s1\<rparr>))"
  using assms(1,2) unfolding Process_def res_def st1_def stamped_def [symmetric] Let_def
  by (auto split: option.splits sum.splits)

text \<open>C12: the cost ledger is append-only and free of duplicates: processing an event leaves every
  existing row in place and appends at most one row, whose idempotency key is that of the event and
  is new; a rejected or failed event appends nothing. If the keys of the ledger were pairwise
  different they stay so.\<close>

theorem Process_ledger_append_only:
  assumes "Process e db now event st = (r, st')" and "distinct (map cl_IdempotencyKey (es_ledger st))"
  shows "distinct (map cl_IdempotencyKey (es_ledger st')) \<and>
    (es_ledger st' = es_ledger st \<or>
     (\<exists>row res. r = Inr res \<and> es_ledger st' = es_ledger st @ [row] \<and>
        cl_IdempotencyKey row = ue_IdempotencyKey event \<and> cl_FinalCost row = res_FinalCost res))"
proof (cases "Resolve (en_resolver e) (pricing_db.truncate db) now (stamped now event) (es_redis st)")
  case (Pair rr s1)
  show ?thesis
  proof (cases rr)
    case (Inl err)
    then have "es_ledger st' = es_ledger st"
      using assms(1) Pair unfolding Process_def stamped_def [symmetric] Let_def
      by (cases err) auto
    with assms(2) show ?thesis by simp
  next
    case (Inr resolved)
    have key: "ue_IdempotencyKey (stamped now event) = ue_IdempotencyKey event"
      by (simp add: stamped_def)
    from Process_priced [OF Pair [unfolded Inr] assms(1)] show ?thesis
      using assms(2) by (auto dest!: writeLedger_Inr simp: ledger_row_def key)
  qed
qed

theorem Process_ledger_append_only_witness:
  "distinct (map cl_IdempotencyKey
     (es_ledger (snd (Process map_engine (demo_edb []) noon demo_event (demo_state 2)))))"
proof -
  have "Process map_engine (demo_edb []) noon demo_event (demo_state 2) =
      (fst (Process map_engine (demo_edb []) noon demo_event (demo_state 2)),
       snd (Process map_engine (demo_edb []) noon demo_event (demo_state 2)))" by simp
  from Process_ledger_append_only [OF this] show ?thesis by (simp add: demo_state_def)
qed

text \<open>C11: what the pipeline accepts stays within the blocking limits: when an event whose model is in
  the catalogue is accepted, the spend read for every limit with the action \<open>block\<close> that covers it,
  plus the final cost of the event, does not exceed the limit.\<close>

theorem Process_within_limits:
  assumes "Resolve (en_resolver e) (pricing_db.truncate db) now (stamped now event) (es_redis st) = (Inr resolved, s1)"
    and "Process e db now event st = (Inr res, st')" and "\<not> pd_down db"
    and "l \<in> set (ed_limits db)" and "bl_TenantID l = ue_TenantID event" and "bl_Action l = BudgetActionBlock"
    and "in_scope (ue_APIKeyRef event) l" and "bl_Provider l = [] \<or> bl_Provider l = ue_Provider event"
  shows "getSpend e db (st\<lparr>es_redis := s1\<rparr>) (ue_TenantID event) (bl_ScopeType l) (bl_ScopeID l)
      (bl_PeriodType l) (bl_Provider l) (ue_Timestamp (stamped now event)) + res_FinalCost res \<le> bl_LimitAmount l"
proof -
  let ?ev = "stamped now event"
  have ev: "ue_TenantID ?ev = ue_TenantID event" "ue_APIKeyRef ?ev = ue_APIKeyRef event"
    "ue_Provider ?ev = ue_Provider event" by (simp_all add: stamped_def)
  have "checkBudget e db (st\<lparr>es_redis := s1\<rparr>) ?ev (res_FinalCost res) = None"
    using Process_priced [OF assms(1,2)] by auto
  moreover have "l \<in> set (blocking_limits db ?ev)"
    using assms(3-7) ev by (simp add: blocking_limits_def set_db_find)
  ultimately show ?thesis
    using assms(8) ev unfolding checkBudget_def check_loop_None by auto
qed

definition noon_event :: UsageEvent where "noon_event = demo_event\<lparr>ue_Timestamp := noon\<rparr>"

lemma noon_event_simps [simp]:
  "ue_Provider noon_event = ''Anthropic''" "ue_Model noon_event = ''opus''" "ue_TenantID noon_event = 7"
  "ue_APIKeyRef noon_event = ''k1''" "ue_Timestamp noon_event = noon" "ue_IdempotencyKey noon_event = ''r1''"
  "ue_APIUsageBilled noon_event"
  by (simp_all add: noon_event_def demo_event_def)

lemma noon_dims: "dims noon_event = [(''input'', 1000), (''output'', 250), (''cache_creation'', 0),
    (''cache_read'', 0), (''reasoning'', 0)]"
  by (simp add: dims_def noon_event_def demo_event_def)

lemma stamped_noon [simp]: "stamped t noon_event = noon_event"
  by (simp add: stamped_def time_IsZero_def noon_def)

lemma map_read_through: "read_through (Some map_redis) \<lparr>cd_Marshal = (\<lambda>_. None), cd_Unmarshal = (\<lambda>_. None)\<rparr> k ttl load s = (load, s)"
  by (simp add: read_through_def split: option.split sum.split)

lemma demo_Resolve_lower:
  assumes "strings_ToLower (ue_Provider ev) = ''anthropic''" "strings_ToLower (ue_Model ev) = ''opus''" "ue_Timestamp ev = noon"
  shows "Resolve (en_resolver map_engine) (pricing_db.truncate (demo_edb limits)) now ev s =
     (Inr \<lparr>rps_ProviderID = 3, rps_ModelID = 2, rps_Prices = load_prices demo_db ev 2 noon\<rparr>, s)"
proof -
  have db: "pricing_db.truncate (demo_edb limits) = demo_db"
    by (simp add: demo_edb_def demo_db_def pricing_db.defs)
  have lower: "strings_ToLower ''anthropic'' = ''anthropic''" "strings_ToLower ''Opus'' = ''opus''" by code_simp+
  have p: "find_provider demo_db (ue_Provider ev) = Inr \<lparr>prov_ID = 3, prov_Name = ''anthropic''\<rparr>"
    by (simp add: find_provider_def demo_db_def db_first_def lower assms(1,2))
  have m: "find_model demo_db 3 (ue_Model ev) = Inr \<lparr>md_ID = 2, md_ProviderID = 3, md_ModelName = ''Opus''\<rparr>"
    by (simp add: find_model_def demo_db_def db_first_def lower assms(1,2))
  have "\<not> time_IsZero noon" by (simp add: time_IsZero_def noon_def)
  then show ?thesis
    unfolding db Resolve_def resolveFromDB_def resolveProvider_def resolveModel_def
    by (simp add: assms(3) map_engine_def map_read_through p m Let_def split: option.split)
qed

lemma demo_Resolve_event:
  assumes "ue_Provider ev = ''Anthropic''" "ue_Model ev = ''opus''" "ue_Timestamp ev = noon"
  shows "Resolve (en_resolver map_engine) (pricing_db.truncate (demo_edb limits)) now ev s =
     (Inr \<lparr>rps_ProviderID = 3, rps_ModelID = 2, rps_Prices = load_prices demo_db ev 2 noon\<rparr>, s)"
proof (rule demo_Resolve_lower [OF _ _ assms(3)])
  have "strings_ToLower ''Anthropic'' = ''anthropic''" "strings_ToLower ''opus'' = ''opus''" by code_simp+
  then show "strings_ToLower (ue_Provider ev) = ''anthropic''" "strings_ToLower (ue_Model ev) = ''opus''"
    by (simp_all add: assms)
qed

lemma demo_Resolve:
  "Resolve (en_resolver map_engine) (pricing_db.truncate (demo_edb limits)) now noon_event s =
     (Inr \<lparr>rps_ProviderID = 3, rps_ModelID = 2, rps_Prices = load_prices demo_db noon_event 2 noon\<rparr>, s)"
  by (simp add: demo_Resolve_event)

lemma demo_output_price:
  "load_prices demo_db ev 2 noon ''output'' = Some (snd (standard_price (demo_price ''output'' 75)))"
proof -
  have k: "key_rates demo_db ev 2 = []"
    by (simp add: key_rates_def demo_db_def db_first_def)
  have c: "map_of (map contract_price (active_contracts demo_db T 2 noon)) ''output'' = None" for T
    by (simp add: active_contracts_def demo_db_def db_find_def contract_price_def demo_contract_def)
  have s: "active_prices demo_db 2 noon = [demo_price ''input'' 15, demo_price ''output'' 75]"
    by (simp add: active_prices_def demo_db_def demo_price_def db_find_def effective_at_def noon_def)
  show ?thesis by (simp add: load_prices_eq k c s standard_price_def demo_price_def)
qed

lemma demo_final_event:
  assumes "ue_TenantID ev = 7" "ue_APIKeyRef ev = ''k1''" "ue_Timestamp ev = noon"
    and dims: "dims ev = [(''input'', 1000), (''output'', 250), (''cache_creation'', 0),
      (''cache_read'', 0), (''reasoning'', 0)]"
  shows "res_FinalCost (price_event map_engine (pricing_db.truncate (demo_edb limits)) ev
     \<lparr>rps_ProviderID = 3, rps_ModelID = 2, rps_Prices = load_prices demo_db ev 2 noon\<rparr>) =
   3 / 1000 + 75 * 250 / 1000000"
proof -
  let ?r = "\<lparr>rps_ProviderID = 3, rps_ModelID = 2, rps_Prices = load_prices demo_db ev 2 noon\<rparr>"
  have db: "pricing_db.truncate (demo_edb limits) = demo_db"
    by (simp add: demo_edb_def demo_db_def pricing_db.defs)
  have mk: "resolveMarkups demo_db ev ?r = []"
    by (simp add: resolveMarkups_def demo_db_def db_find_def)
  have k: "key_rates demo_db ev 2 = []"
    by (simp add: key_rates_def demo_db_def db_first_def)
  have c: "active_contracts demo_db 7 2 noon = [demo_contract]"
    by (simp add: active_contracts_def demo_db_def demo_contract_def db_find_def effective_at_def noon_def)
  have s: "active_prices demo_db 2 noon = [demo_price ''input'' 15, demo_price ''output'' 75]"
    by (simp add: active_prices_def demo_db_def demo_price_def db_find_def effective_at_def noon_def)
  have pr: "load_prices demo_db ev 2 noon ''input'' = Some (snd (contract_price demo_contract))"
    "load_prices demo_db ev 2 noon ''output'' = Some (snd (standard_price (demo_price ''output'' 75)))"
    by (simp_all add: load_prices_eq assms(1) k c s contract_price_def standard_price_def demo_contract_def demo_price_def)
  have "fst (Calculate (/) (en_str map_engine) ev (load_prices demo_db ev 2 noon)) =
      3 / 1000 + 75 * 250 / 1000000"
    unfolding Calculate_sum billed_dims_def dims
    by (simp add: List.map_filter_simps pr rounded_cost_def contract_price_def demo_contract_def
        standard_price_def demo_price_def default_unit_def split: option.split)
  then show ?thesis
    by (simp add: price_event_def db mk ApplyMarkups_def case_prod_unfold Let_def)
qed

lemmas demo_final = demo_final_event [of noon_event, OF noon_event_simps(3,4,5) noon_dims]

theorem Process_within_limits_witness:
  "\<exists>res st'. Process map_engine (demo_edb [demo_limit BudgetActionBlock 10]) noon noon_event (demo_state 2) =
       (Inr res, st') \<and> 2 + res_FinalCost res \<le> 10"
proof -
  let ?db = "demo_edb [demo_limit BudgetActionBlock 10]" and ?st = "demo_state 2"
  let ?r = "\<lparr>rps_ProviderID = 3, rps_ModelID = 2, rps_Prices = load_prices demo_db noon_event 2 noon\<rparr>"
  let ?res = "price_event map_engine (pricing_db.truncate ?db) noon_event ?r"
  have R: "Resolve (en_resolver map_engine) (pricing_db.truncate ?db) noon (stamped noon noon_event)
      (es_redis ?st) = (Inr ?r, es_redis ?st)" by (simp add: demo_Resolve)
  have sp: "getSpend map_engine ?db ?st 7 BudgetScopeAccount [] PeriodDaily [] noon = 2"
    by (simp add: getSpend_def spend_key_def demo_state_def counter_val_def map_redis_def)
  have l: "bl_TenantID (demo_limit BudgetActionBlock 10) = 7" "bl_Provider (demo_limit BudgetActionBlock 10) = []"
    "bl_ScopeType (demo_limit BudgetActionBlock 10) = BudgetScopeAccount"
    "bl_ScopeID (demo_limit BudgetActionBlock 10) = []" "bl_PeriodType (demo_limit BudgetActionBlock 10) = PeriodDaily"
    "bl_LimitAmount (demo_limit BudgetActionBlock 10) = 10" "bl_Action (demo_limit BudgetActionBlock 10) = BudgetActionBlock"
    "in_scope ''k1'' (demo_limit BudgetActionBlock 10)"
    by (simp_all add: demo_limit_def in_scope_def)
  have cb: "checkBudget map_engine ?db ?st noon_event (res_FinalCost ?res) = None"
    unfolding checkBudget_def check_loop_None demo_final
    by (simp add: blocking_limits_def set_db_find l sp)
  obtain r st' where P: "Process map_engine ?db noon noon_event ?st = (r, st')" by fastforce
  have "r = Inr ?res"
    using P cb unfolding Process_def stamped_def [symmetric] Let_def stamped_noon demo_Resolve
    by (simp add: writeLedger_def create_ledger_def map_engine_def demo_state_def split: if_splits)
  with P have P': "Process map_engine ?db noon noon_event ?st = (Inr ?res, st')" by simp
  have "getSpend map_engine ?db (?st\<lparr>es_redis := es_redis ?st\<rparr>) 7 BudgetScopeAccount [] PeriodDaily [] noon +
      res_FinalCost ?res \<le> 10"
    using Process_within_limits [OF R P', of "demo_limit BudgetActionBlock 10"] by (simp add: l)
  with P' sp show ?thesis by auto
qed

text \<open>A duplicate delivery is kept out of the ledger but counted again: when the idempotency key of
  the event is already in the ledger and the check passes, processing succeeds, leaves the ledger as
  it is, and still runs the increment of every budget counter with the cost of the event.\<close>

theorem Process_duplicate_counts_again:
  assumes "Resolve (en_resolver e) (pricing_db.truncate db) now (stamped now event) (es_redis st) = (Inr resolved, s1)"
    and "ue_IdempotencyKey event \<in> set (map cl_IdempotencyKey (es_ledger st))"
    and "\<not> pd_down db" and "isDuplicateKeyError (en_dup_msg e)"
  defines "res \<equiv> price_event e (pricing_db.truncate db) (stamped now event) resolved"
  assumes "en_snapshot e (res_Snapshot res) = Some js"
    and "checkBudget e db (st\<lparr>es_redis := s1\<rparr>) (stamped now event) (res_FinalCost res) = None"
  shows "Process e db now event st =
    (Inr res, st\<lparr>es_redis := incrementBudget e (stamped now event) (res_FinalCost res) s1\<rparr>)"
proof -
  have key: "ue_IdempotencyKey (stamped now event) = ue_IdempotencyKey event" by (simp add: stamped_def)
  have "writeLedger e db (stamped now event) res (es_ledger st) = Inr (es_ledger st)"
    using assms(2-4,6) by (simp add: writeLedger_def create_ledger_def ledger_row_def key)
  then show ?thesis
    using assms(1,7) unfolding Process_def stamped_def [symmetric] Let_def res_def by simp
qed

theorem Process_duplicate_counts_again_witness:
  "\<exists>res st1 st2. Process map_engine (demo_edb []) noon noon_event (demo_state 0) = (Inr res, st1) \<and>
     Process map_engine (demo_edb []) noon noon_event st1 = (Inr res, st2) \<and>
     es_ledger st2 = es_ledger st1 \<and>
     es_redis st2 = incrementBudget map_engine noon_event (res_FinalCost res)
       (incrementBudget map_engine noon_event (res_FinalCost res) (es_redis (demo_state 0)))"
proof -
  let ?db = "demo_edb []" and ?st = "demo_state 0"
  let ?r = "\<lparr>rps_ProviderID = 3, rps_ModelID = 2, rps_Prices = load_prices demo_db noon_event 2 noon\<rparr>"
  let ?res = "price_event map_engine (pricing_db.truncate ?db) noon_event ?r"
  let ?js = "[] :: string"
  let ?st1 = "?st\<lparr>es_ledger := [ledger_row noon_event ?res ?js],
    es_redis := incrementBudget map_engine noon_event (res_FinalCost ?res) (es_redis ?st)\<rparr>"
  have cb: "checkBudget map_engine ?db st noon_event c = None" for st c
    by (simp add: checkBudget_def blocking_limits_def db_find_def)
  have snap: "en_snapshot map_engine x = Some []" for x by (simp add: map_engine_def)
  have P1: "Process map_engine ?db noon noon_event ?st = (Inr ?res, ?st1)"
    unfolding Process_def stamped_def [symmetric] Let_def stamped_noon demo_Resolve
    by (simp add: cb writeLedger_def create_ledger_def snap) (simp add: demo_state_def)
  have R2: "Resolve (en_resolver map_engine) (pricing_db.truncate ?db) noon (stamped noon noon_event)
      (es_redis ?st1) = (Inr ?r, es_redis ?st1)" by (simp add: demo_Resolve)
  have dup: "isDuplicateKeyError (en_dup_msg map_engine)"
    by (simp add: map_engine_def) code_simp
  have key: "ue_IdempotencyKey noon_event \<in> set (map cl_IdempotencyKey (es_ledger ?st1))"
    by (simp add: ledger_row_def)
  have "Process map_engine ?db noon noon_event ?st1 = (Inr ?res, ?st1\<lparr>es_redis :=
      incrementBudget map_engine noon_event (res_FinalCost ?res) (es_redis ?st1)\<rparr>)"
    using Process_duplicate_counts_again [OF R2 key _ dup] by (simp add: snap cb)
  with P1 show ?thesis by fastforce
qed

section \<open>Reservations\<close>

lemma fold_incr_frame:
  assumes "float_counters R parse fadd" "k \<notin> set ks"
  shows "rd_Get R (fold (\<lambda>k s. rd_IncrByFloat R s k a) ks s) k = rd_Get R s k"
  using assms(2) by (induction ks arbitrary: s) (simp_all add: incr_frame [OF assms(1)])

lemma fold_incr_val:
  assumes "float_counters R parse fadd" "distinct ks" "k \<in> set ks" "is_counter R parse s k"
  shows "counter_val R parse (fold (\<lambda>k s. rd_IncrByFloat R s k a) ks s) k =
    Some (fadd (counter_num R parse s k) a)"
  using assms(2-4)
proof (induction ks arbitrary: s)
  case (Cons j ks)
  let ?t = "rd_IncrByFloat R s j a"
  show ?case
  proof (cases "k = j")
    case True
    then have "counter_val R parse (fold (\<lambda>k s. rd_IncrByFloat R s k a) ks ?t) k = counter_val R parse ?t k"
      using Cons.prems by (intro counter_val_cong fold_incr_frame [OF assms(1)]) simp
    with True Cons.prems show ?thesis by (simp add: incr_val [OF assms(1)])
  next
    case False
    then have fr: "rd_Get R ?t k = rd_Get R s k" by (rule incr_frame [OF assms(1)])
    with False Cons show ?thesis using is_counter_cong [OF fr] by (simp add: counter_num_cong [OF fr])
  qed
qed simp

lemma counter_num_Some: "counter_val R parse s k = Some x \<Longrightarrow> counter_num R parse s k = x"
  by (simp add: counter_num_def)

lemma counter_val_is_counter: "counter_val R parse s k = Some x \<Longrightarrow> is_counter R parse s k"
  by (auto simp: counter_val_def is_counter_def split: option.splits)

text \<open>The Redis effect of a reservation that is not zero.\<close>

lemma ReserveSpend_effect:
  assumes "en_rdb e = Some R" and "ReserveSpend e db now T K provider model maxTokens s = (amt, s')" and "amt \<noteq> 0"
  shows "s' = fold (bump R (en_float e amt)) (reservation_keys T K now)
    (snd (Resolve (en_resolver e) (pricing_db.truncate db) now (reserve_event now T K provider model) s))"
  using assms(2,3) unfolding ReserveSpend_def assms(1) option.case Let_def
  by (auto split: if_splits prod.splits sum.splits option.splits)

text \<open>The counters that a reservation is made in: for each period that of the tenant, and that of the key if there is
  one.\<close>

lemma reservation_counters:
  "set (map fst (reservation_keys T K now)) = (\<Union>p \<in> {PeriodMonthly, PeriodWeekly, PeriodDaily}.
     {reservationRedisKey T p now} \<union> (if K = [] then {} else {reservationRedisKeyForKey K p now}))"
  by (cases "K = []") (simp_all add: reservation_keys_def all_periods_def insert_commute)

lemma reservation_keys_same_periods:
  assumes "\<forall>p \<in> {PeriodMonthly, PeriodWeekly, PeriodDaily}. period_suffix p now' = period_suffix p now"
  shows "map fst (reservation_keys T K now') = map fst (reservation_keys T K now)"
  using assms by (simp add: reservation_keys_def all_periods_def reservationRedisKey_def reservationRedisKeyForKey_def)

lemma rounded_back:
  fixes x a eps bound :: rat
  assumes fadd: "\<And>x y. \<bar>x + y\<bar> \<le> bound \<Longrightarrow> \<bar>fadd x y - (x + y)\<bar> \<le> eps"
    and small: "\<bar>x\<bar> + \<bar>a\<bar> + eps \<le> bound" and "0 \<le> eps"
  shows "\<bar>fadd (fadd x a) (- a) - x\<bar> \<le> 2 * eps"
proof -
  have 1: "\<bar>fadd x a - (x + a)\<bar> \<le> eps" by (rule fadd) (use small \<open>0 \<le> eps\<close> in linarith)
  have 2: "\<bar>fadd (fadd x a) (- a) - (fadd x a + - a)\<bar> \<le> eps" by (rule fadd) (use 1 small in linarith)
  from 1 2 show ?thesis by linarith
qed

text \<open>C13: a reservation and its release cancel: the reservation adds the reserved amount to the monthly, weekly and daily
  reservation counters of the tenant and of the key; a release in the same periods subtracts the same amount from the
  same counters, and every other Redis key is at the end what it was before the reservation (after the price lookup that
  precedes it). Redis adds in floating point: when each of its additions is off by at most \<open>eps\<close> as long as the
  sums stay below a bound, each counter ends within \<open>2 * eps\<close> of the number it held before, and at it exactly
  where the additions are exact. This needs the counter laws, that the periods have not ended, and that the reservation
  counters hold numbers.\<close>

theorem reserve_release_cancel:
  fixes now' :: go_time
  assumes "en_rdb e = Some R" and "float_counters R (en_parse e) fadd"
    and "ReserveSpend e db now T K provider model maxTokens s = (amt, s')" and "amt \<noteq> 0"
  defines "s1 \<equiv> snd (Resolve (en_resolver e) (pricing_db.truncate db) now (reserve_event now T K provider model) s)"
    and "a \<equiv> en_float e amt" and "s'' \<equiv> ReleaseReservation e now' T K amt s'"
    and "counters \<equiv> (\<Union>p \<in> {PeriodMonthly, PeriodWeekly, PeriodDaily}.
      {reservationRedisKey T p now} \<union> (if K = [] then {} else {reservationRedisKeyForKey K p now}))"
  assumes "\<forall>p \<in> {PeriodMonthly, PeriodWeekly, PeriodDaily}. rd_now R s1 < t_ns (periodEnd p now)"
    and "\<forall>p \<in> {PeriodMonthly, PeriodWeekly, PeriodDaily}. period_suffix p now' = period_suffix p now"
    and "\<forall>k \<in> counters. is_counter R (en_parse e) s1 k"
  shows "(\<forall>k \<in> counters. let x = counter_num R (en_parse e) s1 k in
       counter_val R (en_parse e) s' k = Some (fadd x a) \<and>
       counter_val R (en_parse e) s'' k = Some (fadd (fadd x a) (- a)) \<and>
       (\<forall>eps bound. 0 \<le> eps \<and> (\<forall>y z. \<bar>y + z\<bar> \<le> bound \<longrightarrow> \<bar>fadd y z - (y + z)\<bar> \<le> eps) \<and> \<bar>x\<bar> + \<bar>a\<bar> + eps \<le> bound \<longrightarrow>
          \<bar>counter_num R (en_parse e) s'' k - x\<bar> \<le> 2 * eps)) \<and>
    (\<forall>k. k \<notin> counters \<longrightarrow> rd_Get R s'' k = rd_Get R s1 k)"
proof -
  let ?ks = "map fst (reservation_keys T K now)"
  have C: "counters = set ?ks" unfolding counters_def by (rule reservation_counters [symmetric])
  have s': "s' = fold (bump R a) (reservation_keys T K now) s1"
    using ReserveSpend_effect [OF assms(1,3,4)] by (simp add: s1_def a_def)
  have rel: "s'' = fold (\<lambda>k s. rd_IncrByFloat R s k (- a)) ?ks s'"
    using assms(1,4) reservation_keys_same_periods [OF assms(10), of T K] by (simp add: s''_def a_def ReleaseReservation_def)
  have exp: "\<forall>ke \<in> set (reservation_keys T K now). rd_now R s1 < snd ke"
    using assms(9) reservation_keys_expiry by (fastforce simp: all_periods_def)
  have reserved: "counter_val R (en_parse e) s' k = Some (fadd (counter_num R (en_parse e) s1 k) a)" if "k \<in> counters" for k
    unfolding s' using fold_bump_val [OF assms(2) exp reservation_keys_distinct] assms(11) that C by simp
  have released: "counter_val R (en_parse e) s'' k = Some (fadd (fadd (counter_num R (en_parse e) s1 k) a) (- a))"
    if "k \<in> counters" for k
    using fold_incr_val [OF assms(2) reservation_keys_distinct _ counter_val_is_counter [OF reserved [OF that]], of T K now "- a"]
      that C unfolding rel counter_num_Some [OF reserved [OF that]] by simp
  have "\<bar>counter_num R (en_parse e) s'' k - counter_num R (en_parse e) s1 k\<bar> \<le> 2 * eps"
    if "k \<in> counters" "0 \<le> eps" "\<forall>y z. \<bar>y + z\<bar> \<le> bound \<longrightarrow> \<bar>fadd y z - (y + z)\<bar> \<le> eps"
      "\<bar>counter_num R (en_parse e) s1 k\<bar> + \<bar>a\<bar> + eps \<le> bound" for k eps bound
    unfolding counter_num_Some [OF released [OF that(1)]] by (rule rounded_back) (use that in auto)
  moreover have "rd_Get R s'' k = rd_Get R s1 k" if "k \<notin> counters" for k
  proof -
    have "rd_Get R s'' k = rd_Get R s' k" unfolding rel using that C by (intro fold_incr_frame [OF assms(2)]) simp
    also have "\<dots> = rd_Get R s1 k" unfolding s' by (rule fold_bump_frame [OF assms(2) exp]) (use that C in simp)
    finally show ?thesis .
  qed
  ultimately show ?thesis using reserved released by (auto simp: Let_def)
qed

lemma demo_Reserve:
  "ReserveSpend map_engine (demo_edb []) noon 7 ''k1'' ''Anthropic'' ''opus'' 1000 s =
     (75 / 1000, fold (bump map_redis (75 / 1000)) (reservation_keys 7 ''k1'' noon) s)"
proof -
  have "Resolve (en_resolver map_engine) (pricing_db.truncate (demo_edb [])) noon
      (reserve_event noon 7 ''k1'' ''Anthropic'' ''opus'') s =
    (Inr \<lparr>rps_ProviderID = 3, rps_ModelID = 2,
       rps_Prices = load_prices demo_db (reserve_event noon 7 ''k1'' ''Anthropic'' ''opus'') 2 noon\<rparr>, s)"
    by (rule demo_Resolve_event) (simp_all add: reserve_event_def)
  then show ?thesis
    by (simp add: ReserveSpend_def demo_output_price standard_price_def demo_price_def default_unit_def
        Let_def)
qed

theorem reserve_release_cancel_witness:
  "counter_num map_redis Some (ReleaseReservation map_engine noon 7 ''k1'' (75 / 1000)
     (snd (ReserveSpend map_engine (demo_edb []) noon 7 ''k1'' ''Anthropic'' ''opus'' 1000 Map.empty)))
     (reservationRedisKey 7 PeriodDaily noon) = 0"
proof -
  let ?s = "Map.empty :: string \<Rightarrow> rat option" and ?k = "reservationRedisKey 7 PeriodDaily noon"
  have s1: "snd (Resolve (en_resolver map_engine) (pricing_db.truncate (demo_edb [])) noon
      (reserve_event noon 7 ''k1'' ''Anthropic'' ''opus'') ?s) = ?s"
    by (subst demo_Resolve_event) (simp_all add: reserve_event_def)
  have per: "\<forall>p \<in> {PeriodMonthly, PeriodWeekly, PeriodDaily}. rd_now map_redis s < t_ns (periodEnd p noon)" for s
    using demo_periods by (simp add: all_periods_def)
  have x: "counter_num map_redis Some ?s ?k = 0" by (simp add: counter_num_def counter_val_def map_redis_def)
  have "counter_val map_redis Some (ReleaseReservation map_engine noon 7 ''k1'' (75 / 1000)
     (snd (ReserveSpend map_engine (demo_edb []) noon 7 ''k1'' ''Anthropic'' ''opus'' 1000 ?s))) ?k =
    Some (0 + 75 / 1000 + - (75 / 1000))"
    using reserve_release_cancel [of map_engine map_redis "(+)" "demo_edb []" noon 7 "''k1''" "''Anthropic''" "''opus''" 1000 ?s
        "75 / 1000" "snd (ReserveSpend map_engine (demo_edb []) noon 7 ''k1'' ''Anthropic'' ''opus'' 1000 ?s)" noon]
    unfolding s1 by (simp add: map_redis_counters demo_Reserve per map_redis_is_counter x Let_def)
  then show ?thesis by (simp add: counter_num_Some)
qed

text \<open>A release after a period has turned over goes to the wrong counter: a counter of the new
  period, to which this request never added, is decreased by the reserved amount, while the counter
  of the period in which the reservation was made keeps it.\<close>

theorem release_after_rollover:
  assumes "en_rdb e = Some R" and "float_counters R (en_parse e) fadd"
    and "ReserveSpend e db now T K provider model maxTokens s = (amt, s')" and "amt \<noteq> 0"
  defines "s1 \<equiv> snd (Resolve (en_resolver e) (pricing_db.truncate db) now (reserve_event now T K provider model) s)"
  assumes "\<forall>p \<in> set all_periods. rd_now R s1 < t_ns (periodEnd p now)"
    and "old \<in> fst ` set (reservation_keys T K now)" and "old \<notin> fst ` set (reservation_keys T K now')"
    and "new \<in> fst ` set (reservation_keys T K now')" and "new \<notin> fst ` set (reservation_keys T K now)"
    and "is_counter R (en_parse e) s1 old" and "is_counter R (en_parse e) s1 new"
  shows "counter_num R (en_parse e) (ReleaseReservation e now' T K amt s') new =
      fadd (counter_num R (en_parse e) s1 new) (- en_float e amt) \<and>
    counter_num R (en_parse e) (ReleaseReservation e now' T K amt s') old =
      fadd (counter_num R (en_parse e) s1 old) (en_float e amt)"
proof -
  let ?ks = "map fst (reservation_keys T K now')" and ?a = "en_float e amt"
  have s': "s' = fold (bump R ?a) (reservation_keys T K now) s1"
    using ReserveSpend_effect [OF assms(1,3,4)] by (simp add: s1_def)
  have rel: "ReleaseReservation e now' T K amt s' = fold (\<lambda>k s. rd_IncrByFloat R s k (- ?a)) ?ks s'"
    using assms(1,4) by (simp add: ReleaseReservation_def)
  have exp: "\<forall>ke \<in> set (reservation_keys T K now). rd_now R s1 < snd ke"
    using assms(6) reservation_keys_expiry by fastforce
  have o: "counter_val R (en_parse e) s' old = Some (fadd (counter_num R (en_parse e) s1 old) ?a)"
    unfolding s' by (rule fold_bump_val [OF assms(2) exp reservation_keys_distinct assms(7,11)])
  have n: "rd_Get R s' new = rd_Get R s1 new"
    unfolding s' by (rule fold_bump_frame [OF assms(2) exp assms(10)])
  have "counter_val R (en_parse e) (fold (\<lambda>k s. rd_IncrByFloat R s k (- ?a)) ?ks s') new =
      Some (fadd (counter_num R (en_parse e) s' new) (- ?a))"
    using assms(9,12) is_counter_cong [OF n]
    by (intro fold_incr_val [OF assms(2) reservation_keys_distinct]) simp_all
  then have new: "counter_num R (en_parse e) (fold (\<lambda>k s. rd_IncrByFloat R s k (- ?a)) ?ks s') new =
      fadd (counter_num R (en_parse e) s1 new) (- ?a)"
    by (simp add: counter_num_Some counter_num_cong [OF n])
  have "rd_Get R (fold (\<lambda>k s. rd_IncrByFloat R s k (- ?a)) ?ks s') old = rd_Get R s' old"
    using assms(8) by (intro fold_incr_frame [OF assms(2)]) simp
  then have "counter_num R (en_parse e) (fold (\<lambda>k s. rd_IncrByFloat R s k (- ?a)) ?ks s') old =
      counter_num R (en_parse e) s' old" by (rule counter_num_cong)
  with new show ?thesis unfolding rel counter_num_Some [OF o] by simp
qed

text \<open>A request that starts on 6 January 2025 at noon and ends on the next day.\<close>

definition next_day :: go_time where "next_day = \<lparr>t_ns = 63871848000000000000, t_off = 0\<rparr>"

lemma next_day_day: "local_day next_day = 739257"
  by (simp add: next_day_def local_day_def day_ns_def)

lemma daily_suffix_other:
  assumes "0 \<le> local_day t" "0 \<le> local_day t'" "local_day t \<noteq> local_day t'" "p \<in> set all_periods"
  shows "period_suffix PeriodDaily t \<noteq> period_suffix p t'"
proof
  assume eq: "period_suffix PeriodDaily t = period_suffix p t'"
  from assms(4) consider "p = PeriodDaily" | "p = PeriodMonthly" | "p = PeriodWeekly"
    by (auto simp: all_periods_def)
  then show False
  proof cases
    case 1
    then show False using eq suffix_daily_iff [OF assms(1,2)] assms(3) by simp
  next
    case 2
    have "show_int (Year t) @ ''-'' @ (pad2 (Month t) @ ''-'' @ pad2 (Day t)) =
        show_int (Year t') @ ''-'' @ pad2 (Month t')" using eq 2 by (simp add: period_suffix_def)
    then have "Year t = Year t' \<and> pad2 (Month t) @ ''-'' @ pad2 (Day t) = pad2 (Month t')"
      by (rule two_part_inj) (use year_of_pos [OF assms(1)] year_of_pos [OF assms(2)] in \<open>simp_all add: Year_def\<close>)
    then have "CHR ''-'' \<in> set (pad2 (Month t'))" by (metis UnI1 UnI2 list.set_intros(1) set_append)
    moreover have "CHR ''-'' \<notin> set (pad2 (Month t'))"
      using month_bounds(1) [of "local_day t'"] unfolding Month_def by (intro pad2_no_dash) linarith
    ultimately show False by simp
  next
    case 3
    then show False using eq show_int_not_w by (simp add: period_suffix_def split: prod.splits)
  qed
qed

lemma daily_keys_other_day:
  assumes "0 \<le> local_day t" "0 \<le> local_day t'" "local_day t \<noteq> local_day t'"
  shows "reservationRedisKey T PeriodDaily t \<in> fst ` set (reservation_keys T K t) \<and>
    reservationRedisKey T PeriodDaily t \<notin> fst ` set (reservation_keys T K t')"
proof
  show "reservationRedisKey T PeriodDaily t \<in> fst ` set (reservation_keys T K t)"
    by (auto simp: reservation_keys_def all_periods_def)
  have pd: "PeriodDaily \<in> set all_periods" by (simp add: all_periods_def)
  have ne: "keyed (PeriodDaily, a) t \<noteq> keyed pp t'" if "fst pp \<in> set all_periods" for a pp
  proof
    assume "keyed (PeriodDaily, a) t = keyed pp t'"
    then have "a @ CHR '':'' # period_suffix PeriodDaily t = snd pp @ CHR '':'' # period_suffix (fst pp) t'"
      by (simp add: keyed_def)
    from split_last_sep [OF this suffix_no_colon [OF pd] suffix_no_colon [OF that]]
    show False using daily_suffix_other [OF assms that] by simp
  qed
  have "fst ` set (reservation_keys T K t') =
      (\<lambda>pp. keyed pp t') ` (set all_periods \<times> set (reservation_prefixes T K))"
    using arg_cong [OF reservation_keys_eq, of set] by (simp add: set_product)
  moreover have "reservationRedisKey T PeriodDaily t = keyed (PeriodDaily, ''budget:reserved:'' @ show_nat T) t"
    by (simp add: keyed_def reservationRedisKey_def)
  ultimately show "reservationRedisKey T PeriodDaily t \<notin> fst ` set (reservation_keys T K t')"
    using ne by auto
qed

theorem release_after_rollover_witness:
  "counter_num map_redis Some (ReleaseReservation map_engine next_day 7 ''k1'' (75 / 1000)
     (snd (ReserveSpend map_engine (demo_edb []) noon 7 ''k1'' ''Anthropic'' ''opus'' 1000 Map.empty)))
     (reservationRedisKey 7 PeriodDaily next_day) = - 75 / 1000"
proof -
  let ?s = "Map.empty :: string \<Rightarrow> rat option"
  have s1: "snd (Resolve (en_resolver map_engine) (pricing_db.truncate (demo_edb [])) noon
      (reserve_event noon 7 ''k1'' ''Anthropic'' ''opus'') ?s) = ?s"
    by (subst demo_Resolve_event) (simp_all add: reserve_event_def)
  have days: "0 \<le> local_day noon" "0 \<le> local_day next_day" "local_day noon \<noteq> local_day next_day"
    by (simp_all add: noon_day next_day_day)
  note old = daily_keys_other_day [OF days, of 7 "''k1''"]
  note new = daily_keys_other_day [OF days(2,1) days(3) [symmetric], of 7 "''k1''"]
  show ?thesis
    using release_after_rollover [of map_engine map_redis "(+)" "demo_edb []" noon 7 "''k1''" "''Anthropic''"
        "''opus''" 1000 ?s "75 / 1000" _ "reservationRedisKey 7 PeriodDaily noon" next_day
        "reservationRedisKey 7 PeriodDaily next_day"] old new demo_periods
    unfolding s1
    by (simp add: map_redis_counters demo_Reserve map_redis_is_counter)
      (simp add: counter_num_def counter_val_def map_redis_def)
qed

end
