(* ===== verification/Worker.thy ===== *)
theory Worker
  imports Engine Wire
begin

text \<open>
  The usage pipeline behind the proxy: \<open>internal/events/queue.go\<close> (the producer of the Redis stream of usage
  events), \<open>internal/events/worker.go\<close> (its consumer, which prices each event and writes the usage log) and
  \<open>UsageLogService.Create\<close>.

  The Redis stream is a parameter: \<open>XADD\<close>, \<open>XREADGROUP\<close> with the id \<open>>\<close>, and \<open>XACK\<close> on an abstract state. What the
  theorems use of it is \<open>group_laws\<close>: a read delivers only entries of the stream that this group has not been
  delivered before, which is what Redis documents for the id \<open>>\<close>. The endless loop of \<open>Run\<close> is \<open>worker_loop\<close> on
  the list of its iterations, which ends where the context is cancelled, and \<open>worker_step\<close> interleaves its
  iterations with calls of \<open>Publish\<close>.
\<close>

section \<open>Data\<close>

record UsageEventMsg =
  um_TenantID :: nat
  um_ProjectID :: nat
  um_KeyID :: string
  um_Provider :: string
  um_Model :: string
  um_InputTokens :: int
  um_OutputTokens :: int
  um_CacheCreationTokens :: int
  um_CacheReadTokens :: int
  um_MessageID :: string
  um_ProviderKeyHint :: string
  um_LatencyMs :: int
  um_Timestamp :: go_time
  um_APIUsageBilled :: bool

record UsageLog =
  ul_TenantID :: nat
  ul_ProjectID :: nat
  ul_Provider :: string
  ul_Model :: string
  ul_PromptTokens :: int
  ul_CompletionTokens :: int
  ul_CacheCreationTokens :: int
  ul_CacheReadTokens :: int
  ul_Cost :: rat
  ul_RequestID :: string
  ul_KeyID :: string
  ul_ProviderKeyHint :: string
  ul_CreatedAt :: go_time
  ul_LatencyMs :: int
  ul_APIUsageBilled :: bool

type_synonym stream_values = "string \<rightharpoonup> string"
type_synonym stream_msg = "string \<times> stream_values"

datatype stream_reply = StreamNil | StreamErr | StreamMessages "stream_msg list"

record 'q stream_ops =
  xs_Add :: "stream_values \<Rightarrow> 'q \<Rightarrow> bool \<times> 'q"
  xs_GroupCreate :: "'q \<Rightarrow> 'q"
  xs_ReadGroup :: "nat \<Rightarrow> 'q \<Rightarrow> stream_reply \<times> 'q"
  xs_Ack :: "string \<Rightarrow> 'q \<Rightarrow> 'q"

record ('s, 'v, 'q) UsageWorker =
  uw_engine :: "('s, 'v) engine"
  uw_stream :: "'q stream_ops"
  uw_dup_msg :: string
  uw_down_msg :: string

record ('s, 'q) worker_state =
  ws_engine :: "'s engine_state"
  ws_logs :: "UsageLog list"
  ws_stream :: 'q

datatype process_failure = BadTenantID num_error | PricingFailed process_error | CreateFailed string

section \<open>Producer\<close>

definition encode_msg :: "UsageEventMsg \<Rightarrow> stream_values" where
  "encode_msg msg =
     [''tenant_id'' \<mapsto> show_nat (um_TenantID msg),
      ''project_id'' \<mapsto> show_nat (um_ProjectID msg),
      ''key_id'' \<mapsto> um_KeyID msg,
      ''provider'' \<mapsto> um_Provider msg,
      ''model'' \<mapsto> um_Model msg,
      ''input_tokens'' \<mapsto> show_int (um_InputTokens msg),
      ''output_tokens'' \<mapsto> show_int (um_OutputTokens msg),
      ''cache_creation_tokens'' \<mapsto> show_int (um_CacheCreationTokens msg),
      ''cache_read_tokens'' \<mapsto> show_int (um_CacheReadTokens msg),
      ''message_id'' \<mapsto> um_MessageID msg,
      ''provider_key_hint'' \<mapsto> um_ProviderKeyHint msg,
      ''latency_ms'' \<mapsto> show_int (um_LatencyMs msg),
      ''timestamp'' \<mapsto> format_RFC3339 (time_UTC (um_Timestamp msg)),
      ''api_usage_billed'' \<mapsto> FormatBool (um_APIUsageBilled msg)]"

definition Publish :: "'q stream_ops \<Rightarrow> UsageEventMsg \<Rightarrow> 'q \<Rightarrow> bool \<times> 'q" where
  "Publish X msg q = xs_Add X (encode_msg msg) q"

section \<open>Consumer\<close>

definition decode_msg :: "go_time \<Rightarrow> stream_values \<Rightarrow> (process_failure, UsageEventMsg) result" where
  "decode_msg now v =
     (case ParseUint (sprint_v v ''tenant_id'') of
        (_, Some err) \<Rightarrow> Inl (BadTenantID err)
      | (tenantID, None) \<Rightarrow>
          let hint = sprint_v v ''provider_key_hint'';
              ts = (case v ''timestamp'' of
                      None \<Rightarrow> \<lparr>t_ns = 0, t_off = 0\<rparr>
                    | Some s \<Rightarrow> (case parse_RFC3339 s of None \<Rightarrow> \<lparr>t_ns = 0, t_off = 0\<rparr> | Some t \<Rightarrow> t))
          in Inr \<lparr>um_TenantID = nat tenantID,
                  um_ProjectID = nat (fst (ParseUint (sprint_v v ''project_id''))),
                  um_KeyID = sprint_v v ''key_id'',
                  um_Provider = sprint_v v ''provider'',
                  um_Model = sprint_v v ''model'',
                  um_InputTokens = fst (ParseInt (sprint_v v ''input_tokens'')),
                  um_OutputTokens = fst (ParseInt (sprint_v v ''output_tokens'')),
                  um_CacheCreationTokens = fst (ParseInt (sprint_v v ''cache_creation_tokens'')),
                  um_CacheReadTokens = fst (ParseInt (sprint_v v ''cache_read_tokens'')),
                  um_MessageID = sprint_v v ''message_id'',
                  um_ProviderKeyHint = (if hint = ''<nil>'' then [] else hint),
                  um_LatencyMs = fst (ParseInt (sprint_v v ''latency_ms'')),
                  um_Timestamp = (if time_IsZero ts then now else ts),
                  um_APIUsageBilled = (sprint_v v ''api_usage_billed'' = ''true'')\<rparr>)"

definition pricing_event :: "UsageEventMsg \<Rightarrow> UsageEvent" where
  "pricing_event d =
     \<lparr>ue_Provider = um_Provider d, ue_Model = um_Model d, ue_InputTokens = um_InputTokens d,
      ue_OutputTokens = um_OutputTokens d, ue_CacheCreationTokens = um_CacheCreationTokens d,
      ue_CacheReadTokens = um_CacheReadTokens d, ue_ReasoningTokens = 0, ue_RequestCount = 0,
      ue_Timestamp = um_Timestamp d, ue_TenantID = um_TenantID d, ue_UserID = [],
      ue_IdempotencyKey = um_MessageID d, ue_APIKeyRef = um_KeyID d,
      ue_APIUsageBilled = um_APIUsageBilled d\<rparr>"

definition usage_log :: "UsageEventMsg \<Rightarrow> rat \<Rightarrow> UsageLog" where
  "usage_log d cost =
     \<lparr>ul_TenantID = um_TenantID d, ul_ProjectID = um_ProjectID d, ul_Provider = um_Provider d,
      ul_Model = um_Model d, ul_PromptTokens = um_InputTokens d, ul_CompletionTokens = um_OutputTokens d,
      ul_CacheCreationTokens = um_CacheCreationTokens d, ul_CacheReadTokens = um_CacheReadTokens d,
      ul_Cost = cost, ul_RequestID = um_MessageID d, ul_KeyID = um_KeyID d,
      ul_ProviderKeyHint = um_ProviderKeyHint d, ul_CreatedAt = um_Timestamp d,
      ul_LatencyMs = um_LatencyMs d, ul_APIUsageBilled = um_APIUsageBilled d\<rparr>"

text \<open>The table of usage logs has a unique index on the request id.\<close>

definition UsageLog_Create :: "('s, 'v, 'q) UsageWorker \<Rightarrow> engine_db \<Rightarrow> UsageLog \<Rightarrow> UsageLog list \<Rightarrow>
    (string, UsageLog list) result" where
  "UsageLog_Create w db row logs =
     (if pd_down db then Inl (uw_down_msg w)
      else if ul_RequestID row \<in> set (map ul_RequestID logs) then Inl (uw_dup_msg w)
      else Inr (logs @ [row]))"

definition isDuplicateError :: "string \<Rightarrow> bool" where
  "isDuplicateError s = list_ex (\<lambda>substr. length substr \<le> length s \<and>
       list_ex (\<lambda>i. take (length substr) (drop i s) = substr) [0..<length s - length substr + 1])
     [''duplicate key'', ''unique constraint'', ''23505'']"

text \<open>\<open>process\<close> handles one message; \<open>None\<close> is success.\<close>

definition process :: "('s, 'v, 'q) UsageWorker \<Rightarrow> engine_db \<Rightarrow> go_time \<Rightarrow> stream_values \<Rightarrow> ('s, 'q) worker_state \<Rightarrow>
    process_failure option \<times> ('s, 'q) worker_state" where
  "process w db now v st =
     (case decode_msg now v of
        Inl err \<Rightarrow> (Some err, st)
      | Inr d \<Rightarrow>
          (case Process (uw_engine w) db now (pricing_event d) (ws_engine st) of
             (Inl err, es) \<Rightarrow> (Some (PricingFailed err), st\<lparr>ws_engine := es\<rparr>)
           | (Inr res, es) \<Rightarrow>
               (case UsageLog_Create w db (usage_log d (res_FinalCost res)) (ws_logs st) of
                  Inr logs' \<Rightarrow> (None, st\<lparr>ws_engine := es, ws_logs := logs'\<rparr>)
                | Inl err \<Rightarrow>
                    (if isDuplicateError err then None else Some (CreateFailed err), st\<lparr>ws_engine := es\<rparr>))))"

text \<open>The inner loop of \<open>Run\<close>: a message is acknowledged only when it was processed. The environment of an
  iteration gives the database and the time at which its messages are processed.\<close>

type_synonym worker_env = "nat \<Rightarrow> engine_db \<times> go_time"

fun process_batch :: "('s, 'v, 'q) UsageWorker \<Rightarrow> worker_env \<Rightarrow> nat \<Rightarrow> stream_msg list \<Rightarrow> ('s, 'q) worker_state \<Rightarrow>
    ('s, 'q) worker_state" where
  "process_batch w env i [] st = st"
| "process_batch w env i ((msgID, v) # msgs) st =
     (case process w (fst (env i)) (snd (env i)) v st of
        (Some _, st') \<Rightarrow> process_batch w env (Suc i) msgs st'
      | (None, st') \<Rightarrow>
          process_batch w env (Suc i) msgs
            (st'\<lparr>ws_stream := xs_Ack (uw_stream w) msgID (ws_stream st')\<rparr>))"

definition poll :: "('s, 'v, 'q) UsageWorker \<Rightarrow> worker_env \<Rightarrow> ('s, 'q) worker_state \<Rightarrow> ('s, 'q) worker_state" where
  "poll w env st =
     (case xs_ReadGroup (uw_stream w) 10 (ws_stream st) of
        (StreamMessages msgs, q) \<Rightarrow> process_batch w env 0 msgs (st\<lparr>ws_stream := q\<rparr>)
      | (_, q) \<Rightarrow> st\<lparr>ws_stream := q\<rparr>)"

primrec worker_loop :: "('s, 'v, 'q) UsageWorker \<Rightarrow> worker_env list \<Rightarrow> ('s, 'q) worker_state \<Rightarrow> ('s, 'q) worker_state" where
  "worker_loop w [] st = st"
| "worker_loop w (env # envs) st = worker_loop w envs (poll w env st)"

definition Run :: "('s, 'v, 'q) UsageWorker \<Rightarrow> worker_env list \<Rightarrow> ('s, 'q) worker_state \<Rightarrow> ('s, 'q) worker_state" where
  "Run w envs st = worker_loop w envs (st\<lparr>ws_stream := xs_GroupCreate (uw_stream w) (ws_stream st)\<rparr>)"

section \<open>The wire format\<close>

definition wire_ok :: "UsageEventMsg \<Rightarrow> bool" where
  "wire_ok msg \<longleftrightarrow> int (um_TenantID msg) < 2 ^ 64 \<and> int (um_ProjectID msg) < 2 ^ 64 \<and>
     list_all int64_range [um_InputTokens msg, um_OutputTokens msg, um_CacheCreationTokens msg,
       um_CacheReadTokens msg, um_LatencyMs msg] \<and>
     um_ProviderKeyHint msg \<noteq> ''<nil>'' \<and>
     10 ^ 9 \<le> t_ns (um_Timestamp msg) \<and> Year (time_UTC (um_Timestamp msg)) \<le> 9999"

lemma to_second_nonzero: "10 ^ 9 \<le> t_ns t \<Longrightarrow> \<not> time_IsZero (to_second t)"
proof -
  assume "10 ^ 9 \<le> t_ns t"
  moreover have "t_ns t mod 10 ^ 9 < 10 ^ 9" by simp
  ultimately have "t_ns t - t_ns t mod 10 ^ 9 > 0" by linarith
  then show ?thesis by (simp add: time_IsZero_def to_second_def)
qed

lemma decode_encode:
  assumes "wire_ok msg"
  shows "decode_msg now (encode_msg msg) = Inr (msg\<lparr>um_Timestamp := to_second (um_Timestamp msg)\<rparr>)"
proof -
  have "0 \<le> t_ns (um_Timestamp msg)" using assms by (simp add: wire_ok_def)
  with assms have ts: "parse_RFC3339 (format_RFC3339 (time_UTC (um_Timestamp msg))) = Some (to_second (um_Timestamp msg))"
    by (intro parse_format_RFC3339) (simp_all add: wire_ok_def)
  have "\<not> time_IsZero (to_second (um_Timestamp msg))"
    using assms by (intro to_second_nonzero) (simp add: wire_ok_def)
  moreover have "FormatBool b = ''true'' \<longleftrightarrow> b" for b by (simp add: FormatBool_def)
  ultimately show ?thesis
    using assms ts by (simp add: decode_msg_def encode_msg_def sprint_v_def wire_ok_def)
qed

text \<open>Publishing and consuming are inverse: what the worker decodes from the fields that \<open>Publish\<close> writes is
  the message that the proxy published, every field of it, with the instant cut to the second and moved to UTC,
  for every message whose numbers fit their 64-bit types.\<close>

theorem decode_published:
  assumes "wire_ok msg"
  shows "decode_msg now (encode_msg msg) = Inr (msg\<lparr>um_Timestamp := to_second (um_Timestamp msg)\<rparr>)"
  using assms by (rule decode_encode)


section \<open>Duplicate errors\<close>

declare containsStr.simps [simp del]

lemma containsStr_iff: "containsStr s p \<longleftrightarrow> (\<exists>a b. s = a @ p @ b)"
proof (induction s p rule: containsStr.induct)
  case (1 s p)
  show ?case
  proof (cases "take (length p) s = p")
    case True
    then have "s = [] @ p @ drop (length p) s" by (metis append_Nil append_take_drop_id)
    moreover have "\<not> length s < length p" using True by (metis length_take min_less_iff_conj nat_neq_iff)
    ultimately have "containsStr s p" "\<exists>a b. s = a @ p @ b" using True by (simp add: containsStr.simps, blast)
    then show ?thesis by simp
  next
    case False
    then have no: "s \<noteq> p @ b" for b by auto
    show ?thesis
    proof (cases s)
      case Nil
      with False show ?thesis by (subst containsStr.simps) auto
    next
      case (Cons c cs)
      have "(\<exists>a b. s = a @ p @ b) \<longleftrightarrow> (\<exists>a b. cs = a @ p @ b)"
        using no Cons by (metis append_Cons append_Nil list.inject neq_Nil_conv)
      with 1 False Cons show ?thesis by (subst containsStr.simps) auto
    qed
  qed
qed

lemma scan_from_iff: "length p \<le> length s \<and> list_ex (\<lambda>i. take (length p) (drop i s) = p) [0..<length s - length p + 1] \<longleftrightarrow>
    (\<exists>a b. s = a @ p @ b)"
proof
  assume "length p \<le> length s \<and> list_ex (\<lambda>i. take (length p) (drop i s) = p) [0..<length s - length p + 1]"
  then obtain i where "take (length p) (drop i s) = p" unfolding list_ex_iff by blast
  then have "s = take i s @ p @ drop (length p) (drop i s)" by (metis append_take_drop_id)
  then show "\<exists>a b. s = a @ p @ b" by blast
next
  assume "\<exists>a b. s = a @ p @ b"
  then obtain a b where "s = a @ p @ b" by blast
  then show "length p \<le> length s \<and> list_ex (\<lambda>i. take (length p) (drop i s) = p) [0..<length s - length p + 1]"
    by (auto simp: list_ex_iff intro!: bexI [of _ "length a"])
qed

text \<open>The worker and the pricing engine each carry their own test for a duplicate-key error, written with
  different loops; they agree on every message, so an event that the ledger accepts as a duplicate is accepted
  by the usage log too.\<close>

theorem isDuplicateError_agrees: "isDuplicateError s = isDuplicateKeyError s"
proof -
  have "contains s p \<longleftrightarrow> (\<exists>a b. s = a @ p @ b)" if "p \<noteq> []" for p
  proof -
    have "(\<exists>a b. s = a @ p @ b) \<Longrightarrow> length p \<le> length s \<and> 0 < length s" using that by auto
    moreover have "s = p \<Longrightarrow> \<exists>a b. s = a @ p @ b" by (metis append_Nil append_Nil2)
    ultimately show ?thesis unfolding contains_def containsStr_iff by blast
  qed
  then show ?thesis
    unfolding isDuplicateError_def isDuplicateKeyError_def scan_from_iff
    by (simp only: list_ex_iff list.set bex_simps list.distinct not_False_eq_True simp_thms)
qed

section \<open>What one message changes\<close>

lemma decode_message_id: "decode_msg now v = Inr d \<Longrightarrow> um_MessageID d = sprint_v v ''message_id''"
  by (auto simp: decode_msg_def Let_def split: prod.splits option.splits)

lemma usage_log_request [simp]: "ul_RequestID (usage_log d cost) = um_MessageID d"
  by (simp add: usage_log_def)

lemma process_cases:
  assumes "process w db now v st = (r, st')"
  obtains (kept) "ws_logs st' = ws_logs st" "ws_stream st' = ws_stream st"
  | (logged) d cost where "decode_msg now v = Inr d" "um_MessageID d \<notin> set (map ul_RequestID (ws_logs st))"
      "ws_logs st' = ws_logs st @ [usage_log d cost]" "ws_stream st' = ws_stream st" "r = None"
proof (cases "decode_msg now v")
  case (Inl err)
  with assms kept show thesis by (auto simp: process_def)
next
  case (Inr d)
  obtain pr es where P: "Process (uw_engine w) db now (pricing_event d) (ws_engine st) = (pr, es)" by fastforce
  show thesis
  proof (cases pr)
    case Inl
    with assms Inr P kept show thesis by (auto simp: process_def)
  next
    case pr: (Inr res)
    show thesis
    proof (cases "UsageLog_Create w db (usage_log d (res_FinalCost res)) (ws_logs st)")
      case Inl
      with assms Inr P pr kept show thesis by (auto simp: process_def)
    next
      case new: (Inr logs')
      with assms Inr P pr have "r = None" "ws_logs st' = logs'" "ws_stream st' = ws_stream st"
        by (auto simp: process_def)
      moreover from new have "um_MessageID d \<notin> set (map ul_RequestID (ws_logs st))"
        "logs' = ws_logs st @ [usage_log d (res_FinalCost res)]"
        by (auto simp: UsageLog_Create_def split: if_splits)
      ultimately show thesis using Inr logged by blast
    qed
  qed
qed

lemma process_batch_keeps:
  assumes "\<And>m v db now st. (m, v) \<in> set msgs \<Longrightarrow> I st \<Longrightarrow> I (snd (process w db now v st))"
    and "\<And>m st. I st \<Longrightarrow> I (st\<lparr>ws_stream := xs_Ack (uw_stream w) m (ws_stream st)\<rparr>)" and "I st"
  shows "I (process_batch w env i msgs st)"
  using assms(1,3)
proof (induction msgs arbitrary: i st)
  case (Cons mv msgs)
  obtain m v where mv: "mv = (m, v)" by fastforce
  obtain r st' where P: "process w (fst (env i)) (snd (env i)) v st = (r, st')" by fastforce
  have "I st'" using Cons.prems(1) [of m v st "fst (env i)" "snd (env i)"] Cons.prems(2) mv P by simp
  moreover have "I st \<Longrightarrow> I (process_batch w env j msgs st)" for st j
    using Cons.IH [of st j] Cons.prems(1) by (meson list.set_intros(2))
  ultimately show ?case using assms(2) mv P by (simp split: option.split)
qed simp

section \<open>The pipeline as a state machine\<close>

text \<open>
  The contract of the stream that the group reads: \<open>entry\<close> gives the entries of the stream, \<open>seen\<close> the ids that
  the group has been delivered. Creating the group at \<open>$\<close> makes it skip what the stream already holds.
\<close>

definition group_laws :: "'q stream_ops \<Rightarrow> ('q \<Rightarrow> string \<rightharpoonup> stream_values) \<Rightarrow> ('q \<Rightarrow> string set) \<Rightarrow> bool" where
  "group_laws X entry seen \<longleftrightarrow>
     (\<forall>q n r q'. xs_ReadGroup X n q = (r, q') \<longrightarrow> entry q' = entry q \<and>
        (case r of
           StreamMessages msgs \<Rightarrow> seen q' = seen q \<union> fst ` set msgs \<and> distinct (map fst msgs) \<and>
             (\<forall>(m, v) \<in> set msgs. entry q m = Some v \<and> m \<notin> seen q)
         | _ \<Rightarrow> seen q' = seen q)) \<and>
     (\<forall>m q. entry (xs_Ack X m q) = entry q \<and> seen (xs_Ack X m q) = seen q) \<and>
     (\<forall>q. entry (xs_GroupCreate X q) = entry q \<and> seen q \<subseteq> seen (xs_GroupCreate X q)) \<and>
     (\<forall>v q ok q'. xs_Add X v q = (ok, q') \<longrightarrow> seen q' = seen q \<and>
        (entry q' = entry q \<or> (\<exists>m. entry q m = None \<and> m \<notin> seen q \<and> entry q' = (entry q)(m \<mapsto> v))))"

inductive worker_step :: "('s, 'v, 'q) UsageWorker \<Rightarrow> (UsageEventMsg \<Rightarrow> bool) \<Rightarrow> ('s, 'q) worker_state \<Rightarrow>
    ('s, 'q) worker_state \<Rightarrow> bool" for w sent where
  poll_step: "worker_step w sent st (poll w env st)"
| publish_step: "sent msg \<Longrightarrow>
    worker_step w sent st (st\<lparr>ws_stream := snd (Publish (uw_stream w) msg (ws_stream st))\<rparr>)"
| restart_step: "worker_step w sent st (st\<lparr>ws_stream := xs_GroupCreate (uw_stream w) (ws_stream st)\<rparr>)"

inductive_cases worker_stepE: "worker_step w sent st st'"




lemma group_read:
  assumes "group_laws X entry seen" "xs_ReadGroup X n q = (r, q')"
  shows "entry q' = entry q" "seen q \<subseteq> seen q'"
    and "r = StreamMessages msgs \<Longrightarrow> (m, v) \<in> set msgs \<Longrightarrow> entry q m = Some v \<and> m \<notin> seen q \<and> m \<in> seen q'"
    and "r = StreamMessages msgs \<Longrightarrow> distinct (map fst msgs)"
proof -
  from assms have L: "entry q' = entry q \<and>
      (case r of
         StreamMessages msgs \<Rightarrow> seen q' = seen q \<union> fst ` set msgs \<and> distinct (map fst msgs) \<and>
           (\<forall>(m, v) \<in> set msgs. entry q m = Some v \<and> m \<notin> seen q)
       | _ \<Rightarrow> seen q' = seen q)" unfolding group_laws_def by blast
  then show "entry q' = entry q" "seen q \<subseteq> seen q'" by (auto split: stream_reply.splits)
  assume r: "r = StreamMessages msgs"
  with L show "distinct (map fst msgs)" by simp
  assume mv: "(m, v) \<in> set msgs"
  then have "m \<in> fst ` set msgs" by force
  with L r mv show "entry q m = Some v \<and> m \<notin> seen q \<and> m \<in> seen q'" by auto
qed

lemma group_frame:
  assumes "group_laws X entry seen"
  shows "entry (xs_Ack X m q) = entry q" "seen (xs_Ack X m q) = seen q"
    "entry (xs_GroupCreate X q) = entry q" "seen q \<subseteq> seen (xs_GroupCreate X q)"
    "seen (snd (xs_Add X v q)) = seen q"
    "entry (snd (xs_Add X v q)) m' = Some v' \<Longrightarrow> entry q m' = Some v' \<or> (m' \<notin> seen q \<and> v' = v)"
proof -
  show "entry (xs_Ack X m q) = entry q" "seen (xs_Ack X m q) = seen q"
    "entry (xs_GroupCreate X q) = entry q" "seen q \<subseteq> seen (xs_GroupCreate X q)"
    using assms unfolding group_laws_def by blast+
  obtain ok q' where A: "xs_Add X v q = (ok, q')" by fastforce
  with assms have "seen q' = seen q \<and>
      (entry q' = entry q \<or> (\<exists>m. entry q m = None \<and> m \<notin> seen q \<and> entry q' = (entry q)(m \<mapsto> v)))"
    unfolding group_laws_def by blast
  with A show "seen (snd (xs_Add X v q)) = seen q"
    "entry (snd (xs_Add X v q)) m' = Some v' \<Longrightarrow> entry q m' = Some v' \<or> (m' \<notin> seen q \<and> v' = v)"
    by (auto split: if_splits)
qed

lemma poll_keeps:
  assumes laws: "group_laws (uw_stream w) entry seen"
    and read: "\<And>q st. I st \<Longrightarrow> entry q = entry (ws_stream st) \<Longrightarrow> seen (ws_stream st) \<subseteq> seen q \<Longrightarrow> I (st\<lparr>ws_stream := q\<rparr>)"
    and proc: "\<And>m v db now st'. I st' \<Longrightarrow> entry (ws_stream st') = entry (ws_stream st) \<Longrightarrow> entry (ws_stream st) m = Some v \<Longrightarrow>
      m \<notin> seen (ws_stream st) \<Longrightarrow> I (snd (process w db now v st'))"
    and "I st"
  shows "I (poll w env st)"
proof -
  obtain r q where R: "xs_ReadGroup (uw_stream w) 10 (ws_stream st) = (r, q)" by fastforce
  note g = group_read [OF laws R]
  have I': "I (st\<lparr>ws_stream := q\<rparr>)" using read assms(4) g(1,2) by blast
  show ?thesis
  proof (cases r)
    case (StreamMessages msgs)
    let ?J = "\<lambda>s. I s \<and> entry (ws_stream s) = entry (ws_stream st)"
    have "?J (process_batch w env 0 msgs (st\<lparr>ws_stream := q\<rparr>))"
    proof (rule process_batch_keeps)
      fix m v db now s assume mv: "(m, v) \<in> set msgs" and J: "?J s"
      obtain pr s' where P: "process w db now v s = (pr, s')" by fastforce
      then have "ws_stream s' = ws_stream s" by (elim process_cases) auto
      moreover have "I s'" using proc [of s m v db now] J P g(3) [OF StreamMessages mv] by simp
      ultimately show "?J (snd (process w db now v s))" using J P by simp
    next
      fix m s assume "?J s"
      then show "?J (s\<lparr>ws_stream := xs_Ack (uw_stream w) m (ws_stream s)\<rparr>)"
        using read [of s "xs_Ack (uw_stream w) m (ws_stream s)"] group_frame(1,2) [OF laws] by simp
    qed (use I' g(1) in simp)
    with StreamMessages R show ?thesis by (simp add: poll_def)
  qed (use I' R in \<open>simp_all add: poll_def\<close>)
qed







section \<open>A failed message\<close>

abbreviation request_of :: "stream_values \<Rightarrow> string" where
  "request_of v \<equiv> sprint_v v ''message_id''"

text \<open>The request is in no row, and no entry that the group can still be delivered carries it.\<close>

definition lost :: "('q \<Rightarrow> string \<rightharpoonup> stream_values) \<Rightarrow> ('q \<Rightarrow> string set) \<Rightarrow> string \<Rightarrow> ('s, 'q) worker_state \<Rightarrow> bool" where
  "lost entry seen R st \<longleftrightarrow> R \<notin> set (map ul_RequestID (ws_logs st)) \<and>
     (\<forall>m v. entry (ws_stream st) m = Some v \<and> m \<notin> seen (ws_stream st) \<longrightarrow> request_of v \<noteq> R)"

lemma lost_process:
  assumes "lost entry seen R st" "request_of v \<noteq> R"
  shows "lost entry seen R (snd (process w db now v st))"
proof -
  obtain r st' where P: "process w db now v st = (r, st')" by fastforce
  then show ?thesis
  proof (cases rule: process_cases)
    case (logged d cost)
    then show ?thesis using assms P decode_message_id [OF logged(1)] by (auto simp: lost_def)
  qed (use assms P in \<open>auto simp: lost_def\<close>)
qed

lemma lost_frame:
  "lost entry seen R st \<Longrightarrow> (\<And>m v. entry q m = Some v \<Longrightarrow> m \<notin> seen q \<Longrightarrow>
     (entry (ws_stream st) m = Some v \<and> m \<notin> seen (ws_stream st)) \<or> request_of v \<noteq> R) \<Longrightarrow>
   lost entry seen R (st\<lparr>ws_stream := q\<rparr>)"
  by (fastforce simp: lost_def)

lemma lost_step:
  fixes w :: "('s, 'v, 'q) UsageWorker"
  assumes laws: "group_laws (uw_stream w) entry seen" and other: "\<forall>msg. sent msg \<longrightarrow> um_MessageID msg \<noteq> R"
    and "lost entry seen R st" "worker_step w sent st st'"
  shows "lost entry seen R st'"
proof -
  note fr = group_frame [OF laws]
  from assms(4) show ?thesis
  proof (rule worker_stepE)
    fix env assume st': "st' = poll w env st"
    show ?thesis unfolding st'
    proof (rule poll_keeps [where I = "lost entry seen R", OF laws])
      fix m v db now and s :: "('s, 'q) worker_state"
      assume "lost entry seen R s" "entry (ws_stream st) m = Some v" "m \<notin> seen (ws_stream st)"
      moreover from this(2,3) have "request_of v \<noteq> R" using assms(3) by (auto simp: lost_def)
      ultimately show "lost entry seen R (snd (process w db now v s))" by (simp add: lost_process)
    qed (auto intro: lost_frame assms(3))
  next
    fix msg assume "st' = st\<lparr>ws_stream := snd (Publish (uw_stream w) msg (ws_stream st))\<rparr>" "sent msg"
    moreover have "request_of (encode_msg msg) \<noteq> R" using other \<open>sent msg\<close> by (simp add: sprint_v_def encode_msg_def)
    ultimately show ?thesis using fr(5,6) [of "encode_msg msg" "ws_stream st"]
      by (auto simp: Publish_def intro!: lost_frame [OF assms(3)])
  next
    assume "st' = st\<lparr>ws_stream := xs_GroupCreate (uw_stream w) (ws_stream st)\<rparr>"
    then show ?thesis using fr(3,4) by (auto intro!: lost_frame [OF assms(3)])
  qed
qed

interpretation lost_message: inductive_invariant "\<lambda>st. group_laws (uw_stream w) entry seen \<and>
    (\<forall>msg. sent msg \<longrightarrow> um_MessageID msg \<noteq> R) \<and> lost entry seen R st" "worker_step w sent"
  "\<lambda>st. group_laws (uw_stream w) entry seen \<and> (\<forall>msg. sent msg \<longrightarrow> um_MessageID msg \<noteq> R) \<and> lost entry seen R st"
  for w entry seen sent R
  by unfold_locales (auto intro: lost_step)

lemma failed_batch_lost:
  fixes w :: "('s, 'v, 'q) UsageWorker"
  assumes laws: "group_laws (uw_stream w) entry seen"
    and R: "xs_ReadGroup (uw_stream w) 10 (ws_stream st) = (StreamMessages ((m, v) # msgs), q)"
    and fails: "process w (fst (env 0)) (snd (env 0)) v (st\<lparr>ws_stream := q\<rparr>) = (Some err, st1)"
    and new: "request_of v \<notin> set (map ul_RequestID (ws_logs st))"
    and only: "\<forall>m' v'. entry (ws_stream st) m' = Some v' \<and> m' \<noteq> m \<longrightarrow> request_of v' \<noteq> request_of v"
  shows "lost entry seen (request_of v) (poll w env st)"
proof -
  note g = group_read [OF laws R]
  from fails have st1: "ws_logs st1 = ws_logs st" "ws_stream st1 = q" by (cases rule: process_cases; simp)+
  have "m \<in> seen q" using g(3) [OF refl, of m v] by simp
  then have "lost entry seen (request_of v) st1"
    using new only st1 g(1) by (auto simp: lost_def)
  then have "lost entry seen (request_of v) (process_batch w env 1 msgs st1)"
  proof (rule process_batch_keeps [where I = "lost entry seen (request_of v)", rotated 2])
    fix m' v' db now and s :: "('s, 'q) worker_state"
    assume "(m', v') \<in> set msgs" "lost entry seen (request_of v) s"
    moreover from this(1) have "m' \<noteq> m" "entry (ws_stream st) m' = Some v'"
      using g(4) [OF refl] g(3) [OF refl, of m' v'] by (auto simp: image_iff)
    ultimately show "lost entry seen (request_of v) (snd (process w db now v' s))"
      using only by (simp add: lost_process)
  next
    fix m' and s :: "('s, 'q) worker_state" assume "lost entry seen (request_of v) s"
    then show "lost entry seen (request_of v) (s\<lparr>ws_stream := xs_Ack (uw_stream w) m' (ws_stream s)\<rparr>)"
      using group_frame(1,2) [OF laws] by (auto intro: lost_frame)
  qed
  then show ?thesis using R fails by (simp add: poll_def)
qed

text \<open>A message whose processing fails is lost: the worker leaves it unacknowledged, but every later poll
  asks for new entries only, so that, whatever is published and polled and however often the worker restarts
  afterwards, the usage log never gets a row for its request.\<close>

theorem failed_message_lost:
  assumes laws: "group_laws (uw_stream w) entry seen"
    and "xs_ReadGroup (uw_stream w) 10 (ws_stream st) = (StreamMessages ((m, v) # msgs), q)"
    and "process w (fst (env 0)) (snd (env 0)) v (st\<lparr>ws_stream := q\<rparr>) = (Some err, st1)"
    and "request_of v \<notin> set (map ul_RequestID (ws_logs st))"
    and "\<forall>m' v'. entry (ws_stream st) m' = Some v' \<and> m' \<noteq> m \<longrightarrow> request_of v' \<noteq> request_of v"
    and other: "\<forall>msg. sent msg \<longrightarrow> um_MessageID msg \<noteq> request_of v"
    and run: "(worker_step w sent)\<^sup>*\<^sup>* (poll w env st) st'"
  shows "request_of v \<notin> set (map ul_RequestID (ws_logs st'))"
proof -
  have "reachable (\<lambda>st. group_laws (uw_stream w) entry seen \<and>
      (\<forall>msg. sent msg \<longrightarrow> um_MessageID msg \<noteq> request_of v) \<and> lost entry seen (request_of v) st) (worker_step w sent) st'"
    using run
  proof (induction rule: rtranclp_induct)
    case base
    have "lost entry seen (request_of v) (poll w env st)"
      by (rule failed_batch_lost [where env = env, OF assms(1-5)])
    with laws other show ?case by (auto intro: reachable_start)
  qed (auto intro: reachable_step)
  from lost_message.holds_when_reachable [OF this] show ?thesis by (simp add: lost_def)
qed

section \<open>A concrete stream\<close>

text \<open>An instance of the stream parameter: the entries that the group has been delivered and those that wait,
  numbered through from 0.\<close>

type_synonym list_queue = "stream_values list \<times> stream_values list"

definition list_stream :: "list_queue stream_ops" where
  "list_stream = \<lparr>xs_Add = (\<lambda>v (ds, ps). (True, (ds, ps @ [v]))), xs_GroupCreate = id,
     xs_ReadGroup = (\<lambda>n (ds, ps). if ps = [] then (StreamNil, (ds, ps))
       else (StreamMessages (map (\<lambda>i. (show_nat (length ds + i), ps ! i)) [0..<min n (length ps)]),
             (ds @ take n ps, drop n ps))),
     xs_Ack = (\<lambda>_ q. q)\<rparr>"

definition list_entry :: "list_queue \<Rightarrow> string \<rightharpoonup> stream_values" where
  "list_entry q = map_of (zip (map show_nat [0..<length (fst q @ snd q)]) (fst q @ snd q))"

definition list_seen :: "list_queue \<Rightarrow> string set" where
  "list_seen q = show_nat ` {..<length (fst q)}"

lemma show_nat_eq_iff [simp]: "show_nat i = show_nat j \<longleftrightarrow> i = j"
  using show_nat_inj by blast

lemma inj_show_nat [simp]: "inj_on show_nat A"
  by (simp add: inj_on_def)

lemma list_entry_Some: "list_entry q m = Some v \<longleftrightarrow>
    (\<exists>i < length (fst q @ snd q). m = show_nat i \<and> v = (fst q @ snd q) ! i)"
  unfolding list_entry_def by (subst map_of_eq_Some_iff) (force simp: distinct_map set_zip)+

lemma list_stream_laws: "group_laws list_stream list_entry list_seen"
proof -
  have read: "list_entry q' = list_entry q \<and> (case r of
        StreamMessages msgs \<Rightarrow> list_seen q' = list_seen q \<union> fst ` set msgs \<and> distinct (map fst msgs) \<and>
          (\<forall>(m, v) \<in> set msgs. list_entry q m = Some v \<and> m \<notin> list_seen q)
      | _ \<Rightarrow> list_seen q' = list_seen q)" if "xs_ReadGroup list_stream n q = (r, q')" for n q r q'
  proof (cases "snd q")
    case Nil
    with that show ?thesis by (cases q) (auto simp: list_stream_def)
  next
    case (Cons p ps)
    let ?k = "min n (length (snd q))"
    from that Cons have r: "r = StreamMessages (map (\<lambda>i. (show_nat (length (fst q) + i), snd q ! i)) [0..<?k])"
      and q': "q' = (fst q @ take n (snd q), drop n (snd q))"
      by (cases q; auto simp: list_stream_def)+
    have "{..<length (fst q')} = {..<length (fst q)} \<union> (+) (length (fst q)) ` {0..<?k}"
      by (auto simp: q' image_iff)
    then have "list_seen q' = list_seen q \<union> (\<lambda>i. show_nat (length (fst q) + i)) ` {0..<?k}"
      by (simp only: list_seen_def image_Un image_image)
    moreover have "list_entry q' = list_entry q" by (simp add: q' list_entry_def)
    ultimately show ?thesis
      by (auto simp: r distinct_map inj_on_def list_entry_Some list_seen_def o_def image_image nth_append)
  qed
  have add: "list_seen q' = list_seen q \<and> (\<exists>m. list_entry q m = None \<and> m \<notin> list_seen q \<and>
      list_entry q' = (list_entry q)(m \<mapsto> v))" if "xs_Add list_stream v q = (b, q')" for v q b q'
  proof -
    have q': "q' = (fst q, snd q @ [v])" using that by (cases q) (auto simp: list_stream_def)
    let ?m = "show_nat (length (fst q @ snd q))"
    have "list_entry q ?m = None" by (rule ccontr) (auto simp: list_entry_Some)
    moreover have "list_entry q' = (list_entry q)(?m \<mapsto> v)"
    proof -
      have "zip (map show_nat [0..<length (es @ [v])]) (es @ [v]) = zip (map show_nat [0..<length es]) es @ [(show_nat (length es), v)]"
        for es by simp
      from arg_cong [where f = map_of, OF this [of "fst q @ snd q"]]
      have "list_entry q' = [?m \<mapsto> v] ++ list_entry q" by (simp add: list_entry_def q')
      then show ?thesis using \<open>list_entry q ?m = None\<close> by (auto simp: fun_eq_iff map_add_def split: option.split)
    qed
    ultimately show ?thesis by (auto simp: list_seen_def q')
  qed
  show ?thesis
    unfolding group_laws_def
  proof (intro conjI allI impI)
    fix n q r q' assume "xs_ReadGroup list_stream n q = (r, q')"
    then show "list_entry q' = list_entry q" "case r of
        StreamMessages msgs \<Rightarrow> list_seen q' = list_seen q \<union> fst ` set msgs \<and> distinct (map fst msgs) \<and>
          (\<forall>(m, v) \<in> set msgs. list_entry q m = Some v \<and> m \<notin> list_seen q)
      | _ \<Rightarrow> list_seen q' = list_seen q" using read by blast+
  next
    fix v q ok q' assume "xs_Add list_stream v q = (ok, q')"
    then show "list_seen q' = list_seen q" "list_entry q' = list_entry q \<or>
      (\<exists>m. list_entry q m = None \<and> m \<notin> list_seen q \<and> list_entry q' = (list_entry q)(m \<mapsto> v))" using add by blast+
  qed (simp_all add: list_stream_def)
qed

definition demo_msg :: UsageEventMsg where
  "demo_msg = \<lparr>um_TenantID = 7, um_ProjectID = 1, um_KeyID = ''k1'', um_Provider = ''Anthropic'', um_Model = ''opus'',
     um_InputTokens = 1000, um_OutputTokens = 250, um_CacheCreationTokens = 0, um_CacheReadTokens = 0,
     um_MessageID = ''r1'', um_ProviderKeyHint = ''sk-a...aQAA'', um_LatencyMs = 12, um_Timestamp = noon,
     um_APIUsageBilled = True\<rparr>"

definition demo_worker :: "(string \<Rightarrow> rat option, rat, list_queue) UsageWorker" where
  "demo_worker = \<lparr>uw_engine = map_engine, uw_stream = list_stream, uw_dup_msg = ''duplicate key'', uw_down_msg = []\<rparr>"

definition demo_ws :: "rat \<Rightarrow> list_queue \<Rightarrow> (string \<Rightarrow> rat option, list_queue) worker_state" where
  "demo_ws spent q = \<lparr>ws_engine = demo_state spent, ws_logs = [], ws_stream = q\<rparr>"

lemma noon_second [simp]: "to_second noon = noon"
  by (simp add: to_second_def noon_def)

lemma demo_msg_ok: "wire_ok demo_msg"
proof -
  have "Year (time_UTC noon) = 2025" unfolding noon_def by code_simp
  then show ?thesis by (simp add: wire_ok_def demo_msg_def int64_range_def noon_day)
qed

lemma demo_decoded: "decode_msg now (encode_msg demo_msg) = Inr demo_msg"
  by (simp add: decode_encode [OF demo_msg_ok]) (simp add: demo_msg_def)

theorem decode_published_witness:
  "wire_ok demo_msg \<and> decode_msg noon (encode_msg demo_msg) = Inr (demo_msg\<lparr>um_Timestamp := to_second noon\<rparr>)"
  using decode_published [OF demo_msg_ok] demo_msg_ok by (simp add: demo_msg_def)

lemma demo_pricing_event [simp]:
  "ue_Provider (pricing_event demo_msg) = ''Anthropic''" "ue_Model (pricing_event demo_msg) = ''opus''"
  "ue_Timestamp (pricing_event demo_msg) = noon" "ue_TenantID (pricing_event demo_msg) = 7"
  "ue_APIKeyRef (pricing_event demo_msg) = ''k1''" "stamped now (pricing_event demo_msg) = pricing_event demo_msg"
  by (simp_all add: pricing_event_def demo_msg_def stamped_def time_IsZero_def noon_def)

lemma demo_encoded_request: "request_of (encode_msg demo_msg) = ''r1''"
  by (simp add: sprint_v_def encode_msg_def demo_msg_def)


lemma demo_delivery:
  "xs_ReadGroup (uw_stream demo_worker) 10 ([], [encode_msg demo_msg]) =
     (StreamMessages [(show_nat 0, encode_msg demo_msg)], ([encode_msg demo_msg], []))"
  by (simp add: demo_worker_def list_stream_def)


text \<open>A daily blocking limit of 1, of which 2 is spent: the budget check of the worker rejects the event of a
  request that has already been served.\<close>

lemma demo_rejected:
  "\<exists>err. \<forall>q. process demo_worker (demo_edb [demo_limit BudgetActionBlock 1]) noon (encode_msg demo_msg) (demo_ws 2 q) =
     (Some (PricingFailed (ProcBudget err)), demo_ws 2 q)"
proof -
  let ?db = "demo_edb [demo_limit BudgetActionBlock 1]" and ?ev = "pricing_event demo_msg" and ?st = "demo_state 2"
  let ?r = "\<lparr>rps_ProviderID = 3, rps_ModelID = 2, rps_Prices = load_prices demo_db ?ev 2 noon\<rparr>"
  let ?c = "res_FinalCost (price_event map_engine (pricing_db.truncate ?db) ?ev ?r)"
  have sp: "getSpend map_engine ?db ?st 7 BudgetScopeAccount [] PeriodDaily [] noon = 2"
    by (simp add: getSpend_def spend_key_def demo_state_def counter_val_def map_redis_def)
  have "?c = 3 / 1000 + 75 * 250 / 1000000"
    by (rule demo_final_event) (simp_all add: pricing_event_def demo_msg_def dims_def)
  then have "0 \<le> ?c" by simp
  then have "checkBudget map_engine ?db ?st ?ev ?c \<noteq> None"
    using sp unfolding checkBudget_def check_loop_None
    by (simp add: blocking_limits_def set_db_find in_scope_def demo_limit_def)
  then obtain err where cb: "checkBudget map_engine ?db ?st ?ev ?c = Some err" by blast
  have st: "?st\<lparr>es_redis := es_redis ?st\<rparr> = ?st" by simp
  have "Process map_engine ?db noon ?ev ?st = (Inl (ProcBudget err), ?st)"
    using cb unfolding Process_def stamped_def [symmetric] Let_def demo_pricing_event(6)
      demo_Resolve_event [OF demo_pricing_event(1-3)] by simp
  then have "process demo_worker ?db noon (encode_msg demo_msg) (demo_ws 2 q) =
      (Some (PricingFailed (ProcBudget err)), (demo_ws 2 q)\<lparr>ws_engine := ?st\<rparr>)" for q
    by (simp add: process_def demo_decoded demo_worker_def demo_ws_def)
  then show ?thesis by (simp add: demo_ws_def)
qed

theorem failed_message_lost_witness:
  "\<exists>env st'. worker_step demo_worker (\<lambda>_. False) (poll demo_worker env (demo_ws 2 ([], [encode_msg demo_msg]))) st' \<and>
     ws_stream st' = ([encode_msg demo_msg], []) \<and> ''r1'' \<notin> set (map ul_RequestID (ws_logs st'))"
proof -
  let ?v = "encode_msg demo_msg" and ?env = "\<lambda>_ :: nat. (demo_edb [demo_limit BudgetActionBlock 1], noon)"
  let ?st = "demo_ws 2 ([], [?v])" and ?sent = "\<lambda>_ :: UsageEventMsg. False"
  let ?st1 = "poll demo_worker ?env ?st"
  let ?st' = "poll demo_worker ?env ?st1"
  have laws: "group_laws (uw_stream demo_worker) list_entry list_seen"
    by (simp add: demo_worker_def list_stream_laws)
  have ws: "?st\<lparr>ws_stream := q\<rparr> = demo_ws 2 q" for q by (simp add: demo_ws_def)
  obtain err where f: "process demo_worker (demo_edb [demo_limit BudgetActionBlock 1]) noon ?v (demo_ws 2 q) =
      (Some (PricingFailed (ProcBudget err)), demo_ws 2 q)" for q using demo_rejected by blast
  have q: "ws_stream (demo_ws 2 q) = q" and l: "ws_logs (demo_ws 2 q) = []" for q by (simp_all add: demo_ws_def)
  have R: "xs_ReadGroup (uw_stream demo_worker) 10 (ws_stream ?st) = (StreamMessages [(show_nat 0, ?v)], ([?v], []))"
    by (simp only: q demo_delivery)
  have st1: "?st1 = demo_ws 2 ([?v], [])" by (simp add: poll_def R ws f)
  have st': "?st' = demo_ws 2 ([?v], [])"
    unfolding st1 by (simp add: poll_def demo_ws_def demo_worker_def list_stream_def)
  have fails: "process demo_worker (fst (?env 0)) (snd (?env 0)) ?v (?st\<lparr>ws_stream := ([?v], [])\<rparr>) =
      (Some (PricingFailed (ProcBudget err)), demo_ws 2 ([?v], []))" by (simp add: ws f)
  have only: "\<forall>m' v'. list_entry (ws_stream ?st) m' = Some v' \<and> m' \<noteq> show_nat 0 \<longrightarrow> request_of v' \<noteq> request_of ?v"
    by (auto simp: list_entry_Some q)
  have step: "worker_step demo_worker ?sent ?st1 ?st'" by (rule poll_step)
  then have run: "(worker_step demo_worker ?sent)\<^sup>*\<^sup>* ?st1 ?st'" by (rule r_into_rtranclp)
  have "request_of ?v \<notin> set (map ul_RequestID (ws_logs ?st'))"
    by (rule failed_message_lost [where sent = ?sent and env = ?env, OF laws R fails _ only _ run])
      (simp_all add: l)
  with step st' q show ?thesis by (auto simp: demo_encoded_request)
qed

end
