(* ===== verification/Notify.thy ===== *)
theory Notify
  imports Ownership Worker
begin

text \<open>
  Notifications: the queue of alerts (\<open>events/notification_queue.go\<close>, \<open>notification_adapter.go\<close>), the worker that debounces
  them and sends them to the channels of the tenant or of a user (\<open>events/notification_worker.go\<close>), and the handlers of
  the in-app notifications and of the personal channels (\<open>api/user_notifications.go\<close>).

  The stream and its consumer group are the ones of theory \<open>Worker\<close>. \<open>SETNX\<close> with an expiry is a parameter with the
  law that Redis documents, \<open>setnx_laws\<close>. What leaves the process, mails and posted requests, is returned in the order of
  the calls; whether a mail server or a receiver accepts it, the syntax check of URLs and the keyed hash are fields of the
  environment.
\<close>

section \<open>The queue of alerts\<close>

definition encode_alert :: "NotificationEventMsg \<Rightarrow> stream_values" where
  "encode_alert msg =
     [''tenant_id'' \<mapsto> show_nat (ne_TenantID msg), ''event_type'' \<mapsto> ne_EventType msg, ''key_id'' \<mapsto> ne_KeyID msg,
      ''provider'' \<mapsto> ne_Provider msg, ''model'' \<mapsto> ne_Model msg, ''details'' \<mapsto> ne_Details msg]"

definition NotificationQueue_Publish :: "'q stream_ops \<Rightarrow> NotificationEventMsg \<Rightarrow> 'q \<Rightarrow> bool \<times> 'q" where
  "NotificationQueue_Publish X msg q = xs_Add X (encode_alert msg) q"

section \<open>Sending\<close>

record notificationPayload =
  np_TenantID :: nat
  np_UserID :: string
  np_EventType :: string
  np_Title :: string
  np_Body :: string
  np_KeyID :: string
  np_Provider :: string
  np_Model :: string
  np_Details :: string
  np_Timestamp :: string

datatype delivery = Mail string string string | Post string "(string \<times> string) list" string

record notify_env =
  nw_now :: go_time
  nw_json :: json_text
  nw_Getenv :: "string \<Rightarrow> string"
  nw_SendMail :: "delivery \<Rightarrow> string option"
  nw_request_ok :: "string \<Rightarrow> bool"
  nw_Post :: "delivery \<Rightarrow> (string, int) result"
  nw_hmac :: "string \<Rightarrow> string \<Rightarrow> string"

text \<open>A send returns its error and what it has sent.\<close>

type_synonym sent = "string option \<times> delivery list"

abbreviation "EventBudgetBlocked \<equiv> ''budget_blocked''"
abbreviation "EventBudgetWarning \<equiv> ''budget_warning''"
abbreviation "EventRateLimitExceeded \<equiv> ''rate_limit_exceeded''"

definition eventTypeLabel :: "string \<Rightarrow> string" where
  "eventTypeLabel et =
     (if et = EventBudgetBlocked then ''Budget Blocked''
      else if et = EventBudgetWarning then ''Budget Warning''
      else if et = EventRateLimitExceeded then ''Rate Limit Exceeded''
      else if et = EventTeamInvitation then ''Team Invitation''
      else if et = ''test'' then ''Test Notification''
      else et)"

definition json_payload :: "notificationPayload \<Rightarrow> json" where
  "json_payload p = JObj
     (always ''tenant_id'' (JInt (int (np_TenantID p))) @
      omitempty (np_UserID p = []) ''user_id'' (JStr (np_UserID p)) @
      always ''event_type'' (JStr (np_EventType p)) @
      omitempty (np_Title p = []) ''title'' (JStr (np_Title p)) @
      omitempty (np_Body p = []) ''body'' (JStr (np_Body p)) @
      always ''key_id'' (JStr (np_KeyID p)) @ always ''provider'' (JStr (np_Provider p)) @
      always ''model'' (JStr (np_Model p)) @ always ''details'' (JStr (np_Details p)) @
      always ''timestamp'' (JStr (np_Timestamp p)))"

definition un_field :: "string \<Rightarrow> string decoder" where
  "un_field name = un_struct [(name, fld un_str (\<lambda>s. s) (\<lambda>f. f))]"

abbreviation nl :: string where "nl \<equiv> [CHR 0x0A]"
abbreviation crlf :: string where "crlf \<equiv> [CHR 0x0D, CHR 0x0A]"

definition email_subject :: "notificationPayload \<Rightarrow> string" where
  "email_subject p =
     (if np_Title p \<noteq> [] then np_Title p else ''TokenGate Alert: '' @ eventTypeLabel (np_EventType p))"

definition email_body :: "notificationPayload \<Rightarrow> string" where
  "email_body p =
     (if np_Title p \<noteq> [] \<or> np_Body p \<noteq> []
      then np_Title p @ nl @ nl @ np_Body p @ nl @ nl @ ''Time: '' @ np_Timestamp p @
        (if np_Details p \<noteq> [] then nl @ nl @ ''Details: '' @ np_Details p else [])
      else ''Event: '' @ eventTypeLabel (np_EventType p) @ nl @ ''Provider: '' @ np_Provider p @ nl @ ''Model: '' @ np_Model p @
        nl @ ''API Key: '' @ np_KeyID p @ nl @ ''Details: '' @ np_Details p @ nl @ ''Time: '' @ np_Timestamp p)"

definition sendEmail :: "notify_env \<Rightarrow> string \<Rightarrow> notificationPayload \<Rightarrow> sent" where
  "sendEmail env config p =
     (case unmarshal (nw_json env) (un_field ''email'') [] config of
        None \<Rightarrow> (Some ''parse email config'', [])
      | Some to \<Rightarrow>
          if to = [] then (Some ''email address not configured'', [])
          else if nw_Getenv env ''SMTP_HOST'' = [] \<or> nw_Getenv env ''SMTP_PORT'' = []
          then (Some ''SMTP not configured (SMTP_HOST/SMTP_PORT missing)'', [])
          else
            (let sender = (if nw_Getenv env ''SMTP_FROM'' = [] then nw_Getenv env ''SMTP_USER'' else nw_Getenv env ''SMTP_FROM'');
                 msg = ''From: '' @ sender @ crlf @ ''To: '' @ to @ crlf @ ''Subject: '' @ email_subject p @ crlf @
                   ''Content-Type: text/plain; charset=UTF-8'' @ crlf @ crlf @ email_body p;
                 mail = Mail sender to msg
             in (nw_SendMail env mail, [mail])))"

definition slack_text :: "notificationPayload \<Rightarrow> string" where
  "slack_text p =
     (if np_Title p \<noteq> [] \<or> np_Body p \<noteq> []
      then ''*'' @ np_Title p @ ''*'' @ nl @ np_Body p @ nl @ ''Time: '' @ np_Timestamp p @
        (if np_Details p \<noteq> [] then nl @ ''Details: '' @ np_Details p else [])
      else ''*TokenGate Alert: '' @ eventTypeLabel (np_EventType p) @ ''*'' @ nl @ ''>Provider: '' @ np_Provider p @ nl @
        ''>Model: '' @ np_Model p @ nl @ ''>API Key: `'' @ np_KeyID p @ ''`'' @ nl @ ''>Details: '' @ np_Details p @ nl @
        ''>Time: '' @ np_Timestamp p)"

text \<open>A posted request, and the error of the caller: the request failed, or the status is 300 or above.\<close>

definition post_result :: "notify_env \<Rightarrow> string \<Rightarrow> delivery \<Rightarrow> sent" where
  "post_result env what post =
     (case nw_Post env post of
        Inl e \<Rightarrow> (Some (what @ '' request: '' @ e), [post])
      | Inr status \<Rightarrow> (if 300 \<le> status then Some (what @ '' returned '' @ show_int status) else None, [post]))"

definition sendSlack :: "notify_env \<Rightarrow> string \<Rightarrow> notificationPayload \<Rightarrow> sent" where
  "sendSlack env config p =
     (case unmarshal (nw_json env) (un_field ''slack_webhook_url'') [] config of
        None \<Rightarrow> (Some ''parse slack config'', [])
      | Some url \<Rightarrow>
          if url = [] then (Some ''slack_webhook_url not configured'', [])
          else if \<not> nw_request_ok env url then (Some ''slack webhook request: invalid URL'', [])
          else post_result env ''slack webhook''
            (Post url [(''Content-Type'', ''application/json'')]
              (jt_Marshal (nw_json env) (JObj [(''text'', JStr (slack_text p))]))))"

record webhook_config =
  wc_URL :: string
  wc_Secret :: string

definition un_webhook_config :: "webhook_config decoder" where
  "un_webhook_config = un_struct
     [(''webhook_url'', fld un_str wc_URL wc_URL_update), (''signing_secret'', fld un_str wc_Secret wc_Secret_update)]"

definition sendWebhook :: "notify_env \<Rightarrow> string \<Rightarrow> notificationPayload \<Rightarrow> sent" where
  "sendWebhook env config p =
     (case unmarshal (nw_json env) un_webhook_config \<lparr>wc_URL = [], wc_Secret = []\<rparr> config of
        None \<Rightarrow> (Some ''parse webhook config'', [])
      | Some cfg \<Rightarrow>
          if wc_URL cfg = [] then (Some ''webhook_url not configured'', [])
          else
            (let body = jt_Marshal (nw_json env) (json_payload p)
             in if \<not> nw_request_ok env (wc_URL cfg) then (Some ''create webhook request'', [])
                else post_result env ''webhook''
                  (Post (wc_URL cfg)
                    ((''Content-Type'', ''application/json'') #
                     (if wc_Secret cfg \<noteq> [] then [(''X-TokenGate-Signature'', nw_hmac env (wc_Secret cfg) body)] else []))
                    body)))"

text \<open>The switch over the type of a channel; None is a type that no branch has.\<close>

definition send_by_type :: "notify_env \<Rightarrow> string \<Rightarrow> string \<Rightarrow> notificationPayload \<Rightarrow> sent option" where
  "send_by_type env typ config p =
     (if typ = ''email'' then Some (sendEmail env config p)
      else if typ = ''slack'' then Some (sendSlack env config p)
      else if typ = ''webhook'' then Some (sendWebhook env config p)
      else None)"

definition unknown_type :: "string \<Rightarrow> sent" where
  "unknown_type typ = (Some (''unknown channel type: '' @ typ), [])"

definition now_text :: "notify_env \<Rightarrow> string" where
  "now_text env = format_RFC3339 (time_UTC (nw_now env))"

definition dquoted :: "string \<Rightarrow> string" where
  "dquoted s = CHR 0x22 # s @ [CHR 0x22]"

definition SendTestNotification :: "notify_env \<Rightarrow> NotificationChannel \<Rightarrow> sent" where
  "SendTestNotification env ch =
     (case send_by_type env (nc_ChannelType ch) (nc_Config ch)
             \<lparr>np_TenantID = nc_TenantID ch, np_UserID = [], np_EventType = ''test'', np_Title = [], np_Body = [],
              np_KeyID = ''test-key'', np_Provider = ''test-provider'', np_Model = ''test-model'',
              np_Details = ''{'' @ dquoted ''message'' @ '':'' @ dquoted ''This is a test notification from TokenGate'' @ ''}'',
              np_Timestamp = now_text env\<rparr> of
        Some r \<Rightarrow> r | None \<Rightarrow> unknown_type (nc_ChannelType ch))"

section \<open>The worker\<close>

record 'r setnx_ops =
  nx_SetNX :: "'r \<Rightarrow> int \<Rightarrow> string \<Rightarrow> int \<Rightarrow> bool option \<times> 'r"

abbreviation debounceTTL :: int where "debounceTTL \<equiv> 60 * second_ns"

definition dedup_key :: "nat \<Rightarrow> string \<Rightarrow> string \<Rightarrow> string \<Rightarrow> string \<Rightarrow> string" where
  "dedup_key tenantID eventType keyID provider model =
     ''notif:dedup:'' @ show_nat tenantID @ '':'' @ eventType @ '':'' @ keyID @ '':'' @ provider @ '':'' @ model"

text \<open>The message of the stream, \<open>None\<close> when its tenant does not parse.\<close>

definition decode_alert :: "stream_values \<Rightarrow> NotificationEventMsg option" where
  "decode_alert v =
     (case ParseUint (sprint_v v ''tenant_id'') of
        (_, Some _) \<Rightarrow> None
      | (n, None) \<Rightarrow> Some \<lparr>ne_TenantID = nat n, ne_EventType = sprint_v v ''event_type'', ne_KeyID = sprint_v v ''key_id'',
          ne_Provider = sprint_v v ''provider'', ne_Model = sprint_v v ''model'', ne_Details = sprint_v v ''details''\<rparr>)"

definition alert_key :: "NotificationEventMsg \<Rightarrow> string" where
  "alert_key m = dedup_key (ne_TenantID m) (ne_EventType m) (ne_KeyID m) (ne_Provider m) (ne_Model m)"

definition alert_payload :: "notify_env \<Rightarrow> NotificationEventMsg \<Rightarrow> notificationPayload" where
  "alert_payload env m =
     \<lparr>np_TenantID = ne_TenantID m, np_UserID = [], np_EventType = ne_EventType m, np_Title = [], np_Body = [],
      np_KeyID = ne_KeyID m, np_Provider = ne_Provider m, np_Model = ne_Model m, np_Details = ne_Details m,
      np_Timestamp = now_text env\<rparr>"

definition subscribed :: "NotificationEventMsg \<Rightarrow> NotificationChannel \<Rightarrow> bool" where
  "subscribed m ch \<longleftrightarrow> nc_TenantID ch = ne_TenantID m \<and> nc_Enabled ch \<and> ne_EventType m \<in> set (nc_EventTypes ch)"

text \<open>What a message sends: each subscribed channel in turn, whatever became of the others.\<close>

definition dispatch_alert :: "notify_env \<Rightarrow> NotificationEventMsg \<Rightarrow> NotificationChannel list \<Rightarrow> (nat \<times> delivery) list" where
  "dispatch_alert env m channels =
     concat (map (\<lambda>ch. case send_by_type env (nc_ChannelType ch) (nc_Config ch) (alert_payload env m) of
                         None \<Rightarrow> [] | Some (_, sent) \<Rightarrow> map (Pair (nc_ID ch)) sent) channels)"

text \<open>The state of the database while a message is processed: whether it answers, and its table of channels.\<close>

record message_env =
  me_notify :: notify_env
  me_down :: bool
  me_channels :: "NotificationChannel list"

datatype notify_error = ParseTenant | LoadChannels

definition processMessage :: "'r setnx_ops \<Rightarrow> message_env \<Rightarrow> stream_values \<Rightarrow> 'r \<Rightarrow>
    notify_error option \<times> 'r \<times> (nat \<times> delivery) list" where
  "processMessage R env v s =
     (case decode_alert v of
        None \<Rightarrow> (Some ParseTenant, s, [])
      | Some m \<Rightarrow>
          (case nx_SetNX R s (t_ns (nw_now (me_notify env))) (alert_key m) debounceTTL of
             (Some False, s') \<Rightarrow> (None, s', [])
           | (_, s') \<Rightarrow>
               if me_down env then (Some LoadChannels, s', [])
               else (None, s', dispatch_alert (me_notify env) m (filter (subscribed m) (me_channels env)))))"

record ('r, 'q) notify_state =
  ns_redis :: 'r
  ns_stream :: 'q
  ns_sent :: "(nat \<times> delivery) list"

text \<open>\<open>Run\<close>: a message is acknowledged only when it was processed, and the group is not offered it again.\<close>

fun notify_batch :: "'r setnx_ops \<Rightarrow> 'q stream_ops \<Rightarrow> (nat \<Rightarrow> message_env) \<Rightarrow> nat \<Rightarrow> stream_msg list \<Rightarrow>
    ('r, 'q) notify_state \<Rightarrow> ('r, 'q) notify_state" where
  "notify_batch R X env i [] st = st"
| "notify_batch R X env i ((msgID, v) # msgs) st =
     (case processMessage R (env i) v (ns_redis st) of
        (err, s, sent) \<Rightarrow>
          notify_batch R X env (Suc i) msgs
            (st\<lparr>ns_redis := s, ns_sent := ns_sent st @ sent,
                ns_stream := (if err = None then xs_Ack X msgID (ns_stream st) else ns_stream st)\<rparr>))"

definition notify_poll :: "'r setnx_ops \<Rightarrow> 'q stream_ops \<Rightarrow> (nat \<Rightarrow> message_env) \<Rightarrow> ('r, 'q) notify_state \<Rightarrow>
    ('r, 'q) notify_state" where
  "notify_poll R X env st =
     (case xs_ReadGroup X 10 (ns_stream st) of
        (StreamMessages msgs, q) \<Rightarrow> notify_batch R X env 0 msgs (st\<lparr>ns_stream := q\<rparr>)
      | (_, q) \<Rightarrow> st\<lparr>ns_stream := q\<rparr>)"

definition NotificationWorker_Run :: "'r setnx_ops \<Rightarrow> 'q stream_ops \<Rightarrow> (nat \<Rightarrow> message_env) list \<Rightarrow>
    ('r, 'q) notify_state \<Rightarrow> ('r, 'q) notify_state" where
  "NotificationWorker_Run R X envs st =
     fold (notify_poll R X) envs (st\<lparr>ns_stream := xs_GroupCreate X (ns_stream st)\<rparr>)"

section \<open>Personal channels\<close>

record UserNotificationChannel =
  uc_ID :: nat
  uc_UserID :: string
  uc_ChannelType :: string
  uc_Name :: string
  uc_Config :: string
  uc_EventTypes :: "string list"
  uc_Enabled :: bool
  uc_CreatedAt :: int

definition dispatchUserChannel :: "notify_env \<Rightarrow> UserNotificationChannel \<Rightarrow> notificationPayload \<Rightarrow> sent" where
  "dispatchUserChannel env ch p =
     (case send_by_type env (uc_ChannelType ch) (uc_Config ch) p of
        Some r \<Rightarrow> r | None \<Rightarrow> unknown_type (uc_ChannelType ch))"

definition user_payload :: "notify_env \<Rightarrow> string \<Rightarrow> string \<Rightarrow> string \<Rightarrow> string \<Rightarrow> string \<Rightarrow> notificationPayload" where
  "user_payload env userID eventType title body details =
     \<lparr>np_TenantID = 0, np_UserID = userID, np_EventType = eventType, np_Title = title, np_Body = body, np_KeyID = [],
      np_Provider = [], np_Model = [], np_Details = details, np_Timestamp = now_text env\<rparr>"

definition SendUserNotification :: "notify_env \<Rightarrow> bool \<Rightarrow> UserNotificationChannel list \<Rightarrow> string \<Rightarrow> string \<Rightarrow> string \<Rightarrow>
    string \<Rightarrow> string \<Rightarrow> string option \<times> (nat \<times> delivery) list" where
  "SendUserNotification env down channels userID eventType title body details =
     (if down then (Some ''load user channels'', [])
      else (None, concat (map (\<lambda>ch. map (Pair (uc_ID ch))
             (snd (dispatchUserChannel env ch (user_payload env userID eventType title body details))))
           (filter (\<lambda>ch. uc_UserID ch = userID \<and> uc_Enabled ch \<and> eventType \<in> set (uc_EventTypes ch)) channels))))"

definition SendTestUserNotificationChannel :: "notify_env \<Rightarrow> UserNotificationChannel \<Rightarrow> sent" where
  "SendTestUserNotificationChannel env ch =
     dispatchUserChannel env ch (user_payload env (uc_UserID ch) ''test'' ''TokenGate Test Notification''
       ''This is a test notification from your personal channel settings.''
       (''{'' @ dquoted ''message'' @ '':'' @ dquoted ''test_user_notification_channel'' @ ''}''))"

definition validateUserEventType :: "string \<Rightarrow> bool" where
  "validateUserEventType et \<longleftrightarrow> et = EventTeamInvitation"

text \<open>An identifier in the path that is not zero.\<close>

definition positive_id :: "string \<Rightarrow> nat option" where
  "positive_id param = (case path_id param of None \<Rightarrow> None | Some i \<Rightarrow> if i = 0 then None else Some i)"

definition handleListUserNotificationChannels :: "org_env \<Rightarrow> rbac_ctx \<Rightarrow> UserNotificationChannel list \<Rightarrow>
    api_reply \<times> UserNotificationChannel list" where
  "handleListUserNotificationChannels env ctx chs =
     (if oe_fault env 0 then ((500, ''failed to fetch channels''), [])
      else ((200, []), sort_key (\<lambda>c. - uc_CreatedAt c) (filter (\<lambda>c. uc_UserID c = usr_ID (ctx_user ctx)) chs)))"

text \<open>The column \<open>enabled\<close> has the default true, which an insert with the zero value takes.\<close>

definition handleCreateUserNotificationChannel :: "org_env \<Rightarrow> rbac_ctx \<Rightarrow> channelReq option \<Rightarrow> UserNotificationChannel list \<Rightarrow>
    api_reply \<times> UserNotificationChannel list" where
  "handleCreateUserNotificationChannel env ctx req chs =
     (case req of
        None \<Rightarrow> ((400, ''binding''), chs)
      | Some q \<Rightarrow>
          (case (hq_Config q, hq_EventTypes q) of
             (Some config, Some events) \<Rightarrow>
               if hq_ChannelType q = [] then ((400, ''binding''), chs)
               else if hq_ChannelType q \<notin> set channel_types then ((400, ''channel_type must be email, slack, or webhook''), chs)
               else if \<not> list_all validateUserEventType events then ((400, ''invalid event_type''), chs)
               else if oe_fault env 0 then ((500, ''failed to create channel''), chs)
               else ((201, []), chs @ [\<lparr>uc_ID = oe_newID env 0, uc_UserID = usr_ID (ctx_user ctx), uc_ChannelType = hq_ChannelType q,
                       uc_Name = hq_Name q, uc_Config = config, uc_EventTypes = events, uc_Enabled = True, uc_CreatedAt = oe_now env\<rparr>])
           | _ \<Rightarrow> ((400, ''binding''), chs)))"

text \<open>The channel of the path, when it belongs to the caller.\<close>

definition own_channel :: "org_env \<Rightarrow> rbac_ctx \<Rightarrow> nat \<Rightarrow> UserNotificationChannel list \<Rightarrow>
    (api_reply, UserNotificationChannel) result" where
  "own_channel env ctx i chs =
     (case db_first (oe_fault env 0) (\<lambda>c. uc_ID c = i) chs of
        Inl _ \<Rightarrow> Inl (404, ''notification channel not found'')
      | Inr c \<Rightarrow> if uc_UserID c \<noteq> usr_ID (ctx_user ctx) then Inl (403, ''forbidden'') else Inr c)"

definition merge_user_channel :: "channelReq \<Rightarrow> UserNotificationChannel \<Rightarrow> UserNotificationChannel" where
  "merge_user_channel q c = c\<lparr>uc_ChannelType := (if hq_ChannelType q \<noteq> [] then hq_ChannelType q else uc_ChannelType c),
     uc_Name := (if hq_Name q \<noteq> [] then hq_Name q else uc_Name c),
     uc_Config := (case hq_Config q of None \<Rightarrow> uc_Config c | Some x \<Rightarrow> x),
     uc_EventTypes := (case hq_EventTypes q of None \<Rightarrow> uc_EventTypes c | Some x \<Rightarrow> x),
     uc_Enabled := (case hq_Enabled q of None \<Rightarrow> uc_Enabled c | Some b \<Rightarrow> b)\<rparr>"

definition handleUpdateUserNotificationChannel :: "org_env \<Rightarrow> rbac_ctx \<Rightarrow> string \<Rightarrow> channelReq option \<Rightarrow>
    UserNotificationChannel list \<Rightarrow> api_reply \<times> UserNotificationChannel list" where
  "handleUpdateUserNotificationChannel env ctx param req chs =
     (case (positive_id param, req) of
        (None, _) \<Rightarrow> ((400, ''invalid id''), chs)
      | (Some _, None) \<Rightarrow> ((400, ''binding''), chs)
      | (Some i, Some q) \<Rightarrow>
          (case own_channel env ctx i chs of
             Inl r \<Rightarrow> (r, chs)
           | Inr c \<Rightarrow>
               if hq_ChannelType q \<noteq> [] \<and> hq_ChannelType q \<notin> set channel_types
               then ((400, ''channel_type must be email, slack, or webhook''), chs)
               else if (case hq_EventTypes q of None \<Rightarrow> False | Some events \<Rightarrow> \<not> list_all validateUserEventType events)
               then ((400, ''invalid event_type''), chs)
               else if oe_fault env 1 then ((500, ''failed to update channel''), chs)
               else ((200, []), map (\<lambda>r. if uc_ID r = uc_ID c then merge_user_channel q c else r) chs)))"

definition handleDeleteUserNotificationChannel :: "org_env \<Rightarrow> rbac_ctx \<Rightarrow> string \<Rightarrow> UserNotificationChannel list \<Rightarrow>
    api_reply \<times> UserNotificationChannel list" where
  "handleDeleteUserNotificationChannel env ctx param chs =
     (case positive_id param of
        None \<Rightarrow> ((400, ''invalid id''), chs)
      | Some i \<Rightarrow>
          (case own_channel env ctx i chs of
             Inl r \<Rightarrow> (r, chs)
           | Inr c \<Rightarrow>
               if oe_fault env 1 then ((500, ''failed to delete channel''), chs)
               else ((200, []), filter (\<lambda>r. uc_ID r \<noteq> uc_ID c) chs)))"

text \<open>The reply of a test: a failed test has status 200 and says so in its body.\<close>

definition test_reply :: "bool \<Rightarrow> sent \<Rightarrow> api_reply \<times> delivery list" where
  "test_reply worker r =
     (if \<not> worker then ((503, ''notification worker not configured''), [])
      else ((200, case fst r of None \<Rightarrow> [] | Some e \<Rightarrow> e), snd r))"

definition handleTestUserNotificationChannel :: "org_env \<Rightarrow> notify_env \<Rightarrow> rbac_ctx \<Rightarrow> string \<Rightarrow> UserNotificationChannel list \<Rightarrow>
    api_reply \<times> delivery list" where
  "handleTestUserNotificationChannel env nenv ctx param chs =
     (case positive_id param of
        None \<Rightarrow> ((400, ''invalid id''), [])
      | Some i \<Rightarrow>
          (case own_channel env ctx i chs of
             Inl r \<Rightarrow> (r, [])
           | Inr c \<Rightarrow> test_reply (oe_worker env) (SendTestUserNotificationChannel nenv c)))"

definition handleTestNotificationChannel :: "org_env \<Rightarrow> notify_env \<Rightarrow> rbac_ctx \<Rightarrow> string \<Rightarrow> org_db \<Rightarrow>
    api_reply \<times> delivery list" where
  "handleTestNotificationChannel env nenv ctx param st =
     (case first_channel env ctx param st of
        Inl r \<Rightarrow> (r, [])
      | Inr c \<Rightarrow> test_reply (oe_worker env) (SendTestNotification nenv c))"

section \<open>In-app notifications\<close>

definition notification_limit :: "string \<Rightarrow> nat" where
  "notification_limit raw =
     (if raw = [] then 50
      else case ParseInt raw of (n, None) \<Rightarrow> if 0 < n \<and> n \<le> 200 then nat n else 50 | _ \<Rightarrow> 50)"

definition is_unread :: "string \<Rightarrow> UserNotification \<Rightarrow> bool" where
  "is_unread userID n \<longleftrightarrow> nf_UserID n = userID \<and> nf_Status n = UserNotificationStatusUnread"

definition handleListUserNotifications :: "org_env \<Rightarrow> rbac_ctx \<Rightarrow> string \<Rightarrow> org_db \<Rightarrow>
    api_reply \<times> UserNotification list \<times> int" where
  "handleListUserNotifications env ctx raw st =
     (let userID = usr_ID (ctx_user ctx)
      in if oe_fault env 0 then ((500, ''failed to fetch notifications''), [], 0)
         else ((200, []),
               take (notification_limit raw)
                 (sort_key (\<lambda>n. - nf_CreatedAt n) (filter (\<lambda>n. nf_UserID n = userID) (db_notifications st))),
               db_count (oe_fault env 1) (is_unread userID) (db_notifications st)))"

definition read_now :: "org_env \<Rightarrow> UserNotification \<Rightarrow> UserNotification" where
  "read_now env n = n\<lparr>nf_Status := UserNotificationStatusRead, nf_ReadAt := Some (oe_now env)\<rparr>"

definition handleMarkUserNotificationRead :: "org_env \<Rightarrow> rbac_ctx \<Rightarrow> string \<Rightarrow> org_db \<Rightarrow> api_reply \<times> org_db" where
  "handleMarkUserNotificationRead env ctx param st =
     (case positive_id param of
        None \<Rightarrow> ((400, ''invalid id''), st)
      | Some i \<Rightarrow>
          if oe_fault env 0 then ((500, ''failed to update notification''), st)
          else ((200, []), st\<lparr>db_notifications :=
                 map (\<lambda>n. if nf_ID n = i \<and> nf_UserID n = usr_ID (ctx_user ctx) then read_now env n else n) (db_notifications st)\<rparr>))"

definition handleMarkAllUserNotificationsRead :: "org_env \<Rightarrow> rbac_ctx \<Rightarrow> org_db \<Rightarrow> api_reply \<times> org_db" where
  "handleMarkAllUserNotificationsRead env ctx st =
     (if oe_fault env 0 then ((500, ''failed to update notifications''), st)
      else ((200, []), st\<lparr>db_notifications :=
             map (\<lambda>n. if is_unread (usr_ID (ctx_user ctx)) n then read_now env n else n) (db_notifications st)\<rparr>))"

definition handleDeleteUserNotification :: "org_env \<Rightarrow> rbac_ctx \<Rightarrow> string \<Rightarrow> org_db \<Rightarrow> api_reply \<times> org_db" where
  "handleDeleteUserNotification env ctx param st =
     (case positive_id param of
        None \<Rightarrow> ((400, ''invalid id''), st)
      | Some i \<Rightarrow>
          (case db_first (oe_fault env 0) (\<lambda>n. nf_ID n = i) (db_notifications st) of
             Inl _ \<Rightarrow> ((404, ''notification not found''), st)
           | Inr n \<Rightarrow>
               if nf_UserID n \<noteq> usr_ID (ctx_user ctx) then ((403, ''forbidden''), st)
               else if oe_fault env 1 then ((500, ''failed to delete notification''), st)
               else ((200, []), st\<lparr>db_notifications := filter (\<lambda>m. nf_ID m \<noteq> nf_ID n) (db_notifications st)\<rparr>)))"

section \<open>Personal channels carry invitations only\<close>

inductive channel_step :: "UserNotificationChannel list \<Rightarrow> UserNotificationChannel list \<Rightarrow> bool" where
  create: "handleCreateUserNotificationChannel env ctx req chs = (r, chs') \<Longrightarrow> channel_step chs chs'"
| update: "handleUpdateUserNotificationChannel env ctx param req chs = (r, chs') \<Longrightarrow> channel_step chs chs'"
| delete: "handleDeleteUserNotificationChannel env ctx param chs = (r, chs') \<Longrightarrow> channel_step chs chs'"

definition personal_ok :: "UserNotificationChannel list \<Rightarrow> bool" where
  "personal_ok chs \<longleftrightarrow> (\<forall>c \<in> set chs. uc_ChannelType c \<in> set channel_types \<and> set (uc_EventTypes c) \<subseteq> {EventTeamInvitation})"

lemma events_valid: "list_all validateUserEventType es \<longleftrightarrow> set es \<subseteq> {EventTeamInvitation}"
  by (auto simp: list_all_iff validateUserEventType_def)

lemma personal_ok_merge:
  assumes "personal_ok chs" "c \<in> set chs" "hq_ChannelType q \<noteq> [] \<longrightarrow> hq_ChannelType q \<in> set channel_types"
    and "\<forall>es. hq_EventTypes q = Some es \<longrightarrow> set es \<subseteq> {EventTeamInvitation}"
  shows "uc_ChannelType (merge_user_channel q c) \<in> set channel_types \<and>
    set (uc_EventTypes (merge_user_channel q c)) \<subseteq> {EventTeamInvitation}"
  using assms by (auto simp: personal_ok_def merge_user_channel_def split: option.split)

lemma personal_ok_create:
  "personal_ok chs \<Longrightarrow> personal_ok (snd (handleCreateUserNotificationChannel env ctx req chs))"
  by (auto simp: handleCreateUserNotificationChannel_def personal_ok_def events_valid split: option.splits)

lemma own_channel_Inr: "own_channel env ctx i chs = Inr c \<Longrightarrow> c \<in> set chs \<and> uc_UserID c = usr_ID (ctx_user ctx)"
  by (auto simp: own_channel_def db_first_Inr dest: find_SomeD split: sum.splits if_splits)

lemma personal_ok_update:
  assumes "personal_ok chs"
  shows "personal_ok (snd (handleUpdateUserNotificationChannel env ctx param req chs))"
proof -
  have "personal_ok (map (\<lambda>r. if uc_ID r = uc_ID c then merge_user_channel q c else r) chs)"
    if "own_channel env ctx i chs = Inr c" "hq_ChannelType q \<noteq> [] \<longrightarrow> hq_ChannelType q \<in> set channel_types"
      "\<forall>es. hq_EventTypes q = Some es \<longrightarrow> set es \<subseteq> {EventTeamInvitation}" for i q c
    using personal_ok_merge [OF assms _ that(2,3), of c] own_channel_Inr [OF that(1)] assms by (auto simp: personal_ok_def)
  with assms show ?thesis
    by (auto simp: handleUpdateUserNotificationChannel_def events_valid split: option.splits sum.splits)
qed

lemma personal_ok_delete:
  "personal_ok chs \<Longrightarrow> personal_ok (snd (handleDeleteUserNotificationChannel env ctx param chs))"
  by (auto simp: handleDeleteUserNotificationChannel_def personal_ok_def split: option.splits sum.splits)

interpretation personal: inductive_invariant "\<lambda>chs. chs = []" channel_step personal_ok
proof unfold_locales
  show "chs = [] \<Longrightarrow> personal_ok chs" for chs by (simp add: personal_ok_def)
  show "personal_ok chs \<Longrightarrow> channel_step chs chs' \<Longrightarrow> personal_ok chs'" for chs chs'
    by (erule channel_step.cases) (metis personal_ok_create personal_ok_update personal_ok_delete snd_conv)+
qed

text \<open>C32: a change of a membership never leaves the process: the handlers notify the member through his personal channels,
  but the only event type that a personal channel can subscribe to is the invitation; so whatever channels the users have
  created, updated and deleted, the notification of a member update is sent to no one, while an invitation is sent
  once through every enabled channel of the invited user that subscribes to it, and through no channel of anyone else.\<close>

theorem member_updates_reach_no_channel:
  assumes "reachable (\<lambda>chs. chs = []) channel_step chs"
  shows "SendUserNotification env False chs userID EventMemberUpdated title body details = (None, []) \<and>
    set (map fst (snd (SendUserNotification env False chs userID EventTeamInvitation title body details))) \<subseteq>
      uc_ID ` {c \<in> set chs. uc_UserID c = userID \<and> uc_Enabled c \<and> uc_EventTypes c \<noteq> []}"
proof -
  have ok: "personal_ok chs" using assms by (rule personal.holds_when_reachable)
  then have "filter (\<lambda>ch. uc_UserID ch = userID \<and> uc_Enabled ch \<and> EventMemberUpdated \<in> set (uc_EventTypes ch)) chs = []"
    by (auto simp: filter_empty_conv personal_ok_def)
  then show ?thesis by (auto simp: SendUserNotification_def)
qed

section \<open>Debouncing\<close>

text \<open>What Redis documents of \<open>SET key value NX PX ttl\<close>: \<open>expiry s k\<close> is the instant until which the key exists. A
  call that fails on the way may or may not have set the key.\<close>

definition setnx_laws :: "'r setnx_ops \<Rightarrow> ('r \<Rightarrow> string \<Rightarrow> int) \<Rightarrow> bool" where
  "setnx_laws R expiry \<longleftrightarrow>
     (\<forall>s t k ttl r s'. nx_SetNX R s t k ttl = (r, s') \<longrightarrow>
        (\<forall>k'. k' \<noteq> k \<longrightarrow> expiry s' k' = expiry s k') \<and>
        (t < expiry s k \<longrightarrow> r \<noteq> Some True \<and> expiry s' k = expiry s k) \<and>
        (expiry s k \<le> t \<longrightarrow> r \<noteq> Some False \<and> (r = Some True \<longrightarrow> expiry s' k = t + ttl)))"

lemma setnx_frame:
  assumes "setnx_laws R expiry" "nx_SetNX R s t k ttl = (r, s')" "t < expiry s k'"
  shows "expiry s' k' = expiry s k'"
  using assms by (cases "k' = k") (auto simp: setnx_laws_def)

text \<open>The instant at which a message is processed.\<close>

abbreviation at_time :: "message_env \<Rightarrow> int" where
  "at_time env \<equiv> t_ns (nw_now (me_notify env))"

lemma processMessage_expiry:
  assumes "setnx_laws R expiry" "processMessage R env v s = (err, s', sent)" "at_time env < expiry s k"
  shows "expiry s' k = expiry s k"
proof (cases "decode_alert v")
  case None
  with assms(2) show ?thesis by (simp add: processMessage_def)
next
  case (Some m)
  obtain r s1 where N: "nx_SetNX R s (at_time env) (alert_key m) debounceTTL = (r, s1)" by fastforce
  have "s' = s1" using assms(2) Some N by (auto simp: processMessage_def split: option.splits bool.splits if_splits)
  with setnx_frame [OF assms(1) N assms(3)] show ?thesis by simp
qed

definition process_all :: "'r setnx_ops \<Rightarrow> (message_env \<times> stream_values) list \<Rightarrow> 'r \<Rightarrow> 'r" where
  "process_all R = fold (\<lambda>(env, v) s. fst (snd (processMessage R env v s)))"

lemma process_all_expiry:
  assumes "setnx_laws R expiry" "list_all (\<lambda>(env, v). at_time env < expiry s k) others"
  shows "expiry (process_all R others s) k = expiry s k"
  using assms(2)
proof (induction others arbitrary: s)
  case (Cons ev others)
  obtain env v err s' sent where ev: "ev = (env, v)" "processMessage R env v s = (err, s', sent)"
    by (metis surj_pair)
  have e: "expiry s' k = expiry s k" using processMessage_expiry [OF assms(1) ev(2)] Cons.prems ev by simp
  with Cons.IH [of s'] Cons.prems ev show ?case by (simp add: process_all_def)
qed (simp add: process_all_def)

text \<open>C33: an alert is given one attempt a minute: once Redis has answered for a message, then whatever became of it, and
  whatever other messages came between, a message with the same tenant, event, key, provider and model that is
  processed within the next minute sends nothing and is acknowledged as done. In particular, when the channels could not be
  loaded the first time, the alert was sent to no one, and still its repetitions are dropped.\<close>

theorem alerts_debounced:
  assumes laws: "setnx_laws R expiry"
    and first: "processMessage R env1 v1 s = (err, s1, sent1)" "decode_alert v1 = Some m1"
      "fst (nx_SetNX R s (at_time env1) (alert_key m1) debounceTTL) = Some True"
    and others: "list_all (\<lambda>(env, v). at_time env < at_time env1 + debounceTTL) others"
    and second: "decode_alert v2 = Some m2" "alert_key m2 = alert_key m1" "at_time env2 < at_time env1 + debounceTTL"
      "fst (nx_SetNX R (process_all R others s1) (at_time env2) (alert_key m2) debounceTTL) \<noteq> None"
  shows "(\<exists>s'. processMessage R env2 v2 (process_all R others s1) = (None, s', [])) \<and> (me_down env1 \<longrightarrow> sent1 = [])"
proof -
  obtain s1' where N: "nx_SetNX R s (at_time env1) (alert_key m1) debounceTTL = (Some True, s1')"
    using first(3) by (metis eq_fst_iff)
  then have e: "expiry s1' (alert_key m1) = at_time env1 + debounceTTL"
    using laws unfolding setnx_laws_def by (metis linorder_not_less)
  have s1: "s1 = s1'" "me_down env1 \<longrightarrow> sent1 = []" using first(1,2) N by (auto simp: processMessage_def split: if_splits)
  have E: "expiry (process_all R others s1) (alert_key m2) = at_time env1 + debounceTTL"
    using process_all_expiry [OF laws, where k = "alert_key m1" and s = s1 and others = others] others e s1 second(2) by simp
  obtain r s2 where M: "nx_SetNX R (process_all R others s1) (at_time env2) (alert_key m2) debounceTTL = (r, s2)" by fastforce
  have "r = Some False"
    using laws M E second(3,4) unfolding setnx_laws_def by (cases r) (fastforce, metis (full_types))
  then show ?thesis using M second(1) s1(2) by (simp add: processMessage_def)
qed

text \<open>The worker decodes what the queue encodes.\<close>

lemma decode_encode_alert: "int (ne_TenantID msg) < 2 ^ 64 \<Longrightarrow> decode_alert (encode_alert msg) = Some msg"
  by (simp add: decode_alert_def encode_alert_def sprint_v_def)

section \<open>A concrete worker\<close>

definition map_setnx :: "(string \<Rightarrow> int) setnx_ops" where
  "map_setnx = \<lparr>nx_SetNX = \<lambda>s t k ttl. if t < s k then (Some False, s) else (Some True, s(k := t + ttl))\<rparr>"

lemma map_setnx_laws: "setnx_laws map_setnx (\<lambda>s k. s k)"
  by (simp add: setnx_laws_def map_setnx_def)

definition demo_notify_env :: "int \<Rightarrow> notify_env" where
  "demo_notify_env t = \<lparr>nw_now = \<lparr>t_ns = t, t_off = 0\<rparr>, nw_json = \<lparr>jt_Unmarshal = \<lambda>_. Some (JObj []), jt_Marshal = \<lambda>_. []\<rparr>,
     nw_Getenv = (\<lambda>_. []), nw_SendMail = (\<lambda>_. None), nw_request_ok = (\<lambda>_. True), nw_Post = (\<lambda>_. Inr 200), nw_hmac = (\<lambda>_ _. [])\<rparr>"

definition demo_message_env :: "int \<Rightarrow> bool \<Rightarrow> message_env" where
  "demo_message_env t down = \<lparr>me_notify = demo_notify_env t, me_down = down, me_channels = []\<rparr>"

definition demo_alert_msg :: NotificationEventMsg where
  "demo_alert_msg = \<lparr>ne_TenantID = 7, ne_EventType = EventBudgetBlocked, ne_KeyID = ''k1'', ne_Provider = ''openai'',
     ne_Model = ''gpt-4o'', ne_Details = ''{}''\<rparr>"

lemma demo_alert_decoded: "decode_alert (encode_alert demo_alert_msg) = Some demo_alert_msg"
  by (rule decode_encode_alert) (simp add: demo_alert_msg_def)

lemma demo_at_time: "at_time (demo_message_env t down) = t"
  by (simp add: demo_message_env_def demo_notify_env_def)

theorem alerts_debounced_witness:
  "\<exists>s1 s2. processMessage map_setnx (demo_message_env 1000 True) (encode_alert demo_alert_msg) (\<lambda>_. 0) = (Some LoadChannels, s1, []) \<and>
    processMessage map_setnx (demo_message_env 2000 False) (encode_alert demo_alert_msg) s1 = (None, s2, [])"
proof -
  let ?s1 = "(\<lambda>_. 0)(alert_key demo_alert_msg := 1000 + debounceTTL)"
  have 1: "nx_SetNX map_setnx (\<lambda>_. 0) 1000 (alert_key demo_alert_msg) debounceTTL = (Some True, ?s1)"
    by (simp add: map_setnx_def)
  have P: "processMessage map_setnx (demo_message_env 1000 True) (encode_alert demo_alert_msg) (\<lambda>_. 0) = (Some LoadChannels, ?s1, [])"
    using 1 demo_at_time [of 1000 True] by (simp add: processMessage_def demo_alert_decoded) (simp add: demo_message_env_def)
  have later: "(2000::int) < 1000 + debounceTTL" by (simp add: second_ns_def)
  have "fst (nx_SetNX map_setnx ?s1 2000 (alert_key demo_alert_msg) debounceTTL) \<noteq> None" by (auto simp: map_setnx_def)
  with alerts_debounced [OF map_setnx_laws P demo_alert_decoded, of "[]" "encode_alert demo_alert_msg" demo_alert_msg
      "demo_message_env 2000 False"] 1 later P
  show ?thesis by (auto simp: demo_at_time process_all_def demo_alert_decoded)
qed

definition demo_member_ctx :: "string \<Rightarrow> rbac_ctx" where
  "demo_member_ctx userID = \<lparr>ctx_user = new_user (demo_org_env 1) (demo_sync userID), ctx_tenant_id = 7, ctx_org_role = RoleViewer\<rparr>"

definition demo_channel_req :: channelReq where
  "demo_channel_req = \<lparr>hq_ChannelType = ''webhook'', hq_Name = ''mine'', hq_Config = Some ''{}'',
     hq_EventTypes = Some [EventTeamInvitation], hq_Enabled = None\<rparr>"

lemma demo_channel_created:
  "handleCreateUserNotificationChannel (demo_org_env 5) (demo_member_ctx ''ada'') (Some demo_channel_req) [] =
    ((201, []), [\<lparr>uc_ID = 5, uc_UserID = ''ada'', uc_ChannelType = ''webhook'', uc_Name = ''mine'', uc_Config = ''{}'',
       uc_EventTypes = [EventTeamInvitation], uc_Enabled = True, uc_CreatedAt = 1000\<rparr>])"
  by (simp add: handleCreateUserNotificationChannel_def demo_channel_req_def channel_types_def validateUserEventType_def
      demo_org_env_def demo_member_ctx_def new_user_def demo_sync_def)

theorem member_updates_reach_no_channel_witness:
  "SendUserNotification (demo_notify_env 0) False
     (snd (handleCreateUserNotificationChannel (demo_org_env 5) (demo_member_ctx ''ada'') (Some demo_channel_req) []))
     ''ada'' EventMemberUpdated ''Role changed'' [] [] = (None, [])"
proof -
  have "reachable (\<lambda>chs. chs = []) channel_step
      (snd (handleCreateUserNotificationChannel (demo_org_env 5) (demo_member_ctx ''ada'') (Some demo_channel_req) []))"
    unfolding demo_channel_created snd_conv
    by (rule reachable_step [where s = "[]"], rule reachable_start, rule refl, rule channel_step.create, rule demo_channel_created)
  from member_updates_reach_no_channel [OF this] show ?thesis by blast
qed

end
