(* ===== verification/Health.thy ===== *)
theory Health
  imports Prelude
begin

text \<open>
  The three per-deployment trackers of the smart router: health with exponential cooldown
  (\<open>internal/provider/health.go\<close>), a sliding window of latencies (\<open>latency_tracker.go\<close>) and the
  rate limit information of response headers (\<open>ratelimit_tracker.go\<close>).

  Each operation holds a lock for its whole body, so it is one atomic state change. Instants and
  durations are nanoseconds; the zero time is 0. Durations are 64-bit, and the arithmetic that can
  overflow is written with \<open>wrap64\<close>.
\<close>

section \<open>Health\<close>

record DeploymentHealth =
  dh_FailCount :: int
  dh_LastFailure :: int
  dh_CooldownUntil :: int
  dh_cooldownLevel :: nat

type_synonym HealthTracker = "string \<rightharpoonup> DeploymentHealth"

definition cooldownThreshold :: int where "cooldownThreshold = 3"
definition baseCooldownDur :: int where "baseCooldownDur = 30 * 10 ^ 9"
definition maxCooldownDur :: int where "maxCooldownDur = 300 * 10 ^ 9"

definition fresh_health :: DeploymentHealth where
  "fresh_health = \<lparr>dh_FailCount = 0, dh_LastFailure = 0, dh_CooldownUntil = 0, dh_cooldownLevel = 0\<rparr>"

definition getOrCreate :: "HealthTracker \<Rightarrow> string \<Rightarrow> DeploymentHealth" where
  "getOrCreate ht did = (case ht did of None \<Rightarrow> fresh_health | Some h \<Rightarrow> h)"

text \<open>\<open>baseCooldownDur * (1 << (level - 1))\<close> capped at the maximum, on 64 bits.\<close>

definition cooldown_dur :: "nat \<Rightarrow> int" where
  "cooldown_dur level =
     (let dur = wrap64 (baseCooldownDur * wrap64 (2 ^ (level - 1)))
      in if maxCooldownDur < dur then maxCooldownDur else dur)"

definition RecordFailure :: "HealthTracker \<Rightarrow> string \<Rightarrow> int \<Rightarrow> HealthTracker" where
  "RecordFailure ht did now =
     (let h = getOrCreate ht did;
          h1 = h\<lparr>dh_FailCount := dh_FailCount h + 1, dh_LastFailure := now\<rparr>
      in ht(did \<mapsto>
           (if cooldownThreshold \<le> dh_FailCount h1
            then (let level = dh_cooldownLevel h1 + 1
                  in h1\<lparr>dh_cooldownLevel := level, dh_CooldownUntil := now + cooldown_dur level,
                         dh_FailCount := 0\<rparr>)
            else h1)))"

definition RecordSuccess :: "HealthTracker \<Rightarrow> string \<Rightarrow> HealthTracker" where
  "RecordSuccess ht did =
     ht(did \<mapsto> (getOrCreate ht did)\<lparr>dh_FailCount := 0, dh_cooldownLevel := 0, dh_CooldownUntil := 0\<rparr>)"

definition IsHealthy :: "HealthTracker \<Rightarrow> string \<Rightarrow> int \<Rightarrow> bool" where
  "IsHealthy ht did now = (case ht did of None \<Rightarrow> True | Some h \<Rightarrow> dh_CooldownUntil h < now)"

text \<open>The loop of \<open>EarliestCooldownExpiry\<close>; the empty string stands for "none yet".\<close>

fun earliest_loop :: "HealthTracker \<Rightarrow> string list \<Rightarrow> string \<Rightarrow> int \<Rightarrow> string" where
  "earliest_loop ht [] earliest earliestTime = earliest"
| "earliest_loop ht (did # dids) earliest earliestTime =
     (case ht did of
        None \<Rightarrow> did
      | Some h \<Rightarrow>
          if earliest = [] \<or> dh_CooldownUntil h < earliestTime
          then earliest_loop ht dids did (dh_CooldownUntil h)
          else earliest_loop ht dids earliest earliestTime)"

definition EarliestCooldownExpiry :: "HealthTracker \<Rightarrow> string list \<Rightarrow> string" where
  "EarliestCooldownExpiry ht dids = earliest_loop ht dids [] 0"

section \<open>Latency\<close>

definition latencyWindowSize :: nat where "latencyWindowSize = 100"

record latencyWindow =
  lw_durations :: "int list"
  lw_pos :: nat
  lw_full :: bool

type_synonym LatencyTracker = "string \<rightharpoonup> latencyWindow"

definition fresh_window :: latencyWindow where
  "fresh_window = \<lparr>lw_durations = replicate latencyWindowSize 0, lw_pos = 0, lw_full = False\<rparr>"

definition window_add :: "latencyWindow \<Rightarrow> int \<Rightarrow> latencyWindow" where
  "window_add w duration =
     (let pos = (lw_pos w + 1) mod latencyWindowSize
      in \<lparr>lw_durations = (lw_durations w)[lw_pos w := duration], lw_pos = pos,
          lw_full = (if pos = 0 then True else lw_full w)\<rparr>)"

definition Record :: "LatencyTracker \<Rightarrow> string \<Rightarrow> int \<Rightarrow> LatencyTracker" where
  "Record lt did duration =
     lt(did \<mapsto> window_add (case lt did of None \<Rightarrow> fresh_window | Some w \<Rightarrow> w) duration)"

definition Average :: "LatencyTracker \<Rightarrow> string \<Rightarrow> int" where
  "Average lt did =
     (case lt did of
        None \<Rightarrow> 0
      | Some w \<Rightarrow>
          (let count = (if lw_full w then latencyWindowSize else lw_pos w)
           in if count = 0 then 0
              else quot (wrap64 (sum_list (take count (lw_durations w)))) (int count)))"

definition HasData :: "LatencyTracker \<Rightarrow> string \<Rightarrow> bool" where
  "HasData lt did = (case lt did of None \<Rightarrow> False | Some w \<Rightarrow> lw_full w \<or> 0 < lw_pos w)"

section \<open>Provider rate limits\<close>

record RateLimitInfo =
  ri_RemainingRequests :: int
  ri_RemainingTokens :: int
  ri_LimitRequests :: int
  ri_LimitTokens :: int
  ri_ResetRequests :: int
  ri_ResetTokens :: int

type_synonym RateLimitTracker = "string \<rightharpoonup> RateLimitInfo"

definition Update :: "RateLimitTracker \<Rightarrow> string \<Rightarrow> RateLimitInfo option \<Rightarrow> RateLimitTracker" where
  "Update rlt did info = (case info of None \<Rightarrow> rlt | Some i \<Rightarrow> rlt(did \<mapsto> i))"

definition ShouldAvoid :: "RateLimitTracker \<Rightarrow> string \<Rightarrow> bool" where
  "ShouldAvoid rlt did =
     (case rlt did of
        None \<Rightarrow> False
      | Some info \<Rightarrow>
          if 0 < ri_LimitRequests info \<and> ri_RemainingRequests info < quot (ri_LimitRequests info) 10 then True
          else 0 < ri_LimitTokens info \<and> ri_RemainingTokens info < quot (ri_LimitTokens info) 10)"

definition Get_info :: "RateLimitTracker \<Rightarrow> string \<Rightarrow> RateLimitInfo option" where
  "Get_info rlt did = rlt did"

section \<open>Lemmas on health\<close>

lemma getOrCreate_upd [simp]: "getOrCreate (ht(did \<mapsto> h)) did = h"
  by (simp add: getOrCreate_def)

lemma RecordFailure_frame: "did' \<noteq> did \<Longrightarrow> RecordFailure ht did now did' = ht did'"
  and RecordSuccess_frame: "did' \<noteq> did \<Longrightarrow> RecordSuccess ht did did' = ht did'"
  by (simp_all add: RecordFailure_def RecordSuccess_def Let_def)

lemma getOrCreate_RecordFailure:
  "getOrCreate (RecordFailure ht did now) did =
     (let h = getOrCreate ht did
      in if cooldownThreshold \<le> dh_FailCount h + 1
         then h\<lparr>dh_FailCount := 0, dh_LastFailure := now, dh_cooldownLevel := dh_cooldownLevel h + 1,
                dh_CooldownUntil := now + cooldown_dur (dh_cooldownLevel h + 1)\<rparr>
         else h\<lparr>dh_FailCount := dh_FailCount h + 1, dh_LastFailure := now\<rparr>)"
  unfolding RecordFailure_def Let_def getOrCreate_upd by simp

text \<open>The failure counter never reaches the threshold between calls.\<close>

definition health_inv :: "HealthTracker \<Rightarrow> bool" where
  "health_inv ht \<longleftrightarrow> (\<forall>did h. ht did = Some h \<longrightarrow> 0 \<le> dh_FailCount h \<and> dh_FailCount h < cooldownThreshold)"

lemma health_inv_init: "health_inv Map.empty"
  by (simp add: health_inv_def)

lemma getOrCreate_inv: "health_inv ht \<Longrightarrow> 0 \<le> dh_FailCount (getOrCreate ht did) \<and>
    dh_FailCount (getOrCreate ht did) < cooldownThreshold"
  by (auto simp: health_inv_def getOrCreate_def fresh_health_def cooldownThreshold_def split: option.split)

lemma health_inv_RecordFailure: "health_inv ht \<Longrightarrow> health_inv (RecordFailure ht did now)"
  using getOrCreate_inv [of ht did]
  by (auto simp: health_inv_def RecordFailure_def Let_def cooldownThreshold_def)

lemma health_inv_RecordSuccess: "health_inv ht \<Longrightarrow> health_inv (RecordSuccess ht did)"
  by (auto simp: health_inv_def RecordSuccess_def cooldownThreshold_def)

lemma cooldown_dur_small:
  assumes "1 \<le> level" "level \<le> 29"
  shows "cooldown_dur level = min maxCooldownDur (baseCooldownDur * 2 ^ (level - 1))"
proof -
  define x :: int where "x = 2 ^ (level - 1)"
  have "x \<le> 2 ^ 28" unfolding x_def using assms by (intro power_increasing) auto
  moreover have "0 < x" by (simp add: x_def)
  ultimately have "int64_range x" "int64_range (baseCooldownDur * x)"
    by (simp_all add: int64_range_def baseCooldownDur_def)
  then show ?thesis unfolding cooldown_dur_def x_def [symmetric] by (simp add: Let_def min_def)
qed

lemma cooldown_dur_bounds:
  assumes "1 \<le> level" "level \<le> 29"
  shows "baseCooldownDur \<le> cooldown_dur level" "cooldown_dur level \<le> maxCooldownDur"
proof -
  have "(1::int) \<le> 2 ^ (level - 1)" by simp
  then show "baseCooldownDur \<le> cooldown_dur level" "cooldown_dur level \<le> maxCooldownDur"
    unfolding cooldown_dur_small [OF assms]
    by (simp_all add: baseCooldownDur_def maxCooldownDur_def min_def)
qed

text \<open>The record of a deployment after a run of failures at the given instants, with no success in
  between.\<close>

definition fail_run :: "HealthTracker \<Rightarrow> string \<Rightarrow> int list \<Rightarrow> HealthTracker" where
  "fail_run ht did ts = fold (\<lambda>t ht. RecordFailure ht did t) ts ht"

lemma fail_run_snoc: "fail_run ht did (ts @ [t]) = RecordFailure (fail_run ht did ts) did t"
  by (simp add: fail_run_def)

lemma fail_run_counts:
  assumes "dh_FailCount (getOrCreate ht did) = 0" "dh_cooldownLevel (getOrCreate ht did) = 0"
  shows "dh_FailCount (getOrCreate (fail_run ht did ts) did) = int (length ts mod 3) \<and>
    dh_cooldownLevel (getOrCreate (fail_run ht did ts) did) = length ts div 3"
proof (induction ts rule: rev_induct)
  case Nil
  then show ?case using assms by (simp add: fail_run_def)
next
  case (snoc t ts)
  let ?n = "length ts"
  have "Suc ?n mod 3 = (if ?n mod 3 = 2 then 0 else ?n mod 3 + 1)"
    "Suc ?n div 3 = (if ?n mod 3 = 2 then ?n div 3 + 1 else ?n div 3)" by presburger+
  moreover have "?n mod 3 = 2 \<or> ?n mod 3 < 2" by linarith
  ultimately show ?case using snoc
    by (auto simp: fail_run_snoc getOrCreate_RecordFailure Let_def cooldownThreshold_def)
qed

lemma fail_run_cooldown:
  assumes "dh_FailCount (getOrCreate ht did) = 0" "dh_cooldownLevel (getOrCreate ht did) = 0"
    "length ts mod 3 = 2"
  shows "fail_run ht did (ts @ [t]) did = Some \<lparr>dh_FailCount = 0, dh_LastFailure = t,
    dh_CooldownUntil = t + cooldown_dur (length ts div 3 + 1), dh_cooldownLevel = length ts div 3 + 1\<rparr>"
proof -
  obtain h where h: "getOrCreate (fail_run ht did ts) did = h" by blast
  note c = fail_run_counts [OF assms(1,2), of ts, unfolded h assms(3)]
  show ?thesis
    unfolding fail_run_snoc RecordFailure_def h Let_def
    using c by (cases h) (simp add: cooldownThreshold_def)
qed

section \<open>Lemmas on the earliest expiry\<close>

lemma earliest_loop_spec:
  assumes "[] \<notin> set dids" "earliest \<noteq> [] \<or> dids \<noteq> []"
    "earliest \<noteq> [] \<Longrightarrow> \<exists>h. ht earliest = Some h \<and> dh_CooldownUntil h = et"
  defines "r \<equiv> earliest_loop ht dids earliest et"
  shows "(r = earliest \<or> r \<in> set dids) \<and> r \<noteq> [] \<and>
    (case ht r of None \<Rightarrow> True
     | Some h \<Rightarrow> (earliest \<noteq> [] \<longrightarrow> dh_CooldownUntil h \<le> et) \<and>
         (\<forall>d \<in> set dids. \<exists>h'. ht d = Some h' \<and> dh_CooldownUntil h \<le> dh_CooldownUntil h'))"
  using assms(1-3) unfolding r_def
proof (induction dids arbitrary: earliest et)
  case Nil
  then show ?case by (auto split: option.split)
next
  case (Cons d dids)
  show ?case
  proof (cases "ht d")
    case None
    with Cons.prems show ?thesis by auto
  next
    case (Some h)
    let ?take = "earliest = [] \<or> dh_CooldownUntil h < et"
    let ?e = "if ?take then d else earliest" and ?t = "if ?take then dh_CooldownUntil h else et"
    have step: "earliest_loop ht (d # dids) earliest et = earliest_loop ht dids ?e ?t"
      using Some by simp
    have "(earliest_loop ht dids ?e ?t = ?e \<or> earliest_loop ht dids ?e ?t \<in> set dids) \<and>
        earliest_loop ht dids ?e ?t \<noteq> [] \<and>
        (case ht (earliest_loop ht dids ?e ?t) of None \<Rightarrow> True
         | Some h \<Rightarrow> (?e \<noteq> [] \<longrightarrow> dh_CooldownUntil h \<le> ?t) \<and>
             (\<forall>d \<in> set dids. \<exists>h'. ht d = Some h' \<and> dh_CooldownUntil h \<le> dh_CooldownUntil h'))"
      using Cons.prems Some by (intro Cons.IH) auto
    then show ?thesis unfolding step using Cons.prems Some by (auto split: option.splits if_splits)
  qed
qed

section \<open>The latency window represents the last measurements\<close>

text \<open>\<open>represents w h\<close>: the window holds the last hundred entries of the history \<open>h\<close>, each at its index
  modulo the window size.\<close>

definition represents :: "latencyWindow \<Rightarrow> int list \<Rightarrow> bool" where
  "represents w h \<longleftrightarrow> length (lw_durations w) = latencyWindowSize \<and>
     lw_pos w = length h mod latencyWindowSize \<and> (lw_full w \<longleftrightarrow> latencyWindowSize \<le> length h) \<and>
     (\<forall>i < length h. length h \<le> i + latencyWindowSize \<longrightarrow> lw_durations w ! (i mod latencyWindowSize) = h ! i)"

lemma represents_fresh: "represents fresh_window []"
  by (simp add: represents_def fresh_window_def latencyWindowSize_def)

lemma full_step: "(n + 1) mod (100::nat) = 0 \<or> 100 \<le> n \<longleftrightarrow> 100 \<le> n + 1"
proof -
  have "n < 100 \<Longrightarrow> (n + 1) mod 100 = 0 \<longleftrightarrow> n = 99" by (cases "n = 99") simp_all
  then show ?thesis by fastforce
qed

lemma represents_add:
  assumes "represents w h"
  shows "represents (window_add w x) (h @ [x])"
proof -
  let ?n = "length h"
  have len: "length (lw_durations w) = 100" and pos: "lw_pos w = ?n mod 100"
    and full: "lw_full w \<longleftrightarrow> 100 \<le> ?n"
    and val: "\<And>i. i < ?n \<Longrightarrow> ?n \<le> i + 100 \<Longrightarrow> lw_durations w ! (i mod 100) = h ! i"
    using assms by (simp_all add: represents_def latencyWindowSize_def)
  have pos': "(?n mod 100 + 1) mod 100 = (?n + 1) mod 100" by (simp add: mod_Suc_eq)
  have "(lw_durations w)[?n mod 100 := x] ! (i mod 100) = (h @ [x]) ! i"
    if "i < ?n + 1" "?n + 1 \<le> i + 100" for i
  proof (cases "i = ?n")
    case True
    then show ?thesis using len by simp
  next
    case False
    then have i: "i < ?n" "?n \<le> i + 100" "?n \<noteq> i + 100" using that by auto
    have "i mod 100 \<noteq> ?n mod 100"
    proof
      assume "i mod 100 = ?n mod 100"
      then have "(100::nat) dvd ?n - i" using i by (metis mod_eq_dvd_iff_nat less_imp_le_nat)
      then show False using i by (auto dest: dvd_imp_le)
    qed
    with i val show ?thesis by (simp add: nth_append)
  qed
  moreover have "(if (?n + 1) mod 100 = 0 then True else lw_full w) = (100 \<le> ?n + 1)"
    using full full_step [of ?n] by argo
  then have "window_add w x = \<lparr>lw_durations = (lw_durations w)[?n mod 100 := x],
      lw_pos = (?n + 1) mod 100, lw_full = (100 \<le> ?n + 1)\<rparr>"
    unfolding window_add_def Let_def latencyWindowSize_def pos pos' by (simp only:)
  ultimately show ?thesis using len
    by (simp only: represents_def latencyWindowSize_def latencyWindow.simps length_append list.size) simp
qed

lemma represents_sum_short:
  assumes "represents w h" "length h < latencyWindowSize"
  shows "take (length h) (lw_durations w) = h"
  using assms by (intro nth_equalityI) (auto simp: represents_def latencyWindowSize_def)

lemma represents_sum_full:
  assumes "represents w h" "latencyWindowSize \<le> length h"
  shows "sum_list (lw_durations w) = sum_list (drop (length h - latencyWindowSize) h)"
proof -
  let ?n = "length h" and ?d = "lw_durations w"
  have len: "length ?d = 100" and val: "\<And>i. i < ?n \<Longrightarrow> ?n \<le> i + 100 \<Longrightarrow> ?d ! (i mod 100) = h ! i"
    and n: "100 \<le> ?n" using assms by (simp_all add: represents_def latencyWindowSize_def)
  have inj: "inj_on (\<lambda>i. i mod 100) {?n - 100..<?n}"
  proof (rule inj_onI)
    fix i j
    assume ij: "i \<in> {?n - 100..<?n}" "j \<in> {?n - 100..<?n}" "i mod 100 = j mod 100"
    have close: "i \<le> j \<Longrightarrow> j - i < 100" "j \<le> i \<Longrightarrow> i - j < 100" using ij by auto
    have "(100::nat) dvd j - i" "100 dvd i - j" using ij(3)
      by (metis mod_eq_dvd_iff_nat nat_le_linear diff_is_0_eq dvd_0_right)+
    then show "i = j" using close by (metis dvd_imp_le le_antisym nat_le_linear not_less zero_less_diff not_le)
  qed
  have "(\<lambda>i. i mod 100) ` {?n - 100..<?n} = {0..<100}"
    by (rule card_subset_eq) (auto simp: card_image [OF inj] n)
  then have "(\<Sum>i = 0..<100. ?d ! i) = (\<Sum>i \<in> {?n - 100..<?n}. ?d ! (i mod 100))"
    using sum.reindex [OF inj, of "\<lambda>i. ?d ! i"] by (simp add: comp_def)
  also have "\<dots> = (\<Sum>i \<in> {?n - 100..<?n}. h ! i)" using val by (intro sum.cong) auto
  also have "\<dots> = (\<Sum>i = 0..<100. h ! (?n - 100 + i))"
    using sum.shift_bounds_nat_ivl [of "\<lambda>i. h ! i" 0 "?n - 100" 100] n by (simp add: add.commute)
  also have "\<dots> = sum_list (drop (?n - 100) h)"
    using n by (simp add: sum_list_sum_nth)
  finally show ?thesis using len by (simp add: sum_list_sum_nth latencyWindowSize_def)
qed

lemma Record_same: "Record lt did d did = Some (window_add (case lt did of None \<Rightarrow> fresh_window | Some w \<Rightarrow> w) d)"
  by (simp add: Record_def)

lemma record_all_represents:
  "ds \<noteq> [] \<Longrightarrow> \<exists>w. fold (\<lambda>d lt. Record lt did d) ds Map.empty did = Some w \<and> represents w ds"
proof (induction ds rule: rev_induct)
  case (snoc d ds)
  show ?case
  proof (cases "ds = []")
    case True
    then show ?thesis
      using represents_add [OF represents_fresh, of d] by (simp add: Record_same)
  next
    case False
    then obtain w where "fold (\<lambda>d lt. Record lt did d) ds Map.empty did = Some w" "represents w ds"
      using snoc.IH by blast
    then show ?thesis using represents_add by (simp add: Record_same)
  qed
qed simp

lemma sum_list_bound:
  "\<forall>d \<in> set ds. 0 \<le> d \<and> d < b \<Longrightarrow> 0 \<le> sum_list ds \<and> sum_list ds \<le> int (length ds) * b"
proof (induction ds)
  case (Cons d ds)
  then show ?case by (auto simp: algebra_simps)
qed simp

section \<open>Properties\<close>

text \<open>Consecutive failures trip the cooldown in rounds of three with exponentially growing pauses.
  After a run of \<open>3 * k\<close> failures without a success (for \<open>k\<close> from 1 to 29), starting from a fresh or
  recovered deployment, the deployment is unhealthy from the last failure until thirty seconds times
  two to the power \<open>k - 1\<close>, but at most five minutes, have passed, and healthy again afterwards.\<close>

theorem cooldown_after_failures:
  assumes "dh_FailCount (getOrCreate ht did) = 0" and "dh_cooldownLevel (getOrCreate ht did) = 0"
    and "length ts = 3 * k" and "1 \<le> k" and "k \<le> 29"
  shows "IsHealthy (fail_run ht did ts) did now \<longleftrightarrow>
    last ts + min maxCooldownDur (baseCooldownDur * 2 ^ (k - 1)) < now"
proof -
  from assms(3,4) have "ts \<noteq> []" by auto
  then obtain us t where ts: "ts = us @ [t]" by (metis rev_exhaust)
  then have l: "length us = 3 * (k - 1) + 2" using assms(3,4) by simp
  have "length us mod 3 = 2" "length us div 3 + 1 = k" unfolding l using assms(4)
    mod_mult_self4 [of 3 "k - 1" 2] by (simp_all only: mod_mult_self4 div_mult_self4) simp_all
  then show ?thesis
    using fail_run_cooldown [OF assms(1,2), of us t] cooldown_dur_small [OF assms(4,5)]
    by (simp add: ts IsHealthy_def)
qed

theorem cooldown_after_failures_witness:
  "\<not> IsHealthy (fail_run Map.empty ''d'' [5, 6, 7]) ''d'' (7 + 30 * 10 ^ 9) \<and>
   IsHealthy (fail_run Map.empty ''d'' [5, 6, 7]) ''d'' (8 + 30 * 10 ^ 9)"
proof -
  have h: "dh_FailCount (getOrCreate Map.empty ''d'') = 0" "dh_cooldownLevel (getOrCreate Map.empty ''d'') = 0"
    by (simp_all add: getOrCreate_def fresh_health_def)
  have l: "length [5, 6, 7 :: int] = 3 * 1" "1 \<le> (1::nat)" "(1::nat) \<le> 29" by simp_all
  show ?thesis
    unfolding cooldown_after_failures [OF h l] by (simp add: baseCooldownDur_def maxCooldownDur_def)
qed

text \<open>The exponential pause overflows. At the thirtieth round, after ninety failures in a row, the
  64-bit product is negative, the cap does not apply, and the deployment counts as healthy at the very
  instant of the failure.\<close>

theorem cooldown_overflow:
  assumes "dh_FailCount (getOrCreate ht did) = 0" and "dh_cooldownLevel (getOrCreate ht did) = 0"
    and "length ts = 90"
  shows "IsHealthy (fail_run ht did ts) did (last ts)"
proof -
  have neg: "cooldown_dur 30 < 0"
    by (simp add: cooldown_dur_def Let_def wrap64_def baseCooldownDur_def maxCooldownDur_def)
  from assms(3) have "ts \<noteq> []" by auto
  then obtain us t where ts: "ts = us @ [t]" by (metis rev_exhaust)
  then have "length us mod 3 = 2" "length us div 3 + 1 = 30" using assms(3) by auto
  then show ?thesis
    using fail_run_cooldown [OF assms(1,2), of us t] neg by (simp add: ts IsHealthy_def)
qed

theorem cooldown_overflow_witness:
  "IsHealthy (fail_run Map.empty ''d'' (replicate 90 1000)) ''d'' 1000"
proof -
  have h: "dh_FailCount (getOrCreate Map.empty ''d'') = 0" "dh_cooldownLevel (getOrCreate Map.empty ''d'') = 0"
    by (simp_all add: getOrCreate_def fresh_health_def)
  show ?thesis using cooldown_overflow [OF h, of "replicate 90 1000"] by (simp add: last_replicate)
qed

text \<open>The deployment tried when all are in cooldown is the one that recovers first: among non-empty
  identifiers, \<open>EarliestCooldownExpiry\<close> returns one of them, and if it has a health record then all of
  them do and none has an earlier end of its cooldown.\<close>

theorem EarliestCooldownExpiry_minimal:
  assumes "dids \<noteq> []" and "[] \<notin> set dids"
  shows "EarliestCooldownExpiry ht dids \<in> set dids \<and>
    (case ht (EarliestCooldownExpiry ht dids) of None \<Rightarrow> True
     | Some h \<Rightarrow> \<forall>d \<in> set dids. \<exists>h'. ht d = Some h' \<and> dh_CooldownUntil h \<le> dh_CooldownUntil h')"
  using earliest_loop_spec [OF assms(2), of "[]" ht 0] assms(1)
  unfolding EarliestCooldownExpiry_def by (auto split: option.splits)

theorem EarliestCooldownExpiry_minimal_witness:
  "EarliestCooldownExpiry (fail_run Map.empty ''a'' [5, 6, 7]) [''a''] \<in> set [''a'']"
proof -
  have h: "[''a''] \<noteq> []" "[] \<notin> set [''a'']" by simp_all
  show ?thesis using EarliestCooldownExpiry_minimal [OF h, of "fail_run Map.empty ''a'' [5, 6, 7]"] by blast
qed

text \<open>C37: the average is that of the last hundred measurements: after any sequence of latencies, each
  non-negative and below two to the 56th nanoseconds (more than two years), \<open>Average\<close> returns the sum of
  the last hundred of them (of all, if there are fewer) divided by their number, rounded down.\<close>

theorem Average_of_last_hundred:
  assumes "ds \<noteq> []" and "\<forall>d \<in> set ds. 0 \<le> d \<and> d < 2 ^ 56"
  defines "recent \<equiv> drop (length ds - latencyWindowSize) ds"
  shows "Average (fold (\<lambda>d lt. Record lt did d) ds Map.empty) did =
    sum_list recent div int (length recent)"
proof -
  obtain w where w: "fold (\<lambda>d lt. Record lt did d) ds Map.empty did = Some w" and r: "represents w ds"
    using record_all_represents [OF assms(1)] by blast
  let ?c = "if lw_full w then latencyWindowSize else lw_pos w"
  have c: "?c = length recent" and s: "sum_list (take ?c (lw_durations w)) = sum_list recent"
    and lr: "length recent \<le> 100"
    using r represents_sum_short [OF r] represents_sum_full [OF r]
    by (cases "latencyWindowSize \<le> length ds"; simp add: represents_def latencyWindowSize_def recent_def)+
  have pos: "0 < length recent"
    using assms(1) by (simp add: recent_def latencyWindowSize_def)
  have "\<forall>d \<in> set recent. 0 \<le> d \<and> d < 2 ^ 56" using assms(2) set_drop_subset unfolding recent_def by fast
  from sum_list_bound [OF this] lr have b: "0 \<le> sum_list recent" "sum_list recent \<le> 100 * 2 ^ 56" by auto
  then have "wrap64 (sum_list recent) = sum_list recent"
    by (intro wrap64_id) (simp add: int64_range_def)
  then show ?thesis
    using w c s b pos by (simp add: Average_def Let_def)
qed

theorem Average_of_last_hundred_witness:
  "Average (fold (\<lambda>d lt. Record lt ''d'' d) [10, 20, 33] Map.empty) ''d'' = 21"
  using Average_of_last_hundred [of "[10, 20, 33]" "''d''"]
  by (simp add: latencyWindowSize_def)

end
