(* ===== verification/Routing.thy ===== *)
theory Routing
  imports Complex_Main "HOL-Library.Multiset" Health
begin

text \<open>
  The smart router (\<open>internal/provider\<close>): model groups, the four routing strategies
  (\<open>strategy.go\<close>), the classification of provider errors (\<open>errors.go\<close>), and the two drivers that
  select deployments and execute a request against them, \<open>RetryExecutor.ExecuteWithRetry\<close>
  (\<open>retry.go\<close>) and \<open>Router.Route\<close> (\<open>router.go\<close>).

  What the drivers call outside their own code is passed in: the provider adapters and the HTTP
  client through the record \<open>exec_env\<close>, which also supplies per attempt the clock at its start and end, the state of the
  request context and the random draws. \<open>rand.Intn(n)\<close> is a draw reduced modulo \<open>n\<close>, which ranges
  over all of \<open>0 .. n - 1\<close>; \<open>fl\<close> is the rounding of a float64 addition. \<open>sort.Slice\<close> is an
  insertion sort on up to twelve elements, hence stable, and is modelled as a stable sort.
\<close>

section \<open>Groups and state\<close>

record Deployment =
  dp_ID :: string
  dp_Provider :: string
  dp_Model :: string
  dp_APIKey :: string
  dp_Priority :: int
  dp_Weight :: int
  dp_CostPer1KInput :: rat
  dp_CostPer1KOutput :: rat

record ModelGroup =
  mg_Name :: string
  mg_Strategy :: string
  mg_Deployments :: "Deployment list"

record RouterState =
  rst_Health :: HealthTracker
  rst_Latency :: LatencyTracker
  rst_RateLimit :: RateLimitTracker
  rst_Counter :: nat

record draw =
  dr_Float64 :: rat
  dr_int :: nat

definition NewRouterState :: RouterState where
  "NewRouterState = \<lparr>rst_Health = Map.empty, rst_Latency = Map.empty, rst_RateLimit = Map.empty,
     rst_Counter = 0\<rparr>"

definition usable :: "int \<Rightarrow> RouterState \<Rightarrow> Deployment \<Rightarrow> bool" where
  "usable now st d \<longleftrightarrow> IsHealthy (rst_Health st) (dp_ID d) now \<and> \<not> ShouldAvoid (rst_RateLimit st) (dp_ID d)"

definition healthyDeployments :: "int \<Rightarrow> Deployment list \<Rightarrow> RouterState \<Rightarrow> Deployment list" where
  "healthyDeployments now ds st = filter (usable now st) ds"

section \<open>Strategies\<close>

definition no_deployments :: "ModelGroup \<Rightarrow> string" where
  "no_deployments g = ''no deployments in group '' @ mg_Name g"

definition Fallback_Select :: "int \<Rightarrow> ModelGroup \<Rightarrow> RouterState \<Rightarrow> (string, Deployment) result" where
  "Fallback_Select now g st =
     (if mg_Deployments g = [] then Inl (no_deployments g)
      else
        (let sorted = sort_key dp_Priority (mg_Deployments g)
         in case find (usable now st) sorted of
              Some d \<Rightarrow> Inr d
            | None \<Rightarrow>
                (let earliest = EarliestCooldownExpiry (rst_Health st) (map dp_ID sorted)
                 in case find (\<lambda>d. dp_ID d = earliest) sorted of
                      Some d \<Rightarrow> Inr d
                    | None \<Rightarrow> Inr (hd sorted))))"

text \<open>\<open>Counter.Add(1) - 1\<close> on 64 bits: the old value, and the counter after the call.\<close>

definition counter_next :: "RouterState \<Rightarrow> RouterState" where
  "counter_next st = st\<lparr>rst_Counter := (rst_Counter st + 1) mod 2 ^ 64\<rparr>"

fun weighted_loop :: "Deployment list \<Rightarrow> int \<Rightarrow> int \<Rightarrow> Deployment option" where
  "weighted_loop [] idx cumulative = None"
| "weighted_loop (d # ds) idx cumulative =
     (let w = (if dp_Weight d \<le> 0 then 1 else dp_Weight d)
      in if idx < cumulative + w then Some d else weighted_loop ds idx (cumulative + w))"

definition weightedSelect :: "Deployment list \<Rightarrow> int \<Rightarrow> RouterState \<Rightarrow> Deployment" where
  "weightedSelect ds totalWeight st =
     (let idx = grem (wrap64 (int (rst_Counter st))) totalWeight
      in case weighted_loop ds idx 0 of Some d \<Rightarrow> d | None \<Rightarrow> hd ds)"

definition candidates :: "int \<Rightarrow> ModelGroup \<Rightarrow> RouterState \<Rightarrow> Deployment list" where
  "candidates now g st =
     (let healthy = healthyDeployments now (mg_Deployments g) st
      in if healthy = [] then mg_Deployments g else healthy)"

definition RoundRobin_Select :: "int \<Rightarrow> ModelGroup \<Rightarrow> RouterState \<Rightarrow> (string, Deployment) result \<times> RouterState" where
  "RoundRobin_Select now g st =
     (if mg_Deployments g = [] then (Inl (no_deployments g), st)
      else
        (let healthy = candidates now g st;
             weighted = filter (\<lambda>d. 0 < dp_Weight d) healthy;
             totalWeight = sum_list (map dp_Weight weighted)
         in if weighted \<noteq> [] \<and> 0 < totalWeight
            then (Inr (weightedSelect healthy totalWeight st), counter_next st)
            else (Inr (healthy ! (rst_Counter st mod length healthy)), counter_next st)))"

fun lowest :: "LatencyTracker \<Rightarrow> Deployment list \<Rightarrow> Deployment \<Rightarrow> int \<Rightarrow> Deployment" where
  "lowest lt [] best bestLatency = best"
| "lowest lt (d # ds) best bestLatency =
     (let avg = Average lt (dp_ID d)
      in if avg < bestLatency then lowest lt ds d avg else lowest lt ds best bestLatency)"

definition LowestLatency_Select :: "draw \<Rightarrow> int \<Rightarrow> ModelGroup \<Rightarrow> RouterState \<Rightarrow> (string, Deployment) result" where
  "LowestLatency_Select dr now g st =
     (if mg_Deployments g = [] then Inl (no_deployments g)
      else
        (let healthy = candidates now g st;
             explored = filter (\<lambda>d. HasData (rst_Latency st) (dp_ID d)) healthy;
             unexplored = filter (\<lambda>d. \<not> HasData (rst_Latency st) (dp_ID d)) healthy
         in if unexplored \<noteq> [] \<and> dr_Float64 dr < 1 / 10
            then Inr (unexplored ! (dr_int dr mod length unexplored))
            else if explored = [] then Inr (healthy ! (dr_int dr mod length healthy))
            else Inr (lowest (rst_Latency st) (tl explored) (hd explored)
                   (Average (rst_Latency st) (dp_ID (hd explored))))))"

definition total_cost :: "(rat \<Rightarrow> rat) \<Rightarrow> Deployment \<Rightarrow> rat" where
  "total_cost fl d = fl (dp_CostPer1KInput d + dp_CostPer1KOutput d)"

text \<open>When no deployment is usable the slice sorted is the group's own, which is reordered in place.\<close>

definition CostOptimized_Select :: "(rat \<Rightarrow> rat) \<Rightarrow> int \<Rightarrow> ModelGroup \<Rightarrow> RouterState \<Rightarrow>
    (string, Deployment) result \<times> ModelGroup" where
  "CostOptimized_Select fl now g st =
     (if mg_Deployments g = [] then (Inl (no_deployments g), g)
      else
        (let healthy = healthyDeployments now (mg_Deployments g) st
         in if healthy = []
            then (let sorted = sort_key (total_cost fl) (mg_Deployments g)
                  in (Inr (hd sorted), g\<lparr>mg_Deployments := sorted\<rparr>))
            else (Inr (hd (sort_key (total_cost fl) healthy)), g)))"

datatype RoutingStrategy = FallbackStrategy | RoundRobinStrategy | LowestLatencyStrategy | CostOptimizedStrategy

definition GetStrategy :: "string \<Rightarrow> (string, RoutingStrategy) result" where
  "GetStrategy name =
     (if name = ''fallback'' then Inr FallbackStrategy
      else if name = ''round-robin'' then Inr RoundRobinStrategy
      else if name = ''lowest-latency'' then Inr LowestLatencyStrategy
      else if name = ''cost-optimized'' then Inr CostOptimizedStrategy
      else Inl (''unknown routing strategy: '' @ name))"

type_synonym selector =
  "draw \<Rightarrow> int \<Rightarrow> ModelGroup \<Rightarrow> RouterState \<Rightarrow> (string, Deployment) result \<times> ModelGroup \<times> RouterState"

fun Select :: "(rat \<Rightarrow> rat) \<Rightarrow> RoutingStrategy \<Rightarrow> selector" where
  "Select fl FallbackStrategy dr now g st = (Fallback_Select now g st, g, st)"
| "Select fl RoundRobinStrategy dr now g st =
     (case RoundRobin_Select now g st of (r, st') \<Rightarrow> (r, g, st'))"
| "Select fl LowestLatencyStrategy dr now g st = (LowestLatency_Select dr now g st, g, st)"
| "Select fl CostOptimizedStrategy dr now g st =
     (case CostOptimized_Select fl now g st of (r, g') \<Rightarrow> (r, g', st))"

section \<open>Provider errors\<close>

record ProviderError =
  pe_StatusCode :: int
  pe_Message :: string
  pe_Type :: string
  pe_Provider :: string
  pe_Model :: string
  pe_Retryable :: bool
  pe_RetryAfter :: int

definition ClassifyHTTPStatus :: "int \<Rightarrow> string \<times> bool" where
  "ClassifyHTTPStatus status =
     (if status = 400 then (''invalid_request_error'', False)
      else if status = 401 then (''authentication_error'', False)
      else if status = 403 then (''permission_error'', False)
      else if status = 404 then (''not_found_error'', False)
      else if status = 429 then (''rate_limit_error'', True)
      else if status = 413 then (''invalid_request_error'', False)
      else if status = 529 then (''overloaded_error'', True)
      else if 500 \<le> status \<and> status < 600 then (''server_error'', True)
      else if 400 \<le> status \<and> status < 500 then (''invalid_request_error'', False)
      else (''server_error'', True))"

text \<open>\<open>fmt.Sscanf(ra, "%d", &seconds)\<close>: leading spaces, an optional sign, then the longest run of digits;
  an error when there is no digit or the number does not fit. \<open>parse_err\<close> is the JSON decoding of an
  error body into its message and type.\<close>

definition scan_int :: "string \<Rightarrow> int option" where
  "scan_int s =
     (let s1 = dropWhile is_space s;
          neg = (s1 \<noteq> [] \<and> hd s1 = CHR ''-'');
          s2 = (if s1 \<noteq> [] \<and> (hd s1 = CHR ''-'' \<or> hd s1 = CHR ''+'') then tl s1 else s1);
          ds = takeWhile is_digit s2;
          n = (if neg then - digits_val ds else digits_val ds)
      in if ds = [] \<or> \<not> int64_range n then None else Some n)"

definition ParseProviderError :: "(string \<Rightarrow> (string \<times> string) option) \<Rightarrow> int \<Rightarrow> string \<Rightarrow> string \<Rightarrow> string \<Rightarrow>
    string \<Rightarrow> ProviderError" where
  "ParseProviderError parse_err status body providerName model retryAfter =
     (let (errorType, retryable) = ClassifyHTTPStatus status;
          ra = (if retryAfter = [] then 0 else case scan_int retryAfter of None \<Rightarrow> 0 | Some n \<Rightarrow> n);
          pe = \<lparr>pe_StatusCode = status, pe_Message = [], pe_Type = errorType, pe_Provider = providerName,
                pe_Model = model, pe_Retryable = retryable, pe_RetryAfter = ra\<rparr>
      in case parse_err body of
           Some (msg, ty) \<Rightarrow>
             if msg \<noteq> [] then pe\<lparr>pe_Message := msg, pe_Type := (if ty \<noteq> [] then ty else errorType)\<rparr>
             else if body \<noteq> [] \<and> length body < 500 then pe\<lparr>pe_Message := body\<rparr>
             else pe\<lparr>pe_Message := ''provider '' @ providerName @ '' returned status '' @ show_int status\<rparr>
         | None \<Rightarrow>
             if body \<noteq> [] \<and> length body < 500 then pe\<lparr>pe_Message := body\<rparr>
             else pe\<lparr>pe_Message := ''provider '' @ providerName @ '' returned status '' @ show_int status\<rparr>)"

definition isRetryableStatus :: "int \<Rightarrow> bool" where
  "isRetryableStatus status \<longleftrightarrow> status = 429 \<or> status = 500 \<or> status = 503 \<or> status = 529"

section \<open>Execution\<close>

text \<open>The adapter interface; \<open>'q\<close> are chat requests, \<open>'h\<close> HTTP requests, \<open>'p\<close> HTTP responses and
  \<open>'r\<close> chat responses.\<close>

record ('q, 'h, 'p, 'r) ProviderAdapter =
  ad_TransformRequest :: "'q \<Rightarrow> string \<Rightarrow> (string, 'h) result"
  ad_TransformResponse :: "'p \<Rightarrow> (string, 'r) result"
  ad_ExtractRateLimitInfo :: "'p \<Rightarrow> RateLimitInfo option"

record ('q, 'h, 'p, 'r) exec_env =
  ee_registry :: "string \<rightharpoonup> ('q, 'h, 'p, 'r) ProviderAdapter"
  ee_with_model :: "'q \<Rightarrow> string \<Rightarrow> 'q"
  ee_Do :: "nat \<Rightarrow> 'h \<Rightarrow> (string, 'p) result"
  ee_StatusCode :: "'p \<Rightarrow> int"
  ee_Body :: "'p \<Rightarrow> string"
  ee_RetryAfter :: "'p \<Rightarrow> string"
  ee_parse_err :: "string \<Rightarrow> (string \<times> string) option"
  ee_now :: "nat \<Rightarrow> int"
  ee_end :: "nat \<Rightarrow> int"
  ee_ttfb :: "nat \<Rightarrow> int"
  ee_draw :: "nat \<Rightarrow> draw"
  ee_ctx_err :: "nat \<Rightarrow> bool"
  ee_ctx_err_do :: "nat \<Rightarrow> bool"
  ee_ctx_done_wait :: "nat \<Rightarrow> bool"

record RetryConfig =
  rc_MaxRetries :: int
  rc_BaseBackoff :: int
  rc_MaxBackoff :: int

definition DefaultRetryConfig :: RetryConfig where
  "DefaultRetryConfig = \<lparr>rc_MaxRetries = 3, rc_BaseBackoff = 10 ^ 9, rc_MaxBackoff = 8 * 10 ^ 9\<rparr>"

record 'r Attempt =
  at_Deployment :: Deployment
  at_Response :: "'r option"
  at_Error :: "ProviderError option"
  at_RawBody :: string
  at_StatusCode :: int

definition server_error :: "Deployment \<Rightarrow> int \<Rightarrow> string \<Rightarrow> string \<Rightarrow> bool \<Rightarrow> ProviderError" where
  "server_error dep status ty msg retryable =
     \<lparr>pe_StatusCode = status, pe_Message = msg, pe_Type = ty, pe_Provider = dp_Provider dep,
      pe_Model = dp_Model dep, pe_Retryable = retryable, pe_RetryAfter = 0\<rparr>"

definition executeOnce :: "('q, 'h, 'p, 'r) exec_env \<Rightarrow> nat \<Rightarrow> 'q \<Rightarrow> Deployment \<Rightarrow>
    ('q, 'h, 'p, 'r) ProviderAdapter \<Rightarrow> RouterState \<Rightarrow> 'r Attempt \<times> RouterState" where
  "executeOnce env i req dep adapter st =
     (let base = \<lparr>at_Deployment = dep, at_Response = None, at_Error = None, at_RawBody = [],
                  at_StatusCode = 0\<rparr>
      in case ad_TransformRequest adapter (ee_with_model env req (dp_Model dep)) (dp_APIKey dep) of
           Inl err \<Rightarrow>
             (base\<lparr>at_Error := Some (server_error dep 0 ''server_error'' (''transform request: '' @ err) False)\<rparr>, st)
         | Inr httpReq \<Rightarrow>
             (case ee_Do env i httpReq of
                Inl err \<Rightarrow>
                  (base\<lparr>at_Error := Some (server_error dep 0
                     (if ee_ctx_err_do env i then ''timeout_error'' else ''server_error'')
                     (''request failed: '' @ err) True)\<rparr>, st)
              | Inr resp \<Rightarrow>
                  (let st1 = st\<lparr>rst_Latency := Record (rst_Latency st) (dp_ID dep) (ee_ttfb env i),
                                rst_RateLimit := Update (rst_RateLimit st) (dp_ID dep)
                                  (ad_ExtractRateLimitInfo adapter resp)\<rparr>
                   in if ee_StatusCode env resp \<noteq> 200
                      then (base\<lparr>at_Error := Some (ParseProviderError (ee_parse_err env) (ee_StatusCode env resp)
                                   (ee_Body env resp) (dp_Provider dep) (dp_Model dep) (ee_RetryAfter env resp)),
                                 at_RawBody := ee_Body env resp, at_StatusCode := ee_StatusCode env resp\<rparr>, st1)
                      else (case ad_TransformResponse adapter resp of
                              Inl err \<Rightarrow>
                                (base\<lparr>at_Error := Some (server_error dep 200 ''server_error''
                                   (''transform response: '' @ err) False)\<rparr>, st1)
                            | Inr chatResp \<Rightarrow>
                                (base\<lparr>at_Response := Some chatResp, at_StatusCode := 200\<rparr>, st1)))))"

definition computeBackoff :: "RetryConfig \<Rightarrow> nat \<Rightarrow> 'r Attempt \<Rightarrow> int" where
  "computeBackoff cfg attemptNum attempt =
     (case at_Error attempt of
        None \<Rightarrow> 0
      | Some err \<Rightarrow>
          if pe_Type err = ''timeout_error'' then 0
          else if at_StatusCode attempt = 429 then
            (if 0 < pe_RetryAfter err
             then (let d = wrap64 (pe_RetryAfter err * 10 ^ 9)
                   in if rc_MaxBackoff cfg < d then rc_MaxBackoff cfg else d)
             else rc_BaseBackoff cfg)
          else (let backoff = wrap64 (rc_BaseBackoff cfg * wrap64 (2 ^ attemptNum))
                in if rc_MaxBackoff cfg < backoff then rc_MaxBackoff cfg else backoff))"

datatype retry_error = ErrStrategy string | ErrCtx | ErrSelect string | ErrAttempt ProviderError
  | ErrExhausted nat | ErrNoDeployments string

record 'r retry_result =
  rt_final :: "'r Attempt option"
  rt_attempts :: "'r Attempt list"
  rt_error :: "retry_error option"

fun retry_loop :: "selector \<Rightarrow> ('q, 'h, 'p, 'r) exec_env \<Rightarrow> RetryConfig \<Rightarrow> 'q \<Rightarrow> nat \<Rightarrow> nat \<Rightarrow> ModelGroup \<Rightarrow>
    string set \<Rightarrow> 'r Attempt list \<Rightarrow> RouterState \<Rightarrow> 'r retry_result \<times> ModelGroup \<times> RouterState" where
  "retry_loop sel env cfg req i 0 g tried attempts st =
     (if attempts = []
      then (\<lparr>rt_final = None, rt_attempts = [], rt_error = Some (ErrNoDeployments (mg_Name g))\<rparr>, g, st)
      else (\<lparr>rt_final = Some (last attempts), rt_attempts = attempts,
             rt_error = Some (ErrExhausted (length attempts))\<rparr>, g, st))"
| "retry_loop sel env cfg req i (Suc n) g tried attempts st =
     (if ee_ctx_err env i
      then (\<lparr>rt_final = None, rt_attempts = attempts, rt_error = Some ErrCtx\<rparr>, g, st)
      else
        (case sel (ee_draw env i) (ee_now env i) g st of
           (Inl err, g1, st1) \<Rightarrow>
             (\<lparr>rt_final = None, rt_attempts = attempts, rt_error = Some (ErrSelect err)\<rparr>, g1, st1)
         | (Inr deployment, g1, st1) \<Rightarrow>
             if dp_ID deployment \<in> tried
             then retry_loop sel env cfg req (i + 1) n g1 tried attempts st1
             else
               (let tried' = insert (dp_ID deployment) tried
                in case ee_registry env (dp_Provider deployment) of
                     None \<Rightarrow> retry_loop sel env cfg req (i + 1) n g1 tried' attempts st1
                   | Some adapter \<Rightarrow>
                       (case executeOnce env i req deployment adapter st1 of
                          (attempt, st2) \<Rightarrow>
                            (let attempts' = attempts @ [attempt]
                             in case at_Error attempt of
                                  None \<Rightarrow>
                                    (\<lparr>rt_final = Some attempt, rt_attempts = attempts', rt_error = None\<rparr>, g1,
                                     st2\<lparr>rst_Health := RecordSuccess (rst_Health st2) (dp_ID deployment)\<rparr>)
                                | Some err \<Rightarrow>
                                    (let st3 = st2\<lparr>rst_Health :=
                                           RecordFailure (rst_Health st2) (dp_ID deployment) (ee_end env i)\<rparr>
                                     in if \<not> pe_Retryable err
                                        then (\<lparr>rt_final = Some attempt, rt_attempts = attempts',
                                               rt_error = Some (ErrAttempt err)\<rparr>, g1, st3)
                                        else if 0 < computeBackoff cfg i attempt \<and> ee_ctx_done_wait env i
                                        then (\<lparr>rt_final = None, rt_attempts = attempts',
                                               rt_error = Some ErrCtx\<rparr>, g1, st3)
                                        else retry_loop sel env cfg req (i + 1) n g1 tried' attempts' st3))))))"

definition max_attempts :: "RetryConfig \<Rightarrow> ModelGroup \<Rightarrow> nat" where
  "max_attempts cfg g = nat (min (rc_MaxRetries cfg + 1) (int (length (mg_Deployments g))))"

definition ExecuteWithRetry :: "(rat \<Rightarrow> rat) \<Rightarrow> ('q, 'h, 'p, 'r) exec_env \<Rightarrow> RetryConfig \<Rightarrow> ModelGroup \<Rightarrow> 'q \<Rightarrow>
    RouterState \<Rightarrow> 'r retry_result \<times> ModelGroup \<times> RouterState" where
  "ExecuteWithRetry fl env cfg g req st =
     (case GetStrategy (mg_Strategy g) of
        Inl err \<Rightarrow> (\<lparr>rt_final = None, rt_attempts = [], rt_error = Some (ErrStrategy err)\<rparr>, g, st)
      | Inr strategy \<Rightarrow> retry_loop (Select fl strategy) env cfg req 0 (max_attempts cfg g) g {} [] st)"

section \<open>The router\<close>

type_synonym groups = "string \<rightharpoonup> ModelGroup"

definition AddModelGroup :: "groups \<Rightarrow> ModelGroup \<Rightarrow> groups" where
  "AddModelGroup gs g = gs(mg_Name g \<mapsto> g)"

definition RemoveModelGroup :: "groups \<Rightarrow> string \<Rightarrow> groups" where
  "RemoveModelGroup gs name = gs(name := None)"

definition HasModelGroup :: "groups \<Rightarrow> string \<Rightarrow> bool" where
  "HasModelGroup gs name \<longleftrightarrow> gs name \<noteq> None"

definition GetModelGroup :: "groups \<Rightarrow> string \<Rightarrow> (string, ModelGroup) result" where
  "GetModelGroup gs name =
     (case gs name of None \<Rightarrow> Inl (''unknown model group: '' @ name) | Some g \<Rightarrow> Inr g)"

record ('q, 'h, 'p, 'r) RouteResult =
  rr_Response :: "'r option"
  rr_Deployment :: Deployment
  rr_Adapter :: "('q, 'h, 'p, 'r) ProviderAdapter"
  rr_StatusCode :: int
  rr_RawBody :: string

definition executeRequest :: "('q, 'h, 'p, 'r) exec_env \<Rightarrow> nat \<Rightarrow> 'q \<Rightarrow> Deployment \<Rightarrow>
    ('q, 'h, 'p, 'r) ProviderAdapter \<Rightarrow> RouterState \<Rightarrow>
    (string, ('q, 'h, 'p, 'r) RouteResult) result \<times> RouterState" where
  "executeRequest env i req dep adapter st =
     (case ad_TransformRequest adapter req (dp_APIKey dep) of
        Inl err \<Rightarrow> (Inl (''transform request: '' @ err), st)
      | Inr httpReq \<Rightarrow>
          (case ee_Do env i httpReq of
             Inl err \<Rightarrow> (Inl (''execute request: '' @ err), st)
           | Inr resp \<Rightarrow>
               (let st1 = st\<lparr>rst_Latency := Record (rst_Latency st) (dp_ID dep) (ee_ttfb env i),
                             rst_RateLimit := Update (rst_RateLimit st) (dp_ID dep)
                               (ad_ExtractRateLimitInfo adapter resp)\<rparr>
                in if ee_StatusCode env resp \<noteq> 200
                   then (Inr \<lparr>rr_Response = None, rr_Deployment = dep, rr_Adapter = adapter,
                              rr_StatusCode = ee_StatusCode env resp, rr_RawBody = ee_Body env resp\<rparr>, st1)
                   else (case ad_TransformResponse adapter resp of
                           Inl err \<Rightarrow> (Inl (''transform response: '' @ err), st1)
                         | Inr chatResp \<Rightarrow>
                             (Inr \<lparr>rr_Response = Some chatResp, rr_Deployment = dep, rr_Adapter = adapter,
                                   rr_StatusCode = 200, rr_RawBody = []\<rparr>, st1)))))"

fun route_loop :: "selector \<Rightarrow> ('q, 'h, 'p, 'r) exec_env \<Rightarrow> 'q \<Rightarrow> nat \<Rightarrow> nat \<Rightarrow> ModelGroup \<Rightarrow> string set \<Rightarrow>
    string option \<Rightarrow> RouterState \<Rightarrow>
    (string, ('q, 'h, 'p, 'r) RouteResult) result \<times> ModelGroup \<times> RouterState" where
  "route_loop sel env req i 0 g tried lastErr st =
     (case lastErr of
        Some e \<Rightarrow> (Inl (''all deployments exhausted: '' @ e), g, st)
      | None \<Rightarrow> (Inl (''no deployments available in group '' @ mg_Name g), g, st))"
| "route_loop sel env req i (Suc n) g tried lastErr st =
     (case sel (ee_draw env i) (ee_now env i) g st of
        (Inl err, g1, st1) \<Rightarrow> (Inl err, g1, st1)
      | (Inr deployment, g1, st1) \<Rightarrow>
          if dp_ID deployment \<in> tried then route_loop sel env req (i + 1) n g1 tried lastErr st1
          else
            (let tried' = insert (dp_ID deployment) tried
             in case ee_registry env (dp_Provider deployment) of
                  None \<Rightarrow> route_loop sel env req (i + 1) n g1 tried'
                    (Some (''unknown provider: '' @ dp_Provider deployment)) st1
                | Some adapter \<Rightarrow>
                    (case executeRequest env i (ee_with_model env req (dp_Model deployment)) deployment adapter st1 of
                       (Inl err, st2) \<Rightarrow>
                         (let st3 = st2\<lparr>rst_Health := RecordFailure (rst_Health st2) (dp_ID deployment) (ee_end env i)\<rparr>
                          in if mg_Strategy g = ''fallback''
                             then route_loop sel env req (i + 1) n g1 tried' (Some err) st3
                             else (Inl err, g1, st3))
                     | (Inr res, st2) \<Rightarrow>
                         if isRetryableStatus (rr_StatusCode res)
                         then (let st3 = st2\<lparr>rst_Health :=
                                     RecordFailure (rst_Health st2) (dp_ID deployment) (ee_end env i)\<rparr>;
                                   err = ''provider returned status '' @ show_int (rr_StatusCode res)
                               in if mg_Strategy g = ''fallback''
                                  then route_loop sel env req (i + 1) n g1 tried' (Some err) st3
                                  else (Inl err, g1, st3))
                         else (Inr res, g1,
                               st2\<lparr>rst_Health := RecordSuccess (rst_Health st2) (dp_ID deployment)\<rparr>))))"

definition Route :: "(rat \<Rightarrow> rat) \<Rightarrow> ('q, 'h, 'p, 'r) exec_env \<Rightarrow> groups \<Rightarrow> string \<Rightarrow> 'q \<Rightarrow> RouterState \<Rightarrow>
    (string, ('q, 'h, 'p, 'r) RouteResult) result \<times> groups \<times> RouterState" where
  "Route fl env gs groupName req st =
     (case GetModelGroup gs groupName of
        Inl err \<Rightarrow> (Inl err, gs, st)
      | Inr g \<Rightarrow>
          (case GetStrategy (mg_Strategy g) of
             Inl err \<Rightarrow> (Inl err, gs, st)
           | Inr strategy \<Rightarrow>
               (let maxAttempts = (if mg_Strategy g = ''fallback'' then length (mg_Deployments g) else 1);
                    (r, g', st') = route_loop (Select fl strategy) env req 0 maxAttempts g {} None st
                in (r, gs(groupName \<mapsto> g'), st'))))"

section \<open>One iteration of the retry loop\<close>

lemma executeOnce_Deployment: "at_Deployment (fst (executeOnce env i req dep adapter st)) = dep"
  by (simp add: executeOnce_def Let_def split: sum.split)

lemma executeOnce_Health: "rst_Health (snd (executeOnce env i req dep adapter st)) = rst_Health st"
  by (simp add: executeOnce_def Let_def split: sum.split)

lemma retry_loop_step:
  assumes "retry_loop sel env cfg req i (Suc n) g tried attempts st = (r, g', st')"
  obtains (stop) "rt_attempts r = attempts"
  | (skip) d g1 st1 where "sel (ee_draw env i) (ee_now env i) g st = (Inr d, g1, st1)"
      "retry_loop sel env cfg req (i + 1) n g1 (insert (dp_ID d) tried) attempts st1 = (r, g', st')"
  | (last) d g1 st1 a where "sel (ee_draw env i) (ee_now env i) g st = (Inr d, g1, st1)"
      "dp_ID d \<notin> tried" "at_Deployment a = d" "rt_attempts r = attempts @ [a]"
  | (retry) d g1 st1 a st3 ad where "sel (ee_draw env i) (ee_now env i) g st = (Inr d, g1, st1)"
      "dp_ID d \<notin> tried" "at_Deployment a = d"
      "rst_Health st3 = RecordFailure (rst_Health st1) (dp_ID d) (ee_end env i)"
      "retry_loop sel env cfg req (i + 1) n g1 (insert (dp_ID d) tried) (attempts @ [a]) st3 = (r, g', st')"
      "ee_registry env (dp_Provider d) = Some ad"
      "rst_RateLimit st3 = rst_RateLimit (snd (executeOnce env i req d ad st1))"
proof -
  obtain sr g1 st1 where sel: "sel (ee_draw env i) (ee_now env i) g st = (sr, g1, st1)" by (metis prod_cases3)
  consider (halt) "rt_attempts r = attempts" | (go) d where "sr = Inr d" "\<not> ee_ctx_err env i"
    using assms sel by (cases sr; cases "ee_ctx_err env i") auto
  then show thesis
  proof cases
    case halt
    then show thesis by (rule stop)
  next
    case go
    show thesis
    proof (cases "dp_ID d \<in> tried \<or> ee_registry env (dp_Provider d) = None")
      case True
      then show thesis
        using assms sel go
        by (intro skip [of d g1 st1]) (auto simp: insert_absorb Let_def split: if_splits)
    next
      case False
      then obtain ad where ad: "ee_registry env (dp_Provider d) = Some ad" by auto
      obtain a st2 where ex: "executeOnce env i req d ad st1 = (a, st2)" by fastforce
      have a: "at_Deployment a = d" "rst_Health st2 = rst_Health st1"
        using executeOnce_Deployment [of env i req d ad st1] executeOnce_Health [of env i req d ad st1] ex by simp_all
      let ?st3 = "st2\<lparr>rst_Health := RecordFailure (rst_Health st2) (dp_ID d) (ee_end env i)\<rparr>"
      consider "retry_loop sel env cfg req (i + 1) n g1 (insert (dp_ID d) tried) (attempts @ [a]) ?st3 = (r, g', st')"
        | "rt_attempts r = attempts @ [a]"
        using assms sel go False ad ex by (auto simp: Let_def split: option.splits if_splits)
      then show thesis
      proof cases
        case 1
        show thesis by (rule retry [OF _ _ a(1) _ 1 ad]) (use sel go False a ex in auto)
      next
        case 2
        show thesis by (rule last [OF _ _ a(1) 2]) (use sel go False in auto)
      qed
    qed
  qed
qed

section \<open>The contract of a strategy\<close>

text \<open>
  What the drivers rely on: a strategy fails on an empty group, otherwise it selects a deployment of
  the group, a usable one if there is any; it may reorder the group's deployments and advance the
  round-robin counter, but changes nothing else.
\<close>

locale routing_strategy =
  fixes select :: selector
  assumes select_empty: "mg_Deployments g = [] \<Longrightarrow> \<exists>m. fst (select dr now g st) = Inl m"
    and select_total: "mg_Deployments g \<noteq> [] \<Longrightarrow> \<exists>d \<in> set (mg_Deployments g). fst (select dr now g st) = Inr d"
    and select_usable: "fst (select dr now g st) = Inr d \<Longrightarrow> d' \<in> set (mg_Deployments g) \<Longrightarrow>
      usable now st d' \<Longrightarrow> usable now st d"
    and select_group: "set (mg_Deployments (fst (snd (select dr now g st)))) = set (mg_Deployments g)"
    and select_health: "rst_Health (snd (snd (select dr now g st))) = rst_Health st"
begin

lemma select_member: "fst (select dr now g st) = Inr d \<Longrightarrow> d \<in> set (mg_Deployments g)"
  using select_empty [of g dr now st] select_total [of g dr now st] by (cases "mg_Deployments g = []") auto

text \<open>Every deployment that the retry loop executes is a member of the group and is executed once, and
  there are no more executions than iterations.\<close>

lemma retry_loop_attempts:
  assumes "retry_loop select env cfg req i n g tried attempts st = (r, g', st')"
    and "set (map (\<lambda>a. dp_ID (at_Deployment a)) attempts) \<subseteq> tried"
    and "distinct (map (\<lambda>a. dp_ID (at_Deployment a)) attempts)"
  shows "distinct (map (\<lambda>a. dp_ID (at_Deployment a)) (rt_attempts r)) \<and>
    length (rt_attempts r) \<le> length attempts + n \<and>
    set (map at_Deployment (rt_attempts r)) \<subseteq> set (map at_Deployment attempts) \<union> set (mg_Deployments g)"
  using assms
proof (induction n arbitrary: i g tried attempts st)
  case 0
  then show ?case by (auto split: if_splits)
next
  case (Suc n)
  have mem: "d \<in> set (mg_Deployments g)" and same: "set (mg_Deployments g1) = set (mg_Deployments g)"
    if "select (ee_draw env i) (ee_now env i) g st = (Inr d, g1, st1)" for d g1 st1
    using select_member [of "ee_draw env i" "ee_now env i" g st d]
      select_group [of "ee_draw env i" "ee_now env i" g st] that by simp_all
  from Suc.prems(1) show ?case
  proof (cases rule: retry_loop_step)
    case stop
    then show ?thesis using Suc.prems by simp
  next
    case (skip d g1 st1)
    have "set (map (\<lambda>a. dp_ID (at_Deployment a)) attempts) \<subseteq> insert (dp_ID d) tried" using Suc.prems(2) by auto
    from Suc.IH [OF skip(2) this Suc.prems(3)] same [OF skip(1)] show ?thesis by (metis add_Suc_right le_SucI)
  next
    case (last d g1 st1 a)
    then show ?thesis using Suc.prems(2,3) mem [OF last(1)] by auto
  next
    case (retry d g1 st1 a st3 ad)
    have "set (map (\<lambda>a. dp_ID (at_Deployment a)) (attempts @ [a])) \<subseteq> insert (dp_ID d) tried"
      "distinct (map (\<lambda>a. dp_ID (at_Deployment a)) (attempts @ [a]))" using Suc.prems(2,3) retry(2,3) by auto
    from Suc.IH [OF retry(5) this] same [OF retry(1)] mem [OF retry(1)] retry(3) show ?thesis by auto
  qed
qed

end

section \<open>The strategies meet the contract\<close>

lemma candidates_props:
  assumes "mg_Deployments g \<noteq> []"
  shows "candidates now g st \<noteq> []" "set (candidates now g st) \<subseteq> set (mg_Deployments g)"
    "d' \<in> set (mg_Deployments g) \<Longrightarrow> usable now st d' \<Longrightarrow> d \<in> set (candidates now g st) \<Longrightarrow> usable now st d"
  using assms by (auto simp: candidates_def healthyDeployments_def Let_def filter_empty_conv split: if_splits)

lemma candidate_ok:
  assumes "mg_Deployments g \<noteq> []" "d \<in> set (candidates now g st)"
  shows "d \<in> set (mg_Deployments g) \<and> ((\<exists>d' \<in> set (mg_Deployments g). usable now st d') \<longrightarrow> usable now st d)"
  using candidates_props(2,3) [OF assms(1)] assms(2) by blast

lemma weighted_loop_member: "weighted_loop ds idx c = Some d \<Longrightarrow> d \<in> set ds"
  by (induction ds arbitrary: c) (auto simp: Let_def split: if_splits)

lemma lowest_member: "lowest lt ds b bl \<in> insert b (set ds)"
  by (induction ds arbitrary: b bl) (auto simp: Let_def split: if_splits)

lemma RoundRobin_pick:
  assumes "mg_Deployments g \<noteq> []"
  shows "\<exists>d \<in> set (candidates now g st). RoundRobin_Select now g st = (Inr d, counter_next st)"
proof -
  let ?h = "candidates now g st"
  have ne: "?h \<noteq> []" by (rule candidates_props [OF assms])
  have "weightedSelect ?h w st \<in> set ?h" for w
    using weighted_loop_member ne by (auto simp: weightedSelect_def Let_def split: option.split)
  moreover have "?h ! (rst_Counter st mod length ?h) \<in> set ?h" using ne by simp
  ultimately show ?thesis using assms unfolding RoundRobin_Select_def Let_def by auto
qed

lemma LowestLatency_pick:
  assumes "mg_Deployments g \<noteq> []"
  shows "\<exists>d \<in> set (candidates now g st). LowestLatency_Select dr now g st = Inr d"
proof -
  let ?h = "candidates now g st"
  let ?u = "filter (\<lambda>d. \<not> HasData (rst_Latency st) (dp_ID d)) ?h" and ?e = "filter (\<lambda>d. HasData (rst_Latency st) (dp_ID d)) ?h"
  have ne: "?h \<noteq> []" by (rule candidates_props [OF assms])
  have u: "?u \<noteq> [] \<Longrightarrow> ?u ! (dr_int dr mod length ?u) \<in> set ?h"
  proof -
    assume "?u \<noteq> []"
    then have "?u ! (dr_int dr mod length ?u) \<in> set ?u" by (intro nth_mem) simp
    then show "?u ! (dr_int dr mod length ?u) \<in> set ?h" by simp
  qed
  have e: "?e \<noteq> [] \<Longrightarrow> lowest lt (tl ?e) (hd ?e) a \<in> set ?h" for lt a
  proof -
    assume "?e \<noteq> []"
    then have "insert (hd ?e) (set (tl ?e)) = set ?e" by (metis list.collapse list.simps(15))
    then show "lowest lt (tl ?e) (hd ?e) a \<in> set ?h" using lowest_member [of lt "tl ?e" "hd ?e" a] by auto
  qed
  have "?h ! (dr_int dr mod length ?h) \<in> set ?h" using ne by simp
  then show ?thesis using assms u e unfolding LowestLatency_Select_def Let_def by auto
qed

lemma Fallback_pick:
  assumes "mg_Deployments g \<noteq> []"
  shows "\<exists>d \<in> set (mg_Deployments g). Fallback_Select now g st = Inr d \<and>
    ((\<exists>d' \<in> set (mg_Deployments g). usable now st d') \<longrightarrow> usable now st d)"
proof -
  let ?s = "sort_key dp_Priority (mg_Deployments g)"
  have set_s: "set ?s = set (mg_Deployments g)" by simp
  then have "?s \<noteq> []" using assms by (metis set_empty)
  then have hd: "hd ?s \<in> set (mg_Deployments g)" using list.set_sel(1) set_s by blast
  show ?thesis
  proof (cases "find (usable now st) ?s")
    case (Some d)
    then have "Fallback_Select now g st = Inr d" using assms by (simp add: Fallback_Select_def Let_def)
    with find_SomeD [OF Some] set_s show ?thesis by auto
  next
    case None
    then have none: "\<not> (\<exists>d' \<in> set (mg_Deployments g). usable now st d')"
      unfolding find_None_iff set_s by blast
    let ?f = "find (\<lambda>d. dp_ID d = EarliestCooldownExpiry (rst_Health st) (map dp_ID ?s)) ?s"
    have "Fallback_Select now g st = Inr (case ?f of Some d \<Rightarrow> d | None \<Rightarrow> hd ?s)"
      using assms None by (simp add: Fallback_Select_def Let_def split: option.split)
    moreover have "(case ?f of Some d \<Rightarrow> d | None \<Rightarrow> hd ?s) \<in> set (mg_Deployments g)"
    proof (cases ?f)
      case (Some d)
      with find_SomeD [OF this] show ?thesis by simp
    qed (simp add: hd)
    ultimately show ?thesis using none by blast
  qed
qed

lemma CostOptimized_pick:
  assumes "mg_Deployments g \<noteq> []"
  shows "\<exists>d \<in> set (candidates now g st). fst (CostOptimized_Select fl now g st) = Inr d \<and>
    (\<forall>d' \<in> set (candidates now g st). total_cost fl d \<le> total_cost fl d')"
proof -
  have hd_min: "hd (sort_key f xs) \<in> set xs \<and> (\<forall>x \<in> set xs. f (hd (sort_key f xs)) \<le> f x)"
    if "xs \<noteq> []" for f :: "Deployment \<Rightarrow> rat" and xs
  proof -
    have "sort_key f xs \<noteq> []" using that by (simp flip: length_greater_0_conv)
    then obtain y ys where ys: "sort_key f xs = y # ys" by (cases "sort_key f xs") auto
    have "sorted (map f (y # ys))" using sorted_sort_key [of f xs] ys by simp
    then show ?thesis using set_sort [of f xs] ys by auto
  qed
  show ?thesis
    using assms hd_min unfolding CostOptimized_Select_def Let_def candidates_def by auto
qed

lemma counter_next_frame [simp]:
  "rst_Health (counter_next st) = rst_Health st" "rst_Latency (counter_next st) = rst_Latency st"
  "rst_RateLimit (counter_next st) = rst_RateLimit st"
  by (simp_all add: counter_next_def)

lemma Select_pick:
  assumes "mg_Deployments g \<noteq> []"
  shows "\<exists>d \<in> set (mg_Deployments g). fst (Select fl strat dr now g st) = Inr d \<and>
    ((\<exists>d' \<in> set (mg_Deployments g). usable now st d') \<longrightarrow> usable now st d)"
proof (cases strat)
  case FallbackStrategy
  then show ?thesis using Fallback_pick [OF assms] by simp
next
  case RoundRobinStrategy
  obtain d where d: "d \<in> set (candidates now g st)" "RoundRobin_Select now g st = (Inr d, counter_next st)"
    using RoundRobin_pick [OF assms] by blast
  with RoundRobinStrategy candidate_ok [OF assms d(1)] show ?thesis by (intro bexI [of _ d]) simp_all
next
  case LowestLatencyStrategy
  obtain d where d: "d \<in> set (candidates now g st)" "LowestLatency_Select dr now g st = Inr d"
    using LowestLatency_pick [OF assms] by blast
  with LowestLatencyStrategy candidate_ok [OF assms d(1)] show ?thesis by (intro bexI [of _ d]) simp_all
next
  case CostOptimizedStrategy
  obtain d where d: "d \<in> set (candidates now g st)" "fst (CostOptimized_Select fl now g st) = Inr d"
    using CostOptimized_pick [OF assms] by blast
  with CostOptimizedStrategy candidate_ok [OF assms d(1)] show ?thesis
    by (intro bexI [of _ d]) (simp_all add: case_prod_unfold)
qed

lemma Select_empty: "mg_Deployments g = [] \<Longrightarrow> \<exists>m. fst (Select fl strat dr now g st) = Inl m"
  by (cases strat) (simp_all add: Fallback_Select_def RoundRobin_Select_def LowestLatency_Select_def
      CostOptimized_Select_def)

lemma Select_frame:
  "set (mg_Deployments (fst (snd (Select fl strat dr now g st)))) = set (mg_Deployments g)"
  "rst_Health (snd (snd (Select fl strat dr now g st))) = rst_Health st"
  by (cases strat; simp add: RoundRobin_Select_def CostOptimized_Select_def Let_def)+

interpretation strategies: routing_strategy "Select fl strat" for fl strat
proof (unfold_locales, goal_cases)
  case (1 g dr now st)
  then show ?case by (rule Select_empty)
next
  case (2 g dr now st)
  then show ?case using Select_pick [of g fl strat dr now st] by auto
next
  case (3 dr now g st d d')
  have "mg_Deployments g \<noteq> []" using 3(2) by auto
  from Select_pick [OF this, of fl strat dr now st] 3 show ?case by auto
next
  case (4 dr now g st)
  then show ?case by (rule Select_frame)
next
  case (5 dr now g st)
  then show ?case by (rule Select_frame)
qed

section \<open>Properties\<close>

text \<open>C22: every routing strategy respects health: on a non-empty group it selects a deployment of that
  group, and whenever some deployment is neither in cooldown nor near its provider's rate limit, the
  selected one is not either.\<close>

theorem Select_respects_health:
  assumes "GetStrategy name = Inr strat" and "mg_Deployments g \<noteq> []"
  shows "\<exists>d \<in> set (mg_Deployments g). fst (Select fl strat dr now g st) = Inr d \<and>
    ((\<exists>d' \<in> set (mg_Deployments g). usable now st d') \<longrightarrow> usable now st d)"
proof -
  obtain d where d: "d \<in> set (mg_Deployments g)" "fst (Select fl strat dr now g st) = Inr d"
    using strategies.select_total [OF assms(2)] by blast
  with strategies.select_usable [OF d(2)] show ?thesis by blast
qed

definition demo_dep :: "string \<Rightarrow> int \<Rightarrow> int \<Rightarrow> Deployment" where
  "demo_dep i prio weight = \<lparr>dp_ID = i, dp_Provider = ''openai'', dp_Model = ''gpt'', dp_APIKey = ''sk'',
     dp_Priority = prio, dp_Weight = weight, dp_CostPer1KInput = 1, dp_CostPer1KOutput = 2\<rparr>"

definition demo_group :: "string \<Rightarrow> ModelGroup" where
  "demo_group strat = \<lparr>mg_Name = ''g'', mg_Strategy = strat,
     mg_Deployments = [demo_dep ''a'' 2 0, demo_dep ''b'' 1 1]\<rparr>"

theorem Select_respects_health_witness:
  "\<exists>d \<in> set (mg_Deployments (demo_group ''fallback'')).
     fst (Select id FallbackStrategy \<lparr>dr_Float64 = 0, dr_int = 0\<rparr> 5 (demo_group ''fallback'') NewRouterState) = Inr d \<and>
     usable 5 NewRouterState d"
proof -
  have h: "GetStrategy ''fallback'' = Inr FallbackStrategy" "mg_Deployments (demo_group ''fallback'') \<noteq> []"
    by (simp_all add: GetStrategy_def demo_group_def)
  have u: "usable 5 NewRouterState d" for d
    by (simp add: usable_def NewRouterState_def IsHealthy_def ShouldAvoid_def)
  have "demo_dep ''a'' 2 0 \<in> set (mg_Deployments (demo_group ''fallback''))" by (simp add: demo_group_def)
  then show ?thesis using Select_respects_health [OF h] u by blast
qed

text \<open>C21: a request is bounded and never repeats a deployment: whatever the strategy, the providers and
  the network do, the attempts of \<open>ExecuteWithRetry\<close> are on pairwise different deployments of the group,
  and there are at most one plus the configured retries of them, and no more than deployments.\<close>

theorem ExecuteWithRetry_attempts:
  assumes "ExecuteWithRetry fl env cfg g req st = (r, g', st')"
  shows "distinct (map (\<lambda>a. dp_ID (at_Deployment a)) (rt_attempts r)) \<and>
    set (map at_Deployment (rt_attempts r)) \<subseteq> set (mg_Deployments g) \<and>
    length (rt_attempts r) \<le> max_attempts cfg g"
proof (cases "GetStrategy (mg_Strategy g)")
  case (Inl e)
  then show ?thesis using assms by (auto simp: ExecuteWithRetry_def)
next
  case (Inr strat)
  then have "retry_loop (Select fl strat) env cfg req 0 (max_attempts cfg g) g {} [] st = (r, g', st')"
    using assms by (simp add: ExecuteWithRetry_def)
  from strategies.retry_loop_attempts [OF this] show ?thesis by simp
qed

definition demo_adapter :: "(unit, unit, int, unit) ProviderAdapter" where
  "demo_adapter = \<lparr>ad_TransformRequest = (\<lambda>_ _. Inr ()), ad_TransformResponse = (\<lambda>_. Inr ()),
     ad_ExtractRateLimitInfo = (\<lambda>_. None)\<rparr>"

definition demo_env :: "int \<Rightarrow> (unit, unit, int, unit) exec_env" where
  "demo_env status = \<lparr>ee_registry = (\<lambda>_. Some demo_adapter), ee_with_model = (\<lambda>q _. q),
     ee_Do = (\<lambda>_ _. Inr status), ee_StatusCode = (\<lambda>p. p), ee_Body = (\<lambda>_. []), ee_RetryAfter = (\<lambda>_. []),
     ee_parse_err = (\<lambda>_. None), ee_now = (\<lambda>i. 10 + int i), ee_end = (\<lambda>i. 10 + int i), ee_ttfb = (\<lambda>_. 1),
     ee_draw = (\<lambda>_. \<lparr>dr_Float64 = 0, dr_int = 0\<rparr>), ee_ctx_err = (\<lambda>_. False), ee_ctx_err_do = (\<lambda>_. False),
     ee_ctx_done_wait = (\<lambda>_. False)\<rparr>"

theorem ExecuteWithRetry_attempts_witness:
  "length (rt_attempts (fst (ExecuteWithRetry id (demo_env 500) DefaultRetryConfig (demo_group ''round-robin'') ()
     NewRouterState))) \<le> 2"
proof -
  obtain r g' st' where e: "ExecuteWithRetry id (demo_env 500) DefaultRetryConfig (demo_group ''round-robin'') ()
      NewRouterState = (r, g', st')" by (metis prod_cases3)
  have "max_attempts DefaultRetryConfig (demo_group ''round-robin'') = 2"
    by (simp add: max_attempts_def DefaultRetryConfig_def demo_group_def)
  then show ?thesis using ExecuteWithRetry_attempts [OF e] e by simp
qed

section \<open>Fallback does not fall back\<close>

lemma Fallback_all_usable:
  assumes "\<forall>d \<in> set (mg_Deployments g). usable now st d" "mg_Deployments g \<noteq> []"
  shows "Fallback_Select now g st = Inr (hd (sort_key dp_Priority (mg_Deployments g)))"
proof -
  obtain y ys where ys: "sort_key dp_Priority (mg_Deployments g) = y # ys"
    using assms(2) by (metis length_0_conv length_sort list.exhaust)
  then have "usable now st y" using assms(1) by (metis list.set_intros(1) set_sort)
  with ys assms(2) show ?thesis by (simp add: Fallback_Select_def Let_def)
qed

text \<open>Once the first choice has been tried and everything stays usable, the loop only skips.\<close>

lemma fallback_loop_skips:
  assumes "\<forall>j d. d \<in> set (mg_Deployments g) \<longrightarrow> usable (ee_now env j) st d" "mg_Deployments g \<noteq> []"
    "dp_ID (hd (sort_key dp_Priority (mg_Deployments g))) \<in> tried"
    "retry_loop (Select fl FallbackStrategy) env cfg req i n g tried attempts st = (r, g', st')"
  shows "rt_attempts r = attempts"
  using assms(4)
proof (induction n arbitrary: i)
  case 0
  then show ?case by (auto split: if_splits)
next
  case (Suc n)
  have "Select fl FallbackStrategy (ee_draw env i) (ee_now env i) g st =
      (Inr (hd (sort_key dp_Priority (mg_Deployments g))), g, st)"
    using Fallback_all_usable [OF _ assms(2), of "ee_now env i" st] assms(1) by simp
  then show ?case using Suc assms(3) by (auto split: if_splits)
qed

lemma executeOnce_RateLimit:
  "(\<And>resp. ad_ExtractRateLimitInfo ad resp = None) \<Longrightarrow>
   rst_RateLimit (snd (executeOnce env i req d ad st)) = rst_RateLimit st"
  by (simp add: executeOnce_def Let_def Update_def split: sum.split)

lemma one_failure_usable:
  assumes "rst_Health st = RecordFailure Map.empty did t" "rst_RateLimit st = Map.empty" "0 < now"
  shows "usable now st d"
  using assms by (simp add: usable_def ShouldAvoid_def IsHealthy_def RecordFailure_def getOrCreate_def
      fresh_health_def cooldownThreshold_def Let_def)

text \<open>The fallback strategy does not fall back on the first failure: on a tracker that has seen no
  failure yet, and with providers that send no rate limit headers, a request to a fallback group is
  attempted on one deployment only. A single failure leaves that deployment healthy, so the strategy
  selects it again in every further iteration of \<open>ExecuteWithRetry\<close>, which skips it as already tried.\<close>

theorem fallback_single_attempt:
  assumes "mg_Strategy g = ''fallback''" and "mg_Deployments g \<noteq> []"
    and "rst_Health st = Map.empty" "rst_RateLimit st = Map.empty" and now: "\<And>i. 0 < ee_now env i"
    and no_info: "\<And>p ad resp. ee_registry env p = Some ad \<Longrightarrow> ad_ExtractRateLimitInfo ad resp = None"
    and run: "ExecuteWithRetry fl env cfg g req st = (r, g', st')"
  shows "length (rt_attempts r) \<le> 1"
proof -
  let ?d = "hd (sort_key dp_Priority (mg_Deployments g))"
  have fresh: "usable (ee_now env i) st d" for i d
    using assms(3,4) by (simp add: usable_def IsHealthy_def ShouldAvoid_def)
  have sel: "Select fl FallbackStrategy dr (ee_now env i) g st = (Inr ?d, g, st)" for dr i
    using Fallback_all_usable [OF _ assms(2), of "ee_now env i" st] fresh by simp
  have "retry_loop (Select fl FallbackStrategy) env cfg req 0 (max_attempts cfg g) g {} [] st = (r, g', st')"
    using run assms(1) by (simp add: ExecuteWithRetry_def GetStrategy_def)
  then show ?thesis
  proof (cases "max_attempts cfg g")
    case (Suc n)
    from run assms(1) Suc
    have "retry_loop (Select fl FallbackStrategy) env cfg req 0 (Suc n) g {} [] st = (r, g', st')"
      by (simp add: ExecuteWithRetry_def GetStrategy_def)
    then show ?thesis
    proof (cases rule: retry_loop_step)
      case (skip d g1 st1)
      then have "d = ?d" "g1 = g" "st1 = st" using skip(1) [unfolded sel] by simp_all
      with skip(2) fallback_loop_skips [OF _ assms(2)] fresh show ?thesis by fastforce
    next
      case (retry d g1 st1 a st3 ad)
      then have eq: "d = ?d" "g1 = g" "st1 = st" using retry(1) [unfolded sel] by simp_all
      have "rst_RateLimit st3 = Map.empty"
        using retry(7) executeOnce_RateLimit [of ad env 0 req d st1] no_info [OF retry(6)] eq assms(4) by simp
      moreover have "rst_Health st3 = RecordFailure Map.empty (dp_ID d) (ee_end env 0)"
        using retry(4) eq assms(3) by simp
      ultimately have "usable (ee_now env j) st3 d'" for j d' using one_failure_usable now by blast
      with fallback_loop_skips [OF _ assms(2) _ retry(5) [unfolded eq]] eq show ?thesis by simp
    qed simp_all
  qed (auto split: if_splits)
qed

theorem fallback_single_attempt_witness:
  "length (rt_attempts (fst (ExecuteWithRetry id (demo_env 500) DefaultRetryConfig (demo_group ''fallback'') ()
     NewRouterState))) \<le> 1 \<and> length (mg_Deployments (demo_group ''fallback'')) = 2"
proof -
  obtain r g' st' where e: "ExecuteWithRetry id (demo_env 500) DefaultRetryConfig (demo_group ''fallback'') ()
      NewRouterState = (r, g', st')" by (metis prod_cases3)
  have "length (rt_attempts r) \<le> 1"
    by (rule fallback_single_attempt [OF _ _ _ _ _ _ e])
      (auto simp: demo_group_def NewRouterState_def demo_env_def demo_adapter_def)
  then show ?thesis using e by (simp add: demo_group_def)
qed

section \<open>Round-robin fairness\<close>

text \<open>\<open>n\<close> successive selections at one instant.\<close>

primrec rr_picks :: "nat \<Rightarrow> int \<Rightarrow> ModelGroup \<Rightarrow> RouterState \<Rightarrow> (string, Deployment) result list" where
  "rr_picks 0 now g st = []"
| "rr_picks (Suc n) now g st =
     (case RoundRobin_Select now g st of (r, st') \<Rightarrow> r # rr_picks n now g st')"

lemma usable_counter [simp]: "usable now (counter_next st) = usable now st"
  by (simp add: usable_def fun_eq_iff)

lemma candidates_counter [simp]: "candidates now g (counter_next st) = candidates now g st"
  by (simp add: candidates_def healthyDeployments_def)

text \<open>The cyclic schedule that the counter walks through: each candidate as often as its weight, or once
  each when no candidate has a weight.\<close>

definition rr_schedule :: "Deployment list \<Rightarrow> Deployment list" where
  "rr_schedule ds =
     (if \<exists>d \<in> set ds. 0 < dp_Weight d then concat (map (\<lambda>d. replicate (nat (dp_Weight d)) d) ds) else ds)"

lemma length_weights:
  "\<forall>d \<in> set ds. 0 < dp_Weight d \<Longrightarrow>
   int (length (concat (map (\<lambda>d. replicate (nat (dp_Weight d)) d) ds))) = sum_list (map dp_Weight ds)"
  by (induction ds) auto

lemma weighted_loop_nth:
  assumes "\<forall>d \<in> set ds. 0 < dp_Weight d" "n < length (concat (map (\<lambda>d. replicate (nat (dp_Weight d)) d) ds))"
  shows "weighted_loop ds (c + int n) c = Some (concat (map (\<lambda>d. replicate (nat (dp_Weight d)) d) ds) ! n)"
  using assms
proof (induction ds arbitrary: c n)
  case (Cons d ds)
  let ?w = "nat (dp_Weight d)"
  show ?case
  proof (cases "n < ?w")
    case True
    then have "int n < dp_Weight d" by linarith
    with True show ?thesis using Cons.prems(1) by (simp add: nth_append Let_def)
  next
    case False
    then have "c + int n = (c + dp_Weight d) + int (n - ?w)" using Cons.prems(1) by (simp add: of_nat_diff)
    moreover have "n - ?w < length (concat (map (\<lambda>d. replicate (nat (dp_Weight d)) d) ds))"
      using False Cons.prems(2) by simp
    ultimately show ?thesis
      using Cons.IH [of "n - ?w" "c + dp_Weight d"] Cons.prems(1) False by (simp add: nth_append Let_def)
  qed
qed simp

lemma RoundRobin_schedule:
  assumes "mg_Deployments g \<noteq> []" "rst_Counter st < 2 ^ 63" "ds = candidates now g st"
    "(\<forall>d \<in> set ds. 0 < dp_Weight d) \<or> (\<forall>d \<in> set ds. dp_Weight d \<le> 0)"
  shows "RoundRobin_Select now g st =
    (Inr (rr_schedule ds ! (rst_Counter st mod length (rr_schedule ds))), counter_next st)"
  using assms(4)
proof
  have ne: "ds \<noteq> []" using candidates_props(1) [OF assms(1)] assms(3) by simp
  assume pos: "\<forall>d \<in> set ds. 0 < dp_Weight d"
  let ?W = "sum_list (map dp_Weight ds)" and ?s = "rr_schedule ds"
  have filt: "filter (\<lambda>d. 0 < dp_Weight d) ds = ds" using pos by simp
  have sch: "?s = concat (map (\<lambda>d. replicate (nat (dp_Weight d)) d) ds)"
    using pos ne by (cases ds) (auto simp: rr_schedule_def)
  have W: "?W = int (length ?s)" using length_weights [OF pos] sch by simp
  obtain d ds' where "ds = d # ds'" using ne by (cases ds) auto
  then have "?s \<noteq> []" using sch pos by simp
  then have lt: "rst_Counter st mod length ?s < length ?s" by simp
  have "wrap64 (int (rst_Counter st)) = int (rst_Counter st)"
    using assms(2) by (intro wrap64_id) (simp add: int64_range_def)
  then have "grem (wrap64 (int (rst_Counter st))) ?W = int (rst_Counter st mod length ?s)"
    using \<open>?s \<noteq> []\<close> unfolding W by (simp add: grem_def zmod_int minus_mult_div_eq_mod mult.commute)
  then have "weightedSelect ds ?W st = ?s ! (rst_Counter st mod length ?s)"
    using weighted_loop_nth [OF pos, of "rst_Counter st mod length ?s" 0] lt sch
    by (simp add: weightedSelect_def)
  moreover have "0 < ?W" using W \<open>?s \<noteq> []\<close> by simp
  ultimately show ?thesis using assms(1,3) ne filt by (simp add: RoundRobin_Select_def Let_def)
next
  assume "\<forall>d \<in> set ds. dp_Weight d \<le> 0"
  then have "filter (\<lambda>d. 0 < dp_Weight d) ds = []" "rr_schedule ds = ds"
    by (auto simp: rr_schedule_def filter_empty_conv)
  then show ?thesis using assms(1,3) by (simp add: RoundRobin_Select_def Let_def)
qed

lemma rr_picks_schedule:
  assumes "mg_Deployments g \<noteq> []" "rst_Counter st + n < 2 ^ 63"
    "(\<forall>d \<in> set (candidates now g st). 0 < dp_Weight d) \<or> (\<forall>d \<in> set (candidates now g st). dp_Weight d \<le> 0)"
  shows "rr_picks n now g st =
    map (\<lambda>k. Inr (rr_schedule (candidates now g st) ! (k mod length (rr_schedule (candidates now g st)))))
      [rst_Counter st ..< rst_Counter st + n]"
  using assms(2,3)
proof (induction n arbitrary: st)
  case (Suc n)
  have c: "rst_Counter (counter_next st) = rst_Counter st + 1" using Suc.prems(1) by (simp add: counter_next_def)
  have "rr_picks n now g (counter_next st) = map (\<lambda>k. Inr (rr_schedule (candidates now g st) !
      (k mod length (rr_schedule (candidates now g st))))) [rst_Counter st + 1 ..< rst_Counter st + 1 + n]"
    using Suc.IH [of "counter_next st"] Suc.prems c by simp
  then show ?case
    using RoundRobin_schedule [OF assms(1) _ refl Suc.prems(2)] Suc.prems(1) by (simp add: upt_conv_Cons del: upt_Suc)
qed simp

text \<open>Any \<open>length xs\<close> successive positions of a cyclic walk visit every position once.\<close>

lemma cyclic_walk: "mset (map (\<lambda>k. xs ! (k mod length xs)) [c ..< c + length xs]) = mset xs"
proof (cases "xs = []")
  case False
  have "map (\<lambda>k. xs ! (k mod length xs)) [c ..< c + length xs] = rotate c xs"
    by (rule nth_equalityI) (simp_all add: nth_rotate ac_simps)
  also have "mset (rotate c xs) = mset xs"
    unfolding rotate_drop_take mset_append by (metis add.commute append_take_drop_id mset_append)
  finally show ?thesis .
qed simp

text \<open>Round robin is fair: while the set of candidates does not change, as many successive selections
  as the schedule is long (the sum of the weights, or the number of candidates when none has a weight)
  pick every candidate exactly as often as its weight, or exactly once, wherever the counter starts. The
  candidates either all have a positive weight or none has.\<close>

theorem RoundRobin_fair:
  assumes "mg_Deployments g \<noteq> []" and "ds = candidates now g st"
    and "(\<forall>d \<in> set ds. 0 < dp_Weight d) \<or> (\<forall>d \<in> set ds. dp_Weight d \<le> 0)"
    and "rst_Counter st + length (rr_schedule ds) < 2 ^ 63"
  shows "mset (rr_picks (length (rr_schedule ds)) now g st) = image_mset Inr (mset (rr_schedule ds))"
proof -
  have "rr_picks (length (rr_schedule ds)) now g st =
      map Inr (map (\<lambda>k. rr_schedule ds ! (k mod length (rr_schedule ds)))
        [rst_Counter st ..< rst_Counter st + length (rr_schedule ds)])"
    unfolding assms(2) by (subst rr_picks_schedule) (use assms in simp_all)
  then show ?thesis
    using arg_cong [OF cyclic_walk [of "rr_schedule ds" "rst_Counter st"], of "image_mset Inr"]
    by (simp only: mset_map)
qed

theorem RoundRobin_fair_witness:
  "mset (rr_picks 3 5 \<lparr>mg_Name = ''g'', mg_Strategy = ''round-robin'',
       mg_Deployments = [demo_dep ''a'' 0 2, demo_dep ''b'' 0 (Suc 0)]\<rparr> (NewRouterState\<lparr>rst_Counter := 7\<rparr>)) =
   {#Inr (demo_dep ''a'' 0 2), Inr (demo_dep ''a'' 0 2), Inr (demo_dep ''b'' 0 1)#}"
proof -
  let ?g = "\<lparr>mg_Name = ''g'', mg_Strategy = ''round-robin'', mg_Deployments = [demo_dep ''a'' 0 2, demo_dep ''b'' 0 (Suc 0)]\<rparr>"
  let ?st = "NewRouterState\<lparr>rst_Counter := 7\<rparr>" and ?ds = "[demo_dep ''a'' 0 2, demo_dep ''b'' 0 1]"
  have ds: "?ds = candidates 5 ?g ?st"
    by (simp add: candidates_def healthyDeployments_def usable_def NewRouterState_def IsHealthy_def ShouldAvoid_def)
  have s: "rr_schedule ?ds = [demo_dep ''a'' 0 2, demo_dep ''a'' 0 2, demo_dep ''b'' 0 1]"
    by (simp add: rr_schedule_def demo_dep_def numeral_2_eq_2)
  have "mset (rr_picks (length (rr_schedule ?ds)) 5 ?g ?st) = image_mset Inr (mset (rr_schedule ?ds))"
    by (rule RoundRobin_fair [OF _ ds]) (simp_all add: s, simp_all add: demo_dep_def NewRouterState_def)
  then show ?thesis unfolding s by (simp add: numeral_3_eq_3)
qed

text \<open>A deployment without a weight starves the others of a mixed group: \<open>weightedSelect\<close> counts it
  with weight one although the total weight leaves it out. With a first candidate of weight zero and a
  total weight of one, that first candidate is selected at every value of the counter, and the only
  deployment with a weight never is.\<close>

theorem RoundRobin_zero_weight_starves:
  assumes "mg_Deployments g \<noteq> []" and "candidates now g st = d # ds"
    and "dp_Weight d \<le> 0" and "sum_list (map dp_Weight (filter (\<lambda>x. 0 < dp_Weight x) ds)) = 1"
  shows "fst (RoundRobin_Select now g (st\<lparr>rst_Counter := n\<rparr>)) = Inr d"
proof -
  have c: "candidates now g (st\<lparr>rst_Counter := n\<rparr>) = d # ds"
    using assms(2) by (simp add: candidates_def healthyDeployments_def usable_def [abs_def])
  have "filter (\<lambda>x. 0 < dp_Weight x) ds \<noteq> []" using assms(4) by auto
  moreover have "grem x 1 = 0" for x by (simp add: grem_def quot_def mult_sgn_abs sgn_mult_abs)
  ultimately show ?thesis
    using assms c by (simp add: RoundRobin_Select_def Let_def weightedSelect_def)
qed

theorem RoundRobin_zero_weight_starves_witness:
  "fst (RoundRobin_Select 5 (demo_group ''round-robin'') (NewRouterState\<lparr>rst_Counter := 41\<rparr>)) = Inr (demo_dep ''a'' 2 0)"
  by (rule RoundRobin_zero_weight_starves [where ds = "[demo_dep ''b'' 1 1]"])
    (simp_all add: demo_group_def demo_dep_def candidates_def healthyDeployments_def usable_def NewRouterState_def
      IsHealthy_def ShouldAvoid_def)

section \<open>Retryable errors and backoff\<close>

text \<open>The two notions of a retryable status agree where both apply, and differ in one direction only:
  every status that \<open>Router.Route\<close> retries is retryable for \<open>RetryExecutor\<close> too; the statuses that only the
  latter retries are the other server errors and the codes below 400 or from 600 on.\<close>

lemma retryable_statuses:
  "isRetryableStatus s \<longrightarrow> snd (ClassifyHTTPStatus s)"
  "snd (ClassifyHTTPStatus s) \<longleftrightarrow> s = 429 \<or> s < 400 \<or> 500 \<le> s"
  by (auto simp: isRetryableStatus_def ClassifyHTTPStatus_def)

text \<open>The wait before a retry is bounded: with the default configuration it never exceeds eight
  seconds, and after a server error it is exactly 1, 2, 4 and 8 seconds for the four attempts that the
  loop can make. A \<open>Retry-After\<close> of at most 9223372036 seconds is waited for up to the cap.\<close>

theorem computeBackoff_bounds:
  assumes "at_Error a = Some err" "pe_Type err \<noteq> ''timeout_error''"
  shows "computeBackoff DefaultRetryConfig i a \<le> 8 * 10 ^ 9 \<and>
    (at_StatusCode a \<noteq> 429 \<and> i \<le> 3 \<longrightarrow> computeBackoff DefaultRetryConfig i a = 10 ^ 9 * 2 ^ i) \<and>
    (at_StatusCode a = 429 \<and> 0 < pe_RetryAfter err \<and> pe_RetryAfter err \<le> 9223372036 \<longrightarrow>
       computeBackoff DefaultRetryConfig i a = min (8 * 10 ^ 9) (pe_RetryAfter err * 10 ^ 9))"
proof -
  have "(2::int) ^ i = 1 \<or> (2::int) ^ i = 2 \<or> (2::int) ^ i = 4 \<or> (2::int) ^ i = 8" if "i \<le> 3"
  proof -
    have "i = 0 \<or> i = 1 \<or> i = 2 \<or> i = 3" using that by linarith
    then show ?thesis by auto
  qed
  moreover have "int64_range (1::int)" "int64_range 2" "int64_range 4" "int64_range 8"
    "int64_range 1000000000" "int64_range 2000000000" "int64_range 4000000000" "int64_range 8000000000"
    by (simp_all add: int64_range_def)
  moreover have "int64_range (n * 1000000000)" if "0 < n" "n \<le> 9223372036" for n
    using that by (simp add: int64_range_def)
  ultimately show ?thesis
    using assms by (auto simp: computeBackoff_def DefaultRetryConfig_def Let_def min_def)
qed

theorem computeBackoff_bounds_witness:
  "computeBackoff DefaultRetryConfig 2 \<lparr>at_Deployment = demo_dep ''a'' 0 0, at_Response = None :: unit option,
     at_Error = Some (server_error (demo_dep ''a'' 0 0) 500 ''server_error'' [] True), at_RawBody = [],
     at_StatusCode = 500\<rparr> = 4 * 10 ^ 9"
  using computeBackoff_bounds [of "\<lparr>at_Deployment = demo_dep ''a'' 0 0, at_Response = None :: unit option,
     at_Error = Some (server_error (demo_dep ''a'' 0 0) 500 ''server_error'' [] True), at_RawBody = [],
     at_StatusCode = 500\<rparr>" "server_error (demo_dep ''a'' 0 0) 500 ''server_error'' [] True" 2]
  by (simp add: server_error_def)

end
