(* ===== verification/Billing.thy ===== *)
theory Billing
  imports Models Store
begin

text \<open>
  Subscription billing (\<open>services/stripe_service.go\<close> and the handlers of \<open>api/billing.go\<close>): the tenant's
  plan as a state machine driven by Stripe webhooks and by the owner's requests.

  Stripe is a parameter: an arbitrary state with \<open>Get\<close> and \<open>Update\<close> of a subscription, the creation of customers and
  of checkout sessions, the signature check and the decoding of events. The entries that the handlers make in the audit
  log are left out. Objects of the Stripe library are records of the fields that the code
  reads. \<open>bl_err\<close> is the error of the database while it does not answer. Instants are nanoseconds since
  the zero time, \<open>time.Unix\<close> converts from seconds since 1970. Error messages leave out the cause they wrap. An HTTP reply is its status and its error
  text (empty for
  success, the URL for a checkout).
\<close>

section \<open>Stripe objects\<close>

record sub_item =
  si_ID :: string
  si_Price :: "string option"
  si_CurrentPeriodEnd :: int

record Subscription =
  sb_ID :: string
  sb_Status :: string
  sb_Customer :: "string option"
  sb_Items :: "sub_item list"
  sb_Metadata :: "string \<rightharpoonup> string"
  sb_CancelAtPeriodEnd :: bool

record CheckoutSession =
  cs_ID :: string
  cs_Status :: string
  cs_Metadata :: "string \<rightharpoonup> string"
  cs_Subscription :: "Subscription option"
  cs_Email :: "string option"

record Invoice =
  iv_Subscription :: "string option"

datatype sub_update = SetCancelAtPeriodEnd bool | SetPrice string string string

record 'x stripe_api =
  sp_Get :: "'x \<Rightarrow> string \<Rightarrow> (string, Subscription) result"
  sp_Update :: "'x \<Rightarrow> string \<Rightarrow> sub_update \<Rightarrow> (string, Subscription) result \<times> 'x"
  sp_GetSession :: "'x \<Rightarrow> string \<Rightarrow> (string, CheckoutSession) result"
  sp_NewCustomer :: "'x \<Rightarrow> string \<Rightarrow> string \<Rightarrow> (string \<rightharpoonup> string) \<Rightarrow> (string, string) result \<times> 'x"
  sp_NewSession :: "'x \<Rightarrow> string \<Rightarrow> string \<Rightarrow> string \<Rightarrow> string \<Rightarrow> (string \<rightharpoonup> string) \<Rightarrow> (string, string \<times> string) result \<times> 'x"

record 'x StripeService =
  sc_SecretKey :: string
  sc_WebhookSecret :: string
  sc_PriceProMonthly :: string
  sc_PriceTeamMonthly :: string
  sc_PriceBusinessMonthly :: string
  sc_api :: "'x stripe_api"

abbreviation "PlanStatusActive \<equiv> ''active''"
abbreviation "PlanStatusIncomplete \<equiv> ''incomplete''"
abbreviation "PlanStatusPastDue \<equiv> ''past_due''"
abbreviation "PlanStatusCanceled \<equiv> ''canceled''"

record billing_db =
  bl_err :: "string option"
  bl_Tenants :: "Tenant list"
  bl_Processed :: "string list"
  bl_Checkout :: "(nat \<times> string \<times> bool \<times> string) list"

definition IsConfigured :: "'x StripeService \<Rightarrow> bool" where
  "IsConfigured svc \<longleftrightarrow> sc_SecretKey svc \<noteq> []"

definition IsWebhookConfigured :: "'x StripeService \<Rightarrow> bool" where
  "IsWebhookConfigured svc \<longleftrightarrow> sc_WebhookSecret svc \<noteq> []"

section \<open>Prices, periods and statuses\<close>

definition PriceIDForPlan :: "'x StripeService \<Rightarrow> string \<Rightarrow> (string, string) result" where
  "PriceIDForPlan svc plan =
     (if plan = PlanPro then
        (if sc_PriceProMonthly svc = [] then Inl ''STRIPE_PRICE_PRO_MONTHLY not configured'' else Inr (sc_PriceProMonthly svc))
      else if plan = PlanTeam then
        (if sc_PriceTeamMonthly svc = [] then Inl ''STRIPE_PRICE_TEAM_MONTHLY not configured'' else Inr (sc_PriceTeamMonthly svc))
      else if plan = PlanBusiness then
        (if sc_PriceBusinessMonthly svc = [] then Inl ''STRIPE_PRICE_BUSINESS_MONTHLY not configured''
         else Inr (sc_PriceBusinessMonthly svc))
      else Inl (''no Stripe price for plan '' @ [CHR 0x22] @ plan @ [CHR 0x22]))"

definition PlanForPriceID :: "'x StripeService \<Rightarrow> string \<Rightarrow> string" where
  "PlanForPriceID svc priceID =
     (if priceID = sc_PriceProMonthly svc then PlanPro
      else if priceID = sc_PriceTeamMonthly svc then PlanTeam
      else if priceID = sc_PriceBusinessMonthly svc then PlanBusiness
      else [])"

definition planFromSubscription :: "'x StripeService \<Rightarrow> Subscription \<Rightarrow> string" where
  "planFromSubscription svc sub =
     (case find (\<lambda>item. case si_Price item of None \<Rightarrow> False | Some p \<Rightarrow> PlanForPriceID svc p \<noteq> []) (sb_Items sub) of
        None \<Rightarrow> []
      | Some item \<Rightarrow> (case si_Price item of None \<Rightarrow> [] | Some p \<Rightarrow> PlanForPriceID svc p))"

definition currentPeriodEndFromSub :: "Subscription \<Rightarrow> int" where
  "currentPeriodEndFromSub sub = (case sb_Items sub of [] \<Rightarrow> 0 | item # _ \<Rightarrow> si_CurrentPeriodEnd item)"

definition subscriptionIDFromInvoice :: "Invoice \<Rightarrow> string" where
  "subscriptionIDFromInvoice invoice = (case iv_Subscription invoice of None \<Rightarrow> [] | Some s \<Rightarrow> s)"

definition mapStripeStatus :: "string \<Rightarrow> string" where
  "mapStripeStatus status =
     (if status = ''active'' \<or> status = ''trialing'' then PlanStatusActive
      else if status = ''incomplete'' \<or> status = ''incomplete_expired'' then PlanStatusIncomplete
      else if status = ''past_due'' then PlanStatusPastDue
      else if status = ''canceled'' \<or> status = ''unpaid'' then PlanStatusCanceled
      else PlanStatusActive)"

definition time_Unix :: "int \<Rightarrow> int" where
  "time_Unix sec = (sec + 62135596800) * second_ns"

text \<open>The optional column update that follows every read of a subscription's period.\<close>

definition set_period_end :: "Subscription \<Rightarrow> Tenant \<Rightarrow> Tenant" where
  "set_period_end sub t =
     (let periodEnd = currentPeriodEndFromSub sub
      in if 0 < periodEnd then t\<lparr>ten_CurrentPeriodEnd := Some (time_Unix periodEnd)\<rparr> else t)"

section \<open>The tenant row\<close>

definition first_tenant :: "billing_db \<Rightarrow> (Tenant \<Rightarrow> bool) \<Rightarrow> (db_error, Tenant) result" where
  "first_tenant db P = db_first (bl_err db \<noteq> None) P (bl_Tenants db)"

definition update_tenant :: "nat \<Rightarrow> (Tenant \<Rightarrow> Tenant) \<Rightarrow> billing_db \<Rightarrow> (string, billing_db) result" where
  "update_tenant tenantID f db =
     (case bl_err db of
        Some e \<Rightarrow> Inl e
      | None \<Rightarrow> Inr (db\<lparr>bl_Tenants := map (\<lambda>t. if ten_ID t = tenantID then f t else t) (bl_Tenants db)\<rparr>))"

definition run_update :: "nat \<Rightarrow> (Tenant \<Rightarrow> Tenant) \<Rightarrow> billing_db \<Rightarrow> string option \<times> billing_db" where
  "run_update tenantID f db =
     (case update_tenant tenantID f db of Inl e \<Rightarrow> (Some e, db) | Inr db' \<Rightarrow> (None, db'))"

section \<open>Webhook handlers\<close>

definition MarkEventProcessed :: "string \<Rightarrow> billing_db \<Rightarrow> bool \<times> string option \<times> billing_db" where
  "MarkEventProcessed eventID db =
     (case bl_err db of
        Some e \<Rightarrow> (False, None, db)
      | None \<Rightarrow>
          if eventID \<in> set (bl_Processed db) then (False, None, db)
          else (True, None, db\<lparr>bl_Processed := bl_Processed db @ [eventID]\<rparr>))"

definition HandleCheckoutCompleted :: "CheckoutSession \<Rightarrow> billing_db \<Rightarrow> string option \<times> billing_db" where
  "HandleCheckoutCompleted sess db =
     (let tenantIDStr = (case cs_Metadata sess ''tenant_id'' of None \<Rightarrow> [] | Some x \<Rightarrow> x);
          plan = (case cs_Metadata sess ''plan'' of None \<Rightarrow> [] | Some x \<Rightarrow> x)
      in if tenantIDStr = [] \<or> plan = [] then (None, db)
         else (case scan_uint tenantIDStr of
                 None \<Rightarrow> (Some ''parse tenant_id'', db)
               | Some tenantID \<Rightarrow>
                   run_update tenantID (\<lambda>t.
                     (let t1 = t\<lparr>ten_Plan := plan, ten_PlanStatus := PlanStatusActive, ten_StripeSubscriptionID := [],
                                 ten_PendingPlan := [], ten_PlanEffectiveAt := None\<rparr>;
                          t2 = (case cs_Subscription sess of
                                  None \<Rightarrow> t1
                                | Some sub \<Rightarrow> set_period_end sub (t1\<lparr>ten_StripeSubscriptionID := sb_ID sub\<rparr>))
                      in case cs_Email sess of
                           None \<Rightarrow> t2
                         | Some email \<Rightarrow> if email \<noteq> [] then t2\<lparr>ten_BillingEmail := email\<rparr> else t2)) db))"

definition tenantIDFromSubscription :: "Subscription \<Rightarrow> billing_db \<Rightarrow> (string, nat) result" where
  "tenantIDFromSubscription sub db =
     (case (case sb_Metadata sub ''tenant_id'' of None \<Rightarrow> None | Some x \<Rightarrow> if x = [] then None else scan_uint x) of
        Some tid \<Rightarrow> Inr tid
      | None \<Rightarrow>
          (case first_tenant db (\<lambda>t. ten_StripeSubscriptionID t = sb_ID sub) of
             Inr t \<Rightarrow> Inr (ten_ID t)
           | Inl DBUnavailable \<Rightarrow> Inl ''db''
           | Inl RecordNotFound \<Rightarrow>
               (case sb_Customer sub of
                  None \<Rightarrow> Inr 0
                | Some cust \<Rightarrow>
                    (case first_tenant db (\<lambda>t. ten_StripeCustomerID t = cust) of
                       Inr t \<Rightarrow> Inr (ten_ID t)
                     | Inl RecordNotFound \<Rightarrow> Inr 0
                     | Inl DBUnavailable \<Rightarrow> Inl ''db''))))"

text \<open>The plan that the price of the subscription stands for, re-fetched from Stripe when the event has none.\<close>

definition detected_plan :: "'x StripeService \<Rightarrow> 'x \<Rightarrow> Subscription \<Rightarrow> string" where
  "detected_plan svc x sub =
     (let plan = planFromSubscription svc sub
      in if plan = [] \<and> sb_ID sub \<noteq> []
         then (case sp_Get (sc_api svc) x (sb_ID sub) of Inl _ \<Rightarrow> [] | Inr freshSub \<Rightarrow> planFromSubscription svc freshSub)
         else plan)"

definition HandleSubscriptionUpdated :: "'x StripeService \<Rightarrow> 'x \<Rightarrow> Subscription \<Rightarrow> billing_db \<Rightarrow>
    string option \<times> billing_db" where
  "HandleSubscriptionUpdated svc x sub db =
     (case tenantIDFromSubscription sub db of
        Inl e \<Rightarrow> (Some e, db)
      | Inr tenantID \<Rightarrow>
          if tenantID = 0 then (None, db)
          else (case first_tenant db (\<lambda>t. ten_ID t = tenantID) of
                  Inl _ \<Rightarrow> (Some ''fetch tenant'', db)
                | Inr tenant \<Rightarrow>
                    (let plan = detected_plan svc x sub
                     in run_update tenantID (\<lambda>t.
                          set_period_end sub
                            (t\<lparr>ten_PlanStatus := mapStripeStatus (sb_Status sub), ten_StripeSubscriptionID := sb_ID sub,
                               ten_Plan := (if ten_PendingPlan tenant = [] \<and> plan \<noteq> [] then plan else ten_Plan t)\<rparr>)) db)))"

definition HandleSubscriptionDeleted :: "Subscription \<Rightarrow> billing_db \<Rightarrow> string option \<times> billing_db" where
  "HandleSubscriptionDeleted sub db =
     (case tenantIDFromSubscription sub db of
        Inl e \<Rightarrow> (Some e, db)
      | Inr tenantID \<Rightarrow>
          if tenantID = 0 then (None, db)
          else (case first_tenant db (\<lambda>t. ten_ID t = tenantID) of
                  Inl _ \<Rightarrow> (Some ''fetch tenant'', db)
                | Inr tenant \<Rightarrow>
                    if ten_StripeSubscriptionID tenant \<noteq> [] \<and> ten_StripeSubscriptionID tenant \<noteq> sb_ID sub then (None, db)
                    else run_update tenantID (\<lambda>t.
                           t\<lparr>ten_Plan := PlanFree, ten_PlanStatus := PlanStatusCanceled, ten_StripeSubscriptionID := [],
                             ten_CurrentPeriodEnd := None, ten_PendingPlan := [], ten_PlanEffectiveAt := None\<rparr>) db))"

definition set_status_by_invoice :: "string \<Rightarrow> Invoice \<Rightarrow> billing_db \<Rightarrow> string option \<times> billing_db" where
  "set_status_by_invoice status invoice db =
     (let subID = subscriptionIDFromInvoice invoice
      in if subID = [] then (None, db)
         else (case first_tenant db (\<lambda>t. ten_StripeSubscriptionID t = subID) of
                 Inl RecordNotFound \<Rightarrow> (None, db)
               | Inl DBUnavailable \<Rightarrow> (Some ''db'', db)
               | Inr tenant \<Rightarrow> run_update (ten_ID tenant) (\<lambda>t. t\<lparr>ten_PlanStatus := status\<rparr>) db))"

definition HandleInvoicePaid :: "Invoice \<Rightarrow> billing_db \<Rightarrow> string option \<times> billing_db" where
  "HandleInvoicePaid = set_status_by_invoice PlanStatusActive"

definition HandleInvoicePaymentFailed :: "Invoice \<Rightarrow> billing_db \<Rightarrow> string option \<times> billing_db" where
  "HandleInvoicePaymentFailed = set_status_by_invoice PlanStatusPastDue"

section \<open>The webhook endpoint\<close>

text \<open>An event with its decoded payload: \<open>None\<close> where the JSON of the payload cannot be decoded.\<close>

record stripe_event =
  ev_ID :: string
  ev_Type :: string
  ev_session :: "CheckoutSession option"
  ev_subscription :: "Subscription option"
  ev_invoice :: "Invoice option"

definition update_checkout_status :: "CheckoutSession \<Rightarrow> bool \<Rightarrow> string \<Rightarrow> billing_db \<Rightarrow> billing_db" where
  "update_checkout_status sess success status db =
     (case (case cs_Metadata sess ''tenant_id'' of None \<Rightarrow> None | Some x \<Rightarrow> if x = [] then None else scan_uint x) of
        None \<Rightarrow> db
      | Some tid \<Rightarrow>
          if bl_err db \<noteq> None then db else db\<lparr>bl_Checkout := bl_Checkout db @ [(tid, cs_ID sess, success, status)]\<rparr>)"

definition reply_of :: "string option \<times> billing_db \<Rightarrow> (int \<times> string) \<times> billing_db" where
  "reply_of = (\<lambda>(err, db). case err of None \<Rightarrow> ((200, []), db) | Some _ \<Rightarrow> ((500, ''handler error''), db))"

definition dispatch_event :: "'x StripeService \<Rightarrow> 'x \<Rightarrow> stripe_event \<Rightarrow> billing_db \<Rightarrow> (int \<times> string) \<times> billing_db" where
  "dispatch_event svc x event db =
     (if ev_Type event = ''checkout.session.completed'' then
        (case ev_session event of
           None \<Rightarrow> ((400, ''invalid event data''), db)
         | Some sess \<Rightarrow>
             (case HandleCheckoutCompleted sess db of
                (Some _, db') \<Rightarrow> ((500, ''handler error''), db')
              | (None, db') \<Rightarrow> ((200, []), update_checkout_status sess True ''completed'' db')))
      else if ev_Type event = ''checkout.session.expired'' then
        (case ev_session event of
           None \<Rightarrow> ((400, ''invalid event data''), db)
         | Some sess \<Rightarrow> ((200, []), update_checkout_status sess False ''expired'' db))
      else if ev_Type event = ''customer.subscription.created'' \<or> ev_Type event = ''customer.subscription.updated'' then
        (case ev_subscription event of
           None \<Rightarrow> ((400, ''invalid event data''), db)
         | Some sub \<Rightarrow> reply_of (HandleSubscriptionUpdated svc x sub db))
      else if ev_Type event = ''customer.subscription.deleted'' then
        (case ev_subscription event of
           None \<Rightarrow> ((400, ''invalid event data''), db)
         | Some sub \<Rightarrow> reply_of (HandleSubscriptionDeleted sub db))
      else if ev_Type event = ''invoice.paid'' then
        (case ev_invoice event of
           None \<Rightarrow> ((400, ''invalid event data''), db)
         | Some invoice \<Rightarrow> reply_of (HandleInvoicePaid invoice db))
      else if ev_Type event = ''invoice.payment_failed'' then
        (case ev_invoice event of
           None \<Rightarrow> ((400, ''invalid event data''), db)
         | Some invoice \<Rightarrow> reply_of (HandleInvoicePaymentFailed invoice db))
      else ((200, []), db))"

text \<open>\<open>payload\<close> is the event that the signature check lets through, \<open>None\<close> when it fails. The two readings
  of the database (\<open>db\<close> at the idempotency check, \<open>fault\<close> the error state of the handler after it) let the
  database fail in between.\<close>

definition processBillingWebhook :: "'x StripeService \<Rightarrow> 'x \<Rightarrow> string option \<Rightarrow> stripe_event option \<Rightarrow> billing_db \<Rightarrow>
    (int \<times> string) \<times> billing_db" where
  "processBillingWebhook svc x fault payload db =
     (if \<not> IsConfigured svc then ((503, ''Stripe is not configured''), db)
      else if \<not> IsWebhookConfigured svc then ((503, ''webhook secret not configured''), db)
      else (case payload of
              None \<Rightarrow> ((400, ''invalid signature''), db)
            | Some event \<Rightarrow>
                (case MarkEventProcessed (ev_ID event) db of
                   (isNew, err, db1) \<Rightarrow>
                     if \<not> isNew \<and> err = None then ((200, []), db1)
                     else (case dispatch_event svc x event (db1\<lparr>bl_err := fault\<rparr>) of
                             (reply, db2) \<Rightarrow> (reply, db2\<lparr>bl_err := bl_err db\<rparr>)))))"

section \<open>Requests of the tenant's administrators\<close>

definition VerifyCheckoutSession :: "'x StripeService \<Rightarrow> 'x \<Rightarrow> nat \<Rightarrow> string \<Rightarrow> billing_db \<Rightarrow> string option \<times> billing_db" where
  "VerifyCheckoutSession svc x tenantID sessionID db =
     (case sp_GetSession (sc_api svc) x sessionID of
        Inl e \<Rightarrow> (Some (''fetch checkout session: '' @ e), db)
      | Inr sess \<Rightarrow>
          if cs_Status sess \<noteq> ''complete'' then (Some (''checkout session not complete (status='' @ cs_Status sess @ '')''), db)
          else if (case cs_Metadata sess ''tenant_id'' of None \<Rightarrow> [] | Some v \<Rightarrow> v) \<noteq> show_nat tenantID
            then (Some ''session tenant_id mismatch'', db)
          else HandleCheckoutCompleted sess db)"

text \<open>The email of a new customer is the billing email of the tenant: the query for the owner names the columns
  \<open>tenant_id\<close> and \<open>role\<close> of \<open>users\<close>, which the migration has dropped, so that it fails, and its error is ignored.\<close>

definition EnsureCustomer :: "'x StripeService \<Rightarrow> nat \<Rightarrow> 'x \<Rightarrow> billing_db \<Rightarrow> (string, string) result \<times> 'x \<times> billing_db" where
  "EnsureCustomer svc tenantID x db =
     (case first_tenant db (\<lambda>t. ten_ID t = tenantID) of
        Inl _ \<Rightarrow> (Inl ''fetch tenant'', x, db)
      | Inr tenant \<Rightarrow>
          if ten_StripeCustomerID tenant \<noteq> [] then (Inr (ten_StripeCustomerID tenant), x, db)
          else
            (case sp_NewCustomer (sc_api svc) x (ten_Name tenant) (ten_BillingEmail tenant)
                    [''tenant_id'' \<mapsto> show_nat (ten_ID tenant)] of
               (Inl _, x') \<Rightarrow> (Inl ''create stripe customer'', x', db)
             | (Inr customerID, x') \<Rightarrow>
                 (case run_update (ten_ID tenant) (\<lambda>t. t\<lparr>ten_StripeCustomerID := customerID\<rparr>) db of
                    (Some _, db') \<Rightarrow> (Inl ''save stripe_customer_id'', x', db')
                  | (None, db') \<Rightarrow> (Inr customerID, x', db'))))"

definition checkout_metadata :: "nat \<Rightarrow> string \<Rightarrow> string \<rightharpoonup> string" where
  "checkout_metadata tenantID plan = [''tenant_id'' \<mapsto> show_nat tenantID, ''plan'' \<mapsto> plan]"

definition CreateCheckoutSession :: "'x StripeService \<Rightarrow> nat \<Rightarrow> string \<Rightarrow> string \<Rightarrow> string \<Rightarrow> 'x \<Rightarrow> billing_db \<Rightarrow>
    (string, string \<times> string) result \<times> 'x \<times> billing_db" where
  "CreateCheckoutSession svc tenantID plan successURL cancelURL x db =
     (case EnsureCustomer svc tenantID x db of
        (Inl e, x', db') \<Rightarrow> (Inl e, x', db')
      | (Inr customerID, x', db') \<Rightarrow>
          (case PriceIDForPlan svc plan of
             Inl e \<Rightarrow> (Inl e, x', db')
           | Inr priceID \<Rightarrow>
               (case sp_NewSession (sc_api svc) x' customerID priceID successURL cancelURL (checkout_metadata tenantID plan) of
                  (Inl _, x'') \<Rightarrow> (Inl ''create checkout session'', x'', db')
                | (Inr (url, sessionID), x'') \<Rightarrow> (Inr (url, sessionID), x'', db'))))"

text \<open>The body of a checkout request is its plan and the two URLs to return to; \<open>redirect_ok\<close> is what
  \<open>validateRedirectURL\<close> decides on a parsed URL.\<close>

definition handleBillingCheckout :: "'x StripeService \<Rightarrow> (string \<Rightarrow> bool) \<Rightarrow> nat \<Rightarrow> (string \<times> string \<times> string) option \<Rightarrow> 'x \<Rightarrow>
    billing_db \<Rightarrow> (int \<times> string) \<times> 'x \<times> billing_db" where
  "handleBillingCheckout svc redirect_ok tenantID req x db =
     (if \<not> IsConfigured svc then ((503, ''Stripe is not configured''), x, db)
      else (case req of
              None \<Rightarrow> ((400, ''binding''), x, db)
            | Some (plan, successURL, cancelURL) \<Rightarrow>
                if plan = [] \<or> successURL = [] \<or> cancelURL = [] then ((400, ''binding''), x, db)
                else if \<not> ValidPlan plan \<or> plan = PlanFree then ((400, ''invalid plan; must be pro, team, or business''), x, db)
                else if \<not> redirect_ok successURL then ((400, ''invalid success_url''), x, db)
                else if \<not> redirect_ok cancelURL then ((400, ''invalid cancel_url''), x, db)
                else (case first_tenant db (\<lambda>t. ten_ID t = tenantID) of
                        Inl _ \<Rightarrow> ((500, ''failed to fetch tenant''), x, db)
                      | Inr tenant \<Rightarrow>
                          if ten_StripeSubscriptionID tenant \<noteq> [] then ((409, ''already_subscribed''), x, db)
                          else (case CreateCheckoutSession svc tenantID plan successURL cancelURL x db of
                                  (Inl _, x', db') \<Rightarrow> ((500, ''failed to create checkout session''), x', db')
                                | (Inr (url, _), x', db') \<Rightarrow> ((200, url), x', db')))))"

definition swap_price :: "'x StripeService \<Rightarrow> string \<Rightarrow> string \<Rightarrow> string \<Rightarrow> 'x \<Rightarrow> (string, Subscription) result \<times> 'x" where
  "swap_price svc subID itemID newPriceID x =
     sp_Update (sc_api svc) x subID (SetPrice itemID newPriceID ''none'')"

definition ScheduleDowngrade :: "'x StripeService \<Rightarrow> nat \<Rightarrow> string \<Rightarrow> 'x \<Rightarrow> billing_db \<Rightarrow> string option \<times> 'x \<times> billing_db" where
  "ScheduleDowngrade svc tenantID targetPlan x db =
     (case first_tenant db (\<lambda>t. ten_ID t = tenantID) of
        Inl _ \<Rightarrow> (Some ''fetch tenant'', x, db)
      | Inr tenant \<Rightarrow>
          if ten_StripeSubscriptionID tenant = [] then (Some ''tenant has no active subscription'', x, db)
          else if \<not> IsDowngrade (ten_Plan tenant) targetPlan then (Some ''not a downgrade'', x, db)
          else
            (case sp_Get (sc_api svc) x (ten_StripeSubscriptionID tenant) of
               Inl _ \<Rightarrow> (Some ''get subscription'', x, db)
             | Inr sub \<Rightarrow>
                 (let periodEnd = currentPeriodEndFromSub sub;
                      effectiveAt = (if 0 < periodEnd then Some (time_Unix periodEnd) else None);
                      record_pending = run_update tenantID
                        (\<lambda>t. t\<lparr>ten_PendingPlan := targetPlan, ten_PlanEffectiveAt := effectiveAt\<rparr>)
                  in if targetPlan = PlanFree then
                       (case sp_Update (sc_api svc) x (ten_StripeSubscriptionID tenant) (SetCancelAtPeriodEnd True) of
                          (Inl _, x') \<Rightarrow> (Some ''set cancel_at_period_end'', x', db)
                        | (Inr _, x') \<Rightarrow> (case record_pending db of (e, db') \<Rightarrow> (e, x', db')))
                     else
                       (case PriceIDForPlan svc targetPlan of
                          Inl e \<Rightarrow> (Some e, x, db)
                        | Inr newPriceID \<Rightarrow>
                            (case sb_Items sub of
                               [] \<Rightarrow> (Some ''subscription has no items'', x, db)
                             | item # _ \<Rightarrow>
                                 (case swap_price svc (ten_StripeSubscriptionID tenant) (si_ID item) newPriceID x of
                                    (Inl _, x') \<Rightarrow> (Some ''update subscription price for downgrade'', x', db)
                                  | (Inr _, x') \<Rightarrow> (case record_pending db of (e, db') \<Rightarrow> (e, x', db'))))))))"

definition CancelScheduledDowngrade :: "'x StripeService \<Rightarrow> nat \<Rightarrow> 'x \<Rightarrow> billing_db \<Rightarrow> string option \<times> 'x \<times> billing_db" where
  "CancelScheduledDowngrade svc tenantID x db =
     (case first_tenant db (\<lambda>t. ten_ID t = tenantID) of
        Inl _ \<Rightarrow> (Some ''fetch tenant'', x, db)
      | Inr tenant \<Rightarrow>
          if ten_PendingPlan tenant = [] then (Some ''no pending downgrade to cancel'', x, db)
          else if ten_StripeSubscriptionID tenant = [] then (Some ''tenant has no active subscription'', x, db)
          else
            (let clear = run_update tenantID (\<lambda>t. t\<lparr>ten_PendingPlan := [], ten_PlanEffectiveAt := None\<rparr>)
             in if ten_PendingPlan tenant = PlanFree then
                  (case sp_Update (sc_api svc) x (ten_StripeSubscriptionID tenant) (SetCancelAtPeriodEnd False) of
                     (Inl _, x') \<Rightarrow> (Some ''unset cancel_at_period_end'', x', db)
                   | (Inr _, x') \<Rightarrow> (case clear db of (e, db') \<Rightarrow> (e, x', db')))
                else
                  (case PriceIDForPlan svc (ten_Plan tenant) of
                     Inl _ \<Rightarrow> (Some ''resolve current plan price'', x, db)
                   | Inr currentPriceID \<Rightarrow>
                       (case sp_Get (sc_api svc) x (ten_StripeSubscriptionID tenant) of
                          Inl _ \<Rightarrow> (Some ''get subscription'', x, db)
                        | Inr sub \<Rightarrow>
                            (case sb_Items sub of
                               [] \<Rightarrow> (Some ''subscription has no items'', x, db)
                             | item # _ \<Rightarrow>
                                 (case swap_price svc (ten_StripeSubscriptionID tenant) (si_ID item) currentPriceID x of
                                    (Inl _, x') \<Rightarrow> (Some ''revert subscription price'', x', db)
                                  | (Inr _, x') \<Rightarrow> (case clear db of (e, db') \<Rightarrow> (e, x', db'))))))))"

definition ChangeSubscriptionPlan :: "'x StripeService \<Rightarrow> nat \<Rightarrow> string \<Rightarrow> 'x \<Rightarrow> billing_db \<Rightarrow> string option \<times> 'x \<times> billing_db" where
  "ChangeSubscriptionPlan svc tenantID newPlan x db =
     (case first_tenant db (\<lambda>t. ten_ID t = tenantID) of
        Inl _ \<Rightarrow> (Some ''fetch tenant'', x, db)
      | Inr tenant \<Rightarrow>
          if ten_StripeSubscriptionID tenant = [] then (Some ''tenant has no active subscription'', x, db)
          else
            (case PriceIDForPlan svc newPlan of
               Inl e \<Rightarrow> (Some e, x, db)
             | Inr newPriceID \<Rightarrow>
                 (let x1 = (if ten_PendingPlan tenant = PlanFree
                            then snd (sp_Update (sc_api svc) x (ten_StripeSubscriptionID tenant) (SetCancelAtPeriodEnd False))
                            else x)
                  in case sp_Get (sc_api svc) x1 (ten_StripeSubscriptionID tenant) of
                       Inl _ \<Rightarrow> (Some ''get subscription'', x1, db)
                     | Inr sub \<Rightarrow>
                         (case sb_Items sub of
                            [] \<Rightarrow> (Some ''subscription has no items'', x1, db)
                          | item # _ \<Rightarrow>
                              (case sp_Update (sc_api svc) x1 (ten_StripeSubscriptionID tenant)
                                      (SetPrice (si_ID item) newPriceID ''create_prorations'') of
                                 (Inl _, x2) \<Rightarrow> (Some ''update subscription'', x2, db)
                               | (Inr updatedSub, x2) \<Rightarrow>
                                   (case run_update tenantID (\<lambda>t.
                                           set_period_end updatedSub
                                             (t\<lparr>ten_Plan := newPlan, ten_PlanStatus := mapStripeStatus (sb_Status updatedSub),
                                                ten_PendingPlan := [], ten_PlanEffectiveAt := None\<rparr>)) db of
                                      (e, db') \<Rightarrow> (e, x2, db')))))))"

definition handleBillingDowngrade :: "'x StripeService \<Rightarrow> nat \<Rightarrow> string \<Rightarrow> 'x \<Rightarrow> billing_db \<Rightarrow> (int \<times> string) \<times> 'x \<times> billing_db" where
  "handleBillingDowngrade svc tenantID plan x db =
     (if \<not> IsConfigured svc then ((503, ''Stripe is not configured''), x, db)
      else if \<not> ValidPlan plan then ((400, ''invalid plan''), x, db)
      else (case first_tenant db (\<lambda>t. ten_ID t = tenantID) of
              Inl _ \<Rightarrow> ((500, ''failed to fetch tenant''), x, db)
            | Inr tenant \<Rightarrow>
                if \<not> IsDowngrade (ten_Plan tenant) plan
                then ((400, ''target plan is not a downgrade; use change-plan for upgrades''), x, db)
                else if ten_PendingPlan tenant \<noteq> []
                then ((409, ''a downgrade is already scheduled; cancel it first''), x, db)
                else (case ScheduleDowngrade svc tenantID plan x db of
                        (Some e, x', db') \<Rightarrow> ((400, e), x', db')
                      | (None, x', db') \<Rightarrow> ((200, []), x', db'))))"

definition handleBillingCancelDowngrade :: "'x StripeService \<Rightarrow> nat \<Rightarrow> 'x \<Rightarrow> billing_db \<Rightarrow> (int \<times> string) \<times> 'x \<times> billing_db" where
  "handleBillingCancelDowngrade svc tenantID x db =
     (if \<not> IsConfigured svc then ((503, ''Stripe is not configured''), x, db)
      else (case CancelScheduledDowngrade svc tenantID x db of
              (Some e, x', db') \<Rightarrow> ((400, e), x', db')
            | (None, x', db') \<Rightarrow> ((200, []), x', db')))"

definition handleBillingChangePlan :: "'x StripeService \<Rightarrow> nat \<Rightarrow> string \<Rightarrow> 'x \<Rightarrow> billing_db \<Rightarrow> (int \<times> string) \<times> 'x \<times> billing_db" where
  "handleBillingChangePlan svc tenantID plan x db =
     (if \<not> IsConfigured svc then ((503, ''Stripe is not configured''), x, db)
      else if \<not> ValidPlan plan \<or> plan = PlanFree then ((400, ''invalid plan; must be pro, team, or business''), x, db)
      else (case first_tenant db (\<lambda>t. ten_ID t = tenantID) of
              Inl _ \<Rightarrow> ((500, ''failed to fetch tenant''), x, db)
            | Inr tenant \<Rightarrow>
                if ten_StripeSubscriptionID tenant = []
                then ((400, ''no active subscription to change; use checkout instead''), x, db)
                else if ten_Plan tenant = plan then ((400, ''already on this plan''), x, db)
                else if IsDowngrade (ten_Plan tenant) plan
                then ((400, ''use POST /v1/billing/downgrade for downgrades''), x, db)
                else (case ChangeSubscriptionPlan svc tenantID plan x db of
                        (Some e, x', db') \<Rightarrow> ((500, ''failed to change plan''), x', db')
                      | (None, x', db') \<Rightarrow> ((200, []), x', db'))))"

text \<open>The part of \<open>handleBillingStatus\<close> that changes state: a plan that differs from the one Stripe has is
  corrected on read.\<close>

definition self_heal :: "'x StripeService \<Rightarrow> 'x \<Rightarrow> nat \<Rightarrow> billing_db \<Rightarrow> billing_db" where
  "self_heal svc x tenantID db =
     (case first_tenant db (\<lambda>t. ten_ID t = tenantID) of
        Inl _ \<Rightarrow> db
      | Inr tenant \<Rightarrow>
          if IsConfigured svc \<and> ten_StripeSubscriptionID tenant \<noteq> []
          then (case sp_Get (sc_api svc) x (ten_StripeSubscriptionID tenant) of
                  Inl _ \<Rightarrow> db
                | Inr sub \<Rightarrow>
                    (let detected = planFromSubscription svc sub
                     in if detected \<noteq> [] \<and> detected \<noteq> ten_Plan tenant \<and> ten_PendingPlan tenant = []
                        then snd (run_update tenantID (\<lambda>t. t\<lparr>ten_Plan := detected\<rparr>) db)
                        else db))
          else db)"

section \<open>Lemmas\<close>

lemma first_tenant_Inr: "first_tenant db P = Inr t \<Longrightarrow> t \<in> set (bl_Tenants db) \<and> P t \<and> bl_err db = None"
  using find_SomeD by (fastforce simp: first_tenant_def db_first_Inr)

lemma run_update_cases:
  obtains e where "bl_err db = Some e" "run_update tid f db = (Some e, db)"
  | "bl_err db = None" "run_update tid f db = (None, db\<lparr>bl_Tenants := map (\<lambda>t. if ten_ID t = tid then f t else t) (bl_Tenants db)\<rparr>)"
  by (cases "bl_err db") (auto simp: run_update_def update_tenant_def)

text \<open>What a handler may do to the database: leave it, or rewrite the row of one tenant.\<close>

definition alters :: "billing_db \<Rightarrow> billing_db \<Rightarrow> (Tenant \<Rightarrow> Tenant \<Rightarrow> bool) \<Rightarrow> bool" where
  "alters db db' R \<longleftrightarrow> bl_Processed db' = bl_Processed db \<and> bl_err db' = bl_err db \<and>
     (\<exists>f. bl_Tenants db' = map f (bl_Tenants db) \<and>
       (\<forall>t \<in> set (bl_Tenants db). ten_ID (f t) = ten_ID t \<and> (f t = t \<or> R t (f t))))"

lemma alters_refl [intro]: "alters db db R"
  unfolding alters_def by (auto intro!: exI [of _ "\<lambda>t. t"])

lemma alters_run_update:
  assumes "run_update tid f db = (e, db')" "\<And>t. ten_ID (f t) = ten_ID t"
    "\<And>t. t \<in> set (bl_Tenants db) \<Longrightarrow> ten_ID t = tid \<Longrightarrow> R t (f t)"
  shows "alters db db' R"
proof (rule run_update_cases [of db tid f])
  fix e' assume "run_update tid f db = (Some e', db)"
  then show ?thesis using assms(1) by auto
next
  assume "run_update tid f db = (None, db\<lparr>bl_Tenants := map (\<lambda>t. if ten_ID t = tid then f t else t) (bl_Tenants db)\<rparr>)"
  then show ?thesis
    using assms by (auto simp: alters_def intro!: exI [of _ "\<lambda>t. if ten_ID t = tid then f t else t"])
qed

lemma alters_mono: "alters db db' R \<Longrightarrow> (\<And>t t'. R t t' \<Longrightarrow> R' t t') \<Longrightarrow> alters db db' R'"
  unfolding alters_def by blast

lemma set_period_end_simps [simp]:
  "ten_ID (set_period_end sub t) = ten_ID t" "ten_Plan (set_period_end sub t) = ten_Plan t"
  "ten_PendingPlan (set_period_end sub t) = ten_PendingPlan t"
  "ten_StripeSubscriptionID (set_period_end sub t) = ten_StripeSubscriptionID t"
  by (simp_all add: set_period_end_def Let_def)

lemma planFromSubscription_range: "planFromSubscription svc sub \<in> {[], PlanPro, PlanTeam, PlanBusiness}"
  by (simp add: planFromSubscription_def PlanForPriceID_def split: option.split)

lemma detected_plan_range: "detected_plan svc x sub \<in> {[], PlanPro, PlanTeam, PlanBusiness}"
  using planFromSubscription_range [of svc] by (auto simp: detected_plan_def Let_def split: sum.split)

text \<open>The three outcomes for the plan of a tenant: it is kept with its pending downgrade, a paid plan with no
  pending downgrade, or free with none.\<close>

definition plan_kept :: "Tenant \<Rightarrow> Tenant \<Rightarrow> bool" where
  "plan_kept t t' \<longleftrightarrow> ten_Plan t' = ten_Plan t \<and> ten_PendingPlan t' = ten_PendingPlan t"

definition plan_settled :: "Tenant \<Rightarrow> bool" where
  "plan_settled t \<longleftrightarrow> ten_Plan t \<in> set AllPlans \<and> ten_PendingPlan t = []"

lemma HandleSubscriptionUpdated_alters:
  assumes "HandleSubscriptionUpdated svc x sub db = (e, db')" "distinct (map ten_ID (bl_Tenants db))"
  shows "alters db db' (\<lambda>t t'. plan_kept t t' \<or> ten_PendingPlan t = [] \<and> plan_settled t')"
proof -
  consider "db' = db"
    | tenantID tenant where "first_tenant db (\<lambda>t. ten_ID t = tenantID) = Inr tenant"
      "run_update tenantID (\<lambda>t. set_period_end sub (t\<lparr>ten_PlanStatus := mapStripeStatus (sb_Status sub),
         ten_StripeSubscriptionID := sb_ID sub,
         ten_Plan := (if ten_PendingPlan tenant = [] \<and> detected_plan svc x sub \<noteq> [] then detected_plan svc x sub else ten_Plan t)\<rparr>)) db = (e, db')"
    using assms(1) by (auto simp: HandleSubscriptionUpdated_def Let_def split: sum.splits if_splits)
  then show ?thesis
  proof cases
    case 2
    have same: "t = tenant" if "t \<in> set (bl_Tenants db)" "ten_ID t = tenantID" for t
      using first_tenant_Inr [OF 2(1)] that assms(2) by (metis distinct_map inj_onD)
    show ?thesis
      by (rule alters_run_update [OF 2(2)])
        (use same detected_plan_range [of svc x sub] in \<open>auto simp: plan_kept_def plan_settled_def AllPlans_def\<close>)
  qed auto
qed

lemma invoice_alters:
  assumes "set_status_by_invoice status invoice db = (e, db')"
  shows "alters db db' plan_kept"
proof -
  consider "db' = db" | tid where "run_update tid (\<lambda>t. t\<lparr>ten_PlanStatus := status\<rparr>) db = (e, db')"
    using assms by (auto simp: set_status_by_invoice_def Let_def split: sum.splits if_splits db_error.splits)
  then show ?thesis by cases (auto simp: plan_kept_def intro: alters_run_update)
qed

lemma HandleSubscriptionDeleted_alters:
  assumes "HandleSubscriptionDeleted sub db = (e, db')"
  shows "alters db db' (\<lambda>t t'. plan_settled t')"
proof -
  consider "db' = db" | tid where "run_update tid (\<lambda>t. t\<lparr>ten_Plan := PlanFree, ten_PlanStatus := PlanStatusCanceled,
      ten_StripeSubscriptionID := [], ten_CurrentPeriodEnd := None, ten_PendingPlan := [], ten_PlanEffectiveAt := None\<rparr>) db = (e, db')"
    using assms by (auto simp: HandleSubscriptionDeleted_def split: sum.splits if_splits)
  then show ?thesis by cases (auto simp: plan_settled_def AllPlans_def intro: alters_run_update)
qed

definition metadata_ok :: "(string \<rightharpoonup> string) \<Rightarrow> bool" where
  "metadata_ok md \<longleftrightarrow> (case md ''plan'' of None \<Rightarrow> True | Some p \<Rightarrow> p = [] \<or> p \<in> set AllPlans)"

abbreviation session_ok :: "CheckoutSession \<Rightarrow> bool" where
  "session_ok sess \<equiv> metadata_ok (cs_Metadata sess)"

lemma HandleCheckoutCompleted_alters:
  assumes "HandleCheckoutCompleted sess db = (e, db')" "session_ok sess"
  shows "alters db db' (\<lambda>t t'. plan_settled t')"
proof -
  consider "db' = db" | tid f plan where "run_update tid f db = (e, db')" "cs_Metadata sess ''plan'' = Some plan" "plan \<noteq> []"
    "\<And>t. ten_ID (f t) = ten_ID t \<and> ten_Plan (f t) = plan \<and> ten_PendingPlan (f t) = []"
    using assms(1) unfolding HandleCheckoutCompleted_def Let_def
    by (auto split: option.splits if_splits; fastforce split: option.split)
  then show ?thesis
  proof cases
    case 2
    show ?thesis by (rule alters_run_update [OF 2(1)]) (use 2 assms(2) in \<open>auto simp: plan_settled_def metadata_ok_def\<close>)
  qed auto
qed

lemma alters_checkout_status: "alters db (update_checkout_status sess ok status db) R"
proof -
  have "alters db (db\<lparr>bl_Checkout := c\<rparr>) R" for c unfolding alters_def by (auto intro!: exI [of _ "\<lambda>t. t"])
  then show ?thesis by (auto simp: update_checkout_status_def split: option.split)
qed

lemma alters_trans_checkout:
  "alters db db' R \<Longrightarrow> alters db (update_checkout_status sess ok status db') R"
  using alters_checkout_status [of db' sess ok status "\<lambda>_ _. False"] by (fastforce simp: alters_def)

definition payload_ok :: "stripe_event \<Rightarrow> bool" where
  "payload_ok event \<longleftrightarrow> (case ev_session event of None \<Rightarrow> True | Some sess \<Rightarrow> session_ok sess)"

definition plan_move :: "Tenant \<Rightarrow> Tenant \<Rightarrow> bool" where
  "plan_move t t' \<longleftrightarrow> plan_kept t t' \<or> plan_settled t' \<or>
     ten_Plan t' = ten_Plan t \<and> (ten_PendingPlan t' = [] \<or>
       ten_PendingPlan t' \<in> set AllPlans \<and> IsDowngrade (ten_Plan t) (ten_PendingPlan t'))"

lemma plan_moveI: "plan_kept t t' \<Longrightarrow> plan_move t t'" "plan_settled t' \<Longrightarrow> plan_move t t'"
  by (simp_all add: plan_move_def)

lemma reply_of_db: "reply_of (e, db) = (r, db') \<Longrightarrow> db' = db"
  by (auto simp: reply_of_def split: option.splits)

lemma dispatch_alters:
  assumes "dispatch_event svc x event db = (r, db')" "payload_ok event" "distinct (map ten_ID (bl_Tenants db))"
  shows "alters db db' plan_move"
proof -
  have upd: "alters db db1 plan_move" if "HandleSubscriptionUpdated svc x sub db = (e, db1)" for sub e db1
    using HandleSubscriptionUpdated_alters [OF that assms(3)] by (rule alters_mono) (auto intro: plan_moveI)
  have del: "alters db db1 plan_move" if "HandleSubscriptionDeleted sub db = (e, db1)" for sub e db1
    using HandleSubscriptionDeleted_alters [OF that] by (rule alters_mono) (auto intro: plan_moveI)
  have pay: "alters db db1 plan_move" if "set_status_by_invoice st iv db = (e, db1)" for st iv e db1
    using invoice_alters [OF that] by (rule alters_mono) (auto intro: plan_moveI)
  have chk: "alters db db1 plan_move" if "HandleCheckoutCompleted sess db = (e, db1)" "session_ok sess" for sess e db1
    using HandleCheckoutCompleted_alters [OF that] by (rule alters_mono) (auto intro: plan_moveI)
  show ?thesis
    using assms(1,2) upd del pay chk unfolding dispatch_event_def HandleInvoicePaid_def HandleInvoicePaymentFailed_def payload_ok_def
    by (auto simp: reply_of_def split: if_splits option.splits prod.splits intro: alters_checkout_status alters_trans_checkout)
qed

text \<open>The invariant of the tenant table: ids are unique, every plan is one of the four tiers, and so is a pending
  plan, which is a downgrade of the current one as long as no operator has changed plans.\<close>

definition tenant_ok :: "bool \<Rightarrow> Tenant \<Rightarrow> bool" where
  "tenant_ok operator t \<longleftrightarrow> ten_Plan t \<in> set AllPlans \<and> ten_PendingPlan t \<in> insert [] (set AllPlans) \<and>
     (\<not> operator \<and> ten_PendingPlan t \<noteq> [] \<longrightarrow> IsDowngrade (ten_Plan t) (ten_PendingPlan t))"

definition tenants_ok :: "bool \<Rightarrow> billing_db \<Rightarrow> bool" where
  "tenants_ok operator db \<longleftrightarrow> distinct (map ten_ID (bl_Tenants db)) \<and> (\<forall>t \<in> set (bl_Tenants db). tenant_ok operator t)"

lemma tenant_ok_move: "tenant_ok operator t \<Longrightarrow> plan_move t t' \<Longrightarrow> tenant_ok operator t'"
  by (auto simp: tenant_ok_def plan_move_def plan_kept_def plan_settled_def)

lemma tenants_ok_alters:
  assumes "tenants_ok operator db" "alters db db' plan_move"
  shows "tenants_ok operator db'"
proof -
  obtain f where f: "bl_Tenants db' = map f (bl_Tenants db)"
    "\<forall>t \<in> set (bl_Tenants db). ten_ID (f t) = ten_ID t \<and> (f t = t \<or> plan_move t (f t))"
    using assms(2) by (auto simp: alters_def)
  then have "map ten_ID (bl_Tenants db') = map ten_ID (bl_Tenants db)" by simp
  moreover have "tenant_ok operator t'" if "t' \<in> set (bl_Tenants db')" for t'
    using that f assms(1) tenant_ok_move by (fastforce simp: tenants_ok_def)
  ultimately show ?thesis using assms(1) by (simp add: tenants_ok_def)
qed

lemma tenants_ok_cong: "tenants_ok operator db \<Longrightarrow> bl_Tenants db' = bl_Tenants db \<Longrightarrow> tenants_ok operator db'"
  by (simp add: tenants_ok_def)

lemma webhook_tenants_ok:
  assumes "tenants_ok operator db" "processBillingWebhook svc x fault payload db = (r, db')"
    "\<And>event. payload = Some event \<Longrightarrow> payload_ok event"
  shows "tenants_ok operator db'"
proof -
  consider "bl_Tenants db' = bl_Tenants db"
    | event db2 where "payload = Some event"
      "dispatch_event svc x event (db\<lparr>bl_Processed := bl_Processed db @ [ev_ID event], bl_err := fault\<rparr>) = (r, db2)"
      "bl_Tenants db' = bl_Tenants db2"
    using assms(2) by (auto simp: processBillingWebhook_def MarkEventProcessed_def split: if_splits option.splits prod.splits)
  then show ?thesis
  proof cases
    case 2
    have "tenants_ok operator (db\<lparr>bl_Processed := bl_Processed db @ [ev_ID event], bl_err := fault\<rparr>)"
      by (rule tenants_ok_cong [OF assms(1)]) simp
    moreover have "alters (db\<lparr>bl_Processed := bl_Processed db @ [ev_ID event], bl_err := fault\<rparr>) db2 plan_move"
      using dispatch_alters [OF 2(2) assms(3) [OF 2(1)]] assms(1) by (simp add: tenants_ok_def)
    ultimately have "tenants_ok operator db2" by (rule tenants_ok_alters)
    then show ?thesis using 2(3) by (rule tenants_ok_cong)
  qed (rule tenants_ok_cong [OF assms(1)])
qed

lemma PriceIDForPlan_valid: "PriceIDForPlan svc plan = Inr p \<Longrightarrow> plan \<in> set AllPlans"
  by (auto simp: PriceIDForPlan_def AllPlans_def split: if_splits)

lemma ScheduleDowngrade_alters:
  assumes "ScheduleDowngrade svc tid plan x db = (e, x', db')" "distinct (map ten_ID (bl_Tenants db))"
  shows "alters db db' plan_move"
proof -
  consider "db' = db"
    | tenant eff e' where "first_tenant db (\<lambda>t. ten_ID t = tid) = Inr tenant" "IsDowngrade (ten_Plan tenant) plan"
      "plan = PlanFree \<or> (\<exists>p. PriceIDForPlan svc plan = Inr p)"
      "run_update tid (\<lambda>t. t\<lparr>ten_PendingPlan := plan, ten_PlanEffectiveAt := eff\<rparr>) db = (e', db')"
    using assms(1) unfolding ScheduleDowngrade_def Let_def
    by (auto split: sum.splits if_splits list.splits prod.splits)
  then show ?thesis
  proof cases
    case 2
    have "t = tenant" if "t \<in> set (bl_Tenants db)" "ten_ID t = tid" for t
      using first_tenant_Inr [OF 2(1)] that assms(2) by (metis distinct_map inj_onD)
    moreover have "plan \<in> set AllPlans" using 2(3) PriceIDForPlan_valid [of svc plan] by (auto simp: AllPlans_def)
    ultimately show ?thesis using 2(2) by (intro alters_run_update [OF 2(4)]) (auto simp: plan_move_def)
  qed auto
qed

lemma CancelScheduledDowngrade_alters:
  assumes "CancelScheduledDowngrade svc tid x db = (e, x', db')"
  shows "alters db db' plan_move"
proof -
  consider "db' = db" | e' where "run_update tid (\<lambda>t. t\<lparr>ten_PendingPlan := [], ten_PlanEffectiveAt := None\<rparr>) db = (e', db')"
    using assms unfolding CancelScheduledDowngrade_def Let_def
    by (auto split: sum.splits if_splits list.splits prod.splits)
  then show ?thesis by cases (auto simp: plan_move_def intro: alters_run_update)
qed

lemma ChangeSubscriptionPlan_alters:
  assumes "ChangeSubscriptionPlan svc tid plan x db = (e, x', db')"
  shows "alters db db' plan_move"
proof -
  consider "db' = db"
    | sub p e' where "PriceIDForPlan svc plan = Inr p" "run_update tid (\<lambda>t. set_period_end sub (t\<lparr>ten_Plan := plan,
        ten_PlanStatus := mapStripeStatus (sb_Status sub), ten_PendingPlan := [], ten_PlanEffectiveAt := None\<rparr>)) db = (e', db')"
    using assms unfolding ChangeSubscriptionPlan_def Let_def
    by (auto split: sum.splits if_splits list.splits prod.splits)
  then show ?thesis
  proof cases
    case 2
    show ?thesis by (rule alters_run_update [OF 2(2)]) (use PriceIDForPlan_valid [OF 2(1)] in \<open>auto intro: plan_moveI simp: plan_settled_def\<close>)
  qed auto
qed

lemma self_heal_alters:
  assumes "self_heal svc x tid db = db'" "distinct (map ten_ID (bl_Tenants db))"
  shows "alters db db' plan_move"
proof (cases "db' = db")
  case False
  then obtain tenant where ten: "first_tenant db (\<lambda>t. ten_ID t = tid) = Inr tenant"
    using assms(1) by (cases "first_tenant db (\<lambda>t. ten_ID t = tid)") (auto simp: self_heal_def)
  with False obtain sub where sub: "sp_Get (sc_api svc) x (ten_StripeSubscriptionID tenant) = Inr sub"
    using assms(1) by (cases "sp_Get (sc_api svc) x (ten_StripeSubscriptionID tenant)") (auto simp: self_heal_def)
  define p where "p = planFromSubscription svc sub"
  have p: "p \<noteq> []" "ten_PendingPlan tenant = []" "db' = snd (run_update tid (\<lambda>t. t\<lparr>ten_Plan := p\<rparr>) db)"
    using assms(1) False ten sub by (simp_all add: self_heal_def Let_def p_def split: if_splits)
  have same: "t = tenant" if "t \<in> set (bl_Tenants db)" "ten_ID t = tid" for t
    using first_tenant_Inr [OF ten] that assms(2) by (metis distinct_map inj_onD)
  obtain e db1 where u: "run_update tid (\<lambda>t. t\<lparr>ten_Plan := p\<rparr>) db = (e, db1)" by fastforce
  have "plan_settled (tenant\<lparr>ten_Plan := p\<rparr>)"
    using p(1,2) planFromSubscription_range [of svc sub] by (auto simp: plan_settled_def AllPlans_def p_def)
  then have "alters db db1 plan_move" by (intro alters_run_update [OF u]) (simp, drule (1) same, simp add: plan_moveI)
  then show ?thesis using p(3) u by simp
qed auto

lemma EnsureCustomer_alters:
  assumes "EnsureCustomer svc tid x db = (r, x', db')"
  shows "alters db db' plan_move"
proof -
  consider "db' = db" | t cid e where "run_update t (\<lambda>t. t\<lparr>ten_StripeCustomerID := cid\<rparr>) db = (e, db')"
    using assms by (auto simp: EnsureCustomer_def split: sum.splits if_splits prod.splits option.splits)
  then show ?thesis by cases (auto simp: plan_move_def plan_kept_def intro: alters_run_update)
qed

lemma handleBillingCheckout_alters:
  assumes "handleBillingCheckout svc ok tid req x db = (r, x', db')"
  shows "alters db db' plan_move"
proof -
  consider "db' = db" | r1 x1 where "EnsureCustomer svc tid x db = (r1, x1, db')"
    using assms unfolding handleBillingCheckout_def CreateCheckoutSession_def
    by (auto split: sum.splits if_splits prod.splits option.splits)
  then show ?thesis by cases (auto dest: EnsureCustomer_alters)
qed

section \<open>Checkout sessions at Stripe\<close>

text \<open>\<open>issued x\<close> are the metadata of the checkout sessions that exist at Stripe in state \<open>x\<close>. Documented behaviour: a
  session that is fetched is one of them; creating a session adds the metadata it was given; updating a subscription and
  creating a customer create no session.\<close>

definition stripe_sessions :: "'x stripe_api \<Rightarrow> ('x \<Rightarrow> (string \<rightharpoonup> string) set) \<Rightarrow> bool" where
  "stripe_sessions A issued \<longleftrightarrow>
     (\<forall>x sid sess. sp_GetSession A x sid = Inr sess \<longrightarrow> cs_Metadata sess \<in> issued x) \<and>
     (\<forall>x c p u v md. issued (snd (sp_NewSession A x c p u v md)) \<subseteq> insert md (issued x)) \<and>
     (\<forall>x n m md. issued (snd (sp_NewCustomer A x n m md)) \<subseteq> issued x) \<and>
     (\<forall>x sub u. issued (snd (sp_Update A x sub u)) \<subseteq> issued x)"

definition sessions_ok :: "('x \<Rightarrow> (string \<rightharpoonup> string) set) \<Rightarrow> 'x \<Rightarrow> bool" where
  "sessions_ok issued x \<longleftrightarrow> (\<forall>md \<in> issued x. metadata_ok md)"

lemma issued_simps:
  assumes "stripe_sessions (sc_api svc) issued"
  shows "sp_Update (sc_api svc) x sub u = (r, x') \<Longrightarrow> issued x' \<subseteq> issued x"
    "sp_NewCustomer (sc_api svc) x n m md = (r1, x') \<Longrightarrow> issued x' \<subseteq> issued x"
    "sp_NewSession (sc_api svc) x c p v w md = (r2, x') \<Longrightarrow> issued x' \<subseteq> insert md (issued x)"
    "sp_GetSession (sc_api svc) x sid = Inr sess \<Longrightarrow> cs_Metadata sess \<in> issued x"
  using assms unfolding stripe_sessions_def by (metis snd_conv)+

lemma issued_requests:
  assumes A: "stripe_sessions (sc_api svc) issued"
  shows "handleBillingDowngrade svc tid plan x db = (r, x', db') \<Longrightarrow> issued x' \<subseteq> issued x"
    "handleBillingCancelDowngrade svc tid x db = (r, x', db') \<Longrightarrow> issued x' \<subseteq> issued x"
    "handleBillingChangePlan svc tid plan x db = (r, x', db') \<Longrightarrow> issued x' \<subseteq> issued x"
proof -
  note up = issued_simps(1) [OF A]
  have cd: "issued (snd (sp_Update (sc_api svc) x sub u)) \<subseteq> issued x" for x sub u
    by (rule up [OF surjective_pairing])
  have 1: "issued x' \<subseteq> issued x" if "ScheduleDowngrade svc tid plan x db = (e, x', db')" for e
    using that up unfolding ScheduleDowngrade_def swap_price_def Let_def
    by (auto split: sum.splits if_splits list.splits prod.splits; blast)
  have 2: "issued x' \<subseteq> issued x" if "CancelScheduledDowngrade svc tid x db = (e, x', db')" for e
    using that up unfolding CancelScheduledDowngrade_def swap_price_def Let_def
    by (auto split: sum.splits if_splits list.splits prod.splits; blast)
  have 3: "issued x' \<subseteq> issued x" if "ChangeSubscriptionPlan svc tid plan x db = (e, x', db')" for e
    using that up cd unfolding ChangeSubscriptionPlan_def Let_def
    by (auto split: sum.splits if_splits list.splits prod.splits; blast)
  show "handleBillingDowngrade svc tid plan x db = (r, x', db') \<Longrightarrow> issued x' \<subseteq> issued x"
    using 1 unfolding handleBillingDowngrade_def by (auto split: sum.splits if_splits prod.splits option.splits)
  show "handleBillingCancelDowngrade svc tid x db = (r, x', db') \<Longrightarrow> issued x' \<subseteq> issued x"
    using 2 unfolding handleBillingCancelDowngrade_def by (auto split: if_splits prod.splits option.splits)
  show "handleBillingChangePlan svc tid plan x db = (r, x', db') \<Longrightarrow> issued x' \<subseteq> issued x"
    using 3 unfolding handleBillingChangePlan_def by (auto split: sum.splits if_splits prod.splits option.splits)
qed

lemma issued_checkout:
  assumes A: "stripe_sessions (sc_api svc) issued" and "sessions_ok issued x"
    and "handleBillingCheckout svc ok tid req x db = (r, x', db')"
  shows "sessions_ok issued x'"
proof -
  have cust: "issued x1 \<subseteq> issued x" if "EnsureCustomer svc tid x db = (c, x1, db1)" for c x1 db1
    using that issued_simps(2) [OF A] unfolding EnsureCustomer_def
    by (auto split: sum.splits if_splits prod.splits option.splits; blast)
  consider "x' = x" | c db1 where "EnsureCustomer svc tid x db = (c, x', db1)"
    | c x1 db1 plan p u v q where "EnsureCustomer svc tid x db = (c, x1, db1)" "PriceIDForPlan svc plan = Inr p"
      "sp_NewSession (sc_api svc) x1 (case c of Inl _ \<Rightarrow> [] | Inr i \<Rightarrow> i) p u v (checkout_metadata tid plan) = (q, x')"
    using assms(3) unfolding handleBillingCheckout_def CreateCheckoutSession_def
    by (auto split: sum.splits if_splits prod.splits option.splits)
  then show ?thesis
  proof cases
    case 2
    then show ?thesis using assms(2) cust unfolding sessions_ok_def by blast
  next
    case 3
    have "metadata_ok (checkout_metadata tid plan)"
      using PriceIDForPlan_valid [OF 3(2)] by (simp add: metadata_ok_def checkout_metadata_def)
    then show ?thesis using assms(2) cust [OF 3(1)] issued_simps(3) [OF A 3(3)] unfolding sessions_ok_def by blast
  qed (use assms(2) in simp)
qed

section \<open>The billing state machine\<close>

text \<open>One request or webhook, or a change on Stripe's side. The session in a webhook is one that exists at Stripe; a
  session that was not made by this program carries no plan. When \<open>operator\<close> is set, the operator of the platform and the
  internal endpoint may change plans too: this is the write of \<open>applyPlanChange\<close> (theory \<open>Quotas\<close>).\<close>

inductive billing_step :: "bool \<Rightarrow> ('x \<Rightarrow> (string \<rightharpoonup> string) set) \<Rightarrow> 'x StripeService \<Rightarrow> 'x \<times> billing_db \<Rightarrow> 'x \<times> billing_db \<Rightarrow> bool"
  for operator issued svc where
  bs_webhook: "processBillingWebhook svc x fault payload db = (r, db') \<Longrightarrow>
    (\<And>event sess. payload = Some event \<Longrightarrow> ev_session event = Some sess \<Longrightarrow> cs_Metadata sess \<in> issued x) \<Longrightarrow>
    billing_step operator issued svc (x, db) (x, db')"
| bs_checkout: "handleBillingCheckout svc redirect_ok tid req x db = (r, x', db') \<Longrightarrow>
    billing_step operator issued svc (x, db) (x', db')"
| bs_verify: "VerifyCheckoutSession svc x tid sid db = (e, db') \<Longrightarrow> billing_step operator issued svc (x, db) (x, db')"
| bs_downgrade: "handleBillingDowngrade svc tid plan x db = (r, x', db') \<Longrightarrow> billing_step operator issued svc (x, db) (x', db')"
| bs_cancel: "handleBillingCancelDowngrade svc tid x db = (r, x', db') \<Longrightarrow> billing_step operator issued svc (x, db) (x', db')"
| bs_change: "handleBillingChangePlan svc tid plan x db = (r, x', db') \<Longrightarrow> billing_step operator issued svc (x, db) (x', db')"
| bs_status: "billing_step operator issued svc (x, db) (x, self_heal svc x tid db)"
| bs_operator: "operator \<Longrightarrow> ValidPlan plan \<Longrightarrow> run_update tid (\<lambda>t. t\<lparr>ten_Plan := plan\<rparr>) db = (e, db') \<Longrightarrow>
    billing_step operator issued svc (x, db) (x, db')"
| bs_world: "(\<And>md. md \<in> issued x' \<Longrightarrow> md \<notin> issued x \<Longrightarrow> md ''plan'' = None) \<Longrightarrow>
    billing_step operator issued svc (x, db) (x', db\<lparr>bl_err := e\<rparr>)"

definition billing_inv :: "bool \<Rightarrow> ('x \<Rightarrow> (string \<rightharpoonup> string) set) \<Rightarrow> 'x StripeService \<Rightarrow> 'x \<times> billing_db \<Rightarrow> bool" where
  "billing_inv operator issued svc st \<longleftrightarrow> stripe_sessions (sc_api svc) issued \<and> sessions_ok issued (fst st) \<and>
     tenants_ok operator (snd st)"

lemma operator_tenants_ok:
  assumes "tenants_ok True db" "ValidPlan plan" "run_update tid (\<lambda>t. t\<lparr>ten_Plan := plan\<rparr>) db = (e, db')"
  shows "tenants_ok True db'"
proof (rule run_update_cases [of db tid "\<lambda>t. t\<lparr>ten_Plan := plan\<rparr>"])
  assume "run_update tid (\<lambda>t. t\<lparr>ten_Plan := plan\<rparr>) db =
    (None, db\<lparr>bl_Tenants := map (\<lambda>t. if ten_ID t = tid then t\<lparr>ten_Plan := plan\<rparr> else t) (bl_Tenants db)\<rparr>)"
  then have db': "bl_Tenants db' = map (\<lambda>t. if ten_ID t = tid then t\<lparr>ten_Plan := plan\<rparr> else t) (bl_Tenants db)"
    using assms(3) by simp
  then have "map ten_ID (bl_Tenants db') = map ten_ID (bl_Tenants db)" by simp
  moreover have "\<forall>t \<in> set (bl_Tenants db'). tenant_ok True t"
    using db' assms(1,2) ValidPlan_iff [of plan] by (auto simp: tenants_ok_def tenant_ok_def)
  ultimately show ?thesis using assms(1) by (simp add: tenants_ok_def)
qed (use assms in simp)

lemma billing_inv_step:
  "billing_step operator issued svc st st' \<Longrightarrow> billing_inv operator issued svc st \<Longrightarrow> billing_inv operator issued svc st'"
proof (induction rule: billing_step.induct)
  case (bs_webhook x fault payload db r db')
  have "payload_ok event" if "payload = Some event" for event
    using bs_webhook(2) [OF that] bs_webhook(3) by (auto simp: payload_ok_def billing_inv_def sessions_ok_def split: option.split)
  then show ?case using webhook_tenants_ok [OF _ bs_webhook(1)] bs_webhook(3) by (simp add: billing_inv_def)
next
  case (bs_checkout redirect_ok tid req x db r x' db')
  have "tenants_ok operator db'"
    by (rule tenants_ok_alters [OF _ handleBillingCheckout_alters [OF bs_checkout(1)]]) (use bs_checkout(2) in \<open>simp add: billing_inv_def\<close>)
  then show ?case
    using bs_checkout issued_checkout [of svc issued x redirect_ok tid req db r x' db'] by (simp add: billing_inv_def)
next
  case (bs_verify x tid sid db e db')
  have "session_ok sess" if "sp_GetSession (sc_api svc) x sid = Inr sess" for sess
    using issued_simps(4) [OF _ that] bs_verify(2) by (auto simp: billing_inv_def sessions_ok_def)
  then have "alters db db' plan_move"
    using bs_verify(1) HandleCheckoutCompleted_alters [THEN alters_mono, OF _ _ plan_moveI(2)]
    by (auto simp: VerifyCheckoutSession_def split: sum.splits if_splits)
  then show ?case using bs_verify(2) tenants_ok_alters by (auto simp: billing_inv_def)
next
  case (bs_downgrade tid plan x db r x' db')
  have "alters db db' plan_move"
    using bs_downgrade ScheduleDowngrade_alters [of svc tid plan x db] unfolding handleBillingDowngrade_def billing_inv_def tenants_ok_def
    by (auto split: sum.splits if_splits prod.splits option.splits)
  then show ?case
    using bs_downgrade(2) tenants_ok_alters issued_requests(1) [OF _ bs_downgrade(1), of issued]
    by (auto simp: billing_inv_def sessions_ok_def)
next
  case (bs_cancel tid x db r x' db')
  have "alters db db' plan_move"
    using bs_cancel CancelScheduledDowngrade_alters [of svc tid x db] unfolding handleBillingCancelDowngrade_def
    by (auto split: if_splits prod.splits option.splits)
  then show ?case
    using bs_cancel(2) tenants_ok_alters issued_requests(2) [OF _ bs_cancel(1), of issued]
    by (auto simp: billing_inv_def sessions_ok_def)
next
  case (bs_change tid plan x db r x' db')
  have "alters db db' plan_move"
    using bs_change ChangeSubscriptionPlan_alters [of svc tid plan x db] unfolding handleBillingChangePlan_def
    by (auto split: sum.splits if_splits prod.splits option.splits)
  then show ?case
    using bs_change(2) tenants_ok_alters issued_requests(3) [OF _ bs_change(1), of issued]
    by (auto simp: billing_inv_def sessions_ok_def)
next
  case (bs_status x db tid)
  then have "alters db (self_heal svc x tid db) plan_move"
    by (intro self_heal_alters [OF refl]) (simp add: billing_inv_def tenants_ok_def)
  then show ?case using bs_status tenants_ok_alters by (auto simp: billing_inv_def)
next
  case (bs_operator plan tid db e db' x)
  then show ?case using operator_tenants_ok [OF _ bs_operator(2,3)] by (simp add: billing_inv_def)
next
  case (bs_world x' x db e)
  have "metadata_ok md" if "md \<in> issued x'" for md
  proof (cases "md \<in> issued x")
    case True
    then show ?thesis using bs_world(2) by (simp add: billing_inv_def sessions_ok_def)
  next
    case False
    then show ?thesis using bs_world(1) [OF that] by (simp add: metadata_ok_def)
  qed
  then show ?case using bs_world(2) by (simp add: billing_inv_def sessions_ok_def tenants_ok_def)
qed

text \<open>Tenants start on some plan with no pending downgrade, and Stripe without sessions that name an unknown plan.\<close>

definition billing_start :: "('x \<Rightarrow> (string \<rightharpoonup> string) set) \<Rightarrow> 'x StripeService \<Rightarrow> 'x \<times> billing_db \<Rightarrow> bool" where
  "billing_start issued svc st \<longleftrightarrow> stripe_sessions (sc_api svc) issued \<and> sessions_ok issued (fst st) \<and>
     distinct (map ten_ID (bl_Tenants (snd st))) \<and> (\<forall>t \<in> set (bl_Tenants (snd st)). plan_settled t)"

interpretation billing: inductive_invariant "billing_start issued svc" "billing_step operator issued svc" "billing_inv operator issued svc"
  for operator issued svc
  by unfold_locales (simp add: billing_start_def billing_inv_def tenants_ok_def plan_settled_def tenant_ok_def, rule billing_inv_step)

section \<open>Properties\<close>

text \<open>C25: Whatever webhooks and requests arrive in whatever order, checkouts and plan changes by the operator included,
  and whatever fails in between, every tenant is on one of the four plans, and so is the plan that it is scheduled to
  change to. As long as no operator changes plans, a scheduled plan is a downgrade of the current one. That no webhook
  brings in an unknown plan is due to the check of the plan when the checkout session is created; of Stripe it is assumed
  that a session keeps the metadata it was created with, and of others that their sessions name no plan.\<close>

theorem plans_stay_valid:
  assumes "reachable (billing_start issued svc) (billing_step operator issued svc) (x, db)" and "t \<in> set (bl_Tenants db)"
  shows "ten_Plan t \<in> set AllPlans \<and> (ten_PendingPlan t \<noteq> [] \<longrightarrow> ten_PendingPlan t \<in> set AllPlans) \<and>
    (\<not> operator \<and> ten_PendingPlan t \<noteq> [] \<longrightarrow> IsDowngrade (ten_Plan t) (ten_PendingPlan t))"
  using billing.holds_when_reachable [OF assms(1)] assms(2) by (auto simp: billing_inv_def tenants_ok_def tenant_ok_def)

lemma processed_kept:
  assumes "dispatch_event svc x event db = (r, db')"
  shows "bl_Processed db' = bl_Processed db"
proof -
  have "bl_Processed (snd (run_update tid f d)) = bl_Processed d" for tid f d
    by (rule run_update_cases [of d tid f]) auto
  then have ru: "run_update tid f d = (e, d') \<Longrightarrow> bl_Processed d' = bl_Processed d" for tid f d e d'
    by (metis snd_conv)
  have up: "HandleSubscriptionUpdated svc x sub db = (e, d') \<Longrightarrow> bl_Processed d' = bl_Processed db" for sub e d'
    using ru unfolding HandleSubscriptionUpdated_def Let_def by (auto split: sum.splits if_splits)
  have de: "HandleSubscriptionDeleted sub db = (e, d') \<Longrightarrow> bl_Processed d' = bl_Processed db" for sub e d'
    using ru unfolding HandleSubscriptionDeleted_def by (auto split: sum.splits if_splits)
  have pa: "set_status_by_invoice st iv db = (e, d') \<Longrightarrow> bl_Processed d' = bl_Processed db" for st iv e d'
    using ru unfolding set_status_by_invoice_def Let_def by (auto split: sum.splits if_splits db_error.splits)
  have ch: "HandleCheckoutCompleted sess db = (e, d') \<Longrightarrow> bl_Processed d' = bl_Processed db" for sess e d'
    using ru unfolding HandleCheckoutCompleted_def Let_def by (auto split: option.splits if_splits)
  have st: "bl_Processed (update_checkout_status sess ok status d) = bl_Processed d" for sess ok status d
    by (simp add: update_checkout_status_def split: option.split)
  show ?thesis
    using assms up de pa ch unfolding dispatch_event_def HandleInvoicePaid_def HandleInvoicePaymentFailed_def
    by (auto simp: st reply_of_def split: if_splits option.splits prod.splits)
qed

lemma redelivery_ignored:
  assumes "IsConfigured svc" "IsWebhookConfigured svc" and "ev_ID event \<in> set (bl_Processed db)"
  shows "processBillingWebhook svc x fault (Some event) db = ((200, []), db)"
  using assms by (simp add: processBillingWebhook_def MarkEventProcessed_def split: option.split)

lemma first_delivery:
  assumes "IsConfigured svc" "IsWebhookConfigured svc" "bl_err db = None" "ev_ID event \<notin> set (bl_Processed db)"
    and "dispatch_event svc x event (db\<lparr>bl_Processed := bl_Processed db @ [ev_ID event], bl_err := fault\<rparr>) = (r, db')"
  shows "processBillingWebhook svc x fault (Some event) db = (r, db'\<lparr>bl_err := None\<rparr>)"
  using assms by (simp add: processBillingWebhook_def MarkEventProcessed_def)

lemma processed_grows:
  "set (bl_Processed db) \<subseteq> set (bl_Processed (snd (processBillingWebhook svc x fault payload db)))"
proof (cases payload)
  case (Some event)
  obtain isNew err db1 where m: "MarkEventProcessed (ev_ID event) db = (isNew, err, db1)" by (metis surj_pair)
  then have 1: "set (bl_Processed db) \<subseteq> set (bl_Processed db1)"
    by (auto simp: MarkEventProcessed_def split: option.splits if_splits)
  obtain r db2 where d: "dispatch_event svc x event (db1\<lparr>bl_err := fault\<rparr>) = (r, db2)" by fastforce
  show ?thesis using 1 processed_kept [OF d] by (simp add: processBillingWebhook_def Some m d)
qed (simp add: processBillingWebhook_def)

text \<open>A sequence of deliveries, each with the state of Stripe and the fault of the database that it meets.\<close>

definition deliver :: "'x StripeService \<Rightarrow> ('x \<times> string option \<times> stripe_event) list \<Rightarrow> billing_db \<Rightarrow> billing_db" where
  "deliver svc events db = fold (\<lambda>(x, fault, event) db. snd (processBillingWebhook svc x fault (Some event) db)) events db"

lemma processed_deliver: "set (bl_Processed db) \<subseteq> set (bl_Processed (deliver svc events db))"
  unfolding deliver_def
proof (induction events arbitrary: db)
  case (Cons e events)
  obtain x fault event where e: "e = (x, fault, event)" by (cases e) auto
  from Cons.IH [of "snd (processBillingWebhook svc x fault (Some event) db)"] processed_grows show ?case
    unfolding e by fastforce
qed simp

text \<open>C36: Webhooks are processed exactly once: the first delivery of an event runs its handler, on a database that
  has recorded the event; and however the handler ended, and whatever other webhooks were delivered in between, every later
  delivery of an event with the same id is acknowledged and changes nothing.\<close>

theorem webhook_at_most_once:
  fixes x :: 'x and fault :: "string option" and svc :: "'x StripeService"
  assumes "IsConfigured svc" "IsWebhookConfigured svc" and "bl_err db = None" and "ev_ID event \<notin> set (bl_Processed db)"
  defines "db1 \<equiv> snd (processBillingWebhook svc x fault (Some event) db)"
  shows "(\<exists>r db'. dispatch_event svc x event (db\<lparr>bl_Processed := bl_Processed db @ [ev_ID event], bl_err := fault\<rparr>) = (r, db') \<and>
      processBillingWebhook svc x fault (Some event) db = (r, db'\<lparr>bl_err := None\<rparr>)) \<and>
    (\<forall>events x' fault' again. ev_ID again = ev_ID event \<longrightarrow>
      processBillingWebhook svc x' fault' (Some again) (deliver svc events db1) = ((200, []), deliver svc events db1))"
proof -
  obtain r db' where d: "dispatch_event svc x event
      (db\<lparr>bl_Processed := bl_Processed db @ [ev_ID event], bl_err := fault\<rparr>) = (r, db')" by fastforce
  note p = first_delivery [OF assms(1-4) d]
  have "ev_ID event \<in> set (bl_Processed db1)" using processed_kept [OF d] by (simp add: db1_def p)
  then have "ev_ID event \<in> set (bl_Processed (deliver svc events db1))" for events using processed_deliver by blast
  then have "processBillingWebhook svc x' fault' (Some again) (deliver svc events db1) = ((200, []), deliver svc events db1)"
    if "ev_ID again = ev_ID event" for events x' fault' again
    using redelivery_ignored [OF assms(1,2), of again] that by simp
  with d p show ?thesis by blast
qed

text \<open>A webhook whose handler fails is lost: the event is recorded as processed before its handler runs,
  so that after the reply 500 the redelivery by Stripe is answered with 200 and does nothing.\<close>

theorem webhook_failure_lost:
  assumes "processBillingWebhook svc x fault (Some event) db = ((500, m), db1)"
  shows "processBillingWebhook svc x' fault' (Some event) db1 = ((200, []), db1)"
proof -
  have cfg: "IsConfigured svc" "IsWebhookConfigured svc"
    using assms by (auto simp: processBillingWebhook_def split: if_splits)
  let ?db = "db\<lparr>bl_Processed := bl_Processed db @ [ev_ID event], bl_err := fault\<rparr>"
  obtain r db2 where d: "dispatch_event svc x event ?db = (r, db2)" "db1 = db2\<lparr>bl_err := bl_err db\<rparr>"
    using assms cfg by (auto simp: processBillingWebhook_def MarkEventProcessed_def split: if_splits option.splits prod.splits)
  show ?thesis using redelivery_ignored [OF cfg, of event] processed_kept [OF d(1)] d(2) by simp
qed

text \<open>While the database does not answer, webhooks are acknowledged and dropped: the failed insert of the
  idempotency record affects no row, which is taken for an event that was processed already, and the reply is 200.\<close>

theorem webhook_dropped_when_db_down:
  assumes "IsConfigured svc" "IsWebhookConfigured svc" and "bl_err db = Some e"
  shows "processBillingWebhook svc x fault (Some event) db = ((200, []), db)"
  using assms by (simp add: processBillingWebhook_def MarkEventProcessed_def)

text \<open>The webhooks of the running subscription: everything but its end and a new checkout.\<close>

definition renewal_event :: "stripe_event \<Rightarrow> bool" where
  "renewal_event event \<longleftrightarrow> ev_Type event \<in> {''customer.subscription.created'', ''customer.subscription.updated'',
     ''invoice.paid'', ''invoice.payment_failed''}"

definition pending_at :: "nat \<Rightarrow> string \<Rightarrow> string \<Rightarrow> billing_db \<Rightarrow> bool" where
  "pending_at tid plan pending db \<longleftrightarrow> distinct (map ten_ID (bl_Tenants db)) \<and>
     (\<exists>t \<in> set (bl_Tenants db). ten_ID t = tid \<and> ten_Plan t = plan \<and> ten_PendingPlan t = pending)"

lemma pending_alters:
  assumes "pending_at tid plan pending db" "pending \<noteq> []"
    "alters db db' (\<lambda>t t'. plan_kept t t' \<or> ten_PendingPlan t = [] \<and> plan_settled t')"
  shows "pending_at tid plan pending db'"
proof -
  obtain f where f: "bl_Tenants db' = map f (bl_Tenants db)"
    "\<forall>t \<in> set (bl_Tenants db). ten_ID (f t) = ten_ID t \<and>
       (f t = t \<or> plan_kept t (f t) \<or> ten_PendingPlan t = [] \<and> plan_settled (f t))"
    using assms(3) unfolding alters_def by blast
  obtain t where t: "t \<in> set (bl_Tenants db)" "ten_ID t = tid" "ten_Plan t = plan" "ten_PendingPlan t = pending"
    using assms(1) by (auto simp: pending_at_def)
  have "map ten_ID (bl_Tenants db') = map ten_ID (bl_Tenants db)" using f by simp
  moreover have "f t \<in> set (bl_Tenants db')" "ten_ID (f t) = tid" "ten_Plan (f t) = plan" "ten_PendingPlan (f t) = pending"
    using f t assms(2) by (auto simp: plan_kept_def)
  ultimately show ?thesis using assms(1) by (metis pending_at_def)
qed

lemma pending_dispatch:
  assumes "pending_at tid plan pending db" "pending \<noteq> []" "renewal_event event" "dispatch_event svc x event db = (r, db')"
  shows "pending_at tid plan pending db'"
proof (rule pending_alters [OF assms(1,2)])
  have d: "distinct (map ten_ID (bl_Tenants db))" using assms(1) by (simp add: pending_at_def)
  have "alters db db1 (\<lambda>t t'. plan_kept t t' \<or> ten_PendingPlan t = [] \<and> plan_settled t')"
    if "set_status_by_invoice st iv db = (e, db1)" for st iv e db1
    using invoice_alters [OF that] by (rule alters_mono) simp
  then show "alters db db' (\<lambda>t t'. plan_kept t t' \<or> ten_PendingPlan t = [] \<and> plan_settled t')"
    using assms(3,4) HandleSubscriptionUpdated_alters [OF _ d]
    unfolding dispatch_event_def renewal_event_def HandleInvoicePaid_def HandleInvoicePaymentFailed_def
    by (auto simp: reply_of_def split: if_splits option.splits prod.splits)
qed

lemma pending_webhook:
  assumes "pending_at tid plan pending db" "pending \<noteq> []" "renewal_event event"
  shows "pending_at tid plan pending (snd (processBillingWebhook svc x fault (Some event) db))"
proof -
  have cong: "pending_at tid plan pending (d\<lparr>bl_err := e\<rparr>) = pending_at tid plan pending d" for d e by (simp add: pending_at_def)
  let ?db = "db\<lparr>bl_Processed := bl_Processed db @ [ev_ID event], bl_err := fault\<rparr>"
  obtain r db2 where d: "dispatch_event svc x event ?db = (r, db2)" by fastforce
  have "pending_at tid plan pending ?db" using assms(1) by (simp add: pending_at_def)
  from pending_dispatch [OF this assms(2,3) d] show ?thesis
    using assms(1) d by (auto simp: processBillingWebhook_def MarkEventProcessed_def cong split: option.split)
qed

text \<open>A scheduled downgrade to a lower paid plan never takes effect on its own: however many renewals,
  updates and invoices Stripe reports, the tenant keeps its old plan and the downgrade stays pending. (Stripe
  was switched to the lower price when the downgrade was scheduled.)\<close>

theorem pending_downgrade_never_applied:
  assumes "pending_at tid plan pending db" and "pending \<noteq> []" and "\<forall>(x, fault, event) \<in> set events. renewal_event event"
  shows "pending_at tid plan pending (deliver svc events db)"
  using assms(1,3) unfolding deliver_def
proof (induction events arbitrary: db)
  case (Cons e events)
  obtain x fault event where e: "e = (x, fault, event)" by (cases e) auto
  have "pending_at tid plan pending (snd (processBillingWebhook svc x fault (Some event) db))"
    by (rule pending_webhook [OF Cons.prems(1) assms(2)]) (use Cons.prems(2) e in simp)
  then show ?case using Cons.IH Cons.prems(2) e by simp
qed simp

definition undo_update :: "'x StripeService \<Rightarrow> Tenant \<Rightarrow> string \<Rightarrow> sub_update \<Rightarrow> bool" where
  "undo_update svc t target u \<longleftrightarrow>
     (if target = PlanFree then u = SetCancelAtPeriodEnd False
      else \<exists>itemID price. PriceIDForPlan svc (ten_Plan t) = Inr price \<and> u = SetPrice itemID price ''none'')"

lemma find_updated: "distinct (map ten_ID ts) \<Longrightarrow> t \<in> set ts \<Longrightarrow> ten_ID t = tid \<Longrightarrow> ten_ID (f t) = tid \<Longrightarrow>
    find (\<lambda>t. ten_ID t = tid) (map (\<lambda>t. if ten_ID t = tid then f t else t) ts) = Some (f t)"
  by (induction ts) (auto simp: image_iff)

lemma find_tenant: "distinct (map ten_ID ts) \<Longrightarrow> t \<in> set ts \<Longrightarrow> find (\<lambda>u. ten_ID u = ten_ID t) ts = Some t"
  by (induction ts) (auto simp: image_iff)

text \<open>Canceling a scheduled downgrade undoes it: when both calls succeed, the tenant's row is as before
  except for the fields of the schedule, which are empty, and the last update that Stripe received puts the
  subscription back to the price of the current plan, or withdraws its cancellation.\<close>

theorem downgrade_cancel_roundtrip:
  assumes "distinct (map ten_ID (bl_Tenants db))" and "t \<in> set (bl_Tenants db)" "ten_ID t = tid"
    and "ScheduleDowngrade svc tid target x db = (None, x1, db1)" "target \<noteq> []"
    and "CancelScheduledDowngrade svc tid x2 db1 = (None, x3, db3)"
  shows "find (\<lambda>u. ten_ID u = tid) (bl_Tenants db3) = Some (t\<lparr>ten_PendingPlan := [], ten_PlanEffectiveAt := None\<rparr>) \<and>
    (\<exists>u sub. undo_update svc t target u \<and> sp_Update (sc_api svc) x2 (ten_StripeSubscriptionID t) u = (Inr sub, x3))"
proof -
  have up: "bl_err db = None"
  proof (cases "first_tenant db (\<lambda>t. ten_ID t = tid)")
    case (Inl e)
    then have "fst (ScheduleDowngrade svc tid target x db) = Some ''fetch tenant''" by (simp add: ScheduleDowngrade_def)
    then show ?thesis using assms(4) by simp
  next
    case (Inr u)
    show ?thesis using first_tenant_Inr [OF Inr] by simp
  qed
  have t: "first_tenant db (\<lambda>t. ten_ID t = tid) = Inr t"
    using up find_tenant [OF assms(1,2)] assms(3) by (simp add: first_tenant_def db_first_def)
  obtain eff where db1: "db1 = db\<lparr>bl_Tenants := map (\<lambda>t. if ten_ID t = tid then t\<lparr>ten_PendingPlan := target, ten_PlanEffectiveAt := eff\<rparr> else t) (bl_Tenants db)\<rparr>"
    using assms(4) t up unfolding ScheduleDowngrade_def Let_def run_update_def update_tenant_def
    by (auto split: sum.splits if_splits list.splits prod.splits)
  let ?t1 = "t\<lparr>ten_PendingPlan := target, ten_PlanEffectiveAt := eff\<rparr>"
  have d1: "distinct (map ten_ID (bl_Tenants db1))" "?t1 \<in> set (bl_Tenants db1)"
    using assms(1,2,3) db1 by (auto simp: o_def if_distrib cong: if_cong map_cong)
  have t1: "first_tenant db1 (\<lambda>t. ten_ID t = tid) = Inr ?t1"
    using up db1 find_updated [OF assms(1-3), of "\<lambda>t. t\<lparr>ten_PendingPlan := target, ten_PlanEffectiveAt := eff\<rparr>"] assms(3)
    by (simp add: first_tenant_def db_first_def)
  have db3: "db3 = db1\<lparr>bl_Tenants := map (\<lambda>t. if ten_ID t = tid then t\<lparr>ten_PendingPlan := [], ten_PlanEffectiveAt := None\<rparr> else t) (bl_Tenants db1)\<rparr>"
    using assms(5,6) t1 up db1 unfolding CancelScheduledDowngrade_def Let_def run_update_def update_tenant_def
    by (auto split: sum.splits if_splits list.splits prod.splits)
  have "find (\<lambda>u. ten_ID u = tid) (bl_Tenants db3) = Some (?t1\<lparr>ten_PendingPlan := [], ten_PlanEffectiveAt := None\<rparr>)"
    unfolding db3 using find_updated [OF d1, of tid "\<lambda>t. t\<lparr>ten_PendingPlan := [], ten_PlanEffectiveAt := None\<rparr>"] assms(3) by simp
  moreover have "\<exists>u sub. undo_update svc t target u \<and> sp_Update (sc_api svc) x2 (ten_StripeSubscriptionID t) u = (Inr sub, x3)"
    using assms(5,6) t1 unfolding CancelScheduledDowngrade_def Let_def undo_update_def swap_price_def
    by (auto split: sum.splits if_splits list.splits prod.splits)
  ultimately show ?thesis by simp
qed

section \<open>A concrete tenant\<close>

definition demo_stripe :: "unit StripeService" where
  "demo_stripe = \<lparr>sc_SecretKey = ''sk'', sc_WebhookSecret = ''wh'', sc_PriceProMonthly = ''price_pro'',
     sc_PriceTeamMonthly = ''price_team'', sc_PriceBusinessMonthly = ''price_biz'',
     sc_api = \<lparr>sp_Get = (\<lambda>_ s. Inr \<lparr>sb_ID = s, sb_Status = ''active'', sb_Customer = None,
         sb_Items = [\<lparr>si_ID = ''it'', si_Price = Some ''price_pro'', si_CurrentPeriodEnd = 5\<rparr>],
         sb_Metadata = Map.empty, sb_CancelAtPeriodEnd = False\<rparr>),
       sp_Update = (\<lambda>x s u. (Inr \<lparr>sb_ID = s, sb_Status = ''active'', sb_Customer = None, sb_Items = [],
         sb_Metadata = Map.empty, sb_CancelAtPeriodEnd = False\<rparr>, x)),
       sp_GetSession = (\<lambda>_ _. Inl []), sp_NewCustomer = (\<lambda>x _ _ _. (Inl [], x)), sp_NewSession = (\<lambda>x _ _ _ _ _. (Inl [], x))\<rparr>\<rparr>"

text \<open>A Stripe whose state is the list of the metadata of its checkout sessions.\<close>

definition demo_shop :: "(string \<rightharpoonup> string) list StripeService" where
  "demo_shop = \<lparr>sc_SecretKey = ''sk'', sc_WebhookSecret = ''wh'', sc_PriceProMonthly = ''price_pro'',
     sc_PriceTeamMonthly = ''price_team'', sc_PriceBusinessMonthly = ''price_biz'',
     sc_api = \<lparr>sp_Get = (\<lambda>_ _. Inl []), sp_Update = (\<lambda>x _ _. (Inl [], x)),
       sp_GetSession = (\<lambda>x i. case x of [] \<Rightarrow> Inl [] | md # _ \<Rightarrow> Inr \<lparr>cs_ID = i, cs_Status = ''complete'', cs_Metadata = md,
         cs_Subscription = None, cs_Email = None\<rparr>),
       sp_NewCustomer = (\<lambda>x _ _ _. (Inr ''cus_1'', x)), sp_NewSession = (\<lambda>x _ _ _ _ md. (Inr (''url'', ''cs_1''), md # x))\<rparr>\<rparr>"

lemma demo_shop_sessions: "stripe_sessions (sc_api demo_shop) set"
  by (auto simp: stripe_sessions_def demo_shop_def split: list.splits)

definition demo_payer :: "string \<Rightarrow> Tenant" where
  "demo_payer pending = \<lparr>ten_ID = 7, ten_Name = ''t'', ten_Status = StatusActive, ten_Plan = PlanTeam,
     ten_DefaultProjectID = None, ten_StripeCustomerID = ''cus'', ten_StripeSubscriptionID = ''sub'', ten_PlanStatus = ''active'',
     ten_CurrentPeriodEnd = None, ten_BillingEmail = [], ten_PendingPlan = pending, ten_PlanEffectiveAt = None,
     ten_CreatedAt = 0\<rparr>"

definition demo_billing :: "string \<Rightarrow> billing_db" where
  "demo_billing pending = \<lparr>bl_err = None, bl_Tenants = [demo_payer pending], bl_Processed = [''evt_0''], bl_Checkout = []\<rparr>"

definition demo_renewal :: "string \<Rightarrow> stripe_event" where
  "demo_renewal i = \<lparr>ev_ID = i, ev_Type = ''invoice.paid'', ev_session = None, ev_subscription = None,
     ev_invoice = Some \<lparr>iv_Subscription = Some ''sub''\<rparr>\<rparr>"

lemma demo_configured: "IsConfigured demo_stripe" "IsWebhookConfigured demo_stripe"
  by (simp_all add: IsConfigured_def IsWebhookConfigured_def demo_stripe_def)

definition demo_buyer :: billing_db where
  "demo_buyer = (demo_billing [])\<lparr>bl_Tenants := [(demo_payer [])\<lparr>ten_Plan := PlanFree, ten_StripeSubscriptionID := []\<rparr>]\<rparr>"

definition demo_bought :: stripe_event where
  "demo_bought = \<lparr>ev_ID = ''evt_1'', ev_Type = ''checkout.session.completed'', ev_session = Some \<lparr>cs_ID = ''cs_1'', cs_Status = ''complete'',
     cs_Metadata = checkout_metadata 7 PlanTeam, cs_Subscription = None, cs_Email = None\<rparr>, ev_subscription = None, ev_invoice = None\<rparr>"

lemma demo_checkout:
  "handleBillingCheckout demo_shop (\<lambda>_. True) 7 (Some (PlanTeam, ''u'', ''v'')) [] demo_buyer =
     ((200, ''url''), [checkout_metadata 7 PlanTeam], demo_buyer)"
proof -
  have "ValidPlan PlanTeam" by (simp add: ValidPlan_iff AllPlans_def)
  then show ?thesis
    by (simp add: handleBillingCheckout_def CreateCheckoutSession_def EnsureCustomer_def demo_shop_def demo_buyer_def
        demo_billing_def demo_payer_def IsConfigured_def first_tenant_def db_first_def PriceIDForPlan_def)
qed

theorem plans_stay_valid_witness:
  "\<exists>x db. handleBillingCheckout demo_shop (\<lambda>_. True) 7 (Some (PlanTeam, ''u'', ''v'')) [] demo_buyer = ((200, ''url''), x, db) \<and>
     list_all (\<lambda>t. List.member AllPlans (ten_Plan t)) (bl_Tenants (snd (processBillingWebhook demo_shop x None (Some demo_bought) db)))"
proof -
  obtain r db' where p: "processBillingWebhook demo_shop [checkout_metadata 7 PlanTeam] None (Some demo_bought) demo_buyer = (r, db')"
    by fastforce
  have "billing_start set demo_shop ([], demo_buyer)"
    by (simp add: billing_start_def demo_shop_sessions sessions_ok_def demo_buyer_def demo_billing_def demo_payer_def plan_settled_def AllPlans_def)
  then have "reachable (billing_start set demo_shop) (billing_step True set demo_shop) ([checkout_metadata 7 PlanTeam], demo_buyer)"
    by (rule reachable_step [OF reachable_start]) (rule bs_checkout [OF demo_checkout])
  then have "reachable (billing_start set demo_shop) (billing_step True set demo_shop) ([checkout_metadata 7 PlanTeam], db')"
    by (rule reachable_step) (rule bs_webhook [OF p], auto simp: demo_bought_def)
  from plans_stay_valid [OF this] have "list_all (\<lambda>t. List.member AllPlans (ten_Plan t)) (bl_Tenants db')"
    by (simp add: list_all_iff)
  then show ?thesis using demo_checkout p by auto
qed

theorem webhook_at_most_once_witness:
  "let db1 = snd (processBillingWebhook demo_stripe () None (Some (demo_renewal ''evt_1'')) (demo_billing []));
       db2 = deliver demo_stripe [((), None, demo_renewal ''evt_2'')] db1
   in processBillingWebhook demo_stripe () None (Some (demo_renewal ''evt_1'')) db2 = ((200, []), db2)"
  using webhook_at_most_once [OF demo_configured, of "demo_billing []" "demo_renewal ''evt_1''" "()" None]
  by (simp add: demo_billing_def demo_renewal_def)

theorem webhook_failure_lost_witness:
  "\<exists>db1. processBillingWebhook demo_stripe () (Some ''timeout'') (Some (demo_renewal ''evt_1'')) (demo_billing []) =
       ((500, ''handler error''), db1) \<and>
     processBillingWebhook demo_stripe () None (Some (demo_renewal ''evt_1'')) db1 = ((200, []), db1)"
proof -
  obtain db1 where d: "processBillingWebhook demo_stripe () (Some ''timeout'') (Some (demo_renewal ''evt_1'')) (demo_billing []) =
      ((500, ''handler error''), db1)"
    by (simp add: processBillingWebhook_def MarkEventProcessed_def demo_configured dispatch_event_def demo_renewal_def
        demo_billing_def HandleInvoicePaid_def set_status_by_invoice_def subscriptionIDFromInvoice_def first_tenant_def
        db_first_def reply_of_def)
  then show ?thesis
    using webhook_failure_lost [OF d, of "()" None] by simp
qed

theorem webhook_dropped_when_db_down_witness:
  "processBillingWebhook demo_stripe () None (Some (demo_renewal ''evt_1'')) ((demo_billing [])\<lparr>bl_err := Some ''down''\<rparr>) =
     ((200, []), (demo_billing [])\<lparr>bl_err := Some ''down''\<rparr>)"
  by (rule webhook_dropped_when_db_down [OF demo_configured, of _ "''down''"]) simp

theorem pending_downgrade_never_applied_witness:
  "pending_at 7 PlanTeam PlanPro (deliver demo_stripe
     [((), None, demo_renewal ''evt_1''), ((), None, demo_renewal ''evt_2'')] (demo_billing PlanPro))"
  by (rule pending_downgrade_never_applied)
    (simp_all add: pending_at_def demo_billing_def demo_payer_def renewal_event_def demo_renewal_def)

theorem downgrade_cancel_roundtrip_witness:
  "\<exists>db1 db3. ScheduleDowngrade demo_stripe 7 PlanPro () (demo_billing []) = (None, (), db1) \<and>
     CancelScheduledDowngrade demo_stripe 7 () db1 = (None, (), db3) \<and>
     find (\<lambda>u. ten_ID u = 7) (bl_Tenants db3) = Some (demo_payer [])"
proof -
  obtain db1 where s: "ScheduleDowngrade demo_stripe 7 PlanPro () (demo_billing []) = (None, (), db1)"
    and db1: "db1 = (demo_billing [])\<lparr>bl_Tenants := [(demo_payer PlanPro)\<lparr>ten_PlanEffectiveAt := Some (time_Unix 5)\<rparr>]\<rparr>"
    by (simp add: ScheduleDowngrade_def first_tenant_def db_first_def demo_billing_def demo_payer_def demo_stripe_def
        IsDowngrade_def PlanLevel_def currentPeriodEndFromSub_def PriceIDForPlan_def swap_price_def run_update_def
        update_tenant_def Let_def)
  obtain db3 where c: "CancelScheduledDowngrade demo_stripe 7 () db1 = (None, (), db3)"
    by (simp add: db1 CancelScheduledDowngrade_def first_tenant_def db_first_def demo_billing_def demo_payer_def
        demo_stripe_def PriceIDForPlan_def swap_price_def run_update_def update_tenant_def Let_def)
  have "find (\<lambda>u. ten_ID u = 7) (bl_Tenants db3) = Some ((demo_payer [])\<lparr>ten_PendingPlan := [], ten_PlanEffectiveAt := None\<rparr>)"
    using downgrade_cancel_roundtrip [OF _ _ _ s _ c, of "demo_payer []"] by (simp add: demo_billing_def demo_payer_def)
  then show ?thesis using s c by (simp add: demo_payer_def)
qed

end
