(* ===== verification/SSE.thy ===== *)
theory SSE
  imports Prelude
begin

text \<open>
  Token accounting on responses (\<open>proxy/stream.go\<close>): the server-sent event streams of Anthropic and
  OpenAI are passed through to the client line by line while the token counts are extracted.

  The scanner is \<open>bufio.Scanner\<close> with its line splitter and the buffer of one mebibyte: a carriage
  return before the line break is dropped, a last line without line break counts, and a line that does not
  fit ends the scan with an error. \<open>fails\<close> tells for each line whether writing it to the client fails.
  Decoding the JSON of an event into the fields that the code reads is a parameter.
\<close>

section \<open>Scanning lines\<close>

abbreviation newline :: char where "newline \<equiv> CHR 0x0A"
abbreviation carriage_return :: char where "carriage_return \<equiv> CHR 0x0D"

definition max_line :: nat where "max_line = 1024 * 1024"

definition drop_cr :: "string \<Rightarrow> string" where
  "drop_cr s = (if s \<noteq> [] \<and> last s = carriage_return then butlast s else s)"

text \<open>The lines of the scan, and whether it ended because a line was too long.\<close>

function scan_lines :: "string \<Rightarrow> string list \<times> bool" where
  "scan_lines s =
     (if s = [] then ([], False)
      else
        (let line = takeWhile (\<lambda>c. c \<noteq> newline) s; rest = dropWhile (\<lambda>c. c \<noteq> newline) s
         in if max_line \<le> length line then ([], True)
            else (case scan_lines (tl rest) of (lines, err) \<Rightarrow> (drop_cr line # lines, err))))"
  by pat_completeness auto
termination
proof (relation "measure length", goal_cases)
  case (2 s line rest)
  have "length rest \<le> length s" "0 < length s" using 2 by (simp_all add: length_dropWhile_le)
  then have "length rest - 1 < length s" by linarith
  then show ?case by simp
qed simp

declare scan_lines.simps [simp del]

section \<open>Token counts\<close>

record TokenCounts =
  tc_InputTokens :: int
  tc_OutputTokens :: int
  tc_CacheCreationTokens :: int
  tc_CacheReadTokens :: int
  tc_MessageID :: string
  tc_Model :: string
  tc_OutputTextBytes :: int

definition no_counts :: TokenCounts where
  "no_counts = \<lparr>tc_InputTokens = 0, tc_OutputTokens = 0, tc_CacheCreationTokens = 0, tc_CacheReadTokens = 0,
     tc_MessageID = [], tc_Model = [], tc_OutputTextBytes = 0\<rparr>"

record start_message =
  sm_ID :: string
  sm_Model :: string
  sm_InputTokens :: int
  sm_CacheCreationTokens :: int
  sm_CacheReadTokens :: int

record openai_chunk =
  oc_ID :: string
  oc_Model :: string
  oc_Usage :: "(int \<times> int) option"

record anthropic_body =
  ab_ID :: string
  ab_Model :: string
  ab_InputTokens :: int
  ab_OutputTokens :: int
  ab_CacheCreationTokens :: int
  ab_CacheReadTokens :: int

record openai_body =
  ob_ID :: string
  ob_Model :: string
  ob_InputTokens :: int
  ob_OutputTokens :: int
  ob_PromptTokens :: int
  ob_CompletionTokens :: int

record sse_json =
  js_start :: "string \<Rightarrow> start_message option"
  js_delta :: "string \<Rightarrow> int option"
  js_chunk :: "string \<Rightarrow> openai_chunk option"
  js_anthropic :: "string \<Rightarrow> anthropic_body option"
  js_openai :: "string \<Rightarrow> openai_body option"

definition parseSSEEvent :: "sse_json \<Rightarrow> string \<Rightarrow> string \<Rightarrow> TokenCounts \<Rightarrow> TokenCounts" where
  "parseSSEEvent J eventType data counts =
     (if eventType = ''message_start'' then
        (case js_start J data of
           None \<Rightarrow> counts
         | Some m \<Rightarrow> counts\<lparr>tc_MessageID := sm_ID m, tc_Model := sm_Model m, tc_InputTokens := sm_InputTokens m,
             tc_CacheCreationTokens := sm_CacheCreationTokens m, tc_CacheReadTokens := sm_CacheReadTokens m\<rparr>)
      else if eventType = ''message_delta'' then
        (case js_delta J data of None \<Rightarrow> counts | Some n \<Rightarrow> counts\<lparr>tc_OutputTokens := n\<rparr>)
      else counts)"

definition join_lines :: "string list \<Rightarrow> string" where
  "join_lines ls = (case ls of [] \<Rightarrow> [] | l # ls' \<Rightarrow> l @ concat (map (\<lambda>x. newline # x) ls'))"

text \<open>The loop of \<open>ParseSSE\<close>: the event type and data lines of the block being read, the counts so far and
  the bytes written to the client.\<close>

fun sse_loop :: "sse_json \<Rightarrow> (nat \<Rightarrow> bool) \<Rightarrow> nat \<Rightarrow> string list \<Rightarrow> string \<Rightarrow> string list \<Rightarrow> TokenCounts \<Rightarrow> string \<Rightarrow>
    TokenCounts \<times> string" where
  "sse_loop J fails i [] eventType dataLines counts out = (counts, out)"
| "sse_loop J fails i (line # lines) eventType dataLines counts out =
     (if fails i then (counts, out)
      else
        (let out' = out @ line @ [newline]
         in if strings_HasPrefix line ''event:''
            then sse_loop J fails (i + 1) lines (strings_TrimSpace (strings_TrimPrefix line ''event:'')) [] counts out'
            else if strings_HasPrefix line ''data:''
            then sse_loop J fails (i + 1) lines eventType
                   (dataLines @ [strings_TrimSpace (strings_TrimPrefix line ''data:'')]) counts out'
            else if line = []
            then sse_loop J fails (i + 1) lines [] []
                   (if dataLines \<noteq> [] then parseSSEEvent J eventType (join_lines dataLines) counts else counts) out'
            else sse_loop J fails (i + 1) lines eventType dataLines counts out'))"

definition ParseSSE :: "sse_json \<Rightarrow> (nat \<Rightarrow> bool) \<Rightarrow> string \<Rightarrow> TokenCounts \<times> string \<times> bool" where
  "ParseSSE J fails body =
     (let (lines, tooLong) = scan_lines body;
          (counts, out) = sse_loop J fails 0 lines [] [] no_counts []
      in (counts, out, tooLong \<and> (\<forall>i < length lines. \<not> fails i)))"

definition chat_chunk :: "sse_json \<Rightarrow> string \<Rightarrow> TokenCounts \<Rightarrow> TokenCounts" where
  "chat_chunk J line counts =
     (if \<not> strings_HasPrefix line ''data:'' then counts
      else
        (let data = strings_TrimSpace (strings_TrimPrefix line ''data:'')
         in if data = ''[DONE]'' \<or> data = [] then counts
            else (case js_chunk J data of
                    None \<Rightarrow> counts
                  | Some chunk \<Rightarrow>
                      (let c1 = (if oc_ID chunk \<noteq> [] then counts\<lparr>tc_MessageID := oc_ID chunk\<rparr> else counts);
                           c2 = (if oc_Model chunk \<noteq> [] then c1\<lparr>tc_Model := oc_Model chunk\<rparr> else c1)
                       in case oc_Usage chunk of
                            None \<Rightarrow> c2
                          | Some (prompt, completion) \<Rightarrow> c2\<lparr>tc_InputTokens := prompt, tc_OutputTokens := completion\<rparr>))))"

fun chat_loop :: "sse_json \<Rightarrow> (nat \<Rightarrow> bool) \<Rightarrow> nat \<Rightarrow> string list \<Rightarrow> TokenCounts \<Rightarrow> string \<Rightarrow> TokenCounts \<times> string" where
  "chat_loop J fails i [] counts out = (counts, out)"
| "chat_loop J fails i (line # lines) counts out =
     (if fails i then (counts, out)
      else chat_loop J fails (i + 1) lines (chat_chunk J line counts) (out @ line @ [newline]))"

definition ParseOpenAIChatCompletionsSSE :: "sse_json \<Rightarrow> (nat \<Rightarrow> bool) \<Rightarrow> string \<Rightarrow> TokenCounts \<times> string \<times> bool" where
  "ParseOpenAIChatCompletionsSSE J fails body =
     (let (lines, tooLong) = scan_lines body; (counts, out) = chat_loop J fails 0 lines no_counts []
      in (counts, out, tooLong \<and> (\<forall>i < length lines. \<not> fails i)))"

definition extractTokensFromJSON :: "sse_json \<Rightarrow> string \<Rightarrow> TokenCounts" where
  "extractTokensFromJSON J body =
     (case js_anthropic J body of
        None \<Rightarrow> no_counts
      | Some r \<Rightarrow> no_counts\<lparr>tc_MessageID := ab_ID r, tc_Model := ab_Model r, tc_InputTokens := ab_InputTokens r,
          tc_OutputTokens := ab_OutputTokens r, tc_CacheCreationTokens := ab_CacheCreationTokens r,
          tc_CacheReadTokens := ab_CacheReadTokens r\<rparr>)"

definition extractTokensFromOpenAIResponsesJSON :: "sse_json \<Rightarrow> string \<Rightarrow> TokenCounts" where
  "extractTokensFromOpenAIResponsesJSON J body =
     (case js_openai J body of
        None \<Rightarrow> no_counts
      | Some r \<Rightarrow>
          (let inputTokens = (if ob_InputTokens r = 0 \<and> ob_PromptTokens r \<noteq> 0 then ob_PromptTokens r else ob_InputTokens r);
               outputTokens = (if ob_OutputTokens r = 0 \<and> ob_CompletionTokens r \<noteq> 0 then ob_CompletionTokens r
                               else ob_OutputTokens r)
           in no_counts\<lparr>tc_MessageID := ob_ID r, tc_Model := ob_Model r, tc_InputTokens := inputTokens,
                tc_OutputTokens := outputTokens\<rparr>))"

section \<open>Lemmas\<close>

definition plain_line :: "string \<Rightarrow> bool" where
  "plain_line l \<longleftrightarrow> newline \<notin> set l \<and> carriage_return \<notin> set l \<and> length l < max_line"

definition unlines :: "string list \<Rightarrow> string" where
  "unlines ls = concat (map (\<lambda>l. l @ [newline]) ls)"

lemma scan_lines_cons:
  assumes "plain_line l"
  shows "scan_lines (l @ newline # s) = (l # fst (scan_lines s), snd (scan_lines s))"
proof -
  have tw: "takeWhile (\<lambda>c. c \<noteq> newline) (l @ newline # s) = l" "dropWhile (\<lambda>c. c \<noteq> newline) (l @ newline # s) = newline # s"
    using assms by (induction l) (auto simp: plain_line_def)
  have "drop_cr l = l" using assms by (auto simp: drop_cr_def plain_line_def dest: last_in_set)
  then show ?thesis
    using assms by (subst scan_lines.simps) (simp add: tw plain_line_def Let_def split: prod.split)
qed

lemma scan_lines_unlines:
  "\<forall>l \<in> set ls. plain_line l \<Longrightarrow> scan_lines (unlines ls @ s) = (ls @ fst (scan_lines s), snd (scan_lines s))"
  by (induction ls) (simp_all add: unlines_def scan_lines_cons)

lemma scan_lines_Nil [simp]: "scan_lines [] = ([], False)"
  by (simp add: scan_lines.simps)

lemma sse_loop_out:
  assumes "\<And>i. \<not> fails i"
  shows "snd (sse_loop J fails i lines et dl c out) = out @ unlines lines"
  by (induction lines arbitrary: i et dl c out) (simp_all add: assms unlines_def Let_def)

lemma chat_loop_eq:
  assumes "\<And>i. \<not> fails i"
  shows "chat_loop J fails i lines c out = (fold (chat_chunk J) lines c, out @ unlines lines)"
  by (induction lines arbitrary: i c out) (simp_all add: assms unlines_def)

text \<open>The text that Anthropic sends for one event.\<close>

definition sse_block :: "string \<times> string \<Rightarrow> string list" where
  "sse_block = (\<lambda>(eventType, data). [''event: '' @ eventType, ''data: '' @ data, []])"

definition trimmed :: "string \<Rightarrow> bool" where
  "trimmed s \<longleftrightarrow> s \<noteq> [] \<and> \<not> is_space (hd s) \<and> \<not> is_space (last s)"

lemma TrimSpace_id: "trimmed s \<Longrightarrow> strings_TrimSpace s = s"
proof -
  assume t: "trimmed s"
  have "dropWhile is_space s = s" using t by (cases s) (simp_all add: trimmed_def)
  moreover have "dropWhile is_space (rev s) = rev s"
    using t by (cases s rule: rev_cases) (simp_all add: trimmed_def)
  ultimately show ?thesis by (simp add: strings_TrimSpace_def)
qed

lemma TrimSpace_trimmed: "trimmed s \<Longrightarrow> strings_TrimSpace (CHR '' '' # s) = s"
proof -
  assume t: "trimmed s"
  have "is_space (CHR '' '')" by (simp add: is_space_def)
  then have "dropWhile is_space (CHR '' '' # s) = s" using t by (cases s) (simp_all add: trimmed_def)
  moreover have "dropWhile is_space (rev s) = rev s"
    using t by (cases s rule: rev_cases) (simp_all add: trimmed_def)
  ultimately show ?thesis by (simp add: strings_TrimSpace_def)
qed

lemma sse_event_line:
  assumes "\<not> fails i" "trimmed et"
  shows "sse_loop J fails i ((''event: '' @ et) # lines) t dl c out =
    sse_loop J fails (i + 1) lines et [] c (out @ (''event: '' @ et) @ [newline])"
proof -
  have "strings_HasPrefix (''event: '' @ et) ''event:''" "strings_TrimPrefix (''event: '' @ et) ''event:'' = CHR '' '' # et"
    by (simp_all add: strings_TrimPrefix_def strings_HasPrefix_def)
  then show ?thesis using assms TrimSpace_trimmed [OF assms(2)] unfolding sse_loop.simps Let_def by argo
qed

lemma sse_data_line:
  assumes "\<not> fails i" "trimmed d"
  shows "sse_loop J fails i ((''data: '' @ d) # lines) t dl c out =
    sse_loop J fails (i + 1) lines t (dl @ [d]) c (out @ (''data: '' @ d) @ [newline])"
proof -
  have "\<not> strings_HasPrefix (''data: '' @ d) ''event:''" "strings_HasPrefix (''data: '' @ d) ''data:''"
    "strings_TrimPrefix (''data: '' @ d) ''data:'' = CHR '' '' # d"
    by (simp_all add: strings_TrimPrefix_def strings_HasPrefix_def)
  then show ?thesis using assms TrimSpace_trimmed [OF assms(2)] unfolding sse_loop.simps Let_def by argo
qed

lemma sse_blank_line:
  assumes "\<not> fails i"
  shows "sse_loop J fails i ([] # lines) t [d] c out =
    sse_loop J fails (i + 1) lines [] [] (parseSSEEvent J t d c) (out @ [newline])"
  using assms by (simp add: strings_HasPrefix_def join_lines_def)

lemma sse_loop_block:
  assumes "\<And>i. \<not> fails i" "trimmed et" "trimmed d"
  shows "sse_loop J fails i (sse_block (et, d) @ lines) [] [] c out =
    sse_loop J fails (i + 3) lines [] [] (parseSSEEvent J et d c) (out @ unlines (sse_block (et, d)))"
proof -
  have "sse_loop J fails i ((''event: '' @ et) # (''data: '' @ d) # [] # lines) [] [] c out =
      sse_loop J fails (i + 1 + 1 + 1) lines [] [] (parseSSEEvent J et d c)
        (((out @ (''event: '' @ et) @ [newline]) @ (''data: '' @ d) @ [newline]) @ [newline])"
    unfolding sse_event_line [OF assms(1,2)] sse_data_line [OF assms(1,3)] append_Nil sse_blank_line [OF assms(1)] by (rule refl)
  moreover have "i + 1 + 1 + 1 = i + 3" by simp
  moreover have "unlines (sse_block (et, d)) = (''event: '' @ et) @ [newline] @ (''data: '' @ d) @ [newline] @ [newline]"
    by (simp add: unlines_def sse_block_def)
  ultimately show ?thesis unfolding sse_block_def by (simp only: split append.simps append_assoc)
qed

lemma sse_loop_blocks:
  assumes "\<And>i. \<not> fails i" "\<forall>(et, d) \<in> set evs. trimmed et \<and> trimmed d"
  shows "sse_loop J fails i (concat (map sse_block evs)) [] [] c out =
    (fold (\<lambda>(et, d). parseSSEEvent J et d) evs c, out @ unlines (concat (map sse_block evs)))"
  using assms(2)
proof (induction evs arbitrary: i c out)
  case (Cons ev evs)
  obtain et d where ev: "ev = (et, d)" by fastforce
  have "sse_loop J fails i (sse_block (et, d) @ concat (map sse_block evs)) [] [] c out =
      sse_loop J fails (i + 3) (concat (map sse_block evs)) [] [] (parseSSEEvent J et d c) (out @ unlines (sse_block (et, d)))"
    using Cons.prems ev by (intro sse_loop_block [OF assms(1)]) simp_all
  then show ?case using Cons.IH Cons.prems ev by (simp add: unlines_def)
qed (simp add: unlines_def)

section \<open>Properties\<close>

text \<open>Events whose type and data stand on one line each, without surrounding blanks.\<close>

definition plain_event :: "string \<times> string \<Rightarrow> bool" where
  "plain_event = (\<lambda>(et, d). trimmed et \<and> trimmed d \<and> plain_line (''event: '' @ et) \<and> plain_line (''data: '' @ d))"

definition sse_text :: "(string \<times> string) list \<Rightarrow> string" where
  "sse_text evs = unlines (concat (map sse_block evs))"

lemma plain_blocks: "\<forall>ev \<in> set evs. plain_event ev \<Longrightarrow> l \<in> set (concat (map sse_block evs)) \<Longrightarrow> plain_line l"
  by (auto simp: sse_block_def plain_event_def) (simp add: plain_line_def max_line_def)

lemma scan_sse_text: "\<forall>ev \<in> set evs. plain_event ev \<Longrightarrow> scan_lines (sse_text evs) = (concat (map sse_block evs), False)"
  using scan_lines_unlines [of "concat (map sse_block evs)" "[]"] plain_blocks [of evs] by (simp add: sse_text_def)

lemma ParseSSE_text:
  assumes "\<forall>ev \<in> set evs. plain_event ev" and "\<And>i. \<not> fails i"
  shows "ParseSSE J fails (sse_text evs) = (fold (\<lambda>(et, d). parseSSEEvent J et d) evs no_counts, sse_text evs, False)"
proof -
  have "\<forall>(et, d) \<in> set evs. trimmed et \<and> trimmed d" using assms(1) by (auto simp: plain_event_def)
  note loop = sse_loop_blocks [OF assms(2) this]
  have scan: "scan_lines (sse_text evs) = (concat (map sse_block evs), False)" by (rule scan_sse_text [OF assms(1)])
  show ?thesis unfolding ParseSSE_def scan by (simp add: loop, simp add: sse_text_def)
qed

text \<open>Parsing inverts printing: on the text of any sequence of events, \<open>ParseSSE\<close> hands exactly the same
  bytes on to the client and extracts the token counts that the events carry, in their order, with no error.\<close>

theorem ParseSSE_print:
  assumes "\<forall>ev \<in> set evs. plain_event ev" and "\<And>i. \<not> fails i"
  shows "ParseSSE J fails (sse_text evs) = (fold (\<lambda>(et, d). parseSSEEvent J et d) evs no_counts, sse_text evs, False)"
  using assms by (rule ParseSSE_text)

definition demo_json :: sse_json where
  "demo_json = \<lparr>js_start = (\<lambda>d. Some \<lparr>sm_ID = ''msg'', sm_Model = ''m'', sm_InputTokens = 11, sm_CacheCreationTokens = 0,
       sm_CacheReadTokens = 0\<rparr>), js_delta = (\<lambda>d. Some 5),
     js_chunk = (\<lambda>d. Some \<lparr>oc_ID = ''c'', oc_Model = ''g'', oc_Usage = Some (3, 4)\<rparr>),
     js_anthropic = (\<lambda>_. None), js_openai = (\<lambda>_. None)\<rparr>"

definition demo_events :: "(string \<times> string) list" where
  "demo_events = [(''message_start'', ''{}''), (''message_delta'', ''{}'')]"

lemma demo_events_plain: "\<forall>ev \<in> set demo_events. plain_event ev"
  by (simp add: demo_events_def plain_event_def trimmed_def is_space_def plain_line_def max_line_def)

theorem ParseSSE_print_witness:
  "tc_OutputTokens (fst (ParseSSE demo_json (\<lambda>_. False) (sse_text demo_events))) = 5"
  using ParseSSE_print [OF demo_events_plain, of "\<lambda>_. False" demo_json]
  by (simp add: demo_events_def parseSSEEvent_def demo_json_def)

lemma sse_loop_stops:
  assumes "\<forall>(et, d) \<in> set evs. trimmed et \<and> trimmed d"
    and "\<And>j. fails j \<longleftrightarrow> i + 3 * length evs \<le> j" "lines \<noteq> []"
  shows "sse_loop J fails i (concat (map sse_block evs) @ lines) [] [] c out =
    (fold (\<lambda>(et, d). parseSSEEvent J et d) evs c, out @ unlines (concat (map sse_block evs)))"
  using assms
proof (induction evs arbitrary: i c out)
  case Nil
  then obtain l ls where "lines = l # ls" by (cases lines) auto
  then show ?case using Nil.prems(2) by (simp add: unlines_def)
next
  case (Cons ev evs)
  obtain et d where ev: "ev = (et, d)" by fastforce
  have tr: "trimmed et" "trimmed d" using Cons.prems(1) ev by auto
  have nf: "\<not> fails i" "\<not> fails (i + 1)" "\<not> fails (i + 1 + 1)" using Cons.prems(2) by simp_all
  let ?rest = "concat (map sse_block evs) @ lines"
  have "sse_loop J fails i ((''event: '' @ et) # (''data: '' @ d) # [] # ?rest) [] [] c out =
      sse_loop J fails (i + 1 + 1 + 1) ?rest [] [] (parseSSEEvent J et d c)
        (((out @ (''event: '' @ et) @ [newline]) @ (''data: '' @ d) @ [newline]) @ [newline])"
    unfolding sse_event_line [where fails = fails, OF nf(1) tr(1)] sse_data_line [where fails = fails, OF nf(2) tr(2)]
      append_Nil sse_blank_line [where fails = fails, OF nf(3)] by (rule refl)
  also have "\<dots> = (fold (\<lambda>(et, d). parseSSEEvent J et d) evs (parseSSEEvent J et d c),
      (((out @ (''event: '' @ et) @ [newline]) @ (''data: '' @ d) @ [newline]) @ [newline]) @ unlines (concat (map sse_block evs)))"
    by (rule Cons.IH) (use Cons.prems in auto)
  finally show ?case unfolding ev by (simp add: sse_block_def unlines_def)
qed

text \<open>A client that disconnects is not billed for the rest: when writing to the client fails after some
  events, the token counts are those of the events before; a \<open>message_delta\<close> that comes later, with the final
  number of output tokens, is not read.\<close>

theorem disconnect_stops_counting:
  assumes "\<forall>ev \<in> set (before @ after). plain_event ev" and "after \<noteq> []"
    and "\<And>i. fails i \<longleftrightarrow> 3 * length before \<le> i"
  shows "fst (ParseSSE J fails (sse_text (before @ after))) = fold (\<lambda>(et, d). parseSSEEvent J et d) before no_counts"
proof -
  have "\<forall>(et, d) \<in> set before. trimmed et \<and> trimmed d" using assms(1) by (auto simp: plain_event_def)
  moreover have "concat (map sse_block after) \<noteq> []" using assms(2) by (cases after) (auto simp: sse_block_def)
  ultimately have "sse_loop J fails 0 (concat (map sse_block before) @ concat (map sse_block after)) [] [] no_counts [] =
      (fold (\<lambda>(et, d). parseSSEEvent J et d) before no_counts, [] @ unlines (concat (map sse_block before)))"
    using assms(3) by (intro sse_loop_stops) simp_all
  then show ?thesis by (simp add: ParseSSE_def scan_sse_text [OF assms(1)])
qed

theorem disconnect_stops_counting_witness:
  "tc_OutputTokens (fst (ParseSSE demo_json (\<lambda>i. 3 \<le> i) (sse_text demo_events))) = 0"
proof -
  have "demo_events = [(''message_start'', ''{}'')] @ [(''message_delta'', ''{}'')]" by (simp add: demo_events_def)
  then show ?thesis
    using disconnect_stops_counting [of "[(''message_start'', ''{}'')]" "[(''message_delta'', ''{}'')]" "\<lambda>i. 3 \<le> i" demo_json]
      demo_events_plain
    by (simp add: parseSSEEvent_def demo_json_def no_counts_def)
qed

text \<open>On OpenAI streams the last usage chunk wins, and every line is handed on.\<close>

lemma ParseOpenAI_passthrough:
  assumes "\<forall>l \<in> set ls. plain_line l" "\<And>i. \<not> fails i"
  shows "ParseOpenAIChatCompletionsSSE J fails (unlines ls) = (fold (chat_chunk J) ls no_counts, unlines ls, False)"
  using scan_lines_unlines [OF assms(1), of "[]"]
  by (simp add: ParseOpenAIChatCompletionsSSE_def chat_loop_eq [OF assms(2)])

end
