(* ===== verification/Proxy.thy ===== *)
theory Proxy
  imports APIKeys ProviderKeys RateLimits SSE Worker
begin

text \<open>
  The reverse proxy: \<open>internal/proxy/handler.go\<close>, \<open>provider.go\<close>, \<open>request.go\<close> and \<open>model_registry.go\<close>, composed with the
  components it calls: the rate limiter, the budget engine, the provider keys, the stream parsers and the
  queue of usage events. All of them work on one Redis, whose state \<open>HandleProxy\<close> threads through their calls.

  A handler is a function of the request, its context, the environment and the state. The environment holds the
  tables, the successive readings of the clock, the reply of the upstream to a given request, and the measured
  latency and the fresh UUID. The goroutine that \<open>HandleProxy\<close> starts at its end is returned as a value, and run by
  \<open>settle\<close>, so that other requests can come between. JSON decoding of the request body and of the allowlist is a
  parameter, as it is for the responses in theory \<open>SSE\<close>.

  A header map is a function of the lower-case name, which is how canonical header names compare; an absent
  header reads as the empty string, as \<open>Header.Get\<close> returns it.
\<close>

section \<open>HTTP messages\<close>

type_synonym http_header = "string \<Rightarrow> string"

definition hdr_Get :: "http_header \<Rightarrow> string \<Rightarrow> string" where
  "hdr_Get hs name = hs (strings_ToLower name)"

definition hdr_Set :: "string \<Rightarrow> string \<Rightarrow> http_header \<Rightarrow> http_header" where
  "hdr_Set name v hs = hs(strings_ToLower name := v)"

definition hdr_Del :: "string \<Rightarrow> http_header \<Rightarrow> http_header" where
  "hdr_Del name hs = hs(strings_ToLower name := [])"

definition no_header :: http_header where "no_header = (\<lambda>_. [])"

record client_request =
  cq_Method :: string
  cq_Path :: string
  cq_RawQuery :: string
  cq_Header :: http_header
  cq_Body :: "string option"

record upstream_request =
  uq_Method :: string
  uq_URL :: string
  uq_Header :: http_header
  uq_Body :: string

record upstream_response =
  ur_Status :: int
  ur_Header :: "(string \<times> string) list"
  ur_Body :: string
  ur_ReadErr :: bool
  ur_WriteFails :: "nat \<Rightarrow> bool"

datatype upstream_reply = DoError bool | DoResponse upstream_response

datatype gin_result = JSONError int string string | Relayed int string | Silent | Panicked

record gin_reply =
  gr_Header :: "(string \<times> string) list"
  gr_Result :: gin_result

section \<open>Providers\<close>

abbreviation "ProviderAnthropic \<equiv> ''anthropic''"
abbreviation "ProviderOpenAI \<equiv> ''openai''"
abbreviation "ProviderGemini \<equiv> ''gemini''"
abbreviation "ProviderBedrock \<equiv> ''bedrock''"
abbreviation "ProviderVertex \<equiv> ''vertex''"

definition defaultUpstreamURLs :: "string \<rightharpoonup> string" where
  "defaultUpstreamURLs =
     [ProviderAnthropic \<mapsto> ''https://api.anthropic.com'',
      ProviderOpenAI \<mapsto> ''https://api.openai.com'',
      ProviderGemini \<mapsto> ''https://generativelanguage.googleapis.com'',
      ProviderBedrock \<mapsto> ''https://bedrock-runtime.us-east-1.amazonaws.com'',
      ProviderVertex \<mapsto> ''https://us-central1-aiplatform.googleapis.com'']"

definition tokengateHeaders :: "string list" where
  "tokengateHeaders = [''X-Tokengate-Key'', ''X-Tokengate-Provider'', ''X-Tokengate-User'', ''X-Tokengate-Project'',
     ''X-Tokengate-Session'']"

definition upstreamBase :: "string \<Rightarrow> string" where
  "upstreamBase p = (case defaultUpstreamURLs p of Some url \<Rightarrow> url | None \<Rightarrow> the (defaultUpstreamURLs ProviderAnthropic))"

definition upstreamPath :: "string \<Rightarrow> string \<Rightarrow> string" where
  "upstreamPath p originalPath =
     (if p = ProviderAnthropic then originalPath
      else let prefix = ''/v1/'' @ p
           in if strings_HasPrefix originalPath prefix then ''/v1'' @ drop (length prefix) originalPath
              else originalPath)"

definition applyByokAuth :: "string \<Rightarrow> string \<Rightarrow> http_header \<Rightarrow> http_header" where
  "applyByokAuth p key hs =
     (if p = ProviderAnthropic then hdr_Set ''x-api-key'' key (hdr_Del ''Authorization'' hs)
      else if p = ProviderOpenAI then hdr_Set ''Authorization'' (''Bearer '' @ key) hs
      else if p = ProviderGemini then hdr_Set ''x-goog-api-key'' key hs
      else if p = ProviderBedrock \<or> p = ProviderVertex then hdr_Set ''x-api-key'' key hs
      else hs)"

definition copy_header :: "http_header \<Rightarrow> string \<Rightarrow> http_header \<Rightarrow> http_header" where
  "copy_header src h dst = (if hdr_Get src h \<noteq> [] then hdr_Set h (hdr_Get src h) dst else dst)"

definition copyClientHeadersForProvider :: "string \<Rightarrow> http_header \<Rightarrow> http_header \<Rightarrow> http_header" where
  "copyClientHeadersForProvider p src dst =
     fold (copy_header src)
       (if p = ProviderAnthropic
        then [''anthropic-version'', ''anthropic-beta'', ''accept'', ''anthropic-dangerous-direct-browser-access'']
        else if p = ProviderOpenAI then [''openai-beta'', ''openai-organization'', ''accept'']
        else [''accept'']) dst"

definition stripTokengateHeaders :: "http_header \<Rightarrow> http_header" where
  "stripTokengateHeaders hs = fold hdr_Del tokengateHeaders hs"

definition modelPrefixToProvider :: "(string \<times> string) list" where
  "modelPrefixToProvider =
     [(''gpt-'', ProviderOpenAI), (''o1'', ProviderOpenAI), (''o3'', ProviderOpenAI), (''o4'', ProviderOpenAI),
      (''chatgpt-'', ProviderOpenAI), (''claude-'', ProviderAnthropic), (''gemini-'', ProviderGemini),
      (''deepseek-'', ProviderOpenAI), (''mistral-'', ProviderOpenAI), (''codestral-'', ProviderOpenAI)]"

definition ResolveProviderFromModel :: "string \<Rightarrow> string option" where
  "ResolveProviderFromModel model =
     map_option snd (find (\<lambda>(prefix, _). strings_HasPrefix (strings_ToLower model) prefix) modelPrefixToProvider)"

section \<open>Handler state\<close>

record RequestMeta =
  rm_Model :: string
  rm_MaxTokens :: int
  rm_MaxOutputTokens :: int

record GatewayEvent =
  ge_TenantID :: nat
  ge_KeyID :: string
  ge_Provider :: string
  ge_Model :: string
  ge_EventType :: string
  ge_StatusCode :: int

record ('s, 'v, 'q) ProxyHandler =
  ph_providerKeySvc :: "('s, 'v) ProviderKeyService"
  ph_eventQueue :: "'q stream_ops"
  ph_pricingEngine :: "('s, 'v) engine option"
  ph_rateLimiter :: "('s, 'v) limiter option"
  ph_gatewayEvents :: bool
  ph_json :: sse_json
  ph_meta :: "string \<Rightarrow> RequestMeta"
  ph_strings :: "string \<Rightarrow> string list option"
  ph_fix4 :: "rat \<Rightarrow> string"

record ('s, 'q) proxy_state =
  px_redis :: 's
  px_ledger :: "CostLedger list"
  px_notifs :: "NotificationEventMsg list"
  px_keys :: plaintext_cache
  px_stream :: 'q
  px_events :: "GatewayEvent list"

record proxy_env =
  pe_db :: engine_db
  pe_rl_db :: rl_db
  pe_pk_db :: pk_db
  pe_check :: go_time
  pe_budget :: go_time
  pe_reserve :: go_time
  pe_keyload :: "int \<times> int"
  pe_request_ok :: bool
  pe_upstream :: "upstream_request \<Rightarrow> upstream_reply"
  pe_response :: go_time
  pe_latency :: int
  pe_uuid :: string

text \<open>The values that the authentication middleware puts into the context of the request; with gateway
  validation off there are none, and every getter returns its zero value.\<close>

record gin_context =
  cx_tenant_id :: nat
  cx_project_id :: nat
  cx_key_id :: string
  cx_provider :: string
  cx_auth_method :: string
  cx_billing_mode :: string
  cx_api_key :: "APIKey option"

definition context_of :: "APIKey option \<Rightarrow> gin_context" where
  "context_of a =
     (case a of
        None \<Rightarrow> \<lparr>cx_tenant_id = 0, cx_project_id = 0, cx_key_id = [], cx_provider = [], cx_auth_method = [],
                 cx_billing_mode = [], cx_api_key = None\<rparr>
      | Some ak \<Rightarrow> \<lparr>cx_tenant_id = ak_TenantID ak, cx_project_id = ak_ProjectID ak, cx_key_id = ak_KeyID ak,
                    cx_provider = ak_Provider ak, cx_auth_method = ak_AuthMethod ak,
                    cx_billing_mode = ak_BillingMode ak, cx_api_key = Some ak\<rparr>)"

section \<open>Shared helpers\<close>

definition parseRequestMeta :: "('s, 'v, 'q) ProxyHandler \<Rightarrow> string \<Rightarrow> RequestMeta" where
  "parseRequestMeta h body =
     (let meta = ph_meta h body
      in if rm_MaxTokens meta = 0 \<and> 0 < rm_MaxOutputTokens meta
         then meta\<lparr>rm_MaxTokens := rm_MaxOutputTokens meta\<rparr> else meta)"

definition isModelAllowed :: "(string \<Rightarrow> string list option) \<Rightarrow> string \<Rightarrow> string \<Rightarrow> bool" where
  "isModelAllowed unmarshal allowlistJSON model =
     (if allowlistJSON = [] \<or> allowlistJSON = ''[]'' \<or> allowlistJSON = ''null'' then True
      else case unmarshal allowlistJSON of
             None \<Rightarrow> True
           | Some allowed \<Rightarrow> allowed = [] \<or> List.member allowed model)"

definition determineBillable :: "string \<Rightarrow> bool" where
  "determineBillable billingMode = IsBillableMode billingMode"

definition rate_limit_reply :: "RateLimitResult \<Rightarrow> string \<Rightarrow> gin_reply" where
  "rate_limit_reply res model =
     (let sec = quot (rr_RetryAfterMs res) 1000; retryAfterSec = (if sec < 1 then 1 else sec)
      in \<lparr>gr_Header = [(''Retry-After'', show_int retryAfterSec), (''X-Tokengate-RateLimit-Metric'', rr_Metric res)],
          gr_Result = JSONError 429 ''rate_limit_error''
            (''Rate limit exceeded: '' @ show_int (rr_Limit res) @ '' '' @ rr_Metric res @ '' for '' @ model)\<rparr>)"

definition checkRateLimit :: "('s, 'v, 'q) ProxyHandler \<Rightarrow> proxy_env \<Rightarrow> nat \<Rightarrow> string \<Rightarrow> string \<Rightarrow> string \<Rightarrow> nat \<Rightarrow> int \<Rightarrow>
    ('s, 'q) proxy_state \<Rightarrow> gin_reply option \<times> ('s, 'q) proxy_state" where
  "checkRateLimit h env tenantID keyID provider model bodyLen maxTokens st =
     (case ph_rateLimiter h of
        None \<Rightarrow> (None, st)
      | Some l \<Rightarrow>
          (let est = (if int bodyLen div 4 < 1 then 1 else int bodyLen div 4);
               (res, ls) = Check l (pe_rl_db env) (pe_check env) tenantID keyID provider model est maxTokens
                 \<lparr>ls_redis = px_redis st, ls_notifs = px_notifs st\<rparr>;
               st' = st\<lparr>px_redis := ls_redis ls, px_notifs := ls_notifs ls\<rparr>
           in case res of
                Some r \<Rightarrow> if rr_Exceeded r then (Some (rate_limit_reply r model), st') else (None, st')
              | None \<Rightarrow> (None, st')))"

datatype budget_gate = BudgetRefused gin_reply | BudgetPass rat "(string \<times> string) list"

definition warning_headers :: "('s, 'v, 'q) ProxyHandler \<Rightarrow> BudgetStatus option \<Rightarrow> (string \<times> string) list" where
  "warning_headers h status =
     (case status of
        Some s \<Rightarrow>
          if bs_AtWarning s
          then [(''X-Tokengate-Budget-Warning'', ''true''), (''X-Tokengate-Budget-Limit'', ph_fix4 h (bs_LimitAmount s)),
                (''X-Tokengate-Budget-Used'', ph_fix4 h (bs_CurrentSpend s)), (''X-Tokengate-Budget-Period'', bs_Period s),
                (''X-Tokengate-Budget-Scope'', bs_Scope s)]
          else []
      | None \<Rightarrow> [])"

definition preCheckBudget :: "('s, 'v, 'q) ProxyHandler \<Rightarrow> proxy_env \<Rightarrow> nat \<Rightarrow> string \<Rightarrow> string \<Rightarrow> string \<Rightarrow> int \<Rightarrow>
    ('s, 'q) proxy_state \<Rightarrow> budget_gate \<times> ('s, 'q) proxy_state" where
  "preCheckBudget h env tenantID keyID provider model maxTokens st =
     (case ph_pricingEngine h of
        None \<Rightarrow> (BudgetPass 0 [], st)
      | Some e \<Rightarrow>
          (case PreCheckBudget e (pe_db env) tenantID keyID provider (pe_budget env)
                  \<lparr>es_redis = px_redis st, es_ledger = px_ledger st, es_notifs = px_notifs st\<rparr> of
             (res, es) \<Rightarrow>
               (let st1 = st\<lparr>px_redis := es_redis es, px_notifs := es_notifs es\<rparr>
                in case res of
                     PrePanic \<Rightarrow> (BudgetRefused \<lparr>gr_Header = [], gr_Result = Panicked\<rparr>, st1)
                   | PreBlocked _ err \<Rightarrow>
                       (BudgetRefused \<lparr>gr_Header = [], gr_Result = JSONError 402 ''tg_budget_exceeded''
                          (''Budget limit exceeded for period='' @ be_Period err @ ''. Limit: '' @
                           ph_fix4 h (be_LimitAmount err) @ '', Current: '' @ ph_fix4 h (be_CurrentSpend err))\<rparr>, st1)
                   | PreOK status \<Rightarrow>
                       (let (reserved, s2) =
                              (if 0 < maxTokens
                               then ReserveSpend e (pe_db env) (pe_reserve env) tenantID keyID provider model maxTokens
                                      (px_redis st1)
                               else (0, px_redis st1))
                        in (BudgetPass reserved (warning_headers h status), st1\<lparr>px_redis := s2\<rparr>)))))"

definition no_provider_key :: gin_result where
  "no_provider_key = JSONError 401 ''tg_no_provider_key''
     ''No active provider key configured for this tenant. Add a provider key or switch to pass-through auth.''"

definition resolveAuth :: "('s, 'v, 'q) ProxyHandler \<Rightarrow> proxy_env \<Rightarrow> nat \<Rightarrow> string \<Rightarrow> string \<Rightarrow> ('s, 'q) proxy_state \<Rightarrow>
    (gin_result, string option) result \<times> ('s, 'q) proxy_state" where
  "resolveAuth h env tenantID provider authMethod st =
     (if authMethod \<noteq> AuthMethodBYOK then (Inr None, st)
      else case GetActiveKey (ph_providerKeySvc h) (fst (pe_keyload env)) (snd (pe_keyload env)) tenantID provider
                  (pe_pk_db env) (px_redis st, px_keys st) of
             (res, s, cache) \<Rightarrow>
               (let st' = st\<lparr>px_redis := s, px_keys := cache\<rparr>
                in case res of
                     Inl ErrNoActiveKey \<Rightarrow> (Inl no_provider_key, st')
                   | Inl _ \<Rightarrow> (Inl (JSONError 500 ''tg_internal_error'' ''Failed to retrieve provider key.''), st')
                   | Inr plaintextKey \<Rightarrow>
                       if plaintextKey \<noteq> [] then (Inr (Some plaintextKey), st') else (Inl no_provider_key, st')))"

definition passthrough_headers :: "string list" where
  "passthrough_headers = [''Authorization'', ''x-api-key'', ''x-goog-api-key'']"

abbreviation "defaultAnthropicVersion \<equiv> ''2023-06-01''"

definition upstream_header :: "string \<Rightarrow> string option \<Rightarrow> http_header \<Rightarrow> http_header" where
  "upstream_header provider byokKey client =
     (let hs1 = stripTokengateHeaders (copyClientHeadersForProvider provider client no_header);
          hs2 = (case byokKey of
                   Some key \<Rightarrow> applyByokAuth provider key hs1
                 | None \<Rightarrow> fold (copy_header client) passthrough_headers hs1);
          hs3 = copy_header client ''Content-Type'' hs2
      in if provider = ProviderAnthropic \<and> hdr_Get hs3 ''anthropic-version'' = []
         then hdr_Set ''anthropic-version'' defaultAnthropicVersion hs3 else hs3)"

text \<open>\<open>http.NewRequestWithContext\<close> fails on a method or a URL it cannot parse.\<close>

definition buildUpstreamRequest :: "bool \<Rightarrow> string \<Rightarrow> string \<Rightarrow> string \<Rightarrow> string \<Rightarrow> string option \<Rightarrow> http_header \<Rightarrow>
    upstream_request option" where
  "buildUpstreamRequest valid method url body provider byokKey client =
     (if \<not> valid then None
      else Some \<lparr>uq_Method = method, uq_URL = url, uq_Header = upstream_header provider byokKey client, uq_Body = body\<rparr>)"

text \<open>The header of the reply: \<open>Set\<close> and \<open>Del\<close> act on every entry of the name.\<close>

definition out_Del :: "string \<Rightarrow> (string \<times> string) list \<Rightarrow> (string \<times> string) list" where
  "out_Del name hs = filter (\<lambda>(k, _). strings_ToLower k \<noteq> strings_ToLower name) hs"

definition out_Set :: "string \<Rightarrow> string \<Rightarrow> (string \<times> string) list \<Rightarrow> (string \<times> string) list" where
  "out_Set name v hs = out_Del name hs @ [(name, v)]"

definition copyAndWriteResponseHeaders :: "(string \<times> string) list \<Rightarrow> bool \<Rightarrow> (string \<times> string) list \<Rightarrow>
    (string \<times> string) list" where
  "copyAndWriteResponseHeaders respHeader isSSE out =
     (let out1 = out @ out_Del ''Content-Length'' respHeader
      in if isSSE
         then out_Del ''Content-Length'' (out_Set ''X-Accel-Buffering'' ''no'' (out_Set ''Cache-Control'' ''no-cache''
                (out_Set ''Content-Type'' ''text/event-stream'' out1)))
         else out1)"

section \<open>Bookkeeping after the response\<close>

record bookkeeping =
  bk_tenantID :: nat
  bk_projectID :: nat
  bk_keyID :: string
  bk_provider :: string
  bk_model :: string
  bk_maxTokens :: int
  bk_counts :: TokenCounts
  bk_reserved :: rat
  bk_billed :: bool
  bk_hint :: string
  bk_latency :: int
  bk_ts :: go_time

definition reconcilePostResponse :: "('s, 'v, 'q) ProxyHandler \<Rightarrow> rl_db \<Rightarrow> go_time \<Rightarrow> nat \<Rightarrow> string \<Rightarrow> string \<Rightarrow> string \<Rightarrow> int \<Rightarrow>
    int \<Rightarrow> rat \<Rightarrow> 's \<Rightarrow> 's" where
  "reconcilePostResponse h db now tenantID keyID provider model maxTokens outputTokens reserved s =
     (let s1 = (case ph_rateLimiter h of
                  Some l \<Rightarrow> if 0 < maxTokens then Reconcile l db now tenantID keyID provider model outputTokens maxTokens s else s
                | None \<Rightarrow> s)
      in case ph_pricingEngine h of
           Some e \<Rightarrow> if reserved \<noteq> 0 then ReleaseReservation e now tenantID keyID reserved s1 else s1
         | None \<Rightarrow> s1)"

definition usage_msg :: "bookkeeping \<Rightarrow> UsageEventMsg" where
  "usage_msg bk =
     \<lparr>um_TenantID = bk_tenantID bk, um_ProjectID = bk_projectID bk, um_KeyID = bk_keyID bk, um_Provider = bk_provider bk,
      um_Model = tc_Model (bk_counts bk), um_InputTokens = tc_InputTokens (bk_counts bk),
      um_OutputTokens = tc_OutputTokens (bk_counts bk), um_CacheCreationTokens = tc_CacheCreationTokens (bk_counts bk),
      um_CacheReadTokens = tc_CacheReadTokens (bk_counts bk), um_MessageID = tc_MessageID (bk_counts bk),
      um_ProviderKeyHint = bk_hint bk, um_LatencyMs = bk_latency bk, um_Timestamp = bk_ts bk,
      um_APIUsageBilled = bk_billed bk\<rparr>"

definition publishUsageEvent :: "('s, 'v, 'q) ProxyHandler \<Rightarrow> bookkeeping \<Rightarrow> 'q \<Rightarrow> 'q" where
  "publishUsageEvent h bk q =
     (if bk_tenantID bk = 0 then q
      else if tc_MessageID (bk_counts bk) = [] \<and> tc_InputTokens (bk_counts bk) = 0 \<and> tc_OutputTokens (bk_counts bk) = 0
      then q
      else snd (Publish (ph_eventQueue h) (usage_msg bk) q))"

text \<open>The goroutine at the end of \<open>HandleProxy\<close>.\<close>

definition settle :: "('s, 'v, 'q) ProxyHandler \<Rightarrow> rl_db \<Rightarrow> go_time \<Rightarrow> bookkeeping \<Rightarrow> ('s, 'q) proxy_state \<Rightarrow> ('s, 'q) proxy_state" where
  "settle h db now bk st =
     st\<lparr>px_redis := reconcilePostResponse h db now (bk_tenantID bk) (bk_keyID bk) (bk_provider bk) (bk_model bk)
          (bk_maxTokens bk) (tc_OutputTokens (bk_counts bk)) (bk_reserved bk) (px_redis st),
        px_stream := publishUsageEvent h bk (px_stream st)\<rparr>"

section \<open>HandleProxy\<close>

record ('s, 'q) outcome =
  oc_reply :: gin_reply
  oc_sent :: "upstream_request option"
  oc_pending :: "bookkeeping option"
  oc_state :: "('s, 'q) proxy_state"

definition refuse :: "gin_reply \<Rightarrow> ('s, 'q) proxy_state \<Rightarrow> ('s, 'q) outcome" where
  "refuse r st = \<lparr>oc_reply = r, oc_sent = None, oc_pending = None, oc_state = st\<rparr>"

definition error_reply :: "(string \<times> string) list \<Rightarrow> gin_result \<Rightarrow> gin_reply" where
  "error_reply hs r = \<lparr>gr_Header = hs, gr_Result = r\<rparr>"

text \<open>The verb \<open>%q\<close> on a printable name without quotes and backslashes.\<close>

definition go_quote :: "string \<Rightarrow> string" where
  "go_quote s = CHR 0x22 # s @ [CHR 0x22]"

definition blocked_by_allowlist :: "('s, 'v, 'q) ProxyHandler \<Rightarrow> gin_context \<Rightarrow> string \<Rightarrow> bool" where
  "blocked_by_allowlist h c model =
     (case cx_api_key c of
        None \<Rightarrow> False
      | Some ak \<Rightarrow>
          (case ak_ModelAllowlist ak of
             None \<Rightarrow> False
           | Some allowlist \<Rightarrow> allowlist \<noteq> [] \<and> \<not> isModelAllowed (ph_strings h) allowlist model))"

definition record_event :: "('s, 'v, 'q) ProxyHandler \<Rightarrow> GatewayEvent \<Rightarrow> ('s, 'q) proxy_state \<Rightarrow> ('s, 'q) proxy_state" where
  "record_event h ev st = (if ph_gatewayEvents h then st\<lparr>px_events := px_events st @ [ev]\<rparr> else st)"

definition key_hint :: "bool \<Rightarrow> string option \<Rightarrow> http_header \<Rightarrow> string" where
  "key_hint billed byokKey client =
     (if \<not> billed then []
      else MaskKey
        (case byokKey of
           Some key \<Rightarrow> key
         | None \<Rightarrow>
             if hdr_Get client ''x-api-key'' \<noteq> [] then hdr_Get client ''x-api-key''
             else if strings_HasPrefix (hdr_Get client ''Authorization'') ''Bearer ''
             then strings_TrimPrefix (hdr_Get client ''Authorization'') ''Bearer ''
             else []))"

text \<open>Lines of a response that is passed through without counting.\<close>

fun relay_lines :: "(nat \<Rightarrow> bool) \<Rightarrow> nat \<Rightarrow> string list \<Rightarrow> string" where
  "relay_lines fails i [] = []"
| "relay_lines fails i (line # lines) = (if fails i then [] else line @ newline # relay_lines fails (Suc i) lines)"

text \<open>The body of a response with status 200: the counts and what the client receives; \<open>None\<close> when the body could
  not be read, where the handler returns without bookkeeping.\<close>

definition consume :: "('s, 'v, 'q) ProxyHandler \<Rightarrow> string \<Rightarrow> string \<Rightarrow> bool \<Rightarrow> upstream_response \<Rightarrow> (TokenCounts \<times> string) option" where
  "consume h uuid provider isSSE resp =
     (if provider = ProviderAnthropic then
        (if isSSE then (case ParseSSE (ph_json h) (ur_WriteFails resp) (ur_Body resp) of (counts, out, _) \<Rightarrow> Some (counts, out))
         else if ur_ReadErr resp then None
         else Some (extractTokensFromJSON (ph_json h) (ur_Body resp), ur_Body resp))
      else if provider = ProviderOpenAI then
        map_option (\<lambda>(counts, out).
            (if tc_MessageID counts = [] then counts\<lparr>tc_MessageID := ''openai_'' @ uuid\<rparr> else counts, out))
          (if isSSE then (case ParseOpenAIChatCompletionsSSE (ph_json h) (ur_WriteFails resp) (ur_Body resp) of
                            (counts, out, _) \<Rightarrow> Some (counts, out))
           else if ur_ReadErr resp then None
           else Some (extractTokensFromOpenAIResponsesJSON (ph_json h) (ur_Body resp), ur_Body resp))
      else Some (no_counts, if isSSE then relay_lines (ur_WriteFails resp) 0 (fst (scan_lines (ur_Body resp))) else ur_Body resp))"

definition upstream_url :: "string \<Rightarrow> client_request \<Rightarrow> string" where
  "upstream_url provider req = upstreamBase provider @ upstreamPath provider (cq_Path req) @
     (if cq_RawQuery req \<noteq> [] then ''?'' @ cq_RawQuery req else [])"

text \<open>From the upstream call to the end of the handler.\<close>

definition relay :: "('s, 'v, 'q) ProxyHandler \<Rightarrow> proxy_env \<Rightarrow> gin_context \<Rightarrow> string \<Rightarrow> RequestMeta \<Rightarrow> rat \<Rightarrow> string \<Rightarrow>
    (string \<times> string) list \<Rightarrow> upstream_request \<Rightarrow> ('s, 'q) proxy_state \<Rightarrow> ('s, 'q) outcome" where
  "relay h env c provider meta reserved hint hs uq st =
     (let sent = \<lambda>r pending. \<lparr>oc_reply = r, oc_sent = Some uq, oc_pending = pending, oc_state = st\<rparr>
      in case pe_upstream env uq of
           DoError clientGone \<Rightarrow>
             if clientGone then sent (error_reply hs Silent) None
             else sent (error_reply hs (JSONError 502 ''tg_upstream_error'' ''Upstream request failed.'')) None
         | DoResponse resp \<Rightarrow>
             (let isSSE = strings_Contains (resp_Get (ur_Header resp) ''Content-Type'') ''text/event-stream'';
                  out = copyAndWriteResponseHeaders (ur_Header resp) isSSE hs
              in if ur_Status resp \<noteq> 200 then sent (error_reply out (Relayed (ur_Status resp) (ur_Body resp))) None
                 else case consume h (pe_uuid env) provider isSSE resp of
                        None \<Rightarrow> sent (error_reply out (Relayed 200 [])) None
                      | Some (counts, body) \<Rightarrow>
                          sent (error_reply out (Relayed 200 body))
                            (Some \<lparr>bk_tenantID = cx_tenant_id c, bk_projectID = cx_project_id c, bk_keyID = cx_key_id c,
                                   bk_provider = provider, bk_model = rm_Model meta, bk_maxTokens = rm_MaxTokens meta,
                                   bk_counts = counts, bk_reserved = reserved,
                                   bk_billed = determineBillable (cx_billing_mode c), bk_hint = hint,
                                   bk_latency = pe_latency env, bk_ts = pe_response env\<rparr>)))"

definition HandleProxy :: "('s, 'v, 'q) ProxyHandler \<Rightarrow> proxy_env \<Rightarrow> gin_context \<Rightarrow> client_request \<Rightarrow> ('s, 'q) proxy_state \<Rightarrow>
    ('s, 'q) outcome" where
  "HandleProxy h env c req st =
     (let provider = (if cx_provider c = [] then ProviderAnthropic else cx_provider c);
          tenantID = cx_tenant_id c; keyID = cx_key_id c
      in case cq_Body req of
           None \<Rightarrow> refuse (error_reply [] (JSONError 400 ''tg_bad_request'' ''Failed to read request body.'')) st
         | Some body \<Rightarrow>
             (let meta = parseRequestMeta h body
              in if blocked_by_allowlist h c (rm_Model meta)
                 then refuse (error_reply [] (JSONError 403 ''model_not_allowed''
                   (''Model '' @ go_quote (rm_Model meta) @ '' is not in this API key'' @ [CHR 0x27] @ ''s allowlist.''))) st
                 else
                   (case checkRateLimit h env tenantID keyID provider (rm_Model meta) (length body) (rm_MaxTokens meta) st of
                      (Some r, st1) \<Rightarrow>
                        refuse r (record_event h \<lparr>ge_TenantID = tenantID, ge_KeyID = keyID, ge_Provider = provider,
                          ge_Model = rm_Model meta, ge_EventType = ''rate_limit_429'', ge_StatusCode = 429\<rparr> st1)
                    | (None, st1) \<Rightarrow>
                        (case preCheckBudget h env tenantID keyID provider (rm_Model meta) (rm_MaxTokens meta) st1 of
                           (BudgetRefused r, st2) \<Rightarrow>
                             refuse r (if gr_Result r = Panicked then st2
                               else record_event h \<lparr>ge_TenantID = tenantID, ge_KeyID = keyID, ge_Provider = provider,
                                 ge_Model = rm_Model meta, ge_EventType = ''budget_exceeded_402'', ge_StatusCode = 402\<rparr> st2)
                         | (BudgetPass reserved hs, st2) \<Rightarrow>
                             (case resolveAuth h env tenantID provider (cx_auth_method c) st2 of
                                (Inl r, st3) \<Rightarrow> refuse (error_reply hs r) st3
                              | (Inr byokKey, st3) \<Rightarrow>
                                  (case buildUpstreamRequest (pe_request_ok env) (cq_Method req) (upstream_url provider req)
                                          body provider byokKey (cq_Header req) of
                                     None \<Rightarrow> refuse (error_reply hs (JSONError 500 ''tg_internal_error''
                                               ''Failed to build upstream request.'')) st3
                                   | Some uq \<Rightarrow>
                                       relay h env c provider meta reserved
                                         (key_hint (determineBillable (cx_billing_mode c)) byokKey (cq_Header req))
                                         hs uq st3))))))"

section \<open>Anthropic passthroughs\<close>

text \<open>The key that \<open>HandleModels\<close> and \<open>HandleCountTokens\<close> send: \<open>Inl\<close> is the reply that ends the request.\<close>

definition resolve_key :: "('s, 'v, 'q) ProxyHandler \<Rightarrow> proxy_env \<Rightarrow> gin_context \<Rightarrow> http_header \<Rightarrow> ('s, 'q) proxy_state \<Rightarrow>
    (gin_result, string) result \<times> ('s, 'q) proxy_state" where
  "resolve_key h env c client st =
     (let passthrough =
            (let key = (if hdr_Get client ''x-api-key'' \<noteq> [] then hdr_Get client ''x-api-key''
                        else if hdr_Get client ''Authorization'' \<noteq> []
                        then strings_TrimPrefix (hdr_Get client ''Authorization'') ''Bearer '' else [])
             in if key = [] then Inl (JSONError 401 ''no_active_provider_key'' []) else Inr key)
      in if cx_auth_method c \<noteq> AuthMethodBYOK then (passthrough, st)
         else case GetActiveKey (ph_providerKeySvc h) (fst (pe_keyload env)) (snd (pe_keyload env)) (cx_tenant_id c)
                     ProviderAnthropic (pe_pk_db env) (px_redis st, px_keys st) of
                (res, s, cache) \<Rightarrow>
                  (let st' = st\<lparr>px_redis := s, px_keys := cache\<rparr>
                   in case res of
                        Inl err \<Rightarrow>
                          if err \<noteq> ErrNoActiveKey then (Inl (JSONError 500 ''failed to retrieve provider key'' []), st')
                          else (passthrough, st')
                      | Inr key \<Rightarrow> if key = [] then (passthrough, st') else (Inr key, st')))"

definition plain_relay :: "proxy_env \<Rightarrow> upstream_request \<Rightarrow> ('s, 'q) proxy_state \<Rightarrow> bool \<Rightarrow> ('s, 'q) outcome" where
  "plain_relay env uq st watch =
     (let sent = \<lambda>r. \<lparr>oc_reply = r, oc_sent = Some uq, oc_pending = None, oc_state = st\<rparr>
      in case pe_upstream env uq of
           DoError clientGone \<Rightarrow>
             if watch \<and> clientGone then sent (error_reply [] Silent)
             else sent (error_reply [] (JSONError 502 ''upstream request failed'' []))
         | DoResponse resp \<Rightarrow>
             sent (error_reply (out_Del ''Content-Length'' (ur_Header resp)) (Relayed (ur_Status resp) (ur_Body resp))))"

definition HandleModels :: "('s, 'v, 'q) ProxyHandler \<Rightarrow> proxy_env \<Rightarrow> gin_context \<Rightarrow> client_request \<Rightarrow> ('s, 'q) proxy_state \<Rightarrow>
    ('s, 'q) outcome" where
  "HandleModels h env c req st =
     (case resolve_key h env c (cq_Header req) st of
        (Inl r, st') \<Rightarrow> refuse (error_reply [] r) st'
      | (Inr key, st') \<Rightarrow>
          if \<not> pe_request_ok env then refuse (error_reply [] (JSONError 500 ''failed to build upstream request'' [])) st'
          else plain_relay env
                 \<lparr>uq_Method = ''GET'', uq_URL = upstreamBase ProviderAnthropic @ ''/v1/models'',
                  uq_Header = copy_header (cq_Header req) ''anthropic-version''
                    (hdr_Set ''anthropic-version'' defaultAnthropicVersion (hdr_Set ''x-api-key'' key no_header)),
                  uq_Body = []\<rparr> st' False)"

definition HandleCountTokens :: "('s, 'v, 'q) ProxyHandler \<Rightarrow> proxy_env \<Rightarrow> gin_context \<Rightarrow> client_request \<Rightarrow> ('s, 'q) proxy_state \<Rightarrow>
    ('s, 'q) outcome" where
  "HandleCountTokens h env c req st =
     (case resolve_key h env c (cq_Header req) st of
        (Inl r, st') \<Rightarrow> refuse (error_reply [] r) st'
      | (Inr key, st') \<Rightarrow>
          (case cq_Body req of
             None \<Rightarrow> refuse (error_reply [] (JSONError 400 ''failed to read request body'' [])) st'
           | Some body \<Rightarrow>
               if \<not> pe_request_ok env then refuse (error_reply [] (JSONError 500 ''failed to build upstream request'' [])) st'
               else plain_relay env
                      \<lparr>uq_Method = ''POST'', uq_URL = upstreamBase ProviderAnthropic @ ''/v1/messages/count_tokens'',
                       uq_Header = copy_header (cq_Header req) ''anthropic-beta''
                         (copy_header (cq_Header req) ''anthropic-version''
                           (hdr_Set ''anthropic-version'' defaultAnthropicVersion
                             (hdr_Set ''x-api-key'' key (hdr_Set ''Content-Type'' ''application/json'' no_header)))),
                       uq_Body = body\<rparr> st' True))"

section \<open>Headers\<close>

lemma lower_names [simp]:
  "strings_ToLower ''Authorization'' = ''authorization''" "strings_ToLower ''x-api-key'' = ''x-api-key''"
  "strings_ToLower ''x-goog-api-key'' = ''x-goog-api-key''" "strings_ToLower ''Content-Type'' = ''content-type''"
  "strings_ToLower ''anthropic-version'' = ''anthropic-version''" "strings_ToLower ''anthropic-beta'' = ''anthropic-beta''"
  "strings_ToLower ''accept'' = ''accept''" "strings_ToLower ''openai-beta'' = ''openai-beta''"
  "strings_ToLower ''openai-organization'' = ''openai-organization''"
  "strings_ToLower ''anthropic-dangerous-direct-browser-access'' = ''anthropic-dangerous-direct-browser-access''"
  "strings_ToLower ''X-Tokengate-Key'' = ''x-tokengate-key''" "strings_ToLower ''X-Tokengate-Provider'' = ''x-tokengate-provider''"
  "strings_ToLower ''X-Tokengate-User'' = ''x-tokengate-user''" "strings_ToLower ''X-Tokengate-Project'' = ''x-tokengate-project''"
  "strings_ToLower ''X-Tokengate-Session'' = ''x-tokengate-session''" "strings_ToLower ''X-TokenGate-Key'' = ''x-tokengate-key''"
  by code_simp+

lemmas hdr_defs = hdr_Get_def hdr_Set_def hdr_Del_def no_header_def copy_header_def



text \<open>The names under which anything can reach the upstream besides the credentials.\<close>

definition forwarded_names :: "string set" where
  "forwarded_names = {''anthropic-version'', ''anthropic-beta'', ''accept'', ''anthropic-dangerous-direct-browser-access'',
     ''openai-beta'', ''openai-organization'', ''content-type''}"

definition credential_names :: "string set" where
  "credential_names = {''authorization'', ''x-api-key'', ''x-goog-api-key''}"

lemma copy_header_apply:
  "copy_header client h hs n = (if n = strings_ToLower h \<and> client n \<noteq> [] then client n else hs n)"
  by (auto simp: copy_header_def hdr_Get_def hdr_Set_def)

lemma passthrough_apply:
  "fold (copy_header client) passthrough_headers hs n = (if n \<in> credential_names \<and> client n \<noteq> [] then client n else hs n)"
  by (auto simp: passthrough_headers_def copy_header_apply credential_names_def)

lemma upstream_header_eq:
  "n \<notin> forwarded_names \<Longrightarrow> upstream_header provider byokKey client n =
    (let hs1 = stripTokengateHeaders (copyClientHeadersForProvider provider client no_header)
     in case byokKey of Some key \<Rightarrow> applyByokAuth provider key hs1 n
        | None \<Rightarrow> fold (copy_header client) passthrough_headers hs1 n)"
  by (simp add: upstream_header_def Let_def copy_header_apply hdr_Set_def forwarded_names_def split: option.split)

section \<open>Admission\<close>

abbreviation provider_of :: "gin_context \<Rightarrow> string" where
  "provider_of c \<equiv> (if cx_provider c = [] then ProviderAnthropic else cx_provider c)"

lemma HandleProxy_sent:
  assumes "oc_sent (HandleProxy h env c req st) = Some uq"
  obtains body st1 reserved hs st2 key st3 where
    "cq_Body req = Some body" "\<not> blocked_by_allowlist h c (rm_Model (parseRequestMeta h body))"
    "checkRateLimit h env (cx_tenant_id c) (cx_key_id c) (provider_of c) (rm_Model (parseRequestMeta h body))
       (length body) (rm_MaxTokens (parseRequestMeta h body)) st = (None, st1)"
    "preCheckBudget h env (cx_tenant_id c) (cx_key_id c) (provider_of c) (rm_Model (parseRequestMeta h body))
       (rm_MaxTokens (parseRequestMeta h body)) st1 = (BudgetPass reserved hs, st2)"
    "resolveAuth h env (cx_tenant_id c) (provider_of c) (cx_auth_method c) st2 = (Inr key, st3)"
    "uq = \<lparr>uq_Method = cq_Method req, uq_URL = upstream_url (provider_of c) req,
       uq_Header = upstream_header (provider_of c) key (cq_Header req), uq_Body = body\<rparr>"
    "HandleProxy h env c req st = relay h env c (provider_of c) (parseRequestMeta h body) reserved
       (key_hint (determineBillable (cx_billing_mode c)) key (cq_Header req)) hs uq st3"
proof (cases "cq_Body req")
  case None
  with assms show thesis by (simp add: HandleProxy_def refuse_def)
next
  case (Some body)
  let ?m = "parseRequestMeta h body" and ?T = "cx_tenant_id c" and ?K = "cx_key_id c" and ?P = "provider_of c"
  have al: "\<not> blocked_by_allowlist h c (rm_Model ?m)"
    using assms Some by (auto simp: HandleProxy_def refuse_def Let_def split: if_splits)
  obtain r st1 where 1: "checkRateLimit h env ?T ?K ?P (rm_Model ?m) (length body) (rm_MaxTokens ?m) st = (r, st1)" by fastforce
  note unf = HandleProxy_def [of h env c req st, unfolded Let_def Some option.case]
  have r: "r = None" using assms al 1 by (cases r) (simp_all add: unf refuse_def)
  obtain b st2 where 2: "preCheckBudget h env ?T ?K ?P (rm_Model ?m) (rm_MaxTokens ?m) st1 = (b, st2)" by fastforce
  obtain reserved hs where b: "b = BudgetPass reserved hs" using assms al 1 r 2 by (cases b) (simp_all add: unf refuse_def)
  obtain k st3 where 3: "resolveAuth h env ?T ?P (cx_auth_method c) st2 = (k, st3)" by fastforce
  obtain key where k: "k = Inr key" using assms al 1 r 2 b 3 by (cases k) (simp_all add: unf refuse_def)
  have ok: "pe_request_ok env" using assms al 1 r 2 b 3 k
    by (auto simp: unf refuse_def buildUpstreamRequest_def split: if_splits)
  let ?uq = "\<lparr>uq_Method = cq_Method req, uq_URL = upstream_url ?P req, uq_Header = upstream_header ?P key (cq_Header req), uq_Body = body\<rparr>"
  have H: "HandleProxy h env c req st = relay h env c ?P ?m reserved
      (key_hint (determineBillable (cx_billing_mode c)) key (cq_Header req)) hs ?uq st3"
    using al 1 r 2 b 3 k ok by (simp add: unf buildUpstreamRequest_def)
  have "oc_sent (relay h env c P m res hi hs u s) = Some u" for P m res hi hs u s
    by (simp add: relay_def Let_def split: upstream_reply.split option.split)
  with assms H have "uq = ?uq" by simp
  with that Some al 1 r 2 b 3 k H show thesis by blast
qed

lemma preCheckBudget_pass:
  assumes "ph_pricingEngine h = Some e"
    and "preCheckBudget h env T K provider model maxTokens st = (BudgetPass reserved hs, st')"
    and "loadBudgetLimits e (pe_db env) T (px_redis st) = (Inr limits, s1)" "\<forall>l \<in> set limits. bl_LimitAmount l \<noteq> 0"
  shows "\<not> (\<exists>l \<in> set limits. in_scope K l \<and> relevant provider l \<and> blocks_at (effective_spend e (pe_db env)
    \<lparr>es_redis = s1, es_ledger = px_ledger st, es_notifs = px_notifs st\<rparr> T l (pe_budget env)) l)"
proof -
  let ?es = "\<lparr>es_redis = px_redis st, es_ledger = px_ledger st, es_notifs = px_notifs st\<rparr>"
  obtain res es where P: "PreCheckBudget e (pe_db env) T K provider (pe_budget env) ?es = (res, es)" by fastforce
  from assms(1,2) P obtain status where "res = PreOK status"
    by (cases res) (simp_all add: preCheckBudget_def Let_def)
  with P PreCheckBudget_decides [of e "pe_db env" T ?es limits s1 K provider "pe_budget env"] assms(3,4)
  show ?thesis by simp
qed

text \<open>C2: nothing reaches a provider unless every gate let it pass: when \<open>HandleProxy\<close> has sent a request upstream, its
  model is in the allowlist of the key, where the key has one that parses and is not empty; the rate limiter did
  not report a limit as exceeded; and of the budget limits that were loaded, none that covers the request and
  blocks had been reached by the recorded and reserved spend.\<close>

theorem upstream_only_when_admitted:
  assumes sent: "oc_sent (HandleProxy h env c req st) = Some uq"
  shows "\<exists>body st1. cq_Body req = Some body \<and>
    (\<forall>ak a ms. cx_api_key c = Some ak \<and> ak_ModelAllowlist ak = Some a \<and> a \<noteq> [] \<and> a \<noteq> ''[]'' \<and> a \<noteq> ''null'' \<and>
       ph_strings h a = Some ms \<and> ms \<noteq> [] \<longrightarrow> rm_Model (parseRequestMeta h body) \<in> set ms) \<and>
    checkRateLimit h env (cx_tenant_id c) (cx_key_id c) (provider_of c) (rm_Model (parseRequestMeta h body))
      (length body) (rm_MaxTokens (parseRequestMeta h body)) st = (None, st1) \<and>
    (\<forall>e limits s1. ph_pricingEngine h = Some e \<and>
       loadBudgetLimits e (pe_db env) (cx_tenant_id c) (px_redis st1) = (Inr limits, s1) \<and>
       (\<forall>l \<in> set limits. bl_LimitAmount l \<noteq> 0) \<longrightarrow>
       \<not> (\<exists>l \<in> set limits. in_scope (cx_key_id c) l \<and> relevant (provider_of c) l \<and>
            blocks_at (effective_spend e (pe_db env) \<lparr>es_redis = s1, es_ledger = px_ledger st1, es_notifs = px_notifs st1\<rparr>
              (cx_tenant_id c) l (pe_budget env)) l))"
  using sent
proof (rule HandleProxy_sent)
  fix body st1 reserved hs st2 key st3
  let ?m = "parseRequestMeta h body"
  assume body: "cq_Body req = Some body" and al: "\<not> blocked_by_allowlist h c (rm_Model ?m)"
    and rl: "checkRateLimit h env (cx_tenant_id c) (cx_key_id c) (provider_of c) (rm_Model ?m)
       (length body) (rm_MaxTokens ?m) st = (None, st1)"
    and b: "preCheckBudget h env (cx_tenant_id c) (cx_key_id c) (provider_of c) (rm_Model ?m)
       (rm_MaxTokens ?m) st1 = (BudgetPass reserved hs, st2)"
  from al have "\<forall>ak a ms. cx_api_key c = Some ak \<and> ak_ModelAllowlist ak = Some a \<and> a \<noteq> [] \<and> a \<noteq> ''[]'' \<and> a \<noteq> ''null'' \<and>
       ph_strings h a = Some ms \<and> ms \<noteq> [] \<longrightarrow> rm_Model ?m \<in> set ms"
    by (auto simp: blocked_by_allowlist_def isModelAllowed_def)
  with body rl preCheckBudget_pass [OF _ b] show ?thesis by blast
qed



text \<open>A TokenGate key that a client presents as a bearer token leaves the gateway: the authentication accepts the
  key in the \<open>Authorization\<close> header, and in pass-through mode the same header is forwarded, so that the provider
  receives the client's TokenGate key with its secret.\<close>

theorem bearer_key_forwarded:
  assumes sent: "oc_sent (HandleProxy h env c req st) = Some uq" and mode: "cx_auth_method c \<noteq> AuthMethodBYOK"
    and "hdr_Get (cq_Header req) ''X-TokenGate-Key'' = []" and auth: "hdr_Get (cq_Header req) ''Authorization'' = ''Bearer '' @ tgKey"
    and "trimmed tgKey"
  shows "bearer_or_key (hdr_Get (cq_Header req)) = tgKey \<and> hdr_Get (uq_Header uq) ''Authorization'' = ''Bearer '' @ tgKey"
  using sent
proof (rule HandleProxy_sent)
  fix st2 key st3 body
  assume "resolveAuth h env (cx_tenant_id c) (provider_of c) (cx_auth_method c) st2 = (Inr key, st3)"
  with mode have "key = None" by (simp add: resolveAuth_def)
  moreover assume "uq = \<lparr>uq_Method = cq_Method req, uq_URL = upstream_url (provider_of c) req,
       uq_Header = upstream_header (provider_of c) key (cq_Header req), uq_Body = body\<rparr>"
  ultimately have "hdr_Get (uq_Header uq) ''Authorization'' = ''Bearer '' @ tgKey"
    using auth by (simp add: hdr_Get_def upstream_header_eq forwarded_names_def passthrough_apply credential_names_def Let_def)
  moreover have "strings_TrimSpace tgKey = tgKey" using assms(5) by (rule TrimSpace_id)
  ultimately show ?thesis
    using assms(3) auth by (simp add: bearer_or_key_def strings_TrimPrefix_def strings_HasPrefix_def strings_TrimSpace_def [of "[]"])
qed

lemma plain_relay_sent [simp]: "oc_sent (plain_relay env u s b) = Some u"
  by (simp add: plain_relay_def Let_def split: upstream_reply.split)

text \<open>The passthrough endpoints send the bearer token on as the provider key: a client that authenticates with its
  TokenGate key as a bearer token, under a key whose mode is not BYOK or whose tenant has no active Anthropic key,
  makes the gateway send that TokenGate key to Anthropic in \<open>x-api-key\<close> when it lists the models or counts tokens.\<close>

theorem passthrough_endpoints_leak:
  assumes "cx_auth_method c \<noteq> AuthMethodBYOK \<or>
      fst (GetActiveKey (ph_providerKeySvc h) (fst (pe_keyload env)) (snd (pe_keyload env)) (cx_tenant_id c)
        ProviderAnthropic (pe_pk_db env) (px_redis st, px_keys st)) = Inl ErrNoActiveKey"
    and "hdr_Get (cq_Header req) ''x-api-key'' = []" "hdr_Get (cq_Header req) ''Authorization'' = ''Bearer '' @ tgKey" "tgKey \<noteq> []"
    and "pe_request_ok env" "cq_Body req = Some body"
  shows "\<exists>uq uq'. oc_sent (HandleModels h env c req st) = Some uq \<and> hdr_Get (uq_Header uq) ''x-api-key'' = tgKey \<and>
    oc_sent (HandleCountTokens h env c req st) = Some uq' \<and> hdr_Get (uq_Header uq') ''x-api-key'' = tgKey"
proof -
  have "\<exists>st'. resolve_key h env c (cq_Header req) st = (Inr tgKey, st')"
    using assms(1-4) by (auto simp: resolve_key_def Let_def strings_TrimPrefix_def strings_HasPrefix_def split: prod.splits)
  then show ?thesis
    using assms(5,6) by (auto simp: HandleModels_def HandleCountTokens_def copy_header_apply hdr_Get_def hdr_Set_def)
qed

section \<open>Reservations of failed requests\<close>

text \<open>A failed upstream call keeps its reservation: when the provider does not answer, or answers with a status other
  than 200, the request ends without any bookkeeping, and in pass-through mode Redis is left exactly as the budget
  check left it, with the worst-case cost of the request reserved and the output tokens charged to the limiter.\<close>

theorem failed_upstream_keeps_reservation:
  assumes sent: "oc_sent (HandleProxy h env c req st) = Some uq" and mode: "cx_auth_method c \<noteq> AuthMethodBYOK"
    and fails: "\<And>resp. pe_upstream env uq = DoResponse resp \<Longrightarrow> ur_Status resp \<noteq> 200"
  shows "\<exists>body st1 st2 reserved hs.
    checkRateLimit h env (cx_tenant_id c) (cx_key_id c) (provider_of c) (rm_Model (parseRequestMeta h body))
      (length body) (rm_MaxTokens (parseRequestMeta h body)) st = (None, st1) \<and>
    preCheckBudget h env (cx_tenant_id c) (cx_key_id c) (provider_of c) (rm_Model (parseRequestMeta h body))
      (rm_MaxTokens (parseRequestMeta h body)) st1 = (BudgetPass reserved hs, st2) \<and> uq_Body uq = body \<and>
    oc_pending (HandleProxy h env c req st) = None \<and> px_redis (oc_state (HandleProxy h env c req st)) = px_redis st2"
  using sent
proof (rule HandleProxy_sent)
  fix body st1 reserved hs st2 key st3
  let ?m = "parseRequestMeta h body"
  assume 1: "checkRateLimit h env (cx_tenant_id c) (cx_key_id c) (provider_of c) (rm_Model ?m)
       (length body) (rm_MaxTokens ?m) st = (None, st1)"
    and 2: "preCheckBudget h env (cx_tenant_id c) (cx_key_id c) (provider_of c) (rm_Model ?m)
       (rm_MaxTokens ?m) st1 = (BudgetPass reserved hs, st2)"
    and auth: "resolveAuth h env (cx_tenant_id c) (provider_of c) (cx_auth_method c) st2 = (Inr key, st3)"
    and uq: "uq = \<lparr>uq_Method = cq_Method req, uq_URL = upstream_url (provider_of c) req,
       uq_Header = upstream_header (provider_of c) key (cq_Header req), uq_Body = body\<rparr>"
    and H: "HandleProxy h env c req st = relay h env c (provider_of c) ?m reserved
       (key_hint (determineBillable (cx_billing_mode c)) key (cq_Header req)) hs uq st3"
  have "st3 = st2" using auth mode by (simp add: resolveAuth_def)
  moreover have "oc_pending (relay h env c P m r hi hs uq s) = None \<and> oc_state (relay h env c P m r hi hs uq s) = s" for P m r hi s
    using fails by (auto simp: relay_def Let_def split: upstream_reply.split)
  moreover have "uq_Body uq = body" using uq by simp
  ultimately show ?thesis using 1 2 H by metis
qed

section \<open>A concrete gateway\<close>

definition demo_proxy :: "(string \<Rightarrow> rat option, rat, list_queue) ProxyHandler" where
  "demo_proxy = \<lparr>ph_providerKeySvc = \<lparr>ps_masterKey = ''m'', ps_Seal = (\<lambda>k n p. Some (k @ n @ p)),
       ps_Open = (\<lambda>k c n. Some (drop (length k + length n) c)), ps_rdb = None,
       ps_codec = \<lparr>cd_Marshal = (\<lambda>_. None), cd_Unmarshal = (\<lambda>_. None)\<rparr>\<rparr>,
     ph_eventQueue = list_stream, ph_pricingEngine = Some map_engine, ph_rateLimiter = None, ph_gatewayEvents = True,
     ph_json = demo_json, ph_meta = (\<lambda>_. \<lparr>rm_Model = ''opus'', rm_MaxTokens = 1000, rm_MaxOutputTokens = 0\<rparr>),
     ph_strings = (\<lambda>_. Some [''opus'', ''sonnet'']), ph_fix4 = (\<lambda>_. [])\<rparr>"

definition demo_env :: "upstream_reply \<Rightarrow> proxy_env" where
  "demo_env reply = \<lparr>pe_db = demo_edb [demo_limit BudgetActionBlock 10], pe_rl_db = \<lparr>rdb_down = False, rdb_limits = []\<rparr>,
     pe_pk_db = \<lparr>pkd_err = None, pkd_Keys = [demo_pk 4 False ''sk-ant-a''], pkd_Settings = [\<lparr>tps_TenantID = 7,
       tps_Provider = ProviderAnthropic, tps_ActiveKeyID = 4, tps_PolicyVersion = 1, tps_UpdatedAt = 0\<rparr>]\<rparr>, pe_check = noon, pe_budget = noon, pe_reserve = noon, pe_keyload = (9, 9), pe_request_ok = True,
     pe_upstream = (\<lambda>_. reply), pe_response = noon, pe_latency = 3, pe_uuid = ''u''\<rparr>"

definition demo_context :: "string \<Rightarrow> string \<Rightarrow> gin_context" where
  "demo_context provider mode = \<lparr>cx_tenant_id = 7, cx_project_id = 1, cx_key_id = ''k1'', cx_provider = provider,
     cx_auth_method = mode, cx_billing_mode = BillingModeAPIUsage, cx_api_key = None\<rparr>"

definition demo_client :: client_request where
  "demo_client = \<lparr>cq_Method = ''POST'', cq_Path = ''/v1/messages'', cq_RawQuery = [],
     cq_Header = hdr_Set ''Authorization'' ''Bearer k1:c2VjcmV0'' no_header, cq_Body = Some ''{}''\<rparr>"

definition demo_px :: "rat \<Rightarrow> (string \<Rightarrow> rat option, list_queue) proxy_state" where
  "demo_px spent = \<lparr>px_redis = es_redis (demo_state spent), px_ledger = [], px_notifs = [], px_keys = Map.empty,
     px_stream = ([], []), px_events = []\<rparr>"

lemma demo_proxy_simps [simp]:
  "ph_pricingEngine demo_proxy = Some map_engine" "ph_rateLimiter demo_proxy = None"
  "parseRequestMeta demo_proxy body = \<lparr>rm_Model = ''opus'', rm_MaxTokens = 1000, rm_MaxOutputTokens = 0\<rparr>"
  "ph_strings demo_proxy a = Some [''opus'', ''sonnet'']"
  by (simp_all add: demo_proxy_def parseRequestMeta_def)

lemma demo_env_simps [simp]:
  "pe_db (demo_env r) = demo_edb [demo_limit BudgetActionBlock 10]" "pe_budget (demo_env r) = noon"
  "pe_reserve (demo_env r) = noon" "pe_request_ok (demo_env r)" "pe_upstream (demo_env r) uq = r"
  by (simp_all add: demo_env_def)

lemma demo_context_simps [simp]:
  "cx_tenant_id (demo_context p m) = 7" "cx_key_id (demo_context p m) = ''k1''" "cx_provider (demo_context p m) = p"
  "cx_auth_method (demo_context p m) = m" "cx_api_key (demo_context p m) = None"
  by (simp_all add: demo_context_def)

lemma demo_Reserve_lower:
  assumes "strings_ToLower provider = ''anthropic''"
  shows "ReserveSpend map_engine (demo_edb limits) noon 7 ''k1'' provider ''opus'' 1000 s =
     (75 / 1000, fold (bump map_redis (75 / 1000)) (reservation_keys 7 ''k1'' noon) s)"
proof -
  have "strings_ToLower ''opus'' = ''opus''" by code_simp
  then have "Resolve (en_resolver map_engine) (pricing_db.truncate (demo_edb limits)) noon
      (reserve_event noon 7 ''k1'' provider ''opus'') s =
    (Inr \<lparr>rps_ProviderID = 3, rps_ModelID = 2,
       rps_Prices = load_prices demo_db (reserve_event noon 7 ''k1'' provider ''opus'') 2 noon\<rparr>, s)"
    by (intro demo_Resolve_lower) (simp_all add: reserve_event_def assms)
  then show ?thesis
    by (simp add: ReserveSpend_def demo_output_price standard_price_def demo_price_def default_unit_def Let_def)
qed

lemma demo_budget_gate:
  "\<exists>hs ns. preCheckBudget demo_proxy (demo_env r) 7 ''k1'' ProviderAnthropic ''opus'' 1000 (demo_px 2) =
     (BudgetPass (75 / 1000) hs, (demo_px 2)\<lparr>px_notifs := ns, px_redis := fold (bump map_redis (75 / 1000))
        (reservation_keys 7 ''k1'' noon) (es_redis (demo_state 2))\<rparr>)"
proof -
  let ?db = "demo_edb [demo_limit BudgetActionBlock 10]"
  have st: "\<lparr>es_redis = px_redis (demo_px 2), es_ledger = px_ledger (demo_px 2), es_notifs = px_notifs (demo_px 2)\<rparr> = demo_state 2"
    by (simp add: demo_px_def demo_state_def)
  have l: "loadBudgetLimits map_engine ?db 7 (es_redis (demo_state 2)) = (Inr [demo_limit BudgetActionBlock 10], es_redis (demo_state 2))"
    by (rule demo_limits_loaded) (simp add: demo_limit_def)
  have "\<not> (\<exists>l \<in> set [demo_limit BudgetActionBlock 10]. in_scope ''k1'' l \<and> relevant ProviderAnthropic l \<and>
      blocks_at (effective_spend map_engine ?db ((demo_state 2)\<lparr>es_redis := es_redis (demo_state 2)\<rparr>) 7 l noon) l)"
    by (simp add: demo_effective) (simp add: blocks_at_def demo_limit_def)
  moreover obtain res es where P: "PreCheckBudget map_engine ?db 7 ''k1'' ProviderAnthropic noon (demo_state 2) = (res, es)" by fastforce
  ultimately obtain status where res: "res = PreOK status"
    using PreCheckBudget_decides [OF l, of "''k1''" ProviderAnthropic noon]
    by (cases res) (simp_all add: demo_limit_def)
  have es: "es_redis es = es_redis (demo_state 2)"
    using P by (simp add: PreCheckBudget_def l Let_def split: prod.splits) auto
  have "strings_ToLower ProviderAnthropic = ''anthropic''" by code_simp
  then show ?thesis
    by (intro exI [of _ "warning_headers demo_proxy status"] exI [of _ "es_notifs es"])
      (simp add: preCheckBudget_def st P res es demo_Reserve_lower Let_def)
qed

lemma demo_request_sent:
  assumes "m = AuthMethodBYOK \<or> m = AuthMethodBrowserOAuth"
  shows "\<exists>uq. oc_sent (HandleProxy demo_proxy (demo_env r) (demo_context ProviderAnthropic m) demo_client (demo_px 2)) = Some uq"
proof -
  obtain hs ns where b: "preCheckBudget demo_proxy (demo_env r) 7 ''k1'' ProviderAnthropic ''opus'' 1000 (demo_px 2) =
     (BudgetPass (75 / 1000) hs, (demo_px 2)\<lparr>px_notifs := ns, px_redis := fold (bump map_redis (75 / 1000))
        (reservation_keys 7 ''k1'' noon) (es_redis (demo_state 2))\<rparr>)" using demo_budget_gate by blast
  have auth: "\<exists>key st'. resolveAuth demo_proxy (demo_env r) 7 ProviderAnthropic m st = (Inr key, st')"
    if "px_keys st = Map.empty" for st
    using assms that
    by (auto simp: resolveAuth_def GetActiveKey_def active_from_cache_def active_from_db_def demo_proxy_def demo_env_def
        first_settings_def db_first_def GetPlaintext_def load_plaintext_def first_key_def decrypt_row_def aesGCMDecrypt_def
        demo_pk_def check_plaintext_def ValidateProviderKeyFormat_def strings_HasPrefix_def cacheTPS_def Let_def
        split: option.splits)
  have rs: "oc_sent (relay h env c P mt res hi hs u s) = Some u" for h :: "('x, 'y, 'z) ProxyHandler" and env c P mt res hi hs u s
    by (simp add: relay_def Let_def split: upstream_reply.split option.split)
  show ?thesis
    using auth [of "(demo_px 2)\<lparr>px_notifs := ns, px_redis := fold (bump map_redis (75 / 1000))
        (reservation_keys 7 ''k1'' noon) (es_redis (demo_state 2))\<rparr>"]
    by (auto simp: demo_px_def [of 2, THEN arg_cong, of px_keys] HandleProxy_def blocked_by_allowlist_def checkRateLimit_def b buildUpstreamRequest_def rs demo_client_def Let_def)
qed

theorem upstream_only_when_admitted_witness:
  "\<exists>st1. checkRateLimit demo_proxy (demo_env (DoError True)) 7 ''k1'' ProviderAnthropic ''opus'' 2 1000 (demo_px 2) = (None, st1) \<and>
     \<not> blocks_at (effective_spend map_engine (demo_edb [demo_limit BudgetActionBlock 10])
        \<lparr>es_redis = px_redis st1, es_ledger = px_ledger st1, es_notifs = px_notifs st1\<rparr> 7 (demo_limit BudgetActionBlock 10) noon)
        (demo_limit BudgetActionBlock 10)"
proof -
  let ?l = "demo_limit BudgetActionBlock 10" and ?c = "demo_context ProviderAnthropic AuthMethodBYOK"
  obtain uq where "oc_sent (HandleProxy demo_proxy (demo_env (DoError True)) ?c demo_client (demo_px 2)) = Some uq"
    using demo_request_sent [of AuthMethodBYOK "DoError True"] by blast
  from upstream_only_when_admitted [OF this] obtain body st1 where
    "cq_Body demo_client = Some body" and
    rl: "checkRateLimit demo_proxy (demo_env (DoError True)) 7 ''k1'' ProviderAnthropic ''opus'' (length body) 1000 (demo_px 2) = (None, st1)"
    and "\<forall>e limits s1. ph_pricingEngine demo_proxy = Some e \<and>
       loadBudgetLimits e (pe_db (demo_env (DoError True))) 7 (px_redis st1) = (Inr limits, s1) \<and>
       (\<forall>l \<in> set limits. bl_LimitAmount l \<noteq> 0) \<longrightarrow>
       \<not> (\<exists>l \<in> set limits. in_scope ''k1'' l \<and> relevant ProviderAnthropic l \<and>
            blocks_at (effective_spend e (pe_db (demo_env (DoError True)))
              \<lparr>es_redis = s1, es_ledger = px_ledger st1, es_notifs = px_notifs st1\<rparr> 7 l noon) l)"
    by (simp, blast)
  moreover have "loadBudgetLimits map_engine (demo_edb [?l]) 7 (px_redis st1) = (Inr [?l], px_redis st1)"
    by (rule demo_limits_loaded) (simp add: demo_limit_def)
  moreover have "bl_LimitAmount ?l \<noteq> 0" "in_scope ''k1'' ?l" "relevant ProviderAnthropic ?l"
    by (simp_all add: demo_limit_def in_scope_def relevant_def)
  ultimately show ?thesis by (auto simp: demo_client_def numeral_2_eq_2)
qed


lemma demo_client_header:
  "hdr_Get (cq_Header demo_client) ''X-TokenGate-Key'' = []" "hdr_Get (cq_Header demo_client) ''x-api-key'' = []"
  "hdr_Get (cq_Header demo_client) ''Authorization'' = ''Bearer '' @ ''k1:c2VjcmV0''"
  by (simp_all add: demo_client_def hdr_defs)

theorem bearer_key_forwarded_witness:
  "\<exists>uq. oc_sent (HandleProxy demo_proxy (demo_env (DoError True)) (demo_context ProviderAnthropic AuthMethodBrowserOAuth)
       demo_client (demo_px 2)) = Some uq \<and> hdr_Get (uq_Header uq) ''Authorization'' = ''Bearer '' @ ''k1:c2VjcmV0''"
proof -
  obtain uq where sent: "oc_sent (HandleProxy demo_proxy (demo_env (DoError True))
       (demo_context ProviderAnthropic AuthMethodBrowserOAuth) demo_client (demo_px 2)) = Some uq"
    using demo_request_sent by blast
  have "trimmed ''k1:c2VjcmV0''" by (simp add: trimmed_def is_space_def)
  from bearer_key_forwarded [OF sent _ demo_client_header(1,3) this] sent show ?thesis by simp
qed

theorem passthrough_endpoints_leak_witness:
  "\<exists>uq. oc_sent (HandleModels demo_proxy (demo_env (DoError True)) (demo_context ProviderAnthropic AuthMethodBrowserOAuth)
       demo_client (demo_px 2)) = Some uq \<and> hdr_Get (uq_Header uq) ''x-api-key'' = ''k1:c2VjcmV0''"
  using passthrough_endpoints_leak [of "demo_context ProviderAnthropic AuthMethodBrowserOAuth" demo_proxy
      "demo_env (DoError True)" "demo_px 2" demo_client "''k1:c2VjcmV0''" "''{}''"] demo_client_header
  by (auto simp: demo_client_def)

theorem failed_upstream_keeps_reservation_witness:
  "\<exists>o1. o1 = HandleProxy demo_proxy (demo_env (DoError False)) (demo_context ProviderAnthropic AuthMethodBrowserOAuth)
       demo_client (demo_px 2) \<and> oc_pending o1 = None \<and>
     px_redis (oc_state o1) = fold (bump map_redis (75 / 1000)) (reservation_keys 7 ''k1'' noon) (es_redis (demo_state 2))"
proof -
  let ?H = "HandleProxy demo_proxy (demo_env (DoError False)) (demo_context ProviderAnthropic AuthMethodBrowserOAuth)
       demo_client (demo_px 2)"
  obtain uq where sent: "oc_sent ?H = Some uq" using demo_request_sent by blast
  obtain hs ns where b: "preCheckBudget demo_proxy (demo_env (DoError False)) 7 ''k1'' ProviderAnthropic ''opus'' 1000 (demo_px 2) =
     (BudgetPass (75 / 1000) hs, (demo_px 2)\<lparr>px_notifs := ns, px_redis := fold (bump map_redis (75 / 1000))
        (reservation_keys 7 ''k1'' noon) (es_redis (demo_state 2))\<rparr>)" using demo_budget_gate by blast
  have "checkRateLimit demo_proxy env T K P model n mt st = (None, st)" for env T K P model n mt st
    by (simp add: checkRateLimit_def)
  with failed_upstream_keeps_reservation [OF sent] b show ?thesis by auto
qed

end
