(* ===== verification/Responses.thy ===== *)
theory Responses
  imports Proxy Json
begin

text \<open>
  The OpenAI Responses API of the proxy: \<open>proxy/responses_handler.go\<close>, \<open>responses_translate.go\<close> and
  \<open>responses_stream.go\<close>. A request for an OpenAI model is forwarded as it is; one for an Anthropic model is translated
  to the Messages API, and its answer, complete or streamed, is translated back.

  A \<open>json.RawMessage\<close> is the tree of its text, None where the field is absent. The maps that the code builds are
  written with their keys in the order in which \<open>json.Marshal\<close> prints them. The gates and the bookkeeping are those of
  theory \<open>Proxy\<close>, but here the bookkeeping runs inside the request and under its context: \<open>re_gone\<close> says that the
  context was cancelled before it began. Then the same functions run, with operations of Redis and of the database that
  all return the error of the context.
\<close>

section \<open>Requests\<close>

record ResponsesRequest =
  rp_Model :: string
  rp_Input :: "json option"
  rp_Instructions :: string
  rp_MaxOutputTokens :: "int option"
  rp_Stream :: bool
  rp_Temperature :: "rat option"
  rp_TopP :: "rat option"

definition un_raw :: "json option decoder" where
  "un_raw j old = Some (Some j)"

definition un_ResponsesRequest :: "ResponsesRequest decoder" where
  "un_ResponsesRequest = un_struct
     [(''model'', fld un_str rp_Model rp_Model_update), (''input'', fld un_raw rp_Input rp_Input_update),
      (''instructions'', fld un_str rp_Instructions rp_Instructions_update),
      (''max_output_tokens'', fld (un_ptr 0 un_int) rp_MaxOutputTokens rp_MaxOutputTokens_update),
      (''stream'', fld un_bool rp_Stream rp_Stream_update),
      (''temperature'', fld (un_ptr 0 un_float) rp_Temperature rp_Temperature_update),
      (''top_p'', fld (un_ptr 0 un_float) rp_TopP rp_TopP_update)]"

definition zero_ResponsesRequest :: ResponsesRequest where
  "zero_ResponsesRequest = \<lparr>rp_Model = [], rp_Input = None, rp_Instructions = [], rp_MaxOutputTokens = None,
     rp_Stream = False, rp_Temperature = None, rp_TopP = None\<rparr>"

abbreviation not_supported :: string where
  "not_supported \<equiv> ''input format not supported for Anthropic translation: ''"

text \<open>The entry of a Go map, the last one of the text where a key is repeated, asserted to be a string.\<close>

definition string_entry :: "json \<Rightarrow> string \<Rightarrow> string" where
  "string_entry block k =
     (case block of
        JObj kvs \<Rightarrow> (case map_of (rev kvs) k of Some (JStr s) \<Rightarrow> s | _ \<Rightarrow> [])
      | _ \<Rightarrow> [])"

definition unsupported_block :: "json \<Rightarrow> bool" where
  "unsupported_block block \<longleftrightarrow> string_entry block ''type'' \<noteq> ''text'' \<and> string_entry block ''type'' \<noteq> []"

definition translateContent :: "json option \<Rightarrow> (string, json) result" where
  "translateContent raw =
     (case raw of
        None \<Rightarrow> Inr (JStr [])
      | Some j \<Rightarrow>
          (case un_str j [] of
             Some s \<Rightarrow> Inr (JStr s)
           | None \<Rightarrow>
               (case un_list JNull un_map j [] of
                  Some blocks \<Rightarrow>
                    (case find unsupported_block blocks of
                       Some b \<Rightarrow> Inl (not_supported @ ''content type '' @ go_quote (string_entry b ''type'') @ '' not supported'')
                     | None \<Rightarrow> Inr (JArr blocks))
                | None \<Rightarrow> Inl (not_supported @ ''unsupported content format''))))"

record input_peek =
  ip_Type :: string
  ip_Role :: string
  ip_Content :: "json option"

definition un_input_peek :: "input_peek decoder" where
  "un_input_peek = un_struct
     [(''type'', fld un_str ip_Type ip_Type_update), (''role'', fld un_str ip_Role ip_Role_update),
      (''content'', fld un_raw ip_Content ip_Content_update)]"

definition zero_input_peek :: input_peek where
  "zero_input_peek = \<lparr>ip_Type = [], ip_Role = [], ip_Content = None\<rparr>"

definition chat_message :: "string \<Rightarrow> json \<Rightarrow> json" where
  "chat_message role content = JObj [(''content'', content), (''role'', JStr role)]"

definition translateInputItem :: "json \<Rightarrow> (string, json) result" where
  "translateInputItem raw =
     (case un_input_peek raw zero_input_peek of
        None \<Rightarrow> Inl (not_supported @ ''invalid item'')
      | Some peek \<Rightarrow>
          if ip_Type peek = ''message'' then
            (case translateContent (ip_Content peek) of
               Inl e \<Rightarrow> Inl e
             | Inr content \<Rightarrow> Inr (chat_message (if ip_Role peek = [] then ''user'' else ip_Role peek) content))
          else if ip_Role peek \<noteq> [] then
            (case translateContent (ip_Content peek) of
               Inl e \<Rightarrow> Inl e
             | Inr content \<Rightarrow> Inr (chat_message (ip_Role peek) content))
          else Inl (not_supported @ ''item has no role or recognized type''))"

fun translate_items :: "json list \<Rightarrow> (string, json list) result" where
  "translate_items [] = Inr []"
| "translate_items (item # items) =
     (case translateInputItem item of
        Inl e \<Rightarrow> Inl e
      | Inr msg \<Rightarrow> (case translate_items items of Inl e \<Rightarrow> Inl e | Inr msgs \<Rightarrow> Inr (msg # msgs)))"

definition translateInputToMessages :: "json option \<Rightarrow> (string, json list) result" where
  "translateInputToMessages input =
     (case input of
        None \<Rightarrow> Inl ''input field is required''
      | Some j \<Rightarrow>
          (case un_str j [] of
             Some s \<Rightarrow> Inr [chat_message ''user'' (JStr s)]
           | None \<Rightarrow>
               (case un_list None un_raw j [] of
                  None \<Rightarrow> Inl (not_supported @ ''expected string or array'')
                | Some items \<Rightarrow>
                    (case translate_items (map the items) of
                       Inl e \<Rightarrow> Inl e
                     | Inr msgs \<Rightarrow> if msgs = [] then Inl ''input array produced no messages'' else Inr msgs))))"

definition translateResponsesToAnthropic :: "ResponsesRequest \<Rightarrow> (string, json) result" where
  "translateResponsesToAnthropic req =
     (case translateInputToMessages (rp_Input req) of
        Inl e \<Rightarrow> Inl e
      | Inr messages \<Rightarrow> Inr (JObj
          (always ''max_tokens'' (JInt (case rp_MaxOutputTokens req of Some n \<Rightarrow> n | None \<Rightarrow> 4096)) @
           always ''messages'' (JArr messages) @
           always ''model'' (JStr (rp_Model req)) @
           omitempty (\<not> rp_Stream req) ''stream'' (JBool True) @
           omitempty (rp_Instructions req = []) ''system'' (JStr (rp_Instructions req)) @
           omitempty (rp_Temperature req = None) ''temperature'' (json_ptr json_float (rp_Temperature req)) @
           omitempty (rp_TopP req = None) ''top_p'' (json_ptr json_float (rp_TopP req)))))"

section \<open>Complete answers\<close>

record reply_block =
  tb_Type :: string
  tb_Text :: string

definition un_reply_block :: "reply_block decoder" where
  "un_reply_block = un_struct
     [(''type'', fld un_str tb_Type tb_Type_update), (''text'', fld un_str tb_Text tb_Text_update)]"

definition zero_reply_block :: reply_block where
  "zero_reply_block = \<lparr>tb_Type = [], tb_Text = []\<rparr>"

text \<open>The nested struct \<open>usage\<close> is decoded into fields of the record itself.\<close>

record messages_reply =
  my_ID :: string
  my_Type :: string
  my_Role :: string
  my_Model :: string
  my_Content :: "reply_block list"
  my_StopReason :: string
  my_InputTokens :: int
  my_OutputTokens :: int
  my_CacheCreationTokens :: int
  my_CacheReadTokens :: int

definition un_messages_reply :: "messages_reply decoder" where
  "un_messages_reply = un_struct
     [(''id'', fld un_str my_ID my_ID_update), (''type'', fld un_str my_Type my_Type_update),
      (''role'', fld un_str my_Role my_Role_update), (''model'', fld un_str my_Model my_Model_update),
      (''content'', fld (un_list zero_reply_block un_reply_block) my_Content my_Content_update),
      (''stop_reason'', fld un_str my_StopReason my_StopReason_update),
      (''usage'', un_struct
         [(''input_tokens'', fld un_int my_InputTokens my_InputTokens_update),
          (''output_tokens'', fld un_int my_OutputTokens my_OutputTokens_update),
          (''cache_creation_input_tokens'', fld un_int my_CacheCreationTokens my_CacheCreationTokens_update),
          (''cache_read_input_tokens'', fld un_int my_CacheReadTokens my_CacheReadTokens_update)])]"

definition zero_messages_reply :: messages_reply where
  "zero_messages_reply = \<lparr>my_ID = [], my_Type = [], my_Role = [], my_Model = [], my_Content = [], my_StopReason = [],
     my_InputTokens = 0, my_OutputTokens = 0, my_CacheCreationTokens = 0, my_CacheReadTokens = 0\<rparr>"

definition output_text :: "string \<Rightarrow> json" where
  "output_text text = JObj [(''text'', JStr text), (''type'', JStr ''output_text'')]"

definition message_id :: "int \<Rightarrow> string" where
  "message_id i = ''msg_'' @ show_int i"

definition output_item :: "nat \<times> reply_block \<Rightarrow> json" where
  "output_item = (\<lambda>(i, block). JObj
     [(''content'', JArr [output_text (tb_Text block)]), (''id'', JStr (message_id (int i))),
      (''role'', JStr ''assistant''), (''status'', JStr ''completed''), (''type'', JStr ''message'')])"

definition usage_json :: "int \<Rightarrow> int \<Rightarrow> json" where
  "usage_json inputTokens outputTokens = JObj
     [(''input_tokens'', JInt inputTokens), (''output_tokens'', JInt outputTokens),
      (''total_tokens'', JInt (wrap64 (inputTokens + outputTokens)))]"

definition translateAnthropicToResponsesJSON :: "json_text \<Rightarrow> string \<Rightarrow> (json \<times> TokenCounts) option" where
  "translateAnthropicToResponsesJSON J body =
     (case unmarshal J un_messages_reply zero_messages_reply body of
        None \<Rightarrow> None
      | Some r \<Rightarrow>
          (let counts = no_counts\<lparr>tc_MessageID := ''resp_'' @ my_ID r, tc_Model := my_Model r, tc_InputTokens := my_InputTokens r,
                 tc_OutputTokens := my_OutputTokens r, tc_CacheCreationTokens := my_CacheCreationTokens r,
                 tc_CacheReadTokens := my_CacheReadTokens r\<rparr>;
               out = map output_item (filter (\<lambda>(_, block). tb_Type block = ''text'') (List.enumerate 0 (my_Content r)));
               status = (if my_StopReason r = ''max_tokens'' then ''incomplete'' else ''completed'')
           in Some (JObj
                [(''id'', JStr (''resp_'' @ my_ID r)), (''model'', JStr (my_Model r)), (''object'', JStr ''response''),
                 (''output'', if out = [] then JNull else JArr out), (''status'', JStr status),
                 (''usage'', usage_json (my_InputTokens r) (my_OutputTokens r))], counts)))"

record error_body =
  eb_Type :: string
  eb_Message :: string

definition un_error_body :: "error_body decoder" where
  "un_error_body = un_struct
     [(''error'', un_struct [(''type'', fld un_str eb_Type eb_Type_update), (''message'', fld un_str eb_Message eb_Message_update)])]"

definition translateAnthropicErrorToResponses :: "json_text \<Rightarrow> int \<Rightarrow> string \<Rightarrow> string" where
  "translateAnthropicErrorToResponses J statusCode body =
     (case unmarshal J un_error_body \<lparr>eb_Type = [], eb_Message = []\<rparr> body of
        None \<Rightarrow> body
      | Some e \<Rightarrow> jt_Marshal J (JObj [(''error'', JObj
          [(''code'', JInt statusCode), (''message'', JStr (eb_Message e)), (''type'', JStr (eb_Type e))])]))"

section \<open>Streams\<close>

text \<open>The loop that both stream functions share: the block of lines up to an empty line is one event, and lines that
  the stream ends with are one more.\<close>

fun event_loop :: "(string \<Rightarrow> string \<Rightarrow> 'a \<Rightarrow> 'a) \<Rightarrow> string list \<Rightarrow> string \<Rightarrow> string list \<Rightarrow> 'a \<Rightarrow> 'a" where
  "event_loop f [] eventType dataLines x = (if dataLines \<noteq> [] then f eventType (join_lines dataLines) x else x)"
| "event_loop f (line # lines) eventType dataLines x =
     (if strings_HasPrefix line ''event:''
      then event_loop f lines (strings_TrimSpace (strings_TrimPrefix line ''event:'')) [] x
      else if strings_HasPrefix line ''data:''
      then event_loop f lines eventType (dataLines @ [strings_TrimSpace (strings_TrimPrefix line ''data:'')]) x
      else if line = []
      then event_loop f lines [] [] (if dataLines \<noteq> [] then f eventType (join_lines dataLines) x else x)
      else event_loop f lines eventType dataLines x)"

text \<open>The lines that reach the client: the loop breaks at the first write that fails.\<close>

fun written_lines :: "(nat \<Rightarrow> bool) \<Rightarrow> nat \<Rightarrow> string list \<Rightarrow> string list" where
  "written_lines fails i [] = []"
| "written_lines fails i (line # lines) = (if fails i then [] else line # written_lines fails (Suc i) lines)"

definition un_output_delta :: "string decoder" where
  "un_output_delta = un_struct [(''delta'', fld un_str (\<lambda>s. s) (\<lambda>f. f))]"

definition un_completed :: "openai_body decoder" where
  "un_completed = un_struct
     [(''response'', un_struct
        [(''id'', fld un_str ob_ID ob_ID_update), (''model'', fld un_str ob_Model ob_Model_update),
         (''usage'', un_struct
            [(''input_tokens'', fld un_int ob_InputTokens ob_InputTokens_update),
             (''output_tokens'', fld un_int ob_OutputTokens ob_OutputTokens_update),
             (''prompt_tokens'', fld un_int ob_PromptTokens ob_PromptTokens_update),
             (''completion_tokens'', fld un_int ob_CompletionTokens ob_CompletionTokens_update)])])]"

definition zero_completed :: openai_body where
  "zero_completed = \<lparr>ob_ID = [], ob_Model = [], ob_InputTokens = 0, ob_OutputTokens = 0, ob_PromptTokens = 0,
     ob_CompletionTokens = 0\<rparr>"

definition parseOpenAIResponsesSSEEvent :: "json_text \<Rightarrow> string \<Rightarrow> string \<Rightarrow> TokenCounts \<Rightarrow> TokenCounts" where
  "parseOpenAIResponsesSSEEvent J eventType data counts =
     (if eventType = ''response.output_text.delta'' then
        (case unmarshal J un_output_delta [] data of
           None \<Rightarrow> counts
         | Some delta \<Rightarrow> counts\<lparr>tc_OutputTextBytes := tc_OutputTextBytes counts + int (length delta)\<rparr>)
      else if eventType = ''response.completed'' then
        (case unmarshal J un_completed zero_completed data of
           None \<Rightarrow> counts
         | Some r \<Rightarrow> counts\<lparr>tc_MessageID := ob_ID r, tc_Model := ob_Model r,
             tc_InputTokens := (if ob_InputTokens r = 0 \<and> ob_PromptTokens r \<noteq> 0 then ob_PromptTokens r else ob_InputTokens r),
             tc_OutputTokens := (if ob_OutputTokens r = 0 \<and> ob_CompletionTokens r \<noteq> 0 then ob_CompletionTokens r
                                 else ob_OutputTokens r)\<rparr>)
      else counts)"

definition ParseOpenAIResponsesSSE :: "json_text \<Rightarrow> (nat \<Rightarrow> bool) \<Rightarrow> string \<Rightarrow> TokenCounts \<times> string \<times> bool" where
  "ParseOpenAIResponsesSSE J fails body =
     (let (lines, tooLong) = scan_lines body; passed = written_lines fails 0 lines
      in (event_loop (parseOpenAIResponsesSSEEvent J) passed [] [] no_counts, unlines passed,
          tooLong \<and> length passed = length lines))"

text \<open>The translation of a stream: the counts, the identifiers of the answer, the positions of its parts, the number of
  writes so far, and the events that reached the client.\<close>

record responses_stream =
  rst_counts :: TokenCounts
  rst_ID :: string
  rst_Model :: string
  rst_item :: int
  rst_part :: int
  rst_writes :: nat
  rst_out :: "(string \<times> json) list"

definition writeSSE :: "(nat \<Rightarrow> bool) \<Rightarrow> string \<Rightarrow> json \<Rightarrow> responses_stream \<Rightarrow> responses_stream" where
  "writeSSE fails event j st =
     st\<lparr>rst_writes := Suc (rst_writes st),
        rst_out := (if fails (rst_writes st) then rst_out st else rst_out st @ [(event, j)])\<rparr>"

definition un_message_start :: "start_message decoder" where
  "un_message_start = un_struct
     [(''message'', un_struct
        [(''id'', fld un_str sm_ID sm_ID_update), (''model'', fld un_str sm_Model sm_Model_update),
         (''usage'', un_struct
            [(''input_tokens'', fld un_int sm_InputTokens sm_InputTokens_update),
             (''cache_creation_input_tokens'', fld un_int sm_CacheCreationTokens sm_CacheCreationTokens_update),
             (''cache_read_input_tokens'', fld un_int sm_CacheReadTokens sm_CacheReadTokens_update)])])]"

definition zero_message_start :: start_message where
  "zero_message_start = \<lparr>sm_ID = [], sm_Model = [], sm_InputTokens = 0, sm_CacheCreationTokens = 0, sm_CacheReadTokens = 0\<rparr>"

definition un_block_delta :: "reply_block decoder" where
  "un_block_delta = un_struct [(''delta'', un_reply_block)]"

definition un_message_delta :: "int decoder" where
  "un_message_delta = un_struct [(''usage'', un_struct [(''output_tokens'', fld un_int (\<lambda>n. n) (\<lambda>f. f))])]"

definition response_event :: "string \<Rightarrow> responses_stream \<Rightarrow> json" where
  "response_event eventType st = JObj
     [(''response'', JObj [(''id'', JStr (rst_ID st)), (''model'', JStr (rst_Model st)), (''object'', JStr ''response''),
        (''output'', JArr []), (''status'', JStr ''in_progress'')]), (''type'', JStr eventType)]"

definition item_event :: "string \<Rightarrow> string \<Rightarrow> responses_stream \<Rightarrow> json" where
  "item_event eventType status st = JObj
     [(''item'', JObj [(''content'', JArr []), (''id'', JStr (message_id (rst_item st))), (''role'', JStr ''assistant''),
        (''status'', JStr status), (''type'', JStr ''message'')]),
      (''output_index'', JInt (rst_item st)), (''type'', JStr eventType)]"

definition part_event :: "string \<Rightarrow> responses_stream \<Rightarrow> json" where
  "part_event eventType st = JObj
     [(''content_index'', JInt (rst_part st)), (''output_index'', JInt (rst_item st)), (''part'', output_text []),
      (''type'', JStr eventType)]"

definition output_delta_event :: "string \<Rightarrow> responses_stream \<Rightarrow> json" where
  "output_delta_event text st = JObj
     [(''content_index'', JInt (rst_part st)), (''delta'', JStr text), (''output_index'', JInt (rst_item st)),
      (''type'', JStr ''response.output_text.delta'')]"

definition text_done_event :: "responses_stream \<Rightarrow> json" where
  "text_done_event st = JObj
     [(''content_index'', JInt (rst_part st)), (''output_index'', JInt (rst_item st)), (''text'', JStr []),
      (''type'', JStr ''response.output_text.done'')]"

definition completed_event :: "responses_stream \<Rightarrow> json" where
  "completed_event st = JObj
     [(''response'', JObj [(''id'', JStr (rst_ID st)), (''model'', JStr (rst_Model st)), (''object'', JStr ''response''),
        (''status'', JStr ''completed''),
        (''usage'', usage_json (tc_InputTokens (rst_counts st)) (tc_OutputTokens (rst_counts st)))]),
      (''type'', JStr ''response.completed'')]"

definition start_stream :: "start_message \<Rightarrow> responses_stream \<Rightarrow> responses_stream" where
  "start_stream m st =
     st\<lparr>rst_ID := ''resp_'' @ sm_ID m, rst_Model := sm_Model m,
        rst_counts := (rst_counts st)\<lparr>tc_MessageID := ''resp_'' @ sm_ID m, tc_Model := sm_Model m,
          tc_InputTokens := sm_InputTokens m, tc_CacheCreationTokens := sm_CacheCreationTokens m,
          tc_CacheReadTokens := sm_CacheReadTokens m\<rparr>\<rparr>"

definition translateAnthropicSSEEvent :: "json_text \<Rightarrow> (nat \<Rightarrow> bool) \<Rightarrow> string \<Rightarrow> string \<Rightarrow> responses_stream \<Rightarrow> responses_stream" where
  "translateAnthropicSSEEvent J fails eventType data st =
     (if eventType = ''message_start'' then
        (case unmarshal J un_message_start zero_message_start data of
           None \<Rightarrow> st
         | Some m \<Rightarrow>
             (let st1 = start_stream m st
              in writeSSE fails ''response.in_progress'' (response_event ''response.in_progress'' st1)
                   (writeSSE fails ''response.created'' (response_event ''response.created'' st1) st1)))
      else if eventType = ''content_block_start'' then
        writeSSE fails ''response.content_part.added'' (part_event ''response.content_part.added'' st)
          (writeSSE fails ''response.output_item.added'' (item_event ''response.output_item.added'' ''in_progress'' st) st)
      else if eventType = ''content_block_delta'' then
        (case unmarshal J un_block_delta zero_reply_block data of
           None \<Rightarrow> st
         | Some b \<Rightarrow>
             if tb_Type b = ''text_delta'' \<and> tb_Text b \<noteq> []
             then writeSSE fails ''response.output_text.delta'' (output_delta_event (tb_Text b) st) st else st)
      else if eventType = ''content_block_stop'' then
        (let st1 = writeSSE fails ''response.content_part.done'' (part_event ''response.content_part.done'' st)
               (writeSSE fails ''response.output_text.done'' (text_done_event st) st)
         in st1\<lparr>rst_part := rst_part st1 + 1\<rparr>)
      else if eventType = ''message_delta'' then
        (case unmarshal J un_message_delta 0 data of
           None \<Rightarrow> st
         | Some n \<Rightarrow> st\<lparr>rst_counts := (rst_counts st)\<lparr>tc_OutputTokens := n\<rparr>\<rparr>)
      else if eventType = ''message_stop'' then
        (let st1 = writeSSE fails ''response.output_item.done'' (item_event ''response.output_item.done'' ''completed'' st) st;
             st2 = st1\<lparr>rst_item := rst_item st1 + 1, rst_part := 0\<rparr>
         in writeSSE fails ''response.completed'' (completed_event st2) st2)
      else st)"

definition stream_init :: responses_stream where
  "stream_init = \<lparr>rst_counts = no_counts, rst_ID = [], rst_Model = [], rst_item = 0, rst_part = 0, rst_writes = 0, rst_out = []\<rparr>"

definition sse_frames :: "json_text \<Rightarrow> (string \<times> json) list \<Rightarrow> string" where
  "sse_frames J out = sse_text (map (\<lambda>(event, j). (event, jt_Marshal J j)) out)"

definition TranslateAnthropicSSEToResponses :: "json_text \<Rightarrow> (nat \<Rightarrow> bool) \<Rightarrow> string \<Rightarrow> TokenCounts \<times> string \<times> bool" where
  "TranslateAnthropicSSEToResponses J fails body =
     (let (lines, tooLong) = scan_lines body;
          st = event_loop (translateAnthropicSSEEvent J fails) lines [] [] stream_init
      in (rst_counts st, sse_frames J (rst_out st), tooLong))"

section \<open>HandleResponses\<close>

record responses_env =
  re_proxy :: proxy_env
  re_settle :: go_time
  re_gone :: bool

abbreviation chatGPTCodexResponsesURL :: string where
  "chatGPTCodexResponsesURL \<equiv> ''https://chatgpt.com/backend-api/codex/responses''"

definition codex_passthrough :: "gin_context \<Rightarrow> bool" where
  "codex_passthrough c \<longleftrightarrow> cx_auth_method c = AuthMethodBrowserOAuth \<and> cx_billing_mode c = BillingModeMonthlySubscription"

text \<open>The estimate for answers of the ChatGPT backend without an id or without usage: four bytes per token.\<close>

definition codex_estimate :: "string \<Rightarrow> nat \<Rightarrow> nat \<Rightarrow> TokenCounts \<Rightarrow> TokenCounts" where
  "codex_estimate uuid bodyLen respBodyLen counts =
     (let c1 = (if tc_MessageID counts = [] then counts\<lparr>tc_MessageID := ''codex_'' @ uuid\<rparr> else counts);
          c2 = (if tc_InputTokens c1 = 0 then c1\<lparr>tc_InputTokens := max 1 (int bodyLen div 4)\<rparr> else c1)
      in if tc_OutputTokens c2 = 0
         then c2\<lparr>tc_OutputTokens := max 1
                (if 0 < tc_OutputTextBytes c2 then tc_OutputTextBytes c2 div 4
                 else if 0 < respBodyLen then int respBodyLen div 4 else 0)\<rparr>
         else c2)"

text \<open>A sub-handler returns the reply, the request that it sent, and the counts; None is its error, with the reply
  already written.\<close>

type_synonym responses_result = "gin_reply \<times> upstream_request option \<times> TokenCounts option"

definition build_failed :: "(string \<times> string) list \<Rightarrow> responses_result" where
  "build_failed hs = (error_reply hs (JSONError 500 ''tg_internal_error'' ''Failed to build upstream request.''), None, None)"

definition upstream_failed :: "(string \<times> string) list \<Rightarrow> upstream_request \<Rightarrow> bool \<Rightarrow> responses_result" where
  "upstream_failed hs uq clientGone =
     (error_reply hs (if clientGone then Silent else JSONError 502 ''tg_upstream_error'' ''Upstream request failed.''),
      Some uq, None)"

definition is_event_stream :: "upstream_response \<Rightarrow> bool" where
  "is_event_stream resp \<longleftrightarrow> strings_Contains (resp_Get (ur_Header resp) ''Content-Type'') ''text/event-stream''"

definition handleResponsesOpenAI :: "('s, 'v, 'q) ProxyHandler \<Rightarrow> json_text \<Rightarrow> proxy_env \<Rightarrow> gin_context \<Rightarrow> client_request \<Rightarrow>
    string \<Rightarrow> string \<Rightarrow> string option \<Rightarrow> (string \<times> string) list \<Rightarrow> responses_result" where
  "handleResponsesOpenAI h J env c req body provider byokKey hs =
     (let url = (if codex_passthrough c \<and> byokKey = None then chatGPTCodexResponsesURL
                 else upstreamBase ProviderOpenAI @ ''/v1/responses'')
      in case buildUpstreamRequest (pe_request_ok env) ''POST'' url body provider byokKey (cq_Header req) of
           None \<Rightarrow> build_failed hs
         | Some uq \<Rightarrow>
             (case pe_upstream env uq of
                DoError clientGone \<Rightarrow> upstream_failed hs uq clientGone
              | DoResponse resp \<Rightarrow>
                  (let isSSE = is_event_stream resp;
                       out = copyAndWriteResponseHeaders (ur_Header resp) isSSE hs;
                       estimate = (if codex_passthrough c then codex_estimate (pe_uuid env) (length body)
                                   else (\<lambda>_ counts. counts))
                   in if ur_Status resp \<noteq> 200
                      then (error_reply out (Relayed (ur_Status resp) (ur_Body resp)), Some uq, None)
                      else if isSSE then
                        (case ParseOpenAIResponsesSSE J (ur_WriteFails resp) (ur_Body resp) of
                           (counts, text, _) \<Rightarrow> (error_reply out (Relayed 200 text), Some uq, Some (estimate 0 counts)))
                      else if ur_ReadErr resp then (error_reply out (Relayed 200 []), Some uq, None)
                      else (error_reply out (Relayed 200 (ur_Body resp)), Some uq,
                            Some (estimate (length (ur_Body resp)) (extractTokensFromOpenAIResponsesJSON (ph_json h) (ur_Body resp)))))))"

definition json_headers :: "(string \<times> string) list \<Rightarrow> (string \<times> string) list" where
  "json_headers hs = out_Set ''Content-Type'' ''application/json'' hs"

definition event_stream_headers :: "(string \<times> string) list \<Rightarrow> (string \<times> string) list" where
  "event_stream_headers hs = out_Del ''Content-Length'' (out_Set ''X-Accel-Buffering'' ''no''
     (out_Set ''Cache-Control'' ''no-cache'' (out_Set ''Content-Type'' ''text/event-stream'' hs)))"

definition handleResponsesAnthropic :: "('s, 'v, 'q) ProxyHandler \<Rightarrow> json_text \<Rightarrow> proxy_env \<Rightarrow> client_request \<Rightarrow>
    ResponsesRequest \<Rightarrow> string \<Rightarrow> string option \<Rightarrow> (string \<times> string) list \<Rightarrow> responses_result" where
  "handleResponsesAnthropic h J env req rp provider byokKey hs =
     (case translateResponsesToAnthropic rp of
        Inl e \<Rightarrow> (error_reply hs (JSONError 400 ''tg_bad_request'' e), None, None)
      | Inr j \<Rightarrow>
          (case buildUpstreamRequest (pe_request_ok env) ''POST'' (upstreamBase ProviderAnthropic @ ''/v1/messages'')
                  (jt_Marshal J j) provider byokKey (cq_Header req) of
             None \<Rightarrow> build_failed hs
           | Some uq \<Rightarrow>
               (case pe_upstream env uq of
                  DoError clientGone \<Rightarrow> upstream_failed hs uq clientGone
                | DoResponse resp \<Rightarrow>
                    if ur_Status resp \<noteq> 200
                    then (error_reply (json_headers hs) (Relayed (ur_Status resp)
                            (translateAnthropicErrorToResponses J (ur_Status resp) (ur_Body resp))), Some uq, None)
                    else if is_event_stream resp then
                      (case TranslateAnthropicSSEToResponses J (ur_WriteFails resp) (ur_Body resp) of
                         (counts, text, _) \<Rightarrow> (error_reply (event_stream_headers hs) (Relayed 200 text), Some uq, Some counts))
                    else if ur_ReadErr resp then (error_reply hs Silent, Some uq, None)
                    else
                      (case translateAnthropicToResponsesJSON J (ur_Body resp) of
                         None \<Rightarrow> (error_reply (json_headers hs) (Relayed 200 (ur_Body resp)), Some uq,
                                  Some (extractTokensFromJSON (ph_json h) (ur_Body resp)))
                       | Some (translated, counts) \<Rightarrow>
                           (error_reply (json_headers hs) (Relayed 200 (jt_Marshal J translated)), Some uq, Some counts)))))"

text \<open>The end of the handler, under the context of the request. The clients of Redis and of the database, given a
  cancelled context, return its error before they send anything: a read finds nothing, a write does nothing, a query
  fails.\<close>

definition cancelled_redis :: "('s, 'v) redis_ops \<Rightarrow> ('s, 'v) redis_ops" where
  "cancelled_redis R = R\<lparr>rd_Get := \<lambda>_ _. None, rd_Set := \<lambda>s _ _ _. s, rd_Del := \<lambda>s _. s, rd_IncrByFloat := \<lambda>s _ _. s,
     rd_IncrBy := \<lambda>s _ _. (s, None), rd_ExpireAt := \<lambda>s _ _. s, rd_Expire := \<lambda>s _ _. s, rd_TTL := \<lambda>_ _. None\<rparr>"

definition cancelled_handler :: "('s, 'v, 'q) ProxyHandler \<Rightarrow> ('s, 'v, 'q) ProxyHandler" where
  "cancelled_handler h = h\<lparr>
     ph_eventQueue := (ph_eventQueue h)\<lparr>xs_Add := \<lambda>_ q. (False, q)\<rparr>,
     ph_rateLimiter := map_option (lm_rdb_update (map_option cancelled_redis)) (ph_rateLimiter h),
     ph_pricingEngine := map_option (en_resolver_update (rs_rdb_update (map_option cancelled_redis))) (ph_pricingEngine h)\<rparr>"

definition responses_settle :: "('s, 'v, 'q) ProxyHandler \<Rightarrow> responses_env \<Rightarrow> bookkeeping \<Rightarrow> ('s, 'q) proxy_state \<Rightarrow>
    ('s, 'q) proxy_state" where
  "responses_settle h env bk st =
     (if re_gone env
      then settle (cancelled_handler h) ((pe_rl_db (re_proxy env))\<lparr>rdb_down := True\<rparr>) (re_settle env) bk st
      else settle h (pe_rl_db (re_proxy env)) (re_settle env) bk st)"

definition dispatch_responses :: "('s, 'v, 'q) ProxyHandler \<Rightarrow> json_text \<Rightarrow> responses_env \<Rightarrow> gin_context \<Rightarrow> client_request \<Rightarrow>
    ResponsesRequest \<Rightarrow> string \<Rightarrow> string \<Rightarrow> int \<Rightarrow> rat \<Rightarrow> string option \<Rightarrow> (string \<times> string) list \<Rightarrow> ('s, 'q) proxy_state \<Rightarrow>
    ('s, 'q) outcome" where
  "dispatch_responses h J env c req rp body provider maxTokens reserved byokKey hs st =
     (if provider \<noteq> ProviderOpenAI \<and> provider \<noteq> ProviderAnthropic
      then refuse (error_reply hs (JSONError 400 ''tg_bad_request''
             (''Provider '' @ go_quote provider @ '' does not support /v1/responses.''))) st
      else
        (let (reply, sent, res) =
               (if provider = ProviderOpenAI then handleResponsesOpenAI h J (re_proxy env) c req body provider byokKey hs
                else handleResponsesAnthropic h J (re_proxy env) req rp provider byokKey hs);
             billed = determineBillable (cx_billing_mode c)
         in \<lparr>oc_reply = reply, oc_sent = sent, oc_pending = None,
             oc_state =
               (case res of
                  None \<Rightarrow> st
                | Some counts \<Rightarrow>
                    responses_settle h env
                      \<lparr>bk_tenantID = cx_tenant_id c, bk_projectID = cx_project_id c, bk_keyID = cx_key_id c,
                       bk_provider = provider, bk_model = rp_Model rp, bk_maxTokens = maxTokens,
                       bk_counts = (if tc_Model counts = [] then counts\<lparr>tc_Model := rp_Model rp\<rparr> else counts),
                       bk_reserved = reserved, bk_billed = billed, bk_hint = key_hint billed byokKey (cq_Header req),
                       bk_latency = pe_latency (re_proxy env), bk_ts = pe_response (re_proxy env)\<rparr> st)\<rparr>))"

definition HandleResponses :: "('s, 'v, 'q) ProxyHandler \<Rightarrow> json_text \<Rightarrow> responses_env \<Rightarrow> gin_context \<Rightarrow> client_request \<Rightarrow>
    ('s, 'q) proxy_state \<Rightarrow> ('s, 'q) outcome" where
  "HandleResponses h J env c req st =
     (let bad = \<lambda>m. refuse (error_reply [] (JSONError 400 ''tg_bad_request'' m)) st; tenantID = cx_tenant_id c;
          keyID = cx_key_id c; keyProvider = cx_provider c
      in case cq_Body req of
           None \<Rightarrow> bad ''Failed to read request body.''
         | Some body \<Rightarrow>
             (case unmarshal J un_ResponsesRequest zero_ResponsesRequest body of
                None \<Rightarrow> bad ''Invalid JSON in request body.''
              | Some rp \<Rightarrow>
                  if rp_Model rp = [] then bad ''Missing required field: model.''
                  else if blocked_by_allowlist h c (rp_Model rp)
                  then refuse (error_reply [] (JSONError 403 ''model_not_allowed''
                    (''Model '' @ go_quote (rp_Model rp) @ '' is not in this API key'' @ [CHR 0x27] @ ''s allowlist.''))) st
                  else
                    (case (case ResolveProviderFromModel (rp_Model rp) of
                             Some p \<Rightarrow> Some p | None \<Rightarrow> if keyProvider \<noteq> [] then Some keyProvider else None) of
                       None \<Rightarrow> bad (''Cannot determine provider for model '' @ go_quote (rp_Model rp) @ ''.'')
                     | Some provider \<Rightarrow>
                         if keyProvider \<noteq> [] \<and> provider \<noteq> keyProvider
                         then refuse (error_reply [] (JSONError 403 ''tg_provider_mismatch''
                           (''API key provider '' @ go_quote keyProvider @ '' does not match model provider '' @
                            go_quote provider @ '' for model '' @ go_quote (rp_Model rp) @ ''.''))) st
                         else
                           (let maxTokens = (case rp_MaxOutputTokens rp of Some n \<Rightarrow> n | None \<Rightarrow> 0);
                                env' = re_proxy env; model = rp_Model rp
                            in case checkRateLimit h env' tenantID keyID provider model (length body) maxTokens st of
                                 (Some r, st1) \<Rightarrow>
                                   refuse r (record_event h \<lparr>ge_TenantID = tenantID, ge_KeyID = keyID, ge_Provider = provider,
                                     ge_Model = model, ge_EventType = ''rate_limit_429'', ge_StatusCode = 429\<rparr> st1)
                               | (None, st1) \<Rightarrow>
                                   (case preCheckBudget h env' tenantID keyID provider model maxTokens st1 of
                                      (BudgetRefused r, st2) \<Rightarrow>
                                        refuse r (if gr_Result r = Panicked then st2
                                          else record_event h \<lparr>ge_TenantID = tenantID, ge_KeyID = keyID, ge_Provider = provider,
                                            ge_Model = model, ge_EventType = ''budget_exceeded_402'', ge_StatusCode = 402\<rparr> st2)
                                    | (BudgetPass reserved hs, st2) \<Rightarrow>
                                        (case resolveAuth h env' tenantID provider (cx_auth_method c) st2 of
                                           (Inl r, st3) \<Rightarrow> refuse (error_reply hs r) st3
                                         | (Inr byokKey, st3) \<Rightarrow>
                                             dispatch_responses h J env c req rp body provider maxTokens reserved byokKey hs st3))))))"

section \<open>Streams of events\<close>

lemma sse_prefixes:
  "strings_HasPrefix (''event: '' @ et) ''event:''" "strings_TrimPrefix (''event: '' @ et) ''event:'' = CHR '' '' # et"
  "\<not> strings_HasPrefix (''data: '' @ d) ''event:''" "strings_HasPrefix (''data: '' @ d) ''data:''"
  "strings_TrimPrefix (''data: '' @ d) ''data:'' = CHR '' '' # d"
  "\<not> strings_HasPrefix [] ''event:''" "\<not> strings_HasPrefix [] ''data:''"
  by (simp_all add: strings_TrimPrefix_def strings_HasPrefix_def)

lemma event_loop_block:
  assumes "trimmed et" "trimmed d"
  shows "event_loop f (sse_block (et, d) @ lines) [] [] x = event_loop f lines [] [] (f et d x)"
proof -
  have "event_loop f ((''event: '' @ et) # (''data: '' @ d) # [] # lines) [] [] x =
      event_loop f ((''data: '' @ d) # [] # lines) et [] x"
    unfolding event_loop.simps(2) [of f "''event: '' @ et"] sse_prefixes(2) TrimSpace_trimmed [OF assms(1)]
    by (simp only: sse_prefixes if_True)
  also have "\<dots> = event_loop f ([] # lines) et [d] x"
    unfolding event_loop.simps(2) [of f "''data: '' @ d"] sse_prefixes(5) TrimSpace_trimmed [OF assms(2)]
    by (simp only: sse_prefixes if_True if_False append_Nil)
  also have "\<dots> = event_loop f lines [] [] (f et d x)" by (simp add: sse_prefixes join_lines_def)
  finally show ?thesis by (simp only: sse_block_def split append.simps)
qed

lemma event_loop_blocks:
  assumes "\<forall>ev \<in> set evs. plain_event ev"
  shows "event_loop f (concat (map sse_block evs)) [] [] x = fold (\<lambda>(et, d). f et d) evs x"
  using assms
proof (induction evs arbitrary: x)
  case (Cons ev evs)
  obtain et d where ev: "ev = (et, d)" by fastforce
  with Cons.prems have "trimmed et" "trimmed d" by (simp_all add: plain_event_def)
  then show ?case using Cons ev event_loop_block [of et d f] by simp
qed simp

lemma written_all [simp]: "written_lines (\<lambda>_. False) i lines = lines"
  by (induction lines arbitrary: i) simp_all

lemma OpenAI_responses_text:
  assumes "\<forall>ev \<in> set evs. plain_event ev"
  shows "ParseOpenAIResponsesSSE J (\<lambda>_. False) (sse_text evs) =
    (fold (\<lambda>(et, d). parseOpenAIResponsesSSEEvent J et d) evs no_counts, sse_text evs, False)"
  using assms by (simp add: ParseOpenAIResponsesSSE_def scan_sse_text event_loop_blocks) (simp add: sse_text_def)

abbreviation translate_events :: "json_text \<Rightarrow> (string \<times> string) list \<Rightarrow> responses_stream \<Rightarrow> responses_stream" where
  "translate_events J \<equiv> fold (\<lambda>(et, d). translateAnthropicSSEEvent J (\<lambda>_. False) et d)"

lemma translate_text:
  assumes "\<forall>ev \<in> set evs. plain_event ev"
  shows "TranslateAnthropicSSEToResponses J (\<lambda>_. False) (sse_text evs) =
    (rst_counts (translate_events J evs stream_init), sse_frames J (rst_out (translate_events J evs stream_init)), False)"
  using assms by (simp add: TranslateAnthropicSSEToResponses_def scan_sse_text event_loop_blocks Let_def)

text \<open>The text that an event of Anthropic brings, and the text that an event of the Responses API brings.\<close>

definition event_text :: "json_text \<Rightarrow> string \<times> string \<Rightarrow> string" where
  "event_text J = (\<lambda>(et, d).
     if et = ''content_block_delta'' then
       (case unmarshal J un_block_delta zero_reply_block d of
          Some b \<Rightarrow> if tb_Type b = ''text_delta'' then tb_Text b else []
        | None \<Rightarrow> [])
     else [])"

definition frame_text :: "string \<times> json \<Rightarrow> string" where
  "frame_text = (\<lambda>(et, j). if et = ''response.output_text.delta'' then string_entry j ''delta'' else [])"

text \<open>What a translated stream has said so far.\<close>

definition said :: "responses_stream \<Rightarrow> string" where
  "said st = concat (map frame_text (rst_out st))"

lemma said_writeSSE [simp]: "said (writeSSE (\<lambda>_. False) et j st) = said st @ frame_text (et, j)"
  by (simp add: said_def writeSSE_def)

lemma said_update [simp]:
  "said (rst_part_update f st) = said st" "said (rst_item_update f st) = said st" "said (rst_counts_update g st) = said st"
  "said (start_stream m st) = said st"
  by (simp_all add: said_def start_stream_def)

lemma frame_text_simps [simp]:
  "frame_text (''response.created'', j) = []" "frame_text (''response.in_progress'', j) = []"
  "frame_text (''response.content_part.added'', j) = []" "frame_text (''response.output_item.added'', j) = []"
  "frame_text (''response.content_part.done'', j) = []" "frame_text (''response.output_text.done'', j) = []"
  "frame_text (''response.output_item.done'', j) = []" "frame_text (''response.completed'', j) = []"
  "frame_text (''response.output_text.delta'', output_delta_event t st) = t"
  by (simp_all add: frame_text_def output_delta_event_def string_entry_def)

lemma said_event: "said (translateAnthropicSSEEvent J (\<lambda>_. False) et d st) = said st @ event_text J (et, d)"
  by (simp add: translateAnthropicSSEEvent_def event_text_def Let_def split: option.split)

lemma said_events: "said (translate_events J evs st) = said st @ concat (map (event_text J) evs)"
  by (induction evs arbitrary: st) (auto simp: said_event)

text \<open>The identifiers that the stream keeps are those of its counts, and the counts come from 64-bit integers.\<close>

definition counts_ok :: "responses_stream \<Rightarrow> bool" where
  "counts_ok st \<longleftrightarrow> rst_ID st = tc_MessageID (rst_counts st) \<and> rst_Model st = tc_Model (rst_counts st) \<and>
     int64_range (tc_InputTokens (rst_counts st)) \<and> int64_range (tc_OutputTokens (rst_counts st))"

lemma writeSSE_simps [simp]:
  "rst_counts (writeSSE fails et j st) = rst_counts st" "rst_ID (writeSSE fails et j st) = rst_ID st"
  "rst_Model (writeSSE fails et j st) = rst_Model st" "rst_item (writeSSE fails et j st) = rst_item st"
  "rst_part (writeSSE fails et j st) = rst_part st"
  by (simp_all add: writeSSE_def)

lemma counts_ok_writeSSE [simp]: "counts_ok (writeSSE fails et j st) = counts_ok st"
  by (simp add: counts_ok_def)

lemma counts_ok_update [simp]:
  "counts_ok (rst_part_update f st) = counts_ok st" "counts_ok (rst_item_update f st) = counts_ok st"
  by (simp_all add: counts_ok_def)

text \<open>A decoder that keeps a property of its target.\<close>

definition keeps :: "('a \<Rightarrow> bool) \<Rightarrow> 'a decoder \<Rightarrow> bool" where
  "keeps P un \<longleftrightarrow> (\<forall>j r r'. P r \<longrightarrow> un j r = Some r' \<longrightarrow> P r')"

lemma keeps_entries: "list_all (\<lambda>(k, un). keeps P un) fs \<Longrightarrow> un_entries fs kvs r = Some r' \<Longrightarrow> P r \<Longrightarrow> P r'"
proof (induction fs kvs r rule: un_entries.induct)
  case (2 fs k j kvs r)
  show ?case
  proof (cases "map_of fs (strings_ToLower k)")
    case None
    with 2 show ?thesis by simp
  next
    case (Some un)
    then have "keeps P un" using 2(3) map_of_SomeD [OF Some] by (auto simp: list_all_iff)
    with Some 2 show ?thesis by (auto simp: keeps_def split: option.splits)
  qed
qed simp

lemma keeps_struct:
  assumes "list_all (\<lambda>(k, un). keeps P un) fs"
  shows "keeps P (un_struct fs)"
  unfolding keeps_def
proof (intro allI impI)
  fix j r r'
  assume "P r" "un_struct fs j r = Some r'"
  then show "P r'" by (cases j) (auto simp: un_struct_def intro: keeps_entries [OF assms])
qed

lemma keeps_other: "(\<And>x r. P (upd (\<lambda>_. x) r) = P r) \<Longrightarrow> keeps P (fld un get upd)"
  by (auto simp: keeps_def fld_def)

lemma keeps_int: "(\<And>x r. P r \<Longrightarrow> x = get r \<or> int64_range x \<Longrightarrow> P (upd (\<lambda>_. x) r)) \<Longrightarrow> keeps P (fld un_int get upd)"
  by (auto simp: keeps_def fld_def un_int_def split: json.splits if_splits)

lemma message_start_range:
  assumes "unmarshal J un_message_start zero_message_start d = Some m"
  shows "int64_range (sm_InputTokens m)"
proof -
  let ?P = "\<lambda>m. int64_range (sm_InputTokens m)"
  have "keeps ?P un_message_start"
    unfolding un_message_start_def
    by (rule keeps_struct, simp, rule keeps_struct, auto intro!: keeps_other keeps_struct keeps_int)
  moreover have "?P zero_message_start" by (simp add: zero_message_start_def int64_range_def)
  ultimately show ?thesis using assms unfolding keeps_def unmarshal_def by (metis option.case_eq_if option.distinct(1))
qed

lemma message_delta_range:
  assumes "unmarshal J un_message_delta 0 d = Some n"
  shows "int64_range n"
proof -
  have "keeps int64_range un_message_delta"
    unfolding un_message_delta_def by (auto intro!: keeps_struct keeps_int)
  moreover have "int64_range 0" by (simp add: int64_range_def)
  ultimately show ?thesis using assms unfolding keeps_def unmarshal_def by (metis option.case_eq_if option.distinct(1))
qed

lemma counts_ok_start: "counts_ok st \<Longrightarrow> int64_range (sm_InputTokens m) \<Longrightarrow> counts_ok (start_stream m st)"
  by (simp add: counts_ok_def start_stream_def)

lemma counts_ok_output: "counts_ok st \<Longrightarrow> int64_range n \<Longrightarrow> counts_ok (st\<lparr>rst_counts := (rst_counts st)\<lparr>tc_OutputTokens := n\<rparr>\<rparr>)"
  by (simp add: counts_ok_def)

lemma counts_ok_event: "counts_ok st \<Longrightarrow> counts_ok (translateAnthropicSSEEvent J (\<lambda>_. False) et d st)"
  unfolding translateAnthropicSSEEvent_def Let_def
  by (intro if_split [where P = counts_ok, THEN iffD2] conjI impI; simp split: option.split;
      simp add: counts_ok_start counts_ok_output message_start_range message_delta_range)

lemma counts_ok_events: "counts_ok st \<Longrightarrow> counts_ok (translate_events J evs st)"
  by (induction evs arbitrary: st) (auto simp: counts_ok_event)

lemma counts_ok_init: "counts_ok stream_init"
  by (simp add: counts_ok_def stream_init_def no_counts_def int64_range_def)

text \<open>How the gateway's own parser reads a frame that its text gives back.\<close>

definition read_frame :: "string \<times> json \<Rightarrow> TokenCounts \<Rightarrow> TokenCounts" where
  "read_frame = (\<lambda>(et, j). parseOpenAIResponsesSSEEvent \<lparr>jt_Unmarshal = \<lambda>_. Some j, jt_Marshal = \<lambda>_. []\<rparr> et [])"

lemma read_frame_text:
  "jt_Unmarshal J (jt_Marshal J j) = Some j \<Longrightarrow>
   parseOpenAIResponsesSSEEvent J et (jt_Marshal J j) c = read_frame (et, j) c"
  by (simp add: read_frame_def parseOpenAIResponsesSSEEvent_def unmarshal_def)

lemma lower_event_names [simp]:
  "strings_ToLower ''content_index'' = ''content_index''" "strings_ToLower ''delta'' = ''delta''"
  "strings_ToLower ''output_index'' = ''output_index''" "strings_ToLower ''type'' = ''type''"
  "strings_ToLower ''response'' = ''response''" "strings_ToLower ''id'' = ''id''" "strings_ToLower ''model'' = ''model''"
  "strings_ToLower ''object'' = ''object''" "strings_ToLower ''status'' = ''status''" "strings_ToLower ''usage'' = ''usage''"
  "strings_ToLower ''input_tokens'' = ''input_tokens''" "strings_ToLower ''output_tokens'' = ''output_tokens''"
  "strings_ToLower ''total_tokens'' = ''total_tokens''"
  by code_simp+

lemma un_output_delta_frame: "un_output_delta (output_delta_event t st) [] = Some t"
  by (simp add: un_output_delta_def output_delta_event_def fld_def un_str_def)

lemma un_completed_event:
  assumes "counts_ok st"
  shows "un_completed (completed_event st) zero_completed = Some \<lparr>ob_ID = rst_ID st, ob_Model = rst_Model st,
    ob_InputTokens = tc_InputTokens (rst_counts st), ob_OutputTokens = tc_OutputTokens (rst_counts st), ob_PromptTokens = 0,
    ob_CompletionTokens = 0\<rparr>"
proof -
  have "int64_range (tc_InputTokens (rst_counts st))" "int64_range (tc_OutputTokens (rst_counts st))"
    using assms by (simp_all add: counts_ok_def)
  then show ?thesis
    by (simp add: un_completed_def completed_event_def usage_json_def fld_def un_str_def un_int_def zero_completed_def)
qed

section \<open>The translated stream\<close>

text \<open>Reading a frame of the translation: the bytes of its text are counted, and the last frame sets the rest.\<close>

definition frames_counts :: "responses_stream \<Rightarrow> TokenCounts" where
  "frames_counts st = fold read_frame (rst_out st) no_counts"

lemma frames_counts_writeSSE [simp]:
  "frames_counts (writeSSE (\<lambda>_. False) et j st) = read_frame (et, j) (frames_counts st)"
  by (simp add: frames_counts_def writeSSE_def)

lemma frames_counts_update [simp]:
  "frames_counts (rst_part_update f st) = frames_counts st" "frames_counts (rst_item_update f st) = frames_counts st"
  "frames_counts (rst_counts_update g st) = frames_counts st" "frames_counts (start_stream m st) = frames_counts st"
  by (simp_all add: frames_counts_def start_stream_def)

lemma read_frame_simps [simp]:
  "read_frame (''response.created'', j) c = c" "read_frame (''response.in_progress'', j) c = c"
  "read_frame (''response.content_part.added'', j) c = c" "read_frame (''response.output_item.added'', j) c = c"
  "read_frame (''response.content_part.done'', j) c = c" "read_frame (''response.output_text.done'', j) c = c"
  "read_frame (''response.output_item.done'', j) c = c"
  "read_frame (''response.output_text.delta'', output_delta_event t st) c =
     c\<lparr>tc_OutputTextBytes := tc_OutputTextBytes c + int (length t)\<rparr>"
  by (simp_all add: read_frame_def parseOpenAIResponsesSSEEvent_def unmarshal_def un_output_delta_frame)

lemma read_completed:
  "counts_ok st \<Longrightarrow> read_frame (''response.completed'', completed_event st) c =
     c\<lparr>tc_MessageID := tc_MessageID (rst_counts st), tc_Model := tc_Model (rst_counts st),
       tc_InputTokens := tc_InputTokens (rst_counts st), tc_OutputTokens := tc_OutputTokens (rst_counts st)\<rparr>"
  by (simp add: read_frame_def parseOpenAIResponsesSSEEvent_def unmarshal_def un_completed_event)
    (simp add: counts_ok_def)

lemma completed_bytes: "counts_ok st \<Longrightarrow> tc_OutputTextBytes (read_frame (''response.completed'', completed_event st) c) = tc_OutputTextBytes c"
  by (simp add: read_completed)

lemma bytes_event:
  assumes "counts_ok st" "tc_OutputTextBytes (frames_counts st) = int (length (said st))"
  shows "tc_OutputTextBytes (frames_counts (translateAnthropicSSEEvent J (\<lambda>_. False) et d st)) =
    int (length (said (translateAnthropicSSEEvent J (\<lambda>_. False) et d st)))"
  using assms by (simp add: translateAnthropicSSEEvent_def Let_def completed_bytes split: option.split)

lemma bytes_events:
  assumes "counts_ok st" "tc_OutputTextBytes (frames_counts st) = int (length (said st))"
  shows "tc_OutputTextBytes (frames_counts (translate_events J evs st)) = int (length (said (translate_events J evs st)))"
  using assms
proof (induction evs arbitrary: st)
  case (Cons ev evs)
  then show ?case by (cases ev) (simp add: Cons.IH counts_ok_event bytes_event)
qed simp

lemma translate_stop:
  "translate_events J (evs @ [(''message_stop'', d)]) st =
     (let st0 = translate_events J evs st;
          st1 = writeSSE (\<lambda>_. False) ''response.output_item.done'' (item_event ''response.output_item.done'' ''completed'' st0) st0;
          st2 = st1\<lparr>rst_item := rst_item st1 + 1, rst_part := 0\<rparr>
      in writeSSE (\<lambda>_. False) ''response.completed'' (completed_event st2) st2)"
  by (simp add: translateAnthropicSSEEvent_def Let_def)

text \<open>The usage of an Anthropic stream: its last \<open>message_start\<close> that parses names the message, the model, and
  the input and cache tokens; its last \<open>message_delta\<close> that parses counts the output tokens.\<close>

definition stream_starts :: "json_text \<Rightarrow> (string \<times> string) list \<Rightarrow> start_message list" where
  "stream_starts J = List.map_filter (\<lambda>(et, d).
     if et = ''message_start'' then unmarshal J un_message_start zero_message_start d else None)"

definition stream_outputs :: "json_text \<Rightarrow> (string \<times> string) list \<Rightarrow> int list" where
  "stream_outputs J = List.map_filter (\<lambda>(et, d).
     if et = ''message_delta'' then unmarshal J un_message_delta 0 d else None)"

definition anthropic_usage :: "json_text \<Rightarrow> (string \<times> string) list \<Rightarrow> TokenCounts" where
  "anthropic_usage J evs =
     (case rev (stream_starts J evs) of
        [] \<Rightarrow> no_counts
      | m # _ \<Rightarrow> \<lparr>tc_InputTokens = sm_InputTokens m, tc_OutputTokens = 0, tc_CacheCreationTokens = sm_CacheCreationTokens m,
          tc_CacheReadTokens = sm_CacheReadTokens m, tc_MessageID = ''resp_'' @ sm_ID m, tc_Model = sm_Model m,
          tc_OutputTextBytes = 0\<rparr>)\<lparr>tc_OutputTokens := (case rev (stream_outputs J evs) of [] \<Rightarrow> 0 | n # _ \<Rightarrow> n)\<rparr>"

lemma map_filter_snoc: "List.map_filter f (xs @ [x]) = List.map_filter f xs @ (case f x of None \<Rightarrow> [] | Some y \<Rightarrow> [y])"
  by (simp add: List.map_filter_def split: option.split)

lemma stream_usage_snoc:
  "stream_starts J (evs @ [(et, d)]) = stream_starts J evs @
     (if et = ''message_start'' then (case unmarshal J un_message_start zero_message_start d of None \<Rightarrow> [] | Some m \<Rightarrow> [m]) else [])"
  "stream_outputs J (evs @ [(et, d)]) = stream_outputs J evs @
     (if et = ''message_delta'' then (case unmarshal J un_message_delta 0 d of None \<Rightarrow> [] | Some n \<Rightarrow> [n]) else [])"
  by (simp_all add: stream_starts_def stream_outputs_def map_filter_snoc)

lemma billed_counts: "rst_counts (translate_events J evs stream_init) = anthropic_usage J evs"
proof (induction evs rule: rev_induct)
  case Nil
  show ?case by (simp add: anthropic_usage_def stream_starts_def stream_outputs_def List.map_filter_def stream_init_def no_counts_def)
next
  case (snoc ev evs)
  let ?st = "translate_events J evs stream_init"
  obtain et d where ev: "ev = (et, d)" by fastforce
  have "rst_counts (translateAnthropicSSEEvent J (\<lambda>_. False) et d ?st) = anthropic_usage J (evs @ [(et, d)])"
    by (simp add: snoc translateAnthropicSSEEvent_def anthropic_usage_def stream_usage_snoc start_stream_def
        no_counts_def Let_def split: option.split list.split)
  then show ?case by (simp add: ev)
qed

text \<open>The events of the Responses API have no place for cache tokens.\<close>

lemma read_frames_cache:
  "tc_CacheCreationTokens (fold read_frame out c) = tc_CacheCreationTokens c"
  "tc_CacheReadTokens (fold read_frame out c) = tc_CacheReadTokens c"
  by (induction out arbitrary: c) (auto simp: read_frame_def parseOpenAIResponsesSSEEvent_def split: option.split)

lemma frames_counts_cache: "tc_CacheCreationTokens (frames_counts st) = 0" "tc_CacheReadTokens (frames_counts st) = 0"
  by (simp_all add: frames_counts_def read_frames_cache no_counts_def)

text \<open>The frames that the translation of an event sequence writes.\<close>

definition translated_frames :: "json_text \<Rightarrow> (string \<times> string) list \<Rightarrow> (string \<times> json) list" where
  "translated_frames J evs = rst_out (translate_events J evs stream_init)"

definition frame_fits :: "json_text \<Rightarrow> string \<times> json \<Rightarrow> bool" where
  "frame_fits J = (\<lambda>(et, j). plain_event (et, jt_Marshal J j) \<and> jt_Unmarshal J (jt_Marshal J j) = Some j)"

lemma frames_read:
  assumes "list_all (frame_fits J) out"
  shows "fold (\<lambda>(et, d). parseOpenAIResponsesSSEEvent J et d) (map (\<lambda>(et, j). (et, jt_Marshal J j)) out) c = fold read_frame out c"
  using assms by (induction out arbitrary: c) (auto simp: frame_fits_def read_frame_text)

lemma responses_stream_agrees:
  assumes "list_all plain_event evs" "evs = evs' @ [(''message_stop'', d)]" "list_all (frame_fits J) (translated_frames J evs)"
  shows "\<exists>billed text. TranslateAnthropicSSEToResponses J (\<lambda>_. False) (sse_text evs) = (billed, text, False) \<and>
    billed = anthropic_usage J evs \<and>
    concat (map frame_text (translated_frames J evs)) = concat (map (event_text J) evs) \<and>
    ParseOpenAIResponsesSSE J (\<lambda>_. False) text =
      (billed\<lparr>tc_CacheCreationTokens := 0, tc_CacheReadTokens := 0,
         tc_OutputTextBytes := int (length (concat (map (event_text J) evs)))\<rparr>, text, False)"
proof -
  let ?st = "translate_events J evs stream_init" and ?frames = "map (\<lambda>(et, j). (et, jt_Marshal J j)) (translated_frames J evs)"
  have init: "said stream_init = []" "frames_counts stream_init = no_counts" "tc_OutputTextBytes no_counts = 0"
    by (simp_all add: said_def frames_counts_def stream_init_def no_counts_def)
  have T: "TranslateAnthropicSSEToResponses J (\<lambda>_. False) (sse_text evs) = (rst_counts ?st, sse_text ?frames, False)"
    using translate_text [of evs J] assms(1) by (simp add: list_all_iff sse_frames_def translated_frames_def)
  have "\<forall>ev \<in> set ?frames. plain_event ev" using assms(3) by (auto simp: list_all_iff frame_fits_def)
  then have P: "ParseOpenAIResponsesSSE J (\<lambda>_. False) (sse_text ?frames) = (frames_counts ?st, sse_text ?frames, False)"
    by (simp add: OpenAI_responses_text frames_read [OF assms(3)]) (simp add: frames_counts_def translated_frames_def)
  have ok: "counts_ok (translate_events J evs' stream_init)" by (intro counts_ok_events counts_ok_init)
  have C: "tc_InputTokens (frames_counts ?st) = tc_InputTokens (rst_counts ?st)"
    "tc_OutputTokens (frames_counts ?st) = tc_OutputTokens (rst_counts ?st)"
    "tc_MessageID (frames_counts ?st) = tc_MessageID (rst_counts ?st)" "tc_Model (frames_counts ?st) = tc_Model (rst_counts ?st)"
    unfolding assms(2) translate_stop Let_def using ok by (simp_all add: read_completed)
  have S: "said ?st = concat (map (event_text J) evs)" by (simp add: said_events init)
  have "tc_OutputTextBytes (frames_counts ?st) = int (length (said ?st))"
    by (rule bytes_events) (simp_all add: counts_ok_init init)
  with C S have "frames_counts ?st = (rst_counts ?st)\<lparr>tc_CacheCreationTokens := 0, tc_CacheReadTokens := 0,
      tc_OutputTextBytes := int (length (concat (map (event_text J) evs)))\<rparr>"
    by (intro TokenCounts.equality) (simp_all add: frames_counts_cache)
  with T P S show ?thesis by (simp add: said_def translated_frames_def billed_counts)
qed

section \<open>Admission\<close>

text \<open>The provider of a request: that of the model, otherwise that of the key.\<close>

definition responses_provider :: "gin_context \<Rightarrow> string \<Rightarrow> string option" where
  "responses_provider c model =
     (case ResolveProviderFromModel model of
        Some p \<Rightarrow> Some p | None \<Rightarrow> if cx_provider c \<noteq> [] then Some (cx_provider c) else None)"

definition responses_limit :: "ResponsesRequest \<Rightarrow> int" where
  "responses_limit rp = (case rp_MaxOutputTokens rp of Some n \<Rightarrow> n | None \<Rightarrow> 0)"

lemma HandleResponses_admitted:
  assumes "cq_Body req = Some body" "unmarshal J un_ResponsesRequest zero_ResponsesRequest body = Some rp"
    "rp_Model rp \<noteq> []" "\<not> blocked_by_allowlist h c (rp_Model rp)" "responses_provider c (rp_Model rp) = Some provider"
    "cx_provider c = [] \<or> cx_provider c = provider"
    "checkRateLimit h (re_proxy env) (cx_tenant_id c) (cx_key_id c) provider (rp_Model rp) (length body)
       (responses_limit rp) st = (None, st1)"
    "preCheckBudget h (re_proxy env) (cx_tenant_id c) (cx_key_id c) provider (rp_Model rp) (responses_limit rp) st1 =
       (BudgetPass reserved hs, st2)"
    "resolveAuth h (re_proxy env) (cx_tenant_id c) provider (cx_auth_method c) st2 = (Inr key, st3)"
  shows "HandleResponses h J env c req st =
    dispatch_responses h J env c req rp body provider (responses_limit rp) reserved key hs st3"
  using assms by (auto simp: HandleResponses_def Let_def responses_provider_def [symmetric] responses_limit_def [symmetric])

lemma HandleResponses_sent:
  assumes "oc_sent (HandleResponses h J env c req st) = Some uq"
  obtains body rp provider st1 reserved hs st2 key st3 where
    "cq_Body req = Some body" "unmarshal J un_ResponsesRequest zero_ResponsesRequest body = Some rp"
    "rp_Model rp \<noteq> []" "\<not> blocked_by_allowlist h c (rp_Model rp)" "responses_provider c (rp_Model rp) = Some provider"
    "cx_provider c = [] \<or> cx_provider c = provider" "provider = ProviderOpenAI \<or> provider = ProviderAnthropic"
    "checkRateLimit h (re_proxy env) (cx_tenant_id c) (cx_key_id c) provider (rp_Model rp) (length body)
       (responses_limit rp) st = (None, st1)"
    "preCheckBudget h (re_proxy env) (cx_tenant_id c) (cx_key_id c) provider (rp_Model rp) (responses_limit rp) st1 =
       (BudgetPass reserved hs, st2)"
    "resolveAuth h (re_proxy env) (cx_tenant_id c) provider (cx_auth_method c) st2 = (Inr key, st3)"
    "HandleResponses h J env c req st =
       dispatch_responses h J env c req rp body provider (responses_limit rp) reserved key hs st3"
proof (cases "cq_Body req")
  case None
  with assms show thesis by (simp add: HandleResponses_def refuse_def)
next
  case (Some body)
  let ?T = "cx_tenant_id c" and ?K = "cx_key_id c" and ?e = "re_proxy env"
  note unf = HandleResponses_def [of h J env c req st, unfolded Let_def Some option.case, folded responses_provider_def]
  obtain rp where rp: "unmarshal J un_ResponsesRequest zero_ResponsesRequest body = Some rp"
    using assms by (cases "unmarshal J un_ResponsesRequest zero_ResponsesRequest body") (simp_all add: unf refuse_def)
  let ?M = "rp_Model rp"
  have m: "?M \<noteq> []" "\<not> blocked_by_allowlist h c ?M" using assms by (auto simp: unf rp refuse_def split: if_splits)
  obtain provider where p: "responses_provider c ?M = Some provider"
    using assms m by (cases "responses_provider c ?M") (simp_all add: unf rp refuse_def)
  have match: "cx_provider c = [] \<or> cx_provider c = provider"
    using assms m p by (auto simp: unf rp refuse_def split: if_splits)
  note unf = unf [unfolded rp option.case p, folded responses_limit_def]
  obtain r st1 where 1: "checkRateLimit h ?e ?T ?K provider ?M (length body) (responses_limit rp) st = (r, st1)" by fastforce
  have r: "r = None" using assms m match 1 by (cases r) (auto simp: unf refuse_def)
  obtain b st2 where 2: "preCheckBudget h ?e ?T ?K provider ?M (responses_limit rp) st1 = (b, st2)" by fastforce
  obtain reserved hs where b: "b = BudgetPass reserved hs"
    using assms m match 1 r 2 by (cases b) (auto simp: unf refuse_def)
  obtain k st3 where 3: "resolveAuth h ?e ?T provider (cx_auth_method c) st2 = (k, st3)" by fastforce
  obtain key where k: "k = Inr key" using assms m match 1 r 2 b 3 by (cases k) (auto simp: unf refuse_def)
  have H: "HandleResponses h J env c req st =
      dispatch_responses h J env c req rp body provider (responses_limit rp) reserved key hs st3"
    using m match 1 r 2 b 3 k by (auto simp: unf)
  have "provider = ProviderOpenAI \<or> provider = ProviderAnthropic"
    using assms unfolding H by (auto simp: dispatch_responses_def refuse_def split: if_splits)
  with that Some rp m p match 1 r 2 b 3 k H show thesis by blast
qed

text \<open>What the sub-handlers send.\<close>

definition responses_url :: "gin_context \<Rightarrow> string \<Rightarrow> string option \<Rightarrow> string" where
  "responses_url c provider key =
     (if provider = ProviderAnthropic then upstreamBase ProviderAnthropic @ ''/v1/messages''
      else if codex_passthrough c \<and> key = None then chatGPTCodexResponsesURL
      else upstreamBase ProviderOpenAI @ ''/v1/responses'')"

lemma buildUpstreamRequest_Some:
  "buildUpstreamRequest v method url body provider key client = Some uq \<longleftrightarrow>
    v \<and> uq = \<lparr>uq_Method = method, uq_URL = url, uq_Header = upstream_header provider key client, uq_Body = body\<rparr>"
  by (auto simp: buildUpstreamRequest_def)

lemma handleResponsesOpenAI_sent:
  assumes "handleResponsesOpenAI h J env c req body ProviderOpenAI key hs = (reply, Some uq, res)"
  shows "uq_URL uq = responses_url c ProviderOpenAI key \<and> uq_Header uq = upstream_header ProviderOpenAI key (cq_Header req) \<and>
    uq_Body uq = body"
  using assms
  by (auto simp: handleResponsesOpenAI_def Let_def buildUpstreamRequest_Some build_failed_def upstream_failed_def responses_url_def
      split: option.splits upstream_reply.splits if_splits prod.splits)

lemma handleResponsesAnthropic_sent:
  assumes "handleResponsesAnthropic h J env req rp ProviderAnthropic key hs = (reply, Some uq, res)"
  shows "uq_URL uq = responses_url c ProviderAnthropic key \<and>
    uq_Header uq = upstream_header ProviderAnthropic key (cq_Header req) \<and>
    (\<exists>j. translateResponsesToAnthropic rp = Inr j \<and> uq_Body uq = jt_Marshal J j)"
  using assms
  by (auto simp: handleResponsesAnthropic_def Let_def buildUpstreamRequest_Some build_failed_def upstream_failed_def responses_url_def
      split: sum.splits option.splits upstream_reply.splits if_splits prod.splits)

lemma dispatch_sent:
  assumes "oc_sent (dispatch_responses h J env c req rp body provider maxTokens reserved key hs st) = Some uq"
  shows "uq_URL uq = responses_url c provider key \<and> uq_Header uq = upstream_header provider key (cq_Header req) \<and>
    (provider = ProviderOpenAI \<and> uq_Body uq = body \<or>
     provider = ProviderAnthropic \<and> (\<exists>j. translateResponsesToAnthropic rp = Inr j \<and> uq_Body uq = jt_Marshal J j))"
  using assms handleResponsesOpenAI_sent [of h J "re_proxy env" c req body key hs _ uq]
    handleResponsesAnthropic_sent [of h J "re_proxy env" req rp key hs _ uq _ c]
  by (auto simp: dispatch_responses_def refuse_def Let_def split: if_splits prod.splits)

section \<open>Properties\<close>

text \<open>C4: the Responses API has the gates of the proxy and keeps providers apart: a request goes upstream only when it
  parses and names a model that the allowlist of the key does not exclude, when the provider of the model is that of
  the key, where the key has one, and it is OpenAI or Anthropic; when the rate limiter did not report a limit as exceeded,
  and when no loaded budget limit that covers it and blocks had been reached. It goes to the URL of this provider with
  the credential that was resolved for this provider: an OpenAI model as the client's own body, an Anthropic model as
  its translation.\<close>

theorem responses_only_when_admitted:
  assumes sent: "oc_sent (HandleResponses h J env c req st) = Some uq"
  shows "\<exists>body rp provider st1 st2 st3 key. cq_Body req = Some body \<and>
    unmarshal J un_ResponsesRequest zero_ResponsesRequest body = Some rp \<and> rp_Model rp \<noteq> [] \<and>
    \<not> blocked_by_allowlist h c (rp_Model rp) \<and> responses_provider c (rp_Model rp) = Some provider \<and>
    cx_provider c \<in> {[], provider} \<and>
    checkRateLimit h (re_proxy env) (cx_tenant_id c) (cx_key_id c) provider (rp_Model rp) (length body)
      (responses_limit rp) st = (None, st1) \<and>
    (\<forall>e limits s1. ph_pricingEngine h = Some e \<and>
       loadBudgetLimits e (pe_db (re_proxy env)) (cx_tenant_id c) (px_redis st1) = (Inr limits, s1) \<and>
       (\<forall>l \<in> set limits. bl_LimitAmount l \<noteq> 0) \<longrightarrow>
       \<not> (\<exists>l \<in> set limits. in_scope (cx_key_id c) l \<and> relevant provider l \<and>
            blocks_at (effective_spend e (pe_db (re_proxy env)) \<lparr>es_redis = s1, es_ledger = px_ledger st1, es_notifs = px_notifs st1\<rparr>
              (cx_tenant_id c) l (pe_budget (re_proxy env))) l)) \<and>
    resolveAuth h (re_proxy env) (cx_tenant_id c) provider (cx_auth_method c) st2 = (Inr key, st3) \<and>
    uq_URL uq = responses_url c provider key \<and> uq_Header uq = upstream_header provider key (cq_Header req) \<and>
    (provider = ProviderOpenAI \<and> uq_Body uq = body \<or>
     provider = ProviderAnthropic \<and> (\<exists>j. translateResponsesToAnthropic rp = Inr j \<and> uq_Body uq = jt_Marshal J j))"
  using sent
proof (rule HandleResponses_sent)
  fix body rp provider st1 reserved hs st2 key st3
  assume gates: "cq_Body req = Some body" "unmarshal J un_ResponsesRequest zero_ResponsesRequest body = Some rp"
    "rp_Model rp \<noteq> []" "\<not> blocked_by_allowlist h c (rp_Model rp)" "responses_provider c (rp_Model rp) = Some provider"
    "cx_provider c = [] \<or> cx_provider c = provider"
    "checkRateLimit h (re_proxy env) (cx_tenant_id c) (cx_key_id c) provider (rp_Model rp) (length body)
       (responses_limit rp) st = (None, st1)"
    "resolveAuth h (re_proxy env) (cx_tenant_id c) provider (cx_auth_method c) st2 = (Inr key, st3)"
    and b: "preCheckBudget h (re_proxy env) (cx_tenant_id c) (cx_key_id c) provider (rp_Model rp) (responses_limit rp) st1 =
       (BudgetPass reserved hs, st2)"
    and H: "HandleResponses h J env c req st =
       dispatch_responses h J env c req rp body provider (responses_limit rp) reserved key hs st3"
  note d = dispatch_sent [OF sent [unfolded H]]
  have member: "cx_provider c \<in> {[], provider}" using gates(6) by simp
  show ?thesis
    by (intro exI conjI; (rule gates member d [THEN conjunct1] d [THEN conjunct2, THEN conjunct1] d [THEN conjunct2, THEN conjunct2])?)
      (use preCheckBudget_pass [OF _ b] in blast)
qed

text \<open>C5: an Anthropic stream, translated to the Responses API, keeps its text, and its usage apart from the cache: when
  no write fails and the stream ends with \<open>message_stop\<close>, the text deltas that the client receives are together the text
  of the stream, in its order. The counts handed to the billing are those of the stream: the id, the model, and the input,
  cache creation and cache read tokens of its last \<open>message_start\<close>, the output tokens of its last \<open>message_delta\<close>. A
  reader of OpenAI streams, such as this gateway in front of another one, takes from the translation the same id, model,
  input and output tokens and the length of the text, but no cache tokens: these are billed and not passed on.\<close>

theorem responses_stream_equivalence:
  assumes "list_all plain_event evs" "evs = evs' @ [(''message_stop'', d)]" "list_all (frame_fits J) (translated_frames J evs)"
  shows "\<exists>billed text. TranslateAnthropicSSEToResponses J (\<lambda>_. False) (sse_text evs) = (billed, text, False) \<and>
    billed = anthropic_usage J evs \<and>
    concat (map frame_text (translated_frames J evs)) = concat (map (event_text J) evs) \<and>
    ParseOpenAIResponsesSSE J (\<lambda>_. False) text =
      (billed\<lparr>tc_CacheCreationTokens := 0, tc_CacheReadTokens := 0,
         tc_OutputTextBytes := int (length (concat (map (event_text J) evs)))\<rparr>, text, False)"
  using assms by (rule responses_stream_agrees)

lemma codex_estimate_nonzero:
  "tc_MessageID (codex_estimate uuid n m counts) \<noteq> [] \<and> tc_InputTokens (codex_estimate uuid n m counts) \<noteq> 0 \<and>
   tc_OutputTokens (codex_estimate uuid n m counts) \<noteq> 0"
  by (simp add: codex_estimate_def Let_def max_def)

lemma codex_counts:
  assumes "handleResponsesOpenAI h J env c req body provider key hs = (reply, sent, Some counts)" "codex_passthrough c"
  shows "tc_MessageID counts \<noteq> [] \<and> tc_InputTokens counts \<noteq> 0 \<and> tc_OutputTokens counts \<noteq> 0"
  using assms codex_estimate_nonzero
  by (auto simp: handleResponsesOpenAI_def Let_def build_failed_def upstream_failed_def
      split: option.splits upstream_reply.splits if_splits prod.splits)

lemma OpenAI_answered:
  assumes "handleResponsesOpenAI h J env c req body provider key hs = (reply, Some uq, res)"
    and "pe_upstream env uq = DoResponse resp" "ur_Status resp = 200" "\<not> ur_ReadErr resp"
  shows "res \<noteq> None"
  using assms
  by (auto simp: handleResponsesOpenAI_def Let_def build_failed_def upstream_failed_def buildUpstreamRequest_Some
      split: option.splits upstream_reply.splits if_splits prod.splits)

lemma resolveAuth_stream: "resolveAuth h env T p m st = (r, st') \<Longrightarrow> px_stream st' = px_stream st"
  by (auto simp: resolveAuth_def Let_def split: if_splits prod.splits sum.splits pk_error.splits)

lemma preCheckBudget_stream: "preCheckBudget h env T K p m n st = (r, st') \<Longrightarrow> px_stream st' = px_stream st"
  by (auto simp: preCheckBudget_def Let_def split: option.splits prod.splits precheck.splits)

lemma checkRateLimit_stream: "checkRateLimit h env T K p m n k st = (r, st') \<Longrightarrow> px_stream st' = px_stream st"
  by (auto simp: checkRateLimit_def Let_def split: option.splits prod.splits if_splits)

lemma gates_stream:
  assumes "checkRateLimit h e T K p m n k st = (r1, st1)" "preCheckBudget h e' T' K' p' m' k' st1 = (r2, st2)"
    and "resolveAuth h e'' T'' p'' a st2 = (r3, st3)"
  shows "px_stream st3 = px_stream st"
  using checkRateLimit_stream [OF assms(1)] preCheckBudget_stream [OF assms(2)] resolveAuth_stream [OF assms(3)] by simp

text \<open>C6: every Codex request that is answered is metered: when a subscription user with an OpenAI key is answered by the
  ChatGPT backend, which may leave out the id and the usage, exactly one usage event is published, for this tenant and
  key, with an id, a model and token numbers that are not zero, so that the guard against empty events never drops it.\<close>

theorem codex_requests_metered:
  assumes sent: "oc_sent (HandleResponses h J env c req st) = Some uq" and codex: "codex_passthrough c"
    and c: "cx_provider c = ProviderOpenAI" "cx_tenant_id c \<noteq> 0"
    and answer: "pe_upstream (re_proxy env) uq = DoResponse resp" "ur_Status resp = 200" "\<not> ur_ReadErr resp" and "\<not> re_gone env"
  shows "\<exists>msg. um_TenantID msg = cx_tenant_id c \<and> um_KeyID msg = cx_key_id c \<and> um_MessageID msg \<noteq> [] \<and> um_Model msg \<noteq> [] \<and>
    um_InputTokens msg \<noteq> 0 \<and> um_OutputTokens msg \<noteq> 0 \<and>
    px_stream (oc_state (HandleResponses h J env c req st)) = snd (Publish (ph_eventQueue h) msg (px_stream st))"
  using sent
proof (rule HandleResponses_sent)
  fix body rp provider st1 reserved hs st2 key st3
  assume model: "rp_Model rp \<noteq> []" and match: "cx_provider c = [] \<or> cx_provider c = provider"
    and gates: "checkRateLimit h (re_proxy env) (cx_tenant_id c) (cx_key_id c) provider (rp_Model rp) (length body)
       (responses_limit rp) st = (None, st1)"
    "preCheckBudget h (re_proxy env) (cx_tenant_id c) (cx_key_id c) provider (rp_Model rp) (responses_limit rp) st1 =
       (BudgetPass reserved hs, st2)"
    "resolveAuth h (re_proxy env) (cx_tenant_id c) provider (cx_auth_method c) st2 = (Inr key, st3)"
    and H: "HandleResponses h J env c req st =
       dispatch_responses h J env c req rp body provider (responses_limit rp) reserved key hs st3"
  have p: "provider = ProviderOpenAI" using match c(1) by auto
  obtain reply sent' res where R: "handleResponsesOpenAI h J (re_proxy env) c req body provider key hs = (reply, sent', res)"
    by (metis surj_pair)
  have "sent' = Some uq" using sent unfolding H by (simp add: dispatch_responses_def p R [unfolded p] Let_def)
  with OpenAI_answered R answer obtain counts where res: "res = Some counts" by blast
  let ?counts = "if tc_Model counts = [] then counts\<lparr>tc_Model := rp_Model rp\<rparr> else counts"
  have nonzero: "tc_MessageID ?counts \<noteq> []" "tc_InputTokens ?counts \<noteq> 0" "tc_OutputTokens ?counts \<noteq> 0" "tc_Model ?counts \<noteq> []"
    using codex_counts [OF R [unfolded res] codex] model by simp_all
  let ?bk = "\<lparr>bk_tenantID = cx_tenant_id c, bk_projectID = cx_project_id c, bk_keyID = cx_key_id c,
     bk_provider = provider, bk_model = rp_Model rp, bk_maxTokens = responses_limit rp, bk_counts = ?counts,
     bk_reserved = reserved, bk_billed = determineBillable (cx_billing_mode c),
     bk_hint = key_hint (determineBillable (cx_billing_mode c)) key (cq_Header req),
     bk_latency = pe_latency (re_proxy env), bk_ts = pe_response (re_proxy env)\<rparr>"
  have "oc_state (HandleResponses h J env c req st) = settle h (pe_rl_db (re_proxy env)) (re_settle env) ?bk st3"
    unfolding H using \<open>\<not> re_gone env\<close> by (simp add: dispatch_responses_def p R [unfolded p] res responses_settle_def Let_def)
  then have "px_stream (oc_state (HandleResponses h J env c req st)) = snd (Publish (ph_eventQueue h) (usage_msg ?bk) (px_stream st))"
    using gates_stream [OF gates] c(2) nonzero by (simp add: settle_def publishUsageEvent_def)
  moreover have "um_TenantID (usage_msg ?bk) = cx_tenant_id c \<and> um_KeyID (usage_msg ?bk) = cx_key_id c \<and>
      um_MessageID (usage_msg ?bk) \<noteq> [] \<and> um_Model (usage_msg ?bk) \<noteq> [] \<and> um_InputTokens (usage_msg ?bk) \<noteq> 0 \<and>
      um_OutputTokens (usage_msg ?bk) \<noteq> 0"
    using nonzero by (simp add: usage_msg_def)
  ultimately show ?thesis by blast
qed

text \<open>The bookkeeping with a cancelled context: each of its calls returns the state that it was given.\<close>

lemma cancelled_Reconcile:
  "Reconcile (lm_rdb_update (map_option cancelled_redis) l) (db\<lparr>rdb_down := True\<rparr>) now T K p m a n s = s"
  by (simp add: Reconcile_def loadLimits_def read_through_def cancelled_redis_def Let_def split: option.split)

lemma cancelled_ReleaseReservation:
  "ReleaseReservation (en_resolver_update (rs_rdb_update (map_option cancelled_redis)) e) now T K amt s = s"
proof -
  have "fold (\<lambda>k s. s) ks s = s" for ks :: "string list" by (induction ks) simp_all
  then show ?thesis by (simp add: ReleaseReservation_def cancelled_redis_def split: option.split)
qed

lemma cancelled_settle: "settle (cancelled_handler h) (db\<lparr>rdb_down := True\<rparr>) now bk st = st"
  by (simp add: settle_def reconcilePostResponse_def publishUsageEvent_def Publish_def cancelled_handler_def
      cancelled_Reconcile cancelled_ReleaseReservation Let_def split: option.split)

lemma Anthropic_answered:
  assumes "handleResponsesAnthropic h J env req rp provider key hs = (reply, Some uq, res)"
    and "pe_upstream env uq = DoResponse resp" "ur_Status resp = 200" "\<not> ur_ReadErr resp"
  shows "res \<noteq> None"
  using assms
  by (auto simp: handleResponsesAnthropic_def Let_def build_failed_def upstream_failed_def
      split: option.splits upstream_reply.splits if_splits prod.splits sum.splits)

text \<open>A request that was answered reaches its bookkeeping, and the context changes nothing before that.\<close>

lemma dispatch_settles:
  assumes "oc_sent (dispatch_responses h J env c req rp body provider maxTokens reserved key hs st) = Some uq"
    and "pe_upstream (re_proxy env) uq = DoResponse resp" "ur_Status resp = 200" "\<not> ur_ReadErr resp"
  obtains bk where "bk_tenantID bk = cx_tenant_id c" "bk_keyID bk = cx_key_id c" "bk_model bk = rp_Model rp"
    "bk_maxTokens bk = maxTokens" "bk_reserved bk = reserved"
    "\<And>gone. oc_state (dispatch_responses h J (env\<lparr>re_gone := gone\<rparr>) c req rp body provider maxTokens reserved key hs st) =
       responses_settle h (env\<lparr>re_gone := gone\<rparr>) bk st"
proof -
  have p: "\<not> (provider \<noteq> ProviderOpenAI \<and> provider \<noteq> ProviderAnthropic)"
    using assms(1) by (auto simp: dispatch_responses_def refuse_def split: if_splits)
  obtain reply sent res where R:
    "(if provider = ProviderOpenAI then handleResponsesOpenAI h J (re_proxy env) c req body provider key hs
      else handleResponsesAnthropic h J (re_proxy env) req rp provider key hs) = (reply, sent, res)"
    by (metis surj_pair)
  have "sent = Some uq" using assms(1) by (simp add: dispatch_responses_def p R Let_def)
  then obtain counts where "res = Some counts"
    using R OpenAI_answered [OF _ assms(2-4)] Anthropic_answered [OF _ assms(2-4)] by (metis option.exhaust)
  note D = p R this
  let ?bk = "\<lparr>bk_tenantID = cx_tenant_id c, bk_projectID = cx_project_id c, bk_keyID = cx_key_id c,
     bk_provider = provider, bk_model = rp_Model rp, bk_maxTokens = maxTokens,
     bk_counts = (if tc_Model counts = [] then counts\<lparr>tc_Model := rp_Model rp\<rparr> else counts),
     bk_reserved = reserved, bk_billed = determineBillable (cx_billing_mode c),
     bk_hint = key_hint (determineBillable (cx_billing_mode c)) key (cq_Header req),
     bk_latency = pe_latency (re_proxy env), bk_ts = pe_response (re_proxy env)\<rparr>"
  have "oc_state (dispatch_responses h J (env\<lparr>re_gone := gone\<rparr>) c req rp body provider maxTokens reserved key hs st) =
       responses_settle h (env\<lparr>re_gone := gone\<rparr>) ?bk st" for gone
    using D by (auto simp: dispatch_responses_def Let_def)
  with that [of ?bk] show thesis by simp
qed

text \<open>C7: a client that hangs up is not billed and keeps its budget reserved. A request that the provider has answered
  leaves, when its client is there until the end, the state of the bookkeeping, in which the usage is published for this
  tenant and key and the amount that the budget check had reserved is released; when the client has gone before the
  bookkeeping, the context of the request makes each of its calls fail, and the state stays what it was when the request
  was sent: nothing was published, and the counters of the reservation and of the rate limits keep what the gates have
  added to them. With a browser sign-in that is the state of the budget check itself; in BYOK mode the key was read since
  then.\<close>

theorem responses_disconnect_unmetered:
  assumes sent: "oc_sent (HandleResponses h J env c req st) = Some uq" and gone: "re_gone env"
    and answer: "pe_upstream (re_proxy env) uq = DoResponse resp" "ur_Status resp = 200" "\<not> ur_ReadErr resp"
  shows "\<exists>body rp provider st1 reserved hs st2 key st3 bk. cq_Body req = Some body \<and>
    unmarshal J un_ResponsesRequest zero_ResponsesRequest body = Some rp \<and>
    checkRateLimit h (re_proxy env) (cx_tenant_id c) (cx_key_id c) provider (rp_Model rp) (length body)
      (responses_limit rp) st = (None, st1) \<and>
    preCheckBudget h (re_proxy env) (cx_tenant_id c) (cx_key_id c) provider (rp_Model rp) (responses_limit rp) st1 =
      (BudgetPass reserved hs, st2) \<and>
    resolveAuth h (re_proxy env) (cx_tenant_id c) provider (cx_auth_method c) st2 = (Inr key, st3) \<and>
    (st3 = st2 \<or> cx_auth_method c = AuthMethodBYOK) \<and>
    oc_state (HandleResponses h J env c req st) = st3 \<and> px_stream st3 = px_stream st \<and>
    bk_tenantID bk = cx_tenant_id c \<and> bk_keyID bk = cx_key_id c \<and> bk_model bk = rp_Model rp \<and>
    bk_maxTokens bk = responses_limit rp \<and> bk_reserved bk = reserved \<and>
    oc_state (HandleResponses h J (env\<lparr>re_gone := False\<rparr>) c req st) =
      settle h (pe_rl_db (re_proxy env)) (re_settle env) bk st3"
  using sent
proof (rule HandleResponses_sent)
  fix body rp provider st1 reserved hs st2 key st3
  assume parsed: "cq_Body req = Some body" "unmarshal J un_ResponsesRequest zero_ResponsesRequest body = Some rp"
    and admitted: "rp_Model rp \<noteq> []" "\<not> blocked_by_allowlist h c (rp_Model rp)" "responses_provider c (rp_Model rp) = Some provider"
    "cx_provider c = [] \<or> cx_provider c = provider"
    and gates: "checkRateLimit h (re_proxy env) (cx_tenant_id c) (cx_key_id c) provider (rp_Model rp) (length body)
       (responses_limit rp) st = (None, st1)"
    "preCheckBudget h (re_proxy env) (cx_tenant_id c) (cx_key_id c) provider (rp_Model rp) (responses_limit rp) st1 =
       (BudgetPass reserved hs, st2)"
    "resolveAuth h (re_proxy env) (cx_tenant_id c) provider (cx_auth_method c) st2 = (Inr key, st3)"
    and H: "HandleResponses h J env c req st =
       dispatch_responses h J env c req rp body provider (responses_limit rp) reserved key hs st3"
  let ?present = "env\<lparr>re_gone := False\<rparr>"
  have P: "HandleResponses h J ?present c req st =
      dispatch_responses h J ?present c req rp body provider (responses_limit rp) reserved key hs st3"
    using HandleResponses_admitted [where env = ?present, simplified, OF parsed admitted gates] by simp
  from dispatch_settles [OF sent [unfolded H] answer] obtain bk where bk: "bk_tenantID bk = cx_tenant_id c"
    "bk_keyID bk = cx_key_id c" "bk_model bk = rp_Model rp" "bk_maxTokens bk = responses_limit rp" "bk_reserved bk = reserved"
    and S: "oc_state (dispatch_responses h J (env\<lparr>re_gone := g\<rparr>) c req rp body provider (responses_limit rp) reserved key hs st3) =
       responses_settle h (env\<lparr>re_gone := g\<rparr>) bk st3" for g by blast
  have "oc_state (HandleResponses h J ?present c req st) = settle h (pe_rl_db (re_proxy env)) (re_settle env) bk st3"
    by (simp add: P S responses_settle_def)
  moreover have same: "env\<lparr>re_gone := True\<rparr> = env" using gone by simp
  have "oc_state (HandleResponses h J env c req st) = st3"
    using S [of True] unfolding same H by (simp add: responses_settle_def cancelled_settle gone)
  moreover have "st3 = st2 \<or> cx_auth_method c = AuthMethodBYOK"
    using gates(3) by (auto simp: resolveAuth_def split: if_splits)
  ultimately show ?thesis using parsed gates gates_stream [OF gates] bk by blast
qed

section \<open>Concrete requests\<close>

definition demo_responses_json :: json_text where
  "demo_responses_json = \<lparr>jt_Unmarshal = (\<lambda>_. Some (JObj [(''model'', JStr ''opus''), (''input'', JStr ''hi''),
       (''max_output_tokens'', JInt 1000)])), jt_Marshal = (\<lambda>_. ''{}'')\<rparr>"

definition demo_responses_env :: "upstream_reply \<Rightarrow> bool \<Rightarrow> responses_env" where
  "demo_responses_env r gone = \<lparr>re_proxy = demo_env r, re_settle = noon, re_gone = gone\<rparr>"

definition demo_responses_request :: ResponsesRequest where
  "demo_responses_request = zero_ResponsesRequest\<lparr>rp_Model := ''opus'', rp_Input := Some (JStr ''hi''), rp_MaxOutputTokens := Some 1000\<rparr>"

lemma demo_responses_simps [simp]:
  "re_proxy (demo_responses_env r gone) = demo_env r" "re_gone (demo_responses_env r gone) = gone"
  "rp_Model demo_responses_request = ''opus''" "responses_limit demo_responses_request = 1000"
  "rp_Input demo_responses_request = Some (JStr ''hi'')"
  by (simp_all add: demo_responses_env_def demo_responses_request_def responses_limit_def)

lemma demo_responses_parsed:
  "unmarshal demo_responses_json un_ResponsesRequest zero_ResponsesRequest body = Some demo_responses_request"
proof -
  have "strings_ToLower ''input'' = ''input''" "strings_ToLower ''max_output_tokens'' = ''max_output_tokens''" by code_simp+
  then show ?thesis
    by (simp add: demo_responses_json_def unmarshal_def un_ResponsesRequest_def zero_ResponsesRequest_def fld_def un_str_def
        un_raw_def un_ptr_def un_int_def int64_range_def demo_responses_request_def)
qed

lemma demo_responses_provider: "ResolveProviderFromModel ''opus'' = None"
  by code_simp

lemma demo_responses_sent:
  "\<exists>uq. oc_sent (HandleResponses demo_proxy demo_responses_json (demo_responses_env (DoError True) gone)
     (demo_context ProviderAnthropic AuthMethodBrowserOAuth) demo_client (demo_px 2)) = Some uq"
proof -
  obtain hs ns where b: "preCheckBudget demo_proxy (demo_env (DoError True)) 7 ''k1'' ProviderAnthropic ''opus'' 1000 (demo_px 2) =
     (BudgetPass (75 / 1000) hs, (demo_px 2)\<lparr>px_notifs := ns, px_redis := fold (bump map_redis (75 / 1000))
        (reservation_keys 7 ''k1'' noon) (es_redis (demo_state 2))\<rparr>)" using demo_budget_gate by blast
  have body: "cq_Body demo_client = Some ''{}''" by (simp add: demo_client_def)
  have limit: "(case rp_MaxOutputTokens demo_responses_request of Some n \<Rightarrow> n | None \<Rightarrow> 0) = 1000"
    by (simp add: demo_responses_request_def)
  show ?thesis
    by (simp add: HandleResponses_def body demo_responses_parsed blocked_by_allowlist_def demo_responses_provider checkRateLimit_def
        limit b resolveAuth_def dispatch_responses_def handleResponsesAnthropic_def translateResponsesToAnthropic_def
        translateInputToMessages_def un_str_def buildUpstreamRequest_def upstream_failed_def Let_def)
qed

theorem responses_only_when_admitted_witness:
  "\<exists>uq. oc_sent (HandleResponses demo_proxy demo_responses_json (demo_responses_env (DoError True) False)
     (demo_context ProviderAnthropic AuthMethodBrowserOAuth) demo_client (demo_px 2)) = Some uq \<and>
     uq_URL uq = ''https://api.anthropic.com/v1/messages''"
proof -
  obtain uq where sent: "oc_sent (HandleResponses demo_proxy demo_responses_json (demo_responses_env (DoError True) False)
     (demo_context ProviderAnthropic AuthMethodBrowserOAuth) demo_client (demo_px 2)) = Some uq"
    using demo_responses_sent by blast
  from responses_only_when_admitted [OF this] obtain provider key where
    "cx_provider (demo_context ProviderAnthropic AuthMethodBrowserOAuth) \<in> {[], provider}"
    "uq_URL uq = responses_url (demo_context ProviderAnthropic AuthMethodBrowserOAuth) provider key"
    by blast
  moreover have "upstreamBase ProviderAnthropic = ''https://api.anthropic.com''" by code_simp
  ultimately show ?thesis using sent by (auto simp: responses_url_def)
qed

definition demo_codex_proxy :: "(string \<Rightarrow> rat option, rat, list_queue) ProxyHandler" where
  "demo_codex_proxy = demo_proxy\<lparr>ph_pricingEngine := None\<rparr>"

definition demo_codex_context :: gin_context where
  "demo_codex_context = (demo_context ProviderOpenAI AuthMethodBrowserOAuth)\<lparr>cx_billing_mode := BillingModeMonthlySubscription\<rparr>"

definition demo_codex_answer :: upstream_response where
  "demo_codex_answer = \<lparr>ur_Status = 200, ur_Header = [], ur_Body = ''{}'', ur_ReadErr = False, ur_WriteFails = \<lambda>_. False\<rparr>"

lemma demo_codex_sent:
  "\<exists>uq. oc_sent (HandleResponses demo_codex_proxy demo_responses_json (demo_responses_env (DoResponse demo_codex_answer) gone)
     demo_codex_context demo_client (demo_px 2)) = Some uq"
proof -
  have body: "cq_Body demo_client = Some ''{}''" by (simp add: demo_client_def)
  have h: "ph_rateLimiter demo_codex_proxy = None" "ph_pricingEngine demo_codex_proxy = None"
    by (simp_all add: demo_codex_proxy_def)
  have c: "cx_api_key demo_codex_context = None" "cx_provider demo_codex_context = ProviderOpenAI"
    "cx_auth_method demo_codex_context = AuthMethodBrowserOAuth"
    by (simp_all add: demo_codex_context_def)
  show ?thesis
    by (simp add: HandleResponses_def body demo_responses_parsed blocked_by_allowlist_def c demo_responses_provider checkRateLimit_def
        h preCheckBudget_def resolveAuth_def dispatch_responses_def handleResponsesOpenAI_def buildUpstreamRequest_def
        demo_codex_answer_def Let_def split: prod.split)
qed

theorem codex_requests_metered_witness:
  "\<exists>msg. um_TenantID msg = 7 \<and> um_MessageID msg \<noteq> [] \<and> um_InputTokens msg \<noteq> 0 \<and>
     px_stream (oc_state (HandleResponses demo_codex_proxy demo_responses_json
       (demo_responses_env (DoResponse demo_codex_answer) False) demo_codex_context demo_client (demo_px 2))) =
     snd (Publish list_stream msg ([], []))"
proof -
  obtain uq where sent: "oc_sent (HandleResponses demo_codex_proxy demo_responses_json
      (demo_responses_env (DoResponse demo_codex_answer) False) demo_codex_context demo_client (demo_px 2)) = Some uq"
    using demo_codex_sent by blast
  have c: "codex_passthrough demo_codex_context" "cx_provider demo_codex_context = ProviderOpenAI" "cx_tenant_id demo_codex_context = 7"
    by (simp_all add: demo_codex_context_def codex_passthrough_def)
  have "px_stream (demo_px 2) = ([], [])" "ph_eventQueue demo_codex_proxy = list_stream"
    by (simp_all add: demo_px_def demo_codex_proxy_def demo_proxy_def)
  with codex_requests_metered [OF sent c(1,2), of demo_codex_answer] c(3) show ?thesis
    by (auto simp: demo_codex_answer_def)
qed

text \<open>The client of the answered request hangs up, in the same test.\<close>

theorem responses_disconnect_unmetered_witness:
  "px_stream (oc_state (HandleResponses demo_codex_proxy demo_responses_json
     (demo_responses_env (DoResponse demo_codex_answer) True) demo_codex_context demo_client (demo_px 2))) = ([], [])"
proof -
  obtain uq where sent: "oc_sent (HandleResponses demo_codex_proxy demo_responses_json
      (demo_responses_env (DoResponse demo_codex_answer) True) demo_codex_context demo_client (demo_px 2)) = Some uq"
    using demo_codex_sent by blast
  have "px_stream (demo_px 2) = ([], [])" by (simp add: demo_px_def)
  with responses_disconnect_unmetered [OF sent, of demo_codex_answer] show ?thesis
    by (auto simp: demo_codex_answer_def demo_env_def)
qed

text \<open>A stream of four events.\<close>

definition demo_anthropic_stream :: "(string \<times> string) list" where
  "demo_anthropic_stream = [(''message_start'', ''s''), (''content_block_delta'', ''t''), (''message_delta'', ''u''), (''message_stop'', ''v'')]"

definition demo_after_start :: responses_stream where
  "demo_after_start = stream_init\<lparr>rst_ID := ''resp_m'', rst_Model := ''opus'',
     rst_counts := no_counts\<lparr>tc_MessageID := ''resp_m'', tc_Model := ''opus'', tc_InputTokens := 11, tc_CacheReadTokens := 4\<rparr>\<rparr>"

definition demo_at_end :: responses_stream where
  "demo_at_end = demo_after_start\<lparr>rst_counts := (rst_counts demo_after_start)\<lparr>tc_OutputTokens := 5\<rparr>\<rparr>"

definition demo_frames :: "(string \<times> json) list" where
  "demo_frames =
     [(''response.created'', response_event ''response.created'' demo_after_start),
      (''response.in_progress'', response_event ''response.in_progress'' demo_after_start),
      (''response.output_text.delta'', output_delta_event ''hi'' demo_after_start),
      (''response.output_item.done'', item_event ''response.output_item.done'' ''completed'' demo_at_end),
      (''response.completed'', completed_event demo_at_end)]"

definition demo_stream_json :: json_text where
  "demo_stream_json = \<lparr>jt_Unmarshal = map_of
       ([(''s'', JObj [(''message'', JObj [(''id'', JStr ''m''), (''model'', JStr ''opus''), (''usage'', JObj [(''input_tokens'', JInt 11), (''cache_read_input_tokens'', JInt 4)])])]),
         (''t'', JObj [(''delta'', JObj [(''type'', JStr ''text_delta''), (''text'', JStr ''hi'')])]),
         (''u'', JObj [(''usage'', JObj [(''output_tokens'', JInt 5)])])] @ demo_frames),
     jt_Marshal = (\<lambda>j. string_entry j ''type'')\<rparr>"

lemma demo_stream_lower [simp]:
  "strings_ToLower ''message'' = ''message''" "strings_ToLower ''text'' = ''text''"
  "strings_ToLower ''cache_read_input_tokens'' = ''cache_read_input_tokens''"
  by code_simp+

lemma demo_stream_decoded:
  "unmarshal demo_stream_json un_message_start zero_message_start ''s'' = Some \<lparr>sm_ID = ''m'', sm_Model = ''opus'',
     sm_InputTokens = 11, sm_CacheCreationTokens = 0, sm_CacheReadTokens = 4\<rparr>"
  "unmarshal demo_stream_json un_block_delta zero_reply_block ''t'' = Some \<lparr>tb_Type = ''text_delta'', tb_Text = ''hi''\<rparr>"
  "unmarshal demo_stream_json un_message_delta 0 ''u'' = Some 5"
  by (simp_all add: unmarshal_def demo_stream_json_def un_message_start_def zero_message_start_def un_block_delta_def
      un_reply_block_def zero_reply_block_def un_message_delta_def fld_def un_str_def un_int_def int64_range_def)

lemma demo_translated: "translated_frames demo_stream_json demo_anthropic_stream = demo_frames"
  by (simp add: translated_frames_def demo_anthropic_stream_def translateAnthropicSSEEvent_def demo_stream_decoded Let_def)
    (simp add: demo_frames_def writeSSE_def start_stream_def stream_init_def demo_after_start_def demo_at_end_def no_counts_def
      response_event_def output_delta_event_def item_event_def completed_event_def)

lemma demo_frames_fit: "list_all (frame_fits demo_stream_json) demo_frames"
  by (simp add: demo_frames_def frame_fits_def demo_stream_json_def string_entry_def response_event_def output_delta_event_def
      item_event_def completed_event_def plain_event_def trimmed_def is_space_def plain_line_def max_line_def)

theorem responses_stream_equivalence_witness:
  "\<exists>billed text. TranslateAnthropicSSEToResponses demo_stream_json (\<lambda>_. False) (sse_text demo_anthropic_stream) =
      (billed, text, False) \<and>
    tc_InputTokens billed = 11 \<and> tc_OutputTokens billed = 5 \<and> tc_CacheReadTokens billed = 4 \<and>
    tc_CacheReadTokens (fst (ParseOpenAIResponsesSSE demo_stream_json (\<lambda>_. False) text)) = 0 \<and>
    tc_OutputTextBytes (fst (ParseOpenAIResponsesSSE demo_stream_json (\<lambda>_. False) text)) = 2"
proof -
  have "list_all plain_event demo_anthropic_stream"
    by (simp add: demo_anthropic_stream_def plain_event_def trimmed_def is_space_def plain_line_def max_line_def)
  moreover have "demo_anthropic_stream = butlast demo_anthropic_stream @ [(''message_stop'', ''v'')]"
    by (simp add: demo_anthropic_stream_def)
  moreover have "concat (map (event_text demo_stream_json) demo_anthropic_stream) = ''hi''"
    by (simp add: demo_anthropic_stream_def event_text_def demo_stream_decoded)
  moreover have "anthropic_usage demo_stream_json demo_anthropic_stream = \<lparr>tc_InputTokens = 11, tc_OutputTokens = 5,
      tc_CacheCreationTokens = 0, tc_CacheReadTokens = 4, tc_MessageID = ''resp_m'', tc_Model = ''opus'', tc_OutputTextBytes = 0\<rparr>"
    by (simp add: anthropic_usage_def stream_starts_def stream_outputs_def List.map_filter_def demo_anthropic_stream_def
        demo_stream_decoded)
  ultimately show ?thesis
    using responses_stream_equivalence [of demo_anthropic_stream "butlast demo_anthropic_stream" "''v''" demo_stream_json]
      demo_frames_fit
    by (auto simp: demo_translated)
qed

end
