(* ===== verification/Chat.thy ===== *)
theory Chat
  imports Json Routing
begin

text \<open>
  The OpenAI-compatible chat format that the smart router speaks with its clients (\<open>provider/types.go\<close>): requests,
  responses and stream chunks as records with the decoders and encoders that their struct tags describe.
  A nil interface is \<open>JNull\<close>, a nil pointer \<open>None\<close>.
\<close>

section \<open>Types\<close>

record ImageURL =
  iu_URL :: string
  iu_Detail :: string

record ContentPart =
  cpt_Type :: string
  cpt_Text :: string
  cpt_ImageURL :: "ImageURL option"

record ToolFunction =
  tf_Name :: string
  tf_Description :: string
  tf_Parameters :: json

record Tool =
  tl_Type :: string
  tl_Function :: ToolFunction

record ToolCallFunction =
  fc_Name :: string
  fc_Arguments :: string

record ToolCall =
  tk_ID :: string
  tk_Type :: string
  tk_Function :: ToolCallFunction

record Message =
  msg_Role :: string
  msg_Content :: json
  msg_Name :: string
  msg_ToolCalls :: "ToolCall list"
  msg_ToolCallID :: string

record ChatCompletionRequest =
  rq_Model :: string
  rq_Messages :: "Message list option"
  rq_Tools :: "Tool list"
  rq_ToolChoice :: json
  rq_Stream :: bool
  rq_Temperature :: "rat option"
  rq_TopP :: "rat option"
  rq_MaxTokens :: "int option"
  rq_Stop :: json
  rq_FrequencyPenalty :: "rat option"
  rq_PresencePenalty :: "rat option"
  rq_Seed :: "int option"
  rq_N :: "int option"
  rq_User :: string
  rq_ResponseFormat :: json

record Usage =
  cu_PromptTokens :: int
  cu_CompletionTokens :: int
  cu_TotalTokens :: int

record Choice =
  co_Index :: int
  co_Message :: "Message option"
  co_Delta :: "Message option"
  co_FinishReason :: "string option"

record ChatCompletionResponse =
  cr_ID :: string
  cr_Object :: string
  cr_Created :: int
  cr_Model :: string
  cr_Choices :: "Choice list option"
  cr_Usage :: "Usage option"

text \<open>\<open>StreamChunk\<close> has the same fields as \<open>ChatCompletionResponse\<close>.\<close>

type_synonym StreamChunk = ChatCompletionResponse

section \<open>Decoders\<close>

definition un_ImageURL :: "ImageURL decoder" where
  "un_ImageURL = un_struct
     [(''url'', fld un_str iu_URL iu_URL_update), (''detail'', fld un_str iu_Detail iu_Detail_update)]"

definition zero_ImageURL :: ImageURL where
  "zero_ImageURL = \<lparr>iu_URL = [], iu_Detail = []\<rparr>"

definition un_ContentPart :: "ContentPart decoder" where
  "un_ContentPart = un_struct
     [(''type'', fld un_str cpt_Type cpt_Type_update), (''text'', fld un_str cpt_Text cpt_Text_update),
      (''image_url'', fld (un_ptr zero_ImageURL un_ImageURL) cpt_ImageURL cpt_ImageURL_update)]"

definition zero_ContentPart :: ContentPart where
  "zero_ContentPart = \<lparr>cpt_Type = [], cpt_Text = [], cpt_ImageURL = None\<rparr>"

definition un_ToolFunction :: "ToolFunction decoder" where
  "un_ToolFunction = un_struct
     [(''name'', fld un_str tf_Name tf_Name_update), (''description'', fld un_str tf_Description tf_Description_update),
      (''parameters'', fld un_any tf_Parameters tf_Parameters_update)]"

definition un_Tool :: "Tool decoder" where
  "un_Tool = un_struct
     [(''type'', fld un_str tl_Type tl_Type_update), (''function'', fld un_ToolFunction tl_Function tl_Function_update)]"

definition zero_Tool :: Tool where
  "zero_Tool = \<lparr>tl_Type = [], tl_Function = \<lparr>tf_Name = [], tf_Description = [], tf_Parameters = JNull\<rparr>\<rparr>"

definition un_ToolCallFunction :: "ToolCallFunction decoder" where
  "un_ToolCallFunction = un_struct
     [(''name'', fld un_str fc_Name fc_Name_update), (''arguments'', fld un_str fc_Arguments fc_Arguments_update)]"

definition un_ToolCall :: "ToolCall decoder" where
  "un_ToolCall = un_struct
     [(''id'', fld un_str tk_ID tk_ID_update), (''type'', fld un_str tk_Type tk_Type_update),
      (''function'', fld un_ToolCallFunction tk_Function tk_Function_update)]"

definition zero_ToolCall :: ToolCall where
  "zero_ToolCall = \<lparr>tk_ID = [], tk_Type = [], tk_Function = \<lparr>fc_Name = [], fc_Arguments = []\<rparr>\<rparr>"

definition un_Message :: "Message decoder" where
  "un_Message = un_struct
     [(''role'', fld un_str msg_Role msg_Role_update), (''content'', fld un_any msg_Content msg_Content_update),
      (''name'', fld un_str msg_Name msg_Name_update),
      (''tool_calls'', fld (un_list zero_ToolCall un_ToolCall) msg_ToolCalls msg_ToolCalls_update),
      (''tool_call_id'', fld un_str msg_ToolCallID msg_ToolCallID_update)]"

definition zero_Message :: Message where
  "zero_Message = \<lparr>msg_Role = [], msg_Content = JNull, msg_Name = [], msg_ToolCalls = [], msg_ToolCallID = []\<rparr>"

definition un_ChatCompletionRequest :: "ChatCompletionRequest decoder" where
  "un_ChatCompletionRequest = un_struct
     [(''model'', fld un_str rq_Model rq_Model_update),
      (''messages'', fld (un_slice zero_Message un_Message) rq_Messages rq_Messages_update),
      (''tools'', fld (un_list zero_Tool un_Tool) rq_Tools rq_Tools_update),
      (''tool_choice'', fld un_any rq_ToolChoice rq_ToolChoice_update),
      (''stream'', fld un_bool rq_Stream rq_Stream_update),
      (''temperature'', fld (un_ptr 0 un_float) rq_Temperature rq_Temperature_update),
      (''top_p'', fld (un_ptr 0 un_float) rq_TopP rq_TopP_update),
      (''max_tokens'', fld (un_ptr 0 un_int) rq_MaxTokens rq_MaxTokens_update),
      (''stop'', fld un_any rq_Stop rq_Stop_update),
      (''frequency_penalty'', fld (un_ptr 0 un_float) rq_FrequencyPenalty rq_FrequencyPenalty_update),
      (''presence_penalty'', fld (un_ptr 0 un_float) rq_PresencePenalty rq_PresencePenalty_update),
      (''seed'', fld (un_ptr 0 un_int) rq_Seed rq_Seed_update),
      (''n'', fld (un_ptr 0 un_int) rq_N rq_N_update),
      (''user'', fld un_str rq_User rq_User_update),
      (''response_format'', fld un_map rq_ResponseFormat rq_ResponseFormat_update)]"

definition zero_Request :: ChatCompletionRequest where
  "zero_Request = \<lparr>rq_Model = [], rq_Messages = None, rq_Tools = [], rq_ToolChoice = JNull, rq_Stream = False,
     rq_Temperature = None, rq_TopP = None, rq_MaxTokens = None, rq_Stop = JNull, rq_FrequencyPenalty = None,
     rq_PresencePenalty = None, rq_Seed = None, rq_N = None, rq_User = [], rq_ResponseFormat = JNull\<rparr>"

definition un_Usage :: "Usage decoder" where
  "un_Usage = un_struct
     [(''prompt_tokens'', fld un_int cu_PromptTokens cu_PromptTokens_update),
      (''completion_tokens'', fld un_int cu_CompletionTokens cu_CompletionTokens_update),
      (''total_tokens'', fld un_int cu_TotalTokens cu_TotalTokens_update)]"

definition zero_Usage :: Usage where
  "zero_Usage = \<lparr>cu_PromptTokens = 0, cu_CompletionTokens = 0, cu_TotalTokens = 0\<rparr>"

definition un_Choice :: "Choice decoder" where
  "un_Choice = un_struct
     [(''index'', fld un_int co_Index co_Index_update),
      (''message'', fld (un_ptr zero_Message un_Message) co_Message co_Message_update),
      (''delta'', fld (un_ptr zero_Message un_Message) co_Delta co_Delta_update),
      (''finish_reason'', fld (un_ptr [] un_str) co_FinishReason co_FinishReason_update)]"

definition zero_Choice :: Choice where
  "zero_Choice = \<lparr>co_Index = 0, co_Message = None, co_Delta = None, co_FinishReason = None\<rparr>"

definition un_ChatCompletionResponse :: "ChatCompletionResponse decoder" where
  "un_ChatCompletionResponse = un_struct
     [(''id'', fld un_str cr_ID cr_ID_update), (''object'', fld un_str cr_Object cr_Object_update),
      (''created'', fld un_int cr_Created cr_Created_update), (''model'', fld un_str cr_Model cr_Model_update),
      (''choices'', fld (un_slice zero_Choice un_Choice) cr_Choices cr_Choices_update),
      (''usage'', fld (un_ptr zero_Usage un_Usage) cr_Usage cr_Usage_update)]"

definition zero_Response :: ChatCompletionResponse where
  "zero_Response = \<lparr>cr_ID = [], cr_Object = [], cr_Created = 0, cr_Model = [], cr_Choices = None, cr_Usage = None\<rparr>"

section \<open>Encoders\<close>

definition json_ToolFunction :: "ToolFunction \<Rightarrow> json" where
  "json_ToolFunction f = JObj
     (always ''name'' (JStr (tf_Name f)) @
      omitempty (tf_Description f = []) ''description'' (JStr (tf_Description f)) @
      omitempty (tf_Parameters f = JNull) ''parameters'' (tf_Parameters f))"

definition json_Tool :: "Tool \<Rightarrow> json" where
  "json_Tool t = JObj (always ''type'' (JStr (tl_Type t)) @ always ''function'' (json_ToolFunction (tl_Function t)))"

definition json_ToolCallFunction :: "ToolCallFunction \<Rightarrow> json" where
  "json_ToolCallFunction f = JObj (always ''name'' (JStr (fc_Name f)) @ always ''arguments'' (JStr (fc_Arguments f)))"

definition json_ToolCall :: "ToolCall \<Rightarrow> json" where
  "json_ToolCall c = JObj
     (always ''id'' (JStr (tk_ID c)) @ always ''type'' (JStr (tk_Type c)) @
      always ''function'' (json_ToolCallFunction (tk_Function c)))"

definition json_Message :: "Message \<Rightarrow> json" where
  "json_Message m = JObj
     (always ''role'' (JStr (msg_Role m)) @ always ''content'' (msg_Content m) @
      omitempty (msg_Name m = []) ''name'' (JStr (msg_Name m)) @
      omitempty (msg_ToolCalls m = []) ''tool_calls'' (json_list json_ToolCall (msg_ToolCalls m)) @
      omitempty (msg_ToolCallID m = []) ''tool_call_id'' (JStr (msg_ToolCallID m)))"

definition json_ChatCompletionRequest :: "ChatCompletionRequest \<Rightarrow> json" where
  "json_ChatCompletionRequest r = JObj
     (always ''model'' (JStr (rq_Model r)) @
      always ''messages'' (json_slice json_Message (rq_Messages r)) @
      omitempty (rq_Tools r = []) ''tools'' (json_list json_Tool (rq_Tools r)) @
      omitempty (rq_ToolChoice r = JNull) ''tool_choice'' (rq_ToolChoice r) @
      omitempty (\<not> rq_Stream r) ''stream'' (JBool (rq_Stream r)) @
      omitempty (rq_Temperature r = None) ''temperature'' (json_ptr json_float (rq_Temperature r)) @
      omitempty (rq_TopP r = None) ''top_p'' (json_ptr json_float (rq_TopP r)) @
      omitempty (rq_MaxTokens r = None) ''max_tokens'' (json_ptr JInt (rq_MaxTokens r)) @
      omitempty (rq_Stop r = JNull) ''stop'' (rq_Stop r) @
      omitempty (rq_FrequencyPenalty r = None) ''frequency_penalty'' (json_ptr json_float (rq_FrequencyPenalty r)) @
      omitempty (rq_PresencePenalty r = None) ''presence_penalty'' (json_ptr json_float (rq_PresencePenalty r)) @
      omitempty (rq_Seed r = None) ''seed'' (json_ptr JInt (rq_Seed r)) @
      omitempty (rq_N r = None) ''n'' (json_ptr JInt (rq_N r)) @
      omitempty (rq_User r = []) ''user'' (JStr (rq_User r)) @
      omitempty (rq_ResponseFormat r = JNull \<or> rq_ResponseFormat r = JObj []) ''response_format'' (rq_ResponseFormat r))"

definition json_Usage :: "Usage \<Rightarrow> json" where
  "json_Usage u = JObj
     (always ''prompt_tokens'' (JInt (cu_PromptTokens u)) @ always ''completion_tokens'' (JInt (cu_CompletionTokens u)) @
      always ''total_tokens'' (JInt (cu_TotalTokens u)))"

definition json_Choice :: "Choice \<Rightarrow> json" where
  "json_Choice c = JObj
     (always ''index'' (JInt (co_Index c)) @
      omitempty (co_Message c = None) ''message'' (json_ptr json_Message (co_Message c)) @
      omitempty (co_Delta c = None) ''delta'' (json_ptr json_Message (co_Delta c)) @
      omitempty (co_FinishReason c = None) ''finish_reason'' (json_ptr JStr (co_FinishReason c)))"

definition json_ChatCompletionResponse :: "ChatCompletionResponse \<Rightarrow> json" where
  "json_ChatCompletionResponse r = JObj
     (always ''id'' (JStr (cr_ID r)) @ always ''object'' (JStr (cr_Object r)) @ always ''created'' (JInt (cr_Created r)) @
      always ''model'' (JStr (cr_Model r)) @ always ''choices'' (json_slice json_Choice (cr_Choices r)) @
      omitempty (cr_Usage r = None) ''usage'' (json_ptr json_Usage (cr_Usage r)))"

section \<open>Content\<close>

definition GetContentText :: "Message \<Rightarrow> string" where
  "GetContentText m = (case msg_Content m of JStr s \<Rightarrow> s | _ \<Rightarrow> [])"

section \<open>Round trips\<close>

text \<open>The tags of the structs as they are compared.\<close>

lemma tags [simp]:
  "strings_ToLower ''model'' = ''model''" "strings_ToLower ''messages'' = ''messages''"
  "strings_ToLower ''tools'' = ''tools''" "strings_ToLower ''tool_choice'' = ''tool_choice''"
  "strings_ToLower ''stream'' = ''stream''" "strings_ToLower ''temperature'' = ''temperature''"
  "strings_ToLower ''top_p'' = ''top_p''" "strings_ToLower ''max_tokens'' = ''max_tokens''"
  "strings_ToLower ''stop'' = ''stop''" "strings_ToLower ''frequency_penalty'' = ''frequency_penalty''"
  "strings_ToLower ''presence_penalty'' = ''presence_penalty''" "strings_ToLower ''seed'' = ''seed''"
  "strings_ToLower ''n'' = ''n''" "strings_ToLower ''user'' = ''user''"
  "strings_ToLower ''response_format'' = ''response_format''" "strings_ToLower ''role'' = ''role''"
  "strings_ToLower ''content'' = ''content''" "strings_ToLower ''name'' = ''name''"
  "strings_ToLower ''tool_calls'' = ''tool_calls''" "strings_ToLower ''tool_call_id'' = ''tool_call_id''"
  "strings_ToLower ''id'' = ''id''" "strings_ToLower ''type'' = ''type''" "strings_ToLower ''function'' = ''function''"
  "strings_ToLower ''arguments'' = ''arguments''" "strings_ToLower ''description'' = ''description''"
  "strings_ToLower ''parameters'' = ''parameters''" "strings_ToLower ''object'' = ''object''"
  "strings_ToLower ''created'' = ''created''" "strings_ToLower ''choices'' = ''choices''"
  "strings_ToLower ''usage'' = ''usage''" "strings_ToLower ''prompt_tokens'' = ''prompt_tokens''"
  "strings_ToLower ''completion_tokens'' = ''completion_tokens''" "strings_ToLower ''total_tokens'' = ''total_tokens''"
  "strings_ToLower ''index'' = ''index''" "strings_ToLower ''message'' = ''message''"
  "strings_ToLower ''delta'' = ''delta''" "strings_ToLower ''finish_reason'' = ''finish_reason''"
  "strings_ToLower ''url'' = ''url''" "strings_ToLower ''detail'' = ''detail''"
  "strings_ToLower ''text'' = ''text''" "strings_ToLower ''image_url'' = ''image_url''"
  by code_simp+

lemma json_objects [simp]:
  "json_ToolFunction f \<noteq> JNull" "json_Message m \<noteq> JNull" "json_Usage u \<noteq> JNull" "json_float q \<noteq> JNull"
  by (simp_all add: json_ToolFunction_def json_Message_def json_Usage_def json_float_def)

lemma rt_ToolCallFunction [json_rt]: "reads_back un_ToolCallFunction json_ToolCallFunction old f"
  by (simp add: reads_back_def un_ToolCallFunction_def json_ToolCallFunction_def always_def fld_def un_str_def)

lemma rt_ToolCall [json_rt]: "reads_back un_ToolCall json_ToolCall old c"
  using rt_ToolCallFunction [of "tk_Function old" "tk_Function c"]
  by (simp add: reads_back_def un_ToolCall_def json_ToolCall_def always_def fld_def un_str_def)

lemma rt_ToolFunction: 
  "reads_back un_ToolFunction json_ToolFunction \<lparr>tf_Name = [], tf_Description = [], tf_Parameters = JNull\<rparr> f"
  by (cases f) (simp add: reads_back_def un_ToolFunction_def json_ToolFunction_def always_def omitempty_def fld_def
      un_str_def un_any_def)

lemma rt_Tool [json_rt]: "reads_back un_Tool json_Tool zero_Tool t"
  using rt_ToolFunction [of "tl_Function t"]
  by (simp add: reads_back_def un_Tool_def json_Tool_def zero_Tool_def always_def fld_def un_str_def)

lemma rt_Message [json_rt]: "reads_back un_Message json_Message zero_Message m"
proof -
  have "reads_back (un_list zero_ToolCall un_ToolCall) (json_list json_ToolCall) old cs" for old cs
    by (intro json_rt)
  then show ?thesis
    by (cases m) (simp add: reads_back_def un_Message_def json_Message_def zero_Message_def always_def omitempty_def
        fld_def un_str_def un_any_def)
qed

text \<open>A request that was decoded has integers of 64 bits, and a response format that is a map.\<close>

definition decoded_request :: "ChatCompletionRequest \<Rightarrow> bool" where
  "decoded_request r \<longleftrightarrow>
     list_all (\<lambda>x. case x of None \<Rightarrow> True | Some i \<Rightarrow> int64_range i) [rq_MaxTokens r, rq_Seed r, rq_N r] \<and>
     (case rq_ResponseFormat r of JNull \<Rightarrow> True | JObj kvs \<Rightarrow> kvs \<noteq> [] | _ \<Rightarrow> False)"

lemma rt_Request:
  assumes "decoded_request r"
  shows "reads_back un_ChatCompletionRequest json_ChatCompletionRequest zero_Request r"
proof -
  have ints: "reads_back (un_ptr 0 un_int) (json_ptr JInt) old x" if "x \<in> {rq_MaxTokens r, rq_Seed r, rq_N r}" for old x
    using assms that by (intro json_rt conjI) (auto simp: decoded_request_def split: option.splits)
  have floats: "reads_back (un_ptr 0 un_float) (json_ptr json_float) old q" for old q
    by (intro json_rt conjI json_objects)
  have tools: "reads_back (un_list zero_Tool un_Tool) (json_list json_Tool) old ts" for old ts
    by (intro json_rt)
  have msgs: "un_slice zero_Message un_Message (json_slice json_Message ms) old = Some ms" for old ms
    using rt_slice [of ms un_Message json_Message zero_Message] rt_Message by (simp add: reads_back_def)
  have fmt: "rq_ResponseFormat r \<noteq> JObj []" "un_map (rq_ResponseFormat r) old = Some (rq_ResponseFormat r)" for old
    using assms by (auto simp: decoded_request_def un_map_def split: json.splits)
  show ?thesis
    unfolding reads_back_def un_ChatCompletionRequest_def json_ChatCompletionRequest_def un_struct_obj zero_Request_def
    apply (simp add: un_always un_omitted un_optional un_elements ints floats tools msgs un_str_def)
    using fmt by (cases r) (simp add: omitempty_def fld_def)
qed

end
