(* ===== verification/Anthropic.thy ===== *)
theory Anthropic
  imports Chat Wire SSE
begin

text \<open>
  The Anthropic adapter of the smart router (\<open>provider/anthropic.go\<close>): the translation of chat requests into the
  Messages API, of its responses back, and of its event streams into chat chunks, with the state that the translator keeps
  between events. HTTP requests are built for well-formed URLs, for which \<open>http.NewRequest\<close> does not fail.
\<close>

section \<open>HTTP\<close>

record http_request =
  hq_URL :: string
  hq_Header :: "(string \<times> string) list"
  hq_Body :: string

text \<open>A response: the body is None when reading it fails.\<close>

record http_response =
  hp_Status :: int
  hp_Header :: "(string \<times> string) list"
  hp_Body :: "string option"

definition header_int :: "(string \<times> string) list \<Rightarrow> string \<Rightarrow> int option" where
  "header_int hs name =
     (let v = resp_Get hs name
      in if v = [] then None else case ParseInt v of (n, None) \<Rightarrow> Some n | (_, Some _) \<Rightarrow> None)"

definition header_time :: "(string \<times> string) list \<Rightarrow> string \<Rightarrow> int option" where
  "header_time hs name =
     (let v = resp_Get hs name in if v = [] then None else map_option t_ns (parse_RFC3339 v))"

definition or_zero :: "int option \<Rightarrow> int" where
  "or_zero x = (case x of None \<Rightarrow> 0 | Some n \<Rightarrow> n)"

definition extract_info :: "int option \<Rightarrow> int option \<Rightarrow> int option \<Rightarrow> int option \<Rightarrow> int option \<Rightarrow> int option \<Rightarrow>
    RateLimitInfo option" where
  "extract_info remReq remTok limReq limTok resetReq resetTok =
     (if list_all (\<lambda>x. x = None) [remReq, remTok, limReq, limTok, resetReq, resetTok] then None
      else Some \<lparr>ri_RemainingRequests = or_zero remReq, ri_RemainingTokens = or_zero remTok,
        ri_LimitRequests = or_zero limReq, ri_LimitTokens = or_zero limTok,
        ri_ResetRequests = or_zero resetReq, ri_ResetTokens = or_zero resetTok\<rparr>)"

section \<open>Types\<close>

definition anthropicBaseURL :: string where "anthropicBaseURL = ''https://api.anthropic.com/v1/messages''"
definition anthropicVersion :: string where "anthropicVersion = ''2023-06-01''"

record anthropicImageSource =
  src_Type :: string
  src_MediaType :: string
  src_Data :: string

record anthropicContent =
  ac_Type :: string
  ac_Text :: string
  ac_ID :: string
  ac_Name :: string
  ac_Input :: json
  ac_ToolUseID :: string
  ac_Content :: json
  ac_Source :: "anthropicImageSource option"

definition zero_content :: anthropicContent where
  "zero_content = \<lparr>ac_Type = [], ac_Text = [], ac_ID = [], ac_Name = [], ac_Input = JNull, ac_ToolUseID = [],
     ac_Content = JNull, ac_Source = None\<rparr>"

text \<open>The field \<open>Content any\<close> of a message: nil, a string, or blocks.\<close>

datatype message_content = NoContent | TextContent string | Blocks "anthropicContent list"

record anthropicMessage =
  am_Role :: string
  am_Content :: message_content

record anthropicTool =
  atl_Name :: string
  atl_Description :: string
  atl_InputSchema :: json

record anthropicRequest =
  ar_Model :: string
  ar_Messages :: "anthropicMessage list"
  ar_System :: "string option"
  ar_MaxTokens :: int
  ar_Stream :: bool
  ar_Temperature :: "rat option"
  ar_TopP :: "rat option"
  ar_StopSequences :: "string list"
  ar_Tools :: "anthropicTool list"
  ar_ToolChoice :: json

record anthropicUsage =
  au_InputTokens :: int
  au_OutputTokens :: int

record anthropicResponse =
  ap_ID :: string
  ap_Content :: "anthropicContent list"
  ap_Model :: string
  ap_StopReason :: string
  ap_Usage :: anthropicUsage

definition json_ImageSource :: "anthropicImageSource \<Rightarrow> json" where
  "json_ImageSource s = JObj (always ''type'' (JStr (src_Type s)) @ always ''media_type'' (JStr (src_MediaType s)) @
     always ''data'' (JStr (src_Data s)))"

definition json_Content :: "anthropicContent \<Rightarrow> json" where
  "json_Content c = JObj
     (always ''type'' (JStr (ac_Type c)) @ omitempty (ac_Text c = []) ''text'' (JStr (ac_Text c)) @
      omitempty (ac_ID c = []) ''id'' (JStr (ac_ID c)) @ omitempty (ac_Name c = []) ''name'' (JStr (ac_Name c)) @
      omitempty (ac_Input c = JNull) ''input'' (ac_Input c) @
      omitempty (ac_ToolUseID c = []) ''tool_use_id'' (JStr (ac_ToolUseID c)) @
      omitempty (ac_Content c = JNull) ''content'' (ac_Content c) @
      omitempty (ac_Source c = None) ''source'' (json_ptr json_ImageSource (ac_Source c)))"

text \<open>A slice that was built by appending to nil is nil when it is empty.\<close>

definition json_appended :: "('a \<Rightarrow> json) \<Rightarrow> 'a list \<Rightarrow> json" where
  "json_appended f xs = (if xs = [] then JNull else JArr (map f xs))"

fun json_message_content :: "message_content \<Rightarrow> json" where
  "json_message_content NoContent = JNull"
| "json_message_content (TextContent s) = JStr s"
| "json_message_content (Blocks bs) = json_appended json_Content bs"

definition json_anthropicMessage :: "anthropicMessage \<Rightarrow> json" where
  "json_anthropicMessage m = JObj (always ''role'' (JStr (am_Role m)) @ always ''content'' (json_message_content (am_Content m)))"

definition json_anthropicTool :: "anthropicTool \<Rightarrow> json" where
  "json_anthropicTool t = JObj
     (always ''name'' (JStr (atl_Name t)) @ omitempty (atl_Description t = []) ''description'' (JStr (atl_Description t)) @
      always ''input_schema'' (atl_InputSchema t))"

definition json_anthropicRequest :: "anthropicRequest \<Rightarrow> json" where
  "json_anthropicRequest r = JObj
     (always ''model'' (JStr (ar_Model r)) @ always ''messages'' (json_appended json_anthropicMessage (ar_Messages r)) @
      omitempty (ar_System r = None) ''system'' (json_ptr JStr (ar_System r)) @
      always ''max_tokens'' (JInt (ar_MaxTokens r)) @
      omitempty (\<not> ar_Stream r) ''stream'' (JBool (ar_Stream r)) @
      omitempty (ar_Temperature r = None) ''temperature'' (json_ptr json_float (ar_Temperature r)) @
      omitempty (ar_TopP r = None) ''top_p'' (json_ptr json_float (ar_TopP r)) @
      omitempty (ar_StopSequences r = []) ''stop_sequences'' (json_list JStr (ar_StopSequences r)) @
      omitempty (ar_Tools r = []) ''tools'' (json_list json_anthropicTool (ar_Tools r)) @
      omitempty (ar_ToolChoice r = JNull) ''tool_choice'' (ar_ToolChoice r))"

definition un_ImageSource :: "anthropicImageSource decoder" where
  "un_ImageSource = un_struct
     [(''type'', fld un_str src_Type src_Type_update), (''media_type'', fld un_str src_MediaType src_MediaType_update),
      (''data'', fld un_str src_Data src_Data_update)]"

definition un_anthropicContent :: "anthropicContent decoder" where
  "un_anthropicContent = un_struct
     [(''type'', fld un_str ac_Type ac_Type_update), (''text'', fld un_str ac_Text ac_Text_update),
      (''id'', fld un_str ac_ID ac_ID_update), (''name'', fld un_str ac_Name ac_Name_update),
      (''input'', fld un_any ac_Input ac_Input_update), (''tool_use_id'', fld un_str ac_ToolUseID ac_ToolUseID_update),
      (''content'', fld un_any ac_Content ac_Content_update),
      (''source'', fld (un_ptr \<lparr>src_Type = [], src_MediaType = [], src_Data = []\<rparr> un_ImageSource) ac_Source ac_Source_update)]"

definition un_anthropicUsage :: "anthropicUsage decoder" where
  "un_anthropicUsage = un_struct
     [(''input_tokens'', fld un_int au_InputTokens au_InputTokens_update),
      (''output_tokens'', fld un_int au_OutputTokens au_OutputTokens_update)]"

text \<open>The fields \<open>type\<close>, \<open>role\<close> and \<open>stop_sequence\<close> of a response are decoded and never read; they are checked for
  their type.\<close>

definition unread :: "'b decoder \<Rightarrow> 'b \<Rightarrow> 'a decoder" where
  "unread un zero j r = map_option (\<lambda>_. r) (un j zero)"

definition un_anthropicResponse :: "anthropicResponse decoder" where
  "un_anthropicResponse = un_struct
     [(''id'', fld un_str ap_ID ap_ID_update), (''type'', unread un_str []), (''role'', unread un_str []),
      (''content'', fld (un_list zero_content un_anthropicContent) ap_Content ap_Content_update),
      (''model'', fld un_str ap_Model ap_Model_update), (''stop_reason'', fld un_str ap_StopReason ap_StopReason_update),
      (''stop_sequence'', unread (un_ptr [] un_str) None),
      (''usage'', fld un_anthropicUsage ap_Usage ap_Usage_update)]"

definition zero_anthropicResponse :: anthropicResponse where
  "zero_anthropicResponse = \<lparr>ap_ID = [], ap_Content = [], ap_Model = [], ap_StopReason = [],
     ap_Usage = \<lparr>au_InputTokens = 0, au_OutputTokens = 0\<rparr>\<rparr>"

section \<open>Requests\<close>

definition strings_TrimSuffix :: "string \<Rightarrow> string \<Rightarrow> string" where
  "strings_TrimSuffix s p =
     (if length p \<le> length s \<and> drop (length s - length p) s = p then take (length s - length p) s else s)"

definition convertImageURL :: "string \<Rightarrow> (string, anthropicContent) result" where
  "convertImageURL url =
     (if strings_HasPrefix url ''data:''
      then (if CHR '','' \<notin> set url then Inl ''invalid data URL format''
            else (let meta = strings_TrimPrefix (takeWhile (\<lambda>c. c \<noteq> CHR '','') url) ''data:''
                  in Inr (zero_content\<lparr>ac_Type := ''image'', ac_Source := Some \<lparr>src_Type = ''base64'',
                       src_MediaType = strings_TrimSuffix meta '';base64'',
                       src_Data = tl (dropWhile (\<lambda>c. c \<noteq> CHR '','') url)\<rparr>\<rparr>)))
      else Inr (zero_content\<lparr>ac_Type := ''image'', ac_Source := Some \<lparr>src_Type = ''url'', src_MediaType = [], src_Data = url\<rparr>\<rparr>))"

fun convertContentParts :: "json list \<Rightarrow> (string, anthropicContent list) result" where
  "convertContentParts [] = Inr []"
| "convertContentParts (part # parts) =
     (case un_ContentPart part zero_ContentPart of
        None \<Rightarrow> convertContentParts parts
      | Some cp \<Rightarrow>
          if cpt_Type cp = ''text'' then
            map_sum id (\<lambda>bs. zero_content\<lparr>ac_Type := ''text'', ac_Text := cpt_Text cp\<rparr> # bs) (convertContentParts parts)
          else if cpt_Type cp = ''image_url'' then
            (case cpt_ImageURL cp of
               None \<Rightarrow> convertContentParts parts
             | Some img \<Rightarrow>
                 (case convertImageURL (iu_URL img) of
                    Inl err \<Rightarrow> Inl err
                  | Inr ac \<Rightarrow> map_sum id (\<lambda>bs. ac # bs) (convertContentParts parts)))
          else convertContentParts parts)"

definition tool_use :: "json_text \<Rightarrow> ToolCall \<Rightarrow> anthropicContent" where
  "tool_use J tc = zero_content\<lparr>ac_Type := ''tool_use'', ac_ID := tk_ID tc, ac_Name := fc_Name (tk_Function tc),
     ac_Input := (case jt_Unmarshal J (fc_Arguments (tk_Function tc)) of None \<Rightarrow> JNull | Some j \<Rightarrow> j)\<rparr>"

definition buildAssistantContent :: "json_text \<Rightarrow> string \<Rightarrow> ToolCall list \<Rightarrow> anthropicContent list" where
  "buildAssistantContent J txt toolCalls =
     (if txt \<noteq> [] then [zero_content\<lparr>ac_Type := ''text'', ac_Text := txt\<rparr>] else []) @ map (tool_use J) toolCalls"

definition convertMessage :: "json_text \<Rightarrow> Message \<Rightarrow> (string, anthropicMessage) result" where
  "convertMessage J msg =
     (if msg_Role msg = ''tool''
      then Inr \<lparr>am_Role = ''user'', am_Content = Blocks [zero_content\<lparr>ac_Type := ''tool_result'',
             ac_ToolUseID := msg_ToolCallID msg, ac_Content := JStr (GetContentText msg)\<rparr>]\<rparr>
      else map_sum id (\<lambda>content. \<lparr>am_Role = msg_Role msg, am_Content = content\<rparr>)
        (case msg_Content msg of
           JStr v \<Rightarrow>
             if msg_ToolCalls msg \<noteq> [] then Inr (Blocks (buildAssistantContent J v (msg_ToolCalls msg)))
             else Inr (TextContent v)
         | JArr v \<Rightarrow> map_sum id Blocks (convertContentParts v)
         | JNull \<Rightarrow>
             if msg_ToolCalls msg \<noteq> [] then Inr (Blocks (buildAssistantContent J [] (msg_ToolCalls msg)))
             else Inr NoContent
         | other \<Rightarrow> Inr (TextContent (jt_Marshal J other))))"

fun convert_messages :: "json_text \<Rightarrow> Message list \<Rightarrow> (string, string list \<times> anthropicMessage list) result" where
  "convert_messages J [] = Inr ([], [])"
| "convert_messages J (msg # msgs) =
     (if msg_Role msg = ''system''
      then map_sum id (apfst (\<lambda>sys. GetContentText msg # sys)) (convert_messages J msgs)
      else (case convertMessage J msg of
              Inl err \<Rightarrow> Inl err
            | Inr m \<Rightarrow> map_sum id (apsnd (\<lambda>ms. m # ms)) (convert_messages J msgs)))"

definition convertToolChoice :: "json \<Rightarrow> json" where
  "convertToolChoice tc =
     (case tc of
        JStr v \<Rightarrow>
          if v = ''auto'' then JObj [(''type'', JStr ''auto'')]
          else if v = ''none'' then JObj [(''type'', JStr ''none'')]
          else if v = ''required'' then JObj [(''type'', JStr ''any'')]
          else JObj [(''type'', JStr ''auto'')]
      | JObj v \<Rightarrow>
          (case map_of (rev v) ''function'' of
             Some (JObj fn) \<Rightarrow>
               (case map_of (rev fn) ''name'' of
                  Some (JStr name) \<Rightarrow> JObj [(''type'', JStr ''tool''), (''name'', JStr name)]
                | _ \<Rightarrow> JNull)
           | _ \<Rightarrow> JNull)
      | _ \<Rightarrow> JNull)"

definition stop_sequences :: "json \<Rightarrow> string list" where
  "stop_sequences stop =
     (case stop of
        JStr v \<Rightarrow> [v]
      | JArr v \<Rightarrow> List.map_filter (\<lambda>s. case s of JStr str \<Rightarrow> Some str | _ \<Rightarrow> None) v
      | _ \<Rightarrow> [])"

text \<open>\<open>strings.Join\<close>.\<close>

fun strings_Join :: "string list \<Rightarrow> string \<Rightarrow> string" where
  "strings_Join [] sep = []"
| "strings_Join [x] sep = x"
| "strings_Join (x # y # xs) sep = x @ sep @ strings_Join (y # xs) sep"

definition buildAnthropicRequest :: "json_text \<Rightarrow> ChatCompletionRequest \<Rightarrow> (string, anthropicRequest) result" where
  "buildAnthropicRequest J req =
     (case convert_messages J (case rq_Messages req of None \<Rightarrow> [] | Some ms \<Rightarrow> ms) of
        Inl err \<Rightarrow> Inl err
      | Inr (systemParts, messages) \<Rightarrow>
          Inr \<lparr>ar_Model = rq_Model req, ar_Messages = messages,
            ar_System = (if systemParts \<noteq> [] then Some (strings_Join systemParts [newline, newline]) else None),
            ar_MaxTokens = (case rq_MaxTokens req of Some n \<Rightarrow> n | None \<Rightarrow> 4096),
            ar_Stream = rq_Stream req, ar_Temperature = rq_Temperature req, ar_TopP = rq_TopP req,
            ar_StopSequences = stop_sequences (rq_Stop req),
            ar_Tools = map (\<lambda>tool. \<lparr>atl_Name = tf_Name (tl_Function tool), atl_Description = tf_Description (tl_Function tool),
              atl_InputSchema = tf_Parameters (tl_Function tool)\<rparr>) (rq_Tools req),
            ar_ToolChoice = (if rq_ToolChoice req \<noteq> JNull then convertToolChoice (rq_ToolChoice req) else JNull)\<rparr>)"

definition Anthropic_TransformRequest :: "json_text \<Rightarrow> ChatCompletionRequest \<Rightarrow> string \<Rightarrow> (string, http_request) result" where
  "Anthropic_TransformRequest J req apiKey =
     (case buildAnthropicRequest J req of
        Inl err \<Rightarrow> Inl err
      | Inr antReq \<Rightarrow>
          Inr \<lparr>hq_URL = anthropicBaseURL,
            hq_Header = [(''Content-Type'', ''application/json''), (''x-api-key'', apiKey), (''anthropic-version'', anthropicVersion)],
            hq_Body = jt_Marshal J (json_anthropicRequest antReq)\<rparr>)"

section \<open>Responses\<close>

definition mapStopReason :: "string \<Rightarrow> string" where
  "mapStopReason reason =
     (if reason = ''end_turn'' then ''stop''
      else if reason = ''max_tokens'' then ''length''
      else if reason = ''tool_use'' then ''tool_calls''
      else if reason = ''stop_sequence'' then ''stop''
      else ''stop'')"

definition text_of :: "anthropicContent list \<Rightarrow> string" where
  "text_of bs = concat (map ac_Text (filter (\<lambda>b. ac_Type b = ''text'') bs))"

definition calls_of :: "json_text \<Rightarrow> anthropicContent list \<Rightarrow> ToolCall list" where
  "calls_of J bs = map (\<lambda>b. \<lparr>tk_ID = ac_ID b, tk_Type = ''function'',
       tk_Function = \<lparr>fc_Name = ac_Name b, fc_Arguments = jt_Marshal J (ac_Input b)\<rparr>\<rparr>)
     (filter (\<lambda>b. ac_Type b = ''tool_use'') bs)"

definition convertResponse :: "json_text \<Rightarrow> int \<Rightarrow> anthropicResponse \<Rightarrow> ChatCompletionResponse" where
  "convertResponse J now antResp =
     (let msg = zero_Message\<lparr>msg_Role := ''assistant'', msg_Content := JStr (text_of (ap_Content antResp)),
                  msg_ToolCalls := calls_of J (ap_Content antResp)\<rparr>;
          u = ap_Usage antResp
      in \<lparr>cr_ID = ap_ID antResp, cr_Object = ''chat.completion'', cr_Created = now, cr_Model = ap_Model antResp,
          cr_Choices = Some [\<lparr>co_Index = 0, co_Message = Some msg, co_Delta = None,
            co_FinishReason = Some (mapStopReason (ap_StopReason antResp))\<rparr>],
          cr_Usage = Some \<lparr>cu_PromptTokens = au_InputTokens u, cu_CompletionTokens = au_OutputTokens u,
            cu_TotalTokens = wrap64 (au_InputTokens u + au_OutputTokens u)\<rparr>\<rparr>)"

definition Anthropic_TransformResponse :: "json_text \<Rightarrow> int \<Rightarrow> http_response \<Rightarrow> (string, ChatCompletionResponse) result" where
  "Anthropic_TransformResponse J now resp =
     (case hp_Body resp of
        None \<Rightarrow> Inl ''read response: unexpected EOF''
      | Some body \<Rightarrow>
          if hp_Status resp \<noteq> 200
          then Inl (''anthropic error (status '' @ show_int (hp_Status resp) @ ''): '' @ body)
          else (case unmarshal J un_anthropicResponse zero_anthropicResponse body of
                  None \<Rightarrow> Inl ''unmarshal anthropic response''
                | Some antResp \<Rightarrow> Inr (convertResponse J now antResp)))"

section \<open>Streams\<close>

record AnthropicStreamTranslator =
  ast_messageID :: string
  ast_model :: string
  ast_contentBlockIndex :: int
  ast_toolCallIndex :: int
  ast_created :: int

definition NewAnthropicStreamTranslator :: "int \<Rightarrow> AnthropicStreamTranslator" where
  "NewAnthropicStreamTranslator now = \<lparr>ast_messageID = [], ast_model = [], ast_contentBlockIndex = 0,
     ast_toolCallIndex = 0, ast_created = now\<rparr>"

datatype stream_error = StreamEOF | StreamErr string

type_synonym 's translation = "(stream_error, StreamChunk list) result \<times> 's"

definition delta_chunk :: "AnthropicStreamTranslator \<Rightarrow> Message \<Rightarrow> string option \<Rightarrow> StreamChunk" where
  "delta_chunk t delta finish = \<lparr>cr_ID = ast_messageID t, cr_Object = ''chat.completion.chunk'', cr_Created = ast_created t,
     cr_Model = ast_model t,
     cr_Choices = Some [\<lparr>co_Index = 0, co_Message = None, co_Delta = Some delta, co_FinishReason = finish\<rparr>],
     cr_Usage = None\<rparr>"

definition handleMessageStart :: "json_text \<Rightarrow> string \<Rightarrow> AnthropicStreamTranslator \<Rightarrow> AnthropicStreamTranslator translation" where
  "handleMessageStart J data t =
     (case unmarshal J (un_struct [(''message'', un_struct [(''id'', fld un_str fst apfst), (''model'', fld un_str snd apsnd)])])
             ([], []) data of
        None \<Rightarrow> (Inl (StreamErr ''parse message_start''), t)
      | Some (i, model) \<Rightarrow>
          (let t' = t\<lparr>ast_messageID := i, ast_model := model\<rparr>
           in (Inr [delta_chunk t' (zero_Message\<lparr>msg_Role := ''assistant''\<rparr>) None], t')))"

record block_start =
  bs_Index :: int
  bs_Type :: string
  bs_ID :: string
  bs_Name :: string

definition handleContentBlockStart :: "json_text \<Rightarrow> string \<Rightarrow> AnthropicStreamTranslator \<Rightarrow> AnthropicStreamTranslator translation" where
  "handleContentBlockStart J data t =
     (case unmarshal J (un_struct [(''index'', fld un_int bs_Index bs_Index_update),
               (''content_block'', un_struct [(''type'', fld un_str bs_Type bs_Type_update),
                  (''id'', fld un_str bs_ID bs_ID_update), (''name'', fld un_str bs_Name bs_Name_update)])])
             \<lparr>bs_Index = 0, bs_Type = [], bs_ID = [], bs_Name = []\<rparr> data of
        None \<Rightarrow> (Inl (StreamErr ''parse content_block_start''), t)
      | Some evt \<Rightarrow>
          if bs_Type evt = ''tool_use''
          then (Inr [delta_chunk t (zero_Message\<lparr>msg_ToolCalls := [\<lparr>tk_ID = bs_ID evt, tk_Type = ''function'',
                  tk_Function = \<lparr>fc_Name = bs_Name evt, fc_Arguments = []\<rparr>\<rparr>]\<rparr>) None],
                t\<lparr>ast_toolCallIndex := bs_Index evt\<rparr>)
          else (Inr [], t))"

record block_delta =
  bd_Index :: int
  bd_Type :: string
  bd_Text :: string
  bd_PartialJSON :: string

definition handleContentBlockDelta :: "json_text \<Rightarrow> string \<Rightarrow> AnthropicStreamTranslator \<Rightarrow> AnthropicStreamTranslator translation" where
  "handleContentBlockDelta J data t =
     (case unmarshal J (un_struct [(''index'', fld un_int bd_Index bd_Index_update),
               (''delta'', un_struct [(''type'', fld un_str bd_Type bd_Type_update),
                  (''text'', fld un_str bd_Text bd_Text_update),
                  (''partial_json'', fld un_str bd_PartialJSON bd_PartialJSON_update)])])
             \<lparr>bd_Index = 0, bd_Type = [], bd_Text = [], bd_PartialJSON = []\<rparr> data of
        None \<Rightarrow> (Inl (StreamErr ''parse content_block_delta''), t)
      | Some evt \<Rightarrow>
          if bd_Type evt = ''text_delta''
          then (Inr [delta_chunk t (zero_Message\<lparr>msg_Content := JStr (bd_Text evt)\<rparr>) None], t)
          else if bd_Type evt = ''input_json_delta''
          then (Inr [delta_chunk t (zero_Message\<lparr>msg_ToolCalls := [\<lparr>tk_ID = [], tk_Type = [],
                  tk_Function = \<lparr>fc_Name = [], fc_Arguments = bd_PartialJSON evt\<rparr>\<rparr>]\<rparr>) None], t)
          else (Inr [], t))"

definition handleMessageDelta :: "json_text \<Rightarrow> string \<Rightarrow> AnthropicStreamTranslator \<Rightarrow> AnthropicStreamTranslator translation" where
  "handleMessageDelta J data t =
     (case unmarshal J (un_struct [(''delta'', un_struct [(''stop_reason'', fld un_str fst apfst)]),
               (''usage'', un_struct [(''output_tokens'', fld un_int snd apsnd)])]) ([], 0) data of
        None \<Rightarrow> (Inl (StreamErr ''parse message_delta''), t)
      | Some (stopReason, outputTokens) \<Rightarrow>
          (Inr [delta_chunk t zero_Message (Some (mapStopReason stopReason))], t))"

text \<open>\<open>strings.Split\<close> at line breaks.\<close>

fun split_lines :: "string \<Rightarrow> string list" where
  "split_lines [] = [[]]"
| "split_lines (c # cs) =
     (if c = newline then [] # split_lines cs
      else (case split_lines cs of [] \<Rightarrow> [[c]] | l # ls \<Rightarrow> (c # l) # ls))"

definition event_line :: "string \<Rightarrow> string \<times> string \<Rightarrow> string \<times> string" where
  "event_line line0 = (\<lambda>(eventType, eventData).
     let line = strings_TrimSpace line0
     in if strings_HasPrefix line ''event: '' then (strings_TrimPrefix line ''event: '', eventData)
        else if strings_HasPrefix line ''data: '' then (eventType, strings_TrimPrefix line ''data: '')
        else (eventType, eventData))"

definition TranslateEvent :: "json_text \<Rightarrow> string \<Rightarrow> AnthropicStreamTranslator \<Rightarrow> AnthropicStreamTranslator translation" where
  "TranslateEvent J chunk t =
     (case fold event_line (split_lines chunk) ([], []) of
        (eventType, eventData) \<Rightarrow>
          if eventType = [] \<or> eventData = [] then (Inr [], t)
          else if eventType = ''message_start'' then handleMessageStart J eventData t
          else if eventType = ''content_block_start'' then handleContentBlockStart J eventData t
          else if eventType = ''content_block_delta'' then handleContentBlockDelta J eventData t
          else if eventType = ''content_block_stop'' then
            (Inr [], t\<lparr>ast_contentBlockIndex := wrap64 (ast_contentBlockIndex t + 1)\<rparr>)
          else if eventType = ''message_delta'' then handleMessageDelta J eventData t
          else if eventType = ''message_stop'' then (Inl StreamEOF, t)
          else (Inr [], t))"

section \<open>Rate limits and usage\<close>

definition Anthropic_ExtractRateLimitInfo :: "(string \<times> string) list \<Rightarrow> RateLimitInfo option" where
  "Anthropic_ExtractRateLimitInfo hs = extract_info
     (header_int hs ''anthropic-ratelimit-requests-remaining'') (header_int hs ''anthropic-ratelimit-tokens-remaining'')
     (header_int hs ''anthropic-ratelimit-requests-limit'') (header_int hs ''anthropic-ratelimit-tokens-limit'')
     (header_time hs ''anthropic-ratelimit-requests-reset'') (header_time hs ''anthropic-ratelimit-tokens-reset'')"

definition Anthropic_ExtractUsage :: "json_text \<Rightarrow> string \<Rightarrow> Usage option" where
  "Anthropic_ExtractUsage J body =
     (case unmarshal J (un_struct [(''usage'', un_anthropicUsage)]) \<lparr>au_InputTokens = 0, au_OutputTokens = 0\<rparr> body of
        None \<Rightarrow> None
      | Some u \<Rightarrow>
          if au_InputTokens u = 0 \<and> au_OutputTokens u = 0 then None
          else Some \<lparr>cu_PromptTokens = au_InputTokens u, cu_CompletionTokens = au_OutputTokens u,
                 cu_TotalTokens = wrap64 (au_InputTokens u + au_OutputTokens u)\<rparr>)"

section \<open>Lemmas on requests\<close>

lemma anthropic_tags [simp]:
  "strings_ToLower ''content_block'' = ''content_block''" "strings_ToLower ''partial_json'' = ''partial_json''"
  "strings_ToLower ''stop_reason'' = ''stop_reason''" "strings_ToLower ''stop_sequence'' = ''stop_sequence''"
  "strings_ToLower ''input'' = ''input''" "strings_ToLower ''input_tokens'' = ''input_tokens''" "strings_ToLower ''output_tokens'' = ''output_tokens''"
  by code_simp+

lemma map_result_Inr: "map_sum id f x = Inr y \<longleftrightarrow> (\<exists>z. x = Inr z \<and> y = f z)"
  by (cases x) auto

lemma convert_messages_Inr:
  assumes "convert_messages J msgs = Inr (sys, ms)"
  shows "sys = map GetContentText (filter (\<lambda>m. msg_Role m = ''system'') msgs) \<and>
    list_all2 (\<lambda>m am. convertMessage J m = Inr am) (filter (\<lambda>m. msg_Role m \<noteq> ''system'') msgs) ms"
  using assms
proof (induction msgs arbitrary: sys ms)
  case (Cons m msgs)
  obtain sys' ms' where rest: "convert_messages J msgs = Inr (sys', ms')"
    using Cons.prems by (cases "convert_messages J msgs") (auto split: if_splits sum.splits)
  show ?case
    using Cons.prems Cons.IH [OF rest] rest by (auto split: if_splits sum.splits)
qed simp

lemma convertMessage_role:
  "convertMessage J m = Inr am \<Longrightarrow> am_Role am = (if msg_Role m = ''tool'' then ''user'' else msg_Role m)"
  by (auto simp: convertMessage_def map_result_Inr split: if_splits json.splits)

text \<open>The image parts that have no translation: data URLs without a comma.\<close>

definition bad_image :: "json \<Rightarrow> bool" where
  "bad_image part =
     (case un_ContentPart part zero_ContentPart of
        None \<Rightarrow> False
      | Some cp \<Rightarrow> cpt_Type cp = ''image_url'' \<and>
          (case cpt_ImageURL cp of None \<Rightarrow> False
           | Some img \<Rightarrow> strings_HasPrefix (iu_URL img) ''data:'' \<and> CHR '','' \<notin> set (iu_URL img)))"

definition untranslatable :: "Message \<Rightarrow> bool" where
  "untranslatable m \<longleftrightarrow> msg_Role m \<noteq> ''system'' \<and> msg_Role m \<noteq> ''tool'' \<and>
     (case msg_Content m of JArr parts \<Rightarrow> list_ex bad_image parts | _ \<Rightarrow> False)"

lemma convertContentParts_error: "isl (convertContentParts parts) \<longleftrightarrow> list_ex bad_image parts"
  by (induction parts) (auto simp: bad_image_def convertImageURL_def isl_map_sum Let_def split: option.splits sum.splits)


lemma convertMessage_error:
  "msg_Role m \<noteq> ''system'' \<Longrightarrow> isl (convertMessage J m) \<longleftrightarrow> untranslatable m"
  by (auto simp: convertMessage_def untranslatable_def isl_map_sum convertContentParts_error split: json.splits)

lemma convert_messages_error: "isl (convert_messages J msgs) \<longleftrightarrow> list_ex untranslatable msgs"
proof (induction msgs)
  case (Cons m msgs)
  show ?case
  proof (cases "msg_Role m = ''system''")
    case True
    then show ?thesis using Cons by (simp add: isl_map_sum untranslatable_def)
  next
    case False
    then show ?thesis
      using Cons convertMessage_error [OF False, of J] by (cases "convertMessage J m") (auto simp: isl_map_sum)
  qed
qed simp

section \<open>A turn of the assistant and back\<close>

text \<open>The content blocks of a response as Anthropic sends them: texts and tool uses with nothing else in them.\<close>

definition text_block :: "string \<Rightarrow> anthropicContent" where
  "text_block s = zero_content\<lparr>ac_Type := ''text'', ac_Text := s\<rparr>"

definition tool_block :: "string \<Rightarrow> string \<Rightarrow> json \<Rightarrow> anthropicContent" where
  "tool_block i name input = zero_content\<lparr>ac_Type := ''tool_use'', ac_ID := i, ac_Name := name, ac_Input := input\<rparr>"

datatype block = Text string | ToolUse string string json

fun content_of :: "block \<Rightarrow> anthropicContent" where
  "content_of (Text s) = text_block s"
| "content_of (ToolUse i name input) = tool_block i name input"

fun block_text :: "block \<Rightarrow> string" where
  "block_text (Text s) = s"
| "block_text (ToolUse i name input) = []"

fun is_tool :: "block \<Rightarrow> bool" where
  "is_tool (Text s) = False"
| "is_tool (ToolUse i name input) = True"

text \<open>Printing the input of a tool use and reading it again gives it back.\<close>

fun faithful :: "json_text \<Rightarrow> block \<Rightarrow> bool" where
  "faithful J (Text s) = True"
| "faithful J (ToolUse i name input) = (jt_Unmarshal J (jt_Marshal J input) = Some input)"

lemma text_of_blocks: "text_of (map content_of bs) = concat (map block_text bs)"
proof (induction bs)
  case (Cons b bs)
  then show ?case by (cases b) (simp_all add: text_of_def text_block_def tool_block_def zero_content_def)
qed (simp add: text_of_def)

lemma calls_of_blocks:
  "list_all (faithful J) bs \<Longrightarrow> map (tool_use J) (calls_of J (map content_of bs)) = map content_of (filter is_tool bs)"
proof (induction bs)
  case (Cons b bs)
  then show ?case
    by (cases b) (simp_all add: calls_of_def tool_use_def text_block_def tool_block_def zero_content_def)
qed (simp add: calls_of_def)

lemma calls_of_Nil: "calls_of J (map content_of bs) = [] \<longleftrightarrow> \<not> list_ex is_tool bs"
proof (induction bs)
  case (Cons b bs)
  then show ?case by (cases b) (simp_all add: calls_of_def text_block_def tool_block_def zero_content_def)
qed (simp add: calls_of_def)

text \<open>The message that a client gets for a response, and appends to the conversation.\<close>

definition reply_message :: "ChatCompletionResponse \<Rightarrow> Message option" where
  "reply_message r = (case cr_Choices r of Some (c # _) \<Rightarrow> co_Message c | _ \<Rightarrow> None)"

text \<open>A turn of the assistant survives the two translations: when a client sends the message that it got for a
  response of Anthropic back in its next request, Anthropic receives the text of that response and its tool uses with
  the same identifiers, names and inputs, in the same order; without tool uses it receives the text alone.\<close>

theorem assistant_turn_roundtrip:
  assumes "ap_Content resp = map content_of bs" and "list_all (faithful J) bs"
  shows "\<exists>m. reply_message (convertResponse J now resp) = Some m \<and>
    convertMessage J m = Inr \<lparr>am_Role = ''assistant'', am_Content =
      (let txt = concat (map block_text bs)
       in if list_ex is_tool bs
          then Blocks ((if txt = [] then [] else [text_block txt]) @ map content_of (filter is_tool bs))
          else TextContent txt)\<rparr>"
proof -
  let ?m = "zero_Message\<lparr>msg_Role := ''assistant'', msg_Content := JStr (concat (map block_text bs)),
    msg_ToolCalls := calls_of J (map content_of bs)\<rparr>"
  have "reply_message (convertResponse J now resp) = Some ?m"
    by (simp add: reply_message_def convertResponse_def Let_def assms(1) text_of_blocks)
  then show ?thesis
    using calls_of_blocks [OF assms(2)] calls_of_Nil [of J bs]
    by (simp add: convertMessage_def buildAssistantContent_def text_block_def Let_def)
qed

definition demo_text :: json_text where
  "demo_text = \<lparr>jt_Unmarshal = (\<lambda>s. if s = ''{}'' then Some (JObj []) else None), jt_Marshal = (\<lambda>_. ''{}'')\<rparr>"

definition demo_response :: anthropicResponse where
  "demo_response = \<lparr>ap_ID = ''msg_1'', ap_Content = map content_of [Text ''one'', ToolUse ''t1'' ''now'' (JObj []), Text '' two''],
     ap_Model = ''claude'', ap_StopReason = ''tool_use'', ap_Usage = \<lparr>au_InputTokens = 3, au_OutputTokens = 5\<rparr>\<rparr>"

theorem assistant_turn_roundtrip_witness:
  "\<exists>m. reply_message (convertResponse demo_text 7 demo_response) = Some m \<and>
    convertMessage demo_text m = Inr \<lparr>am_Role = ''assistant'', am_Content =
      Blocks [text_block ''one two'', tool_block ''t1'' ''now'' (JObj [])]\<rparr>"
  using assistant_turn_roundtrip [of demo_response "[Text ''one'', ToolUse ''t1'' ''now'' (JObj []), Text '' two'']" demo_text 7]
  by (simp add: demo_response_def demo_text_def)

text \<open>A chat request is translated completely: its system messages become the system prompt, joined in their
  order, its other messages are translated one by one in their order, and the translation fails if and only if one of
  them, neither a system nor a tool message, contains an image with a data URL that has no comma.\<close>

theorem buildAnthropicRequest_splits:
  fixes req :: ChatCompletionRequest
  defines "msgs \<equiv> case rq_Messages req of None \<Rightarrow> [] | Some ms \<Rightarrow> ms"
  defines "sys \<equiv> filter (\<lambda>m. msg_Role m = ''system'') msgs"
  shows "case buildAnthropicRequest J req of
      Inl err \<Rightarrow> list_ex untranslatable msgs
    | Inr r \<Rightarrow> \<not> list_ex untranslatable msgs \<and>
        list_all2 (\<lambda>m am. convertMessage J m = Inr am \<and> am_Role am = (if msg_Role m = ''tool'' then ''user'' else msg_Role m))
          (filter (\<lambda>m. msg_Role m \<noteq> ''system'') msgs) (ar_Messages r) \<and>
        ar_System r = (if sys = [] then None else Some (strings_Join (map GetContentText sys) [newline, newline]))"
proof (cases "convert_messages J msgs")
  case (Inl err)
  with convert_messages_error [of J msgs] show ?thesis
    by (simp add: buildAnthropicRequest_def flip: msgs_def)
next
  case (Inr p)
  obtain s ms where p: "p = (s, ms)" by (cases p)
  note split = convert_messages_Inr [OF Inr [unfolded p]]
  have "list_all2 (\<lambda>m am. convertMessage J m = Inr am \<and> am_Role am = (if msg_Role m = ''tool'' then ''user'' else msg_Role m))
      (filter (\<lambda>m. msg_Role m \<noteq> ''system'') msgs) ms"
    by (rule list_all2_mono [OF conjunct2 [OF split]]) (use convertMessage_role in blast)
  with Inr p split convert_messages_error [of J msgs] show ?thesis
    by (simp add: buildAnthropicRequest_def sys_def flip: msgs_def)
qed

section \<open>Streams and complete responses\<close>

text \<open>The events that Anthropic documents for a message, with the text and the input of a block in pieces.\<close>

datatype pieces = TextPieces "string list" | ToolPieces string string "string list"

record streamed_message =
  sgm_ID :: string
  sgm_Model :: string
  sgm_Blocks :: "pieces list"
  sgm_StopReason :: string
  sgm_OutputTokens :: int

definition delta_event :: "nat \<Rightarrow> (string \<times> json) list \<Rightarrow> string \<times> json" where
  "delta_event i delta = (''content_block_delta'',
     JObj [(''type'', JStr ''content_block_delta''), (''index'', JInt (int i)), (''delta'', JObj delta)])"

definition block_event :: "nat \<Rightarrow> (string \<times> json) list \<Rightarrow> string \<times> json" where
  "block_event i block = (''content_block_start'',
     JObj [(''type'', JStr ''content_block_start''), (''index'', JInt (int i)), (''content_block'', JObj block)])"

fun block_events :: "nat \<Rightarrow> pieces \<Rightarrow> (string \<times> json) list" where
  "block_events i (TextPieces ps) =
     [block_event i [(''type'', JStr ''text''), (''text'', JStr [])]] @
     map (\<lambda>p. delta_event i [(''type'', JStr ''text_delta''), (''text'', JStr p)]) ps @
     [(''content_block_stop'', JObj [(''type'', JStr ''content_block_stop''), (''index'', JInt (int i))])]"
| "block_events i (ToolPieces tid name ps) =
     [block_event i [(''type'', JStr ''tool_use''), (''id'', JStr tid), (''name'', JStr name), (''input'', JObj [])]] @
     map (\<lambda>p. delta_event i [(''type'', JStr ''input_json_delta''), (''partial_json'', JStr p)]) ps @
     [(''content_block_stop'', JObj [(''type'', JStr ''content_block_stop''), (''index'', JInt (int i))])]"

fun blocks_events :: "nat \<Rightarrow> pieces list \<Rightarrow> (string \<times> json) list" where
  "blocks_events i [] = []"
| "blocks_events i (b # bs) = block_events i b @ blocks_events (Suc i) bs"

definition message_events :: "streamed_message \<Rightarrow> (string \<times> json) list" where
  "message_events m =
     [(''message_start'', JObj [(''type'', JStr ''message_start''), (''message'', JObj [(''id'', JStr (sgm_ID m)),
        (''type'', JStr ''message''), (''role'', JStr ''assistant''), (''content'', JArr []), (''model'', JStr (sgm_Model m)),
        (''stop_reason'', JNull), (''stop_sequence'', JNull),
        (''usage'', JObj [(''input_tokens'', JInt 0), (''output_tokens'', JInt 1)])])])] @
     blocks_events 0 (sgm_Blocks m) @
     [(''message_delta'', JObj [(''type'', JStr ''message_delta''),
        (''delta'', JObj [(''stop_reason'', JStr (sgm_StopReason m)), (''stop_sequence'', JNull)]),
        (''usage'', JObj [(''output_tokens'', JInt (sgm_OutputTokens m))])]),
      (''message_stop'', JObj [(''type'', JStr ''message_stop'')])]"

text \<open>The text of one event, and the texts of a stream: the data of each decodes to the tree of its event.\<close>

definition event_chunk :: "string \<times> string \<Rightarrow> string" where
  "event_chunk = (\<lambda>(eventType, data). ''event: '' @ eventType @ newline # ''data: '' @ data)"

definition carries :: "json_text \<Rightarrow> string \<times> string \<Rightarrow> string \<times> json \<Rightarrow> bool" where
  "carries J = (\<lambda>(eventType, data) (et, j). eventType = et \<and> jt_Unmarshal J data = Some j \<and> trimmed data \<and> newline \<notin> set data)"

text \<open>What a client that follows the chat protocol collects from the chunks: the deltas of the content joined, and the
  argument fragments joined to the tool call that the last named fragment opened.\<close>

record collected =
  col_Text :: string
  col_Calls :: "(string \<times> string \<times> string) list"
  col_Finish :: "string option"

definition nothing_collected :: collected where
  "nothing_collected = \<lparr>col_Text = [], col_Calls = [], col_Finish = None\<rparr>"

definition collect_call :: "ToolCall \<Rightarrow> (string \<times> string \<times> string) list \<Rightarrow> (string \<times> string \<times> string) list" where
  "collect_call tc calls =
     (if tk_ID tc \<noteq> [] then calls @ [(tk_ID tc, fc_Name (tk_Function tc), fc_Arguments (tk_Function tc))]
      else if calls = [] then []
      else butlast calls @ [apsnd (apsnd (\<lambda>args. args @ fc_Arguments (tk_Function tc))) (last calls)])"

definition collect_delta :: "Message \<Rightarrow> string option \<Rightarrow> collected \<Rightarrow> collected" where
  "collect_delta d finish c = \<lparr>col_Text = col_Text c @ GetContentText d, col_Calls = fold collect_call (msg_ToolCalls d) (col_Calls c),
     col_Finish = (case finish of None \<Rightarrow> col_Finish c | Some f \<Rightarrow> Some f)\<rparr>"

definition collect_choice :: "Choice \<Rightarrow> collected \<Rightarrow> collected" where
  "collect_choice ch c = (case co_Delta ch of None \<Rightarrow> c | Some d \<Rightarrow> collect_delta d (co_FinishReason ch) c)"

definition collect_chunk :: "StreamChunk \<Rightarrow> collected \<Rightarrow> collected" where
  "collect_chunk chunk c = (case cr_Choices chunk of None \<Rightarrow> c | Some cs \<Rightarrow> fold collect_choice cs c)"

text \<open>The translation of a whole stream: it ends at the end-of-stream event, and skips what it cannot parse.\<close>

fun translate_all :: "json_text \<Rightarrow> string list \<Rightarrow> AnthropicStreamTranslator \<Rightarrow> StreamChunk list \<times> bool" where
  "translate_all J [] t = ([], False)"
| "translate_all J (c # cs) t =
     (case TranslateEvent J c t of
        (Inl StreamEOF, t') \<Rightarrow> ([], True)
      | (Inl (StreamErr e), t') \<Rightarrow> translate_all J cs t'
      | (Inr chunks, t') \<Rightarrow> apfst (\<lambda>rest. chunks @ rest) (translate_all J cs t'))"

lemma split_lines_newline [simp]: "newline \<notin> set a \<Longrightarrow> split_lines (a @ newline # b) = a # split_lines b"
  by (induction a) auto

lemma split_lines_single [simp]: "newline \<notin> set a \<Longrightarrow> split_lines a = [a]"
  by (induction a) auto

lemma trimmed_tagged: "trimmed s \<Longrightarrow> trimmed (''event: '' @ s)" "trimmed s \<Longrightarrow> trimmed (''data: '' @ s)"
  by (simp_all add: trimmed_def is_space_def)

lemma event_line_event: "trimmed s \<Longrightarrow> event_line (''event: '' @ s) (et, d) = (s, d)"
  unfolding event_line_def using TrimSpace_id [OF trimmed_tagged(1)] by (simp del: append.simps)

lemma event_line_data: "trimmed s \<Longrightarrow> event_line (''data: '' @ s) (et, d) = (et, s)"
proof -
  assume "trimmed s"
  then have t: "strings_TrimSpace (''data: '' @ s) = ''data: '' @ s" by (rule TrimSpace_id [OF trimmed_tagged(2)])
  have "\<not> strings_HasPrefix (''data: '' @ s) ''event: ''" by (simp add: strings_HasPrefix_def)
  then show ?thesis unfolding event_line_def using t by (simp del: append.simps)
qed

lemma event_chunk_lines:
  assumes "trimmed et" "newline \<notin> set et" "trimmed d" "newline \<notin> set d"
  shows "fold event_line (split_lines (event_chunk (et, d))) ([], []) = (et, d)"
proof -
  have "event_chunk (et, d) = (''event: '' @ et) @ newline # ''data: '' @ d" by (simp add: event_chunk_def)
  then have "split_lines (event_chunk (et, d)) = [''event: '' @ et, ''data: '' @ d]"
    using assms by simp
  then show ?thesis using assms by (simp add: event_line_event event_line_data del: append.simps)
qed

definition collected_of :: "json_text \<Rightarrow> string list \<Rightarrow> AnthropicStreamTranslator \<Rightarrow> collected \<Rightarrow> collected \<times> bool" where
  "collected_of J cs t c = (fold collect_chunk (fst (translate_all J cs t)) c, snd (translate_all J cs t))"

lemma collected_step:
  "TranslateEvent J x t = (Inr chunks, t') \<Longrightarrow> collected_of J (x # cs) t c = collected_of J cs t' (fold collect_chunk chunks c)"
  by (simp add: collected_of_def)

lemma collected_eof: "TranslateEvent J x t = (Inl StreamEOF, t') \<Longrightarrow> collected_of J (x # cs) t c = (c, True)"
  by (simp add: collected_of_def)

lemma collect_delta_chunk [simp]: "collect_chunk (delta_chunk t d finish) c = collect_delta d finish c"
  by (simp add: collect_chunk_def delta_chunk_def collect_choice_def)

lemma carries_chunk:
  assumes "carries J ev (et, j)" "trimmed et" "newline \<notin> set et"
  obtains d where "ev = (et, d)" "jt_Unmarshal J d = Some j" "d \<noteq> []"
    "fold event_line (split_lines (event_chunk ev)) ([], []) = (et, d)"
proof -
  obtain d where d: "ev = (et, d)" "jt_Unmarshal J d = Some j" "trimmed d" "newline \<notin> set d"
    using assms(1) by (cases ev) (auto simp: carries_def)
  then have "d \<noteq> []" by (simp add: trimmed_def)
  with d event_chunk_lines [OF assms(2,3) d(3,4)] show thesis by (intro that) simp_all
qed

lemma event_names [simp]:
  "trimmed ''message_start''" "trimmed ''content_block_start''" "trimmed ''content_block_delta''"
  "trimmed ''content_block_stop''" "trimmed ''message_delta''" "trimmed ''message_stop''"
  by (simp_all add: trimmed_def is_space_def)

lemma translate_text_delta:
  assumes "carries J ev (delta_event i [(''type'', JStr ''text_delta''), (''text'', JStr p)])" "int64_range (int i)"
  shows "collected_of J (event_chunk ev # cs) t c = collected_of J cs t (c\<lparr>col_Text := col_Text c @ p\<rparr>)"
proof -
  obtain d where d: "jt_Unmarshal J d = Some (snd (delta_event i [(''type'', JStr ''text_delta''), (''text'', JStr p)]))" "d \<noteq> []"
    "fold event_line (split_lines (event_chunk ev)) ([], []) = (''content_block_delta'', d)"
    using carries_chunk [of J ev "''content_block_delta''"] assms(1) by (auto simp: delta_event_def)
  have "TranslateEvent J (event_chunk ev) t = (Inr [delta_chunk t (zero_Message\<lparr>msg_Content := JStr p\<rparr>) None], t)"
    using assms(2) by (simp add: TranslateEvent_def d handleContentBlockDelta_def unmarshal_def delta_event_def fld_def un_int_def un_str_def)
  from collected_step [OF this, of cs c] show ?thesis
    by (cases c) (simp add: collect_delta_def GetContentText_def zero_Message_def)
qed

lemma translate_input_delta:
  assumes "carries J ev (delta_event i [(''type'', JStr ''input_json_delta''), (''partial_json'', JStr p)])" "int64_range (int i)"
    and "col_Calls c = calls @ [(tid, name, args)]"
  shows "collected_of J (event_chunk ev # cs) t c = collected_of J cs t (c\<lparr>col_Calls := calls @ [(tid, name, args @ p)]\<rparr>)"
proof -
  obtain d where d: "jt_Unmarshal J d = Some (snd (delta_event i [(''type'', JStr ''input_json_delta''), (''partial_json'', JStr p)]))"
    "d \<noteq> []" "fold event_line (split_lines (event_chunk ev)) ([], []) = (''content_block_delta'', d)"
    using carries_chunk [of J ev "''content_block_delta''"] assms(1) by (auto simp: delta_event_def)
  have "TranslateEvent J (event_chunk ev) t = (Inr [delta_chunk t (zero_Message\<lparr>msg_ToolCalls := [\<lparr>tk_ID = [], tk_Type = [],
                  tk_Function = \<lparr>fc_Name = [], fc_Arguments = p\<rparr>\<rparr>]\<rparr>) None], t)"
    using assms(2) by (simp add: TranslateEvent_def d handleContentBlockDelta_def unmarshal_def delta_event_def fld_def un_int_def un_str_def)
  from collected_step [OF this, of cs c] assms(3) show ?thesis
    by (cases c) (simp add: collect_delta_def collect_call_def GetContentText_def zero_Message_def)
qed

lemma translate_text_start:
  assumes "carries J ev (block_event i [(''type'', JStr ''text''), (''text'', JStr [])])" "int64_range (int i)"
  shows "collected_of J (event_chunk ev # cs) t c = collected_of J cs t c"
proof -
  obtain d where d: "jt_Unmarshal J d = Some (snd (block_event i [(''type'', JStr ''text''), (''text'', JStr [])]))"
    "d \<noteq> []" "fold event_line (split_lines (event_chunk ev)) ([], []) = (''content_block_start'', d)"
    using carries_chunk [of J ev "''content_block_start''"] assms(1) by (auto simp: block_event_def)
  have "TranslateEvent J (event_chunk ev) t = (Inr [], t)"
    using assms(2) by (simp add: TranslateEvent_def d handleContentBlockStart_def unmarshal_def block_event_def fld_def un_int_def un_str_def)
  from collected_step [OF this] show ?thesis by simp
qed

lemma translate_tool_start:
  assumes "carries J ev (block_event i [(''type'', JStr ''tool_use''), (''id'', JStr tid), (''name'', JStr name), (''input'', JObj [])])"
    and "int64_range (int i)" "tid \<noteq> []"
  shows "\<exists>t'. collected_of J (event_chunk ev # cs) t c = collected_of J cs t' (c\<lparr>col_Calls := col_Calls c @ [(tid, name, [])]\<rparr>)"
proof -
  obtain d where d: "jt_Unmarshal J d =
        Some (snd (block_event i [(''type'', JStr ''tool_use''), (''id'', JStr tid), (''name'', JStr name), (''input'', JObj [])]))"
    "d \<noteq> []" "fold event_line (split_lines (event_chunk ev)) ([], []) = (''content_block_start'', d)"
    using carries_chunk [of J ev "''content_block_start''"] assms(1) by (auto simp: block_event_def)
  have "TranslateEvent J (event_chunk ev) t = (Inr [delta_chunk t (zero_Message\<lparr>msg_ToolCalls := [\<lparr>tk_ID = tid,
      tk_Type = ''function'', tk_Function = \<lparr>fc_Name = name, fc_Arguments = []\<rparr>\<rparr>]\<rparr>) None], t\<lparr>ast_toolCallIndex := int i\<rparr>)"
    using assms(2) by (simp add: TranslateEvent_def d handleContentBlockStart_def unmarshal_def block_event_def fld_def un_int_def un_str_def)
  from collected_step [OF this, of cs c] assms(3) show ?thesis
    by (intro exI) (cases c, simp add: collect_delta_def collect_call_def GetContentText_def zero_Message_def)
qed

lemma translate_block_stop:
  assumes "carries J ev (''content_block_stop'', j)"
  shows "\<exists>t'. collected_of J (event_chunk ev # cs) t c = collected_of J cs t' c"
proof -
  obtain d where d: "d \<noteq> []" "fold event_line (split_lines (event_chunk ev)) ([], []) = (''content_block_stop'', d)"
    using carries_chunk [of J ev "''content_block_stop''"] assms(1) by auto
  have "TranslateEvent J (event_chunk ev) t = (Inr [], t\<lparr>ast_contentBlockIndex := wrap64 (ast_contentBlockIndex t + 1)\<rparr>)"
    by (simp add: TranslateEvent_def d)
  from collected_step [OF this] show ?thesis by auto
qed

fun add_block :: "pieces \<Rightarrow> collected \<Rightarrow> collected" where
  "add_block (TextPieces ps) c = c\<lparr>col_Text := col_Text c @ concat ps\<rparr>"
| "add_block (ToolPieces tid name ps) c = c\<lparr>col_Calls := col_Calls c @ [(tid, name, concat ps)]\<rparr>"

lemma translate_text_deltas:
  assumes "list_all2 (carries J) evs (map (\<lambda>p. delta_event i [(''type'', JStr ''text_delta''), (''text'', JStr p)]) ps)"
    and "int64_range (int i)"
  shows "collected_of J (map event_chunk evs @ cs) t c = collected_of J cs t (c\<lparr>col_Text := col_Text c @ concat ps\<rparr>)"
  using assms(1)
proof (induction ps arbitrary: evs c)
  case (Cons p ps)
  then obtain ev evs' where "evs = ev # evs'" by (auto simp: list_all2_Cons2)
  with Cons show ?case
    using translate_text_delta [of J ev i p "map event_chunk evs' @ cs" t c] assms(2) by simp
qed simp

lemma translate_input_deltas:
  assumes "list_all2 (carries J) evs
      (map (\<lambda>p. delta_event i [(''type'', JStr ''input_json_delta''), (''partial_json'', JStr p)]) ps)"
    and "int64_range (int i)" "col_Calls c = calls @ [(tid, name, args)]"
  shows "collected_of J (map event_chunk evs @ cs) t c = collected_of J cs t (c\<lparr>col_Calls := calls @ [(tid, name, args @ concat ps)]\<rparr>)"
  using assms(1,3)
proof (induction ps arbitrary: evs c args)
  case Nil
  then show ?case by (cases c) simp
next
  case (Cons p ps)
  then obtain ev evs' where "evs = ev # evs'" by (auto simp: list_all2_Cons2)
  with Cons show ?case
    using translate_input_delta [of J ev i p c calls tid name args "map event_chunk evs' @ cs" t] assms(2) by simp
qed

fun named :: "pieces \<Rightarrow> bool" where
  "named (TextPieces ps) = True"
| "named (ToolPieces tid name ps) = (tid \<noteq> [])"

lemma translate_block:
  assumes "list_all2 (carries J) evs (block_events i b)" "int64_range (int i)" "named b"
  shows "\<exists>t'. collected_of J (map event_chunk evs @ cs) t c = collected_of J cs t' (add_block b c)"
proof -
  have stop: "\<exists>t'. X = collected_of J cs t' c'"
    if "carries J e2 (''content_block_stop'', j)" "X = collected_of J (event_chunk e2 # cs) t1 c'" for e2 j X t1 c'
    using translate_block_stop [OF that(1), of cs t1 c'] that(2) by auto
  show ?thesis
  proof (cases b)
    case (TextPieces ps)
    then obtain e0 evs1 e2 where e: "evs = e0 # evs1 @ [e2]"
      "carries J e0 (block_event i [(''type'', JStr ''text''), (''text'', JStr [])])"
      "list_all2 (carries J) evs1 (map (\<lambda>p. delta_event i [(''type'', JStr ''text_delta''), (''text'', JStr p)]) ps)"
      "carries J e2 (''content_block_stop'', JObj [(''type'', JStr ''content_block_stop''), (''index'', JInt (int i))])"
      using assms(1) by (auto simp: list_all2_append2 list_all2_Cons2)
    show ?thesis
      by (rule stop [OF e(4), of _ t])
        (simp add: e(1) TextPieces translate_text_start [OF e(2) assms(2)] translate_text_deltas [OF e(3) assms(2)])
  next
    case (ToolPieces tid name ps)
    then obtain e0 evs1 e2 where e: "evs = e0 # evs1 @ [e2]"
      "carries J e0 (block_event i [(''type'', JStr ''tool_use''), (''id'', JStr tid), (''name'', JStr name), (''input'', JObj [])])"
      "list_all2 (carries J) evs1
        (map (\<lambda>p. delta_event i [(''type'', JStr ''input_json_delta''), (''partial_json'', JStr p)]) ps)"
      "carries J e2 (''content_block_stop'', JObj [(''type'', JStr ''content_block_stop''), (''index'', JInt (int i))])"
      using assms(1) by (auto simp: list_all2_append2 list_all2_Cons2)
    have "tid \<noteq> []" using assms(3) ToolPieces by simp
    then obtain t1 where t1: "collected_of J (event_chunk e0 # map event_chunk evs1 @ event_chunk e2 # cs) t c =
        collected_of J (map event_chunk evs1 @ event_chunk e2 # cs) t1 (c\<lparr>col_Calls := col_Calls c @ [(tid, name, [])]\<rparr>)"
      using translate_tool_start [OF e(2) assms(2)] by blast
    show ?thesis
      by (rule stop [OF e(4), of _ t1]) (simp add: e(1) ToolPieces t1 translate_input_deltas [OF e(3) assms(2), of _ "col_Calls c" tid name "[]"])
  qed
qed

lemma translate_blocks:
  assumes "list_all2 (carries J) evs (blocks_events i bs)" "int64_range (int (i + length bs))" "list_all named bs"
  shows "\<exists>t'. collected_of J (map event_chunk evs @ cs) t c = collected_of J cs t' (fold add_block bs c)"
  using assms
proof (induction bs arbitrary: i evs t c)
  case Nil
  then show ?case by auto
next
  case (Cons b bs)
  then obtain e1 e2 where e: "evs = e1 @ e2" "list_all2 (carries J) e1 (block_events i b)"
    "list_all2 (carries J) e2 (blocks_events (Suc i) bs)" by (auto simp: list_all2_append2)
  have "int64_range (int i)" "int64_range (int (Suc i + length bs))" using Cons.prems(2) by (simp_all add: int64_range_def)
  then obtain t1 where "collected_of J (map event_chunk evs @ cs) t c =
      collected_of J (map event_chunk e2 @ cs) t1 (add_block b c)"
    using translate_block [OF e(2)] Cons.prems(3) e(1) by fastforce
  with Cons.IH [OF e(3)] \<open>int64_range (int (Suc i + length bs))\<close> Cons.prems(3) show ?case by fastforce
qed

text \<open>The complete response that consists of the same blocks; a tool call without input has the empty object there.\<close>

fun assembled :: "json_text \<Rightarrow> pieces \<Rightarrow> block" where
  "assembled J (TextPieces ps) = Text (concat ps)"
| "assembled J (ToolPieces tid name ps) =
     ToolUse tid name (if concat ps = [] then JObj []
       else case jt_Unmarshal J (concat ps) of None \<Rightarrow> JNull | Some j \<Rightarrow> j)"

definition complete :: "json_text \<Rightarrow> streamed_message \<Rightarrow> anthropicResponse" where
  "complete J m = \<lparr>ap_ID = sgm_ID m, ap_Content = map content_of (map (assembled J) (sgm_Blocks m)), ap_Model = sgm_Model m,
     ap_StopReason = sgm_StopReason m, ap_Usage = \<lparr>au_InputTokens = 0, au_OutputTokens = sgm_OutputTokens m\<rparr>\<rparr>"

text \<open>The pieces of an input make up a JSON text, which is read as it is printed, or nothing at all.\<close>

fun well_formed :: "json_text \<Rightarrow> pieces \<Rightarrow> bool" where
  "well_formed J (TextPieces ps) = True"
| "well_formed J (ToolPieces tid name ps) =
     (tid \<noteq> [] \<and> (concat ps = [] \<or>
       (case jt_Unmarshal J (concat ps) of None \<Rightarrow> False | Some j \<Rightarrow> jt_Unmarshal J (jt_Marshal J j) = Some j)))"

definition same_call :: "json_text \<Rightarrow> ToolCall \<Rightarrow> string \<times> string \<times> string \<Rightarrow> bool" where
  "same_call J tc = (\<lambda>(tid, name, args). tk_ID tc = tid \<and> fc_Name (tk_Function tc) = name \<and>
     (if args = [] then fc_Arguments (tk_Function tc) = jt_Marshal J (JObj [])
      else jt_Unmarshal J args \<noteq> None \<and> jt_Unmarshal J args = jt_Unmarshal J (fc_Arguments (tk_Function tc))))"

lemma fold_add_block:
  assumes "list_all (well_formed J) bs"
  shows "col_Text (fold add_block bs c) = col_Text c @ text_of (map content_of (map (assembled J) bs)) \<and>
    (\<exists>calls. col_Calls (fold add_block bs c) = col_Calls c @ calls \<and>
      list_all2 (same_call J) (calls_of J (map content_of (map (assembled J) bs))) calls) \<and>
    col_Finish (fold add_block bs c) = col_Finish c"
  using assms
proof (induction bs arbitrary: c)
  case Nil
  then show ?case by (simp add: text_of_def calls_of_def)
next
  case (Cons b bs)
  have bs: "list_all (well_formed J) bs" and b: "well_formed J b" using Cons.prems by simp_all
  show ?case
  proof (cases b)
    case (TextPieces ps)
    with Cons.IH [OF bs, of "add_block b c"] show ?thesis
      by (auto simp: text_of_def calls_of_def text_block_def zero_content_def)
  next
    case (ToolPieces tid name ps)
    obtain j where j: "assembled J b = ToolUse tid name j"
      "if concat ps = [] then j = JObj [] else jt_Unmarshal J (concat ps) = Some j \<and> jt_Unmarshal J (jt_Marshal J j) = Some j"
      using b ToolPieces by (cases "concat ps = []") (auto split: option.splits)
    obtain calls where calls: "col_Calls (fold add_block bs (add_block b c)) = col_Calls (add_block b c) @ calls"
      "list_all2 (same_call J) (calls_of J (map content_of (map (assembled J) bs))) calls"
      using Cons.IH [OF bs, of "add_block b c"] by blast
    have call: "same_call J \<lparr>tk_ID = tid, tk_Type = ''function'', tk_Function = \<lparr>fc_Name = name, fc_Arguments = jt_Marshal J j\<rparr>\<rparr>
        (tid, name, concat ps)" using j(2) by (simp add: same_call_def split: if_splits)
    have head: "calls_of J (map content_of (map (assembled J) (b # bs))) =
        \<lparr>tk_ID = tid, tk_Type = ''function'', tk_Function = \<lparr>fc_Name = name, fc_Arguments = jt_Marshal J j\<rparr>\<rparr> #
        calls_of J (map content_of (map (assembled J) bs))"
      using j(1) by (simp add: calls_of_def tool_block_def zero_content_def)
    have "col_Calls (fold add_block (b # bs) c) = col_Calls c @ (tid, name, concat ps) # calls"
      using calls(1) ToolPieces by simp
    with Cons.IH [OF bs, of "add_block b c"] calls(2) call show ?thesis
      unfolding head by (simp add: ToolPieces j(1) [unfolded ToolPieces] text_of_def tool_block_def zero_content_def)
  qed
qed

lemma translate_start:
  assumes "carries J ev (hd (message_events m))"
  shows "\<exists>t'. collected_of J (event_chunk ev # cs) t nothing_collected = collected_of J cs t' nothing_collected"
proof -
  obtain d where d: "jt_Unmarshal J d = Some (snd (hd (message_events m)))" "d \<noteq> []"
    "fold event_line (split_lines (event_chunk ev)) ([], []) = (''message_start'', d)"
    using carries_chunk [of J ev "''message_start''"] assms(1) by (auto simp: message_events_def)
  let ?t = "t\<lparr>ast_messageID := sgm_ID m, ast_model := sgm_Model m\<rparr>"
  have "TranslateEvent J (event_chunk ev) t = (Inr [delta_chunk ?t (zero_Message\<lparr>msg_Role := ''assistant''\<rparr>) None], ?t)"
    by (simp add: TranslateEvent_def d handleMessageStart_def unmarshal_def message_events_def fld_def un_str_def Let_def)
  from collected_step [OF this, of cs nothing_collected] show ?thesis
    by (auto simp: collect_delta_def GetContentText_def zero_Message_def nothing_collected_def)
qed

lemma translate_end:
  assumes "list_all2 (carries J) evs (drop (length (message_events m) - 2) (message_events m))"
    and "int64_range (sgm_OutputTokens m)"
  shows "collected_of J (map event_chunk evs) t c = (c\<lparr>col_Finish := Some (mapStopReason (sgm_StopReason m))\<rparr>, True)"
proof -
  obtain e1 e2 where e: "evs = [e1, e2]"
    "carries J e1 (''message_delta'', JObj [(''type'', JStr ''message_delta''),
        (''delta'', JObj [(''stop_reason'', JStr (sgm_StopReason m)), (''stop_sequence'', JNull)]),
        (''usage'', JObj [(''output_tokens'', JInt (sgm_OutputTokens m))])])"
    "carries J e2 (''message_stop'', JObj [(''type'', JStr ''message_stop'')])"
    using assms(1) by (auto simp: message_events_def list_all2_Cons2)
  obtain d1 where d1: "jt_Unmarshal J d1 = Some (JObj [(''type'', JStr ''message_delta''),
        (''delta'', JObj [(''stop_reason'', JStr (sgm_StopReason m)), (''stop_sequence'', JNull)]),
        (''usage'', JObj [(''output_tokens'', JInt (sgm_OutputTokens m))])])" "d1 \<noteq> []"
    "fold event_line (split_lines (event_chunk e1)) ([], []) = (''message_delta'', d1)"
    using carries_chunk [OF e(2)] by auto
  obtain d2 where d2: "d2 \<noteq> []" "fold event_line (split_lines (event_chunk e2)) ([], []) = (''message_stop'', d2)"
    using carries_chunk [OF e(3)] by auto
  have "TranslateEvent J (event_chunk e1) t = (Inr [delta_chunk t zero_Message (Some (mapStopReason (sgm_StopReason m)))], t)"
    using assms(2) by (simp add: TranslateEvent_def d1 handleMessageDelta_def unmarshal_def fld_def un_str_def un_int_def)
  moreover have "TranslateEvent J (event_chunk e2) t = (Inl StreamEOF, t)" by (simp add: TranslateEvent_def d2)
  ultimately show ?thesis
    by (cases c) (simp add: e(1) collected_step collected_eof collect_delta_def GetContentText_def zero_Message_def)
qed

text \<open>C38: streaming and complete responses agree: when the events that Anthropic documents for a message, with texts and
  tool inputs in any pieces, go through the stream translator one event per chunk, then a client that joins the deltas
  gets the text, the tool calls and the finish reason that the translation of the complete response has in its one choice,
  and the stream ends with the end-of-stream mark. The arguments of a call are the same JSON, with one exception: a call
  without input has the empty object in the complete response, but the empty string, which is no JSON, in the
  stream.\<close>

theorem streaming_equals_complete:
  assumes "list_all2 (carries J) evs (message_events m)" and "list_all (well_formed J) (sgm_Blocks m)"
    and "int64_range (int (length (sgm_Blocks m)))" "int64_range (sgm_OutputTokens m)"
  shows "\<exists>ch r c. cr_Choices (convertResponse J now (complete J m)) = Some [ch] \<and> co_Message ch = Some r \<and>
    collected_of J (map event_chunk evs) (NewAnthropicStreamTranslator now') nothing_collected = (c, True) \<and>
    msg_Content r = JStr (col_Text c) \<and> list_all2 (same_call J) (msg_ToolCalls r) (col_Calls c) \<and>
    co_FinishReason ch = col_Finish c \<and> col_Finish c = Some (mapStopReason (sgm_StopReason m))"
proof -
  let ?bs = "blocks_events 0 (sgm_Blocks m)"
  let ?tail = "drop (length (message_events m) - 2) (message_events m)"
  have split: "message_events m = hd (message_events m) # ?bs @ ?tail" by (simp add: message_events_def)
  obtain e0 e1 e2 where e: "evs = e0 # e1 @ e2" "carries J e0 (hd (message_events m))" "list_all2 (carries J) e1 ?bs"
    "list_all2 (carries J) e2 ?tail"
    using back_subst [of "list_all2 (carries J) evs", OF assms(1) split] by (auto simp: list_all2_append2 list_all2_Cons2)
  have "list_all named (sgm_Blocks m)"
    using assms(2) by (rule list.pred_mono_strong) (rename_tac b, case_tac b, simp_all)
  then obtain t1 where t1: "collected_of J (map event_chunk evs) (NewAnthropicStreamTranslator now') nothing_collected =
      collected_of J (map event_chunk e2) t1 (fold add_block (sgm_Blocks m) nothing_collected)"
    using translate_start [OF e(2), of "map event_chunk (e1 @ e2)" "NewAnthropicStreamTranslator now'"]
      translate_blocks [OF e(3)] assms(3) e(1) by fastforce
  let ?c = "(fold add_block (sgm_Blocks m) nothing_collected)\<lparr>col_Finish := Some (mapStopReason (sgm_StopReason m))\<rparr>"
  have "collected_of J (map event_chunk evs) (NewAnthropicStreamTranslator now') nothing_collected = (?c, True)"
    unfolding t1 by (rule translate_end [OF e(4) assms(4)])
  then show ?thesis
    using fold_add_block [OF assms(2), of nothing_collected]
    by (auto simp: convertResponse_def complete_def Let_def zero_Message_def nothing_collected_def)
qed

definition demo_message :: streamed_message where
  "demo_message = \<lparr>sgm_ID = ''m1'', sgm_Model = ''claude'', sgm_Blocks = [TextPieces [''He'', ''llo''], ToolPieces ''t1'' ''now'' [''{'', ''}'']],
     sgm_StopReason = ''tool_use'', sgm_OutputTokens = 5\<rparr>"

definition demo_datas :: "string list" where
  "demo_datas = [''a'', ''b'', ''c'', ''d'', ''e'', ''f'', ''g'', ''h'', ''i'', ''j'', ''k'']"

definition demo_stream :: "(string \<times> string) list" where
  "demo_stream = zip (map fst (message_events demo_message)) demo_datas"

definition demo_stream_text :: json_text where
  "demo_stream_text = demo_text\<lparr>jt_Unmarshal := (\<lambda>s. if s = ''{}'' then Some (JObj [])
     else map_of (zip demo_datas (map snd (message_events demo_message))) s)\<rparr>"

lemma demo_stream_carries: "list_all2 (carries demo_stream_text) demo_stream (message_events demo_message)"
proof -
  have data: "trimmed d \<and> newline \<notin> set d" if "d \<in> set demo_datas" for d
    using that by (auto simp: demo_datas_def trimmed_def is_space_def)
  have len: "length demo_datas = length (message_events demo_message)"
    by (simp add: demo_datas_def message_events_def demo_message_def)
  have "distinct demo_datas" "''{}'' \<notin> set demo_datas" by (simp_all add: demo_datas_def)
  then have "carries demo_stream_text (demo_stream ! i) (message_events demo_message ! i)"
    if "i < length (message_events demo_message)" for i
  proof -
    have "demo_datas ! i \<in> set demo_datas" using that len by simp
    with \<open>''{}'' \<notin> set demo_datas\<close> have "demo_datas ! i \<noteq> ''{}''" by metis
    with that len data [OF nth_mem, of i] \<open>distinct demo_datas\<close> show ?thesis
      by (auto simp: carries_def demo_stream_def demo_stream_text_def case_prod_unfold map_of_zip_nth)
  qed
  then show ?thesis using len by (simp add: list_all2_conv_all_nth demo_stream_def)
qed

theorem streaming_equals_complete_witness:
  "\<exists>ch c. cr_Choices (convertResponse demo_stream_text 0 (complete demo_stream_text demo_message)) = Some [ch] \<and>
    collected_of demo_stream_text (map event_chunk demo_stream) (NewAnthropicStreamTranslator 0) nothing_collected = (c, True) \<and>
    map_option msg_Content (co_Message ch) = Some (JStr (col_Text c)) \<and> co_FinishReason ch = Some (mapStopReason ''tool_use'')"
  using streaming_equals_complete [OF demo_stream_carries, of 0 0]
  by (fastforce simp: demo_message_def demo_stream_text_def demo_text_def int64_range_def)

section \<open>One line at a time\<close>

text \<open>The smart router's stream loop passes each line of the stream on its own to the translator.\<close>

lemma event_line_parts:
  "fst (event_line l (et, d)) = et \<or> snd (event_line l (et, d)) = d"
  by (simp add: event_line_def Let_def)

lemma single_lines_are_lost_eq:
  assumes "newline \<notin> set line"
  shows "TranslateEvent J line t = (Inr [], t)"
proof -
  have "fold event_line (split_lines line) ([], []) = event_line line ([], [])" using assms by simp
  with event_line_parts [of line "[]" "[]"] show ?thesis
    by (cases "event_line line ([], [])") (auto simp: TranslateEvent_def)
qed

text \<open>The translator yields nothing for a chunk that is a single line, whatever the line is and whatever came before:
  no chat chunk, no error, no end-of-stream mark, and no change of its state.\<close>

theorem single_lines_are_lost:
  assumes "newline \<notin> set line"
  shows "TranslateEvent J line t = (Inr [], t)"
  using assms by (rule single_lines_are_lost_eq)

theorem single_lines_are_lost_witness:
  "TranslateEvent demo_stream_text ''data: b'' (NewAnthropicStreamTranslator 0) = (Inr [], NewAnthropicStreamTranslator 0)"
  by (rule single_lines_are_lost) simp

end
