(* ===== verification/Compat.thy ===== *)
theory Compat
  imports Anthropic
begin

text \<open>
  The adapters of the providers that speak the OpenAI format themselves: OpenAI (\<open>provider/openai.go\<close>), Mistral
  (\<open>mistral.go\<close>) and DeepSeek (\<open>deepseek.go\<close>).
\<close>

section \<open>OpenAI\<close>

definition openAIBaseURL :: string where "openAIBaseURL = ''https://api.openai.com/v1/chat/completions''"
definition mistralBaseURL :: string where "mistralBaseURL = ''https://api.mistral.ai/v1/chat/completions''"
definition deepseekBaseURL :: string where "deepseekBaseURL = ''https://api.deepseek.com/v1/chat/completions''"

definition bearer_headers :: "string \<Rightarrow> (string \<times> string) list" where
  "bearer_headers apiKey = [(''Content-Type'', ''application/json''), (''Authorization'', ''Bearer '' @ apiKey)]"

text \<open>The adapter has an organization, which is empty for the registered one.\<close>

definition OpenAI_TransformRequest :: "json_text \<Rightarrow> string \<Rightarrow> ChatCompletionRequest \<Rightarrow> string \<Rightarrow> (string, http_request) result" where
  "OpenAI_TransformRequest J organization req apiKey =
     Inr \<lparr>hq_URL = openAIBaseURL,
       hq_Header = bearer_headers apiKey @ (if organization \<noteq> [] then [(''OpenAI-Organization'', organization)] else []),
       hq_Body = jt_Marshal J (json_ChatCompletionRequest req)\<rparr>"

definition chat_response :: "json_text \<Rightarrow> string \<Rightarrow> http_response \<Rightarrow> (string, ChatCompletionResponse) result" where
  "chat_response J name resp =
     (case hp_Body resp of
        None \<Rightarrow> Inl ''read response: unexpected EOF''
      | Some body \<Rightarrow>
          if hp_Status resp \<noteq> 200
          then Inl (name @ '' error (status '' @ show_int (hp_Status resp) @ ''): '' @ body)
          else (case unmarshal J un_ChatCompletionResponse zero_Response body of
                  None \<Rightarrow> Inl ''unmarshal response''
                | Some result \<Rightarrow> Inr result))"

definition OpenAI_TransformResponse :: "json_text \<Rightarrow> http_response \<Rightarrow> (string, ChatCompletionResponse) result" where
  "OpenAI_TransformResponse J = chat_response J ''openai''"

text \<open>The data of a stream line: nothing for comments, blank lines and other fields.\<close>

datatype stream_line = NoData | Done | Data string

definition line_data :: "string \<Rightarrow> stream_line" where
  "line_data chunk =
     (let line = strings_TrimSpace chunk
      in if line = [] \<or> strings_HasPrefix line '':'' then NoData
         else if \<not> strings_HasPrefix line ''data: '' then NoData
         else let data = strings_TrimPrefix line ''data: ''
              in if data = ''[DONE]'' then Done else Data data)"

definition OpenAI_TransformStreamChunk :: "json_text \<Rightarrow> string \<Rightarrow> (stream_error, StreamChunk list) result" where
  "OpenAI_TransformStreamChunk J chunk =
     (case line_data chunk of
        NoData \<Rightarrow> Inr []
      | Done \<Rightarrow> Inl StreamEOF
      | Data data \<Rightarrow>
          (case unmarshal J un_ChatCompletionResponse zero_Response data of
             None \<Rightarrow> Inl (StreamErr ''unmarshal chunk'')
           | Some sc \<Rightarrow> Inr [sc]))"

definition OpenAI_ExtractRateLimitInfo :: "(string \<times> string) list \<Rightarrow> RateLimitInfo option" where
  "OpenAI_ExtractRateLimitInfo hs = extract_info
     (header_int hs ''x-ratelimit-remaining-requests'') (header_int hs ''x-ratelimit-remaining-tokens'')
     (header_int hs ''x-ratelimit-limit-requests'') (header_int hs ''x-ratelimit-limit-tokens'')
     (header_time hs ''x-ratelimit-reset-requests'') (header_time hs ''x-ratelimit-reset-tokens'')"

definition OpenAI_ExtractUsage :: "json_text \<Rightarrow> string \<Rightarrow> Usage option" where
  "OpenAI_ExtractUsage J body =
     (case unmarshal J (un_struct [(''usage'', un_ptr zero_Usage un_Usage)]) None body of None \<Rightarrow> None | Some u \<Rightarrow> u)"

section \<open>Mistral\<close>

text \<open>\<open>mistralRequest\<close> is the chat request without the fields that Mistral does not know; it is encoded from the chat
  request with the tool choice converted.\<close>

definition Mistral_convertToolChoice :: "json \<Rightarrow> json" where
  "Mistral_convertToolChoice tc =
     (case tc of
        JStr v \<Rightarrow>
          if v = ''auto'' \<or> v = ''none'' then JStr v
          else if v = ''required'' then JStr ''any''
          else JStr ''auto''
      | JObj v \<Rightarrow> JObj v
      | _ \<Rightarrow> JNull)"

definition json_mistralRequest :: "ChatCompletionRequest \<Rightarrow> json" where
  "json_mistralRequest r = JObj
     (always ''model'' (JStr (rq_Model r)) @
      always ''messages'' (json_slice json_Message (rq_Messages r)) @
      omitempty (rq_Tools r = []) ''tools'' (json_list json_Tool (rq_Tools r)) @
      omitempty (Mistral_convertToolChoice (rq_ToolChoice r) = JNull) ''tool_choice'' (Mistral_convertToolChoice (rq_ToolChoice r)) @
      omitempty (\<not> rq_Stream r) ''stream'' (JBool (rq_Stream r)) @
      omitempty (rq_Temperature r = None) ''temperature'' (json_ptr json_float (rq_Temperature r)) @
      omitempty (rq_TopP r = None) ''top_p'' (json_ptr json_float (rq_TopP r)) @
      omitempty (rq_MaxTokens r = None) ''max_tokens'' (json_ptr JInt (rq_MaxTokens r)) @
      omitempty (rq_Stop r = JNull) ''stop'' (rq_Stop r) @
      omitempty (rq_N r = None) ''n'' (json_ptr JInt (rq_N r)) @
      omitempty (rq_ResponseFormat r = JNull \<or> rq_ResponseFormat r = JObj []) ''response_format'' (rq_ResponseFormat r))"

definition Mistral_TransformRequest :: "json_text \<Rightarrow> ChatCompletionRequest \<Rightarrow> string \<Rightarrow> (string, http_request) result" where
  "Mistral_TransformRequest J req apiKey =
     Inr \<lparr>hq_URL = mistralBaseURL, hq_Header = bearer_headers apiKey, hq_Body = jt_Marshal J (json_mistralRequest req)\<rparr>"

definition Mistral_TransformResponse :: "json_text \<Rightarrow> http_response \<Rightarrow> (string, ChatCompletionResponse) result" where
  "Mistral_TransformResponse J = chat_response J ''mistral''"

definition Mistral_TransformStreamChunk :: "json_text \<Rightarrow> string \<Rightarrow> (stream_error, StreamChunk list) result" where
  "Mistral_TransformStreamChunk J chunk =
     (case line_data chunk of
        NoData \<Rightarrow> Inr []
      | Done \<Rightarrow> Inl StreamEOF
      | Data data \<Rightarrow>
          (case unmarshal J un_ChatCompletionResponse zero_Response data of
             None \<Rightarrow> Inl (StreamErr ''unmarshal chunk'')
           | Some sc \<Rightarrow> Inr [sc]))"

section \<open>DeepSeek\<close>

definition DeepSeek_TransformRequest :: "json_text \<Rightarrow> ChatCompletionRequest \<Rightarrow> string \<Rightarrow> (string, http_request) result" where
  "DeepSeek_TransformRequest J req apiKey =
     Inr \<lparr>hq_URL = deepseekBaseURL, hq_Header = bearer_headers apiKey, hq_Body = jt_Marshal J (json_ChatCompletionRequest req)\<rparr>"

text \<open>\<open>deepseekMessage\<close> and \<open>deepseekChunkDelta\<close> have the same fields.\<close>

record deepseekMessage =
  dm_Role :: string
  dm_Content :: string
  dm_ReasoningContent :: string
  dm_ToolCalls :: "ToolCall list"

record deepseekChoice =
  dc_Index :: int
  dc_Message :: deepseekMessage
  dc_FinishReason :: "string option"

record deepseekResponse =
  dr_ID :: string
  dr_Object :: string
  dr_Created :: int
  dr_Model :: string
  dr_Choices :: "deepseekChoice list"
  dr_Usage :: "Usage option"

definition un_deepseekMessage :: "deepseekMessage decoder" where
  "un_deepseekMessage = un_struct
     [(''role'', fld un_str dm_Role dm_Role_update), (''content'', fld un_str dm_Content dm_Content_update),
      (''reasoning_content'', fld un_str dm_ReasoningContent dm_ReasoningContent_update),
      (''tool_calls'', fld (un_list zero_ToolCall un_ToolCall) dm_ToolCalls dm_ToolCalls_update)]"

definition un_deepseekChoice :: "string \<Rightarrow> deepseekChoice decoder" where
  "un_deepseekChoice body = un_struct
     [(''index'', fld un_int dc_Index dc_Index_update), (body, fld un_deepseekMessage dc_Message dc_Message_update),
      (''finish_reason'', fld (un_ptr [] un_str) dc_FinishReason dc_FinishReason_update)]"

definition zero_deepseekChoice :: deepseekChoice where
  "zero_deepseekChoice = \<lparr>dc_Index = 0,
     dc_Message = \<lparr>dm_Role = [], dm_Content = [], dm_ReasoningContent = [], dm_ToolCalls = []\<rparr>, dc_FinishReason = None\<rparr>"

text \<open>The choices of a response hold a \<open>message\<close>, those of a stream chunk a \<open>delta\<close>.\<close>

definition un_deepseekResponse :: "string \<Rightarrow> deepseekResponse decoder" where
  "un_deepseekResponse body = un_struct
     [(''id'', fld un_str dr_ID dr_ID_update), (''object'', fld un_str dr_Object dr_Object_update),
      (''created'', fld un_int dr_Created dr_Created_update), (''model'', fld un_str dr_Model dr_Model_update),
      (''choices'', fld (un_list zero_deepseekChoice (un_deepseekChoice body)) dr_Choices dr_Choices_update),
      (''usage'', fld (un_ptr zero_Usage un_Usage) dr_Usage dr_Usage_update)]"

definition zero_deepseekResponse :: deepseekResponse where
  "zero_deepseekResponse = \<lparr>dr_ID = [], dr_Object = [], dr_Created = 0, dr_Model = [], dr_Choices = [], dr_Usage = None\<rparr>"

definition deepseek_choice :: "deepseekChoice \<Rightarrow> Choice" where
  "deepseek_choice c =
     (let m = dc_Message c;
          content = (if dm_ReasoningContent m \<noteq> []
                     then ''<think>'' @ [newline] @ dm_ReasoningContent m @ [newline] @ ''</think>'' @ [newline] @ dm_Content m
                     else dm_Content m)
      in \<lparr>co_Index = dc_Index c,
          co_Message = Some (zero_Message\<lparr>msg_Role := dm_Role m, msg_Content := JStr content, msg_ToolCalls := dm_ToolCalls m\<rparr>),
          co_Delta = None, co_FinishReason = dc_FinishReason c\<rparr>)"

definition DeepSeek_convertResponse :: "deepseekResponse \<Rightarrow> ChatCompletionResponse" where
  "DeepSeek_convertResponse r = \<lparr>cr_ID = dr_ID r, cr_Object = dr_Object r, cr_Created = dr_Created r, cr_Model = dr_Model r,
     cr_Choices = Some (map deepseek_choice (dr_Choices r)), cr_Usage = dr_Usage r\<rparr>"

definition DeepSeek_TransformResponse :: "json_text \<Rightarrow> http_response \<Rightarrow> (string, ChatCompletionResponse) result" where
  "DeepSeek_TransformResponse J resp =
     (case hp_Body resp of
        None \<Rightarrow> Inl ''read response: unexpected EOF''
      | Some body \<Rightarrow>
          if hp_Status resp \<noteq> 200
          then Inl (''deepseek error (status '' @ show_int (hp_Status resp) @ ''): '' @ body)
          else (case unmarshal J (un_deepseekResponse ''message'') zero_deepseekResponse body of
                  None \<Rightarrow> Inl ''unmarshal response''
                | Some dsResp \<Rightarrow> Inr (DeepSeek_convertResponse dsResp)))"

definition deepseek_delta :: "deepseekChoice \<Rightarrow> Choice" where
  "deepseek_delta c =
     (let m = dc_Message c;
          content = (if dm_ReasoningContent m \<noteq> [] then dm_ReasoningContent m else dm_Content m)
      in \<lparr>co_Index = dc_Index c, co_Message = None,
          co_Delta = Some (zero_Message\<lparr>msg_Role := dm_Role m, msg_ToolCalls := dm_ToolCalls m,
            msg_Content := (if content \<noteq> [] then JStr content else JNull)\<rparr>),
          co_FinishReason = dc_FinishReason c\<rparr>)"

definition DeepSeek_TransformStreamChunk :: "json_text \<Rightarrow> string \<Rightarrow> (stream_error, StreamChunk list) result" where
  "DeepSeek_TransformStreamChunk J chunk =
     (case line_data chunk of
        NoData \<Rightarrow> Inr []
      | Done \<Rightarrow> Inl StreamEOF
      | Data data \<Rightarrow>
          (case unmarshal J (un_deepseekResponse ''delta'') zero_deepseekResponse data of
             None \<Rightarrow> Inl (StreamErr ''unmarshal chunk'')
           | Some r \<Rightarrow> Inr [\<lparr>cr_ID = dr_ID r, cr_Object = dr_Object r, cr_Created = dr_Created r, cr_Model = dr_Model r,
               cr_Choices = Some (map deepseek_delta (dr_Choices r)), cr_Usage = dr_Usage r\<rparr>]))"

section \<open>What the providers receive\<close>

definition for_mistral :: "ChatCompletionRequest \<Rightarrow> ChatCompletionRequest" where
  "for_mistral r = r\<lparr>rq_ToolChoice := Mistral_convertToolChoice (rq_ToolChoice r), rq_FrequencyPenalty := None,
     rq_PresencePenalty := None, rq_Seed := None, rq_User := []\<rparr>"

lemma json_for_mistral: "json_mistralRequest r = json_ChatCompletionRequest (for_mistral r)"
  by (simp add: json_mistralRequest_def json_ChatCompletionRequest_def for_mistral_def omitempty_def)

lemma decoded_for_mistral: "decoded_request r \<Longrightarrow> decoded_request (for_mistral r)"
  by (auto simp: decoded_request_def for_mistral_def)

lemma body_reads_back:
  assumes "decoded_request req" "jt_Unmarshal J (jt_Marshal J (json_ChatCompletionRequest req)) = Some (json_ChatCompletionRequest req)"
  shows "unmarshal J un_ChatCompletionRequest zero_Request (jt_Marshal J (json_ChatCompletionRequest req)) = Some req"
  using rt_Request [OF assms(1)] assms(2) by (simp add: unmarshal_def reads_back_def)

text \<open>OpenAI and DeepSeek receive the request that the client sent: the body of the HTTP request decodes to the chat
  request, field by field; Mistral receives it with the tool choice in its own terms and without the fields that it
  rejects. The bearer token is the key of the deployment, and the URL is the provider's.\<close>

theorem compatible_providers_get_the_request:
  assumes "decoded_request req"
    and "list_all (\<lambda>r. jt_Unmarshal J (jt_Marshal J (json_ChatCompletionRequest r)) = Some (json_ChatCompletionRequest r))
      [req, for_mistral req]"
  shows "\<exists>h1 h2 h3. OpenAI_TransformRequest J organization req key = Inr h1 \<and> DeepSeek_TransformRequest J req key = Inr h2 \<and>
    Mistral_TransformRequest J req key = Inr h3 \<and>
    unmarshal J un_ChatCompletionRequest zero_Request (hq_Body h1) = Some req \<and>
    unmarshal J un_ChatCompletionRequest zero_Request (hq_Body h2) = Some req \<and>
    unmarshal J un_ChatCompletionRequest zero_Request (hq_Body h3) = Some (for_mistral req) \<and>
    list_all (\<lambda>h. resp_Get (hq_Header h) ''Authorization'' = ''Bearer '' @ key) [h1, h2, h3] \<and>
    map hq_URL [h1, h2, h3] = [openAIBaseURL, deepseekBaseURL, mistralBaseURL]"
proof -
  have auth: "resp_Get (bearer_headers key @ hs) ''Authorization'' = ''Bearer '' @ key" for hs
  proof -
    have "strings_ToLower ''Content-Type'' \<noteq> strings_ToLower ''Authorization''" by code_simp
    then show ?thesis by (simp add: resp_Get_def bearer_headers_def)
  qed
  show ?thesis
    using assms body_reads_back [OF assms(1), of J] body_reads_back [OF decoded_for_mistral [OF assms(1)], of J]
      auth auth [of "[]"]
    by (simp add: OpenAI_TransformRequest_def DeepSeek_TransformRequest_def Mistral_TransformRequest_def json_for_mistral)
qed

definition demo_request :: ChatCompletionRequest where
  "demo_request = zero_Request\<lparr>rq_Model := ''gpt-4o'', rq_Messages := Some [zero_Message\<lparr>msg_Role := ''user'', msg_Content := JStr ''hi''\<rparr>],
     rq_ToolChoice := JStr ''required'', rq_Seed := Some 7\<rparr>"

definition demo_request_text :: json_text where
  "demo_request_text = \<lparr>jt_Unmarshal = (\<lambda>s. Some (if s = ''1'' then json_ChatCompletionRequest demo_request
       else json_ChatCompletionRequest (for_mistral demo_request))),
     jt_Marshal = (\<lambda>j. if j = json_ChatCompletionRequest demo_request then ''1'' else ''2'')\<rparr>"

theorem compatible_providers_get_the_request_witness:
  "\<exists>h1 h2 h3. OpenAI_TransformRequest demo_request_text [] demo_request ''k'' = Inr h1 \<and>
    DeepSeek_TransformRequest demo_request_text demo_request ''k'' = Inr h2 \<and>
    Mistral_TransformRequest demo_request_text demo_request ''k'' = Inr h3 \<and>
    unmarshal demo_request_text un_ChatCompletionRequest zero_Request (hq_Body h1) = Some demo_request \<and>
    unmarshal demo_request_text un_ChatCompletionRequest zero_Request (hq_Body h3) = Some (for_mistral demo_request)"
proof -
  have "decoded_request demo_request"
    by (simp add: demo_request_def decoded_request_def zero_Request_def int64_range_def)
  moreover have "jt_Unmarshal demo_request_text (jt_Marshal demo_request_text j) = Some j"
    if "j = json_ChatCompletionRequest demo_request \<or> j = json_ChatCompletionRequest (for_mistral demo_request)" for j
    using that by (auto simp: demo_request_text_def)
  ultimately show ?thesis
    using compatible_providers_get_the_request [of demo_request demo_request_text "[]" "''k''"] by fastforce
qed

section \<open>Reasoning\<close>

text \<open>A complete response of DeepSeek keeps both texts; a chunk that carries both loses its content.\<close>

theorem DeepSeek_reasoning:
  assumes "dm_ReasoningContent (dc_Message c) = reasoning" "dm_Content (dc_Message c) = answer" "reasoning \<noteq> []"
  shows "map_option msg_Content (co_Message (deepseek_choice c)) =
      Some (JStr (''<think>'' @ [newline] @ reasoning @ [newline] @ ''</think>'' @ [newline] @ answer)) \<and>
    map_option msg_Content (co_Delta (deepseek_delta c)) = Some (JStr reasoning)"
  using assms by (simp add: deepseek_choice_def deepseek_delta_def Let_def)

end
