(* ===== verification/SmartProxy.thy ===== *)
theory SmartProxy
  imports Compat Proxy
begin

text \<open>
  The smart proxy (\<open>proxy/smart_proxy.go\<close>): it routes a chat request through a model group to the adapters of the
  providers, with retries and, for streams, a fallback while the connection is made; the registry of adapters
  (\<open>provider/registry.go\<close>), the price table for its logs (\<open>provider/pricing.go\<close>) and the route log
  (\<open>provider/logging.go\<close>, without its times).

  The execution environment is that of \<open>Routing\<close>. In addition the environment of a request supplies the identifiers
  that are drawn, whether the client has gone before the n-th line of a stream, and whether the n-th write fails. A reply
  with status 0 keeps the status of the response writer, which is 200.
\<close>

section \<open>Adapters\<close>

datatype Adapter = OpenAIAdapter string | AnthropicAdapter | DeepSeekAdapter | MistralAdapter

fun Name :: "Adapter \<Rightarrow> string" where
  "Name (OpenAIAdapter organization) = ''openai''"
| "Name AnthropicAdapter = ''anthropic''"
| "Name DeepSeekAdapter = ''deepseek''"
| "Name MistralAdapter = ''mistral''"

type_synonym Registry = "string \<rightharpoonup> Adapter"

definition Register :: "Registry \<Rightarrow> Adapter \<Rightarrow> Registry" where
  "Register r adapter = r(Name adapter \<mapsto> adapter)"

definition NewRegistry :: Registry where
  "NewRegistry = foldl Register Map.empty [OpenAIAdapter [], AnthropicAdapter, DeepSeekAdapter, MistralAdapter]"

fun TransformRequest :: "json_text \<Rightarrow> Adapter \<Rightarrow> ChatCompletionRequest \<Rightarrow> string \<Rightarrow> (string, http_request) result" where
  "TransformRequest J (OpenAIAdapter organization) = OpenAI_TransformRequest J organization"
| "TransformRequest J AnthropicAdapter = Anthropic_TransformRequest J"
| "TransformRequest J DeepSeekAdapter = DeepSeek_TransformRequest J"
| "TransformRequest J MistralAdapter = Mistral_TransformRequest J"

fun TransformResponse :: "json_text \<Rightarrow> int \<Rightarrow> Adapter \<Rightarrow> http_response \<Rightarrow> (string, ChatCompletionResponse) result" where
  "TransformResponse J now (OpenAIAdapter organization) = OpenAI_TransformResponse J"
| "TransformResponse J now AnthropicAdapter = Anthropic_TransformResponse J now"
| "TransformResponse J now DeepSeekAdapter = DeepSeek_TransformResponse J"
| "TransformResponse J now MistralAdapter = Mistral_TransformResponse J"

fun TransformStreamChunk :: "json_text \<Rightarrow> Adapter \<Rightarrow> string \<Rightarrow> AnthropicStreamTranslator \<Rightarrow> AnthropicStreamTranslator translation" where
  "TransformStreamChunk J (OpenAIAdapter organization) chunk t = (OpenAI_TransformStreamChunk J chunk, t)"
| "TransformStreamChunk J AnthropicAdapter chunk t = TranslateEvent J chunk t"
| "TransformStreamChunk J DeepSeekAdapter chunk t = (DeepSeek_TransformStreamChunk J chunk, t)"
| "TransformStreamChunk J MistralAdapter chunk t = (Mistral_TransformStreamChunk J chunk, t)"

fun ExtractRateLimitInfo :: "Adapter \<Rightarrow> (string \<times> string) list \<Rightarrow> RateLimitInfo option" where
  "ExtractRateLimitInfo AnthropicAdapter hs = Anthropic_ExtractRateLimitInfo hs"
| "ExtractRateLimitInfo adapter hs = OpenAI_ExtractRateLimitInfo hs"

type_synonym chat_env = "(ChatCompletionRequest, http_request, http_response, ChatCompletionResponse) exec_env"

definition chat_adapter :: "json_text \<Rightarrow> int \<Rightarrow> Adapter \<Rightarrow>
    (ChatCompletionRequest, http_request, http_response, ChatCompletionResponse) ProviderAdapter" where
  "chat_adapter J now adapter = \<lparr>ad_TransformRequest = TransformRequest J adapter,
     ad_TransformResponse = TransformResponse J now adapter,
     ad_ExtractRateLimitInfo = (\<lambda>resp. ExtractRateLimitInfo adapter (hp_Header resp))\<rparr>"

text \<open>\<open>reqCopy := *req; reqCopy.Model = deployment.Model\<close>.\<close>

definition with_model :: "ChatCompletionRequest \<Rightarrow> string \<Rightarrow> ChatCompletionRequest" where
  "with_model req model = req\<lparr>rq_Model := model\<rparr>"

definition read_all :: "http_response \<Rightarrow> string" where
  "read_all resp = (case hp_Body resp of None \<Rightarrow> [] | Some body \<Rightarrow> body)"

definition wire :: "json_text \<Rightarrow> int \<Rightarrow> Registry \<Rightarrow> chat_env \<Rightarrow> chat_env" where
  "wire J now registry env = env\<lparr>ee_registry := (\<lambda>p. map_option (chat_adapter J now) (registry p)),
     ee_with_model := with_model, ee_StatusCode := hp_Status, ee_Body := read_all,
     ee_RetryAfter := (\<lambda>resp. resp_Get (hp_Header resp) ''Retry-After'')\<rparr>"

section \<open>Prices and logs\<close>

record RouteModelPricing =
  mpr_InputPer1M :: rat
  mpr_OutputPer1M :: rat

record CostResult =
  cst_InputCost :: rat
  cst_OutputCost :: rat
  cst_TotalCost :: rat
  cst_Model :: string
  cst_Provider :: string

definition price :: "rat \<Rightarrow> rat \<Rightarrow> RouteModelPricing" where
  "price input output = \<lparr>mpr_InputPer1M = input, mpr_OutputPer1M = output\<rparr>"

definition NewPricingTable :: "string \<rightharpoonup> RouteModelPricing" where
  "NewPricingTable =
     [''gpt-4o'' \<mapsto> price (250/100) 10, ''gpt-4o-mini'' \<mapsto> price (15/100) (60/100), ''gpt-4-turbo'' \<mapsto> price 10 30,
      ''gpt-4'' \<mapsto> price 30 60, ''o1'' \<mapsto> price 15 60, ''o1-mini'' \<mapsto> price 3 12, ''o3'' \<mapsto> price 10 40,
      ''o3-mini'' \<mapsto> price (110/100) (440/100), ''o4-mini'' \<mapsto> price (110/100) (440/100),
      ''claude-opus-4-20250514'' \<mapsto> price 15 75, ''claude-sonnet-4-20250514'' \<mapsto> price 3 15,
      ''claude-haiku-4-5-20251001'' \<mapsto> price (80/100) 4, ''claude-3-5-sonnet-20241022'' \<mapsto> price 3 15,
      ''claude-3-5-haiku-20241022'' \<mapsto> price (80/100) 4,
      ''deepseek-chat'' \<mapsto> price (27/100) (110/100), ''deepseek-reasoner'' \<mapsto> price (55/100) (219/100),
      ''mistral-large-latest'' \<mapsto> price 2 6, ''mistral-small-latest'' \<mapsto> price (10/100) (30/100),
      ''codestral-latest'' \<mapsto> price (30/100) (90/100),
      ''gemini-2.0-flash'' \<mapsto> price (10/100) (40/100), ''gemini-2.0-flash-lite'' \<mapsto> price (2/100) (10/100),
      ''gemini-1.5-pro'' \<mapsto> price (125/100) 5, ''gemini-1.5-flash'' \<mapsto> price (75/1000) (30/100)]"

text \<open>\<open>fl\<close> rounds to float64; the prices above are the constants before rounding.\<close>

definition CalculateCost :: "(rat \<Rightarrow> rat) \<Rightarrow> (string \<rightharpoonup> RouteModelPricing) \<Rightarrow> string \<Rightarrow> string \<Rightarrow> Usage option \<Rightarrow> CostResult" where
  "CalculateCost fl prices model providerName usage =
     (case (usage, prices model) of
        (Some u, Some p) \<Rightarrow>
          (let inputCost = fl (fl (fl (of_int (cu_PromptTokens u)) / 1000000) * fl (mpr_InputPer1M p));
               outputCost = fl (fl (fl (of_int (cu_CompletionTokens u)) / 1000000) * fl (mpr_OutputPer1M p))
           in \<lparr>cst_InputCost = inputCost, cst_OutputCost = outputCost, cst_TotalCost = fl (inputCost + outputCost),
               cst_Model = model, cst_Provider = providerName\<rparr>)
      | _ \<Rightarrow> \<lparr>cst_InputCost = 0, cst_OutputCost = 0, cst_TotalCost = 0, cst_Model = model, cst_Provider = providerName\<rparr>)"

record RouteLog =
  rlg_RequestID :: string
  rlg_ModelGroup :: string
  rlg_RequestModel :: string
  rlg_Provider :: string
  rlg_DeploymentID :: string
  rlg_DeploymentModel :: string
  rlg_InputTokens :: int
  rlg_OutputTokens :: int
  rlg_TotalTokens :: int
  rlg_EstimatedCost :: rat
  rlg_AttemptCount :: nat
  rlg_FallbackChain :: "string list"
  rlg_TriggeredFallback :: bool
  rlg_Success :: bool
  rlg_StatusCode :: int
  rlg_ErrorType :: string
  rlg_ErrorMsg :: string
  rlg_Stream :: bool

type_synonym chat_attempt = "ChatCompletionResponse Attempt"

definition attempt_usage :: "chat_attempt \<Rightarrow> Usage option" where
  "attempt_usage a = (case at_Response a of None \<Rightarrow> None | Some r \<Rightarrow> cr_Usage r)"

definition BuildRouteLog :: "string \<Rightarrow> string \<Rightarrow> string \<Rightarrow> bool \<Rightarrow> chat_attempt option \<Rightarrow> chat_attempt list \<Rightarrow>
    CostResult option \<Rightarrow> RouteLog" where
  "BuildRouteLog requestID groupName requestModel stream finalAttempt allAttempts cost =
     (let l0 = \<lparr>rlg_RequestID = requestID, rlg_ModelGroup = groupName, rlg_RequestModel = requestModel, rlg_Provider = [],
            rlg_DeploymentID = [], rlg_DeploymentModel = [], rlg_InputTokens = 0, rlg_OutputTokens = 0, rlg_TotalTokens = 0,
            rlg_EstimatedCost = 0, rlg_AttemptCount = length allAttempts,
            rlg_FallbackChain = map (\<lambda>a. dp_ID (at_Deployment a)) allAttempts, rlg_TriggeredFallback = (1 < length allAttempts),
            rlg_Success = False, rlg_StatusCode = 0, rlg_ErrorType = [], rlg_ErrorMsg = [], rlg_Stream = stream\<rparr>;
          l1 = (case finalAttempt of
                  None \<Rightarrow> l0
                | Some a \<Rightarrow> l0\<lparr>rlg_Provider := dp_Provider (at_Deployment a), rlg_DeploymentID := dp_ID (at_Deployment a),
                    rlg_DeploymentModel := dp_Model (at_Deployment a), rlg_StatusCode := at_StatusCode a,
                    rlg_Success := (at_Error a = None),
                    rlg_ErrorType := (case at_Error a of None \<Rightarrow> [] | Some e \<Rightarrow> pe_Type e),
                    rlg_ErrorMsg := (case at_Error a of None \<Rightarrow> [] | Some e \<Rightarrow> pe_Message e),
                    rlg_InputTokens := (case attempt_usage a of None \<Rightarrow> 0 | Some u \<Rightarrow> cu_PromptTokens u),
                    rlg_OutputTokens := (case attempt_usage a of None \<Rightarrow> 0 | Some u \<Rightarrow> cu_CompletionTokens u),
                    rlg_TotalTokens := (case attempt_usage a of None \<Rightarrow> 0 | Some u \<Rightarrow> cu_TotalTokens u)\<rparr>)
      in (case cost of None \<Rightarrow> l1 | Some c \<Rightarrow> l1\<lparr>rlg_EstimatedCost := cst_TotalCost c\<rparr>))"

section \<open>Streaming to the client\<close>

record stream_result =
  str_Usage :: "Usage option"
  str_Out :: string
  str_Writes :: nat
  str_Failed :: bool

definition sse_data :: "string \<Rightarrow> string" where
  "sse_data payload = ''data: '' @ payload @ [newline, newline]"

fun write_chunks :: "json_text \<Rightarrow> (nat \<Rightarrow> bool) \<Rightarrow> StreamChunk list \<Rightarrow> stream_result \<Rightarrow> stream_result" where
  "write_chunks J wfail [] r = r"
| "write_chunks J wfail (chunk # chunks) r =
     (let r1 = (case cr_Usage chunk of None \<Rightarrow> r | Some u \<Rightarrow> r\<lparr>str_Usage := Some u\<rparr>)
      in if wfail (str_Writes r1) then r1\<lparr>str_Failed := True\<rparr>
         else write_chunks J wfail chunks
                (r1\<lparr>str_Out := str_Out r1 @ sse_data (jt_Marshal J (json_ChatCompletionResponse chunk)),
                    str_Writes := str_Writes r1 + 1\<rparr>))"

fun stream_loop :: "json_text \<Rightarrow> Adapter \<Rightarrow> (nat \<Rightarrow> bool) \<Rightarrow> (nat \<Rightarrow> bool) \<Rightarrow> nat \<Rightarrow> string list \<Rightarrow> AnthropicStreamTranslator \<Rightarrow>
    stream_result \<Rightarrow> stream_result" where
  "stream_loop J adapter gone wfail i [] t r = r"
| "stream_loop J adapter gone wfail i (line # lines) t r =
     (if gone i then r
      else if line = [] then stream_loop J adapter gone wfail (i + 1) lines t r
      else (case TransformStreamChunk J adapter line t of
              (Inl StreamEOF, t') \<Rightarrow> r\<lparr>str_Out := str_Out r @ sse_data ''[DONE]''\<rparr>
            | (Inl (stream_error.StreamErr e), t') \<Rightarrow> stream_loop J adapter gone wfail (i + 1) lines t' r
            | (Inr chunks, t') \<Rightarrow>
                (let r' = write_chunks J wfail chunks r
                 in if str_Failed r' then r' else stream_loop J adapter gone wfail (i + 1) lines t' r')))"

definition streamResponse :: "json_text \<Rightarrow> Adapter \<Rightarrow> int \<Rightarrow> (nat \<Rightarrow> bool) \<Rightarrow> (nat \<Rightarrow> bool) \<Rightarrow> string \<Rightarrow> stream_result" where
  "streamResponse J streamAdapter now gone wfail body =
     stream_loop J streamAdapter gone wfail 0 (fst (scan_lines body)) (NewAnthropicStreamTranslator now)
       \<lparr>str_Usage = None, str_Out = [], str_Writes = 0, str_Failed = False\<rparr>"

definition getStreamAdapter :: "Registry \<Rightarrow> string \<Rightarrow> Adapter option" where
  "getStreamAdapter registry providerName =
     (if providerName = ''anthropic'' then Some AnthropicAdapter
      else if providerName = ''openai'' then Some (OpenAIAdapter [])
      else if providerName = ''deepseek'' then Some DeepSeekAdapter
      else if providerName = ''mistral'' then Some MistralAdapter
      else registry providerName)"

section \<open>The handler\<close>

record smart_env =
  sv_exec :: chat_env
  sv_requestID :: string
  sv_uuid :: string
  sv_created :: int
  sv_latency :: int
  sv_now :: go_time
  sv_gone :: "nat \<Rightarrow> bool"
  sv_wfail :: "nat \<Rightarrow> bool"

record SmartProxyHandler =
  sh_registry :: Registry
  sh_pricing :: "string \<rightharpoonup> RouteModelPricing"
  sh_retryCfg :: RetryConfig
  sh_json :: json_text
  sh_fl :: "rat \<Rightarrow> rat"

definition NewSmartProxyHandler :: "json_text \<Rightarrow> (rat \<Rightarrow> rat) \<Rightarrow> SmartProxyHandler" where
  "NewSmartProxyHandler J fl = \<lparr>sh_registry = NewRegistry, sh_pricing = NewPricingTable, sh_retryCfg = DefaultRetryConfig,
     sh_json = J, sh_fl = fl\<rparr>"

datatype smart_body = OpenAIError string string | ProviderErrorBody ProviderError | ChatBody ChatCompletionResponse
  | EventStream string

record smart_reply =
  sp_Status :: int
  sp_Body :: smart_body

definition gin_status :: "int \<Rightarrow> int" where
  "gin_status code = (if 0 < code then code else 200)"

definition c_JSON :: "int \<Rightarrow> smart_body \<Rightarrow> smart_reply" where
  "c_JSON code body = \<lparr>sp_Status = gin_status code, sp_Body = body\<rparr>"

definition usage_event :: "smart_env \<Rightarrow> gin_context \<Rightarrow> chat_attempt \<Rightarrow> Usage \<Rightarrow> UsageEventMsg" where
  "usage_event env c attempt usage =
     \<lparr>um_TenantID = cx_tenant_id c, um_ProjectID = cx_project_id c, um_KeyID = cx_key_id c,
      um_Provider = dp_Provider (at_Deployment attempt), um_Model = dp_Model (at_Deployment attempt),
      um_InputTokens = cu_PromptTokens usage, um_OutputTokens = cu_CompletionTokens usage,
      um_CacheCreationTokens = 0, um_CacheReadTokens = 0, um_MessageID = ''route_'' @ sv_uuid env, um_ProviderKeyHint = [],
      um_LatencyMs = sv_latency env, um_Timestamp = sv_now env, um_APIUsageBilled = IsBillableMode (cx_billing_mode c)\<rparr>"

text \<open>\<open>publishUsageEvent\<close>, up to the call of \<open>Publish\<close>.\<close>

definition smart_usage_event :: "smart_env \<Rightarrow> gin_context \<Rightarrow> chat_attempt option \<Rightarrow> UsageEventMsg option" where
  "smart_usage_event env c attempt =
     (if cx_tenant_id c = 0 then None
      else case attempt of
             None \<Rightarrow> None
           | Some a \<Rightarrow> map_option (usage_event env c a) (attempt_usage a))"

text \<open>The phase in which a stream is connected. \<open>client.Do\<close> is \<open>ee_Do\<close>; the attempts made are collected.\<close>

datatype connection = Connected Deployment Adapter http_response | Rejected ProviderError int | Exhausted

record connect_result =
  cnr_end :: connection
  cnr_attempts :: "chat_attempt list"

definition failed_attempt :: "Deployment \<Rightarrow> ProviderError \<Rightarrow> string \<Rightarrow> int \<Rightarrow> chat_attempt" where
  "failed_attempt dep pe raw status =
     \<lparr>at_Deployment = dep, at_Response = None, at_Error = Some pe, at_RawBody = raw, at_StatusCode = status\<rparr>"

fun connect_loop :: "selector \<Rightarrow> json_text \<Rightarrow> Registry \<Rightarrow> chat_env \<Rightarrow> ChatCompletionRequest \<Rightarrow> nat \<Rightarrow> nat \<Rightarrow> ModelGroup \<Rightarrow>
    string set \<Rightarrow> chat_attempt list \<Rightarrow> RouterState \<Rightarrow> connect_result \<times> ModelGroup \<times> RouterState" where
  "connect_loop sel J registry env req i 0 g tried attempts st = (\<lparr>cnr_end = Exhausted, cnr_attempts = attempts\<rparr>, g, st)"
| "connect_loop sel J registry env req i (Suc n) g tried attempts st =
     (if ee_ctx_err env i then (\<lparr>cnr_end = Exhausted, cnr_attempts = attempts\<rparr>, g, st)
      else
        (case sel (ee_draw env i) (ee_now env i) g st of
           (Inl err, g1, st1) \<Rightarrow> (\<lparr>cnr_end = Exhausted, cnr_attempts = attempts\<rparr>, g1, st1)
         | (Inr dep, g1, st1) \<Rightarrow>
             if dp_ID dep \<in> tried then connect_loop sel J registry env req (i + 1) n g1 tried attempts st1
             else
               (let tried' = insert (dp_ID dep) tried
                in case registry (dp_Provider dep) of
                     None \<Rightarrow> connect_loop sel J registry env req (i + 1) n g1 tried' attempts st1
                   | Some adapter \<Rightarrow>
                       (case TransformRequest J adapter (with_model req (dp_Model dep)) (dp_APIKey dep) of
                          Inl err \<Rightarrow>
                            connect_loop sel J registry env req (i + 1) n g1 tried'
                              (attempts @ [failed_attempt dep
                                 (server_error dep 0 ''server_error'' (''transform request: '' @ err) False) [] 0]) st1
                        | Inr httpReq \<Rightarrow>
                            (case ee_Do env i httpReq of
                               Inl err \<Rightarrow>
                                 connect_loop sel J registry env req (i + 1) n g1 tried'
                                   (attempts @ [failed_attempt dep
                                      (server_error dep 0 ''timeout_error'' (''connect failed: '' @ err) True) [] 0])
                                   (st1\<lparr>rst_Health := RecordFailure (rst_Health st1) (dp_ID dep) (ee_end env i)\<rparr>)
                             | Inr resp \<Rightarrow>
                                 if hp_Status resp \<noteq> 200
                                 then
                                   (let pe = ParseProviderError (ee_parse_err env) (hp_Status resp) (read_all resp) (dp_Provider dep)
                                          (dp_Model dep) (resp_Get (hp_Header resp) ''Retry-After'');
                                        attempts' = attempts @ [failed_attempt dep pe (read_all resp) (hp_Status resp)];
                                        st2 = st1\<lparr>rst_Health := RecordFailure (rst_Health st1) (dp_ID dep) (ee_end env i)\<rparr>
                                    in if \<not> pe_Retryable pe
                                       then (\<lparr>cnr_end = Rejected pe (hp_Status resp), cnr_attempts = attempts'\<rparr>, g1, st2)
                                       else connect_loop sel J registry env req (i + 1) n g1 tried' attempts' st2)
                                 else
                                   (\<lparr>cnr_end = Connected dep adapter resp, cnr_attempts = attempts\<rparr>, g1,
                                    st1\<lparr>rst_Health := RecordSuccess (rst_Health st1) (dp_ID dep),
                                        rst_Latency := Record (rst_Latency st1) (dp_ID dep) (ee_ttfb env i),
                                        rst_RateLimit := Update (rst_RateLimit st1) (dp_ID dep)
                                          (ExtractRateLimitInfo adapter (hp_Header resp))\<rparr>))))))"

record smart_outcome =
  so_reply :: smart_reply
  so_log :: "RouteLog option"
  so_event :: "UsageEventMsg option"

definition refuse :: "int \<Rightarrow> string \<Rightarrow> string \<Rightarrow> smart_outcome" where
  "refuse code msg ty = \<lparr>so_reply = c_JSON code (OpenAIError msg ty), so_log = None, so_event = None\<rparr>"

definition handleStream :: "SmartProxyHandler \<Rightarrow> smart_env \<Rightarrow> gin_context \<Rightarrow> ModelGroup \<Rightarrow> ChatCompletionRequest \<Rightarrow> RouterState \<Rightarrow>
    smart_outcome \<times> ModelGroup \<times> RouterState" where
  "handleStream h env c g req st =
     (case GetStrategy (mg_Strategy g) of
        Inl err \<Rightarrow> (refuse 500 ''invalid routing strategy'' ''server_error'', g, st)
      | Inr strategy \<Rightarrow>
          (case connect_loop (Select (sh_fl h) strategy) (sh_json h) (sh_registry h) (sv_exec env) req 0
                  (max_attempts (sh_retryCfg h) g) g {} [] st of
             (res, g', st') \<Rightarrow>
               let attempts = cnr_attempts res;
                   routeLog = BuildRouteLog (sv_requestID env) (mg_Name g) (rq_Model req) True
               in (case cnr_end res of
                     Connected dep adapter resp \<Rightarrow>
                       (let streamAdapter = (case getStreamAdapter (sh_registry h) (dp_Provider dep) of None \<Rightarrow> adapter | Some a \<Rightarrow> a);
                            r = streamResponse (sh_json h) streamAdapter (sv_created env) (sv_gone env) (sv_wfail env) (read_all resp);
                            final = \<lparr>at_Deployment = dep,
                              at_Response = map_option (\<lambda>u. zero_Response\<lparr>cr_Usage := Some u\<rparr>) (str_Usage r),
                              at_Error = None, at_RawBody = [], at_StatusCode = 200\<rparr>;
                            cost = (case str_Usage r of None \<Rightarrow> None
                              | Some u \<Rightarrow> Some (CalculateCost (sh_fl h) (sh_pricing h) (dp_Model dep) (dp_Provider dep) (Some u)))
                        in \<lparr>so_reply = c_JSON 200 (EventStream (str_Out r)),
                            so_log = Some (routeLog (Some final) (attempts @ [final]) cost),
                            so_event = smart_usage_event env c (Some final)\<rparr>)
                   | Rejected pe status \<Rightarrow>
                       \<lparr>so_reply = c_JSON status (ProviderErrorBody pe),
                        so_log = Some (routeLog (Some (last attempts)) attempts None), so_event = None\<rparr>
                   | Exhausted \<Rightarrow>
                       (let lastAttempt = (if attempts = [] then None else Some (last attempts))
                        in \<lparr>so_reply =
                              (case lastAttempt of
                                 Some a \<Rightarrow>
                                   (case at_Error a of
                                      Some pe \<Rightarrow> c_JSON (at_StatusCode a) (ProviderErrorBody pe)
                                    | None \<Rightarrow> c_JSON 502 (OpenAIError ''all deployments exhausted'' ''server_error''))
                               | None \<Rightarrow> c_JSON 502 (OpenAIError ''all deployments exhausted'' ''server_error'')),
                            so_log = Some (routeLog lastAttempt attempts None), so_event = None\<rparr>),
                   g', st')))"

definition retry_message :: "retry_error \<Rightarrow> string" where
  "retry_message err =
     (case err of
        ErrStrategy m \<Rightarrow> m
      | ErrCtx \<Rightarrow> ''context canceled''
      | ErrSelect m \<Rightarrow> ''select deployment: '' @ m
      | ErrAttempt pe \<Rightarrow> pe_Provider pe @ '': '' @ pe_Message pe @ '' (status '' @ show_int (pe_StatusCode pe) @ '')''
      | ErrExhausted n \<Rightarrow> ''all '' @ show_nat n @ '' deployments exhausted''
      | ErrNoDeployments g \<Rightarrow> ''no deployments available in group '' @ g)"

definition retry_reply :: "ChatCompletionResponse retry_result \<Rightarrow> smart_reply" where
  "retry_reply r =
     (let failed = (\<lambda>err. c_JSON 502 (OpenAIError (''routing failed: '' @ retry_message err) ''server_error''))
      in case rt_error r of
           Some err \<Rightarrow>
             (case rt_final r of
                Some a \<Rightarrow> (case at_Error a of
                    Some pe \<Rightarrow> c_JSON (at_StatusCode a) (ProviderErrorBody pe)
                  | None \<Rightarrow> failed err)
              | None \<Rightarrow> failed err)
         | None \<Rightarrow> c_JSON 200 (ChatBody (case rt_final r of
             Some a \<Rightarrow> (case at_Response a of Some resp \<Rightarrow> resp | None \<Rightarrow> zero_Response) | None \<Rightarrow> zero_Response)))"

definition smart_complete :: "SmartProxyHandler \<Rightarrow> smart_env \<Rightarrow> gin_context \<Rightarrow> ModelGroup \<Rightarrow> ChatCompletionRequest \<Rightarrow> RouterState \<Rightarrow>
    smart_outcome \<times> ModelGroup \<times> RouterState" where
  "smart_complete h env c g req st =
     (case ExecuteWithRetry (sh_fl h) (wire (sh_json h) (sv_created env) (sh_registry h) (sv_exec env)) (sh_retryCfg h) g req st of
        (r, g', st') \<Rightarrow>
          let final = rt_final r;
              cost = (case final of
                        None \<Rightarrow> None
                      | Some a \<Rightarrow> (case at_Response a of
                          None \<Rightarrow> None
                        | Some resp \<Rightarrow> Some (CalculateCost (sh_fl h) (sh_pricing h) (dp_Model (at_Deployment a))
                            (dp_Provider (at_Deployment a)) (cr_Usage resp))))
          in (\<lparr>so_reply = retry_reply r,
               so_log = Some (BuildRouteLog (sv_requestID env) (mg_Name g) (rq_Model req) False final (rt_attempts r) cost),
               so_event = smart_usage_event env c final\<rparr>, g', st'))"

text \<open>The whole handler: the groups are those of the router, which all requests share.\<close>

definition HandleSmartProxy :: "SmartProxyHandler \<Rightarrow> smart_env \<Rightarrow> gin_context \<Rightarrow> string \<Rightarrow> groups \<times> RouterState \<Rightarrow>
    smart_outcome \<times> groups \<times> RouterState" where
  "HandleSmartProxy h env c body = (\<lambda>(gs, st).
     case unmarshal (sh_json h) un_ChatCompletionRequest zero_Request body of
       None \<Rightarrow> (refuse 400 ''invalid request body'' ''invalid_request_error'', gs, st)
     | Some req \<Rightarrow>
         if rq_Model req = [] then (refuse 400 ''model is required'' ''invalid_request_error'', gs, st)
         else
           (case GetModelGroup gs (rq_Model req) of
              Inl err \<Rightarrow> (refuse 400 (''unknown model group: '' @ rq_Model req) ''invalid_request_error'', gs, st)
            | Inr g \<Rightarrow>
                (case (if rq_Stream req then handleStream h env c g req st else smart_complete h env c g req st) of
                   (outcome, g', st') \<Rightarrow> (outcome, gs(rq_Model req \<mapsto> g'), st'))))"

text \<open>The goroutine that publishes the event.\<close>

definition smart_publish :: "'q stream_ops \<Rightarrow> smart_outcome \<Rightarrow> 'q \<Rightarrow> 'q" where
  "smart_publish X outcome q = (case so_event outcome of None \<Rightarrow> q | Some msg \<Rightarrow> snd (Publish X msg q))"

section \<open>Streams\<close>

lemma scan_lines_no_newline: "l \<in> set (fst (scan_lines s)) \<Longrightarrow> newline \<notin> set l"
proof (induction s rule: scan_lines.induct)
  case (1 s)
  show ?case
  proof
    assume nl: "newline \<in> set l"
    obtain ls err where rest: "scan_lines (tl (dropWhile (\<lambda>c. c \<noteq> newline) s)) = (ls, err)" by fastforce
    have s: "s \<noteq> []" using 1(2) by (cases "s = []") (simp_all add: scan_lines.simps [of s])
    have fits: "\<not> max_line \<le> length (takeWhile (\<lambda>c. c \<noteq> newline) s)"
      using 1(2) by (subst (asm) scan_lines.simps) (auto simp: Let_def split: if_splits)
    have "l = drop_cr (takeWhile (\<lambda>c. c \<noteq> newline) s) \<or> l \<in> set ls"
      using 1(2) s fits rest by (subst (asm) scan_lines.simps) (simp add: Let_def)
    then show False
    proof
      assume "l = drop_cr (takeWhile (\<lambda>c. c \<noteq> newline) s)"
      then have "newline \<in> set (takeWhile (\<lambda>c. c \<noteq> newline) s)"
        using nl by (auto simp: drop_cr_def dest: in_set_butlastD split: if_splits)
      then show False by (auto dest: set_takeWhileD)
    next
      assume "l \<in> set ls"
      with 1(1) [OF s refl refl fits] rest nl show False by simp
    qed
  qed
qed

lemma stream_loop_anthropic:
  assumes "\<And>l. l \<in> set lines \<Longrightarrow> newline \<notin> set l" "\<not> str_Failed r"
  shows "stream_loop J AnthropicAdapter gone wfail i lines t r = r"
  using assms(1)
proof (induction lines arbitrary: i)
  case (Cons l lines)
  have "TranslateEvent J l t = (Inr [], t)" by (rule single_lines_are_lost_eq) (use Cons.prems in simp)
  with Cons assms(2) show ?case by (simp add: Let_def)
qed simp

lemma anthropic_stream_empty:
  "streamResponse J AnthropicAdapter now gone wfail body =
    \<lparr>str_Usage = None, str_Out = [], str_Writes = 0, str_Failed = False\<rparr>"
  unfolding streamResponse_def by (rule stream_loop_anthropic) (use scan_lines_no_newline in auto)

section \<open>Attempts\<close>

text \<open>A failed attempt has no response, and its status is the one that its error records, or both mean that there was no
  answer of the provider to pass on.\<close>

definition consistent :: "chat_attempt \<Rightarrow> bool" where
  "consistent a \<longleftrightarrow>
     (case at_Error a of
        None \<Rightarrow> True
      | Some pe \<Rightarrow> at_Response a = None \<and> gin_status (at_StatusCode a) = gin_status (pe_StatusCode pe))"

lemma ParseProviderError_status [simp]: "pe_StatusCode (ParseProviderError parse status body prov model ra) = status"
  by (simp add: ParseProviderError_def Let_def split: prod.split option.split)

lemma server_error_status [simp]: "pe_StatusCode (server_error dep status ty msg retryable) = status"
  by (simp add: server_error_def)

lemma failed_attempt_props [simp]:
  "at_Deployment (failed_attempt dep pe raw status) = dep" "at_Error (failed_attempt dep pe raw status) = Some pe"
  "gin_status status = gin_status (pe_StatusCode pe) \<Longrightarrow> consistent (failed_attempt dep pe raw status)"
  by (simp_all add: failed_attempt_def consistent_def)

lemma connect_loop_step:
  assumes "connect_loop sel J registry env req i (Suc n) g tried attempts st = (r, g', st')"
  obtains (stop) "r = \<lparr>cnr_end = Exhausted, cnr_attempts = attempts\<rparr>"
  | (skip) d g1 st1 tried' where "sel (ee_draw env i) (ee_now env i) g st = (Inr d, g1, st1)" "tried \<subseteq> tried'"
      "connect_loop sel J registry env req (i + 1) n g1 tried' attempts st1 = (r, g', st')"
  | (again) d g1 st1 a st2 where "sel (ee_draw env i) (ee_now env i) g st = (Inr d, g1, st1)" "dp_ID d \<notin> tried"
      "at_Deployment a = d" "consistent a" "at_Error a \<noteq> None"
      "connect_loop sel J registry env req (i + 1) n g1 (insert (dp_ID d) tried) (attempts @ [a]) st2 = (r, g', st')"
  | (rejected) d g1 st1 a pe where "sel (ee_draw env i) (ee_now env i) g st = (Inr d, g1, st1)" "dp_ID d \<notin> tried"
      "at_Deployment a = d" "consistent a" "r = \<lparr>cnr_end = Rejected pe (pe_StatusCode pe), cnr_attempts = attempts @ [a]\<rparr>"
      "at_Error a \<noteq> None"
  | (connected) d g1 st1 adapter resp where "sel (ee_draw env i) (ee_now env i) g st = (Inr d, g1, st1)" "dp_ID d \<notin> tried"
      "r = \<lparr>cnr_end = Connected d adapter resp, cnr_attempts = attempts\<rparr>" "hp_Status resp = 200"
      "registry (dp_Provider d) = Some adapter"
proof -
  obtain sr g1 st1 where sel: "sel (ee_draw env i) (ee_now env i) g st = (sr, g1, st1)" by (metis prod_cases3)
  consider (halt) "ee_ctx_err env i \<or> isl sr" | (tried) d where "sr = Inr d" "\<not> ee_ctx_err env i" "dp_ID d \<in> tried"
    | (unknown) d where "sr = Inr d" "\<not> ee_ctx_err env i" "dp_ID d \<notin> tried" "registry (dp_Provider d) = None"
    | (known) d adapter where "sr = Inr d" "\<not> ee_ctx_err env i" "dp_ID d \<notin> tried" "registry (dp_Provider d) = Some adapter"
    by (metis not_None_eq isl_def sum.exhaust)
  then show thesis
  proof cases
    case halt
    then show thesis using assms sel by (intro stop) (cases sr; auto split: if_splits)
  next
    case (tried d)
    then show thesis using assms sel by (intro skip [of d g1 st1 tried]) auto
  next
    case (unknown d)
    then show thesis using assms sel by (intro skip [of d g1 st1 "insert (dp_ID d) tried"]) auto
  next
    case (known d adapter)
    note s = sel [unfolded known(1)]
    show thesis
    proof (cases "TransformRequest J adapter (with_model req (dp_Model d)) (dp_APIKey d)")
      case (Inl err)
      show thesis by (rule again [OF s known(3)]) (use assms sel known Inl in auto)
    next
      case (Inr httpReq)
      show thesis
      proof (cases "ee_Do env i httpReq")
        case Do: (Inl err)
        show thesis by (rule again [OF s known(3)]) (use assms sel known Inr Do in auto)
      next
        case Do: (Inr resp)
        define pe where "pe = ParseProviderError (ee_parse_err env) (hp_Status resp) (read_all resp) (dp_Provider d)
          (dp_Model d) (resp_Get (hp_Header resp) ''Retry-After'')"
        let ?a = "failed_attempt d pe (read_all resp) (hp_Status resp)"
        have a: "consistent ?a" "pe_StatusCode pe = hp_Status resp" by (simp_all add: pe_def)
        consider (ok) "hp_Status resp = 200" | (final) "hp_Status resp \<noteq> 200" "\<not> pe_Retryable pe"
          | (retry) "hp_Status resp \<noteq> 200" "pe_Retryable pe" by blast
        then show thesis
        proof cases
          case ok
          then show thesis using assms sel known Inr Do by (intro connected [OF s known(3)]) auto
        next
          case final
          show thesis by (rule rejected [OF s known(3) _ a(1), of pe])
              (use assms sel known Inr Do final a in \<open>auto simp: Let_def simp flip: pe_def\<close>)
        next
          case retry
          show thesis by (rule again [OF s known(3) _ a(1)])
              (use assms sel known Inr Do retry in \<open>auto simp: Let_def simp flip: pe_def\<close>)
        qed
      qed
    qed
  qed
qed

context routing_strategy
begin

text \<open>While a stream is being connected no deployment is tried twice, only deployments of the group are tried, and the one
  that is connected in the end is another one than those that failed.\<close>

lemma connect_loop_attempts:
  assumes "connect_loop select J registry env req i n g tried attempts st = (r, g', st')"
    and "set (map (\<lambda>a. dp_ID (at_Deployment a)) attempts) \<subseteq> tried"
    and "distinct (map (\<lambda>a. dp_ID (at_Deployment a)) attempts)"
  defines "ids \<equiv> map (\<lambda>a. dp_ID (at_Deployment a)) (cnr_attempts r)"
  shows "distinct ids \<and> length ids \<le> length attempts + n \<and>
    set (map at_Deployment (cnr_attempts r)) \<subseteq> set (map at_Deployment attempts) \<union> set (mg_Deployments g) \<and>
    (case cnr_end r of Connected dep adapter resp \<Rightarrow> dep \<in> set (mg_Deployments g) \<and> dp_ID dep \<notin> set ids \<and>
        length ids < length attempts + n \<and> hp_Status resp = 200 \<and> registry (dp_Provider dep) = Some adapter
      | _ \<Rightarrow> True)"
  using assms(1-3) unfolding ids_def
proof (induction n arbitrary: i g tried attempts st)
  case 0
  then show ?case by auto
next
  case (Suc n)
  have mem: "d \<in> set (mg_Deployments g)" and same: "set (mg_Deployments g1) = set (mg_Deployments g)"
    if "select (ee_draw env i) (ee_now env i) g st = (Inr d, g1, st1)" for d g1 st1
    using select_member [of "ee_draw env i" "ee_now env i" g st d]
      select_group [of "ee_draw env i" "ee_now env i" g st] that by simp_all
  have fresh: "dp_ID d \<notin> dp_ID ` at_Deployment ` set attempts" if "dp_ID d \<notin> tried" for d
    using Suc.prems(2) that by auto
  from Suc.prems(1) show ?case
  proof (cases rule: connect_loop_step)
    case stop
    then show ?thesis using Suc.prems(3) by simp
  next
    case (skip d g1 st1 tried')
    have "set (map (\<lambda>a. dp_ID (at_Deployment a)) attempts) \<subseteq> tried'" using Suc.prems(2) skip(2) by blast
    from Suc.IH [OF skip(3) this Suc.prems(3)] same [OF skip(1)] show ?thesis by (auto split: connection.splits)
  next
    case (again d g1 st1 a st2)
    have "set (map (\<lambda>a. dp_ID (at_Deployment a)) (attempts @ [a])) \<subseteq> insert (dp_ID d) tried"
      "distinct (map (\<lambda>a. dp_ID (at_Deployment a)) (attempts @ [a]))" using Suc.prems(2,3) again(2,3) by auto
    from Suc.IH [OF again(6) this] same [OF again(1)] mem [OF again(1)] again(3) show ?thesis
      by (auto split: connection.splits)
  next
    case (rejected d g1 st1 a pe)
    then show ?thesis
      unfolding rejected(5) using Suc.prems(3) mem fresh by (simp add: image_image subset_insertI2)
  next
    case (connected d g1 st1 adapter resp)
    then show ?thesis unfolding connected(3) using Suc.prems(3) mem fresh by (simp add: image_image)
  qed
qed

end

lemma connect_loop_consistent:
  assumes "connect_loop sel J registry env req i n g tried attempts st = (r, g', st')"
    and "\<And>a. a \<in> set attempts \<Longrightarrow> consistent a"
  shows "(\<forall>a \<in> set (cnr_attempts r). consistent a) \<and>
    (case cnr_end r of Rejected pe status \<Rightarrow> status = pe_StatusCode pe | _ \<Rightarrow> True)"
  using assms
proof (induction n arbitrary: i g tried attempts st)
  case (Suc n)
  from Suc.prems(1) show ?case
  proof (cases rule: connect_loop_step)
    case (skip d g1 st1 tried')
    from Suc.IH [OF skip(3) Suc.prems(2)] show ?thesis by blast
  next
    case (again d g1 st1 a st2)
    from Suc.IH [OF again(6)] again(4) Suc.prems(2) show ?thesis by auto
  qed (use Suc.prems(2) in auto)
qed auto

lemma executeOnce_consistent:
  "consistent (fst (executeOnce (wire J now registry env) i req dep adapter st))"
  "at_Error (fst (executeOnce env' i req dep adapter st)) = None \<longleftrightarrow> at_Response (fst (executeOnce env' i req dep adapter st)) \<noteq> None"
  by (simp_all add: executeOnce_def Let_def consistent_def wire_def gin_status_def split: sum.split)

text \<open>How the retries end: with the attempt that got a response, or with an error and, if it is kept, the last failed attempt.\<close>

lemma retry_loop_final:
  assumes "retry_loop sel (wire J now registry env) cfg req i n g tried attempts st = (r, g', st')"
    and "\<And>a. a \<in> set attempts \<Longrightarrow> consistent a \<and> at_Error a \<noteq> None"
  shows "(case rt_final r of
       None \<Rightarrow> rt_error r \<noteq> None
     | Some a \<Rightarrow> consistent a \<and> a \<in> set (rt_attempts r) \<and> (rt_error r = None \<longleftrightarrow> at_Error a = None) \<and>
         (at_Error a = None \<longleftrightarrow> at_Response a \<noteq> None))"
  using assms
proof (induction n arbitrary: i g tried attempts st)
  case 0
  have "attempts \<noteq> [] \<Longrightarrow> consistent (last attempts) \<and> at_Error (last attempts) \<noteq> None" using 0(2) by simp
  moreover have "consistent a \<Longrightarrow> at_Error a \<noteq> None \<Longrightarrow> at_Response a = None" for a by (auto simp: consistent_def)
  ultimately show ?case using 0(1) by (auto split: if_splits)
next
  case (Suc n)
  let ?env = "wire J now registry env"
  obtain sr g1 st1 where sel: "sel (ee_draw ?env i) (ee_now ?env i) g st = (sr, g1, st1)" by (metis prod_cases3)
  show ?case
  proof (cases "ee_ctx_err ?env i \<or> isl sr")
    case True
    then show ?thesis using Suc.prems(1) sel by (cases sr) (auto split: if_splits)
  next
    case False
    then obtain d where d: "sr = Inr d" "\<not> ee_ctx_err ?env i" by (cases sr) auto
    show ?thesis
    proof (cases "dp_ID d \<in> tried \<or> ee_registry ?env (dp_Provider d) = None")
      case True
      then show ?thesis
        using Suc.prems sel d Suc.IH [of "i + 1" g1 _ attempts st1] by (fastforce simp: Let_def split: if_splits)
    next
      case False
      then obtain ad where ad: "ee_registry ?env (dp_Provider d) = Some ad" by auto
      obtain a st2 where ex: "executeOnce ?env i req d ad st1 = (a, st2)" by fastforce
      have a: "consistent a" "at_Error a = None \<longleftrightarrow> at_Response a \<noteq> None"
        using executeOnce_consistent(1) [of J now registry env i req d ad st1]
          executeOnce_consistent(2) [of ?env i req d ad st1] ex by simp_all
      have "\<And>x. x \<in> set (attempts @ [a]) \<Longrightarrow> at_Error a \<noteq> None \<Longrightarrow> consistent x \<and> at_Error x \<noteq> None"
        using Suc.prems(2) a by auto
      with Suc.prems(1) sel d False ad ex a Suc.IH [of "i + 1" g1 _ "attempts @ [a]"] show ?thesis
        by (fastforce simp: Let_def split: option.splits if_splits)
    qed
  qed
qed

section \<open>Properties\<close>

definition ended :: "ModelGroup \<Rightarrow> ChatCompletionResponse retry_result \<Rightarrow> bool" where
  "ended g r \<longleftrightarrow>
     (case rt_final r of
        None \<Rightarrow> rt_error r \<noteq> None
      | Some a \<Rightarrow> consistent a \<and> at_Deployment a \<in> set (mg_Deployments g) \<and> (rt_error r = None \<longleftrightarrow> at_Error a = None) \<and>
          (at_Error a = None \<longleftrightarrow> at_Response a \<noteq> None))"

lemma smart_complete_final:
  assumes "smart_complete h env c g req st = (out, g', st')"
  obtains r where "ended g r" "so_event out = smart_usage_event env c (rt_final r)" "so_reply out = retry_reply r"
proof -
  let ?W = "wire (sh_json h) (sv_created env) (sh_registry h) (sv_exec env)"
  obtain r g1 st1 where ex: "ExecuteWithRetry (sh_fl h) ?W (sh_retryCfg h) g req st = (r, g1, st1)" by (metis prod_cases3)
  have "ended g r"
  proof (cases "GetStrategy (mg_Strategy g)")
    case (Inl err)
    then show ?thesis using ex by (auto simp: ExecuteWithRetry_def ended_def)
  next
    case (Inr strat)
    then have loop: "retry_loop (Select (sh_fl h) strat) ?W (sh_retryCfg h) req 0 (max_attempts (sh_retryCfg h) g) g {} [] st = (r, g1, st1)"
      using ex by (simp add: ExecuteWithRetry_def)
    have "set (map at_Deployment (rt_attempts r)) \<subseteq> set (mg_Deployments g)"
      using strategies.retry_loop_attempts [OF loop] by simp
    with retry_loop_final [OF loop] show ?thesis by (auto simp: ended_def split: option.splits)
  qed
  then show thesis
    by (rule that) (use assms ex in \<open>auto simp: smart_complete_def Let_def\<close>)
qed

lemma usage_event_fields [simp]:
  "um_TenantID (usage_event env c a u) = cx_tenant_id c" "um_ProjectID (usage_event env c a u) = cx_project_id c"
  "um_KeyID (usage_event env c a u) = cx_key_id c" "um_Provider (usage_event env c a u) = dp_Provider (at_Deployment a)"
  "um_Model (usage_event env c a u) = dp_Model (at_Deployment a)"
  "um_InputTokens (usage_event env c a u) = cu_PromptTokens u" "um_OutputTokens (usage_event env c a u) = cu_CompletionTokens u"
  "um_APIUsageBilled (usage_event env c a u) = IsBillableMode (cx_billing_mode c)"
  by (simp_all add: usage_event_def)

lemma gin_status_200 [simp]: "gin_status 200 = 200"
  by (simp add: gin_status_def)

text \<open>C39: without streaming the smart proxy meters exactly what it delivers: for an authenticated tenant it publishes one
  usage event if and only if it replies with a chat response that reports its usage, and the event has the
  tenant, the project, the key and the token counts of that reply and names the deployment of the group that answered.\<close>

theorem smart_proxy_meters_deliveries:
  assumes "unmarshal (sh_json h) un_ChatCompletionRequest zero_Request body = Some req" "\<not> rq_Stream req"
    and "cx_tenant_id c \<noteq> 0" "HandleSmartProxy h env c body (gs, st) = (out, gs', st')"
  shows "case so_event out of
      None \<Rightarrow> (case sp_Body (so_reply out) of ChatBody resp \<Rightarrow> cr_Usage resp = None | _ \<Rightarrow> True)
    | Some ev \<Rightarrow> (\<exists>resp u g d. so_reply out = \<lparr>sp_Status = 200, sp_Body = ChatBody resp\<rparr> \<and> cr_Usage resp = Some u \<and>
        GetModelGroup gs (rq_Model req) = Inr g \<and> d \<in> set (mg_Deployments g) \<and>
        um_Provider ev = dp_Provider d \<and> um_Model ev = dp_Model d \<and>
        um_InputTokens ev = cu_PromptTokens u \<and> um_OutputTokens ev = cu_CompletionTokens u \<and>
        um_TenantID ev = cx_tenant_id c \<and> um_ProjectID ev = cx_project_id c \<and> um_KeyID ev = cx_key_id c \<and>
        um_APIUsageBilled ev = IsBillableMode (cx_billing_mode c))"
proof (cases "rq_Model req = [] \<or> isl (GetModelGroup gs (rq_Model req))")
  case True
  then show ?thesis
    using assms(1,4) by (cases "GetModelGroup gs (rq_Model req)") (auto simp: HandleSmartProxy_def refuse_def c_JSON_def split: if_splits)
next
  case False
  then obtain g where g: "GetModelGroup gs (rq_Model req) = Inr g" by (cases "GetModelGroup gs (rq_Model req)") auto
  obtain g' where "smart_complete h env c g req st = (out, g', st')"
    using assms(1,2,4) False g by (auto simp: HandleSmartProxy_def split: prod.splits)
  then show ?thesis
  proof (rule smart_complete_final)
    fix r :: "ChatCompletionResponse retry_result"
    assume F: "ended g r" and E: "so_event out = smart_usage_event env c (rt_final r)" and R: "so_reply out = retry_reply r"
    consider (none) "rt_final r = None" | (failed) a where "rt_final r = Some a" "at_Response a = None"
      | (answered) a resp where "rt_final r = Some a" "at_Response a = Some resp" by (metis not_None_eq)
    then show ?thesis
    proof cases
      case none
      with F E R show ?thesis by (auto simp: ended_def smart_usage_event_def retry_reply_def c_JSON_def)
    next
      case failed
      with F E R show ?thesis
        by (auto simp: ended_def smart_usage_event_def attempt_usage_def retry_reply_def c_JSON_def split: option.splits)
    next
      case answered
      then have "rt_error r = None" "at_Deployment a \<in> set (mg_Deployments g)" using F by (auto simp: ended_def)
      with answered E R g assms(3) show ?thesis
        by (cases "cr_Usage resp") (auto simp: smart_usage_event_def attempt_usage_def retry_reply_def c_JSON_def)
    qed
  qed
qed

text \<open>A group with one deployment of OpenAI, which answers every request with the same response.\<close>

definition demo_chat_request :: ChatCompletionRequest where
  "demo_chat_request = zero_Request\<lparr>rq_Model := ''g'', rq_Messages := Some []\<rparr>"

definition demo_chat_text :: json_text where
  "demo_chat_text = \<lparr>jt_Unmarshal = (\<lambda>s. if s = ''Q'' then Some (json_ChatCompletionRequest demo_chat_request)
       else if s = ''R'' then Some (JObj [(''id'', JStr ''c1''), (''usage'', JObj [(''prompt_tokens'', JInt 3), (''completion_tokens'', JInt 5)])])
       else None),
     jt_Marshal = (\<lambda>_. [])\<rparr>"

definition demo_chat_env :: "string \<Rightarrow> smart_env" where
  "demo_chat_env body =
     \<lparr>sv_exec = \<lparr>ee_registry = Map.empty, ee_with_model = with_model,
        ee_Do = (\<lambda>_ _. if body = [] then Inl ''connection refused'' else Inr \<lparr>hp_Status = 200, hp_Header = [], hp_Body = Some body\<rparr>),
        ee_StatusCode = hp_Status, ee_Body = read_all, ee_RetryAfter = (\<lambda>_. []), ee_parse_err = (\<lambda>_. None), ee_now = (\<lambda>_. 0),
        ee_end = (\<lambda>_. 0), ee_ttfb = (\<lambda>_. 1), ee_draw = (\<lambda>_. \<lparr>dr_Float64 = 0, dr_int = 0\<rparr>), ee_ctx_err = (\<lambda>_. False),
        ee_ctx_err_do = (\<lambda>_. False), ee_ctx_done_wait = (\<lambda>_. False)\<rparr>,
      sv_requestID = ''r'', sv_uuid = ''u'', sv_created = 0, sv_latency = 2, sv_now = noon, sv_gone = (\<lambda>_. False),
      sv_wfail = (\<lambda>_. False)\<rparr>"

definition demo_chat_group :: "string \<Rightarrow> ModelGroup" where
  "demo_chat_group prov = \<lparr>mg_Name = ''g'', mg_Strategy = ''fallback'',
     mg_Deployments = [\<lparr>dp_ID = ''d1'', dp_Provider = prov, dp_Model = ''gpt-4o'', dp_APIKey = ''sk'', dp_Priority = 0, dp_Weight = 1,
       dp_CostPer1KInput = 0, dp_CostPer1KOutput = 0\<rparr>]\<rparr>"

definition demo_caller :: gin_context where
  "demo_caller = \<lparr>cx_tenant_id = 4, cx_project_id = 5, cx_key_id = ''k'', cx_provider = [], cx_auth_method = [],
     cx_billing_mode = BillingModeAPIUsage, cx_api_key = None\<rparr>"

abbreviation demo_smart :: SmartProxyHandler where
  "demo_smart \<equiv> NewSmartProxyHandler demo_chat_text id"

lemma demo_unmarshal [simp]:
  "unmarshal demo_chat_text un_ChatCompletionRequest zero_Request ''Q'' = Some demo_chat_request"
proof -
  have "decoded_request demo_chat_request" by (simp add: demo_chat_request_def zero_Request_def decoded_request_def)
  from rt_Request [OF this] show ?thesis by (simp add: unmarshal_def demo_chat_text_def reads_back_def)
qed

lemma demo_select:
  "Fallback_Select now (demo_chat_group prov) NewRouterState = Inr (hd (mg_Deployments (demo_chat_group prov)))"
  by (simp add: Fallback_Select_def demo_chat_group_def usable_def NewRouterState_def IsHealthy_def getOrCreate_def ShouldAvoid_def)

lemma demo_response_decoded:
  "unmarshal demo_chat_text un_ChatCompletionResponse zero_Response ''R'' =
    Some (zero_Response\<lparr>cr_ID := ''c1'', cr_Usage := Some \<lparr>cu_PromptTokens = 3, cu_CompletionTokens = 5, cu_TotalTokens = 0\<rparr>\<rparr>)"
  by (simp add: unmarshal_def demo_chat_text_def un_ChatCompletionResponse_def zero_Response_def fld_def un_str_def un_ptr_def
      un_Usage_def zero_Usage_def un_int_def int64_range_def)

lemma demo_strategy: "GetStrategy (mg_Strategy (demo_chat_group prov)) = Inr FallbackStrategy"
  by (simp add: demo_chat_group_def GetStrategy_def)

lemma demo_attempts: "max_attempts DefaultRetryConfig (demo_chat_group prov) = Suc 0"
  by (simp add: demo_chat_group_def max_attempts_def DefaultRetryConfig_def)

lemma NewRegistry_eq: "NewRegistry = [''openai'' \<mapsto> OpenAIAdapter [], ''anthropic'' \<mapsto> AnthropicAdapter,
    ''deepseek'' \<mapsto> DeepSeekAdapter, ''mistral'' \<mapsto> MistralAdapter]"
  by (simp add: NewRegistry_def Register_def)

definition demo_answer :: ChatCompletionResponse where
  "demo_answer = zero_Response\<lparr>cr_ID := ''c1'', cr_Usage := Some \<lparr>cu_PromptTokens = 3, cu_CompletionTokens = 5, cu_TotalTokens = 0\<rparr>\<rparr>"

lemma demo_execute:
  "fst (ExecuteWithRetry id (wire demo_chat_text 0 NewRegistry (sv_exec (demo_chat_env ''R''))) DefaultRetryConfig
      (demo_chat_group ''openai'') req NewRouterState) =
    \<lparr>rt_final = Some \<lparr>at_Deployment = hd (mg_Deployments (demo_chat_group ''openai'')), at_Response = Some demo_answer,
        at_Error = None, at_RawBody = [], at_StatusCode = 200\<rparr>,
     rt_attempts = [\<lparr>at_Deployment = hd (mg_Deployments (demo_chat_group ''openai'')), at_Response = Some demo_answer,
        at_Error = None, at_RawBody = [], at_StatusCode = 200\<rparr>],
     rt_error = None\<rparr>"
proof -
  have prov: "dp_Provider (hd (mg_Deployments (demo_chat_group ''openai''))) = ''openai''" by (simp add: demo_chat_group_def)
  show ?thesis
    unfolding ExecuteWithRetry_def demo_strategy demo_attempts
    by (simp add: demo_select prov wire_def demo_chat_env_def NewRegistry_eq executeOnce_def chat_adapter_def
        OpenAI_TransformRequest_def OpenAI_TransformResponse_def chat_response_def demo_response_decoded Let_def demo_answer_def)
qed

lemma demo_chat_request_fields [simp]: "rq_Model demo_chat_request = ''g''" "\<not> rq_Stream demo_chat_request"
  by (simp_all add: demo_chat_request_def zero_Request_def)

lemma demo_smart_event:
  "so_event (fst (HandleSmartProxy demo_smart (demo_chat_env ''R'') demo_caller ''Q''
      ([''g'' \<mapsto> demo_chat_group ''openai''], NewRouterState))) \<noteq> None"
proof -
  have "so_event (fst (smart_complete demo_smart (demo_chat_env ''R'') demo_caller (demo_chat_group ''openai'')
      demo_chat_request NewRouterState)) \<noteq> None"
    using demo_execute [of demo_chat_request]
    by (simp add: smart_complete_def NewSmartProxyHandler_def case_prod_unfold Let_def smart_usage_event_def demo_caller_def
        attempt_usage_def demo_answer_def demo_chat_env_def zero_Response_def)
  then show ?thesis
    by (simp add: HandleSmartProxy_def GetModelGroup_def NewSmartProxyHandler_def case_prod_unfold)
qed

theorem smart_proxy_meters_deliveries_witness:
  "\<exists>ev resp u. so_event (fst (HandleSmartProxy demo_smart (demo_chat_env ''R'') demo_caller ''Q''
        ([''g'' \<mapsto> demo_chat_group ''openai''], NewRouterState))) = Some ev \<and> cr_Usage resp = Some u \<and>
     so_reply (fst (HandleSmartProxy demo_smart (demo_chat_env ''R'') demo_caller ''Q''
        ([''g'' \<mapsto> demo_chat_group ''openai''], NewRouterState))) = \<lparr>sp_Status = 200, sp_Body = ChatBody resp\<rparr> \<and>
     um_TenantID ev = 4 \<and> um_Model ev = ''gpt-4o'' \<and> um_OutputTokens ev = cu_CompletionTokens u"
proof -
  obtain out gs' st' where H: "HandleSmartProxy demo_smart (demo_chat_env ''R'') demo_caller ''Q''
      ([''g'' \<mapsto> demo_chat_group ''openai''], NewRouterState) = (out, gs', st')" by (metis prod_cases3)
  then obtain ev where "so_event out = Some ev" using demo_smart_event by auto
  with smart_proxy_meters_deliveries [OF _ _ _ H, of demo_chat_request] show ?thesis
    unfolding H by (auto simp: NewSmartProxyHandler_def demo_caller_def GetModelGroup_def demo_chat_group_def)
qed

text \<open>The status of an error reply of the smart proxy is the status with which the provider answered; when no provider
  answered at all there is none to pass on, and the client gets its error with status 200.\<close>

theorem error_reply_status:
  assumes "HandleSmartProxy h env c body (gs, st) = (out, gs', st')" "sp_Body (so_reply out) = ProviderErrorBody pe"
  shows "sp_Status (so_reply out) = (if 0 < pe_StatusCode pe then pe_StatusCode pe else 200)"
proof -
  obtain req where req: "unmarshal (sh_json h) un_ChatCompletionRequest zero_Request body = Some req"
    using assms by (cases "unmarshal (sh_json h) un_ChatCompletionRequest zero_Request body")
      (auto simp: HandleSmartProxy_def refuse_def c_JSON_def)
  obtain g where g: "GetModelGroup gs (rq_Model req) = Inr g" and ne: "rq_Model req \<noteq> []"
    using assms req by (cases "GetModelGroup gs (rq_Model req)")
      (auto simp: HandleSmartProxy_def refuse_def c_JSON_def split: if_splits)
  show ?thesis
  proof (cases "rq_Stream req")
    case False
    then obtain g' where "smart_complete h env c g req st = (out, g', st')"
      using assms(1) req g ne by (auto simp: HandleSmartProxy_def split: prod.splits)
    then show ?thesis
    proof (rule smart_complete_final)
      fix r :: "ChatCompletionResponse retry_result"
      assume "ended g r" "so_reply out = retry_reply r"
      with assms(2) show ?thesis
        by (auto simp: ended_def retry_reply_def c_JSON_def consistent_def gin_status_def Let_def split: option.splits if_splits)
    qed
  next
    case True
    then obtain g' where hs: "handleStream h env c g req st = (out, g', st')"
      using assms(1) req g ne by (auto simp: HandleSmartProxy_def split: prod.splits)
    with assms(2) obtain strat where strat: "GetStrategy (mg_Strategy g) = Inr strat"
      by (cases "GetStrategy (mg_Strategy g)") (auto simp: handleStream_def refuse_def c_JSON_def)
    obtain r g1 st1 where loop: "connect_loop (Select (sh_fl h) strat) (sh_json h) (sh_registry h) (sv_exec env) req 0
        (max_attempts (sh_retryCfg h) g) g {} [] st = (r, g1, st1)" by (metis prod_cases3)
    note all = connect_loop_consistent [OF loop]
    have last: "gin_status (at_StatusCode (last (cnr_attempts r))) = gin_status (pe_StatusCode pe)"
      if "cnr_attempts r \<noteq> []" "at_Error (last (cnr_attempts r)) = Some pe"
      using all that by (auto simp: consistent_def dest!: bspec [OF _ last_in_set])
    have rejected: "status = pe_StatusCode p" if "cnr_end r = Rejected p status" for p status using all that by simp
    have "sp_Status (so_reply out) = gin_status (pe_StatusCode pe)"
    proof (cases "cnr_end r")
      case (Connected dep adapter resp)
      then have "\<exists>s. sp_Body (so_reply out) = EventStream s"
        using hs by (auto simp: handleStream_def strat loop Let_def c_JSON_def)
      with assms(2) show ?thesis by simp
    next
      case (Rejected p status)
      then have "so_reply out = c_JSON status (ProviderErrorBody p)"
        using hs by (auto simp: handleStream_def strat loop Let_def)
      with assms(2) rejected [OF Rejected] show ?thesis by (simp add: c_JSON_def)
    next
      case Exhausted
      let ?l = "last (cnr_attempts r)"
      have "so_reply out = (if cnr_attempts r = [] \<or> at_Error ?l = None
          then c_JSON 502 (OpenAIError ''all deployments exhausted'' ''server_error'')
          else c_JSON (at_StatusCode ?l) (ProviderErrorBody (the (at_Error ?l))))"
        using hs Exhausted by (cases "at_Error ?l") (auto simp: handleStream_def strat loop Let_def)
      with assms(2) last show ?thesis by (auto simp: c_JSON_def split: if_splits)
    qed
    then show ?thesis by (simp add: gin_status_def)
  qed
qed

lemma demo_refused:
  "so_reply (fst (smart_complete demo_smart (demo_chat_env []) demo_caller (demo_chat_group ''openai'') demo_chat_request NewRouterState)) =
    \<lparr>sp_Status = 200, sp_Body = ProviderErrorBody (server_error (hd (mg_Deployments (demo_chat_group ''openai''))) 0 ''server_error''
       ''request failed: connection refused'' True)\<rparr>"
proof -
  have prov: "dp_Provider (hd (mg_Deployments (demo_chat_group ''openai''))) = ''openai''" by (simp add: demo_chat_group_def)
  have "computeBackoff DefaultRetryConfig 0 a = 0 \<or> \<not> ee_ctx_done_wait (wire J now registry (sv_exec (demo_chat_env []))) 0" for a J now registry
    by (simp add: wire_def demo_chat_env_def)
  then show ?thesis
    unfolding smart_complete_def ExecuteWithRetry_def NewSmartProxyHandler_def
    by (simp add: demo_strategy demo_attempts demo_select prov wire_def demo_chat_env_def NewRegistry_eq executeOnce_def chat_adapter_def
        OpenAI_TransformRequest_def Let_def server_error_def retry_reply_def c_JSON_def gin_status_def)
qed

theorem error_reply_status_witness:
  "\<exists>pe. sp_Body (so_reply (fst (HandleSmartProxy demo_smart (demo_chat_env []) demo_caller ''Q''
        ([''g'' \<mapsto> demo_chat_group ''openai''], NewRouterState)))) = ProviderErrorBody pe \<and> pe_StatusCode pe = 0 \<and>
     sp_Status (so_reply (fst (HandleSmartProxy demo_smart (demo_chat_env []) demo_caller ''Q''
        ([''g'' \<mapsto> demo_chat_group ''openai''], NewRouterState)))) = 200"
proof -
  obtain out gs' st' where H: "HandleSmartProxy demo_smart (demo_chat_env []) demo_caller ''Q''
      ([''g'' \<mapsto> demo_chat_group ''openai''], NewRouterState) = (out, gs', st')" by (metis prod_cases3)
  have "so_reply (fst (HandleSmartProxy demo_smart (demo_chat_env []) demo_caller ''Q''
      ([''g'' \<mapsto> demo_chat_group ''openai''], NewRouterState))) =
      so_reply (fst (smart_complete demo_smart (demo_chat_env []) demo_caller (demo_chat_group ''openai'') demo_chat_request NewRouterState))"
    by (simp add: HandleSmartProxy_def GetModelGroup_def NewSmartProxyHandler_def case_prod_unfold)
  then have "\<exists>pe. sp_Body (so_reply out) = ProviderErrorBody pe \<and> pe_StatusCode pe = 0" unfolding H demo_refused by simp
  with error_reply_status [OF H] show ?thesis unfolding H by auto
qed

lemma smart_caller_irrelevant:
  "so_reply (fst (HandleSmartProxy h env c body s)) = so_reply (fst (HandleSmartProxy h env c' body s)) \<and>
   so_log (fst (HandleSmartProxy h env c body s)) = so_log (fst (HandleSmartProxy h env c' body s)) \<and>
   snd (HandleSmartProxy h env c body s) = snd (HandleSmartProxy h env c' body s)"
proof -
  have stream: "so_reply (fst (handleStream h env c g req st)) = so_reply (fst (handleStream h env c' g req st)) \<and>
      so_log (fst (handleStream h env c g req st)) = so_log (fst (handleStream h env c' g req st)) \<and>
      snd (handleStream h env c g req st) = snd (handleStream h env c' g req st)" for g req st
    by (simp add: handleStream_def Let_def split: sum.split prod.split connection.split)
  have complete: "so_reply (fst (smart_complete h env c g req st)) = so_reply (fst (smart_complete h env c' g req st)) \<and>
      so_log (fst (smart_complete h env c g req st)) = so_log (fst (smart_complete h env c' g req st)) \<and>
      snd (smart_complete h env c g req st) = snd (smart_complete h env c' g req st)" for g req st
    by (simp add: smart_complete_def Let_def split: prod.split)
  show ?thesis
    by (cases s) (simp add: HandleSmartProxy_def case_prod_unfold stream complete split: option.split sum.split)
qed

lemmas smart_reply_same = conjunct1 [OF smart_caller_irrelevant]

lemma BuildRouteLog_fields [simp]:
  "rlg_FallbackChain (BuildRouteLog i gn rm s f attempts cost) = map (\<lambda>a. dp_ID (at_Deployment a)) attempts"
  "rlg_AttemptCount (BuildRouteLog i gn rm s f attempts cost) = length attempts"
  "rlg_Success (BuildRouteLog i gn rm s (Some a) attempts cost) = (at_Error a = None)"
  "rlg_DeploymentID (BuildRouteLog i gn rm s (Some a) attempts cost) = dp_ID (at_Deployment a)"
  by (simp_all add: BuildRouteLog_def Let_def split: option.split)

text \<open>What a stream request comes to, in terms of the phase in which it is connected.\<close>

lemma handleStream_cases:
  assumes "handleStream h env c g req st = (out, g', st')"
  obtains (strategy) "isl (GetStrategy (mg_Strategy g))" "so_log out = None" "so_event out = None"
      "\<And>s. sp_Body (so_reply out) \<noteq> EventStream s"
  | (failed) r strat st1 where "connect_loop (Select (sh_fl h) strat) (sh_json h) (sh_registry h) (sv_exec env) req 0
        (max_attempts (sh_retryCfg h) g) g {} [] st = (r, g', st1)"
      "\<exists>f. so_log out = Some (BuildRouteLog (sv_requestID env) (mg_Name g) (rq_Model req) True f (cnr_attempts r) None)"
      "so_event out = None" "\<And>s. sp_Body (so_reply out) \<noteq> EventStream s"
  | (streamed) r strat st1 dep adapter resp s final cost where "connect_loop (Select (sh_fl h) strat) (sh_json h) (sh_registry h)
        (sv_exec env) req 0 (max_attempts (sh_retryCfg h) g) g {} [] st = (r, g', st1)"
      "cnr_end r = Connected dep adapter resp"
      "s = streamResponse (sh_json h) (case getStreamAdapter (sh_registry h) (dp_Provider dep) of None \<Rightarrow> adapter | Some a \<Rightarrow> a)
        (sv_created env) (sv_gone env) (sv_wfail env) (read_all resp)"
      "sp_Body (so_reply out) = EventStream (str_Out s)" "at_Deployment final = dep" "at_Error final = None"
      "so_event out = smart_usage_event env c (Some final)" "attempt_usage final = str_Usage s"
      "so_log out = Some (BuildRouteLog (sv_requestID env) (mg_Name g) (rq_Model req) True (Some final) (cnr_attempts r @ [final]) cost)"
proof (cases "GetStrategy (mg_Strategy g)")
  case (Inl err)
  then show thesis using assms by (intro strategy) (auto simp: handleStream_def refuse_def c_JSON_def)
next
  case (Inr strat)
  obtain r g1 st1 where loop: "connect_loop (Select (sh_fl h) strat) (sh_json h) (sh_registry h) (sv_exec env) req 0
      (max_attempts (sh_retryCfg h) g) g {} [] st = (r, g1, st1)" by (metis prod_cases3)
  then have g1: "g1 = g'" using assms by (cases "cnr_end r") (auto simp: handleStream_def Inr Let_def)
  note loop' = loop [unfolded g1]
  show thesis
  proof (cases "cnr_end r")
    case (Connected dep adapter resp)
    let ?s = "streamResponse (sh_json h) (case getStreamAdapter (sh_registry h) (dp_Provider dep) of None \<Rightarrow> adapter | Some a \<Rightarrow> a)
        (sv_created env) (sv_gone env) (sv_wfail env) (read_all resp)"
    let ?final = "\<lparr>at_Deployment = dep, at_Response = map_option (\<lambda>u. zero_Response\<lparr>cr_Usage := Some u\<rparr>) (str_Usage ?s),
                              at_Error = None, at_RawBody = [], at_StatusCode = 200\<rparr>"
    have "attempt_usage ?final = str_Usage ?s" by (cases "str_Usage ?s") (simp_all add: attempt_usage_def)
    then show thesis
      using assms Connected
      by (intro streamed [OF loop' Connected refl, of ?final]) (auto simp: handleStream_def Inr loop' Let_def c_JSON_def)
  next
    case (Rejected p status)
    then show thesis
      using assms by (intro failed [OF loop']) (auto simp: handleStream_def Inr loop' Let_def c_JSON_def)
  next
    case Exhausted
    have "\<And>s. sp_Body (so_reply out) \<noteq> EventStream s"
      using assms Exhausted by (cases "at_Error (last (cnr_attempts r))") (auto simp: handleStream_def Inr loop' Let_def c_JSON_def split: if_splits)
    then show thesis
      using assms Exhausted by (intro failed [OF loop']) (auto simp: handleStream_def Inr loop' Let_def)
  qed
qed

text \<open>Streams fall back while they are connected and only then: no deployment is tried twice, there are no
  more attempts than the configuration and the group allow, all of them go to deployments of the group, a stream
  reaches the client only from a deployment that answered with status 200 after all others had failed, and nothing is
  metered without one.\<close>

theorem smart_stream_fallback:
  assumes "handleStream h env c g req st = (out, g', st')"
  shows "case so_log out of
      None \<Rightarrow> isl (GetStrategy (mg_Strategy g)) \<and> so_event out = None
    | Some l \<Rightarrow> distinct (rlg_FallbackChain l) \<and> length (rlg_FallbackChain l) = rlg_AttemptCount l \<and>
        rlg_AttemptCount l \<le> max_attempts (sh_retryCfg h) g \<and>
        set (rlg_FallbackChain l) \<subseteq> dp_ID ` set (mg_Deployments g) \<and>
        (case sp_Body (so_reply out) of
           EventStream s \<Rightarrow> rlg_Success l \<and> last (rlg_FallbackChain l) = rlg_DeploymentID l
         | _ \<Rightarrow> so_event out = None)"
  using assms
proof (cases rule: handleStream_cases)
  case strategy
  then show ?thesis by simp
next
  case (failed r strat st1)
  have mem: "set (map at_Deployment (cnr_attempts r)) \<subseteq> set (mg_Deployments g)"
    and "distinct (map (\<lambda>a. dp_ID (at_Deployment a)) (cnr_attempts r))" "length (cnr_attempts r) \<le> max_attempts (sh_retryCfg h) g"
    using strategies.connect_loop_attempts [OF failed(1)] by simp_all
  moreover have "set (map (\<lambda>a. dp_ID (at_Deployment a)) (cnr_attempts r)) \<subseteq> dp_ID ` set (mg_Deployments g)"
    using mem by fastforce
  ultimately show ?thesis using failed(2-4) by (auto split: smart_body.split)
next
  case (streamed r strat st1 dep adapter resp s final cost)
  have mem: "set (map at_Deployment (cnr_attempts r)) \<subseteq> set (mg_Deployments g)"
    and "distinct (map (\<lambda>a. dp_ID (at_Deployment a)) (cnr_attempts r))"
    "dep \<in> set (mg_Deployments g)" "dp_ID dep \<notin> set (map (\<lambda>a. dp_ID (at_Deployment a)) (cnr_attempts r))"
    "length (cnr_attempts r) < max_attempts (sh_retryCfg h) g"
    using strategies.connect_loop_attempts [OF streamed(1)] streamed(2) by simp_all
  moreover have "set (map (\<lambda>a. dp_ID (at_Deployment a)) (cnr_attempts r)) \<subseteq> dp_ID ` set (mg_Deployments g)"
    using mem by fastforce
  ultimately show ?thesis using streamed(4-9) by auto
qed

theorem smart_stream_fallback_witness:
  "\<exists>l. so_log (fst (handleStream demo_smart (demo_chat_env []) demo_caller (demo_chat_group ''openai'') demo_chat_request NewRouterState)) =
      Some l \<and> distinct (rlg_FallbackChain l) \<and> rlg_AttemptCount l \<le> 1"
proof -
  obtain out g' st' where H: "handleStream demo_smart (demo_chat_env []) demo_caller (demo_chat_group ''openai'') demo_chat_request
      NewRouterState = (out, g', st')" by (metis prod_cases3)
  have "max_attempts (sh_retryCfg demo_smart) (demo_chat_group ''openai'') = 1"
    by (simp add: NewSmartProxyHandler_def demo_attempts)
  with smart_stream_fallback [OF H] show ?thesis unfolding H by (auto simp: demo_strategy split: option.splits)
qed

text \<open>C40: streams of Anthropic do not work through the smart proxy: when the deployments of a group are Anthropic's, no
  byte of any stream reaches the client, not even the end mark, and no usage event is published, however many
  tokens were used.\<close>

theorem anthropic_streams_are_empty:
  assumes "handleStream h env c g req st = (out, g', st')"
    and "list_all (\<lambda>d. dp_Provider d = ''anthropic'') (mg_Deployments g)"
  shows "so_event out = None \<and> (case sp_Body (so_reply out) of EventStream s \<Rightarrow> s = [] | _ \<Rightarrow> True)"
  using assms(1)
proof (cases rule: handleStream_cases)
  case (streamed r strat st1 dep adapter resp s final cost)
  have "dp_Provider dep = ''anthropic''"
    using strategies.connect_loop_attempts [OF streamed(1)] streamed(2) assms(2) by (simp add: list_all_iff)
  then have "str_Usage s = None" "str_Out s = []"
    using streamed(3) by (simp_all add: getStreamAdapter_def anthropic_stream_empty)
  with streamed show ?thesis by (simp add: smart_usage_event_def)
next
  case strategy
  then show ?thesis by (simp split: smart_body.split)
next
  case failed
  then show ?thesis by (simp split: smart_body.split)
qed

theorem anthropic_streams_are_empty_witness:
  "sp_Body (so_reply (fst (handleStream demo_smart (demo_chat_env (''event: ping'' @ [newline])) demo_caller
      (demo_chat_group ''anthropic'') demo_chat_request NewRouterState))) = EventStream []"
proof -
  let ?env = "demo_chat_env (''event: ping'' @ [newline])"
  obtain out g' st' where H: "handleStream demo_smart ?env demo_caller (demo_chat_group ''anthropic'') demo_chat_request
      NewRouterState = (out, g', st')" by (metis prod_cases3)
  have prov: "dp_Provider (hd (mg_Deployments (demo_chat_group ''anthropic''))) = ''anthropic''"
    "list_all (\<lambda>d. dp_Provider d = ''anthropic'') (mg_Deployments (demo_chat_group ''anthropic''))"
    by (simp_all add: demo_chat_group_def)
  have req: "\<exists>hq. Anthropic_TransformRequest demo_chat_text (with_model demo_chat_request m) k = Inr hq" for m k
    by (simp add: Anthropic_TransformRequest_def buildAnthropicRequest_def with_model_def demo_chat_request_def zero_Request_def)
  then obtain hq where hq: "Anthropic_TransformRequest demo_chat_text (with_model demo_chat_request
      (dp_Model (hd (mg_Deployments (demo_chat_group ''anthropic''))))) (dp_APIKey (hd (mg_Deployments (demo_chat_group ''anthropic'')))) = Inr hq"
    by blast
  have "\<exists>s. sp_Body (so_reply (fst (handleStream demo_smart ?env demo_caller (demo_chat_group ''anthropic'') demo_chat_request
      NewRouterState))) = EventStream s"
    unfolding handleStream_def NewSmartProxyHandler_def
    by (simp add: demo_strategy demo_attempts demo_select prov NewRegistry_eq hq demo_chat_env_def c_JSON_def Let_def)
  with anthropic_streams_are_empty [OF H prov(2)] show ?thesis unfolding H by auto
qed

end
