(* ===== verification/ModelGroups.thy ===== *)
theory ModelGroups
  imports SmartProxy ProviderKeys
begin

text \<open>
  The configuration of model groups (\<open>services/model_group_service.go\<close>, \<open>api/model_groups.go\<close>): the operations that store a
  tenant's groups in the database, resolve the provider keys of their deployments and keep the router, which all
  tenants share, in step.

  The tables are lists of rows; a statement of an operation fails when \<open>me_fault\<close> says so for its number. The identifiers
  that the sequences yield are drawn from the environment. A column with a database default takes the default when the Go value
  is zero, and a deployment that names an existing identifier is only moved to the new group: this is what gorm
  documents for default values and for the upsert of associations. \<open>me_writeback\<close> tells whether gorm writes the
  updated columns back into the loaded model.
\<close>

section \<open>State\<close>

record ModelGroupDeployment =
  md_ID :: nat
  md_ModelGroupID :: nat
  md_Provider :: string
  md_Model :: string
  md_ProviderKeyID :: "nat option"
  md_Priority :: int
  md_Weight :: int
  md_CostPer1KInput :: rat
  md_CostPer1KOutput :: rat
  md_Enabled :: bool

record ModelGroupConfig =
  mc_ID :: nat
  mc_TenantID :: nat
  mc_Name :: string
  mc_Strategy :: string
  mc_Description :: string
  mc_Enabled :: bool

record 's mg_state =
  ms_Configs :: "ModelGroupConfig list"
  ms_Deps :: "ModelGroupDeployment list"
  ms_Groups :: groups
  ms_Keys :: "'s \<times> plaintext_cache"

record mg_env =
  me_now :: int
  me_now' :: int
  me_keys :: pk_db
  me_fault :: "nat \<Rightarrow> bool"
  me_config_id :: nat
  me_dep_id :: "nat \<Rightarrow> nat"
  me_dup_msg :: string
  me_writeback :: bool

datatype mg_error = ErrModelGroupNotFound | ErrModelGroupExists | ErrDatabase string

section \<open>From the configuration to the router\<close>

definition resolveDeploymentKey :: "('s, 'v) ProviderKeyService \<Rightarrow> mg_env \<Rightarrow> nat \<Rightarrow> string \<Rightarrow> nat option \<Rightarrow> 's \<times> plaintext_cache \<Rightarrow>
    (pk_error, string) result \<times> 's \<times> plaintext_cache" where
  "resolveDeploymentKey svc env tenantID providerName providerKeyID keys =
     (case providerKeyID of
        Some keyID \<Rightarrow>
          if 0 < keyID
          then (case GetPlaintext svc (me_now env) (me_now' env) keyID (me_keys env) (snd keys) of (r, cache) \<Rightarrow> (r, fst keys, cache))
          else GetActiveKey svc (me_now env) (me_now' env) tenantID providerName (me_keys env) keys
      | None \<Rightarrow> GetActiveKey svc (me_now env) (me_now' env) tenantID providerName (me_keys env) keys)"

definition deployment_id :: "nat \<Rightarrow> nat \<Rightarrow> string" where
  "deployment_id cfgID depID = ''mg-'' @ show_nat cfgID @ ''-dep-'' @ show_nat depID"

fun resolve_deployments :: "('s, 'v) ProviderKeyService \<Rightarrow> mg_env \<Rightarrow> nat \<Rightarrow> nat \<Rightarrow> ModelGroupDeployment list \<Rightarrow>
    's \<times> plaintext_cache \<Rightarrow> (pk_error, Deployment list) result \<times> 's \<times> plaintext_cache" where
  "resolve_deployments svc env tenantID cfgID [] keys = (Inr [], keys)"
| "resolve_deployments svc env tenantID cfgID (dep # deps) keys =
     (if \<not> md_Enabled dep then resolve_deployments svc env tenantID cfgID deps keys
      else (case resolveDeploymentKey svc env tenantID (md_Provider dep) (md_ProviderKeyID dep) keys of
              (Inl err, keys1) \<Rightarrow> (Inl err, keys1)
            | (Inr apiKey, keys1) \<Rightarrow>
                (case resolve_deployments svc env tenantID cfgID deps keys1 of
                   (Inl err, keys2) \<Rightarrow> (Inl err, keys2)
                 | (Inr rest, keys2) \<Rightarrow>
                     (Inr (\<lparr>dp_ID = deployment_id cfgID (md_ID dep), dp_Provider = md_Provider dep, dp_Model = md_Model dep,
                        dp_APIKey = apiKey, dp_Priority = md_Priority dep, dp_Weight = md_Weight dep,
                        dp_CostPer1KInput = md_CostPer1KInput dep, dp_CostPer1KOutput = md_CostPer1KOutput dep\<rparr> # rest), keys2))))"

text \<open>None is an error: a key that does not resolve, or no enabled deployment.\<close>

definition configToModelGroup :: "('s, 'v) ProviderKeyService \<Rightarrow> mg_env \<Rightarrow> nat \<Rightarrow> ModelGroupConfig \<Rightarrow> ModelGroupDeployment list \<Rightarrow>
    's \<times> plaintext_cache \<Rightarrow> ModelGroup option \<times> 's \<times> plaintext_cache" where
  "configToModelGroup svc env tenantID cfg deps keys =
     (case resolve_deployments svc env tenantID (mc_ID cfg) deps keys of
        (Inl err, keys') \<Rightarrow> (None, keys')
      | (Inr ds, keys') \<Rightarrow>
          (if ds = [] then None
           else Some \<lparr>mg_Name = mc_Name cfg, mg_Strategy = mc_Strategy cfg, mg_Deployments = ds\<rparr>, keys'))"

definition deployments_of :: "'s mg_state \<Rightarrow> nat \<Rightarrow> ModelGroupDeployment list" where
  "deployments_of st groupID = filter (\<lambda>d. md_ModelGroupID d = groupID) (ms_Deps st)"

text \<open>The step that all operations share: convert the stored configuration and register the group in the router.\<close>

definition sync_group :: "('s, 'v) ProviderKeyService \<Rightarrow> mg_env \<Rightarrow> nat \<Rightarrow> ModelGroupConfig \<Rightarrow> 's mg_state \<Rightarrow> 's mg_state" where
  "sync_group svc env tenantID cfg st =
     (case configToModelGroup svc env tenantID cfg (deployments_of st (mc_ID cfg)) (ms_Keys st) of
        (None, keys) \<Rightarrow> st\<lparr>ms_Keys := keys\<rparr>
      | (Some g, keys) \<Rightarrow> st\<lparr>ms_Keys := keys, ms_Groups := AddModelGroup (ms_Groups st) g\<rparr>)"

section \<open>Operations\<close>

definition LoadAllForTenant :: "('s, 'v) ProviderKeyService \<Rightarrow> mg_env \<Rightarrow> nat \<Rightarrow> 's mg_state \<Rightarrow> mg_error option \<times> 's mg_state" where
  "LoadAllForTenant svc env tenantID st =
     (if me_fault env 0 then (Some (ErrDatabase ''load model groups''), st)
      else (None, fold (sync_group svc env tenantID) (filter (\<lambda>c. mc_TenantID c = tenantID \<and> mc_Enabled c) (ms_Configs st)) st))"

definition searchString :: "string \<Rightarrow> string \<Rightarrow> bool" where
  "searchString s substr = list_ex (\<lambda>i. take (length substr) (drop i s) = substr) [0..<length s - length substr + 1]"

definition mg_contains :: "string \<Rightarrow> string \<Rightarrow> bool" where
  "mg_contains s substr \<longleftrightarrow> length substr \<le> length s \<and> searchString s substr"

definition mg_isDuplicateKeyError :: "string \<Rightarrow> bool" where
  "mg_isDuplicateKeyError msg \<longleftrightarrow> 0 < length msg \<and> (mg_contains msg ''duplicate key'' \<or> mg_contains msg ''UNIQUE constraint'')"

text \<open>Inserting deployments: defaults for zero values; an identifier that exists is moved to the group.\<close>

definition with_defaults :: "ModelGroupDeployment \<Rightarrow> ModelGroupDeployment" where
  "with_defaults d = d\<lparr>md_Weight := (if md_Weight d = 0 then 1 else md_Weight d), md_Enabled := True\<rparr>"

fun upsert_deployments :: "mg_env \<Rightarrow> nat \<Rightarrow> nat \<Rightarrow> ModelGroupDeployment list \<Rightarrow> ModelGroupDeployment list \<Rightarrow> ModelGroupDeployment list" where
  "upsert_deployments env groupID n [] rows = rows"
| "upsert_deployments env groupID n (d # ds) rows =
     (if md_ID d \<noteq> 0 \<and> list_ex (\<lambda>r. md_ID r = md_ID d) rows
      then upsert_deployments env groupID n ds (map (\<lambda>r. if md_ID r = md_ID d then r\<lparr>md_ModelGroupID := groupID\<rparr> else r) rows)
      else upsert_deployments env groupID (n + 1) ds
             (rows @ [(with_defaults d)\<lparr>md_ID := (if md_ID d \<noteq> 0 then md_ID d else me_dep_id env n), md_ModelGroupID := groupID\<rparr>]))"

definition name_taken :: "'s mg_state \<Rightarrow> nat \<Rightarrow> nat \<Rightarrow> string \<Rightarrow> bool" where
  "name_taken st tenantID exceptID name =
     list_ex (\<lambda>c. mc_TenantID c = tenantID \<and> mc_Name c = name \<and> mc_ID c \<noteq> exceptID) (ms_Configs st)"

definition Create :: "('s, 'v) ProviderKeyService \<Rightarrow> mg_env \<Rightarrow> nat \<Rightarrow> ModelGroupConfig \<Rightarrow> ModelGroupDeployment list \<Rightarrow> 's mg_state \<Rightarrow>
    mg_error option \<times> 's mg_state" where
  "Create svc env tenantID cfg deps st =
     (if me_fault env 0 then (Some (ErrDatabase ''create model group''), st)
      else if name_taken st tenantID 0 (mc_Name cfg)
      then (Some (if mg_isDuplicateKeyError (me_dup_msg env) then ErrModelGroupExists else ErrDatabase ''create model group''), st)
      else
        (let cfg1 = cfg\<lparr>mc_ID := me_config_id env, mc_TenantID := tenantID,
                mc_Strategy := (if mc_Strategy cfg = [] then ''fallback'' else mc_Strategy cfg), mc_Enabled := True\<rparr>;
             st1 = st\<lparr>ms_Configs := ms_Configs st @ [cfg1],
                ms_Deps := upsert_deployments env (me_config_id env) 0 deps (ms_Deps st)\<rparr>
         in if me_fault env 1 then (Some (ErrDatabase ''reload model group''), st1)
            else (None, if mc_Enabled cfg1 then sync_group svc env tenantID cfg1 st1 else st1)))"

definition first_config :: "mg_env \<Rightarrow> nat \<Rightarrow> nat \<Rightarrow> 's mg_state \<Rightarrow> (mg_error, ModelGroupConfig) result" where
  "first_config env tenantID groupID st =
     (case db_first (me_fault env 0) (\<lambda>c. mc_ID c = groupID \<and> mc_TenantID c = tenantID) (ms_Configs st) of
        Inl RecordNotFound \<Rightarrow> Inl ErrModelGroupNotFound
      | Inl DBUnavailable \<Rightarrow> Inl (ErrDatabase ''load model group'')
      | Inr cfg \<Rightarrow> Inr cfg)"

definition update_rows :: "mg_env \<Rightarrow> nat \<Rightarrow> ModelGroupConfig \<Rightarrow> ModelGroupDeployment list \<Rightarrow> 's mg_state \<Rightarrow> 's mg_state" where
  "update_rows env groupID upd deps st =
     st\<lparr>ms_Configs := map (\<lambda>c. if mc_ID c = groupID
            then c\<lparr>mc_Name := mc_Name upd, mc_Strategy := mc_Strategy upd, mc_Description := mc_Description upd,
                   mc_Enabled := mc_Enabled upd\<rparr> else c) (ms_Configs st),
        ms_Deps := upsert_deployments env groupID 0 (map (\<lambda>d. d\<lparr>md_ID := 0\<rparr>) deps)
          (filter (\<lambda>d. md_ModelGroupID d \<noteq> groupID) (ms_Deps st))\<rparr>"

definition mg_Update :: "('s, 'v) ProviderKeyService \<Rightarrow> mg_env \<Rightarrow> nat \<Rightarrow> nat \<Rightarrow> ModelGroupConfig \<Rightarrow> ModelGroupDeployment list \<Rightarrow>
    's mg_state \<Rightarrow> mg_error option \<times> 's mg_state" where
  "mg_Update svc env tenantID groupID upd deps st =
     (case first_config env tenantID groupID st of
        Inl err \<Rightarrow> (Some err, st)
      | Inr existing \<Rightarrow>
          if me_fault env 1 \<or> name_taken st tenantID groupID (mc_Name upd)
          then (Some (ErrDatabase ''update model group''), st)
          else
            (let st1 = update_rows env groupID upd deps st;
                 oldName = (if me_writeback env then mc_Name upd else mc_Name existing)
             in if me_fault env 2 then (None, st1)
                else
                  (case find (\<lambda>c. mc_ID c = groupID) (ms_Configs st1) of
                     None \<Rightarrow> (None, st1)
                   | Some refreshed \<Rightarrow>
                       if mc_Enabled refreshed then (None, sync_group svc env tenantID refreshed st1)
                       else (None, st1\<lparr>ms_Groups := RemoveModelGroup (ms_Groups st1) oldName\<rparr>))))"

definition mg_Delete :: "mg_env \<Rightarrow> nat \<Rightarrow> nat \<Rightarrow> 's mg_state \<Rightarrow> mg_error option \<times> 's mg_state" where
  "mg_Delete env tenantID groupID st =
     (case first_config env tenantID groupID st of
        Inl err \<Rightarrow> (Some err, st)
      | Inr cfg \<Rightarrow>
          if me_fault env 1 then (Some (ErrDatabase ''delete model group''), st)
          else (None, st\<lparr>ms_Configs := filter (\<lambda>c. mc_ID c \<noteq> groupID) (ms_Configs st),
                         ms_Deps := filter (\<lambda>d. md_ModelGroupID d \<noteq> groupID) (ms_Deps st),
                         ms_Groups := RemoveModelGroup (ms_Groups st) (mc_Name cfg)\<rparr>))"

definition GetByID :: "mg_env \<Rightarrow> nat \<Rightarrow> nat \<Rightarrow> 's mg_state \<Rightarrow> (mg_error, ModelGroupConfig \<times> ModelGroupDeployment list) result" where
  "GetByID env tenantID groupID st =
     map_sum id (\<lambda>cfg. (cfg, deployments_of st groupID)) (first_config env tenantID groupID st)"

section \<open>Handlers\<close>

record mg_request =
  gq_Name :: string
  gq_Strategy :: string
  gq_Description :: string
  gq_Enabled :: "bool option"
  gq_Deployments :: "ModelGroupDeployment list"

definition isValidStrategy :: "string \<Rightarrow> bool" where
  "isValidStrategy s \<longleftrightarrow> s \<in> {''fallback'', ''round-robin'', ''lowest-latency'', ''cost-optimized''}"

text \<open>The request as it was bound, None when its JSON does not decode; the binding also requires a name, a strategy and at
  least one deployment.\<close>

definition bind_request :: "mg_request option \<Rightarrow> mg_request option" where
  "bind_request q =
     (case q of
        None \<Rightarrow> None
      | Some r \<Rightarrow> if gq_Name r = [] \<or> gq_Strategy r = [] \<or> gq_Deployments r = [] then None else Some r)"

definition config_of :: "mg_request \<Rightarrow> bool \<Rightarrow> ModelGroupConfig" where
  "config_of r enabled = \<lparr>mc_ID = 0, mc_TenantID = 0, mc_Name = gq_Name r, mc_Strategy = gq_Strategy r,
     mc_Description = gq_Description r, mc_Enabled = enabled\<rparr>"

definition handleCreateModelGroup :: "('s, 'v) ProviderKeyService \<Rightarrow> mg_env \<Rightarrow> nat \<Rightarrow> mg_request option \<Rightarrow> 's mg_state \<Rightarrow> int \<times> 's mg_state" where
  "handleCreateModelGroup svc env tenantID q st =
     (case bind_request q of
        None \<Rightarrow> (400, st)
      | Some r \<Rightarrow>
          if \<not> isValidStrategy (gq_Strategy r) then (400, st)
          else
            (let enabled = (case gq_Enabled r of None \<Rightarrow> True | Some b \<Rightarrow> b)
             in case Create svc env tenantID (config_of r enabled) (gq_Deployments r) st of
                  (err, st') \<Rightarrow> (case err of None \<Rightarrow> 201 | Some ErrModelGroupExists \<Rightarrow> 409 | Some _ \<Rightarrow> 500, st')))"

definition handleUpdateModelGroup :: "('s, 'v) ProviderKeyService \<Rightarrow> mg_env \<Rightarrow> nat \<Rightarrow> string \<Rightarrow> mg_request option \<Rightarrow> 's mg_state \<Rightarrow>
    int \<times> 's mg_state" where
  "handleUpdateModelGroup svc env tenantID param q st =
     (case ParseUint param of
        (_, Some err) \<Rightarrow> (400, st)
      | (groupID, None) \<Rightarrow>
          (case bind_request q of
             None \<Rightarrow> (400, st)
           | Some r \<Rightarrow>
               if \<not> isValidStrategy (gq_Strategy r) then (400, st)
               else
                 (case mg_Update svc env tenantID (nat groupID) (config_of r (gq_Enabled r = Some True)) (gq_Deployments r) st of
                    (err, st') \<Rightarrow> (case err of None \<Rightarrow> 200 | Some ErrModelGroupNotFound \<Rightarrow> 404 | Some _ \<Rightarrow> 500, st'))))"

definition handleDeleteModelGroup :: "mg_env \<Rightarrow> nat \<Rightarrow> string \<Rightarrow> 's mg_state \<Rightarrow> int \<times> 's mg_state" where
  "handleDeleteModelGroup env tenantID param st =
     (case ParseUint param of
        (_, Some err) \<Rightarrow> (400, st)
      | (groupID, None) \<Rightarrow>
          (case mg_Delete env tenantID (nat groupID) st of
             (err, st') \<Rightarrow> (case err of None \<Rightarrow> 200 | Some ErrModelGroupNotFound \<Rightarrow> 404 | Some _ \<Rightarrow> 500, st')))"

definition formatDeploymentID :: "nat \<Rightarrow> nat \<Rightarrow> string" where
  "formatDeploymentID groupID depID = ''mg-'' @ show_nat groupID @ ''-dep-'' @ show_nat depID"

text \<open>The health of the deployments of a group: identifier, whether it is healthy, and its average latency.\<close>

definition handleGetModelGroupHealth :: "mg_env \<Rightarrow> nat \<Rightarrow> string \<Rightarrow> int \<Rightarrow> 's mg_state \<Rightarrow> RouterState \<Rightarrow>
    int \<times> (string \<times> bool \<times> int) list" where
  "handleGetModelGroupHealth env tenantID param now st rs =
     (case ParseUint param of
        (_, Some err) \<Rightarrow> (400, [])
      | (groupID, None) \<Rightarrow>
          (case GetByID env tenantID (nat groupID) st of
             Inl ErrModelGroupNotFound \<Rightarrow> (404, [])
           | Inl _ \<Rightarrow> (500, [])
           | Inr (cfg, deps) \<Rightarrow>
               (200, map (\<lambda>d. let i = formatDeploymentID (mc_ID cfg) (md_ID d)
                              in (i, IsHealthy (rst_Health rs) i now, Average (rst_Latency rs) i)) deps)))"

section \<open>Lemmas\<close>

lemma configToModelGroup_Some:
  "configToModelGroup svc env t cfg deps keys = (Some g, keys') \<Longrightarrow>
   mg_Name g = mc_Name cfg \<and> mg_Strategy g = mc_Strategy cfg \<and> mg_Deployments g \<noteq> []"
  by (auto simp: configToModelGroup_def split: prod.splits sum.splits if_splits)

lemma resolve_deployments_ids:
  "resolve_deployments svc env t cfgID deps keys = (Inr ds, keys') \<Longrightarrow>
   map dp_ID ds = map (\<lambda>d. deployment_id cfgID (md_ID d)) (filter md_Enabled deps)"
  by (induction deps arbitrary: ds keys keys') (auto split: if_splits prod.splits sum.splits)

lemma sync_group_cases:
  obtains (skipped) keys where "sync_group svc env t cfg st = st\<lparr>ms_Keys := keys\<rparr>"
  | (routed) g keys where "sync_group svc env t cfg st = st\<lparr>ms_Keys := keys, ms_Groups := (ms_Groups st)(mc_Name cfg \<mapsto> g)\<rparr>"
      "mg_Name g = mc_Name cfg" "mg_Strategy g = mc_Strategy cfg" "mg_Deployments g \<noteq> []"
proof -
  obtain og keys where c: "configToModelGroup svc env t cfg (deployments_of st (mc_ID cfg)) (ms_Keys st) = (og, keys)" by (metis surj_pair)
  show thesis
  proof (cases og)
    case None
    with c show thesis by (intro skipped) (simp add: sync_group_def)
  next
    case (Some g)
    with c configToModelGroup_Some [of svc env t cfg] show thesis
      by (intro routed [of g keys]) (simp_all add: sync_group_def AddModelGroup_def)
  qed
qed

lemma sync_group_configs [simp]: "ms_Configs (sync_group svc env t cfg st) = ms_Configs st"
  by (rule sync_group_cases [of svc env t cfg st]) simp_all

lemma sync_group_other: "name \<noteq> mc_Name cfg \<Longrightarrow> ms_Groups (sync_group svc env t cfg st) name = ms_Groups st name"
  by (rule sync_group_cases [of svc env t cfg st]) simp_all

section \<open>The router only holds usable groups\<close>

definition router_ok :: "'s mg_state \<Rightarrow> bool" where
  "router_ok st \<longleftrightarrow>
     (\<forall>name g. ms_Groups st name = Some g \<longrightarrow>
        mg_Name g = name \<and> mg_Deployments g \<noteq> [] \<and> isValidStrategy (mg_Strategy g)) \<and>
     (\<forall>c \<in> set (ms_Configs st). isValidStrategy (mc_Strategy c))"

inductive mg_step :: "('s, 'v) ProviderKeyService \<Rightarrow> 's mg_state \<Rightarrow> 's mg_state \<Rightarrow> bool" for svc where
  create_step: "handleCreateModelGroup svc env t q st = (code, st') \<Longrightarrow> mg_step svc st st'"
| update_step: "handleUpdateModelGroup svc env t param q st = (code, st') \<Longrightarrow> mg_step svc st st'"
| delete_step: "handleDeleteModelGroup env t param st = (code, st') \<Longrightarrow> mg_step svc st st'"
| load_step: "LoadAllForTenant svc env t st = (err, st') \<Longrightarrow> mg_step svc st st'"

definition mg_start :: "'s mg_state \<Rightarrow> bool" where
  "mg_start st \<longleftrightarrow> ms_Groups st = Map.empty \<and> (\<forall>c \<in> set (ms_Configs st). isValidStrategy (mc_Strategy c))"

lemma sync_group_ok: "router_ok st \<Longrightarrow> isValidStrategy (mc_Strategy cfg) \<Longrightarrow> router_ok (sync_group svc env t cfg st)"
  by (rule sync_group_cases [of svc env t cfg st]) (auto simp: router_ok_def)

lemma fold_sync_ok:
  "router_ok st \<Longrightarrow> \<forall>c \<in> set cs. isValidStrategy (mc_Strategy c) \<Longrightarrow> router_ok (fold (sync_group svc env t) cs st)"
  by (induction cs arbitrary: st) (simp_all add: sync_group_ok)

lemma Create_ok:
  assumes "router_ok st" "isValidStrategy (mc_Strategy cfg)"
  shows "router_ok (snd (Create svc env t cfg deps st))"
proof -
  have "mc_Strategy cfg \<noteq> []" using assms(2) by (auto simp: isValidStrategy_def)
  then show ?thesis
    using assms unfolding Create_def Let_def
    by (auto intro!: sync_group_ok) (auto simp: router_ok_def)
qed

lemma mg_Update_ok:
  assumes "router_ok st" "isValidStrategy (mc_Strategy upd)"
  shows "router_ok (snd (mg_Update svc env t i upd deps st))"
proof -
  let ?st = "update_rows env i upd deps st"
  have rows: "router_ok ?st" using assms by (auto simp: router_ok_def update_rows_def)
  then have "isValidStrategy (mc_Strategy c)" if "find (\<lambda>c. mc_ID c = i) (ms_Configs ?st) = Some c" for c
    using find_SomeD [OF that] by (auto simp: router_ok_def)
  moreover have "router_ok (?st\<lparr>ms_Groups := RemoveModelGroup (ms_Groups ?st) name\<rparr>)" for name
    using rows by (auto simp: router_ok_def RemoveModelGroup_def)
  ultimately show ?thesis
    using assms(1) rows unfolding mg_Update_def Let_def by (auto intro!: sync_group_ok split: sum.split option.split)
qed

lemma mg_Delete_ok: "router_ok st \<Longrightarrow> router_ok (snd (mg_Delete env t i st))"
  unfolding mg_Delete_def by (auto simp: router_ok_def RemoveModelGroup_def split: sum.split)

interpretation model_groups: inductive_invariant mg_start "mg_step svc" router_ok for svc
proof (unfold_locales, goal_cases)
  case (1 st)
  then show ?case by (simp add: mg_start_def router_ok_def)
next
  case (2 st st')
  from 2(2) show ?case
  proof cases
    case (create_step env t q code)
    have "router_ok (snd (handleCreateModelGroup svc env t q st))"
      using 2(1) by (auto simp: handleCreateModelGroup_def case_prod_unfold config_of_def Let_def intro!: Create_ok split: option.split)
    then show ?thesis using create_step by simp
  next
    case (update_step env t param q code)
    have "router_ok (snd (handleUpdateModelGroup svc env t param q st))"
      using 2(1) by (auto simp: handleUpdateModelGroup_def case_prod_unfold config_of_def intro!: mg_Update_ok split: option.split)
    then show ?thesis using update_step by simp
  next
    case (delete_step env t param code)
    have "router_ok (snd (handleDeleteModelGroup env t param st))"
      using 2(1) mg_Delete_ok by (auto simp: handleDeleteModelGroup_def case_prod_unfold split: option.split)
    then show ?thesis using delete_step by simp
  next
    case (load_step env t err)
    have "router_ok (fold (sync_group svc env t) (filter (\<lambda>c. mc_TenantID c = t \<and> mc_Enabled c) (ms_Configs st)) st)"
      by (rule fold_sync_ok [OF 2(1)]) (use 2(1) in \<open>simp add: router_ok_def\<close>)
    then show ?thesis using load_step 2(1) by (auto simp: LoadAllForTenant_def split: if_splits)
  qed
qed

section \<open>Creating a group\<close>

lemma Create_None:
  assumes "Create svc env t cfg deps st = (None, st')"
  obtains st1 cfg1 where "cfg1 = cfg\<lparr>mc_ID := me_config_id env, mc_TenantID := t,
      mc_Strategy := (if mc_Strategy cfg = [] then ''fallback'' else mc_Strategy cfg), mc_Enabled := True\<rparr>"
    "st1 = st\<lparr>ms_Configs := ms_Configs st @ [cfg1], ms_Deps := upsert_deployments env (me_config_id env) 0 deps (ms_Deps st)\<rparr>"
    "st' = sync_group svc env t cfg1 st1"
  using assms by (auto simp: Create_def Let_def split: if_splits)

lemma handleCreate_201:
  assumes "handleCreateModelGroup svc env t (Some r) st = (201, st')"
  obtains e where "Create svc env t (config_of r e) (gq_Deployments r) st = (None, st')"
proof -
  have r: "bind_request (Some r) = Some r" and v: "isValidStrategy (gq_Strategy r)"
    using assms by (auto simp: handleCreateModelGroup_def bind_request_def split: if_splits)
  define e where "e = (case gq_Enabled r of None \<Rightarrow> True | Some b \<Rightarrow> b)"
  obtain err st2 where "Create svc env t (config_of r e) (gq_Deployments r) st = (err, st2)" by fastforce
  with assms r v show thesis
    by (intro that [of e]) (auto simp: handleCreateModelGroup_def Let_def simp flip: e_def split: option.splits mg_error.splits)
qed

lemma created_with_key:
  assumes "handleCreateModelGroup svc env t (Some r) st = (201, st')"
    and "gq_Deployments r = [dep]" "md_ID dep = 0" "md_ProviderKeyID dep = Some k" "0 < k"
    and "fst (GetPlaintext svc (me_now env) (me_now' env) k (me_keys env) (snd (ms_Keys st))) = Inr plaintext"
    and "list_all (\<lambda>d. md_ModelGroupID d \<noteq> me_config_id env) (ms_Deps st)"
  shows "\<exists>g. GetModelGroup (ms_Groups st') (gq_Name r) = Inr g \<and> map dp_APIKey (mg_Deployments g) = [plaintext]"
proof -
  obtain e where "Create svc env t (config_of r e) (gq_Deployments r) st = (None, st')" by (rule handleCreate_201 [OF assms(1)])
  then show ?thesis
  proof (rule Create_None)
    fix st1 :: "'a mg_state" and cfg1
    assume cfg1: "cfg1 = (config_of r e)\<lparr>mc_ID := me_config_id env, mc_TenantID := t,
        mc_Strategy := (if mc_Strategy (config_of r e) = [] then ''fallback'' else mc_Strategy (config_of r e)), mc_Enabled := True\<rparr>"
      and st1: "st1 = st\<lparr>ms_Configs := ms_Configs st @ [cfg1],
        ms_Deps := upsert_deployments env (me_config_id env) 0 (gq_Deployments r) (ms_Deps st)\<rparr>"
      and st': "st' = sync_group svc env t cfg1 st1"
    have "deployments_of st1 (me_config_id env) =
        [(with_defaults dep)\<lparr>md_ID := me_dep_id env 0, md_ModelGroupID := me_config_id env\<rparr>]"
      using assms(2,3,7) st1 by (simp add: deployments_of_def list_all_iff filter_empty_conv)
    then have D: "deployments_of st1 (mc_ID cfg1) =
        [(with_defaults dep)\<lparr>md_ID := me_dep_id env 0, md_ModelGroupID := me_config_id env\<rparr>]" using cfg1 by simp
    obtain cache' where P: "GetPlaintext svc (me_now env) (me_now' env) k (me_keys env) (snd (ms_Keys st)) = (Inr plaintext, cache')"
      using assms(6) by (metis prod.collapse)
    have K: "resolveDeploymentKey svc env t p (Some k) (ms_Keys st1) = (Inr plaintext, fst (ms_Keys st), cache')" for p
      using P assms(5) st1 by (simp add: resolveDeploymentKey_def)
    have "\<exists>g. fst (configToModelGroup svc env t cfg1 (deployments_of st1 (mc_ID cfg1)) (ms_Keys st1)) = Some g \<and>
        mg_Name g = gq_Name r \<and> map dp_APIKey (mg_Deployments g) = [plaintext]"
      unfolding D configToModelGroup_def using assms(4) cfg1 by (simp add: with_defaults_def K config_of_def)
    then obtain g where "fst (configToModelGroup svc env t cfg1 (deployments_of st1 (mc_ID cfg1)) (ms_Keys st1)) = Some g \<and>
      mg_Name g = gq_Name r \<and> map dp_APIKey (mg_Deployments g) = [plaintext]" by (rule exE)
    then show ?thesis
      unfolding st' sync_group_def by (auto simp: AddModelGroup_def GetModelGroup_def split: prod.split)
  qed
qed

section \<open>A concrete group\<close>

text \<open>A tenant creates a group with a deployment that refers to key 4, which belongs to tenant 7.\<close>

definition demo_deployment :: ModelGroupDeployment where
  "demo_deployment = \<lparr>md_ID = 0, md_ModelGroupID = 0, md_Provider = ''openai'', md_Model = ''gpt-4o'', md_ProviderKeyID = Some 4,
     md_Priority = 0, md_Weight = 0, md_CostPer1KInput = 0, md_CostPer1KOutput = 0, md_Enabled = True\<rparr>"

definition demo_mg_request :: mg_request where
  "demo_mg_request = \<lparr>gq_Name = ''g'', gq_Strategy = ''fallback'', gq_Description = [], gq_Enabled = None,
     gq_Deployments = [demo_deployment]\<rparr>"

definition demo_mg_env :: mg_env where
  "demo_mg_env = \<lparr>me_now = 0, me_now' = 0, me_keys = demo_pk_db, me_fault = (\<lambda>_. False), me_config_id = 2, me_dep_id = (\<lambda>n. n + 1),
     me_dup_msg = ''duplicate key'', me_writeback = True\<rparr>"

definition demo_mg_state :: "(string \<Rightarrow> tpsCacheEntry option) mg_state" where
  "demo_mg_state = \<lparr>ms_Configs = [], ms_Deps = [], ms_Groups = Map.empty, ms_Keys = (Map.empty, Map.empty)\<rparr>"

lemma demo_plaintext:
  "fst (GetPlaintext demo_pks (me_now demo_mg_env) (me_now' demo_mg_env) 4 (me_keys demo_mg_env) (snd (ms_Keys demo_mg_state))) = Inr ''sk-a''"
  by (simp add: GetPlaintext_def load_plaintext_def demo_mg_env_def demo_mg_state_def first_key_def db_first_def demo_pk_db_def
      demo_pk_def decrypt_row_def demo_pks_def aesGCMDecrypt_def)

lemma demo_group_create:
  obtains st' where "handleCreateModelGroup demo_pks demo_mg_env 9 (Some demo_mg_request) demo_mg_state = (201, st')"
  by (rule that) (simp add: handleCreateModelGroup_def bind_request_def demo_mg_request_def isValidStrategy_def Create_def demo_mg_env_def
      name_taken_def demo_mg_state_def config_of_def Let_def)

lemma demo_routed:
  assumes "handleCreateModelGroup demo_pks demo_mg_env 9 (Some demo_mg_request) demo_mg_state = (201, st')"
  shows "\<exists>g. GetModelGroup (ms_Groups st') ''g'' = Inr g"
  using created_with_key [OF assms _ _ _ _ demo_plaintext, of demo_deployment]
  by (auto simp: demo_mg_request_def demo_deployment_def demo_mg_state_def)

section \<open>Properties\<close>

lemma isValidStrategy_known: "isValidStrategy s \<Longrightarrow> \<exists>strat. GetStrategy s = Inr strat"
  by (auto simp: isValidStrategy_def GetStrategy_def)

text \<open>Whatever the tenants do with their model groups, every group in the router is listed under its own name and can
  serve requests: its strategy is known and selects one of its deployments, of which it has at least one.\<close>

theorem routed_groups_are_usable:
  fixes svc :: "('s, 'v) ProviderKeyService" and st :: "'s mg_state"
  assumes "reachable mg_start (mg_step svc) st" "GetModelGroup (ms_Groups st) name = Inr g"
  shows "mg_Name g = name \<and> (\<exists>strat. GetStrategy (mg_Strategy g) = Inr strat \<and>
    (\<exists>d \<in> set (mg_Deployments g). fst (Select fl strat dr now g rs) = Inr d))"
proof -
  have "router_ok st" by (rule model_groups.holds_when_reachable [OF assms(1)])
  then have g: "mg_Name g = name" "mg_Deployments g \<noteq> []" "isValidStrategy (mg_Strategy g)"
    using assms(2) by (auto simp: router_ok_def GetModelGroup_def split: option.splits)
  then show ?thesis using isValidStrategy_known strategies.select_total [OF g(2)] by blast
qed

theorem routed_groups_are_usable_witness:
  "\<exists>st' g strat. handleCreateModelGroup demo_pks demo_mg_env 9 (Some demo_mg_request) demo_mg_state = (201, st') \<and>
     GetModelGroup (ms_Groups st') ''g'' = Inr g \<and> GetStrategy (mg_Strategy g) = Inr strat"
proof (rule demo_group_create)
  fix st' assume c: "handleCreateModelGroup demo_pks demo_mg_env 9 (Some demo_mg_request) demo_mg_state = (201, st')"
  have "reachable mg_start (mg_step demo_pks) demo_mg_state"
    by (rule reachable_start) (simp add: mg_start_def demo_mg_state_def)
  from reachable_step [of mg_start "mg_step demo_pks", OF this create_step [OF c]]
  have "reachable mg_start (mg_step demo_pks) st'" .
  moreover obtain g where g: "GetModelGroup (ms_Groups st') ''g'' = Inr g" using demo_routed [OF c] by blast
  ultimately have "\<exists>strat. GetStrategy (mg_Strategy g) = Inr strat" using routed_groups_are_usable by blast
  with c g show ?thesis by blast
qed

text \<open>A group is not confined to its tenant: when a tenant creates a group and the router takes it, every request of every
  tenant that names this group is served by the deployments of this tenant and with its keys, whatever group another
  tenant had under the same name.\<close>

theorem created_group_serves_every_tenant:
  assumes "handleCreateModelGroup svc env t (Some r) st = (201, st')" "ms_Groups st' \<noteq> ms_Groups st"
  shows "\<exists>g. GetModelGroup (ms_Groups st') (gq_Name r) = Inr g \<and>
    (\<forall>d \<in> set (mg_Deployments g). \<exists>i. dp_ID d = deployment_id (me_config_id env) i) \<and>
    (\<forall>c c'. so_reply (fst (HandleSmartProxy h senv c body (ms_Groups st', rs))) =
      so_reply (fst (HandleSmartProxy h senv c' body (ms_Groups st', rs))))"
proof -
  have same: "so_reply (fst (HandleSmartProxy h senv c body s)) = so_reply (fst (HandleSmartProxy h senv c' body s))" for c c' s
    by (rule conjunct1 [OF smart_caller_irrelevant])
  obtain e where "Create svc env t (config_of r e) (gq_Deployments r) st = (None, st')" by (rule handleCreate_201 [OF assms(1)])
  then show ?thesis
  proof (rule Create_None)
    fix st1 :: "'a mg_state" and cfg1
    assume cfg1: "cfg1 = (config_of r e)\<lparr>mc_ID := me_config_id env, mc_TenantID := t,
        mc_Strategy := (if mc_Strategy (config_of r e) = [] then ''fallback'' else mc_Strategy (config_of r e)), mc_Enabled := True\<rparr>"
      and st1: "st1 = st\<lparr>ms_Configs := ms_Configs st @ [cfg1],
        ms_Deps := upsert_deployments env (me_config_id env) 0 (gq_Deployments r) (ms_Deps st)\<rparr>"
      and st': "st' = sync_group svc env t cfg1 st1"
    obtain og keys where c: "configToModelGroup svc env t cfg1 (deployments_of st1 (mc_ID cfg1)) (ms_Keys st1) = (og, keys)"
      by (metis surj_pair)
    then obtain g where g: "og = Some g" using assms(2) st' st1 by (cases og) (auto simp: sync_group_def)
    then have "mg_Name g = gq_Name r" using configToModelGroup_Some [OF c [unfolded g]] cfg1 by (simp add: config_of_def)
    then have routed: "GetModelGroup (ms_Groups st') (gq_Name r) = Inr g"
      using st' c g by (simp add: sync_group_def AddModelGroup_def GetModelGroup_def)
    have "mc_ID cfg1 = me_config_id env" using cfg1 by simp
    then obtain ds keys' where ds: "resolve_deployments svc env t (me_config_id env) (deployments_of st1 (mc_ID cfg1)) (ms_Keys st1) =
        (Inr ds, keys')" "mg_Deployments g = ds"
      using c g by (auto simp: configToModelGroup_def split: prod.splits sum.splits if_splits)
    have "\<exists>i. dp_ID d = deployment_id (me_config_id env) i" if "d \<in> set ds" for d
    proof -
      have "dp_ID d \<in> set (map dp_ID ds)" using that by simp
      then show ?thesis unfolding resolve_deployments_ids [OF ds(1)] by auto
    qed
    with routed ds(2) same show ?thesis by blast
  qed
qed

theorem created_group_serves_every_tenant_witness:
  "\<exists>st' g. handleCreateModelGroup demo_pks demo_mg_env 9 (Some demo_mg_request) demo_mg_state = (201, st') \<and>
     GetModelGroup (ms_Groups st') ''g'' = Inr g \<and>
     so_reply (fst (HandleSmartProxy demo_smart (demo_chat_env ''R'') demo_caller ''Q'' (ms_Groups st', NewRouterState))) =
     so_reply (fst (HandleSmartProxy demo_smart (demo_chat_env ''R'') (demo_caller\<lparr>cx_tenant_id := 9\<rparr>) ''Q'' (ms_Groups st', NewRouterState)))"
proof (rule demo_group_create)
  fix st' assume c: "handleCreateModelGroup demo_pks demo_mg_env 9 (Some demo_mg_request) demo_mg_state = (201, st')"
  have "ms_Groups st' \<noteq> ms_Groups demo_mg_state" using demo_routed [OF c] by (auto simp: demo_mg_state_def GetModelGroup_def)
  from created_group_serves_every_tenant [OF c this, of demo_smart "demo_chat_env ''R''" "''Q''" NewRouterState] c show ?thesis
    by (auto simp: demo_mg_request_def)
qed

text \<open>A deployment may name any provider key: when a tenant creates a group whose deployment refers to a key by its
  identifier, the router gets the plaintext of that key, whichever tenant owns it.\<close>

theorem deployment_uses_any_provider_key:
  assumes "handleCreateModelGroup svc env t (Some r) st = (201, st')"
    and "gq_Deployments r = [dep]" "md_ID dep = 0" "md_ProviderKeyID dep = Some k" "0 < k"
    and "fst (GetPlaintext svc (me_now env) (me_now' env) k (me_keys env) (snd (ms_Keys st))) = Inr plaintext"
    and "list_all (\<lambda>d. md_ModelGroupID d \<noteq> me_config_id env) (ms_Deps st)"
  shows "\<exists>g. GetModelGroup (ms_Groups st') (gq_Name r) = Inr g \<and> map dp_APIKey (mg_Deployments g) = [plaintext]"
  using assms by (rule created_with_key)

theorem deployment_uses_any_provider_key_witness:
  "\<exists>st' g. handleCreateModelGroup demo_pks demo_mg_env 9 (Some demo_mg_request) demo_mg_state = (201, st') \<and>
     GetModelGroup (ms_Groups st') ''g'' = Inr g \<and> map dp_APIKey (mg_Deployments g) = [''sk-a''] \<and>
     map pk_TenantID (pkd_Keys demo_pk_db) = [7]"
proof (rule demo_group_create)
  fix st' assume c: "handleCreateModelGroup demo_pks demo_mg_env 9 (Some demo_mg_request) demo_mg_state = (201, st')"
  from deployment_uses_any_provider_key [OF c _ _ _ _ demo_plaintext, of demo_deployment] c show ?thesis
    by (auto simp: demo_mg_request_def demo_deployment_def demo_mg_state_def demo_pk_db_def demo_pk_def)
qed

text \<open>Renaming a group leaves the router with the group under its old name.\<close>

theorem rename_keeps_the_old_name:
  assumes "mg_Update svc env t i upd deps st = (None, st')" "mc_Enabled upd" "name \<noteq> mc_Name upd"
  shows "ms_Groups st' name = ms_Groups st name"
proof -
  let ?st = "update_rows env i upd deps st"
  have groups: "ms_Groups ?st name = ms_Groups st name" by (simp add: update_rows_def)
  have found: "mc_Enabled c \<and> mc_Name c = mc_Name upd" if f: "find (\<lambda>c. mc_ID c = i) (ms_Configs ?st) = Some c" for c
  proof -
    let ?F = "\<lambda>x. if mc_ID x = i then x\<lparr>mc_Name := mc_Name upd, mc_Strategy := mc_Strategy upd,
        mc_Description := mc_Description upd, mc_Enabled := mc_Enabled upd\<rparr> else x"
    have rows: "ms_Configs ?st = map ?F (ms_Configs st)" by (simp add: update_rows_def)
    have "c \<in> set (ms_Configs ?st)" and ID: "mc_ID c = i" using find_SomeD [OF f] by (rule conjunct1, rule conjunct2)
    from this(1) have "c \<in> ?F ` set (ms_Configs st)" unfolding rows set_map .
    then obtain x where "c = ?F x" by (rule imageE)
    with ID show ?thesis using assms(2) by (cases "mc_ID x = i") simp_all
  qed
  have "ms_Groups (sync_group svc env t c ?st) name = ms_Groups st name" if "mc_Name c = mc_Name upd" for c
    unfolding sync_group_other [of name c svc env t ?st, unfolded that, OF assms(3)] by (rule groups)
  then have synced: "ms_Groups (sync_group svc env t c ?st) name = ms_Groups st name"
    if "find (\<lambda>c. mc_ID c = i) (ms_Configs ?st) = Some c" for c using found [OF that] by blast
  show ?thesis
    using assms(1) groups synced found unfolding mg_Update_def Let_def
    by (auto split: sum.splits if_splits option.splits)
qed

text \<open>A group that is created disabled is enabled, and so are its deployments.\<close>

theorem created_disabled_is_enabled:
  assumes "handleCreateModelGroup svc env t (Some r) st = (201, st')"
  shows "\<exists>c. last (ms_Configs st') = c \<and> mc_ID c = me_config_id env \<and> mc_Enabled c"
proof -
  obtain e where "Create svc env t (config_of r e) (gq_Deployments r) st = (None, st')" by (rule handleCreate_201 [OF assms])
  then show ?thesis by (rule Create_None) simp
qed

text \<open>The identifiers of the deployments are unambiguous, and the health page computes the same ones.\<close>

theorem deployment_id_injective:
  "deployment_id c d = deployment_id c' d' \<longleftrightarrow> c = c' \<and> d = d'" and formatDeploymentID_eq: "formatDeploymentID = deployment_id"
proof -
  have "c = c' \<and> d = d'" if "deployment_id c d = deployment_id c' d'"
  proof -
    have "show_nat c @ CHR ''-'' # ''dep-'' @ show_nat d = show_nat c' @ CHR ''-'' # ''dep-'' @ show_nat d'"
      using that by (simp add: deployment_id_def)
    from split_at_sep [OF this] show ?thesis using show_nat_inj by auto
  qed
  then show "deployment_id c d = deployment_id c' d' \<longleftrightarrow> c = c' \<and> d = d'" by blast
  show "formatDeploymentID = deployment_id" by (simp add: fun_eq_iff formatDeploymentID_def deployment_id_def)
qed

end
