(* ===== verification/Teams.thy ===== *)
theory Teams
  imports Ownership
begin

text \<open>
  What the dashboard guarantees to the members of a tenant, and what it does not.
\<close>

lemma demo_ids [simp]: "parse_uint ''10'' = Some 10" "parse_uint ''20'' = Some 20"
  by (simp_all add: parse_uint_def digit_of_def)

lemma demo_admit:
  "admit (demo_org p ada_bob (demo_member 10 ''ada'' r StatusActive # ms)) ''ada'' ''10'' role = Inr
    \<lparr>ctx_user = new_user (demo_org_env 10) (demo_sync ''ada''), ctx_tenant_id = 10, ctx_org_role = r\<rparr>"
  if "RoleLevel role \<le> RoleLevel r"
  unfolding admit_Inr using that
  by (simp add: demo_org_def demo_member_def is_member_def new_user_def demo_sync_def User_IsActive_def)


lemma demo_invite:
  "snd (serve (demo_org_env 30) ''ada'' ''10'' (InviteUser (Some \<lparr>iq_Email = ''bob@x'', iq_Name = ''Bob'', iq_Role = RoleEditor\<rparr>))
      (demo_org PlanTeam ada_bob [demo_member 10 ''ada'' RoleOwner StatusActive, demo_member 20 ''bob'' RoleOwner StatusActive])) =
    demo_team RoleEditor StatusPending"
proof -
  have l: "RoleLevel RoleEditor \<le> RoleLevel RoleOwner" by code_simp
  show ?thesis unfolding serve_def route_role.simps demo_admit [OF l] sum.case handle.simps by code_simp
qed

lemma demo_accept: "snd (serve (demo_org_env 40) ''bob'' ''20'' (AcceptInvitation ''10'') (demo_team RoleEditor StatusPending)) =
    demo_team RoleEditor StatusActive"
proof -
  have a: "admit (demo_team RoleEditor StatusPending) ''bob'' ''20'' RoleViewer = Inr
    \<lparr>ctx_user = new_user (demo_org_env 20) (demo_sync ''bob''), ctx_tenant_id = 20, ctx_org_role = RoleOwner\<rparr>"
    unfolding admit_Inr
    by (simp add: demo_team_def demo_org_def demo_member_def is_member_def new_user_def demo_sync_def User_IsActive_def RoleLevel_def)
  show ?thesis unfolding serve_def route_role.simps a sum.case handle.simps by code_simp
qed

lemma team_reachable: "reachable no_members org_step (demo_team RoleEditor StatusActive)"
proof -
  have by_request: "reachable no_members org_step (snd (serve env uid ts req st))"
    and by_sign_in: "reachable no_members org_step (snd (handleAuthSync env secret provided q st))"
    and by_platform: "reachable no_members org_step (snd (handleAdminChangeTenantPlan env ts plan st))"
    if "reachable no_members org_step st" for env uid ts req st secret provided q plan
    using that by (auto intro: reachable_step org_step.intros surjective_pairing)
  have "reachable no_members org_step (demo_org PlanFree [] [])"
    by (rule reachable_start) (simp add: no_members_def demo_org_def)
  then have "reachable no_members org_step (snd (handleAuthSync (demo_org_env 20) [] [] (Some (demo_sync ''bob''))
      (snd (handleAuthSync (demo_org_env 10) [] [] (Some (demo_sync ''ada'')) (demo_org PlanFree [] [])))))"
    using by_sign_in by blast
  from by_platform [OF this [unfolded demo_sign_ups], of "demo_org_env 30" "''10''" "Some PlanTeam", unfolded demo_upgrade]
  show ?thesis using by_request demo_invite demo_accept by metis
qed

section \<open>Who can change whom\<close>

text \<open>What became of a row: it is still there, or there but for its status, which is active.\<close>

definition row_kept :: "TenantMembership \<Rightarrow> TenantMembership list \<Rightarrow> bool" where
  "row_kept m ms \<longleftrightarrow> (\<exists>m' \<in> set ms. member_key m' = member_key m \<and> tm_OrgRole m' = tm_OrgRole m \<and>
     (tm_Status m' = tm_Status m \<or> tm_Status m' = StatusActive))"

lemma row_kept_refl: "m \<in> set ms \<Longrightarrow> row_kept m ms"
  by (auto simp: row_kept_def)

lemma row_kept_map:
  assumes "m \<in> set ms" "P m \<Longrightarrow> member_key (f m) = member_key m \<and> tm_OrgRole (f m) = tm_OrgRole m \<and>
    (tm_Status (f m) = tm_Status m \<or> tm_Status (f m) = StatusActive)"
  shows "row_kept m (map (\<lambda>n. if P n then f n else n) ms)"
  unfolding row_kept_def by (rule bexI [of _ "if P m then f m else m"]) (use assms in auto)

lemma change_member_memberships:
  "db_memberships (snd (change_member env ctx t f err a opts ti b ex st)) = (if oe_fault env 1 then db_memberships st
    else map (\<lambda>m. if is_member (ctx_tenant_id ctx) t m then (f m)\<lparr>tm_UpdatedAt := oe_now env\<rparr> else m) (db_memberships st))"
  by (simp add: change_member_def)

lemma change_member_row:
  assumes "org_inv st" "m \<in> set (db_memberships st)" "db_first d (is_member (ctx_tenant_id ctx) t) (db_memberships st) = Inr n"
    and "n = m \<Longrightarrow> member_key (f m) = member_key m \<and> tm_OrgRole (f m) = tm_OrgRole m \<and>
      (tm_Status (f m) = tm_Status m \<or> tm_Status (f m) = StatusActive)"
  shows "row_kept m (db_memberships (snd (change_member env ctx t f err a opts ti b ex st)))"
proof -
  have "row_kept m (map (\<lambda>m. if is_member (ctx_tenant_id ctx) t m then (f m)\<lparr>tm_UpdatedAt := oe_now env\<rparr> else m) (db_memberships st))"
  proof (rule row_kept_map [OF assms(2)])
    assume "is_member (ctx_tenant_id ctx) t m"
    with first_member(3) [OF assms(1,3,2)] assms(4) show "member_key ((f m)\<lparr>tm_UpdatedAt := oe_now env\<rparr>) = member_key m \<and>
      tm_OrgRole ((f m)\<lparr>tm_UpdatedAt := oe_now env\<rparr>) = tm_OrgRole m \<and>
      (tm_Status ((f m)\<lparr>tm_UpdatedAt := oe_now env\<rparr>) = tm_Status m \<or> tm_Status ((f m)\<lparr>tm_UpdatedAt := oe_now env\<rparr>) = StatusActive)"
      by (simp add: member_key_def)
  qed
  with row_kept_refl [OF assms(2)] show ?thesis by (simp add: change_member_memberships)
qed

text \<open>The handlers on members leave the rows of owners and admins alone, unless the caller is the owner.\<close>

lemma member_handlers_spare:
  assumes "org_inv st" "m \<in> set (db_memberships st)" "tm_OrgRole m = RoleOwner \<or> tm_OrgRole m = RoleAdmin" "ctx_org_role ctx \<noteq> RoleOwner"
  shows "row_kept m (db_memberships (snd (handleUpdateUserRole env ctx t req st)))"
    "row_kept m (db_memberships (snd (handleSuspendUser env ctx t st)))"
    "row_kept m (db_memberships (snd (handleUnsuspendUser env ctx t st)))"
    "row_kept m (db_memberships (snd (handleRemoveUser env ctx t st)))"
proof -
  note k = row_kept_refl [OF assms(2)] and c = change_member_row [OF assms(1,2)]
  show "row_kept m (db_memberships (snd (handleUpdateUserRole env ctx t req st)))"
    unfolding handleUpdateUserRole_def
    by (intro snd_branches [where P = "\<lambda>st. row_kept m (db_memberships st)"] k; (rule c, assumption)?) (use assms(3,4) in blast)
  show "row_kept m (db_memberships (snd (handleSuspendUser env ctx t st)))"
    unfolding handleSuspendUser_def
    by (intro snd_branches [where P = "\<lambda>st. row_kept m (db_memberships st)"] k; (rule c, assumption)?) (use assms(3,4) in blast)
  show "row_kept m (db_memberships (snd (handleUnsuspendUser env ctx t st)))"
    unfolding handleUnsuspendUser_def
    by (intro snd_branches [where P = "\<lambda>st. row_kept m (db_memberships st)"] k; (rule c, assumption)?) (simp add: member_key_def)
  show "row_kept m (db_memberships (snd (handleRemoveUser env ctx t st)))"
  proof (cases "db_memberships (snd (handleRemoveUser env ctx t st)) = db_memberships st")
    case False
    then obtain n where n: "db_first (oe_fault env 0) (is_member (ctx_tenant_id ctx) t) (db_memberships st) = Inr n"
      "tm_OrgRole n \<noteq> RoleOwner" "tm_OrgRole n \<noteq> RoleAdmin"
      "db_memberships (snd (handleRemoveUser env ctx t st)) = filter (\<lambda>n. \<not> is_member (ctx_tenant_id ctx) t n) (db_memberships st)"
      using handleRemoveUser_memberships(1) [of env ctx t st] assms(4) by (auto simp: removal_allowed_def)
    have "\<not> is_member (ctx_tenant_id ctx) t m" using first_member(3) [OF assms(1) n(1) assms(2)] n(2,3) assms(3) by blast
    with n(4) assms(2) show ?thesis by (simp add: row_kept_refl)
  qed (simp add: k)
qed

lemma marked_memberships [simp]:
  "db_memberships (snd (markInvitationNotificationsResolved env u t oc st)) = db_memberships st"
  by (rule same_tables_simps(3) [OF markInvitationNotificationsResolved_same])

text \<open>Answers to an invitation change one row of the caller, a pending one.\<close>

definition answered :: "org_env \<Rightarrow> string \<Rightarrow> org_request \<Rightarrow> TenantMembership list \<Rightarrow> TenantMembership list \<Rightarrow> bool" where
  "answered env uid req ms ms' \<longleftrightarrow> (\<exists>p t m. tenant_param p = Some t \<and> find (is_member t uid) ms = Some m \<and> tm_Status m = StatusPending \<and>
     (req = AcceptInvitation p \<and>
        ms' = map (\<lambda>n. if is_member t uid n then n\<lparr>tm_Status := StatusActive, tm_UpdatedAt := oe_now env\<rparr> else n) ms \<or>
      req = DenyInvitation p \<and> ms' = filter (\<lambda>n. \<not> is_member t uid n) ms))"

lemma answers_memberships:
  "db_memberships (snd (handleAcceptInvitation env ctx p st)) = db_memberships st \<or>
   answered env (usr_ID (ctx_user ctx)) (AcceptInvitation p) (db_memberships st) (db_memberships (snd (handleAcceptInvitation env ctx p st)))"
  "db_memberships (snd (handleDenyInvitation env ctx p st)) = db_memberships st \<or>
   answered env (usr_ID (ctx_user ctx)) (DenyInvitation p) (db_memberships st) (db_memberships (snd (handleDenyInvitation env ctx p st)))"
  unfolding handleAcceptInvitation_def handleDenyInvitation_def Let_def answered_def
  by (auto simp: split_def db_first_Inr split: option.split sum.split)

lemma invite_memberships:
  "\<exists>ms. (\<forall>m \<in> set ms. tm_TenantID m = ctx_tenant_id ctx \<and> tm_Status m = StatusPending) \<and>
     db_memberships (snd (handleInviteUser env ctx req st)) = db_memberships st @ ms"
proof -
  let ?P = "\<lambda>st'. \<exists>ms. (\<forall>m \<in> set ms. tm_TenantID m = ctx_tenant_id ctx \<and> tm_Status m = StatusPending) \<and> db_memberships st' = db_memberships st @ ms"
  have k: "?P st'" if "db_memberships st' = db_memberships st" for st' using that by (intro exI [of _ "[]"]) simp
  have ins: "?P st2" if "insert_member (pending_member env (ctx_tenant_id ctx) u role) st1 = Some st2" "db_memberships st1 = db_memberships st"
    for u role st1 st2
    using that by (intro exI [of _ "[pending_member env (ctx_tenant_id ctx) u role]"]) (simp add: insert_member_Some pending_member_def)
  have usr: "db_memberships st1 = db_memberships st" if "insert_user v st = Some st1" for v st1 using that by (simp add: insert_user_Some)
  note ins1 = ins [OF _ refl] and ins2 = ins [OF _ usr]
  have usr': "?P st1" if "insert_user v st = Some st1" for v st1 by (rule k [OF usr [OF that]])
  have nt: "?P (invite_notify env ctx tn u r st1) \<longleftrightarrow> ?P st1" for tn u r st1
    by (simp add: same_tables_simps(3) [OF invite_notify_same])
  have au: "?P (recordAuditEvent env ctx a rt i opts st1) \<longleftrightarrow> ?P st1" for a rt i opts st1 by simp
  show ?thesis
    unfolding handleInviteUser_def
    by (intro snd_branches [where P = ?P]; (unfold au nt)?) (auto simp only: attempt_Some intro: k usr' ins1 ins2)
qed

section \<open>Isolation of the tenants\<close>

text \<open>The rows of the other tenants, and those of them that are not of the user of the context.\<close>

abbreviation away :: "rbac_ctx \<Rightarrow> TenantMembership \<Rightarrow> bool" where
  "away ctx \<equiv> (\<lambda>m. tm_TenantID m \<noteq> ctx_tenant_id ctx)"

definition foreign :: "rbac_ctx \<Rightarrow> TenantMembership \<Rightarrow> bool" where
  "foreign ctx m \<longleftrightarrow> tm_TenantID m \<noteq> ctx_tenant_id ctx \<and> tm_UserID m \<noteq> usr_ID (ctx_user ctx)"

lemma filter_map_untouched:
  "(\<And>m. P m \<Longrightarrow> \<not> F m \<and> \<not> F (f m)) \<Longrightarrow> filter F (map (\<lambda>m. if P m then f m else m) ms) = filter F ms"
  by (induction ms) auto

lemma filter_filter_untouched: "(\<And>m. P m \<Longrightarrow> \<not> F m) \<Longrightarrow> filter F (filter (\<lambda>m. \<not> P m) ms) = filter F ms"
  by (induction ms) auto

lemma change_member_away:
  assumes "\<And>m. member_key (f m) = member_key m"
  shows "filter (away ctx) (db_memberships (snd (change_member env ctx t f err a opts ti b ex st))) = filter (away ctx) (db_memberships st)"
proof -
  have "filter (away ctx) (map (\<lambda>m. if is_member (ctx_tenant_id ctx) t m then (f m)\<lparr>tm_UpdatedAt := oe_now env\<rparr> else m) (db_memberships st)) =
    filter (away ctx) (db_memberships st)"
    by (rule filter_map_untouched) (use assms in \<open>simp add: is_member_def member_key_def\<close>)
  then show ?thesis by (simp add: change_member_memberships)
qed

lemma members_away:
  "filter (away ctx) (db_memberships (snd (handleUpdateUserRole env ctx t req st))) = filter (away ctx) (db_memberships st)"
  "filter (away ctx) (db_memberships (snd (handleSuspendUser env ctx t st))) = filter (away ctx) (db_memberships st)"
  "filter (away ctx) (db_memberships (snd (handleUnsuspendUser env ctx t st))) = filter (away ctx) (db_memberships st)"
  "filter (away ctx) (db_memberships (snd (handlePromoteAdmin env ctx t st))) = filter (away ctx) (db_memberships st)"
  "filter (away ctx) (db_memberships (snd (handleDemoteAdmin env ctx t st))) = filter (away ctx) (db_memberships st)"
  by (simp_all add: handleUpdateUserRole_def handleSuspendUser_def handleUnsuspendUser_def handlePromoteAdmin_def handleDemoteAdmin_def
      change_member_away member_key_def split: option.split sum.split)

lemma ownership_away:
  "filter (away ctx) (db_memberships (snd (handleRemoveUser env ctx t st))) = filter (away ctx) (db_memberships st)"
  "filter (away ctx) (db_memberships (snd (handleDeleteAccount env ctx n st))) = filter (away ctx) (db_memberships st)"
  "filter (away ctx) (db_memberships (snd (handleInviteUser env ctx q st))) = filter (away ctx) (db_memberships st)"
proof -
  have r: "filter (away ctx) (filter (\<lambda>m. \<not> is_member (ctx_tenant_id ctx) u m) ms) = filter (away ctx) ms" for u ms
    by (rule filter_filter_untouched) (simp add: is_member_def)
  have t: "filter (away ctx) (filter (\<lambda>m. tm_TenantID m \<noteq> ctx_tenant_id ctx) ms) = filter (away ctx) ms" for ms
    by (rule filter_filter_untouched) (simp add: )
  show "filter (away ctx) (db_memberships (snd (handleRemoveUser env ctx t st))) = filter (away ctx) (db_memberships st)"
    using handleRemoveUser_memberships(1) [of env ctx t st] by (elim disjE conjE) (simp_all only: r)
  show "filter (away ctx) (db_memberships (snd (handleDeleteAccount env ctx n st))) = filter (away ctx) (db_memberships st)"
    using handleDeleteAccount_memberships(1) [of env ctx n st] by (elim disjE) (simp_all only: t)
  show "filter (away ctx) (db_memberships (snd (handleInviteUser env ctx q st))) = filter (away ctx) (db_memberships st)"
    using invite_memberships [of ctx env q st] by (auto simp: filter_empty_conv)
qed

lemma transfer_away:
  "filter (away ctx) (db_memberships (snd (handleTransferOwnership env ctx req st))) = filter (away ctx) (db_memberships st)"
proof -
  have "filter (away ctx) (map (\<lambda>m. if is_member (ctx_tenant_id ctx) u m then m\<lparr>tm_OrgRole := r, tm_UpdatedAt := x\<rparr> else m) ms) =
      filter (away ctx) ms" for u r x ms
    by (rule filter_map_untouched) (simp add: is_member_def)
  then have "filter (away ctx) (db_memberships (if b then st else
      update_members (is_member (ctx_tenant_id ctx) u) (\<lambda>m. m\<lparr>tm_OrgRole := r, tm_UpdatedAt := x\<rparr>)
        (update_members (is_member (ctx_tenant_id ctx) v) (\<lambda>m. m\<lparr>tm_OrgRole := r', tm_UpdatedAt := x\<rparr>) st))) =
      filter (away ctx) (db_memberships st)" for u r x v r' b
    by (simp only: memberships_simps split: if_split) simp
  then show ?thesis
    unfolding handleTransferOwnership_def Let_def
    by (intro snd_branches [where P = "\<lambda>st'. filter (away ctx) (db_memberships st') = filter (away ctx) (db_memberships st)"])
      (simp_all only: side_effect_simps)
qed

lemma handle_isolated:
  "filter (away ctx) (db_memberships (snd (handle env ctx req st))) = filter (away ctx) (db_memberships st) \<or>
   answered env (usr_ID (ctx_user ctx)) req (db_memberships st) (db_memberships (snd (handle env ctx req st)))"
proof -
  have k: "keeps_members st st' \<Longrightarrow> filter (away ctx) (db_memberships st') = filter (away ctx) (db_memberships st)" for st'
    by (simp only: keeps_members_def)
  show ?thesis
  proof (cases req)
    case (AcceptInvitation p)
    then show ?thesis using answers_memberships(1) [of env ctx p st] by (elim disjE) simp_all
  next
    case (DenyInvitation p)
    then show ?thesis using answers_memberships(2) [of env ctx p st] by (elim disjE) simp_all
  qed (simp_all only: handle.simps members_away ownership_away transfer_away project_handlers_keep [THEN k]
    channel_handlers_keep [THEN k] simp_thms)
qed

lemma answered_foreign:
  assumes "answered env (usr_ID (ctx_user ctx)) req ms ms'"
  shows "filter (foreign ctx) ms' = filter (foreign ctx) ms"
proof -
  let ?u = "usr_ID (ctx_user ctx)"
  have "filter (foreign ctx) (filter (\<lambda>m. \<not> is_member t ?u m) ms) = filter (foreign ctx) ms" for t
    by (rule filter_filter_untouched) (simp add: foreign_def is_member_def)
  moreover have "filter (foreign ctx) (map (\<lambda>m. if is_member t ?u m
      then m\<lparr>tm_Status := StatusActive, tm_UpdatedAt := oe_now env\<rparr> else m) ms) = filter (foreign ctx) ms" for t
    by (rule filter_map_untouched) (simp add: foreign_def is_member_def)
  ultimately show ?thesis using assms unfolding answered_def by (elim exE conjE disjE) simp_all
qed

lemma handle_foreign:
  "filter (foreign ctx) (db_memberships (snd (handle env ctx req st))) = filter (foreign ctx) (db_memberships st)"
proof -
  have "filter (foreign ctx) ms = filter (\<lambda>m. tm_UserID m \<noteq> usr_ID (ctx_user ctx)) (filter (away ctx) ms)" for ms
    by (induction ms) (simp_all add: foreign_def)
  then have "filter (away ctx) ms' = filter (away ctx) ms \<Longrightarrow> filter (foreign ctx) ms' = filter (foreign ctx) ms" for ms ms'
    by (simp only:)
  with handle_isolated [of ctx env req st] answered_foreign show ?thesis by blast
qed

lemma foreign_row_kept:
  assumes "foreign ctx m" "m \<in> set (db_memberships st)"
  shows "row_kept m (db_memberships (snd (handle env ctx req st)))"
proof -
  have "m \<in> set (filter (foreign ctx) (db_memberships (snd (handle env ctx req st))))"
    unfolding handle_foreign using assms by simp
  then show ?thesis by (simp add: row_kept_refl)
qed

text \<open>A row of the caller's tenant that is not his own, under the requests that do not ask for the owner.\<close>

lemma handle_spares:
  assumes "org_inv st" "m \<in> set (db_memberships st)" "tm_OrgRole m = RoleOwner \<or> tm_OrgRole m = RoleAdmin"
    and "tm_UserID m \<noteq> usr_ID (ctx_user ctx)" "ctx_org_role ctx \<noteq> RoleOwner" "route_role req \<noteq> RoleOwner"
  shows "row_kept m (db_memberships (snd (handle env ctx req st)))"
proof -
  note k = row_kept_refl [OF assms(2)] and h = member_handlers_spare [OF assms(1,2,3,5)]
  have s: "row_kept m (db_memberships st')" if "keeps_members st st'" for st' using that k by (simp only: keeps_members_def)
  have i: "row_kept m (db_memberships (snd (handleInviteUser env ctx q st)))" for q
    using invite_memberships [of ctx env q st] assms(2) by (auto intro: row_kept_refl)
  have n: "\<not> is_member t (usr_ID (ctx_user ctx)) m" for t using assms(4) by (simp add: is_member_def)
  have ans: "row_kept m ms'" if "answered env (usr_ID (ctx_user ctx)) r (db_memberships st) ms'" for r ms'
  proof -
    have "row_kept m (map (\<lambda>n. if is_member x (usr_ID (ctx_user ctx)) n then n\<lparr>tm_Status := StatusActive, tm_UpdatedAt := oe_now env\<rparr> else n)
        (db_memberships st))" for x
      by (rule row_kept_map [OF assms(2)]) (simp add: n)
    moreover have "row_kept m (filter (\<lambda>n. \<not> is_member x (usr_ID (ctx_user ctx)) n) (db_memberships st))" for x
      using assms(2) n by (auto intro: row_kept_refl)
    ultimately show ?thesis using that unfolding answered_def by (elim exE conjE disjE) simp_all
  qed
  have a: "row_kept m (db_memberships (snd (handleAcceptInvitation env ctx p st)))" for p
    using answers_memberships(1) [of env ctx p st] k by (elim disjE) (simp_all only: ans)
  have d: "row_kept m (db_memberships (snd (handleDenyInvitation env ctx p st)))" for p
    using answers_memberships(2) [of env ctx p st] k by (elim disjE) (simp_all only: ans)
  show ?thesis
    by (cases req) (use assms(6) in \<open>simp_all only: handle.simps h i a d project_handlers_keep [THEN s]
      channel_handlers_keep [THEN s] route_role.simps simp_thms\<close>)
qed

lemma serve_spares:
  assumes "org_inv st" "serve env uid ts req st = (r, st')" "m \<in> set (db_memberships st)"
    and "tm_OrgRole m = RoleOwner \<or> tm_OrgRole m = RoleAdmin" "tm_UserID m \<noteq> uid"
    and caller: "\<And>n. n \<in> set (db_memberships st) \<Longrightarrow> is_member (tm_TenantID m) uid n \<Longrightarrow> tm_OrgRole n \<noteq> RoleOwner"
  shows "row_kept m (db_memberships st')"
  using assms(2)
proof (cases rule: serve_cases)
  case (handled c)
  note a = admitted [OF handled(1)]
  have st': "st' = snd (handle env c req st)" using handled(2) by simp
  show ?thesis
  proof (cases "tm_TenantID m = ctx_tenant_id c")
    case True
    with a(4) caller have role: "ctx_org_role c \<noteq> RoleOwner" by metis
    then have "route_role req \<noteq> RoleOwner" using a(2) by (auto simp: RoleLevel_def split: if_splits)
    then show ?thesis using handle_spares [OF assms(1,3,4) _ role] assms(5) a(1) st' by simp
  next
    case False
    then have "foreign c m" using assms(5) a(1) by (simp add: foreign_def)
    then show ?thesis using foreign_row_kept [OF _ assms(3)] st' by simp
  qed
qed (simp add: row_kept_refl [OF assms(3)])

section \<open>Properties\<close>

text \<open>C26: whatever the users of the dashboard do, in every state that sign-ups, admitted requests and plan changes by the
  operator reach from an installation without members, a tenant that has members has exactly one owner, and the owner is
  active: ownership is never lost, doubled or suspended.\<close>

theorem one_active_owner:
  assumes "reachable no_members org_step st" "m \<in> set (db_memberships st)"
  shows "\<exists>n. owners (db_memberships st) (tm_TenantID m) = [n] \<and> tm_Status n = StatusActive"
  using assms by (rule one_active_owner_reachable)

theorem one_active_owner_witness:
  "\<exists>n. owners (db_memberships (demo_team RoleEditor StatusActive)) 10 = [n] \<and> tm_Status n = StatusActive"
  using one_active_owner [OF team_reachable, of "demo_member 10 ''bob'' RoleEditor StatusActive"]
  by (simp add: demo_team_def demo_org_def demo_member_def)

text \<open>C27: only the owner can act on owners and admins: in every reachable state, whatever a caller who is not the owner of a
  tenant requests, the row of every other member of it that is an owner or an admin stays, with its role, and its status
  changes to active at most.\<close>

theorem admins_are_protected:
  assumes "reachable no_members org_step st" "serve env uid ts req st = (r, st')" "m \<in> set (db_memberships st)"
    and "tm_OrgRole m = RoleOwner \<or> tm_OrgRole m = RoleAdmin" "tm_UserID m \<noteq> uid"
    and "\<And>n. n \<in> set (db_memberships st) \<Longrightarrow> is_member (tm_TenantID m) uid n \<Longrightarrow> tm_OrgRole n \<noteq> RoleOwner"
  shows "\<exists>m' \<in> set (db_memberships st'). member_key m' = member_key m \<and> tm_OrgRole m' = tm_OrgRole m \<and>
    (tm_Status m' = tm_Status m \<or> tm_Status m' = StatusActive)"
  using serve_spares [OF ownership.holds_when_reachable [OF assms(1)] assms(2-6)] by (simp only: row_kept_def)

theorem admins_are_protected_witness:
  "\<exists>m' \<in> set (db_memberships (snd (serve (demo_org_env 50) ''bob'' ''10'' (RemoveUser ''ada'') (demo_team RoleEditor StatusActive)))).
    member_key m' = (10, ''ada'') \<and> tm_OrgRole m' = RoleOwner"
proof -
  have "\<exists>m' \<in> set (db_memberships (snd (serve (demo_org_env 50) ''bob'' ''10'' (RemoveUser ''ada'') (demo_team RoleEditor StatusActive)))).
    member_key m' = member_key (demo_member 10 ''ada'' RoleOwner StatusActive) \<and> tm_OrgRole m' = tm_OrgRole (demo_member 10 ''ada'' RoleOwner StatusActive) \<and>
    (tm_Status m' = tm_Status (demo_member 10 ''ada'' RoleOwner StatusActive) \<or> tm_Status m' = StatusActive)"
    by (rule admins_are_protected [OF team_reachable surjective_pairing [of "serve _ _ _ _ _"]])
      (auto simp: demo_team_def demo_org_def demo_member_def is_member_def)
  then show ?thesis by (auto simp: demo_member_def member_key_def)
qed

text \<open>C29: tenants are isolated: a request for one tenant leaves the memberships of all other tenants as they are, those of
  the caller included, with one exception: the caller may answer an invitation. Then a row of his own that is pending
  becomes active, with its role, or is removed, and nothing else changes.\<close>

theorem tenant_isolation:
  assumes "serve env uid ts req st = (r, st')" "parse_uint ts = Some tid"
  shows "filter (\<lambda>m. tm_TenantID m \<noteq> tid) (db_memberships st') = filter (\<lambda>m. tm_TenantID m \<noteq> tid) (db_memberships st) \<or>
    (\<exists>p t m. tenant_param p = Some t \<and> find (is_member t uid) (db_memberships st) = Some m \<and> tm_Status m = StatusPending \<and>
       (req = AcceptInvitation p \<and> db_memberships st' = map (\<lambda>n. if is_member t uid n
            then n\<lparr>tm_Status := StatusActive, tm_UpdatedAt := oe_now env\<rparr> else n) (db_memberships st) \<or>
        req = DenyInvitation p \<and> db_memberships st' = filter (\<lambda>n. \<not> is_member t uid n) (db_memberships st)))"
  using assms(1)
proof (cases rule: serve_cases)
  case (handled c)
  have "ctx_tenant_id c = tid" "usr_ID (ctx_user c) = uid"
    using handled(1) assms(2) admitted(1) [OF handled(1)] unfolding admit_Inr by auto
  with handle_isolated [of c env req st] handled(2) show ?thesis unfolding answered_def by simp
qed simp

theorem tenant_isolation_witness:
  "filter (\<lambda>m. tm_TenantID m \<noteq> 10) (db_memberships
     (snd (serve (demo_org_env 50) ''ada'' ''10'' (PromoteAdmin ''ada'') (demo_team RoleEditor StatusActive)))) =
   filter (\<lambda>m. tm_TenantID m \<noteq> 10) (db_memberships (demo_team RoleEditor StatusActive))"
  using tenant_isolation [OF surjective_pairing [of "serve (demo_org_env 50) ''ada'' ''10'' (PromoteAdmin ''ada'')
      (demo_team RoleEditor StatusActive)"] demo_ids(1)] by simp

section \<open>Locking out\<close>

lemma pair_branches:
  "(b \<Longrightarrow> P x) \<Longrightarrow> (\<not> b \<Longrightarrow> P y) \<Longrightarrow> P (if b then x else y)"
  "(opt = None \<Longrightarrow> P n) \<Longrightarrow> (\<And>v. opt = Some v \<Longrightarrow> P (f v)) \<Longrightarrow> P (case opt of None \<Rightarrow> n | Some v \<Rightarrow> f v)"
  "(\<And>a. s = Inl a \<Longrightarrow> P (g a)) \<Longrightarrow> (\<And>a. s = Inr a \<Longrightarrow> P (h a)) \<Longrightarrow> P (case s of Inl a \<Rightarrow> g a | Inr a \<Rightarrow> h a)"
  "(\<And>x. x = v \<Longrightarrow> P (k x)) \<Longrightarrow> P (Let v k)"
  by (auto split: option.split sum.split)

text \<open>A request that succeeded has done its work; a removal, if the transaction committed.\<close>

lemma suspended_rows:
  "fst (handleSuspendUser env ctx t st) = (200, []) \<Longrightarrow> db_memberships (snd (handleSuspendUser env ctx t st)) =
     map (\<lambda>m. if is_member (ctx_tenant_id ctx) t m then m\<lparr>tm_Status := StatusSuspended, tm_UpdatedAt := oe_now env\<rparr> else m) (db_memberships st)"
proof -
  let ?P = "\<lambda>h. fst h = (200, []) \<longrightarrow> db_memberships (snd h) = map (\<lambda>m. if is_member (ctx_tenant_id ctx) t m
    then m\<lparr>tm_Status := StatusSuspended, tm_UpdatedAt := oe_now env\<rparr> else m) (db_memberships st)"
  have "?P (handleSuspendUser env ctx t st)"
    unfolding handleSuspendUser_def by (intro pair_branches [where P = ?P]) (simp_all add: change_member_def)
  then show "fst (handleSuspendUser env ctx t st) = (200, []) \<Longrightarrow> ?thesis" by blast
qed

lemma removed_rows:
  assumes ok: "fst (handleRemoveUser env ctx t st) = (200, [])" and c: "\<not> oe_fault env 5"
  shows "db_memberships (snd (handleRemoveUser env ctx t st)) = filter (\<lambda>m. \<not> is_member (ctx_tenant_id ctx) t m) (db_memberships st)"
proof -
  have 1: "t \<noteq> usr_ID (ctx_user ctx)" using ok by (auto simp: handleRemoveUser_def)
  obtain m where 2: "db_first (oe_fault env 0) (is_member (ctx_tenant_id ctx) t) (db_memberships st) = Inr m"
  proof (cases "db_first (oe_fault env 0) (is_member (ctx_tenant_id ctx) t) (db_memberships st)")
    case (Inl e)
    with ok 1 show ?thesis by (simp add: handleRemoveUser_def)
  qed
  have 3: "tm_OrgRole m \<noteq> RoleOwner" using ok 1 2 by (auto simp: handleRemoveUser_def)
  have 4: "\<not> (tm_OrgRole m = RoleAdmin \<and> ctx_org_role ctx \<noteq> RoleOwner)"
  proof
    assume "tm_OrgRole m = RoleAdmin \<and> ctx_org_role ctx \<noteq> RoleOwner"
    with ok 1 2 3 show False unfolding handleRemoveUser_def Let_def by simp
  qed
  show ?thesis
    using ok unfolding handleRemoveUser_def Let_def if_not_P [OF 1] 2 sum.case if_not_P [OF 3] if_not_P [OF 4]
    by (simp add: c removal_effect split: if_split_asm) blast
qed

lemma locked_out:
  assumes "\<And>m. m \<in> set (db_memberships st) \<Longrightarrow> is_member tid u m \<Longrightarrow> tm_Status m \<noteq> StatusActive" "parse_uint ts = Some tid"
  shows "\<exists>a. admit st u ts role = Inl a"
proof (cases "admit st u ts role")
  case (Inr c)
  then show ?thesis using assms find_SomeD unfolding admit_Inr by fastforce
qed simp

lemma admit_refused: "admit st uid ts role = Inl (abort.Abort code e) \<Longrightarrow> code \<noteq> 200"
  by (auto simp: admit_def RequireUser_def RequireOrgRole_def split: sum.splits option.splits if_splits)

text \<open>C28: removal and suspension lock out: when a request to suspend or to remove a member of a tenant is answered with
  success, and the transaction of the removal has committed, no further request of that member for that tenant passes the
  gates, whatever role the route asks for.\<close>

theorem removed_or_suspended_is_locked_out:
  assumes "serve env uid ts req st = ((200, []), st')" "req = SuspendUser u \<or> req = RemoveUser u" "\<not> oe_fault env 5"
    and "parse_uint ts = Some tid" "parse_uint ts' = Some tid"
  shows "\<exists>a. admit st' u ts' role = Inl a"
proof -
  obtain c where a: "admit st uid ts (route_role req) = Inr c" and h: "handle env c req st = ((200, []), st')"
    using assms(1) admit_refused by (auto simp: serve_def split: sum.splits abort.splits)
  have c: "ctx_tenant_id c = tid" using assms(4) a unfolding admit_Inr by auto
  show ?thesis
  proof (rule locked_out [OF _ assms(5)])
    fix m assume m: "m \<in> set (db_memberships st')" "is_member tid u m"
    from assms(2) show "tm_Status m \<noteq> StatusActive"
    proof
      assume "req = SuspendUser u"
      with suspended_rows [of env c u st] h c have "db_memberships st' = map (\<lambda>m. if is_member tid u m
        then m\<lparr>tm_Status := StatusSuspended, tm_UpdatedAt := oe_now env\<rparr> else m) (db_memberships st)" by simp
      with m(1) obtain n where "m = (if is_member tid u n then n\<lparr>tm_Status := StatusSuspended, tm_UpdatedAt := oe_now env\<rparr> else n)"
        by (auto simp only: set_map image_iff)
      with m(2) show ?thesis by (cases "is_member tid u n") simp_all
    next
      assume "req = RemoveUser u"
      with removed_rows [of env c u st] h c assms(3) have "db_memberships st' = filter (\<lambda>m. \<not> is_member tid u m) (db_memberships st)" by simp
      with m show ?thesis by simp
    qed
  qed
qed

theorem removed_or_suspended_is_locked_out_witness:
  "\<exists>a. admit (snd (serve (demo_org_env 50) ''ada'' ''10'' (SuspendUser ''bob'') (demo_team RoleEditor StatusActive))) ''bob'' ''10'' RoleViewer = Inl a"
proof -
  have l: "RoleLevel RoleEditor \<le> RoleLevel RoleOwner" by code_simp
  have "fst (handle (demo_org_env 50) \<lparr>ctx_user = new_user (demo_org_env 10) (demo_sync ''ada''), ctx_tenant_id = 10, ctx_org_role = RoleOwner\<rparr>
      (SuspendUser ''bob'') (demo_team RoleEditor StatusActive)) = (200, [])"
    by code_simp
  then have "fst (serve (demo_org_env 50) ''ada'' ''10'' (SuspendUser ''bob'') (demo_team RoleEditor StatusActive)) = (200, [])"
    unfolding serve_def route_role.simps demo_team_def demo_admit [OF l] sum.case .
  then obtain st' where s: "serve (demo_org_env 50) ''ada'' ''10'' (SuspendUser ''bob'') (demo_team RoleEditor StatusActive) = ((200, []), st')"
    by (metis surjective_pairing)
  have "\<not> oe_fault (demo_org_env 50) 5" by (simp add: demo_org_env_def)
  from removed_or_suspended_is_locked_out [OF s _ this demo_ids(1) demo_ids(1)] show ?thesis unfolding s by simp
qed

section \<open>What can go wrong\<close>

definition handed_over :: "int \<Rightarrow> nat \<Rightarrow> string \<Rightarrow> string \<Rightarrow> TenantMembership \<Rightarrow> TenantMembership" where
  "handed_over now t u v m = (if is_member t v m then m\<lparr>tm_OrgRole := RoleOwner, tm_UpdatedAt := now\<rparr>
     else if is_member t u m then m\<lparr>tm_OrgRole := RoleAdmin, tm_UpdatedAt := now\<rparr> else m)"

lemma handed_over_simps [simp]:
  "is_member t' w (handed_over now t u v m) \<longleftrightarrow> is_member t' w m" "tm_Status (handed_over now t u v m) = tm_Status m"
  "tm_UserID (handed_over now t u v m) = tm_UserID m" "tm_TenantID (handed_over now t u v m) = tm_TenantID m"
  by (simp_all add: handed_over_def is_member_def)

lemma transfer_effect:
  assumes "\<And>i. \<not> oe_fault env i" "v \<noteq> usr_ID (ctx_user c)" "v \<noteq> []"
    and "find (is_member (ctx_tenant_id c) v) (db_memberships st) = Some m" "tm_Status m = StatusActive"
  shows "fst (handleTransferOwnership env c (Some v) st) = (200, [])"
    and "db_memberships (snd (handleTransferOwnership env c (Some v) st)) =
      map (handed_over (oe_now env) (ctx_tenant_id c) (usr_ID (ctx_user c)) v) (db_memberships st)"
  using assms by (simp_all add: handleTransferOwnership_def db_first_def Let_def handed_over_def is_member_def cong: map_cong)

text \<open>C34: ownership can be doubled by two transfers that overlap: when two requests of the owner to hand the tenant over to
  different members have both passed the gates before either handler runs, both succeed and the tenant has two
  owners, since nothing checks again that the caller is the owner.\<close>

theorem overlapping_transfers_two_owners:
  assumes "admit st uid ts RoleOwner = Inr c" "\<And>i. \<not> oe_fault env i" "a \<noteq> b" "a \<noteq> uid" "b \<noteq> uid" "a \<noteq> []" "b \<noteq> []"
    and "find (is_member (ctx_tenant_id c) a) (db_memberships st) = Some ma" "tm_Status ma = StatusActive"
    and "find (is_member (ctx_tenant_id c) b) (db_memberships st) = Some mb" "tm_Status mb = StatusActive"
    and "handle env c (TransferOwnership (Some a)) st = (r1, st1)" "handle env c (TransferOwnership (Some b)) st1 = (r2, st2)"
  shows "r1 = (200, []) \<and> r2 = (200, []) \<and> {a, b} \<subseteq> tm_UserID ` set (owners (db_memberships st2) (ctx_tenant_id c))"
proof -
  let ?t = "ctx_tenant_id c" and ?h = "handed_over (oe_now env) (ctx_tenant_id c) uid"
  have u: "usr_ID (ctx_user c) = uid" by (rule admitted(1) [OF assms(1)])
  have 1: "r1 = (200, [])" "db_memberships st1 = map (?h a) (db_memberships st)"
    using transfer_effect [OF assms(2) _ assms(6) assms(8,9)] assms(4,12) u by simp_all
  have "find (is_member ?t b) (db_memberships st1) = Some (?h a mb)" unfolding 1 using assms(10) by (simp add: find_map_if)
  then have 2: "r2 = (200, [])" "db_memberships st2 = map (?h b) (db_memberships st1)"
    using transfer_effect [OF assms(2) _ assms(7), of c st1] assms(5,11,13) u by simp_all
  have m: "ma \<in> set (db_memberships st)" "is_member ?t a ma" "mb \<in> set (db_memberships st)" "is_member ?t b mb"
    using find_SomeD [OF assms(8)] find_SomeD [OF assms(10)] by simp_all
  have "\<not> is_member ?t b ma" "\<not> is_member ?t uid ma" using m(2) assms(3,4) by (simp_all add: is_member_def)
  then have "tm_OrgRole (?h b (?h a ma)) = RoleOwner" "tm_OrgRole (?h b (?h a mb)) = RoleOwner"
    using m(2,4) by (simp_all add: handed_over_def [of _ _ _ b]) (simp add: handed_over_def)
  moreover have "?h b (?h a ma) \<in> set (db_memberships st2)" "?h b (?h a mb) \<in> set (db_memberships st2)"
    unfolding 1 2 using m(1,3) by simp_all
  ultimately have "?h b (?h a ma) \<in> set (owners (db_memberships st2) ?t)" "?h b (?h a mb) \<in> set (owners (db_memberships st2) ?t)"
    using m(2,4) by (simp_all add: owners_def is_member_def)
  moreover have "tm_UserID (?h b (?h a ma)) = a" "tm_UserID (?h b (?h a mb)) = b" using m by (simp_all add: is_member_def)
  ultimately show ?thesis using 1(1) 2(1) by (metis imageI insert_subset empty_subsetI)
qed

definition demo_three :: org_db where
  "demo_three = demo_org PlanTeam ada_bob [demo_member 10 ''ada'' RoleOwner StatusActive, demo_member 10 ''bob'' RoleEditor StatusActive,
     demo_member 10 ''eve'' RoleViewer StatusActive]"

theorem overlapping_transfers_two_owners_witness:
  "\<exists>c. admit demo_three ''ada'' ''10'' RoleOwner = Inr c \<and>
     {''bob'', ''eve''} \<subseteq> tm_UserID ` set (owners (db_memberships (snd (handle (demo_org_env 50) c (TransferOwnership (Some ''eve''))
       (snd (handle (demo_org_env 50) c (TransferOwnership (Some ''bob'')) demo_three))))) 10)"
proof -
  obtain c where c: "admit demo_three ''ada'' ''10'' RoleOwner = Inr c" "ctx_tenant_id c = 10"
    unfolding demo_three_def demo_admit [OF order_refl] by simp
  have m: "find (is_member (ctx_tenant_id c) ''bob'') (db_memberships demo_three) = Some (demo_member 10 ''bob'' RoleEditor StatusActive)"
    "find (is_member (ctx_tenant_id c) ''eve'') (db_memberships demo_three) = Some (demo_member 10 ''eve'' RoleViewer StatusActive)"
    by (simp_all add: c(2) demo_three_def demo_org_def is_member_def demo_member_def)
  have "\<not> oe_fault (demo_org_env 50) i" for i by (simp add: demo_org_env_def)
  from overlapping_transfers_two_owners [OF c(1) this _ _ _ _ _ m(1) _ m(2) _ surjective_pairing surjective_pairing] c
  show ?thesis by (simp add: demo_member_def)
qed

text \<open>An invitation can be accepted by the tenant instead of the invited: when an editor asks to unsuspend a user whose
  invitation is still pending, the membership becomes active, and the invited user passes the gates of a tenant that
  he never joined.\<close>

theorem unsuspend_accepts_invitation:
  assumes "admit st uid ts RoleEditor = Inr c" "\<not> oe_fault env 0" "\<not> oe_fault env 1"
    and "find (is_member (ctx_tenant_id c) u) (db_memberships st) = Some m" "tm_Status m = StatusPending"
    and "find (\<lambda>v. usr_ID v = u) (db_users st) = Some user" "User_IsActive user" "u \<noteq> []"
  shows "(\<exists>a. admit st u ts RoleViewer = Inl a) \<and>
    admit (snd (serve env uid ts (UnsuspendUser u) st)) u ts (tm_OrgRole m) =
      Inr \<lparr>ctx_user = user, ctx_tenant_id = ctx_tenant_id c, ctx_org_role = tm_OrgRole m\<rparr>"
proof
  have t: "parse_uint ts = Some (ctx_tenant_id c)" "ctx_tenant_id c \<noteq> 0" using assms(1) unfolding admit_Inr by auto
  show "\<exists>a. admit st u ts RoleViewer = Inl a"
  proof (cases "admit st u ts RoleViewer")
    case (Inr c')
    with t assms(4,5) show ?thesis unfolding admit_Inr by auto
  qed simp
  let ?f = "\<lambda>n. if is_member (ctx_tenant_id c) u n then n\<lparr>tm_Status := StatusActive, tm_UpdatedAt := oe_now env\<rparr> else n"
  have s: "serve env uid ts (UnsuspendUser u) st = handleUnsuspendUser env c u st" by (simp add: serve_def assms(1))
  have ms: "db_memberships (snd (handleUnsuspendUser env c u st)) = map ?f (db_memberships st)"
    using assms(2,3,4) by (simp add: handleUnsuspendUser_def db_first_def change_member_memberships)
  have us: "db_users (snd (handleUnsuspendUser env c u st)) = db_users st"
    using assms(2,3,4) by (simp add: handleUnsuspendUser_def db_first_def change_member_def)
  have "find (is_member (ctx_tenant_id c) u) (map ?f (db_memberships st)) = Some (?f m)"
    using assms(4) by (subst find_map_if) (simp_all add: is_member_def)
  moreover have "is_member (ctx_tenant_id c) u m" using find_SomeD [OF assms(4)] by simp
  ultimately show "admit (snd (serve env uid ts (UnsuspendUser u) st)) u ts (tm_OrgRole m) =
      Inr \<lparr>ctx_user = user, ctx_tenant_id = ctx_tenant_id c, ctx_org_role = tm_OrgRole m\<rparr>"
    unfolding s admit_Inr ms us using t assms(6-8) by simp
qed

theorem unsuspend_accepts_invitation_witness:
  "\<exists>c. admit (snd (serve (demo_org_env 50) ''ada'' ''10'' (UnsuspendUser ''bob'') (demo_team RoleEditor StatusPending))) ''bob'' ''10'' RoleEditor = Inr c"
proof -
  have l: "RoleLevel RoleEditor \<le> RoleLevel RoleOwner" by code_simp
  obtain c where c: "admit (demo_team RoleEditor StatusPending) ''ada'' ''10'' RoleEditor = Inr c" "ctx_tenant_id c = 10"
    unfolding demo_team_def demo_admit [OF l] by simp
  have f: "find (is_member (ctx_tenant_id c) ''bob'') (db_memberships (demo_team RoleEditor StatusPending)) = Some (demo_member 10 ''bob'' RoleEditor StatusPending)"
    "find (\<lambda>v. usr_ID v = ''bob'') (db_users (demo_team RoleEditor StatusPending)) = Some (new_user (demo_org_env 20) (demo_sync ''bob''))"
    by (simp_all add: c(2) demo_team_def demo_org_def is_member_def demo_member_def new_user_def demo_sync_def)
  have n: "\<not> oe_fault (demo_org_env 50) i" for i by (simp add: demo_org_env_def)
  have r: "tm_OrgRole (demo_member 10 ''bob'' RoleEditor StatusPending) = RoleEditor" "tm_Status (demo_member 10 ''bob'' RoleEditor StatusPending) = StatusPending"
    by (simp_all add: demo_member_def)
  have a: "User_IsActive (new_user (demo_org_env 20) (demo_sync ''bob''))" by (simp add: User_IsActive_def new_user_def)
  show ?thesis using unsuspend_accepts_invitation [OF c(1) n n f(1) r(2) f(2) a] unfolding r by blast
qed

lemma create_account_effect:
  assumes "create_account env q st = Some st'"
  defines "row \<equiv> \<lparr>tm_TenantID = oe_newID env 0, tm_UserID = as_ClerkUserID q, tm_OrgRole = RoleOwner, tm_Status = StatusActive,
    tm_CreatedAt = oe_now env, tm_UpdatedAt = oe_now env\<rparr>"
  shows "db_memberships st' = db_memberships st @ [row]" "db_users st' = db_users st @ [new_user env q]"
    "\<forall>v \<in> set (db_users st). usr_ID v \<noteq> as_ClerkUserID q" "oe_newID env 0 \<notin> tenant_ids st"
proof -
  obtain st1 st2 where c: "create_workspace env (sync_name q) st = Some st1" "insert_user (new_user env q) st1 = Some st2"
    "own_workspace env (as_ClerkUserID q) st2 = Some st'"
    using assms(1) by (auto simp: create_account_def stmt_def split: if_splits bind_splits)
  note w = create_workspace_Some [OF c(1)]
  have u: "db_memberships st2 = db_memberships st" "db_users st2 = db_users st @ [new_user env q]"
    "\<forall>v \<in> set (db_users st). usr_ID v \<noteq> as_ClerkUserID q"
    using c(2) w by (auto simp: insert_user_Some new_user_def)
  obtain st3 where i: "insert_member row st2 = Some st3" "insert_pmember \<lparr>pm_ProjectID = oe_newID env 1, pm_UserID = as_ClerkUserID q,
      pm_ProjectRole = ProjectRoleAdmin, pm_CreatedAt = oe_now env, pm_UpdatedAt = oe_now env\<rparr> st3 = Some st'"
    using c(3) by (auto simp: own_workspace_def stmt_def row_def split: if_splits bind_splits)
  have "db_memberships st' = db_memberships st3" "db_users st' = db_users st3" using i(2) by (auto simp: insert_pmember_def split: if_splits)
  with i(1) u show "db_memberships st' = db_memberships st @ [row]" "db_users st' = db_users st @ [new_user env q]"
    by (simp_all add: insert_member_Some)
  show "\<forall>v \<in> set (db_users st). usr_ID v \<noteq> as_ClerkUserID q" "oe_newID env 0 \<notin> tenant_ids st" using u(3) w(3) by simp_all
qed

lemma sync_ok_code: "sync_ok env code u e n s b st = SyncOK code' v \<Longrightarrow> code = code'"
  by (simp add: sync_ok_def)

lemma find_append_new: "\<forall>x \<in> set xs. \<not> P x \<Longrightarrow> P y \<Longrightarrow> find P (xs @ [y]) = Some y"
  by (induction xs) simp_all

lemma handleAuthSync_201:
  assumes "handleAuthSync env secret provided (Some q) st = (SyncOK 201 v, st')"
  shows "create_account env q st = Some st'" "as_ClerkUserID q \<noteq> []"
  using assms by (auto simp: handleAuthSync_def recover_user_def Let_def dest: sync_ok_code split: if_splits sum.splits option.splits)

text \<open>Whoever signs up owns a workspace: when the synchronization of a user whom the tables do not know answers 201, the
  user passes the owner gate of the tenant that it created, and this tenant is the only one he belongs to.\<close>

theorem sign_up_owns_workspace:
  assumes "reachable no_members org_step st" "handleAuthSync env secret provided (Some q) st = (SyncOK 201 v, st')"
    and "parse_uint ts = Some (oe_newID env 0)" "oe_newID env 0 \<noteq> 0"
    and "\<And>m. m \<in> set (db_memberships st) \<Longrightarrow> tm_UserID m \<noteq> as_ClerkUserID q"
  shows "(\<exists>c. admit st' (as_ClerkUserID q) ts RoleOwner = Inr c) \<and>
    map tm_TenantID (filter (\<lambda>m. tm_UserID m = as_ClerkUserID q) (db_memberships st')) = [oe_newID env 0]"
proof
  note e = create_account_effect [OF handleAuthSync_201(1) [OF assms(2)]] and n = handleAuthSync_201(2) [OF assms(2)]
  have none: "filter (\<lambda>m. tm_UserID m = as_ClerkUserID q) (db_memberships st) = []" using assms(5) by (simp add: filter_empty_conv)
  then show "map tm_TenantID (filter (\<lambda>m. tm_UserID m = as_ClerkUserID q) (db_memberships st')) = [oe_newID env 0]"
    by (simp add: e(1))
  have "find (\<lambda>u. usr_ID u = as_ClerkUserID q) (db_users st') = Some (new_user env q)"
    unfolding e(2) using e(3) by (intro find_append_new) (simp_all add: new_user_def)
  moreover have "find (is_member (oe_newID env 0) (as_ClerkUserID q)) (db_memberships st @ [row]) = Some row"
    if "is_member (oe_newID env 0) (as_ClerkUserID q) row" for row
    using assms(5) that by (intro find_append_new) (auto simp: is_member_def)
  ultimately show "\<exists>c. admit st' (as_ClerkUserID q) ts RoleOwner = Inr c"
    unfolding admit_Inr e(1) using n assms(3-5) by (auto simp: User_IsActive_def new_user_def is_member_def)
qed

theorem sign_up_owns_workspace_witness:
  "\<exists>c. admit (demo_org PlanFree [(10, ''ada'')] [demo_member 10 ''ada'' RoleOwner StatusActive]) ''ada'' ''10'' RoleOwner = Inr c"
proof -
  obtain v st' where s: "handleAuthSync (demo_org_env 10) [] [] (Some (demo_sync ''ada'')) (demo_org PlanFree [] []) = (SyncOK 201 v, st')"
    and st': "st' = demo_org PlanFree [(10, ''ada'')] [demo_member 10 ''ada'' RoleOwner StatusActive]"
  proof -
    have "(case fst (handleAuthSync (demo_org_env 10) [] [] (Some (demo_sync ''ada'')) (demo_org PlanFree [] [])) of
      SyncOK n _ \<Rightarrow> n = 201 | SyncError _ _ \<Rightarrow> False)" by code_simp
    then show ?thesis
    proof (cases "fst (handleAuthSync (demo_org_env 10) [] [] (Some (demo_sync ''ada'')) (demo_org PlanFree [] []))")
      case (SyncOK n v)
      moreover assume "(case fst (handleAuthSync (demo_org_env 10) [] [] (Some (demo_sync ''ada'')) (demo_org PlanFree [] [])) of
        SyncOK n _ \<Rightarrow> n = 201 | SyncError _ _ \<Rightarrow> False)"
      ultimately have "fst (handleAuthSync (demo_org_env 10) [] [] (Some (demo_sync ''ada'')) (demo_org PlanFree [] [])) = SyncOK 201 v"
        by (simp only: sync_reply.case)
      then show ?thesis using that [OF _ demo_sign_ups(1)] by (simp only: prod_eq_iff fst_conv snd_conv simp_thms)
    qed (simp only: sync_reply.case)
  qed
  have "reachable no_members org_step (demo_org PlanFree [] [])" by (rule reachable_start) (simp add: no_members_def demo_org_def)
  from sign_up_owns_workspace [OF this s, of "''10''"] show ?thesis
    unfolding st' by (simp add: demo_org_env_def demo_sync_def demo_org_def)
qed

lemma handleDeleteAccount_keys:
  assumes "fst (handleDeleteAccount env ctx req st) = (200, [])" "\<not> oe_fault env 1"
  shows "db_keys (snd (handleDeleteAccount env ctx req st)) =
    map (\<lambda>k. if ak_TenantID k = ctx_tenant_id ctx then k\<lparr>ak_Revoked := True\<rparr> else k) (db_keys st)"
proof -
  have loop: "db_keys st2 = db_keys (revoke_tenant_keys env t st)"
    if "clerk_loop env t ms (revoke_tenant_keys env t st) = (e, st2)" for t ms e st2
    using same_tables_simps(6) [OF clerk_loop_same [of "revoke_tenant_keys env t st" env t ms]] that by simp
  have tid: "ten_ID x = ctx_tenant_id ctx" if "first_tenant_row d (ctx_tenant_id ctx) st = Inr x" for d x
    using that find_SomeD by (force simp: first_tenant_row_def db_first_Inr)
  have revoked: "db_keys (revoke_tenant_keys env t st) = map (\<lambda>k. if ak_TenantID k = t then k\<lparr>ak_Revoked := True\<rparr> else k) (db_keys st)" for t
    using assms(2) by (simp add: revoke_tenant_keys_def)
  let ?P = "\<lambda>h. fst h = (200, []) \<longrightarrow> db_keys (snd h) =
    map (\<lambda>k. if ak_TenantID k = ctx_tenant_id ctx then k\<lparr>ak_Revoked := True\<rparr> else k) (db_keys st)"
  have "?P (handleDeleteAccount env ctx req st)"
    unfolding handleDeleteAccount_def Let_def
    by (simp add: purge_tenant_keys loop tid revoked split: option.split sum.split prod.split)
  with assms(1) show ?thesis by blast
qed

text \<open>C35: a deleted account leaves working keys behind: the deletion revokes the keys of the tenant in the table only, so that
  a key that was validated shortly before is still accepted from the cache, while the table has it revoked.\<close>

theorem deleted_account_keys_still_validate:
  assumes "key_cache_laws svc" and "ks_cache svc \<noteq> None" and "CHR '':'' \<notin> set keyID" and "cache_lookup svc keyID s = None"
    and "ValidateKey svc now (keyID @ CHR '':'' # secret) (key_db_of False st) s = (Inr ak, s')"
    and "handleDeleteAccount env ctx req st = ((200, []), st')" "\<not> oe_fault env 1"
    and "ak_TenantID ak = ctx_tenant_id ctx" "\<not> expired now' (ak_ExpiresAt ak)"
  shows "validate_uncached svc now' (keyID @ CHR '':'' # secret) (key_db_of False st') = Inl ''key revoked'' \<and>
    (\<exists>ak'. fst (ValidateKey svc now' (keyID @ CHR '':'' # secret) (key_db_of False st') s') = Inr ak')"
proof
  have v: "validate_row svc now keyID secret (key_db_of False st) = Inr ak" and s': "s' = cacheKey svc ak s"
    using assms(4,5) by (auto simp: ValidateKey_def splitKey_append [OF assms(3)] split: sum.splits)
  have ak: "find (\<lambda>x. ak_KeyID x = keyID) (db_keys st) = Some ak" "ak_KeyID ak = keyID" "\<not> ak_Revoked ak"
    "verifySecret svc (ak_Salt ak) (ak_SecretHash ak) secret"
    using v validate_row_member [OF v] by (simp_all add: validate_row_Inr db_first_Inr key_db_of_def)
  have "db_keys st' = map (\<lambda>k. if ak_TenantID k = ctx_tenant_id ctx then k\<lparr>ak_Revoked := True\<rparr> else k) (db_keys st)"
    using handleDeleteAccount_keys [of env ctx req st] assms(6,7) by simp
  then have "find (\<lambda>x. ak_KeyID x = keyID) (db_keys st') = Some (ak\<lparr>ak_Revoked := True\<rparr>)"
    using ak(1) assms(8) by (simp add: find_map_if)
  then show "validate_uncached svc now' (keyID @ CHR '':'' # secret) (key_db_of False st') = Inl ''key revoked''"
    by (simp add: validate_uncached_def splitKey_append [OF assms(3)] validate_row_def db_first_def key_db_of_def)
  have "cache_lookup svc keyID s' = Some (cache_data ak)"
    using cache_lookup_cacheKey [OF assms(1)] assms(2) ak(2) s' by simp
  then show "\<exists>ak'. fst (ValidateKey svc now' (keyID @ CHR '':'' # secret) (key_db_of False st') s') = Inr ak'"
    using ak(3,4) assms(9) by (simp add: ValidateKey_def splitKey_append [OF assms(3)] validate_cached_def cache_data_def)
qed

theorem deleted_account_keys_still_validate_witness:
  "\<exists>ak. fst (ValidateKey demo_svc 20 ''tg_x:YWI'' (key_db_of False (snd (handleDeleteAccount (demo_org_env 50)
      \<lparr>ctx_user = new_user (demo_org_env 10) (demo_sync ''ada''), ctx_tenant_id = 7, ctx_org_role = RoleOwner\<rparr> (Some ''t'')
      ((demo_org PlanFree [] [])\<lparr>db_tenants := [demo_tenant], db_keys := [demo_key]\<rparr>))))
      (cacheKey demo_svc demo_key Map.empty)) = Inr ak"
proof -
  let ?st = "(demo_org PlanFree [] [])\<lparr>db_tenants := [demo_tenant], db_keys := [demo_key]\<rparr>"
    and ?ctx = "\<lparr>ctx_user = new_user (demo_org_env 10) (demo_sync ''ada''), ctx_tenant_id = 7, ctx_org_role = RoleOwner\<rparr>"
  have v: "ValidateKey demo_svc 15 (''tg_x'' @ CHR '':'' # ''YWI'') (key_db_of False ?st) Map.empty = (Inr demo_key, cacheKey demo_svc demo_key Map.empty)"
    by (simp add: ValidateKey_def splitKey_def cache_lookup_def validate_row_def db_first_def key_db_of_def demo_key_def
        expired_def verifySecret_def demo_svc_def kv_redis_def)
  have d: "fst (handleDeleteAccount (demo_org_env 50) ?ctx (Some ''t'') ?st) = (200, [])"
    by code_simp
  have "cache_lookup demo_svc ''tg_x'' Map.empty = None" by (simp add: cache_lookup_def demo_svc_def kv_redis_def)
  moreover have "ks_cache demo_svc \<noteq> None" "\<not> expired 20 (ak_ExpiresAt demo_key)" "CHR '':'' \<notin> set ''tg_x''"
    "ak_TenantID demo_key = 7" "\<not> oe_fault (demo_org_env 50) 1" by (simp_all add: demo_svc_def expired_def demo_key_def demo_org_env_def)
  ultimately show ?thesis
    using deleted_account_keys_still_validate [OF demo_laws _ _ _ v, of "demo_org_env 50" ?ctx "Some ''t''" _ 20] d
    by (simp add: prod_eq_iff)
qed

section \<open>Plans\<close>

lemma find_None_list_all: "find P xs = None \<longleftrightarrow> list_all (\<lambda>x. \<not> P x) xs"
  by (induction xs) simp_all

text \<open>C30: a plan change that does not go through Stripe, as the operator and the internal endpoint make it, happens exactly
  when the plan exists and everything that a plan limits fits it: when all statements succeed, the change is made if and
  only if the plan is valid, is not the present one, and the new plan is unlimited in, or allows at least as many as the
  tenant has of, each of: active API keys that have not expired, provider keys that are not revoked, members of any
  status, active projects, budget limits, rate limits, and notification channels; then the tenant has the new plan.\<close>

theorem plan_change_iff_usage_fits:
  fixes p :: string
  assumes "\<And>i. \<not> oe_fault env i" "find (\<lambda>t. ten_ID t = tid) (db_tenants st) = Some tenant"
  defines "L \<equiv> GetPlanLimits p" and "allows \<equiv> \<lambda>limit rows. limit = -1 \<or> int rows \<le> limit"
  shows "(fst (applyPlanChange env tid p st) = (0, []) \<longleftrightarrow> p \<in> set AllPlans \<and> ten_Plan tenant \<noteq> p \<and>
      allows (MaxAPIKeys L) (length (filter (\<lambda>k. ak_TenantID k = tid \<and> \<not> ak_Revoked k \<and>
        (ak_ExpiresAt k = None \<or> oe_now env < the (ak_ExpiresAt k))) (db_keys st))) \<and>
      allows (MaxProviderKeys L) (length (filter (\<lambda>k. pk_TenantID k = tid \<and> \<not> pk_Revoked k) (db_provider_keys st))) \<and>
      allows (MaxMembers L) (length (filter (\<lambda>m. tm_TenantID m = tid) (db_memberships st))) \<and>
      allows (MaxProjects L) (length (filter (\<lambda>j. pj_TenantID j = tid \<and> pj_Status j = ProjectStatusActive) (db_projects st))) \<and>
      allows (MaxBudgetLimits L) (length (filter (\<lambda>b. bl_TenantID b = tid) (db_budgets st))) \<and>
      allows (MaxRateLimits L) (length (filter (\<lambda>r. rl_TenantID r = tid) (db_rate_limits st))) \<and>
      allows (MaxNotificationChannels L) (length (filter (\<lambda>c. nc_TenantID c = tid) (db_channels st)))) \<and>
    plan_of False tid (snd (applyPlanChange env tid p st)) =
      (if fst (applyPlanChange env tid p st) = (0, []) then p else ten_Plan tenant)"
proof -
  let ?used = "plan_usage env tid st"
  have keys: "active_key (oe_now env) tid = (\<lambda>k. ak_TenantID k = tid \<and> \<not> ak_Revoked k \<and>
      (ak_ExpiresAt k = None \<or> oe_now env < the (ak_ExpiresAt k)))"
    by (auto simp: active_key_def fun_eq_iff split: option.split)
  have e: "find (exceeds L) ?used = None \<longleftrightarrow>
      list_all (\<lambda>(_, limit, used). limit L = -1 \<or> used \<le> limit L) ?used"
    unfolding find_None_list_all exceeds_def by (rule arg_cong [where f = "\<lambda>P. list_all P ?used"]) (auto simp: fun_eq_iff)
  have t: "first_tenant_row False tid st = Inr tenant" using assms(2) by (simp add: first_tenant_row_def db_first_def)
  have p: "plan_of False tid st = ten_Plan tenant" by (simp add: plan_of_def t)
  have "find (\<lambda>t. ten_ID t = tid) (map (\<lambda>t. if ten_ID t = tid then t\<lparr>ten_Plan := p\<rparr> else t) (db_tenants st)) =
      map_option (\<lambda>t. if ten_ID t = tid then t\<lparr>ten_Plan := p\<rparr> else t) (find (\<lambda>t. ten_ID t = tid) (db_tenants st))"
    by (rule find_map_if) simp
  then have n: "plan_of False tid (update_tenant_row tid (\<lambda>t. t\<lparr>ten_Plan := p\<rparr>) st) = p"
    using assms(2) find_SomeD [OF assms(2)] by (simp add: plan_of_def first_tenant_row_def db_first_def update_tenant_row_def)
  have iff: "fst (applyPlanChange env tid p st) = (0, []) \<longleftrightarrow> ValidPlan p \<and> ten_Plan tenant \<noteq> p \<and> find (exceeds L) ?used = None"
    using assms(1) t by (simp add: applyPlanChange_def L_def split: option.split prod.split)
  have "plan_of False tid (snd (applyPlanChange env tid p st)) =
      (if fst (applyPlanChange env tid p st) = (0, []) then p else ten_Plan tenant)"
    using assms(1) t p n by (simp add: applyPlanChange_def split: option.split prod.split)
  moreover have "list_all (\<lambda>(_, limit, used). limit L = -1 \<or> used \<le> limit L) ?used \<longleftrightarrow>
      list_all (\<lambda>(limit, rows). allows limit rows)
       [(MaxAPIKeys L, length (filter (active_key (oe_now env) tid) (db_keys st))),
        (MaxProviderKeys L, length (filter (\<lambda>k. pk_TenantID k = tid \<and> \<not> pk_Revoked k) (db_provider_keys st))),
        (MaxMembers L, length (filter (\<lambda>m. tm_TenantID m = tid) (db_memberships st))),
        (MaxProjects L, length (filter (\<lambda>j. pj_TenantID j = tid \<and> pj_Status j = ProjectStatusActive) (db_projects st))),
        (MaxBudgetLimits L, length (filter (\<lambda>b. bl_TenantID b = tid) (db_budgets st))),
        (MaxRateLimits L, length (filter (\<lambda>r. rl_TenantID r = tid) (db_rate_limits st))),
        (MaxNotificationChannels L, length (filter (\<lambda>c. nc_TenantID c = tid) (db_channels st)))]"
    using assms(1) by (simp add: plan_usage_def db_count_def allows_def)
  ultimately show ?thesis unfolding iff e keys ValidPlan_iff by simp
qed

theorem plan_change_iff_usage_fits_witness:
  "fst (applyPlanChange (demo_org_env 50) 10 PlanPro (demo_team RoleEditor StatusActive)) \<noteq> (0, [])"
proof -
  let ?st = "demo_team RoleEditor StatusActive"
  have n: "\<not> oe_fault (demo_org_env 50) i" for i by (simp add: demo_org_env_def)
  obtain tn where "find (\<lambda>t. ten_ID t = 10) (db_tenants ?st) = Some tn"
    by (simp add: demo_team_def demo_org_def personal_tenant_def demo_org_env_def)
  from plan_change_iff_usage_fits [OF n this, of PlanPro]
  have "fst (applyPlanChange (demo_org_env 50) 10 PlanPro ?st) = (0, []) \<Longrightarrow> MaxMembers (GetPlanLimits PlanPro) = -1 \<or>
      int (length (filter (\<lambda>m. tm_TenantID m = 10) (db_memberships ?st))) \<le> MaxMembers (GetPlanLimits PlanPro)"
    by blast
  moreover have "MaxMembers (GetPlanLimits PlanPro) = 1" by code_simp
  moreover have "length (filter (\<lambda>m. tm_TenantID m = 10) (db_memberships ?st)) = 2"
    by (simp add: demo_team_def demo_org_def demo_member_def)
  ultimately show ?thesis by auto
qed

section \<open>Suspended tenants\<close>

lemma admit_cong:
  assumes "db_users st' = db_users st" "db_memberships st' = db_memberships st"
  shows "admit st' uid ts role = admit st uid ts role"
proof -
  have "db_users (authz_db.truncate st') = db_users (authz_db.truncate st)"
    "db_memberships (authz_db.truncate st') = db_memberships (authz_db.truncate st)"
    using assms by (simp_all add: authz_db.defs)
  then show ?thesis by (simp only: admit_def RequireUser_def)
qed

lemma status_change_effect:
  assumes "handleSuperAdminUpdateTenantStatus env actor param (Some status) st = ((200, err), st')"
  obtains t row where "tenant_param param = Some t" "find (\<lambda>r. ten_ID r = t) (db_tenants st) = Some row"
    "db_tenants st' = map (\<lambda>r. if ten_ID r = t then r\<lparr>ten_Status := status\<rparr> else r) (db_tenants st)"
    "db_users st' = db_users st" "db_memberships st' = db_memberships st" "db_keys st' = db_keys st"
    "db_key_configs st' = db_key_configs st"
  using assms
  by (auto simp: handleSuperAdminUpdateTenantStatus_def first_tenant_row_def db_first_Inr record_operator_def update_tenant_row_def
      split: if_splits option.splits sum.splits)

text \<open>C31: suspending a tenant has no effect: after the platform operator has set the status of a tenant, to suspended or back,
  the row has the new status, and still every user passes the same gates with the same role, and every API key is
  answered as before, for this tenant as for all others.\<close>

theorem suspending_a_tenant_has_no_effect:
  assumes "serve_operator emails env uid (SetTenantStatus param (Some status)) st = ((200, err), st')"
  shows "\<exists>t row. tenant_param param = Some t \<and> find (\<lambda>r. ten_ID r = t) (db_tenants st') = Some row \<and> ten_Status row = status \<and>
    (\<forall>u ts role. admit st' u ts role = admit st u ts role) \<and>
    (\<forall>now presented down s. ValidateKey svc now presented (key_db_of down st') s = ValidateKey svc now presented (key_db_of down st) s)"
proof -
  obtain actor where "handleSuperAdminUpdateTenantStatus env actor param (Some status) st = ((200, err), st')"
    using assms by (auto simp: serve_operator_def superAdminMiddleware_def split: sum.splits if_splits)
  then show ?thesis
  proof (rule status_change_effect)
    fix t row
    assume t: "tenant_param param = Some t" "find (\<lambda>r. ten_ID r = t) (db_tenants st) = Some row"
      and st': "db_tenants st' = map (\<lambda>r. if ten_ID r = t then r\<lparr>ten_Status := status\<rparr> else r) (db_tenants st)"
      "db_users st' = db_users st" "db_memberships st' = db_memberships st" "db_keys st' = db_keys st"
      "db_key_configs st' = db_key_configs st"
    have "find (\<lambda>r. ten_ID r = t) (map (\<lambda>r. if ten_ID r = t then r\<lparr>ten_Status := status\<rparr> else r) xs) =
        map_option (\<lambda>r. r\<lparr>ten_Status := status\<rparr>) (find (\<lambda>r. ten_ID r = t) xs)" for xs :: "Tenant list"
      by (induction xs) simp_all
    then have row: "find (\<lambda>r. ten_ID r = t) (db_tenants st') = Some (row\<lparr>ten_Status := status\<rparr>)" using t(2) st'(1) by simp
    moreover have "admit st' u ts role = admit st u ts role" for u ts role using st'(2,3) by (rule admit_cong)
    moreover have "ValidateKey svc now presented (key_db_of down st') s = ValidateKey svc now presented (key_db_of down st) s"
      for now presented down s
    proof -
      have "kd_err (key_db_of down st') = kd_err (key_db_of down st)" "kd_APIKeys (key_db_of down st') = kd_APIKeys (key_db_of down st)"
        using st'(4) by (simp_all add: key_db_of_def)
      then have "validate_row svc now k secret (key_db_of down st') = validate_row svc now k secret (key_db_of down st)" for k secret
        by (simp only: validate_row_def)
      then show ?thesis by (simp only: ValidateKey_def)
    qed
    ultimately show ?thesis using t(1) by auto
  qed
qed

theorem suspending_a_tenant_has_no_effect_witness:
  "\<exists>st'. serve_operator [''ada@x''] (demo_org_env 30) ''ada'' (SetTenantStatus ''10'' (Some ''suspended''))
       (demo_org PlanTeam ada_bob [demo_member 10 ''ada'' RoleOwner StatusActive]) = ((200, []), st') \<and>
     admit st' ''ada'' ''10'' RoleOwner = admit (demo_org PlanTeam ada_bob [demo_member 10 ''ada'' RoleOwner StatusActive])
       ''ada'' ''10'' RoleOwner"
proof -
  let ?st = "demo_org PlanTeam ada_bob [demo_member 10 ''ada'' RoleOwner StatusActive]"
  let ?r = "serve_operator [''ada@x''] (demo_org_env 30) ''ada'' (SetTenantStatus ''10'' (Some ''suspended'')) ?st"
  have "strings_ToLower ''ada@x'' = ''ada@x''" by code_simp
  moreover have "tenant_param ''10'' = Some 10" by code_simp
  ultimately have "fst ?r = (200, [])"
    by (simp add: serve_operator_def superAdminMiddleware_def demo_org_def demo_org_env_def db_first_def new_user_def demo_sync_def
        handleSuperAdminUpdateTenantStatus_def first_tenant_row_def personal_tenant_def)
  then obtain st' where r: "?r = ((200, []), st')" by (metis prod.collapse)
  from suspending_a_tenant_has_no_effect [OF r] r show ?thesis by blast
qed

end
