(* ===== verification/Spec2Isabelle.thy ===== *)
theory Spec2Isabelle
  imports Notify Authz Routing Billing Proxy Responses ModelGroups Teams
begin

text \<open>
  TokenGate (\<open>src/api-server\<close>) is a gateway between the clients of large language models and their providers. A client
  presents a TokenGate API key; the gateway authenticates it, checks rate limits and budgets, replaces or forwards the
  provider credentials, relays the response, and meters its tokens, which a worker prices and records.

  The theories, in the order in which they build on each other (paths are relative to \<open>src/api-server/internal\<close>):

  \<^item> \<open>Prelude\<close>: Go's strings and integers, fact collections, and the proof principle for state machines (locale
    \<open>inductive_invariant\<close>), which the theories instantiate on their step relations.
  \<^item> \<open>Models\<close>, \<open>Authz\<close>: roles, plans and permission tables; the decision of \<open>Authorize\<close> and of the dashboard gates
    (\<open>models\<close>, \<open>authz\<close>, \<open>middleware/rbac.go\<close>).
  \<^item> \<open>Clock\<close>, \<open>Wire\<close>, \<open>Base64\<close>: the parts of the standard library that the program relies on: the calendar and the
    budget periods, RFC 3339 and \<open>strconv\<close>, and base 64.
  \<^item> \<open>Store\<close>: Redis and its counters, the codecs of cached values, the read-through cache.
  \<^item> \<open>Pricing\<close>, \<open>Budget\<close>, \<open>Engine\<close>: price resolution and cost calculation; the budget counters, the pre-check, the
    reservations; the pricing pipeline with the ledger (\<open>pricing\<close>). The locale \<open>period_keys\<close> is the contract of the six
    families of counter keys.
  \<^item> \<open>RateLimits\<close>: the fixed-window limiter (\<open>ratelimit/limiter.go\<close>).
  \<^item> \<open>Health\<close>, \<open>Routing\<close>: cooldowns, latencies, the selection strategies, retries and the router (\<open>provider\<close>).
  \<^item> \<open>APIKeys\<close>, \<open>ProviderKeys\<close>: the client keys with their validation cache and the middlewares; the encrypted provider
    keys with their two caches (\<open>services\<close>, \<open>middleware\<close>).
  \<^item> \<open>Billing\<close>: the subscription state machine driven by Stripe webhooks, checkouts and requests
    (\<open>services/stripe_service.go\<close>, \<open>api/billing.go\<close>).
  \<^item> \<open>SSE\<close>: the parsers that count tokens while they relay a stream (\<open>proxy/stream.go\<close>).
  \<^item> \<open>Worker\<close>: the queue of usage events and its consumer (\<open>events\<close>).
  \<^item> \<open>Proxy\<close>: the request handler that composes them (\<open>proxy/handler.go\<close>, \<open>provider.go\<close>).
  \<^item> \<open>Json\<close>, \<open>Chat\<close>: JSON values with the decoding rules of Go's struct tags, and the unified chat request and response
    (\<open>provider/types.go\<close>).
  \<^item> \<open>Anthropic\<close>, \<open>Compat\<close>: the adapters that translate the unified types to the interfaces of the providers and back, the
    stream translator included (\<open>provider/anthropic.go\<close>, \<open>openai.go\<close>, \<open>mistral.go\<close>, \<open>deepseek.go\<close>).
  \<^item> \<open>Responses\<close>: the OpenAI Responses API, forwarded to OpenAI or translated to Anthropic and back
    (\<open>proxy/responses_handler.go\<close>, \<open>responses_translate.go\<close>, \<open>responses_stream.go\<close>).
  \<^item> \<open>SmartProxy\<close>: the entry point that routes a unified request to one of the deployments of a model group
    (\<open>proxy/smart_proxy.go\<close>, \<open>provider/registry.go\<close>, \<open>pricing.go\<close>, \<open>logging.go\<close>).
  \<^item> \<open>ModelGroups\<close>: the administration of those groups (\<open>services/model_group_service.go\<close>, \<open>api/model_groups.go\<close>).
  \<^item> \<open>Org\<close>, \<open>Members\<close>, \<open>Signup\<close>, \<open>Projects\<close>, \<open>Quotas\<close>: the tables of the organisation and the handlers of the dashboard that
    write them: members and their invitations (\<open>api/users.go\<close>), sign-up and deletion of the account (\<open>api/auth.go\<close>,
    \<open>api/account.go\<close>), projects (\<open>api/projects.go\<close>), and what the plan limits: keys, rate limits, budgets and notification
    channels (\<open>api/apikeys.go\<close>, \<open>provider_keys.go\<close>, \<open>ratelimits.go\<close>, \<open>pricing.go\<close>, \<open>notifications.go\<close>).
  \<^item> \<open>Superadmin\<close>: the operator of the platform: the gates by email and by shared secret, the plan and the status of a
    tenant, the list of tenants (\<open>api/superadmin.go\<close>, \<open>api/server.go\<close>).
  \<^item> \<open>Dashboard\<close>, \<open>Ownership\<close>, \<open>Teams\<close>: their routes with the gates (\<open>api/server.go\<close>), the transitions of the tables with the
    invariant that each tenant has one active owner, and the properties of members, tenants and plans.
  \<^item> \<open>Notify\<close>: notifications: the queue of alerts and its worker with the debounce (\<open>events/notification_queue.go\<close>,
    \<open>notification_worker.go\<close>), the personal channels and the in-app list of the members (\<open>api/user_notifications.go\<close>).

  This theory composes the proxy, the stream parser, the wire format and the worker: what a stream reports is what the
  usage log records.

  Correspondence. Structs are records with a short field prefix, Go integers are \<open>int\<close> with the 64-bit range or wrap-around
  stated where it matters, decimals are rationals, errors are values of a sum or option type, and every branch of a
  function, its early returns and its log-and-continue paths included, is a branch of its definition. State is passed
  explicitly; concurrent requests, webhooks and polls are steps of inductive relations, over which the invariants hold in
  every reachable state. Redis, the SQL tables that other programs write, the text form of JSON, HTTP, Stripe, AES-GCM,
  PBKDF2, the clock, random draws and decimal division are parameters; what a theorem assumes of them is a named predicate
  (\<open>float_counters\<close>, \<open>kv_store\<close>, \<open>lossless\<close>, \<open>aead_laws\<close>, \<open>group_laws\<close>,
  \<open>setnx_laws\<close>, \<open>stripe_sessions\<close>, ...), which a concrete instance in the same theory
  satisfies. Loops that follow external events take the list of those events; retries are bounded by the code itself, and
  no other fuel is used.

  Lemmas. Each theory proves what its component promises: the equivalence of the code with a declarative policy
  (authorization, price resolution, key validation), conservation of counters under reservation and release, exactness of
  metering, isolation of credentials, termination and bounds of retries, round trips of keys and encodings, and the
  invariants of subscriptions and logs. Some theorems show where the code does not do what its comments say; the manifest
  lists them as findings.

  In the dashboard theories a transition runs the gates and the handler of a request in one state; where two requests overlap,
  the handlers run with the context that the gates gave out before. Statements that can fail are numbered per request, and a
  fault function says which do.

  Simplifications: the weights that the selection of a deployment adds up are summed without the bounds of 64-bit
  integers; the audit entries of the billing handlers are left out, as nothing reads them but the audit page; the clients
  of Redis and of the database, given a cancelled context, are taken to fail without effect (theory \<open>Responses\<close>).

  Not modelled: the portal, the invoices and the revenue report of Stripe (\<open>api/billing.go\<close>), which write no table;
  the dashboard endpoints that only read and aggregate (\<open>api/dashboard*.go\<close>, \<open>usage.go\<close>, \<open>metrics.go\<close>,
  \<open>audit*.go\<close>), the report worker, server start-up, configuration, logging, database migration, and the
  browser front end: they do input and output around SQL queries and rendering, whose results no gate of the gateway uses.
\<close>

section \<open>Plan changes and billing\<close>

text \<open>The tables of the dashboard and of the billing share the rows of the tenants: the plan change that the operator and
  the internal endpoint share is the step \<open>bs_operator\<close> of the billing state machine, or changes no tenant.\<close>

lemma plan_change_is_billing_step:
  assumes "applyPlanChange env tid plan st = (r, st')" and "bl_Tenants db = db_tenants st" "bl_err db = None"
  shows "db_tenants st' = db_tenants st \<or> billing_step True issued svc (x, db) (x, db\<lparr>bl_Tenants := db_tenants st'\<rparr>)"
proof (cases "db_tenants st' = db_tenants st")
  case False
  then have plan: "ValidPlan plan" and st': "db_tenants st' = map (\<lambda>t. if ten_ID t = tid then t\<lparr>ten_Plan := plan\<rparr> else t) (bl_Tenants db)"
    using assms(1,2) by (auto simp: applyPlanChange_def update_tenant_row_def split: if_splits sum.splits option.splits)
  have "run_update tid (\<lambda>t. t\<lparr>ten_Plan := plan\<rparr>) db = (None, db\<lparr>bl_Tenants := db_tenants st'\<rparr>)"
    using assms(3) by (simp add: run_update_def update_tenant_def st')
  then show ?thesis by (intro disjI2 bs_operator [OF TrueI plan])
qed simp

section \<open>From the response to the usage log\<close>

lemma publishUsageEvent_new:
  "bk_tenantID bk \<noteq> 0 \<Longrightarrow> tc_MessageID (bk_counts bk) \<noteq> [] \<Longrightarrow>
   publishUsageEvent h bk q = snd (xs_Add (ph_eventQueue h) (encode_msg (usage_msg bk)) q)"
  by (simp add: publishUsageEvent_def Publish_def)

lemma process_logs_message:
  assumes "wire_ok msg" and "process w db now (encode_msg msg) ws = (None, ws')"
    and "\<not> pd_down db" "um_MessageID msg \<notin> set (map ul_RequestID (ws_logs ws))"
  shows "\<exists>cost. ws_logs ws' = ws_logs ws @ [usage_log (msg\<lparr>um_Timestamp := to_second (um_Timestamp msg)\<rparr>) cost]"
  using assms by (auto simp: process_def decode_encode UsageLog_Create_def split: prod.splits sum.splits)

text \<open>C1: metering is exact from end to end: when Anthropic answers a request that \<open>HandleProxy\<close> sent with status 200 and
  an event stream, and the client reads all of it, the client receives the text of the stream unchanged, and the usage
  event that the bookkeeping publishes is the one whose processing by the worker adds one row to the usage log, with
  the tenant, the project, the key and exactly the token counts that the events of the stream report.\<close>

theorem metering_end_to_end:
  assumes sent: "oc_sent (HandleProxy h env c req st) = Some uq"
    and resp: "pe_upstream env uq = DoResponse resp" "ur_Status resp = 200" "\<And>i. \<not> ur_WriteFails resp i"
    and sse: "strings_Contains (resp_Get (ur_Header resp) ''Content-Type'') ''text/event-stream''"
    and body: "ur_Body resp = sse_text evs" "\<forall>ev \<in> set evs. plain_event ev"
    and anthropic: "provider_of c = ProviderAnthropic" and tenant: "cx_tenant_id c \<noteq> 0"
  defines "counts \<equiv> fold (\<lambda>(et, d). parseSSEEvent (ph_json h) et d) evs no_counts"
  assumes id: "tc_MessageID counts \<noteq> []"
  shows "gr_Result (oc_reply (HandleProxy h env c req st)) = Relayed 200 (sse_text evs) \<and>
    (\<exists>bk. oc_pending (HandleProxy h env c req st) = Some bk \<and>
       px_stream (settle h rdb t bk st') = snd (xs_Add (ph_eventQueue h) (encode_msg (usage_msg bk)) (px_stream st')) \<and>
       (wire_ok (usage_msg bk) \<and> \<not> pd_down db \<and> tc_MessageID counts \<notin> set (map ul_RequestID (ws_logs ws)) \<and>
        process w db now (encode_msg (usage_msg bk)) ws = (None, ws') \<longrightarrow>
        (\<exists>row. ws_logs ws' = ws_logs ws @ [row] \<and> ul_RequestID row = tc_MessageID counts \<and>
           ul_TenantID row = cx_tenant_id c \<and> ul_ProjectID row = cx_project_id c \<and> ul_KeyID row = cx_key_id c \<and>
           ul_PromptTokens row = tc_InputTokens counts \<and> ul_CompletionTokens row = tc_OutputTokens counts \<and>
           ul_CacheCreationTokens row = tc_CacheCreationTokens counts \<and>
           ul_CacheReadTokens row = tc_CacheReadTokens counts)))"
  using sent
proof (rule HandleProxy_sent)
  fix rb reserved hs st3 and key :: "string option"
  let ?m = "parseRequestMeta h rb" and ?hint = "key_hint (determineBillable (cx_billing_mode c)) key (cq_Header req)"
  assume H: "HandleProxy h env c req st = relay h env c (provider_of c) ?m reserved ?hint hs uq st3"
  let ?bk = "\<lparr>bk_tenantID = cx_tenant_id c, bk_projectID = cx_project_id c, bk_keyID = cx_key_id c,
     bk_provider = ProviderAnthropic, bk_model = rm_Model ?m, bk_maxTokens = rm_MaxTokens ?m, bk_counts = counts,
     bk_reserved = reserved, bk_billed = determineBillable (cx_billing_mode c), bk_hint = ?hint,
     bk_latency = pe_latency env, bk_ts = pe_response env\<rparr>"
  have "consume h (pe_uuid env) ProviderAnthropic True resp = Some (counts, sse_text evs)"
    using ParseSSE_text [OF body(2), of "ur_WriteFails resp" "ph_json h"] resp(3)
    by (simp add: consume_def body(1) counts_def)
  then have R: "oc_pending (HandleProxy h env c req st) = Some ?bk"
    "gr_Result (oc_reply (HandleProxy h env c req st)) = Relayed 200 (sse_text evs)"
    unfolding H anthropic by (simp_all add: relay_def resp(1,2) sse Let_def error_reply_def)
  have "px_stream (settle h rdb t ?bk st') = snd (xs_Add (ph_eventQueue h) (encode_msg (usage_msg ?bk)) (px_stream st'))"
    using tenant id by (simp add: settle_def publishUsageEvent_new)
  moreover have "\<exists>row. ws_logs ws' = ws_logs ws @ [row] \<and> ul_RequestID row = tc_MessageID counts \<and>
      ul_TenantID row = cx_tenant_id c \<and> ul_ProjectID row = cx_project_id c \<and> ul_KeyID row = cx_key_id c \<and>
      ul_PromptTokens row = tc_InputTokens counts \<and> ul_CompletionTokens row = tc_OutputTokens counts \<and>
      ul_CacheCreationTokens row = tc_CacheCreationTokens counts \<and> ul_CacheReadTokens row = tc_CacheReadTokens counts"
    if "wire_ok (usage_msg ?bk)" "\<not> pd_down db" "tc_MessageID counts \<notin> set (map ul_RequestID (ws_logs ws))"
      "process w db now (encode_msg (usage_msg ?bk)) ws = (None, ws')"
    using process_logs_message [OF that(1,4,2)] that(3) by (auto simp: usage_msg_def usage_log_def)
  ultimately show ?thesis using R by blast
qed

definition demo_stream_reply :: upstream_response where
  "demo_stream_reply = \<lparr>ur_Status = 200, ur_Header = [(''Content-Type'', ''text/event-stream'')],
     ur_Body = sse_text demo_events, ur_ReadErr = False, ur_WriteFails = (\<lambda>_. False)\<rparr>"

theorem metering_end_to_end_witness:
  "\<exists>bk. oc_pending (HandleProxy demo_proxy (Proxy.demo_env (DoResponse demo_stream_reply))
         (demo_context ProviderAnthropic AuthMethodBrowserOAuth) demo_client (demo_px 2)) = Some bk \<and>
     px_stream (settle demo_proxy \<lparr>rdb_down = False, rdb_limits = []\<rparr> noon bk (demo_px 2)) = ([], [encode_msg (usage_msg bk)])"
proof -
  let ?env = "Proxy.demo_env (DoResponse demo_stream_reply)" and ?c = "demo_context ProviderAnthropic AuthMethodBrowserOAuth"
  obtain uq where sent: "oc_sent (HandleProxy demo_proxy ?env ?c demo_client (demo_px 2)) = Some uq"
    using demo_request_sent by blast
  have "strings_ToLower ''Content-Type'' = ''content-type''" by code_simp
  then have sse: "strings_Contains (resp_Get (ur_Header demo_stream_reply) ''Content-Type'') ''text/event-stream''"
    by (simp add: demo_stream_reply_def resp_Get_def strings_HasPrefix_def)
  have "ph_json demo_proxy = demo_json" "ph_eventQueue demo_proxy = list_stream" by (simp_all add: demo_proxy_def)
  note m = metering_end_to_end [OF sent, where evs = demo_events and t = noon and rdb = "\<lparr>rdb_down = False, rdb_limits = []\<rparr>"
      and st' = "demo_px 2" and w = demo_worker and db = "demo_edb []" and now = noon and ws = "demo_ws 2 ([], [])" and
      ws' = "demo_ws 2 ([], [])", of demo_stream_reply]
  have "tc_MessageID (fold (\<lambda>(et, d). parseSSEEvent (ph_json demo_proxy) et d) demo_events no_counts) \<noteq> []"
    by (simp add: \<open>ph_json demo_proxy = demo_json\<close> demo_events_def parseSSEEvent_def demo_json_def no_counts_def)
  with m sse demo_events_plain \<open>ph_eventQueue demo_proxy = list_stream\<close> show ?thesis
    by (fastforce simp: demo_stream_reply_def list_stream_def demo_px_def)
qed

end
